(* ===== verification/Prelude.thy ===== *)
theory Prelude
  imports Main "HOL-Library.Sublist" "HOL-Library.Char_ord"
begin

text \<open>
  Shared vocabulary of the development: the error/result type used by every fallible operation,
  list helpers that correspond to the loops of the Go code (first match, update of the matching
  rows of a table, newest first listing), and the theorem collections the component theories
  extend.  Database tables are lists of rows in insertion order; \<open>upd_where\<close> is SQL
  \<open>UPDATE .. WHERE\<close>, \<open>filter\<close> is \<open>DELETE\<close>/\<open>SELECT .. WHERE\<close>, \<open>find\<close> is
  \<open>SELECT .. LIMIT 1\<close> on a unique key.
\<close>

named_theorems table_simps "row-level effect of the table operations"
named_theorems store_defs "definitions of the store operations"

type_synonym ('e, 'a) result = "'e + 'a"
type_synonym uuid = string
type_synonym time = int

section \<open>Tables as lists of rows\<close>

definition upd_where :: "('r \<Rightarrow> bool) \<Rightarrow> ('r \<Rightarrow> 'r) \<Rightarrow> 'r list \<Rightarrow> 'r list" where
  "upd_where P f = map (\<lambda>r. if P r then f r else r)"

definition count_where :: "('r \<Rightarrow> bool) \<Rightarrow> 'r list \<Rightarrow> nat" where
  "count_where P rs = length (filter P rs)"

lemma upd_where_Nil [simp]: "upd_where P f [] = []"
  by (simp add: upd_where_def)

lemma upd_where_Cons [simp]:
  "upd_where P f (r # rs) = (if P r then f r else r) # upd_where P f rs"
  by (simp add: upd_where_def)

lemma length_upd_where [simp]: "length (upd_where P f rs) = length rs"
  by (simp add: upd_where_def)

lemma map_upd_where:
  assumes "\<And>r. g (f r) = g r"
  shows "map g (upd_where P f rs) = map g rs"
  using assms by (induction rs) auto

lemma in_set_upd_where:
  "x \<in> set (upd_where P f rs) \<longleftrightarrow> (\<exists>r \<in> set rs. x = (if P r then f r else r))"
  by (auto simp: upd_where_def)

lemma upd_where_id: "(\<And>r. r \<in> set rs \<Longrightarrow> \<not> P r) \<Longrightarrow> upd_where P f rs = rs"
  by (induction rs) auto

lemma upd_where_idem:
  assumes "\<And>r. f (f r) = f r"
  shows "upd_where P f (upd_where P f rs) = upd_where P f rs"
  using assms by (induction rs) auto

lemma filter_upd_where:
  assumes "\<And>r. P r \<Longrightarrow> Q (f r) = Q r"
  shows "filter Q (upd_where P f rs) = upd_where P f (filter Q rs)"
  using assms by (induction rs) auto

lemma filter_upd_where_disjoint:
  assumes "\<And>r. P r \<Longrightarrow> \<not> Q r" "\<And>r. P r \<Longrightarrow> \<not> Q (f r)"
  shows "filter Q (upd_where P f rs) = filter Q rs"
  using assms by (induction rs) auto

section \<open>Lookup by a unique key\<close>

lemma find_None_iff_bex: "find P xs = None \<longleftrightarrow> \<not> (\<exists>x \<in> set xs. P x)"
  by (induction xs) auto

lemma find_SomeD: "find P xs = Some x \<Longrightarrow> x \<in> set xs \<and> P x"
  by (induction xs) (auto split: if_splits)

lemma find_distinct_key:
  assumes "distinct (map k xs)" "x \<in> set xs"
  shows "find (\<lambda>r. k r = k x) xs = Some x"
  using assms by (induction xs) auto

lemma find_append:
  "find P (xs @ ys) = (case find P xs of None \<Rightarrow> find P ys | Some x \<Rightarrow> Some x)"
  by (induction xs) auto

lemma find_upd_where_same:
  assumes "\<And>r. P r \<Longrightarrow> P (f r)"
  shows "find P (upd_where P f rs) = map_option f (find P rs)"
  using assms by (induction rs) auto

lemma find_upd_where_other:
  assumes "\<And>r. P r \<Longrightarrow> \<not> Q r" "\<And>r. P r \<Longrightarrow> \<not> Q (f r)"
  shows "find Q (upd_where P f rs) = find Q rs"
  using assms by (induction rs) auto

lemma find_filter_other:
  assumes "\<And>r. Q r \<Longrightarrow> P r"
  shows "find Q (filter P rs) = find Q rs"
  using assms by (induction rs) auto

lemma find_filter_not [simp]: "find P (filter (\<lambda>x. \<not> P x) rs) = None"
  by (induction rs) auto

section \<open>Bounded windows: keeping the newest entries\<close>

definition keep_last :: "nat \<Rightarrow> 'a list \<Rightarrow> 'a list" where
  "keep_last n xs = drop (length xs - n) xs"

lemma length_keep_last [simp]: "length (keep_last n xs) = min n (length xs)"
  by (simp add: keep_last_def)

lemma keep_last_short [simp]: "length xs \<le> n \<Longrightarrow> keep_last n xs = xs"
  by (simp add: keep_last_def)

lemma keep_last_keep_last_snoc: "keep_last n (keep_last n xs @ [x]) = keep_last n (xs @ [x])"
proof (cases "length xs \<le> n")
  case False
  then show ?thesis by (simp add: keep_last_def Suc_diff_le)
qed simp

lemma keep_last_append: "keep_last n (keep_last n xs @ ys) = keep_last n (xs @ ys)"
proof (induction ys rule: rev_induct)
  case (snoc y ys)
  have "keep_last n (keep_last n xs @ ys @ [y]) = keep_last n (keep_last n (keep_last n xs @ ys) @ [y])"
    by (simp add: keep_last_keep_last_snoc)
  also have "\<dots> = keep_last n (keep_last n (xs @ ys) @ [y])" by (simp only: snoc.IH)
  also have "\<dots> = keep_last n (xs @ ys @ [y])" by (simp add: keep_last_keep_last_snoc)
  finally show ?case .
qed (simp add: keep_last_def)

lemma set_keep_last: "set (keep_last n xs) \<subseteq> set xs"
  by (simp add: keep_last_def set_drop_subset)

lemma suffix_keep_last: "suffix (keep_last n xs) xs"
  by (simp add: keep_last_def suffix_drop)

end
