(* ===== verification/Go_Strings.thy ===== *)
theory Go_Strings
  imports Prelude
begin

text \<open>
  The functions of Go's \<open>strings\<close>, \<open>strconv\<close> and \<open>regexp\<close> packages that the control plane
  uses, on byte strings.  A Go string is a list of bytes and so is \<open>string\<close>; case folding and white
  space are those of ASCII, which is what the values handled here (GitHub logins, repository
  names, host names, SHAs, DNS names) consist of.
\<close>

section \<open>Character classes\<close>

abbreviation ccode :: "char \<Rightarrow> nat" where "ccode c \<equiv> of_char c"

definition is_upper :: "char \<Rightarrow> bool" where "is_upper c \<longleftrightarrow> 65 \<le> ccode c \<and> ccode c \<le> 90"
definition is_lower :: "char \<Rightarrow> bool" where "is_lower c \<longleftrightarrow> 97 \<le> ccode c \<and> ccode c \<le> 122"
definition is_digit :: "char \<Rightarrow> bool" where "is_digit c \<longleftrightarrow> 48 \<le> ccode c \<and> ccode c \<le> 57"
definition is_space :: "char \<Rightarrow> bool" where
  "is_space c \<longleftrightarrow> ccode c = 32 \<or> (9 \<le> ccode c \<and> ccode c \<le> 13)"
definition is_hex :: "char \<Rightarrow> bool" where
  "is_hex c \<longleftrightarrow> is_digit c \<or> (97 \<le> ccode c \<and> ccode c \<le> 102) \<or> (65 \<le> ccode c \<and> ccode c \<le> 70)"

definition lower_char :: "char \<Rightarrow> char" where
  "lower_char c = (if is_upper c then char_of (ccode c + 32) else c)"

definition to_lower :: "string \<Rightarrow> string" where "to_lower = map lower_char"

lemmas char_class_defs = is_upper_def is_lower_def is_digit_def is_space_def is_hex_def

lemma lower_char_not_upper [simp]: "\<not> is_upper (lower_char c)"
  by (auto simp: lower_char_def is_upper_def of_char_of)

lemma lower_char_idem [simp]: "lower_char (lower_char c) = lower_char c"
  by (subst lower_char_def) simp

lemma to_lower_idem [simp]: "to_lower (to_lower s) = to_lower s"
  by (simp add: to_lower_def)

lemma length_to_lower [simp]: "length (to_lower s) = length s"
  by (simp add: to_lower_def)

lemma to_lower_Nil_iff [simp]: "to_lower s = [] \<longleftrightarrow> s = []"
  by (simp add: to_lower_def)

lemma lower_char_id: "\<not> is_upper c \<Longrightarrow> lower_char c = c"
  by (simp add: lower_char_def)

lemma to_lower_id: "(\<And>c. c \<in> set s \<Longrightarrow> \<not> is_upper c) \<Longrightarrow> to_lower s = s"
  by (induction s) (auto simp: to_lower_def lower_char_id)

section \<open>Trimming\<close>

definition trim_left :: "(char \<Rightarrow> bool) \<Rightarrow> string \<Rightarrow> string" where
  "trim_left P s = dropWhile P s"

definition trim_right :: "(char \<Rightarrow> bool) \<Rightarrow> string \<Rightarrow> string" where
  "trim_right P s = rev (dropWhile P (rev s))"

definition trim :: "(char \<Rightarrow> bool) \<Rightarrow> string \<Rightarrow> string" where
  "trim P s = trim_right P (trim_left P s)"

definition trim_space :: "string \<Rightarrow> string" where "trim_space = trim is_space"

definition trim_prefix :: "string \<Rightarrow> string \<Rightarrow> string" where
  "trim_prefix s p = (if prefix p s then drop (length p) s else s)"

definition trim_suffix :: "string \<Rightarrow> string \<Rightarrow> string" where
  "trim_suffix s p = (if suffix p s then take (length s - length p) s else s)"

lemma trim_right_decomp: "\<exists>zs. s = trim_right P s @ zs \<and> (\<forall>z \<in> set zs. P z)"
proof -
  have "rev s = takeWhile P (rev s) @ dropWhile P (rev s)" by simp
  then have "s = trim_right P s @ rev (takeWhile P (rev s))"
    unfolding trim_right_def by (metis rev_append rev_rev_ident)
  moreover have "\<forall>z \<in> set (rev (takeWhile P (rev s))). P z"
    by (auto dest: set_takeWhileD)
  ultimately show ?thesis by blast
qed

lemma trim_right_last: "trim_right P s \<noteq> [] \<Longrightarrow> \<not> P (last (trim_right P s))"
  by (simp add: trim_right_def last_rev hd_dropWhile)

lemma trim_right_hd:
  assumes "trim_right P s \<noteq> []"
  shows "hd (trim_right P s) = hd s"
  using trim_right_decomp[of s P] assms by (metis hd_append2)

lemma trim_hd: "trim P s \<noteq> [] \<Longrightarrow> \<not> P (hd (trim P s))"
proof -
  assume a: "trim P s \<noteq> []"
  then have "hd (trim P s) = hd (trim_left P s)" by (simp add: trim_def trim_right_hd)
  moreover have "trim_left P s \<noteq> []" using a by (auto simp: trim_def trim_right_def)
  ultimately show ?thesis by (simp add: trim_left_def hd_dropWhile)
qed

lemma trim_last: "trim P s \<noteq> [] \<Longrightarrow> \<not> P (last (trim P s))"
  by (simp add: trim_def trim_right_last)

lemma set_trim: "set (trim P s) \<subseteq> set s"
  unfolding trim_def trim_right_def trim_left_def
  by (auto dest!: set_dropWhileD)

lemma trim_id:
  assumes "s \<noteq> [] \<Longrightarrow> \<not> P (hd s)" "s \<noteq> [] \<Longrightarrow> \<not> P (last s)"
  shows "trim P s = s"
proof (cases "s = []")
  case False
  then have "dropWhile P s = s" using assms(1) by (cases s) auto
  moreover have "dropWhile P (rev s) = rev s"
    using assms(2) False by (cases "rev s") (auto simp: hd_rev[symmetric])
  ultimately show ?thesis by (simp add: trim_def trim_left_def trim_right_def)
qed (simp add: trim_def trim_left_def trim_right_def)

lemma length_trim: "length (trim P s) \<le> length s"
  unfolding trim_def trim_left_def trim_right_def
  by (metis length_dropWhile_le length_rev order_trans)

section \<open>Replacement and splitting\<close>

text \<open>\<open>regexp.ReplaceAllString\<close> of the pattern \<open>[..]+\<close>: every maximal run of matching
  characters becomes one copy of the replacement.\<close>
function replace_runs :: "(char \<Rightarrow> bool) \<Rightarrow> string \<Rightarrow> string \<Rightarrow> string" where
  "replace_runs P r [] = []"
| "replace_runs P r (c # cs) =
     (if P c then r @ replace_runs P r (dropWhile P cs) else c # replace_runs P r cs)"
  by pat_completeness auto
termination
  by (relation "measure (\<lambda>(_, _, s). length s)") (auto simp: le_imp_less_Suc length_dropWhile_le)

text \<open>\<open>strings.ReplaceAll\<close> with a non-empty pattern (the code never passes an empty one).\<close>
function replace_all :: "string \<Rightarrow> string \<Rightarrow> string \<Rightarrow> string" where
  "replace_all old new s =
     (if old = [] \<or> s = [] then s
      else if prefix old s then new @ replace_all old new (drop (length old) s)
      else hd s # replace_all old new (tl s))"
  by pat_completeness auto
termination by (relation "measure (\<lambda>(_, _, s). length s)") auto

declare replace_all.simps [simp del]

lemma replace_all_Nil [simp]: "replace_all old new [] = []"
  by (simp add: replace_all.simps)

fun split_on :: "char \<Rightarrow> string \<Rightarrow> string list" where
  "split_on d [] = [[]]"
| "split_on d (c # cs) =
     (if c = d then [] # split_on d cs
      else (case split_on d cs of [] \<Rightarrow> [[c]] | w # ws \<Rightarrow> (c # w) # ws))"

fun join_with :: "string \<Rightarrow> string list \<Rightarrow> string" where
  "join_with sep [] = []"
| "join_with sep [w] = w"
| "join_with sep (w # v # ws) = w @ sep @ join_with sep (v # ws)"

text \<open>\<open>strings.FieldsFunc\<close>: the non-empty runs between separators.\<close>
function fields_func :: "(char \<Rightarrow> bool) \<Rightarrow> string \<Rightarrow> string list" where
  "fields_func P s =
     (case dropWhile P s of [] \<Rightarrow> []
      | c # cs \<Rightarrow> (c # takeWhile (\<lambda>x. \<not> P x) cs) # fields_func P (dropWhile (\<lambda>x. \<not> P x) cs))"
  by pat_completeness auto
termination
proof (relation "measure (\<lambda>(_, s). length s)")
  fix P :: "char \<Rightarrow> bool" and s c cs
  assume "dropWhile P s = c # cs"
  then have "length (c # cs) \<le> length s" by (metis length_dropWhile_le)
  moreover have "length (dropWhile (\<lambda>x. \<not> P x) cs) \<le> length cs" by (rule length_dropWhile_le)
  ultimately show "((P, dropWhile (\<lambda>x. \<not> P x) cs), (P, s)) \<in> measure (\<lambda>(_, s). length s)" by simp
qed simp

declare fields_func.simps [simp del]

lemma split_on_neq_Nil [simp]: "split_on d s \<noteq> []"
  by (induction s) (auto split: list.splits)

lemma join_split_on: "join_with [d] (split_on d s) = s"
proof (induction s)
  case (Cons c cs)
  then show ?case
  proof (cases "split_on d cs")
    case (Cons w ws)
    then show ?thesis using \<open>join_with [d] (split_on d cs) = cs\<close> by (cases ws) auto
  qed simp
qed simp

lemma split_on_no_sep: "d \<notin> set s \<Longrightarrow> split_on d s = [s]"
  by (induction s) auto

lemma split_on_append_sep:
  "d \<notin> set u \<Longrightarrow> split_on d (u @ d # v) = u # split_on d v"
  by (induction u) auto

lemma fields_func_nonempty: "w \<in> set (fields_func P s) \<Longrightarrow> w \<noteq> []"
proof (induction P s arbitrary: w rule: fields_func.induct)
  case (1 P s)
  show ?case
  proof (cases "dropWhile P s")
    case Nil
    then have "fields_func P s = []" by (subst fields_func.simps) (simp only: list.case)
    then show ?thesis using 1(2) by simp
  next
    case (Cons c cs)
    then show ?thesis using 1(1)[OF Cons] 1(2) by (subst (asm) (2) fields_func.simps) auto
  qed
qed

lemma fields_func_all_sep: "(\<And>c. c \<in> set s \<Longrightarrow> P c) \<Longrightarrow> fields_func P s = []"
proof -
  assume "\<And>c. c \<in> set s \<Longrightarrow> P c"
  then have "dropWhile P s = []" by (simp add: dropWhile_eq_Nil_conv)
  then show ?thesis by (subst fields_func.simps) (simp only: list.case)
qed

section \<open>Searching\<close>

definition contains :: "string \<Rightarrow> string \<Rightarrow> bool" where "contains s t \<longleftrightarrow> sublist t s"

text \<open>\<open>strings.IndexByte\<close> and \<open>LastIndexByte\<close>; \<open>None\<close> is -1.\<close>
fun index_byte :: "string \<Rightarrow> char \<Rightarrow> nat option" where
  "index_byte [] b = None"
| "index_byte (c # cs) b = (if c = b then Some 0 else map_option Suc (index_byte cs b))"

definition last_index_byte :: "string \<Rightarrow> char \<Rightarrow> nat option" where
  "last_index_byte s b = map_option (\<lambda>i. length s - 1 - i) (index_byte (rev s) b)"

text \<open>\<open>strings.Index\<close> of a substring.\<close>
fun index_str :: "string \<Rightarrow> string \<Rightarrow> nat option" where
  "index_str [] t = (if t = [] then Some 0 else None)"
| "index_str (c # cs) t = (if prefix t (c # cs) then Some 0 else map_option Suc (index_str cs t))"

lemma index_byte_Some:
  "index_byte s b = Some i \<Longrightarrow> i < length s \<and> s ! i = b \<and> b \<notin> set (take i s)"
  by (induction s arbitrary: i) (auto split: if_splits)

lemma index_byte_None: "index_byte s b = None \<longleftrightarrow> b \<notin> set s"
  by (induction s) auto

lemma index_str_Some:
  "index_str s t = Some i \<Longrightarrow> i + length t \<le> length s \<and> take (length t) (drop i s) = t"
proof (induction s arbitrary: i)
  case (Cons c cs)
  then show ?case
    by (cases "prefix t (c # cs)")
       (auto simp: prefix_def dest: arg_cong[of _ _ length])
qed (auto split: if_splits)

lemma take_until_no_sep: "index_byte s b = Some i \<Longrightarrow> b \<notin> set (take i s)"
  by (simp add: index_byte_Some)

section \<open>Decimal numbers\<close>

definition digit_char :: "nat \<Rightarrow> char" where "digit_char n = char_of (48 + n mod 10)"

definition digit_val :: "char \<Rightarrow> nat option" where
  "digit_val c = (if is_digit c then Some (ccode c - 48) else None)"

fun show_nat :: "nat \<Rightarrow> string" where
  "show_nat n = (if n < 10 then [digit_char n] else show_nat (n div 10) @ [digit_char n])"

declare show_nat.simps [simp del]

definition show_int :: "int \<Rightarrow> string" where
  "show_int i = (if i < 0 then CHR ''-'' # show_nat (nat (- i)) else show_nat (nat i))"

fun parse_digits :: "nat \<Rightarrow> string \<Rightarrow> nat option" where
  "parse_digits acc [] = Some acc"
| "parse_digits acc (c # cs) =
     (case digit_val c of None \<Rightarrow> None | Some d \<Rightarrow> parse_digits (10 * acc + d) cs)"

definition parse_nat :: "string \<Rightarrow> nat option" where
  "parse_nat s = (if s = [] then None else parse_digits 0 s)"

text \<open>\<open>strconv.Atoi\<close> / \<open>ParseInt(s, 10, 64)\<close>: optional sign, decimal digits, 64-bit range.\<close>
definition atoi :: "string \<Rightarrow> int option" where
  "atoi s =
     (let (neg, ds) = (if s \<noteq> [] \<and> hd s = CHR ''-'' then (True, tl s)
                       else if s \<noteq> [] \<and> hd s = CHR ''+'' then (False, tl s) else (False, s))
      in case parse_nat ds of None \<Rightarrow> None
         | Some n \<Rightarrow> (let i = (if neg then - int n else int n)
                      in if - (2 ^ 63) \<le> i \<and> i < 2 ^ 63 then Some i else None))"

lemma of_char_digit_char [simp]: "ccode (digit_char n) = 48 + n mod 10"
  by (simp add: digit_char_def of_char_of)

lemma is_digit_digit_char [simp]: "is_digit (digit_char n)"
  using mod_less_divisor[of 10 n] by (auto simp: is_digit_def simp del: mod_less_divisor)

lemma digit_val_digit_char [simp]: "digit_val (digit_char n) = Some (n mod 10)"
  by (simp add: digit_val_def)

lemma parse_digits_append:
  "parse_digits acc (xs @ ys) =
     (case parse_digits acc xs of None \<Rightarrow> None | Some a \<Rightarrow> parse_digits a ys)"
  by (induction xs arbitrary: acc) (auto split: option.splits)

lemma show_nat_neq_Nil [simp]: "show_nat n \<noteq> []"
  by (subst show_nat.simps) simp

lemma show_nat_digits: "c \<in> set (show_nat n) \<Longrightarrow> is_digit c"
  by (induction n rule: show_nat.induct) (subst (asm) (2) show_nat.simps, auto split: if_splits)

lemma parse_digits_show_nat [simp]: "parse_digits 0 (show_nat n) = Some n"
proof (induction n rule: show_nat.induct)
  case (1 n)
  then show ?case by (subst show_nat.simps) (auto simp: parse_digits_append)
qed

lemma parse_nat_show_nat [simp]: "parse_nat (show_nat n) = Some n"
  by (simp add: parse_nat_def)

lemma digit_not_sign: "is_digit c \<Longrightarrow> c \<noteq> CHR ''-'' \<and> c \<noteq> CHR ''+'' \<and> c \<noteq> CHR ''.''"
  by (auto simp: is_digit_def)

lemma hd_show_nat_not_sign: "hd (show_nat n) \<noteq> CHR ''-'' \<and> hd (show_nat n) \<noteq> CHR ''+''"
  using show_nat_digits[OF hd_in_set[OF show_nat_neq_Nil[of n]]] digit_not_sign by blast

lemma atoi_show_int:
  "- (2 ^ 63) \<le> i \<Longrightarrow> i < 2 ^ 63 \<Longrightarrow> atoi (show_int i) = Some i"
  using hd_show_nat_not_sign[of "nat i"] by (auto simp: atoi_def show_int_def Let_def)

section \<open>Hexadecimal\<close>

definition hex_digit :: "nat \<Rightarrow> char" where
  "hex_digit n = (if n < 10 then char_of (48 + n) else char_of (87 + n))"

definition hex_val :: "char \<Rightarrow> nat option" where
  "hex_val c = (if is_digit c then Some (ccode c - 48)
                else if 97 \<le> ccode c \<and> ccode c \<le> 102 then Some (ccode c - 87)
                else if 65 \<le> ccode c \<and> ccode c \<le> 70 then Some (ccode c - 55) else None)"

text \<open>\<open>hex.EncodeToString\<close> and \<open>hex.DecodeString\<close> on bytes (characters).\<close>
definition hex_encode :: "string \<Rightarrow> string" where
  "hex_encode bs = concat (map (\<lambda>b. [hex_digit (ccode b div 16), hex_digit (ccode b mod 16)]) bs)"

fun hex_decode :: "string \<Rightarrow> string option" where
  "hex_decode [] = Some []"
| "hex_decode [c] = None"
| "hex_decode (a # b # cs) =
     (case (hex_val a, hex_val b, hex_decode cs) of
        (Some x, Some y, Some r) \<Rightarrow> Some (char_of (16 * x + y) # r)
      | _ \<Rightarrow> None)"

lemma of_char_less_256: "ccode c < 256"
  using of_char_of[of "ccode c"] by (metis char_of_nat less_numeral_extra(1) linorder_not_less
      mod_less_divisor of_char_of zero_less_numeral of_char_mod_256)

lemma hex_val_hex_digit [simp]: "n < 16 \<Longrightarrow> hex_val (hex_digit n) = Some n"
  by (auto simp: hex_val_def hex_digit_def is_digit_def of_char_of)

lemma hex_digit_not_dot: "n < 16 \<Longrightarrow> hex_digit n \<noteq> CHR ''.''"
  using hex_val_hex_digit[of n] by (auto simp: hex_val_def is_digit_def)

lemma hex_decode_encode [simp]: "hex_decode (hex_encode bs) = Some bs"
proof (induction bs)
  case (Cons b bs)
  have "ccode b div 16 < 16" using of_char_less_256[of b] by (simp add: less_mult_imp_div_less)
  then show ?case using Cons by (simp add: hex_encode_def)
qed (simp add: hex_encode_def)

lemma length_hex_encode [simp]: "length (hex_encode bs) = 2 * length bs"
  by (induction bs) (auto simp: hex_encode_def)

lemma hex_encode_no_dot: "CHR ''.'' \<notin> set (hex_encode bs)"
proof (induction bs)
  case (Cons b bs)
  have "ccode b div 16 < 16" using of_char_less_256[of b] by (simp add: less_mult_imp_div_less)
  then have "hex_digit (ccode b div 16) \<noteq> CHR ''.''" "hex_digit (ccode b mod 16) \<noteq> CHR ''.''"
    using hex_digit_not_dot[of "ccode b div 16"] hex_digit_not_dot[of "ccode b mod 16"] by auto
  then show ?case using Cons by (auto simp: hex_encode_def)
qed (simp add: hex_encode_def)

end
