(* ===== verification/Names.thy ===== *)
theory Names
  imports Go_Strings
begin

text \<open>
  Name derivation and input validation: project slugs (\<open>store.go: slugify\<close>), tenant namespaces and
  label values (\<open>tenant.go\<close>), SHA and UUID abbreviations, Job and IngressRoute names, the regular
  expressions of the HTTP edge (UUIDs, environment-variable names, host names) and the quoting
  of SQL identifiers and literals (\<open>db_provisioner.go\<close>).
\<close>

definition is_alnum_lc :: "char \<Rightarrow> bool" where "is_alnum_lc c \<longleftrightarrow> is_lower c \<or> is_digit c"

definition slug_unsafe :: "char \<Rightarrow> bool" where
  "slug_unsafe c \<longleftrightarrow> \<not> (is_lower c \<or> is_digit c \<or> c = CHR ''-'')"

definition is_dash :: "char \<Rightarrow> bool" where "is_dash c \<longleftrightarrow> c = CHR ''-''"

section \<open>Replacement lemmas\<close>

lemma replace_all_single:
  "replace_all [c] r s = concat (map (\<lambda>x. if x = c then r else [x]) s)"
  by (induction s) (subst replace_all.simps, simp add: prefix_def)+

lemma replace_all_skip:
  "old \<noteq> [] \<Longrightarrow> \<not> prefix old (c # cs) \<Longrightarrow>
     replace_all old new (c # cs) = c # replace_all old new cs"
  by (subst replace_all.simps) simp

lemma length_replace_all_le:
  assumes "length new \<le> length old"
  shows "length (replace_all old new s) \<le> length s"
  using assms
proof (induction old new s rule: replace_all.induct)
  case (1 old new s)
  show ?case
  proof (cases "old = [] \<or> s = []")
    case False
    show ?thesis
    proof (cases "prefix old s")
      case True
      then have "length old \<le> length s" by (rule prefix_length_le)
      moreover have "length (replace_all old new (drop (length old) s)) \<le> length (drop (length old) s)"
        using 1(1)[OF False True 1(3)] .
      ultimately show ?thesis
        using False True 1(3) by (subst replace_all.simps) auto
    next
      case np: False
      obtain c cs where s: "s = c # cs" using False by (cases s) auto
      then have "length (replace_all old new cs) \<le> length cs" using 1(2)[OF False np 1(3)] by simp
      then show ?thesis using replace_all_skip[of old c cs new] False np s by simp
    qed
  qed (auto simp: replace_all.simps)
qed

lemma length_replace_all_less:
  assumes "length new < length old" "sublist old s"
  shows "length (replace_all old new s) < length s"
  using assms(2)
proof (induction s)
  case Nil
  then show ?case using assms(1) by (auto simp: sublist_def)
next
  case (Cons c cs)
  have ne: "old \<noteq> []" using assms(1) by auto
  show ?case
  proof (cases "prefix old (c # cs)")
    case True
    then have le: "length old \<le> length (c # cs)" by (rule prefix_length_le)
    have "length (replace_all old new (drop (length old) (c # cs)))
            \<le> length (drop (length old) (c # cs))"
      using assms(1) by (intro length_replace_all_le) simp
    then show ?thesis using True ne le assms(1) by (subst replace_all.simps) auto
  next
    case False
    then have "sublist old cs" using Cons.prems by (simp add: sublist_Cons_right)
    then show ?thesis using Cons.IH False ne by (subst replace_all.simps) auto
  qed
qed

lemma set_replace_all: "set (replace_all old new s) \<subseteq> set new \<union> set s"
proof (induction old new s rule: replace_all.induct)
  case (1 old new s)
  show ?case
  proof (cases "old = [] \<or> s = []")
    case False
    then have "hd s \<in> set s" "set (tl s) \<subseteq> set s" "set (drop (length old) s) \<subseteq> set s"
      by (auto dest: list.set_sel set_drop_subset[THEN subsetD])
    then show ?thesis using 1 False by (subst replace_all.simps) (auto split: if_splits; blast)
  qed (auto simp: replace_all.simps)
qed

section \<open>Project slugs\<close>

text \<open>The loop \<open>for strings.Contains(s, "--") { s = strings.ReplaceAll(s, "--", "-") }\<close>.\<close>
function slug_squeeze :: "string \<Rightarrow> string" where
  "slug_squeeze s =
     (if contains s ''--'' then slug_squeeze (replace_all ''--'' ''-'' s) else s)"
  by pat_completeness auto
termination
  by (relation "measure length") (auto simp: contains_def intro: length_replace_all_less)

declare slug_squeeze.simps [simp del]

definition slugify :: "string \<Rightarrow> string" where
  "slugify s =
     slug_squeeze (trim is_dash (replace_runs slug_unsafe ''-'' (to_lower s)))"

lemma set_replace_runs: "x \<in> set (replace_runs P r s) \<Longrightarrow> x \<in> set r \<or> (x \<in> set s \<and> \<not> P x)"
  by (induction P r s rule: replace_runs.induct) (auto split: if_splits dest: set_dropWhileD)

lemma replace_runs_id: "(\<And>c. c \<in> set s \<Longrightarrow> \<not> P c) \<Longrightarrow> replace_runs P r s = s"
  by (induction s) auto

lemma not_slug_unsafe_dash [simp]: "\<not> slug_unsafe CHR ''-''"
  by (simp add: slug_unsafe_def)

lemma slug_unsafe_upper: "\<not> slug_unsafe c \<Longrightarrow> \<not> is_upper c"
  by (auto simp: slug_unsafe_def char_class_defs)

text \<open>Collapsing double dashes keeps the first and the last character when neither is a dash.\<close>
definition dash_free_ends :: "string \<Rightarrow> bool" where
  "dash_free_ends s \<longleftrightarrow> s \<noteq> [] \<longrightarrow> hd s \<noteq> CHR ''-'' \<and> last s \<noteq> CHR ''-''"

definition end_ok :: "string \<Rightarrow> bool" where
  "end_ok s \<longleftrightarrow> s = [] \<or> last s \<noteq> CHR ''-''"

lemma replace_dd_last:
  "s \<noteq> [] \<Longrightarrow> last s \<noteq> CHR ''-'' \<Longrightarrow>
     replace_all ''--'' ''-'' s \<noteq> [] \<and> last (replace_all ''--'' ''-'' s) \<noteq> CHR ''-''"
proof (induction s rule: length_induct)
  case (1 s)
  obtain c cs where s: "s = c # cs" using 1(2) by (cases s) auto
  show ?case
  proof (cases "prefix ''--'' s")
    case True
    then obtain t where t: "s = CHR ''-'' # CHR ''-'' # t" by (auto simp: prefix_def)
    have "t \<noteq> []" using 1(3) t by auto
    moreover have "last t \<noteq> CHR ''-''" using 1(3) t calculation by simp
    ultimately have "replace_all ''--'' ''-'' t \<noteq> [] \<and> last (replace_all ''--'' ''-'' t) \<noteq> CHR ''-''"
      using 1(1) t by simp
    then show ?thesis using t by (subst (1 2) replace_all.simps) simp
  next
    case False
    then have eq: "replace_all ''--'' ''-'' s = c # replace_all ''--'' ''-'' cs"
      using s by (simp only: replace_all_skip list.distinct not_False_eq_True)
    show ?thesis
    proof (cases "cs = []")
      case True
      then show ?thesis using eq 1(3) s by simp
    next
      case False
      then show ?thesis using eq 1 s by simp
    qed
  qed
qed

lemma replace_dd_hd:
  "s \<noteq> [] \<Longrightarrow> hd s \<noteq> CHR ''-'' \<Longrightarrow> hd (replace_all ''--'' ''-'' s) = hd s"
  by (subst replace_all.simps) (auto simp: prefix_def)

lemma slug_squeeze_ends: "dash_free_ends s \<Longrightarrow> dash_free_ends (slug_squeeze s)"
proof (induction s rule: slug_squeeze.induct)
  case (1 s)
  show ?case
  proof (cases "contains s ''--''")
    case True
    then have "s \<noteq> []" by (auto simp: contains_def)
    then have "dash_free_ends (replace_all ''--'' ''-'' s)"
      using 1(2) replace_dd_last[of s] replace_dd_hd[of s] by (auto simp: dash_free_ends_def)
    then show ?thesis using 1(1)[OF True] True by (subst slug_squeeze.simps) simp
  qed (use 1(2) in \<open>subst slug_squeeze.simps, simp\<close>)
qed

lemma slug_squeeze_no_dd: "\<not> contains (slug_squeeze s) ''--''"
  by (induction s rule: slug_squeeze.induct) (subst slug_squeeze.simps, simp)

lemma set_slug_squeeze: "set (slug_squeeze s) \<subseteq> set s \<union> {CHR ''-''}"
proof (induction s rule: slug_squeeze.induct)
  case (1 s)
  then show ?case using set_replace_all[of "''--''" "''-''" s]
    by (subst slug_squeeze.simps) auto
qed

lemma slug_squeeze_id: "\<not> contains s ''--'' \<Longrightarrow> slug_squeeze s = s"
  by (subst slug_squeeze.simps) simp

lemma trim_dash_ends: "dash_free_ends (trim is_dash s)"
  using trim_hd[of is_dash s] trim_last[of is_dash s] by (auto simp: dash_free_ends_def is_dash_def)

lemma slugify_chars: "c \<in> set (slugify s) \<Longrightarrow> \<not> slug_unsafe c"
  unfolding slugify_def
  by (drule set_slug_squeeze[THEN subsetD]) (auto dest!: set_trim[THEN subsetD] set_replace_runs)

text \<open>\<open>slugify\<close> always yields a URL-safe slug: only lower-case letters, digits and dashes, no
  dash at either end, and no two consecutive dashes.\<close>
theorem slugify_url_safe:
  "set (slugify s) \<subseteq> {c. is_lower c \<or> is_digit c \<or> c = CHR ''-''}
   \<and> dash_free_ends (slugify s) \<and> \<not> contains (slugify s) ''--''"
  using slugify_chars[of _ s] slug_squeeze_no_dd slug_squeeze_ends[OF trim_dash_ends]
  by (auto simp: slug_unsafe_def slugify_def)

lemma slugify_example: "slugify ''Acme/My_App--v2/'' = ''acme-my-app-v2''"
  by code_simp

text \<open>\<open>slugify\<close> is idempotent: a slug is its own slug.\<close>
theorem slugify_idem: "slugify (slugify s) = slugify s"
proof -
  let ?t = "slugify s"
  have safe: "\<And>c. c \<in> set ?t \<Longrightarrow> \<not> slug_unsafe c" by (rule slugify_chars)
  have "to_lower ?t = ?t" by (rule to_lower_id) (use safe slug_unsafe_upper in blast)
  moreover have "replace_runs slug_unsafe ''-'' ?t = ?t" by (rule replace_runs_id) (rule safe)
  moreover have "dash_free_ends ?t"
    unfolding slugify_def by (rule slug_squeeze_ends[OF trim_dash_ends])
  then have "trim is_dash ?t = ?t" by (intro trim_id) (auto simp: dash_free_ends_def is_dash_def)
  moreover have "slug_squeeze ?t = ?t"
    unfolding slugify_def by (rule slug_squeeze_id[OF slug_squeeze_no_dd])
  ultimately show ?thesis by (subst slugify_def) simp
qed

text \<open>\<open>slugify\<close> is not injective although \<open>projects.slug\<close> is UNIQUE: two different repositories
  of two different accounts get the same slug.\<close>
theorem slugify_collision:
  "slugify ''a/b-c'' = slugify ''a-b/c'' \<and> slugify ''a/b-c'' = ''a-b-c''"
  by code_simp

end
