(* ===== verification/Idents.thy ===== *)
theory Idents
  imports Names
begin

text \<open>
  Tenant namespaces and label values (\<open>tenant.go\<close>), abbreviations of SHAs and UUIDs, the regular
  expressions guarding the HTTP edge, and SQL identifiers and their quoting
  (\<open>db_provisioner.go\<close>).  A DNS-1123 label is \<open>dns_label\<close>.
\<close>

section \<open>Tenant namespaces\<close>

definition dns_label :: "string \<Rightarrow> bool" where
  "dns_label s \<longleftrightarrow> s \<noteq> [] \<and> length s \<le> 63 \<and> is_alnum_lc (hd s) \<and> is_alnum_lc (last s)
     \<and> list_all (\<lambda>c. is_alnum_lc c \<or> c = CHR ''-'') s"

definition tenantNamespacePrefix :: string where "tenantNamespacePrefix = ''paas-tenant-''"

text \<open>The login suffix before truncation: lower-cased, stripped, never empty.\<close>
definition tenant_suffix :: "string \<Rightarrow> string" where
  "tenant_suffix login =
     (let s = trim is_dash (replace_runs slug_unsafe '''' (to_lower (trim_space login)))
      in if s = '''' then ''unknown'' else s)"

definition tenantNamespaceFor :: "string \<Rightarrow> string" where
  "tenantNamespaceFor login =
     (let s = tenant_suffix login
      in tenantNamespacePrefix @ (if length s > 51 then take 51 s else s))"

definition sanitizeLabelValue :: "string \<Rightarrow> string" where
  "sanitizeLabelValue s =
     filter (\<lambda>c. is_lower c \<or> is_upper c \<or> is_digit c \<or> c = CHR ''-'' \<or> c = CHR ''_'' \<or> c = CHR ''.'')
       (take 63 s)"

lemma not_slug_unsafe_alnum: "\<not> slug_unsafe c \<longleftrightarrow> is_alnum_lc c \<or> c = CHR ''-''"
  by (auto simp: slug_unsafe_def is_alnum_lc_def)

lemma unknown_suffix: "x \<in> set ''unknown'' \<Longrightarrow> \<not> slug_unsafe x"
proof -
  have "list_all (\<lambda>c. \<not> slug_unsafe c) ''unknown''" by code_simp
  then show "x \<in> set ''unknown'' \<Longrightarrow> \<not> slug_unsafe x" by (simp only: list_all_iff) blast
qed

lemma tenant_suffix_chars: "c \<in> set (tenant_suffix login) \<Longrightarrow> \<not> slug_unsafe c"
proof (cases "trim is_dash (replace_runs slug_unsafe '''' (to_lower (trim_space login))) = ''''")
  case True
  then have "tenant_suffix login = ''unknown''"
    by (simp only: tenant_suffix_def Let_def refl if_True)
  then show "c \<in> set (tenant_suffix login) \<Longrightarrow> \<not> slug_unsafe c"
    using unknown_suffix by metis
next
  case False
  then show "c \<in> set (tenant_suffix login) \<Longrightarrow> \<not> slug_unsafe c"
    by (auto simp: tenant_suffix_def Let_def dest!: set_trim[THEN subsetD] set_replace_runs)
qed

lemma tenant_suffix_ends: "tenant_suffix login \<noteq> [] \<and> dash_free_ends (tenant_suffix login)"
  using trim_dash_ends[of "replace_runs slug_unsafe '''' (to_lower (trim_space login))"]
  by (auto simp: tenant_suffix_def Let_def dash_free_ends_def)

lemma length_tenantNamespaceFor: "length (tenantNamespaceFor login) \<le> 63"
  by (auto simp: tenantNamespaceFor_def tenantNamespacePrefix_def Let_def)

lemma prefix_tenantNamespaceFor: "prefix ''paas-tenant-'' (tenantNamespaceFor login)"
  by (auto simp: tenantNamespaceFor_def tenantNamespacePrefix_def Let_def)

lemma tenant_prefix_ok:
  "list_all (\<lambda>c. is_alnum_lc c \<or> c = CHR ''-'') tenantNamespacePrefix"
  "is_alnum_lc (hd tenantNamespacePrefix)"
  by code_simp+

lemma tenant_prefix_neq [simp]: "tenantNamespacePrefix \<noteq> []"
  by (simp add: tenantNamespacePrefix_def)

lemma length_tenant_suffix: "length (tenant_suffix login) \<le> max 7 (length login)"
proof -
  have runs: "length (replace_runs P [] s) \<le> length s" for P :: "char \<Rightarrow> bool" and s
  proof (induction P "[]::string" s rule: replace_runs.induct)
    case (2 P c cs)
    then show ?case using length_dropWhile_le[of P cs] by auto
  qed simp
  have "length (trim is_dash (replace_runs slug_unsafe '''' (to_lower (trim_space login))))
          \<le> length login"
    using length_trim[of is_dash "replace_runs slug_unsafe '''' (to_lower (trim_space login))"]
      runs[of slug_unsafe "to_lower (trim_space login)"] length_trim[of is_space login]
    by (simp add: trim_space_def)
  then show ?thesis by (auto simp: tenant_suffix_def Let_def)
qed

text \<open>for every login of at most 51 bytes (GitHub's limit is 39) the tenant namespace is a valid
  DNS-1123 label of at most 63 characters that starts with \<open>paas-tenant-\<close>.\<close>
theorem tenantNamespaceFor_dns_label:
  assumes "length login \<le> 51"
  shows "dns_label (tenantNamespaceFor login) \<and> prefix ''paas-tenant-'' (tenantNamespaceFor login)"
proof -
  let ?s = "tenant_suffix login"
  have eq: "tenantNamespaceFor login = tenantNamespacePrefix @ ?s"
    using length_tenant_suffix[of login] assms by (simp add: tenantNamespaceFor_def Let_def)
  have ne: "?s \<noteq> []" and ends: "dash_free_ends ?s" using tenant_suffix_ends by auto
  have "\<not> slug_unsafe (last ?s)" using tenant_suffix_chars[OF last_in_set[OF ne]] .
  moreover have "last ?s \<noteq> CHR ''-''" using ends ne by (simp add: dash_free_ends_def)
  ultimately have "is_alnum_lc (last ?s)" using not_slug_unsafe_alnum by blast
  moreover have "list_all (\<lambda>c. is_alnum_lc c \<or> c = CHR ''-'') ?s"
    using tenant_suffix_chars not_slug_unsafe_alnum by (auto simp: list_all_iff)
  ultimately show ?thesis
    using length_tenantNamespaceFor[of login] tenant_prefix_ok ne prefix_tenantNamespaceFor[of login]
    by (simp add: dns_label_def eq)
qed

theorem tenantNamespaceFor_dns_label_witness:
  "dns_label (tenantNamespaceFor '' Octo_Cat-9 '') \<and> tenantNamespaceFor '' Octo_Cat-9 '' = ''paas-tenant-octocat-9''"
proof -
  have "length '' Octo_Cat-9 '' \<le> 51" by simp
  moreover have "tenantNamespaceFor '' Octo_Cat-9 '' = ''paas-tenant-octocat-9''" by code_simp
  ultimately show ?thesis using tenantNamespaceFor_dns_label[of "'' Octo_Cat-9 ''"] by blast
qed

text \<open>the comment "always a valid DNS-1123 label" is wrong for longer input: truncation happens
  after the dashes are trimmed, so a 52-byte login with a dash at position 51 gives a namespace
  ending in a dash.\<close>
theorem tenantNamespaceFor_truncation:
  "\<not> dns_label (tenantNamespaceFor (replicate 50 (CHR ''a'') @ ''-b''))
   \<and> last (tenantNamespaceFor (replicate 50 (CHR ''a'') @ ''-b'')) = CHR ''-''"
  by code_simp

section \<open>Abbreviations\<close>

text \<open>\<open>builder.go: short\<close>\<close>
definition short :: "string \<Rightarrow> string" where
  "short sha = (if length sha < 8 then sha else take 8 sha)"

text \<open>\<open>database_handlers.go: shortID\<close>\<close>
definition shortID :: "string \<Rightarrow> string" where
  "shortID uuid =
     (let clean = replace_all ''-'' '''' uuid
      in to_lower (if length clean > 8 then take 8 clean else clean))"

text \<open>\<open>database_handlers.go: truncate\<close>\<close>
definition truncate :: "string \<Rightarrow> nat \<Rightarrow> string" where
  "truncate s n = (if length s \<le> n then s else take n s)"

text \<open>\<open>build_reconciler.go: buildJobName\<close>; slicing a shorter id panics (\<open>None\<close>).\<close>
definition buildJobName :: "uuid \<Rightarrow> string option" where
  "buildJobName deploymentID =
     (if length deploymentID < 8 then None
      else Some (''build-'' @ replace_all ''-'' '''' (take 8 deploymentID)))"

lemma short_eq_take: "short sha = take 8 sha" by (simp add: short_def)

lemma truncate_eq_take: "truncate s n = take n s" by (simp add: truncate_def)

lemma replace_all_dash: "replace_all ''-'' '''' s = filter (\<lambda>c. c \<noteq> CHR ''-'') s"
  by (induction s) (auto simp: replace_all_single)

section \<open>Patterns\<close>

text \<open>\<open>logs.go: uuidRE\<close> = \<open>^[0-9a-fA-F-]{36}$\<close>\<close>
definition uuidRE :: "string \<Rightarrow> bool" where
  "uuidRE s \<longleftrightarrow> length s = 36 \<and> list_all (\<lambda>c. is_hex c \<or> c = CHR ''-'') s"

text \<open>The cast \<open>$1::uuid\<close> of the queries, for a text without braces (\<open>uuidRE\<close> lets none through): sixteen pairs of hex digits of either case, with
  a dash allowed after every second pair but the last; the value is printed in lower case with the dashes in their usual places.  \<open>None\<close> is PostgreSQL's
  error \<open>22P02\<close>, which the handlers answer with 500.  \<open>uuidRE\<close> admits texts that do not cast, and several spellings of one value.\<close>
fun uuid_digits :: "nat \<Rightarrow> string \<Rightarrow> string option" where
  "uuid_digits 0 s = (if s = '''' then Some '''' else None)"
| "uuid_digits (Suc n) s =
     (case s of
        a # b # t \<Rightarrow>
          if is_hex a \<and> is_hex b
          then map_option (\<lambda>r. lower_char a # lower_char b # r)
                 (uuid_digits n (if even n \<and> 0 < n \<and> t \<noteq> [] \<and> hd t = CHR ''-'' then tl t else t))
          else None
      | _ \<Rightarrow> None)"

definition uuid_text :: "string \<Rightarrow> string" where
  "uuid_text h = take 8 h @ ''-'' @ take 4 (drop 8 h) @ ''-'' @ take 4 (drop 12 h) @ ''-'' @ take 4 (drop 16 h) @ ''-'' @ drop 20 h"

definition uuid_in :: "string \<Rightarrow> string option" where "uuid_in s = map_option uuid_text (uuid_digits 16 s)"

lemma uuid_in_examples:
  "uuid_in ''0a1b2c3d-0000-4000-8000-000000000001'' = Some ''0a1b2c3d-0000-4000-8000-000000000001''"
  "uuid_in ''0A1B2C3D-0000-4000-8000-000000000001'' = Some ''0a1b2c3d-0000-4000-8000-000000000001''"
  "uuid_in ''0a1b-2c3d-0000-4000-8000000000000001'' = Some ''0a1b2c3d-0000-4000-8000-000000000001''"
  "uuid_in ''0a1b2c3d0000400080000000000000000001'' = None" "uuidRE ''0a1b2c3d0000400080000000000000000001''"
  "uuid_in ''0-a1b2c3d-0000-4000-8000-00000000001'' = None" "uuidRE ''0-a1b2c3d-0000-4000-8000-00000000001''"
  by code_simp+

text \<open>The status of a request for something that is not the caller's: the id is checked, cast and looked up.\<close>
definition id_refusal :: "string \<Rightarrow> nat" where
  "id_refusal s = (if \<not> uuidRE s then 400 else if uuid_in s = None then 500 else 404)"

text \<open>What a text names: nothing if it does not cast.\<close>
definition named_by :: "('s \<Rightarrow> string \<Rightarrow> 'o option) \<Rightarrow> 's \<Rightarrow> string \<Rightarrow> 'o option" where
  "named_by owner s txt = (case uuid_in txt of None \<Rightarrow> None | Some k \<Rightarrow> owner s k)"


text \<open>\<open>env_handlers.go: envNameRE\<close> = \<open>^[A-Z_][A-Z0-9_]*$\<close>\<close>
definition envNameRE :: "string \<Rightarrow> bool" where
  "envNameRE s \<longleftrightarrow> s \<noteq> [] \<and> (is_upper (hd s) \<or> hd s = CHR ''_'')
     \<and> list_all (\<lambda>c. is_upper c \<or> is_digit c \<or> c = CHR ''_'') s"

text \<open>\<open>domain_handlers.go: hostnameRE\<close>: at least two dot-separated labels, each starting and ending
  with a letter or digit and otherwise made of letters, digits and dashes.\<close>
definition host_label :: "string \<Rightarrow> bool" where
  "host_label l \<longleftrightarrow> l \<noteq> [] \<and> is_alnum_lc (hd l) \<and> is_alnum_lc (last l)
     \<and> list_all (\<lambda>c. is_alnum_lc c \<or> c = CHR ''-'') l"

definition hostnameRE :: "string \<Rightarrow> bool" where
  "hostnameRE h \<longleftrightarrow> (let ls = split_on (CHR ''.'') h in 2 \<le> length ls \<and> list_all host_label ls)"

text \<open>The CHECK of \<open>migrations/0006\<close>.\<close>
definition hostname_check :: "string \<Rightarrow> bool" where
  "hostname_check h \<longleftrightarrow> h \<noteq> [] \<and> is_alnum_lc (hd h) \<and> is_alnum_lc (last h)
     \<and> list_all (\<lambda>c. is_alnum_lc c \<or> c = CHR ''-'' \<or> c = CHR ''.'') h
     \<and> 3 \<le> length h \<and> length h \<le> 253"

definition reservedHostnames :: "string list" where
  "reservedHostnames = [''spinup.in'', ''www.spinup.in'', ''app.spinup.in'', ''paas.spinup.in'']"

definition normaliseHostname :: "string \<Rightarrow> string" where
  "normaliseHostname h = to_lower (trim_space h)"

text \<open>\<open>customDomainRouteName\<close>: dots and underscores become dashes.\<close>
definition customDomainRouteName :: "string \<Rightarrow> string" where
  "customDomainRouteName host =
     ''custom-'' @ map (\<lambda>c. if c = CHR ''.'' \<or> c = CHR ''_'' then CHR ''-'' else c) host"

lemma split_on_facts:
  "(c \<in> set s \<longleftrightarrow> c = d \<and> 2 \<le> length (split_on d s) \<or> (\<exists>l \<in> set (split_on d s). c \<in> set l))"
proof (induction s)
  case (Cons x xs)
  obtain w ws where ws: "split_on d xs = w # ws" by (cases "split_on d xs") auto
  show ?case using Cons by (auto simp: ws)
qed simp

lemma hd_split_on: "hd (split_on d s) \<noteq> [] \<Longrightarrow> s \<noteq> [] \<and> hd s = hd (hd (split_on d s))"
  by (cases s) (auto split: list.splits)

lemma last_split_on: "last (split_on d s) \<noteq> [] \<Longrightarrow> s \<noteq> [] \<and> last s = last (last (split_on d s))"
proof (induction s)
  case (Cons c cs)
  obtain w ws where ws: "split_on d cs = w # ws" by (cases "split_on d cs") auto
  show ?case
  proof (cases "last (split_on d cs) = []")
    case True
    then show ?thesis using Cons.prems ws join_split_on[of d cs] by (cases ws) auto
  next
    case False
    then show ?thesis using Cons ws by (cases ws) auto
  qed
qed simp

lemma length_split_on: "length (split_on d s) \<le> length s + 1"
  by (induction s) (auto split: list.splits)

lemma sum_length_split_on:
  "sum_list (map length (split_on d s)) + length (split_on d s) = length s + 1"
proof (induction s)
  case (Cons c cs)
  obtain w ws where "split_on d cs = w # ws" by (cases "split_on d cs") auto
  then show ?case using Cons by auto
qed simp

lemma sum_length_ge: "list_all host_label ls \<Longrightarrow> length ls \<le> sum_list (map length ls)"
proof (induction ls)
  case (Cons l ls)
  then have "1 \<le> length l" "length ls \<le> sum_list (map length ls)"
    by (auto simp: host_label_def Suc_le_eq)
  then have "1 + length ls \<le> length l + sum_list (map length ls)" by (rule add_mono)
  then show ?case by (simp only: list.map list.size sum_list.Cons add.commute Suc_eq_plus1)
qed simp

text \<open>whatever the host-name pattern of the API accepts satisfies the CHECK constraint of the
  \<open>project_domains\<close> table, provided it is at most 253 bytes long.\<close>
theorem hostnameRE_satisfies_check:
  assumes "hostnameRE h" "length h \<le> 253"
  shows "hostname_check h"
proof -
  let ?ls = "split_on (CHR ''.'') h"
  have ls: "2 \<le> length ?ls" "list_all host_label ?ls"
    using assms(1) by (auto simp: hostnameRE_def Let_def)
  have hd_ok: "host_label (hd ?ls)" and last_ok: "host_label (last ?ls)"
    using ls(2) split_on_neq_Nil by (metis list_all_iff hd_in_set last_in_set)+
  have "h \<noteq> []" "is_alnum_lc (hd h)" "is_alnum_lc (last h)"
    using hd_ok last_ok hd_split_on[of "CHR ''.''" h] last_split_on[of "CHR ''.''" h]
    by (auto simp: host_label_def)
  moreover have "list_all (\<lambda>c. is_alnum_lc c \<or> c = CHR ''-'' \<or> c = CHR ''.'') h"
    using ls(2) split_on_facts[of _ h "CHR ''.''"] by (fastforce simp: list_all_iff host_label_def)
  moreover have "3 \<le> length h"
    using sum_length_ge[OF ls(2)] sum_length_split_on[of "CHR ''.''" h] ls(1) by linarith
  ultimately show ?thesis using assms(2) by (simp add: hostname_check_def)
qed

theorem hostnameRE_satisfies_check_witness:
  "hostname_check ''blog.example-site.com''"
proof -
  have "hostnameRE ''blog.example-site.com''" by code_simp
  moreover have "length ''blog.example-site.com'' \<le> 253" by simp
  ultimately show ?thesis by (rule hostnameRE_satisfies_check)
qed

text \<open>\<open>customDomainRouteName\<close> is not injective on host names the API accepts: two different
  verified domains share one IngressRoute name, so publishing or deleting one route acts on the
  other (within a tenant namespace).\<close>
theorem customDomainRouteName_collision:
  "hostnameRE ''a.b-c.com'' \<and> hostnameRE ''a-b.c.com''
   \<and> customDomainRouteName ''a.b-c.com'' = customDomainRouteName ''a-b.c.com''"
  by code_simp

section \<open>SQL identifiers and literals\<close>

datatype ident_error = Ident_length nat | Ident_leading_digit | Ident_bad_char char

fun validate_from :: "nat \<Rightarrow> string \<Rightarrow> ident_error option" where
  "validate_from i [] = None"
| "validate_from i (c # cs) =
     (if i = 0 \<and> is_digit c then Some Ident_leading_digit
      else if \<not> (is_lower c \<or> is_digit c \<or> c = CHR ''_'') then Some (Ident_bad_char c)
      else validate_from (Suc i) cs)"

text \<open>\<open>None\<close> is the nil error.\<close>
definition validateIdent :: "string \<Rightarrow> ident_error option" where
  "validateIdent s =
     (if length s = 0 \<or> length s > 63 then Some (Ident_length (length s)) else validate_from 0 s)"

definition quoteIdent :: "string \<Rightarrow> string" where
  "quoteIdent s = [CHR 0x22] @ replace_all [CHR 0x22] [CHR 0x22, CHR 0x22] s @ [CHR 0x22]"

definition sqlSingleQuote :: "string \<Rightarrow> string" where
  "sqlSingleQuote s = [CHR 0x27] @ replace_all [CHR 0x27] [CHR 0x27, CHR 0x27] s @ [CHR 0x27]"

text \<open>How an SQL scanner reads a quoted token after its opening quote: a doubled quote is one quote,
  a single one closes the token.  The result is the token and the remaining input.\<close>
fun scan_quoted :: "char \<Rightarrow> string \<Rightarrow> (string \<times> string) option" where
  "scan_quoted q [] = None"
| "scan_quoted q [c] = (if c = q then Some ([], []) else None)"
| "scan_quoted q (c # d # cs) =
     (if c = q then (if d = q then map_option (\<lambda>(t, r). (q # t, r)) (scan_quoted q cs)
                     else Some ([], d # cs))
      else map_option (\<lambda>(t, r). (c # t, r)) (scan_quoted q (d # cs)))"

lemma scan_quoted_non: "c \<noteq> q \<Longrightarrow>
  scan_quoted q (c # cs) = map_option (\<lambda>(t, r). (c # t, r)) (scan_quoted q cs)"
  by (cases cs) auto

lemma scan_quoted_end: "rest = [] \<or> hd rest \<noteq> q \<Longrightarrow> scan_quoted q (q # rest) = Some ([], rest)"
  by (cases rest) auto

lemma scan_quoted_body:
  assumes "rest = [] \<or> hd rest \<noteq> q"
  shows "scan_quoted q (replace_all [q] [q, q] s @ q # rest) = Some (s, rest)"
proof (induction s)
  case (Cons c cs)
  then show ?case by (cases "c = q") (auto simp: replace_all_single scan_quoted_non)
qed (simp add: replace_all_single scan_quoted_end[OF assms])

text \<open>\<open>quoteIdent\<close> and \<open>sqlSingleQuote\<close> are injection-safe: scanning their output, whatever
  bytes the argument holds, gives back exactly the argument as one token and leaves the rest of the
  statement untouched (as long as the rest does not itself begin with the quote).\<close>
theorem sql_quoting_roundtrip:
  assumes "rest = [] \<or> hd rest \<notin> {CHR 0x22, CHR 0x27}"
  shows "scan_quoted (CHR 0x22) (tl (quoteIdent s) @ rest) = Some (s, rest)
       \<and> scan_quoted (CHR 0x27) (tl (sqlSingleQuote s) @ rest) = Some (s, rest)
       \<and> hd (quoteIdent s) = CHR 0x22 \<and> hd (sqlSingleQuote s) = CHR 0x27"
  using scan_quoted_body[of rest _ s] assms
  by (auto simp: quoteIdent_def sqlSingleQuote_def)

theorem sql_quoting_roundtrip_witness:
  "scan_quoted (CHR 0x27) (tl (sqlSingleQuote [CHR ''a'', CHR 0x27, CHR '';'']) @ '' NOLOGIN'')
     = Some ([CHR ''a'', CHR 0x27, CHR '';''], '' NOLOGIN'')"
  using sql_quoting_roundtrip[of "'' NOLOGIN''" "[CHR ''a'', CHR 0x27, CHR '';'']"] by simp

lemma validate_from_ok:
  "validate_from i s = None \<longleftrightarrow>
     list_all (\<lambda>c. is_lower c \<or> is_digit c \<or> c = CHR ''_'') s \<and> (i = 0 \<and> s \<noteq> [] \<longrightarrow> \<not> is_digit (hd s))"
  by (induction i s rule: validate_from.induct) auto

lemma is_hex_not_dash: "is_hex c \<Longrightarrow> is_lower (lower_char c) \<or> is_digit (lower_char c)"
  by (auto simp: is_hex_def lower_char_def char_class_defs of_char_of)

lemma shortID_chars:
  assumes "uuidRE u" "c \<in> set (shortID u)"
  shows "is_lower c \<or> is_digit c"
  using assms is_hex_not_dash
  by (fastforce simp: shortID_def replace_all_dash uuidRE_def list_all_iff to_lower_def Let_def
      dest: in_set_takeD split: if_splits)

lemma length_shortID: "length (shortID u) \<le> 8"
  by (simp add: shortID_def Let_def)

text \<open>the database and role names built from a project id (\<open>app_<short>\<close> and \<open>u_<short>\<close>) always
  pass \<open>validateIdent\<close>.\<close>
theorem db_names_validate:
  assumes "uuidRE projectID"
  shows "validateIdent (''app_'' @ shortID projectID) = None
       \<and> validateIdent (''u_'' @ shortID projectID) = None"
  using length_shortID[of projectID] shortID_chars[OF assms]
  by (auto simp: validateIdent_def validate_from_ok list_all_iff is_lower_def is_digit_def)

theorem db_names_validate_witness:
  "validateIdent (''app_'' @ shortID ''0A1b2c3d-0000-4000-8000-000000000000'') = None
   \<and> ''app_'' @ shortID ''0A1b2c3d-0000-4000-8000-000000000000'' = ''app_0a1b2c3d''"
proof -
  have "uuidRE ''0A1b2c3d-0000-4000-8000-000000000000''" by code_simp
  moreover have "shortID ''0A1b2c3d-0000-4000-8000-000000000000'' = ''0a1b2c3d''" by code_simp
  ultimately show ?thesis
    using db_names_validate[of "''0A1b2c3d-0000-4000-8000-000000000000''"] by simp
qed

end
