(* ===== verification/Store_Schema.thy ===== *)
theory Store_Schema
  imports Idents
begin

text \<open>
  The database schema of \<open>migrations/*.sql\<close> as records: one record per table row, a record \<open>db\<close> of
  all tables, and \<open>db_ok\<close>, the conjunction of the declared constraints (primary keys, UNIQUE, CHECK and
  foreign keys).  Timestamps are integers, NULL is \<open>None\<close>, UUIDs are their canonical text (so the
  \<open>::uuid\<close> and \<open>::text\<close> casts of the queries are identities), \<open>now()\<close> and \<open>gen_random_uuid()\<close> are
  arguments of the operations that use them.  An SQL statement that violates a constraint
  returns an error and leaves the tables as they are.
\<close>

section \<open>Rows\<close>

record installation =
  in_id :: int
  in_login :: string
  in_account :: int
  in_target :: string
  in_suspended :: "time option"
  in_updated :: time
  in_owner :: "uuid option"

record install_repo =
  ir_inst :: int
  ir_repo :: int
  ir_full_name :: string
  ir_private :: bool
  ir_branch :: "string option"
  ir_removed :: "time option"

record project =
  p_id :: uuid
  p_inst :: int
  p_repo :: int
  p_full_name :: string
  p_slug :: string
  p_branch :: string
  p_created :: time
  p_owner :: "uuid option"
  p_prod_dep :: "uuid option"
  p_display :: "string option"

datatype dstatus = Queued | Building | Deploying | Ready | Failed

record deployment =
  d_id :: uuid
  d_project :: uuid
  d_sha :: string
  d_ref :: string
  d_status :: dstatus
  d_url :: "string option"
  d_image :: "string option"
  d_trigger :: string
  d_delivery :: "string option"
  d_started :: "time option"
  d_ended :: "time option"
  d_ready :: "time option"
  d_error :: "string option"
  d_created :: time
  d_message :: "string option"
  d_preview :: bool
  d_pr :: "int option"

record delivery =
  w_id :: string
  w_event :: string
  w_action :: "string option"
  w_inst :: "int option"
  w_repo :: "string option"
  w_payload :: string
  w_received :: time

record user =
  u_id :: uuid
  u_github :: int
  u_login :: string
  u_email :: "string option"
  u_avatar :: "string option"
  u_token :: "string option"
  u_token_exp :: "time option"
  u_admin :: bool
  u_last_login :: time

record session =
  ss_hash :: string
  ss_user :: uuid
  ss_agent :: "string option"
  ss_ip :: "string option"
  ss_expires :: time

record project_db =
  pd_id :: uuid
  pd_project :: uuid
  pd_name :: string
  pd_role :: string
  pd_password :: string
  pd_host :: string
  pd_port :: int
  pd_secret :: string

record env_var =
  ev_project :: uuid
  ev_name :: string
  ev_value :: string
  ev_updated :: time

record domain =
  dm_project :: uuid
  dm_host :: string
  dm_token :: string
  dm_verified :: "time option"
  dm_created :: time

record signup =
  wl_id :: uuid
  wl_email :: string
  wl_use_case :: string
  wl_name :: "string option"
  wl_college :: "string option"
  wl_created :: time
  wl_updated :: time

record db =
  installations :: "installation list"
  install_repos :: "install_repo list"
  projects :: "project list"
  deployments :: "deployment list"
  deliveries :: "delivery list"
  users :: "user list"
  sessions :: "session list"
  project_dbs :: "project_db list"
  env_vars :: "env_var list"
  domains :: "domain list"
  signups :: "signup list"

definition empty_db :: db where
  "empty_db = \<lparr> installations = [], install_repos = [], projects = [], deployments = [],
     deliveries = [], users = [], sessions = [], project_dbs = [], env_vars = [], domains = [],
     signups = [] \<rparr>"

text \<open>Errors of a statement or of scanning its result.\<close>
datatype sql_error =
    Unique_violation string
  | Foreign_key_violation string
  | Check_violation string
  | Null_scan string
  | Bad_argument string

type_synonym 'a sql = "(sql_error, 'a) result \<times> db"

section \<open>Helpers for SQL expressions\<close>

definition nullif :: "'a \<Rightarrow> 'a \<Rightarrow> 'a option" where
  "nullif x v = (if x = v then None else Some x)"

definition coalesce :: "'a option \<Rightarrow> 'a \<Rightarrow> 'a" where
  "coalesce x d = (case x of None \<Rightarrow> d | Some v \<Rightarrow> v)"

definition coalesce2 :: "'a option \<Rightarrow> 'a option \<Rightarrow> 'a option" where
  "coalesce2 x y = (case x of None \<Rightarrow> y | Some v \<Rightarrow> Some v)"

text \<open>The owner filter \<open>$2 = '' OR owner_user_id = $2\<close>; the empty id is the administrator.\<close>
definition owner_matches :: "uuid \<Rightarrow> uuid option \<Rightarrow> bool" where
  "owner_matches uid own \<longleftrightarrow> uid = '''' \<or> own = Some uid"

definition in_flight :: "dstatus \<Rightarrow> bool" where
  "in_flight s \<longleftrightarrow> s = Building \<or> s = Deploying"

definition terminal :: "dstatus \<Rightarrow> bool" where
  "terminal s \<longleftrightarrow> s = Ready \<or> s = Failed"

definition waitlist_use_cases :: "string list" where
  "waitlist_use_cases =
     [''final-year-project'', ''portfolio'', ''small-business'', ''hackathon'', ''side-project'', ''other'']"

definition env_check :: "env_var \<Rightarrow> bool" where
  "env_check v \<longleftrightarrow> envNameRE (ev_name v) \<and> length (ev_name v) \<le> 128 \<and> length (ev_value v) \<le> 65536"

definition lookup_inst :: "db \<Rightarrow> int \<Rightarrow> installation option" where
  "lookup_inst s i = find (\<lambda>r. in_id r = i) (installations s)"

definition lookup_project :: "db \<Rightarrow> uuid \<Rightarrow> project option" where
  "lookup_project s pid = find (\<lambda>p. p_id p = pid) (projects s)"

definition lookup_dep :: "db \<Rightarrow> uuid \<Rightarrow> deployment option" where
  "lookup_dep s did = find (\<lambda>d. d_id d = did) (deployments s)"

definition lookup_user :: "db \<Rightarrow> uuid \<Rightarrow> user option" where
  "lookup_user s u = find (\<lambda>r. u_id r = u) (users s)"

section \<open>Constraints\<close>

definition installs_ok :: "db \<Rightarrow> bool" where
  "installs_ok s \<longleftrightarrow> distinct (map in_id (installations s))
     \<and> distinct (map (\<lambda>r. (ir_inst r, ir_repo r)) (install_repos s))
     \<and> (\<forall>r \<in> set (install_repos s). ir_inst r \<in> in_id ` set (installations s))
     \<and> (\<forall>i \<in> set (installations s). \<forall>u. in_owner i = Some u \<longrightarrow> u \<in> u_id ` set (users s))"

definition projects_ok :: "db \<Rightarrow> bool" where
  "projects_ok s \<longleftrightarrow> distinct (map p_id (projects s)) \<and> distinct (map p_slug (projects s))
     \<and> distinct (map (\<lambda>p. (p_inst p, p_repo p)) (projects s))
     \<and> (\<forall>p \<in> set (projects s). \<forall>u. p_owner p = Some u \<longrightarrow> u \<in> u_id ` set (users s))
     \<and> (\<forall>p \<in> set (projects s). \<forall>d. p_prod_dep p = Some d \<longrightarrow> d \<in> d_id ` set (deployments s))"

definition deploys_ok :: "db \<Rightarrow> bool" where
  "deploys_ok s \<longleftrightarrow> distinct (map d_id (deployments s)) \<and> distinct (map w_id (deliveries s))
     \<and> (\<forall>d \<in> set (deployments s). d_project d \<in> p_id ` set (projects s))"

definition users_ok :: "db \<Rightarrow> bool" where
  "users_ok s \<longleftrightarrow> distinct (map u_id (users s)) \<and> distinct (map u_github (users s))
     \<and> distinct (map ss_hash (sessions s))
     \<and> (\<forall>x \<in> set (sessions s). ss_user x \<in> u_id ` set (users s))"

definition extras_ok :: "db \<Rightarrow> bool" where
  "extras_ok s \<longleftrightarrow> distinct (map pd_project (project_dbs s)) \<and> distinct (map pd_name (project_dbs s))
     \<and> distinct (map pd_role (project_dbs s))
     \<and> (\<forall>x \<in> set (project_dbs s). pd_project x \<in> p_id ` set (projects s))
     \<and> distinct (map (\<lambda>v. (ev_project v, ev_name v)) (env_vars s))
     \<and> (\<forall>v \<in> set (env_vars s). ev_project v \<in> p_id ` set (projects s) \<and> env_check v)
     \<and> distinct (map dm_host (domains s))
     \<and> (\<forall>x \<in> set (domains s). dm_project x \<in> p_id ` set (projects s) \<and> hostname_check (dm_host x))
     \<and> distinct (map (to_lower \<circ> wl_email) (signups s))
     \<and> (\<forall>x \<in> set (signups s). wl_use_case x \<in> set waitlist_use_cases)"

definition db_ok :: "db \<Rightarrow> bool" where
  "db_ok s \<longleftrightarrow> installs_ok s \<and> projects_ok s \<and> deploys_ok s \<and> users_ok s \<and> extras_ok s"

lemmas db_ok_defs = db_ok_def installs_ok_def projects_ok_def deploys_ok_def users_ok_def extras_ok_def

lemma db_ok_empty: "db_ok empty_db"
  by (simp add: db_ok_defs empty_db_def)

lemma nullif_eq_Some: "nullif x v = Some y \<longleftrightarrow> x \<noteq> v \<and> y = x"
  by (auto simp: nullif_def)

lemma lookup_project_Some:
  "lookup_project s pid = Some p \<Longrightarrow> p \<in> set (projects s) \<and> p_id p = pid"
  unfolding lookup_project_def by (drule find_SomeD)

lemma lookup_dep_Some: "lookup_dep s did = Some d \<Longrightarrow> d \<in> set (deployments s) \<and> d_id d = did"
  unfolding lookup_dep_def by (drule find_SomeD)

lemma lookup_inst_Some: "lookup_inst s i = Some r \<Longrightarrow> r \<in> set (installations s) \<and> in_id r = i"
  unfolding lookup_inst_def by (drule find_SomeD)

lemma lookup_dep_unique:
  assumes "deploys_ok s" "d \<in> set (deployments s)"
  shows "lookup_dep s (d_id d) = Some d"
  using assms unfolding lookup_dep_def deploys_ok_def by (blast intro: find_distinct_key)

lemma lookup_project_unique:
  assumes "projects_ok s" "p \<in> set (projects s)"
  shows "lookup_project s (p_id p) = Some p"
  using assms unfolding lookup_project_def projects_ok_def by (blast intro: find_distinct_key)

section \<open>A small database for examples\<close>

definition demo_user :: user where
  "demo_user = \<lparr> u_id = ''u1'', u_github = 42, u_login = ''octo'', u_email = None, u_avatar = None,
     u_token = None, u_token_exp = None, u_admin = False, u_last_login = 0 \<rparr>"

definition demo_install :: installation where
  "demo_install = \<lparr> in_id = 7, in_login = ''Octo'', in_account = 42, in_target = ''User'',
     in_suspended = None, in_updated = 0, in_owner = Some ''u1'' \<rparr>"

definition demo_project :: project where
  "demo_project = \<lparr> p_id = ''p1'', p_inst = 7, p_repo = 11, p_full_name = ''octo/app'',
     p_slug = ''octo-app'', p_branch = ''main'', p_created = 1, p_owner = Some ''u1'',
     p_prod_dep = None, p_display = None \<rparr>"

definition demo_dep :: "uuid \<Rightarrow> string \<Rightarrow> dstatus \<Rightarrow> time \<Rightarrow> deployment" where
  "demo_dep did sha st t = \<lparr> d_id = did, d_project = ''p1'', d_sha = sha, d_ref = ''refs/heads/main'',
     d_status = st, d_url = None, d_image = None, d_trigger = ''webhook'', d_delivery = None,
     d_started = None, d_ended = None, d_ready = None, d_error = None, d_created = t,
     d_message = None, d_preview = False, d_pr = None \<rparr>"

definition demo_db :: "deployment list \<Rightarrow> db" where
  "demo_db ds = empty_db\<lparr> installations := [demo_install], projects := [demo_project],
     deployments := ds, users := [demo_user] \<rparr>"

lemmas demo_defs = demo_user_def demo_install_def demo_project_def demo_dep_def demo_db_def empty_db_def

section \<open>Status as a finite type\<close>

instantiation dstatus :: linorder
begin

definition dstatus_rank :: "dstatus \<Rightarrow> nat" where
  "dstatus_rank s = (case s of Queued \<Rightarrow> 0 | Building \<Rightarrow> 1 | Deploying \<Rightarrow> 2 | Ready \<Rightarrow> 3 | Failed \<Rightarrow> 4)"

definition less_eq_dstatus :: "dstatus \<Rightarrow> dstatus \<Rightarrow> bool" where
  "less_eq_dstatus a b \<longleftrightarrow> dstatus_rank a \<le> dstatus_rank b"

definition less_dstatus :: "dstatus \<Rightarrow> dstatus \<Rightarrow> bool" where
  "less_dstatus a b \<longleftrightarrow> dstatus_rank a < dstatus_rank b"

instance
proof
  fix a b c :: dstatus
  show "a \<le> b \<Longrightarrow> b \<le> a \<Longrightarrow> a = b"
    by (cases a; cases b; simp add: less_eq_dstatus_def dstatus_rank_def)
qed (auto simp: less_eq_dstatus_def less_dstatus_def)

end

end
