(* ===== verification/Store_Installs.thy ===== *)
theory Store_Installs
  imports Store_Schema
begin

text \<open>
  The store operations of \<open>store.go\<close> behind webhooks and sign-in: the delivery log, installations
  and their repositories, project creation with the per-user cap, users, sessions, and the
  propagation of ownership.  Every operation returns its result and the new tables.
\<close>

section \<open>Webhook deliveries\<close>

datatype delivery_error = Empty_delivery_id | Payload_not_json | Delivery_sql sql_error

text \<open>\<open>RecordDelivery\<close>; whether the payload parses as JSON is a parameter (\<open>json.Valid\<close>).\<close>
definition RecordDelivery ::
  "(string \<Rightarrow> bool) \<Rightarrow> time \<Rightarrow> string \<Rightarrow> string \<Rightarrow> string \<Rightarrow> int \<Rightarrow> string \<Rightarrow> string \<Rightarrow> db
     \<Rightarrow> (delivery_error, bool) result \<times> db" where
  "RecordDelivery json_valid now delivery_id event action inst repo payload s =
     (if delivery_id = '''' then (Inl Empty_delivery_id, s)
      else if \<not> json_valid payload then (Inl Payload_not_json, s)
      else if delivery_id \<in> set (map w_id (deliveries s)) then (Inr False, s)
      else (Inr True,
            s\<lparr> deliveries := deliveries s @
                 [\<lparr> w_id = delivery_id, w_event = event, w_action = nullif action '''',
                    w_inst = nullif inst 0, w_repo = nullif repo '''', w_payload = payload,
                    w_received = now \<rparr>] \<rparr>))"

section \<open>Installations\<close>

record installationUpsert =
  iu_id :: int
  iu_login :: string
  iu_account :: int
  iu_target :: string

definition UpsertInstallation :: "time \<Rightarrow> installationUpsert \<Rightarrow> db \<Rightarrow> db" where
  "UpsertInstallation now u s =
     (if iu_id u \<in> in_id ` set (installations s)
      then s\<lparr> installations := upd_where (\<lambda>r. in_id r = iu_id u)
                 (\<lambda>r. r\<lparr> in_login := iu_login u, in_account := iu_account u, in_target := iu_target u,
                         in_suspended := None, in_updated := now \<rparr>) (installations s) \<rparr>
      else s\<lparr> installations := installations s @
                 [\<lparr> in_id = iu_id u, in_login = iu_login u, in_account = iu_account u,
                    in_target = iu_target u, in_suspended = None, in_updated = now,
                    in_owner = None \<rparr>] \<rparr>)"

definition SuspendInstallation :: "time \<Rightarrow> int \<Rightarrow> bool \<Rightarrow> db \<Rightarrow> db" where
  "SuspendInstallation now i suspended s =
     s\<lparr> installations := upd_where (\<lambda>r. in_id r = i)
          (\<lambda>r. r\<lparr> in_suspended := (if suspended then Some now else None), in_updated := now \<rparr>)
          (installations s) \<rparr>"

text \<open>\<open>installation_repos\<close> cascades; \<open>projects.installation_id\<close> has no foreign key and stays.\<close>
definition DeleteInstallation :: "int \<Rightarrow> db \<Rightarrow> db" where
  "DeleteInstallation i s =
     s\<lparr> installations := filter (\<lambda>r. in_id r \<noteq> i) (installations s),
        install_repos := filter (\<lambda>r. ir_inst r \<noteq> i) (install_repos s) \<rparr>"

section \<open>Repositories and projects\<close>

record repoRow =
  rr_id :: int
  rr_full_name :: string
  rr_private :: bool
  rr_branch :: string

definition CountProjectsForUser :: "uuid \<Rightarrow> db \<Rightarrow> nat" where
  "CountProjectsForUser uid s =
     (if uid = '''' then 0 else count_where (\<lambda>p. p_owner p = Some uid) (projects s))"

text \<open>The two statements \<open>AddRepos\<close> queues, the second with the id the new row would get.\<close>
datatype add_stmt = Upsert_repo repoRow | Insert_project repoRow uuid

definition exec_upsert_repo :: "int \<Rightarrow> repoRow \<Rightarrow> db \<Rightarrow> unit sql" where
  "exec_upsert_repo inst r s =
     (if (inst, rr_id r) \<in> set (map (\<lambda>x. (ir_inst x, ir_repo x)) (install_repos s))
      then (Inr (), s\<lparr> install_repos := upd_where (\<lambda>x. ir_inst x = inst \<and> ir_repo x = rr_id r)
              (\<lambda>x. x\<lparr> ir_full_name := rr_full_name r, ir_private := rr_private r,
                      ir_branch := nullif (rr_branch r) '''', ir_removed := None \<rparr>)
              (install_repos s) \<rparr>)
      else if inst \<notin> in_id ` set (installations s)
      then (Inl (Foreign_key_violation ''installation_repos.installation_id''), s)
      else (Inr (), s\<lparr> install_repos := install_repos s @
              [\<lparr> ir_inst = inst, ir_repo = rr_id r, ir_full_name = rr_full_name r,
                 ir_private = rr_private r, ir_branch = nullif (rr_branch r) '''',
                 ir_removed = None \<rparr>] \<rparr>))"

text \<open>\<open>INSERT INTO projects .. SELECT .. FROM installations .. ON CONFLICT (installation_id, repo_id)
  DO NOTHING\<close>, shared by \<open>AddRepos\<close> and \<open>ReconcileOrphanRepos\<close>; the result is the number of rows.\<close>
definition exec_insert_project ::
  "time \<Rightarrow> int \<Rightarrow> int \<Rightarrow> string \<Rightarrow> string \<Rightarrow> uuid \<Rightarrow> db \<Rightarrow> nat sql" where
  "exec_insert_project now inst repo full_name branch fresh s =
     (case lookup_inst s inst of
        None \<Rightarrow> (Inr 0, s)
      | Some i \<Rightarrow>
          if (inst, repo) \<in> set (map (\<lambda>p. (p_inst p, p_repo p)) (projects s)) then (Inr 0, s)
          else if fresh \<in> p_id ` set (projects s) then (Inl (Unique_violation ''projects_pkey''), s)
          else if slugify full_name \<in> p_slug ` set (projects s)
          then (Inl (Unique_violation ''projects_slug_key''), s)
          else (Inr 1, s\<lparr> projects := projects s @
                 [\<lparr> p_id = fresh, p_inst = inst, p_repo = repo, p_full_name = full_name,
                    p_slug = slugify full_name, p_branch = branch, p_created = now,
                    p_owner = in_owner i, p_prod_dep = None, p_display = None \<rparr>] \<rparr>))"

definition exec_add_stmt :: "time \<Rightarrow> int \<Rightarrow> add_stmt \<Rightarrow> db \<Rightarrow> unit sql" where
  "exec_add_stmt now inst st s =
     (case st of
        Upsert_repo r \<Rightarrow> exec_upsert_repo inst r s
      | Insert_project r fresh \<Rightarrow>
          (case exec_insert_project now inst (rr_id r) (rr_full_name r)
                  (coalesce (nullif (rr_branch r) '''') ''main'') fresh s of
             (Inl e, s') \<Rightarrow> (Inl e, s') | (Inr _, s') \<Rightarrow> (Inr (), s')))"

fun exec_stmts :: "time \<Rightarrow> int \<Rightarrow> add_stmt list \<Rightarrow> db \<Rightarrow> unit sql" where
  "exec_stmts now inst [] s = (Inr (), s)"
| "exec_stmts now inst (st # sts) s =
     (case exec_add_stmt now inst st s of
        (Inl e, s') \<Rightarrow> (Inl e, s')
      | (Inr _, s') \<Rightarrow> exec_stmts now inst sts s')"

text \<open>The loop that fills the batch.  \<open>existing\<close> is incremented for every queued project insert,
  also when the insert will turn out to be a no-op.\<close>
fun add_batch :: "int \<Rightarrow> uuid option \<Rightarrow> int \<Rightarrow> (repoRow \<times> uuid) list \<Rightarrow> add_stmt list" where
  "add_batch cap own existing [] = []"
| "add_batch cap own existing ((r, fresh) # rs) =
     Upsert_repo r #
       (if cap > 0 \<and> own \<noteq> None \<and> own \<noteq> Some '''' \<and> existing \<ge> cap
        then add_batch cap own existing rs
        else Insert_project r fresh #
             add_batch cap own
               (if cap > 0 \<and> own \<noteq> None \<and> own \<noteq> Some '''' then existing + 1 else existing) rs)"

definition add_owner :: "int \<Rightarrow> int \<Rightarrow> db \<Rightarrow> uuid option" where
  "add_owner cap inst s =
     (if cap > 0 then (case lookup_inst s inst of None \<Rightarrow> None | Some i \<Rightarrow> in_owner i) else None)"

text \<open>\<open>AddRepos\<close>; each repository comes with the id its project row would get.  A pgx batch runs in
  one implicit transaction, so an error of any statement undoes all of them.\<close>
definition AddRepos :: "time \<Rightarrow> int \<Rightarrow> (repoRow \<times> uuid) list \<Rightarrow> int \<Rightarrow> db \<Rightarrow> unit sql" where
  "AddRepos now inst repos cap s =
     (if repos = [] then (Inr (), s)
      else let own = add_owner cap inst s;
               existing = (case own of None \<Rightarrow> 0 | Some u \<Rightarrow> int (CountProjectsForUser u s))
           in (case exec_stmts now inst (add_batch cap own existing repos) s of
                 (Inl e, _) \<Rightarrow> (Inl e, s)
               | (Inr _, s') \<Rightarrow> (Inr (), s')))"

definition RemoveRepos :: "time \<Rightarrow> int \<Rightarrow> int list \<Rightarrow> db \<Rightarrow> db" where
  "RemoveRepos now inst ids s =
     (if ids = [] then s
      else s\<lparr> install_repos := upd_where
             (\<lambda>r. ir_inst r = inst \<and> ir_repo r \<in> set ids \<and> ir_removed r = None)
             (\<lambda>r. r\<lparr> ir_removed := Some now \<rparr>) (install_repos s) \<rparr>)"

record orphanRepo =
  or_inst :: int
  or_repo :: int
  or_full_name :: string
  or_branch :: string

definition orphan_rows :: "db \<Rightarrow> orphanRepo list" where
  "orphan_rows s =
     map (\<lambda>r. \<lparr> or_inst = ir_inst r, or_repo = ir_repo r, or_full_name = ir_full_name r,
                or_branch = coalesce (ir_branch r) '''' \<rparr>)
       (filter (\<lambda>r. ir_removed r = None
                  \<and> (ir_inst r, ir_repo r) \<notin> set (map (\<lambda>p. (p_inst p, p_repo p)) (projects s)))
          (install_repos s))"

fun reconcile_orphans ::
  "time \<Rightarrow> (int \<Rightarrow> int \<Rightarrow> uuid) \<Rightarrow> orphanRepo list \<Rightarrow> orphanRepo list \<Rightarrow> db \<Rightarrow> orphanRepo list sql" where
  "reconcile_orphans now fresh [] created s = (Inr created, s)"
| "reconcile_orphans now fresh (o1 # os) created s =
     (case exec_insert_project now (or_inst o1) (or_repo o1) (or_full_name o1)
             (if or_branch o1 = '''' then ''main'' else or_branch o1)
             (fresh (or_inst o1) (or_repo o1)) s of
        (Inl e, s') \<Rightarrow> (Inl e, s')
      | (Inr n, s') \<Rightarrow>
          reconcile_orphans now fresh os (if n > 0 then created @ [o1] else created) s')"

definition ReconcileOrphanRepos :: "time \<Rightarrow> (int \<Rightarrow> int \<Rightarrow> uuid) \<Rightarrow> db \<Rightarrow> orphanRepo list sql" where
  "ReconcileOrphanRepos now fresh s = reconcile_orphans now fresh (orphan_rows s) [] s"

definition UpdateProjectDisplayName :: "uuid \<Rightarrow> string \<Rightarrow> db \<Rightarrow> db" where
  "UpdateProjectDisplayName pid name s =
     s\<lparr> projects := upd_where (\<lambda>p. p_id p = pid) (\<lambda>p. p\<lparr> p_display := nullif name '''' \<rparr>) (projects s) \<rparr>"

text \<open>The CTE updates the project and then every \<open>installation_repos\<close> row of the same repository.\<close>
definition UpdateProjectProductionBranch :: "uuid \<Rightarrow> string \<Rightarrow> db \<Rightarrow> db" where
  "UpdateProjectProductionBranch pid branch s =
     (let keys = map (\<lambda>p. (p_inst p, p_repo p)) (filter (\<lambda>p. p_id p = pid) (projects s))
      in s\<lparr> projects := upd_where (\<lambda>p. p_id p = pid) (\<lambda>p. p\<lparr> p_branch := branch \<rparr>) (projects s),
            install_repos := upd_where (\<lambda>r. (ir_inst r, ir_repo r) \<in> set keys)
                               (\<lambda>r. r\<lparr> ir_branch := Some branch \<rparr>) (install_repos s) \<rparr>)"

section \<open>Users and sessions\<close>

record sessionUser =
  su_id :: uuid
  su_github :: int
  su_login :: string
  su_email :: string
  su_avatar :: string
  su_admin :: bool

record userUpsert =
  uu_github :: int
  uu_login :: string
  uu_email :: string
  uu_avatar :: string
  uu_token :: string
  uu_expires :: "time option"

definition UpsertUserFromGitHub :: "time \<Rightarrow> uuid \<Rightarrow> userUpsert \<Rightarrow> db \<Rightarrow> uuid sql" where
  "UpsertUserFromGitHub now fresh i s =
     (case find (\<lambda>u. u_github u = uu_github i) (users s) of
        Some u0 \<Rightarrow>
          (Inr (u_id u0),
           s\<lparr> users := upd_where (\<lambda>u. u_github u = uu_github i)
               (\<lambda>u. u\<lparr> u_login := uu_login i,
                       u_email := coalesce2 (nullif (uu_email i) '''') (u_email u),
                       u_avatar := coalesce2 (nullif (uu_avatar i) '''') (u_avatar u),
                       u_token := coalesce2 (nullif (uu_token i) '''') (u_token u),
                       u_token_exp := coalesce2 (uu_expires i) (u_token_exp u),
                       u_last_login := now \<rparr>) (users s) \<rparr>)
      | None \<Rightarrow>
          if fresh \<in> u_id ` set (users s) then (Inl (Unique_violation ''users_pkey''), s)
          else (Inr fresh,
                s\<lparr> users := users s @
                  [\<lparr> u_id = fresh, u_github = uu_github i, u_login = uu_login i,
                     u_email = nullif (uu_email i) '''', u_avatar = nullif (uu_avatar i) '''',
                     u_token = nullif (uu_token i) '''', u_token_exp = uu_expires i,
                     u_admin = False, u_last_login = now \<rparr>] \<rparr>))"

record sessionRow =
  sr_hash :: string
  sr_user :: uuid
  sr_agent :: string
  sr_ip :: string
  sr_expires :: time

definition CreateSession :: "sessionRow \<Rightarrow> db \<Rightarrow> unit sql" where
  "CreateSession r s =
     (if sr_hash r \<in> ss_hash ` set (sessions s) then (Inl (Unique_violation ''sessions_pkey''), s)
      else if sr_user r \<notin> u_id ` set (users s)
      then (Inl (Foreign_key_violation ''sessions.user_id''), s)
      else (Inr (), s\<lparr> sessions := sessions s @
              [\<lparr> ss_hash = sr_hash r, ss_user = sr_user r, ss_agent = nullif (sr_agent r) '''',
                 ss_ip = nullif (sr_ip r) '''', ss_expires = sr_expires r \<rparr>] \<rparr>))"

definition LookupSession :: "time \<Rightarrow> string \<Rightarrow> db \<Rightarrow> sessionUser option" where
  "LookupSession now hash s =
     (case find (\<lambda>x. ss_hash x = hash \<and> ss_expires x > now) (sessions s) of
        None \<Rightarrow> None
      | Some x \<Rightarrow>
          (case lookup_user s (ss_user x) of
             None \<Rightarrow> None
           | Some u \<Rightarrow> Some \<lparr> su_id = u_id u, su_github = u_github u, su_login = u_login u,
                              su_email = coalesce (u_email u) '''',
                              su_avatar = coalesce (u_avatar u) '''', su_admin = u_admin u \<rparr>))"

definition DeleteSession :: "string \<Rightarrow> db \<Rightarrow> db" where
  "DeleteSession hash s = s\<lparr> sessions := filter (\<lambda>x. ss_hash x \<noteq> hash) (sessions s) \<rparr>"

section \<open>Ownership\<close>

text \<open>One transaction: claim the account's installations, then give their projects the owner.\<close>
definition ClaimInstallationsForUser :: "time \<Rightarrow> uuid \<Rightarrow> int \<Rightarrow> db \<Rightarrow> nat sql" where
  "ClaimInstallationsForUser now uid account s =
     (let hit = (\<lambda>i. in_account i = account \<and> in_owner i \<noteq> Some uid);
          n = count_where hit (installations s);
          insts = upd_where hit (\<lambda>i. i\<lparr> in_owner := Some uid, in_updated := now \<rparr>) (installations s);
          mine = map in_id (filter (\<lambda>i. in_owner i = Some uid) insts)
      in if n > 0 \<and> uid \<notin> u_id ` set (users s)
         then (Inl (Foreign_key_violation ''installations.owner_user_id''), s)
         else (Inr n, s\<lparr> installations := insts,
                 projects := upd_where (\<lambda>p. p_inst p \<in> set mine \<and> p_owner p \<noteq> Some uid)
                               (\<lambda>p. p\<lparr> p_owner := Some uid \<rparr>) (projects s) \<rparr>))"

definition LinkInstallationByGitHubAccount :: "time \<Rightarrow> int \<Rightarrow> int \<Rightarrow> db \<Rightarrow> db" where
  "LinkInstallationByGitHubAccount now inst account s =
     (case find (\<lambda>u. u_github u = account) (users s) of
        None \<Rightarrow> s
      | Some u \<Rightarrow>
          s\<lparr> installations := upd_where (\<lambda>i. in_id i = inst \<and> in_owner i \<noteq> Some (u_id u))
               (\<lambda>i. i\<lparr> in_owner := Some (u_id u), in_updated := now \<rparr>) (installations s) \<rparr>)"

definition SetProjectOwnerByInstallation :: "int \<Rightarrow> db \<Rightarrow> db" where
  "SetProjectOwnerByInstallation inst s =
     (case lookup_inst s inst of
        None \<Rightarrow> s
      | Some i \<Rightarrow>
          (case in_owner i of
             None \<Rightarrow> s
           | Some u \<Rightarrow> s\<lparr> projects := upd_where (\<lambda>p. p_inst p = inst \<and> p_owner p \<noteq> Some u)
                           (\<lambda>p. p\<lparr> p_owner := Some u \<rparr>) (projects s) \<rparr>))"

end
