(* ===== verification/Store_Deploys.thy ===== *)
theory Store_Deploys
  imports Store_Installs
begin

text \<open>
  The deployment queue of \<open>store.go\<close>: enqueueing (with the dedupe rule), redeploys, claiming the oldest
  queued row, the status transitions of the worker and the reconciler, and the listings and
  look-ups of the dashboard.
\<close>

definition second :: time where "second = 1000000000"

definition newest_first :: "deployment list \<Rightarrow> deployment list" where
  "newest_first ds = sort_key (\<lambda>d. - d_created d) ds"

definition clamp_limit :: "int \<Rightarrow> int \<Rightarrow> nat \<Rightarrow> nat" where
  "clamp_limit limit mx dflt = (if limit \<le> 0 \<or> limit > mx then dflt else nat limit)"

section \<open>Enqueueing\<close>

record deploymentEnqueued =
  de_project :: uuid
  de_deployment :: uuid
  de_slug :: string
  de_deduped :: bool

record enqueueOptions =
  eo_message :: string
  eo_preview :: bool
  eo_pr :: int

definition no_options :: enqueueOptions where
  "no_options = \<lparr> eo_message = '''', eo_preview = False, eo_pr = 0 \<rparr>"

definition project_by_repo :: "int \<Rightarrow> int \<Rightarrow> db \<Rightarrow> project option" where
  "project_by_repo inst repo s = find (\<lambda>p. p_inst p = inst \<and> p_repo p = repo) (projects s)"

definition new_deployment ::
  "time \<Rightarrow> uuid \<Rightarrow> uuid \<Rightarrow> string \<Rightarrow> string \<Rightarrow> string \<Rightarrow> string option \<Rightarrow> enqueueOptions \<Rightarrow> deployment" where
  "new_deployment now fresh pid sha ref trig dlv opt =
     \<lparr> d_id = fresh, d_project = pid, d_sha = sha, d_ref = ref, d_status = Queued, d_url = None,
       d_image = None, d_trigger = trig, d_delivery = dlv, d_started = None, d_ended = None,
       d_ready = None, d_error = None, d_created = now, d_message = nullif (eo_message opt) '''',
       d_preview = eo_preview opt, d_pr = (if eo_pr opt > 0 then Some (eo_pr opt) else None) \<rparr>"

definition insert_deployment :: "deployment \<Rightarrow> db \<Rightarrow> unit sql" where
  "insert_deployment d s =
     (if d_id d \<in> d_id ` set (deployments s) then (Inl (Unique_violation ''deployments_pkey''), s)
      else if d_project d \<notin> p_id ` set (projects s)
      then (Inl (Foreign_key_violation ''deployments.project_id''), s)
      else (Inr (), s\<lparr> deployments := deployments s @ [d] \<rparr>))"

definition prod_ref :: "string \<Rightarrow> string" where
  "prod_ref branch = (if branch = '''' then '''' else ''refs/heads/'' @ branch)"

definition EnqueueDeployment ::
  "time \<Rightarrow> uuid \<Rightarrow> int \<Rightarrow> int \<Rightarrow> string \<Rightarrow> string \<Rightarrow> string \<Rightarrow> string \<Rightarrow> enqueueOptions \<Rightarrow> db
     \<Rightarrow> deploymentEnqueued option sql" where
  "EnqueueDeployment now fresh inst repo sha ref dlv trig0 opt s =
     (let trig = (if trig0 = '''' then ''webhook'' else trig0)
      in case project_by_repo inst repo s of
           None \<Rightarrow> (Inr None, s)
         | Some p \<Rightarrow>
             if trig = ''webhook'' \<and> ref \<noteq> prod_ref (p_branch p)
                \<and> (\<exists>d \<in> set (deployments s). d_project d = p_id p \<and> d_sha d = sha)
             then (Inr (Some \<lparr> de_project = p_id p, de_deployment = '''', de_slug = p_slug p,
                               de_deduped = True \<rparr>), s)
             else (case insert_deployment
                          (new_deployment now fresh (p_id p) sha ref trig (nullif dlv '''') opt) s of
                     (Inl e, s') \<Rightarrow> (Inl e, s')
                   | (Inr _, s') \<Rightarrow>
                       (Inr (Some \<lparr> de_project = p_id p, de_deployment = fresh, de_slug = p_slug p,
                                    de_deduped = False \<rparr>), s')))"

text \<open>\<open>EnqueueRedeploy\<close>; the result is \<open>(newID, slug)\<close>, both empty when there is no such source row.\<close>
definition EnqueueRedeploy :: "time \<Rightarrow> uuid \<Rightarrow> uuid \<Rightarrow> uuid \<Rightarrow> db \<Rightarrow> (string \<times> string) sql" where
  "EnqueueRedeploy now fresh src uid s =
     (case lookup_dep s src of
        None \<Rightarrow> (Inr ('''', ''''), s)
      | Some d \<Rightarrow>
          (case lookup_project s (d_project d) of
             None \<Rightarrow> (Inr ('''', ''''), s)
           | Some p \<Rightarrow>
               if \<not> owner_matches uid (p_owner p) then (Inr ('''', ''''), s)
               else (case insert_deployment
                            (new_deployment now fresh (d_project d) (d_sha d) (d_ref d) ''redeploy''
                               None no_options) s of
                       (Inl e, s') \<Rightarrow> (Inl e, s')
                     | (Inr _, s') \<Rightarrow> (Inr (fresh, p_slug p), s'))))"

section \<open>Claiming\<close>

record claimedDeployment =
  c_deployment :: uuid
  c_project :: uuid
  c_slug :: string
  c_repo :: string
  c_inst :: int
  c_sha :: string
  c_ref :: string
  c_branch :: string
  c_login :: string

text \<open>\<open>ORDER BY created_at LIMIT 1\<close> over the queued rows (rows with equal times in table order).\<close>
definition oldest_queued :: "db \<Rightarrow> deployment option" where
  "oldest_queued s =
     (case sort_key d_created (filter (\<lambda>d. d_status d = Queued) (deployments s)) of
        [] \<Rightarrow> None | d # _ \<Rightarrow> Some d)"

definition start_build :: "time \<Rightarrow> deployment \<Rightarrow> deployment" where
  "start_build now d = d\<lparr> d_status := Building, d_started := Some now \<rparr>"

definition set_dep :: "uuid \<Rightarrow> (deployment \<Rightarrow> deployment) \<Rightarrow> db \<Rightarrow> db" where
  "set_dep did f s = s\<lparr> deployments := upd_where (\<lambda>d. d_id d = did) f (deployments s) \<rparr>"

text \<open>\<open>ClaimNextQueued\<close>.  The sub-select for \<open>account_login\<close> is NULL when the installation row is
  gone; scanning NULL into a Go string is an error, and the transaction is rolled back.\<close>
definition ClaimNextQueued :: "time \<Rightarrow> db \<Rightarrow> claimedDeployment option sql" where
  "ClaimNextQueued now s =
     (case oldest_queued s of
        None \<Rightarrow> (Inr None, s)
      | Some d \<Rightarrow>
          (case lookup_project s (d_project d) of
             None \<Rightarrow> (Inr None, s)
           | Some p \<Rightarrow>
               (case lookup_inst s (p_inst p) of
                  None \<Rightarrow> (Inl (Null_scan ''account_login''), s)
                | Some i \<Rightarrow>
                    (Inr (Some \<lparr> c_deployment = d_id d, c_project = d_project d, c_slug = p_slug p,
                                 c_repo = p_full_name p, c_inst = p_inst p, c_sha = d_sha d,
                                 c_ref = d_ref d, c_branch = p_branch p, c_login = in_login i \<rparr>),
                     set_dep (d_id d) (start_build now) s))))"

section \<open>Transitions\<close>

definition MarkDeploying :: "time \<Rightarrow> uuid \<Rightarrow> string \<Rightarrow> db \<Rightarrow> db" where
  "MarkDeploying now did img =
     set_dep did (\<lambda>d. d\<lparr> d_status := Deploying, d_ended := Some now, d_image := Some img \<rparr>)"

definition MarkReady :: "time \<Rightarrow> uuid \<Rightarrow> string \<Rightarrow> db \<Rightarrow> db" where
  "MarkReady now did url =
     set_dep did (\<lambda>d. d\<lparr> d_status := Ready, d_ready := Some now, d_url := Some url \<rparr>)"

definition fail_row :: "time \<Rightarrow> string \<Rightarrow> deployment \<Rightarrow> deployment" where
  "fail_row now reason d =
     d\<lparr> d_status := Failed, d_ended := Some (coalesce (d_ended d) now), d_error := Some reason \<rparr>"

definition MarkFailed :: "time \<Rightarrow> uuid \<Rightarrow> string \<Rightarrow> db \<Rightarrow> db" where
  "MarkFailed now did reason = set_dep did (fail_row now reason)"

definition MarkFailedIfInFlight :: "time \<Rightarrow> uuid \<Rightarrow> string \<Rightarrow> db \<Rightarrow> db" where
  "MarkFailedIfInFlight now did reason s =
     s\<lparr> deployments := upd_where (\<lambda>d. d_id d = did \<and> in_flight (d_status d)) (fail_row now reason)
          (deployments s) \<rparr>"

definition requeue_row :: "string option \<Rightarrow> deployment \<Rightarrow> deployment" where
  "requeue_row err d =
     d\<lparr> d_status := Queued, d_started := None, d_ended := None, d_error := err \<rparr>"

definition RequeueDeployment :: "uuid \<Rightarrow> string \<Rightarrow> db \<Rightarrow> bool \<times> db" where
  "RequeueDeployment did reason s =
     (let hit = (\<lambda>d. d_id d = did \<and> in_flight (d_status d))
      in (\<exists>d \<in> set (deployments s). hit d,
          s\<lparr> deployments := upd_where hit (requeue_row (Some reason)) (deployments s) \<rparr>))"

definition started_at :: "deployment \<Rightarrow> time" where
  "started_at d = coalesce (d_started d) (d_created d)"

definition RequeueStale :: "time \<Rightarrow> time \<Rightarrow> db \<Rightarrow> nat \<times> db" where
  "RequeueStale now max_age s =
     (let hit = (\<lambda>d. in_flight (d_status d) \<and> started_at d < now - (max_age div second) * second)
      in (count_where hit (deployments s),
          s\<lparr> deployments := upd_where hit (requeue_row None) (deployments s) \<rparr>))"

definition RequeueStuck :: "db \<Rightarrow> nat \<times> db" where
  "RequeueStuck s =
     (let hit = (\<lambda>d. in_flight (d_status d))
      in (count_where hit (deployments s),
          s\<lparr> deployments := upd_where hit (requeue_row None) (deployments s) \<rparr>))"

definition SetProductionDeployment :: "uuid \<Rightarrow> uuid \<Rightarrow> db \<Rightarrow> unit sql" where
  "SetProductionDeployment pid did s =
     (if pid \<in> p_id ` set (projects s) \<and> did \<notin> d_id ` set (deployments s)
      then (Inl (Foreign_key_violation ''projects.production_deployment_id''), s)
      else (Inr (), s\<lparr> projects := upd_where (\<lambda>p. p_id p = pid) (\<lambda>p. p\<lparr> p_prod_dep := Some did \<rparr>)
                          (projects s) \<rparr>))"

record inFlightDeployment =
  if_id :: uuid
  if_status :: dstatus
  if_started :: time

definition ListInFlightDeployments :: "db \<Rightarrow> inFlightDeployment list" where
  "ListInFlightDeployments s =
     map (\<lambda>d. \<lparr> if_id = d_id d, if_status = d_status d, if_started = started_at d \<rparr>)
       (sort_key started_at (filter (\<lambda>d. in_flight (d_status d)) (deployments s)))"

section \<open>Listings\<close>

record deploymentRow =
  dr_id :: uuid
  dr_project :: uuid
  dr_slug :: string
  dr_sha :: string
  dr_ref :: string
  dr_status :: dstatus
  dr_url :: "string option"
  dr_image :: "string option"
  dr_created :: time
  dr_delivery :: "string option"
  dr_trigger :: string
  dr_started :: "time option"
  dr_ended :: "time option"
  dr_ready :: "time option"
  dr_error :: "string option"
  dr_message :: "string option"
  dr_preview :: bool
  dr_pr :: "int option"

definition row_full :: "deployment \<Rightarrow> string \<Rightarrow> deploymentRow" where
  "row_full d slug =
     \<lparr> dr_id = d_id d, dr_project = d_project d, dr_slug = slug, dr_sha = d_sha d, dr_ref = d_ref d,
       dr_status = d_status d, dr_url = d_url d, dr_image = d_image d, dr_created = d_created d,
       dr_delivery = d_delivery d, dr_trigger = d_trigger d, dr_started = d_started d,
       dr_ended = d_ended d, dr_ready = d_ready d, dr_error = d_error d, dr_message = d_message d,
       dr_preview = d_preview d, dr_pr = d_pr d \<rparr>"

text \<open>The ten-column queries leave the other fields at Go's zero values.\<close>
definition row_short :: "deployment \<Rightarrow> string \<Rightarrow> deploymentRow" where
  "row_short d slug =
     (row_full d slug)\<lparr> dr_trigger := '''', dr_started := None, dr_ended := None, dr_ready := None,
       dr_error := None, dr_message := None, dr_preview := False, dr_pr := None \<rparr>"

text \<open>\<open>deployments d JOIN projects p ON p.id = d.project_id\<close> for one row.\<close>
definition join_project :: "db \<Rightarrow> deployment \<Rightarrow> (deployment \<times> project) option" where
  "join_project s d = map_option (\<lambda>p. (d, p)) (lookup_project s (d_project d))"

definition joined :: "db \<Rightarrow> deployment list \<Rightarrow> (deployment \<times> project) list" where
  "joined s ds = List.map_filter (join_project s) ds"

definition ListRecentDeployments :: "db \<Rightarrow> int \<Rightarrow> deploymentRow list" where
  "ListRecentDeployments s limit =
     map (\<lambda>(d, p). row_short d (p_slug p))
       (take (clamp_limit limit 200 50) (joined s (newest_first (deployments s))))"

definition ListRecentDeploymentsForUser :: "db \<Rightarrow> uuid \<Rightarrow> int \<Rightarrow> deploymentRow list" where
  "ListRecentDeploymentsForUser s uid limit =
     (if uid = '''' then ListRecentDeployments s limit
      else map (\<lambda>(d, p). row_short d (p_slug p))
             (take (clamp_limit limit 200 50)
                (filter (\<lambda>(d, p). p_owner p = Some uid) (joined s (newest_first (deployments s))))))"

text \<open>The result map: an absent key and an empty list are the same to every caller.\<close>
definition ListDeploymentsForProjects :: "db \<Rightarrow> uuid list \<Rightarrow> int \<Rightarrow> uuid \<Rightarrow> deploymentRow list" where
  "ListDeploymentsForProjects s pids per pid =
     (if pid \<in> set pids
      then map (\<lambda>(d, p). row_full d (p_slug p))
             (take (clamp_limit per 50 10)
                (joined s (newest_first (filter (\<lambda>d. d_project d = pid) (deployments s)))))
      else [])"

definition GetDeployment :: "db \<Rightarrow> uuid \<Rightarrow> deploymentRow option" where
  "GetDeployment s did =
     (case lookup_dep s did of
        None \<Rightarrow> None
      | Some d \<Rightarrow> map_option (\<lambda>p. row_short d (p_slug p)) (lookup_project s (d_project d)))"

definition GetDeploymentForUser :: "db \<Rightarrow> uuid \<Rightarrow> uuid \<Rightarrow> deploymentRow option" where
  "GetDeploymentForUser s did uid =
     (if uid = '''' then GetDeployment s did
      else (case lookup_dep s did of
              None \<Rightarrow> None
            | Some d \<Rightarrow>
                (case lookup_project s (d_project d) of
                   None \<Rightarrow> None
                 | Some p \<Rightarrow> if p_owner p = Some uid then Some (row_short d (p_slug p)) else None)))"

text \<open>\<open>GetDeploymentTenantLogin\<close>; the empty login is "not found".\<close>
definition GetDeploymentTenantLogin :: "db \<Rightarrow> uuid \<Rightarrow> uuid \<Rightarrow> string" where
  "GetDeploymentTenantLogin s did uid =
     (case lookup_dep s did of
        None \<Rightarrow> ''''
      | Some d \<Rightarrow>
          (case lookup_project s (d_project d) of
             None \<Rightarrow> ''''
           | Some p \<Rightarrow>
               if owner_matches uid (p_owner p)
               then (case lookup_inst s (p_inst p) of None \<Rightarrow> '''' | Some i \<Rightarrow> in_login i)
               else ''''))"

section \<open>The queue discipline\<close>

lemma sort_key_hd_min:
  fixes f :: "'a \<Rightarrow> 'b::linorder"
  assumes "sort_key f xs = y # ys"
  shows "y \<in> set xs \<and> (\<forall>x \<in> set xs. f y \<le> f x)"
proof -
  have "sorted (map f (y # ys))" using sorted_sort_key[of f xs] by (simp only: assms)
  moreover have "set xs = set (y # ys)" using set_sort[of f xs] by (simp only: assms)
  ultimately show ?thesis by auto
qed

lemma oldest_queued_Some:
  assumes "oldest_queued s = Some d"
  shows "d \<in> set (deployments s)" "d_status d = Queued"
    "\<And>e. e \<in> set (deployments s) \<Longrightarrow> d_status e = Queued \<Longrightarrow> d_created d \<le> d_created e"
proof -
  let ?q = "filter (\<lambda>d. d_status d = Queued) (deployments s)"
  obtain ds where "sort_key d_created ?q = d # ds"
    using assms unfolding oldest_queued_def by (cases "sort_key d_created ?q") simp_all
  then have "d \<in> set ?q \<and> (\<forall>x \<in> set ?q. d_created d \<le> d_created x)" by (rule sort_key_hd_min)
  then show "d \<in> set (deployments s)" "d_status d = Queued"
    "\<And>e. e \<in> set (deployments s) \<Longrightarrow> d_status e = Queued \<Longrightarrow> d_created d \<le> d_created e"
    by simp_all
qed

lemma oldest_queued_None:
  "oldest_queued s = None \<longleftrightarrow> (\<forall>d \<in> set (deployments s). d_status d \<noteq> Queued)"
proof -
  have "sort_key d_created (filter (\<lambda>d. d_status d = Queued) (deployments s)) = [] \<longleftrightarrow>
        filter (\<lambda>d. d_status d = Queued) (deployments s) = []"
    by (metis set_empty set_sort)
  moreover have "oldest_queued s = None \<longleftrightarrow>
      sort_key d_created (filter (\<lambda>d. d_status d = Queued) (deployments s)) = []"
    unfolding oldest_queued_def by (cases "sort_key d_created (filter (\<lambda>d. d_status d = Queued) (deployments s))") simp_all
  ultimately show ?thesis by (simp add: filter_empty_conv)
qed

lemma ClaimNextQueued_cases:
  obtains (empty) "oldest_queued s = None" "ClaimNextQueued now s = (Inr None, s)"
  | (no_project) d where "oldest_queued s = Some d" "lookup_project s (d_project d) = None"
      "ClaimNextQueued now s = (Inr None, s)"
  | (no_install) d p where "oldest_queued s = Some d" "lookup_project s (d_project d) = Some p"
      "lookup_inst s (p_inst p) = None"
      "ClaimNextQueued now s = (Inl (Null_scan ''account_login''), s)"
  | (claimed) d p i c where "oldest_queued s = Some d" "lookup_project s (d_project d) = Some p"
      "lookup_inst s (p_inst p) = Some i"
      "ClaimNextQueued now s = (Inr (Some c), set_dep (d_id d) (start_build now) s)"
      "c_deployment c = d_id d" "c_project c = d_project d" "c_sha c = d_sha d" "c_ref c = d_ref d"
      "c_slug c = p_slug p" "c_login c = in_login i" "c_inst c = p_inst p" "c_branch c = p_branch p"
proof (cases "oldest_queued s")
  case None
  then show ?thesis by (intro empty) (simp_all add: ClaimNextQueued_def)
next
  case d: (Some d)
  show ?thesis
  proof (cases "lookup_project s (d_project d)")
    case None
    then show ?thesis using d by (intro no_project) (simp_all add: ClaimNextQueued_def)
  next
    case p: (Some p)
    show ?thesis
    proof (cases "lookup_inst s (p_inst p)")
      case None
      then show ?thesis using d p by (intro no_install) (simp_all add: ClaimNextQueued_def)
    next
      case (Some i)
      then show ?thesis using d p by (intro claimed) (simp_all add: ClaimNextQueued_def)+
    qed
  qed
qed

lemma deployments_set_dep [simp]:
  "deployments (set_dep did f s) = upd_where (\<lambda>d. d_id d = did) f (deployments s)"
  "projects (set_dep did f s) = projects s" "installations (set_dep did f s) = installations s"
  by (simp_all add: set_dep_def)

lemma claim_fifo_row:
  assumes "deploys_ok s" "ClaimNextQueued now s = (Inr (Some c), s')"
  shows "\<exists>d. lookup_dep s' (c_deployment c) = Some (start_build now d) \<and> d \<in> set (deployments s)
      \<and> d_id d = c_deployment c"
  using ClaimNextQueued_cases[of s now]
proof cases
  case (claimed d p i c')
  note d = oldest_queued_Some[OF claimed(1)]
  have eq: "c' = c" "s' = set_dep (d_id d) (start_build now) s" using claimed(4) assms(2) by auto
  have "lookup_dep s (d_id d) = Some d" using lookup_dep_unique[OF assms(1) d(1)] .
  then have "lookup_dep s' (d_id d) = Some (start_build now d)"
    by (simp add: lookup_dep_def eq find_upd_where_same start_build_def)
  then show ?thesis using d claimed(5) eq by metis
qed (use assms(2) in auto)

text \<open>C14: \<open>ClaimNextQueued\<close> is FIFO and claims exactly one row: the claimed deployment was queued, no
  queued deployment is older, it becomes building with its start time set, and every other row of
  the table is unchanged.\<close>
theorem claim_fifo_exact:
  assumes "deploys_ok s" "ClaimNextQueued now s = (Inr (Some c), s')"
  shows "\<exists>d. d \<in> set (deployments s) \<and> d_id d = c_deployment c \<and> d_status d = Queued
      \<and> (\<forall>e. e \<in> set (deployments s) \<and> d_status e = Queued \<longrightarrow> d_created d \<le> d_created e)
      \<and> lookup_dep s' (c_deployment c) = Some (start_build now d)
      \<and> (\<forall>k. k \<noteq> c_deployment c \<longrightarrow> lookup_dep s' k = lookup_dep s k)"
  using ClaimNextQueued_cases[of s now]
proof cases
  case (claimed d p i c')
  note d = oldest_queued_Some[OF claimed(1)]
  have eq: "c' = c" "s' = set_dep (d_id d) (start_build now) s" using claimed(4) assms(2) by auto
  have "lookup_dep s (d_id d) = Some d" using lookup_dep_unique[OF assms(1) d(1)] .
  then have "lookup_dep s' (d_id d) = Some (start_build now d)"
    by (simp add: lookup_dep_def eq find_upd_where_same start_build_def)
  moreover have "lookup_dep s' k = lookup_dep s k" if "k \<noteq> d_id d" for k
    unfolding lookup_dep_def eq deployments_set_dep
    by (rule find_upd_where_other) (use that in \<open>auto simp: start_build_def\<close>)
  ultimately show ?thesis using d claimed(5) eq by (metis (no_types, lifting))
qed (use assms(2) in auto)

theorem claim_fifo_exact_witness:
  "\<exists>c s'. ClaimNextQueued 9 (demo_db [demo_dep ''d2'' ''bb'' Queued 5, demo_dep ''d1'' ''aa'' Queued 3])
             = (Inr (Some c), s')
      \<and> c_deployment c = ''d1'' \<and> lookup_dep s' ''d2'' = Some (demo_dep ''d2'' ''bb'' Queued 5)"
proof -
  let ?s = "demo_db [demo_dep ''d2'' ''bb'' Queued 5, demo_dep ''d1'' ''aa'' Queued 3]"
  have ok: "deploys_ok ?s" by (simp add: deploys_ok_def demo_defs)
  obtain c s' where c: "ClaimNextQueued 9 ?s = (Inr (Some c), s')" "c_deployment c = ''d1''"
    by (simp add: ClaimNextQueued_def oldest_queued_def lookup_project_def lookup_inst_def demo_defs)
  have "lookup_dep s' ''d2'' = lookup_dep ?s ''d2''"
    using claim_fifo_exact[OF ok c(1)] c(2) by fastforce
  then show ?thesis using c by (simp add: lookup_dep_def demo_defs)
qed

text \<open>poison row.  When the installation of the oldest queued deployment has been removed,
  \<open>ClaimNextQueued\<close> fails and changes nothing, whatever else is queued: no deployment of any tenant
  is built until that row is removed by hand.\<close>
theorem claim_blocked_by_missing_installation:
  assumes "oldest_queued s = Some d" "lookup_project s (d_project d) = Some p"
    and "lookup_inst s (p_inst p) = None"
  shows "ClaimNextQueued now s = (Inl (Null_scan ''account_login''), s)"
  using assms by (simp add: ClaimNextQueued_def)

theorem claim_blocked_by_missing_installation_witness:
  "ClaimNextQueued 9 (DeleteInstallation 7 (demo_db [demo_dep ''d1'' ''aa'' Queued 3]))
     = (Inl (Null_scan ''account_login''), DeleteInstallation 7 (demo_db [demo_dep ''d1'' ''aa'' Queued 3]))"
  by (rule claim_blocked_by_missing_installation[where d = "demo_dep ''d1'' ''aa'' Queued 3" and p = demo_project])
     (simp_all add: oldest_queued_def lookup_project_def lookup_inst_def DeleteInstallation_def demo_defs)

text \<open>boot recovery: after \<open>RequeueStuck\<close> no deployment is in flight, the number returned is the
  number of rows that were, and rows that were queued, ready or failed are untouched.\<close>
theorem RequeueStuck_clears_in_flight:
  "(\<forall>d \<in> set (deployments (snd (RequeueStuck s))). \<not> in_flight (d_status d))
   \<and> fst (RequeueStuck s) = length (filter (\<lambda>d. in_flight (d_status d)) (deployments s))
   \<and> filter (\<lambda>d. terminal (d_status d)) (deployments (snd (RequeueStuck s)))
       = filter (\<lambda>d. terminal (d_status d)) (deployments s)"
proof -
  have "filter (\<lambda>d. terminal (d_status d))
          (upd_where (\<lambda>d. in_flight (d_status d)) (requeue_row None) (deployments s))
        = filter (\<lambda>d. terminal (d_status d)) (deployments s)"
    by (rule filter_upd_where_disjoint) (auto simp: terminal_def in_flight_def requeue_row_def)
  then show ?thesis
    by (auto simp: RequeueStuck_def Let_def in_set_upd_where count_where_def)
       (simp add: requeue_row_def in_flight_def split: if_splits)
qed

text \<open>The conditional updates (\<open>MarkFailedIfInFlight\<close>, \<open>RequeueDeployment\<close>) leave rows alone that are no
  longer in flight.\<close>
lemma conditional_update_skips:
  assumes "\<And>d. d \<in> set (deployments s) \<Longrightarrow> d_id d = did \<Longrightarrow> \<not> in_flight (d_status d)"
  shows "MarkFailedIfInFlight now did reason s = s" "RequeueDeployment did reason s = (False, s)"
  using assms by (auto simp: MarkFailedIfInFlight_def RequeueDeployment_def Let_def upd_where_id)

section \<open>Enqueueing lemmas\<close>

lemma project_by_repo_Some:
  "project_by_repo inst repo s = Some p \<Longrightarrow> p \<in> set (projects s) \<and> p_inst p = inst \<and> p_repo p = repo"
  unfolding project_by_repo_def by (drule find_SomeD) simp

text \<open>A push to the production branch is never deduped, and neither is anything a user triggered:
  whenever the project exists and the new id is fresh, a queued row with that commit is appended.\<close>
lemma enqueue_production_or_manual:
  assumes "project_by_repo inst repo s = Some p" "fresh \<notin> d_id ` set (deployments s)"
    and "trig \<notin> {'''', ''webhook''} \<or> (p_branch p \<noteq> '''' \<and> ref = ''refs/heads/'' @ p_branch p)"
  shows "EnqueueDeployment now fresh inst repo sha ref dlv trig opt s =
    (Inr (Some \<lparr> de_project = p_id p, de_deployment = fresh, de_slug = p_slug p, de_deduped = False \<rparr>),
     s\<lparr> deployments := deployments s @
         [new_deployment now fresh (p_id p) sha ref (if trig = '''' then ''webhook'' else trig)
            (nullif dlv '''') opt] \<rparr>)"
proof -
  have "p_id p \<in> p_id ` set (projects s)" using project_by_repo_Some[OF assms(1)] by blast
  then have ins: "insert_deployment (new_deployment now fresh (p_id p) sha ref t dl opt) s
      = (Inr (), s\<lparr> deployments := deployments s @ [new_deployment now fresh (p_id p) sha ref t dl opt] \<rparr>)"
    for t dl using assms(2) by (simp add: insert_deployment_def new_deployment_def)
  have "\<not> ((if trig = '''' then ''webhook'' else trig) = ''webhook'' \<and> ref \<noteq> prod_ref (p_branch p))"
    using assms(3) by (auto simp: prod_ref_def)
  then show ?thesis by (simp add: EnqueueDeployment_def Let_def assms(1) ins)
qed

text \<open>dedupe: a webhook push to another branch whose commit this project has already seen creates
  no row; a commit not seen before is built.\<close>
theorem enqueue_dedupe:
  assumes "project_by_repo inst repo s = Some p" "ref \<noteq> prod_ref (p_branch p)"
    and "fresh \<notin> d_id ` set (deployments s)"
  shows "snd (EnqueueDeployment now fresh inst repo sha ref dlv ''webhook'' opt s) =
    (if (\<exists>d \<in> set (deployments s). d_project d = p_id p \<and> d_sha d = sha) then s
     else s\<lparr> deployments := deployments s @
               [new_deployment now fresh (p_id p) sha ref ''webhook'' (nullif dlv '''') opt] \<rparr>)"
proof -
  have "p_id p \<in> p_id ` set (projects s)" using project_by_repo_Some[OF assms(1)] by blast
  then show ?thesis using assms
    by (simp add: EnqueueDeployment_def Let_def insert_deployment_def new_deployment_def)
qed

theorem enqueue_dedupe_witness:
  "snd (EnqueueDeployment 9 ''d9'' 7 11 ''aa'' ''refs/heads/fix'' ''g1'' ''webhook'' no_options
          (demo_db [demo_dep ''d1'' ''aa'' Ready 3])) = demo_db [demo_dep ''d1'' ''aa'' Ready 3]"
  by (subst enqueue_dedupe[where p = demo_project])
     (simp_all add: project_by_repo_def prod_ref_def demo_defs)

end
