(* ===== verification/Interfaces.thy ===== *)
theory Interfaces
  imports Prelude
begin

text \<open>
  The contracts shared by several components, as locales.  \<open>owner_scoped\<close> is a look-up that filters
  by the caller's user id, the empty id being the administrator; \<open>keyed_store\<close> is a store with
  insert-or-replace and delete by key.  The component theories interpret them on
  their own operations.
\<close>

section \<open>Owner-scoped look-ups\<close>

locale owner_scoped =
  fixes get :: "'s \<Rightarrow> 'k \<Rightarrow> uuid \<Rightarrow> 'a option"
    and raw :: "'s \<Rightarrow> 'k \<Rightarrow> 'a option"
    and owner :: "'s \<Rightarrow> 'k \<Rightarrow> uuid option"
  assumes admin_get: "get s k '''' = raw s k"
    and user_get: "uid \<noteq> '''' \<Longrightarrow> get s k uid = (if owner s k = Some uid then raw s k else None)"
begin

lemma get_Some_owner: "get s k uid = Some a \<Longrightarrow> uid = '''' \<or> owner s k = Some uid"
  using user_get[of uid s k] by (cases "uid = ''''") (auto split: if_splits)

lemma get_Some_raw: "get s k uid = Some a \<Longrightarrow> raw s k = Some a"
  using user_get[of uid s k] admin_get[of s k] by (cases "uid = ''''") (auto split: if_splits)

lemma foreign_is_missing: "uid \<noteq> '''' \<Longrightarrow> owner s k \<noteq> Some uid \<Longrightarrow> get s k uid = None"
  by (simp add: user_get)

lemma owner_sees: "owner s k = Some uid \<Longrightarrow> get s k uid = raw s k"
  by (cases "uid = ''''") (simp_all add: user_get admin_get)

lemma exclusive:
  "get s k u = Some a \<Longrightarrow> get s k v = Some b \<Longrightarrow> u \<noteq> '''' \<Longrightarrow> v \<noteq> '''' \<Longrightarrow> u = v"
  by (drule get_Some_owner, drule get_Some_owner) auto

end

section \<open>Keyed stores\<close>

locale keyed_store =
  fixes look :: "'s \<Rightarrow> 'k \<Rightarrow> 'v option"
    and put :: "'k \<Rightarrow> 'v \<Rightarrow> 's \<Rightarrow> 's"
    and del :: "'k \<Rightarrow> 's \<Rightarrow> 's"
    and valid :: "'k \<Rightarrow> 'v \<Rightarrow> 's \<Rightarrow> bool"
  assumes look_put: "valid k v s \<Longrightarrow> look (put k v s) k' = (if k' = k then Some v else look s k')"
    and look_del: "look (del k s) k' = (if k' = k then None else look s k')"
    and valid_put: "valid k' v' s \<Longrightarrow> valid k' v' (put k v s)"
    and valid_del: "valid k' v' s \<Longrightarrow> valid k' v' (del k s)"
begin

lemma put_get_same: "valid k v s \<Longrightarrow> look (put k v s) k = Some v"
  by (simp add: look_put)

lemma put_overwrites:
  "valid k v s \<Longrightarrow> valid k w s \<Longrightarrow> look (put k w (put k v s)) k' = look (put k w s) k'"
  by (simp add: look_put valid_put)

lemma put_idem: "valid k v s \<Longrightarrow> look (put k v (put k v s)) k' = look (put k v s) k'"
  by (rule put_overwrites)

lemma put_commute:
  "k \<noteq> l \<Longrightarrow> valid k v s \<Longrightarrow> valid l w s \<Longrightarrow>
     look (put k v (put l w s)) x = look (put l w (put k v s)) x"
  by (simp add: look_put valid_put)

lemma put_then_del: "valid k v s \<Longrightarrow> look (del k (put k v s)) k' = look (del k s) k'"
  by (simp add: look_put look_del)

lemma del_then_put: "valid k v s \<Longrightarrow> look (put k v (del k s)) k' = look (put k v s) k'"
  by (simp add: look_put look_del valid_del)

lemma del_idem: "look (del k (del k s)) k' = look (del k s) k'"
  by (simp add: look_del)

lemma fold_put:
  "(\<forall>(k, v) \<in> set kvs. valid k v s) \<Longrightarrow>
     look (fold (\<lambda>(k, v). put k v) kvs s) x
       = (case map_of (rev kvs) x of None \<Rightarrow> look s x | Some v \<Rightarrow> Some v)"
proof (induction kvs arbitrary: s)
  case (Cons kv kvs)
  obtain k v where kv: "kv = (k, v)" by (cases kv)
  have "\<forall>(k', v') \<in> set kvs. valid k' v' (put k v s)" using Cons.prems by (auto intro: valid_put)
  then have "look (fold (\<lambda>(k, v). put k v) kvs (put k v s)) x
      = (case map_of (rev kvs) x of None \<Rightarrow> look (put k v s) x | Some v \<Rightarrow> Some v)" by (rule Cons.IH)
  then show ?case using Cons.prems
    by (auto simp: kv look_put map_add_def split: option.splits)
qed simp

end

end
