(* ===== verification/Store_Projects.thy ===== *)
theory Store_Projects
  imports Store_Deploys Interfaces "HOL-Library.List_Lexorder"
begin

text \<open>
  Owner-scoped project look-ups, per-project databases, environment variables, custom domains, the
  waitlist and project deletion (\<open>store.go\<close>, \<open>domain_store.go\<close>).
  \<open>ORDER BY name\<close> is byte order.  Arguments of type \<open>uuid\<close> are values of that type: the handlers cast the text of a path (\<open>uuid_in\<close>) before they call these.  The look-ups interpret \<open>owner_scoped\<close>; environment variables
  interpret \<open>keyed_store\<close>.
\<close>

section \<open>Owner-scoped project look-ups\<close>

record projectDeployTarget =
  dt_project :: uuid
  dt_slug :: string
  dt_inst :: int
  dt_repo :: int
  dt_full_name :: string
  dt_branch :: string

record projectInfo =
  pi_id :: uuid
  pi_slug :: string
  pi_login :: string
  pi_owner :: uuid

record projectDeleteMeta =
  pm_id :: uuid
  pm_slug :: string
  pm_full_name :: string
  pm_inst :: int
  pm_repo :: int
  pm_login :: string

definition owned_project :: "db \<Rightarrow> uuid \<Rightarrow> uuid \<Rightarrow> project option" where
  "owned_project s pid uid =
     (case lookup_project s pid of
        None \<Rightarrow> None
      | Some p \<Rightarrow> if owner_matches uid (p_owner p) then Some p else None)"

text \<open>\<open>LEFT JOIN installations\<close> with \<open>COALESCE(account_login, '')\<close>.\<close>
definition install_login :: "db \<Rightarrow> project \<Rightarrow> string" where
  "install_login s p = (case lookup_inst s (p_inst p) of None \<Rightarrow> '''' | Some i \<Rightarrow> in_login i)"

definition GetProjectForDeploy :: "db \<Rightarrow> uuid \<Rightarrow> uuid \<Rightarrow> projectDeployTarget option" where
  "GetProjectForDeploy s pid uid =
     map_option (\<lambda>p. \<lparr> dt_project = p_id p, dt_slug = p_slug p, dt_inst = p_inst p,
                       dt_repo = p_repo p, dt_full_name = p_full_name p, dt_branch = p_branch p \<rparr>)
       (owned_project s pid uid)"

definition GetProjectForOwner :: "db \<Rightarrow> uuid \<Rightarrow> uuid \<Rightarrow> projectInfo option" where
  "GetProjectForOwner s pid uid =
     map_option (\<lambda>p. \<lparr> pi_id = p_id p, pi_slug = p_slug p, pi_login = install_login s p,
                       pi_owner = coalesce (p_owner p) '''' \<rparr>)
       (owned_project s pid uid)"

definition GetProjectDeleteMeta :: "db \<Rightarrow> uuid \<Rightarrow> uuid \<Rightarrow> projectDeleteMeta option" where
  "GetProjectDeleteMeta s pid uid =
     map_option (\<lambda>p. \<lparr> pm_id = p_id p, pm_slug = p_slug p, pm_full_name = p_full_name p,
                       pm_inst = p_inst p, pm_repo = p_repo p, pm_login = install_login s p \<rparr>)
       (owned_project s pid uid)"

record projectRow =
  pr_id :: uuid
  pr_slug :: string
  pr_full_name :: string
  pr_display :: string
  pr_branch :: string
  pr_created :: time
  pr_prod_dep :: "uuid option"

definition project_row :: "project \<Rightarrow> projectRow" where
  "project_row p = \<lparr> pr_id = p_id p, pr_slug = p_slug p, pr_full_name = p_full_name p,
     pr_display = coalesce (p_display p) '''', pr_branch = p_branch p, pr_created = p_created p,
     pr_prod_dep = p_prod_dep p \<rparr>"

definition ListProjectsForUser :: "db \<Rightarrow> uuid \<Rightarrow> projectRow list" where
  "ListProjectsForUser s uid =
     map project_row (sort_key (\<lambda>p. - p_created p)
       (filter (\<lambda>p. uid = '''' \<or> p_owner p = Some uid) (projects s)))"

record projectWithTenant =
  pt_id :: uuid
  pt_slug :: string
  pt_login :: string

text \<open>An inner join: projects whose installation is gone are not listed.\<close>
definition ListProjectsWithTenant :: "db \<Rightarrow> uuid \<Rightarrow> projectWithTenant list" where
  "ListProjectsWithTenant s uid =
     List.map_filter (\<lambda>p. map_option (\<lambda>i. \<lparr> pt_id = p_id p, pt_slug = p_slug p, pt_login = in_login i \<rparr>)
                            (lookup_inst s (p_inst p)))
       (sort_key p_slug (filter (\<lambda>p. owner_matches uid (p_owner p)) (projects s)))"

section \<open>Project databases\<close>

definition GetProjectDatabaseForOwner :: "db \<Rightarrow> uuid \<Rightarrow> uuid \<Rightarrow> project_db option" where
  "GetProjectDatabaseForOwner s pid uid =
     (case find (\<lambda>x. pd_project x = pid) (project_dbs s) of
        None \<Rightarrow> None
      | Some x \<Rightarrow> (case owned_project s pid uid of None \<Rightarrow> None | Some _ \<Rightarrow> Some x))"

definition GetProjectDatabase :: "db \<Rightarrow> uuid \<Rightarrow> project_db option" where
  "GetProjectDatabase s pid = GetProjectDatabaseForOwner s pid ''''"

definition CreateProjectDatabase :: "project_db \<Rightarrow> db \<Rightarrow> unit sql" where
  "CreateProjectDatabase x s =
     (if pd_project x \<in> pd_project ` set (project_dbs s)
      then (Inl (Unique_violation ''project_databases_project_id_key''), s)
      else if pd_name x \<in> pd_name ` set (project_dbs s)
      then (Inl (Unique_violation ''project_databases_db_name_key''), s)
      else if pd_role x \<in> pd_role ` set (project_dbs s)
      then (Inl (Unique_violation ''project_databases_role_name_key''), s)
      else if pd_project x \<notin> p_id ` set (projects s)
      then (Inl (Foreign_key_violation ''project_databases.project_id''), s)
      else (Inr (), s\<lparr> project_dbs := project_dbs s @ [x] \<rparr>))"

section \<open>Environment variables\<close>

definition ReservedEnvVarNames :: "string list" where "ReservedEnvVarNames = [''DATABASE_URL'']"

definition env_key :: "env_var \<Rightarrow> uuid \<times> string" where "env_key v = (ev_project v, ev_name v)"

definition ListProjectEnv :: "db \<Rightarrow> uuid \<Rightarrow> env_var list" where
  "ListProjectEnv s pid = sort_key ev_name (filter (\<lambda>v. ev_project v = pid) (env_vars s))"

definition MapProjectEnv :: "db \<Rightarrow> uuid \<Rightarrow> (string \<times> string) list" where
  "MapProjectEnv s pid =
     map (\<lambda>v. (ev_name v, ev_value v)) (filter (\<lambda>v. ev_project v = pid) (env_vars s))"

definition UpsertProjectEnv :: "time \<Rightarrow> uuid \<Rightarrow> string \<Rightarrow> string \<Rightarrow> db \<Rightarrow> time sql" where
  "UpsertProjectEnv now pid name value s =
     (let row = \<lparr> ev_project = pid, ev_name = name, ev_value = value, ev_updated = now \<rparr>
      in if \<not> env_check row then (Inl (Check_violation ''project_env_vars''), s)
         else if (pid, name) \<in> env_key ` set (env_vars s)
         then (Inr now, s\<lparr> env_vars := upd_where (\<lambda>v. env_key v = (pid, name))
                 (\<lambda>v. v\<lparr> ev_value := value, ev_updated := now \<rparr>) (env_vars s) \<rparr>)
         else if pid \<notin> p_id ` set (projects s)
         then (Inl (Foreign_key_violation ''project_env_vars.project_id''), s)
         else (Inr now, s\<lparr> env_vars := env_vars s @ [row] \<rparr>))"

definition DeleteProjectEnv :: "uuid \<Rightarrow> string \<Rightarrow> db \<Rightarrow> bool \<times> db" where
  "DeleteProjectEnv pid name s =
     ((pid, name) \<in> env_key ` set (env_vars s),
      s\<lparr> env_vars := filter (\<lambda>v. env_key v \<noteq> (pid, name)) (env_vars s) \<rparr>)"

definition lookup_env :: "db \<Rightarrow> uuid \<times> string \<Rightarrow> string option" where
  "lookup_env s k = map_option ev_value (find (\<lambda>v. env_key v = k) (env_vars s))"

section \<open>Custom domains\<close>

text \<open>The message of a pgx error, whose text \<open>isUniqueViolation\<close> inspects.\<close>
definition error_text :: "sql_error \<Rightarrow> string" where
  "error_text e =
     (case e of
        Unique_violation n \<Rightarrow>
          ''ERROR: duplicate key value violates unique constraint '' @ n @ '' (SQLSTATE 23505)''
      | Foreign_key_violation n \<Rightarrow>
          ''ERROR: insert or update violates foreign key constraint '' @ n @ '' (SQLSTATE 23503)''
      | Check_violation n \<Rightarrow> ''ERROR: new row violates check constraint '' @ n @ '' (SQLSTATE 23514)''
      | Null_scan n \<Rightarrow> ''cannot scan NULL into *string: '' @ n
      | Bad_argument n \<Rightarrow> ''ERROR: invalid input syntax: '' @ n @ '' (SQLSTATE 22P02)'')"

definition isUniqueViolation :: "string \<Rightarrow> bool" where
  "isUniqueViolation msg \<longleftrightarrow> contains msg ''SQLSTATE 23505'' \<or> contains msg ''unique constraint''"

text \<open>\<open>None\<close> stands for a failing random source.\<close>
definition generateDomainToken :: "string option \<Rightarrow> string option" where
  "generateDomainToken rnd = map_option (\<lambda>b. ''paas-verify-'' @ hex_encode b) rnd"

datatype domain_error = Mint_failed | Domain_already_exists | Domain_sql sql_error

definition insert_domain :: "domain \<Rightarrow> db \<Rightarrow> unit sql" where
  "insert_domain d s =
     (if \<not> hostname_check (dm_host d) then (Inl (Check_violation ''project_domains''), s)
      else if dm_host d \<in> dm_host ` set (domains s)
      then (Inl (Unique_violation ''project_domains_pkey''), s)
      else if dm_project d \<notin> p_id ` set (projects s)
      then (Inl (Foreign_key_violation ''project_domains.project_id''), s)
      else (Inr (), s\<lparr> domains := domains s @ [d] \<rparr>))"

definition AddProjectDomain ::
  "time \<Rightarrow> string option \<Rightarrow> uuid \<Rightarrow> string \<Rightarrow> db \<Rightarrow> (domain_error, domain) result \<times> db" where
  "AddProjectDomain now rnd pid hostname s =
     (case generateDomainToken rnd of
        None \<Rightarrow> (Inl Mint_failed, s)
      | Some token \<Rightarrow>
          (let d = \<lparr> dm_project = pid, dm_host = normaliseHostname hostname, dm_token = token,
                     dm_verified = None, dm_created = now \<rparr>
           in case insert_domain d s of
                (Inl e, s') \<Rightarrow>
                  (Inl (if isUniqueViolation (error_text e) then Domain_already_exists
                        else Domain_sql e), s')
              | (Inr _, s') \<Rightarrow> (Inr d, s')))"

definition domain_hit :: "uuid \<Rightarrow> string \<Rightarrow> domain \<Rightarrow> bool" where
  "domain_hit pid hostname d \<longleftrightarrow> dm_project d = pid \<and> dm_host d = normaliseHostname hostname"

definition MarkDomainVerified :: "time \<Rightarrow> uuid \<Rightarrow> string \<Rightarrow> db \<Rightarrow> bool \<times> db" where
  "MarkDomainVerified now pid hostname s =
     (let hit = (\<lambda>d. domain_hit pid hostname d \<and> dm_verified d = None)
      in (\<exists>d \<in> set (domains s). hit d,
          s\<lparr> domains := upd_where hit (\<lambda>d. d\<lparr> dm_verified := Some now \<rparr>) (domains s) \<rparr>))"

definition DeleteProjectDomain :: "uuid \<Rightarrow> string \<Rightarrow> db \<Rightarrow> bool \<times> db" where
  "DeleteProjectDomain pid hostname s =
     (\<exists>d \<in> set (domains s). domain_hit pid hostname d,
      s\<lparr> domains := filter (\<lambda>d. \<not> domain_hit pid hostname d) (domains s) \<rparr>)"

definition GetProjectDomain :: "db \<Rightarrow> uuid \<Rightarrow> string \<Rightarrow> domain option" where
  "GetProjectDomain s pid hostname = find (domain_hit pid hostname) (domains s)"

definition ListProjectDomains :: "db \<Rightarrow> uuid \<Rightarrow> domain list" where
  "ListProjectDomains s pid =
     sort_key (\<lambda>d. - dm_created d) (filter (\<lambda>d. dm_project d = pid) (domains s))"

definition ListVerifiedDomainsForProject :: "db \<Rightarrow> uuid \<Rightarrow> string list" where
  "ListVerifiedDomainsForProject s pid =
     map dm_host (sort_key dm_created
       (filter (\<lambda>d. dm_project d = pid \<and> dm_verified d \<noteq> None) (domains s)))"

definition ListVerifiedDomainsForProjects :: "db \<Rightarrow> uuid list \<Rightarrow> uuid \<Rightarrow> string list" where
  "ListVerifiedDomainsForProjects s pids pid =
     (if pid \<in> set pids
      then map dm_host (filter (\<lambda>d. dm_project d = pid)
             (sort_key dm_created (filter (\<lambda>d. dm_project d \<in> set pids \<and> dm_verified d \<noteq> None) (domains s))))
      else [])"

section \<open>Waitlist\<close>

definition UpsertWaitlistSignup ::
  "time \<Rightarrow> uuid \<Rightarrow> string \<Rightarrow> string \<Rightarrow> string \<Rightarrow> string \<Rightarrow> db \<Rightarrow> unit sql" where
  "UpsertWaitlistSignup now fresh email use_case name college s =
     (if use_case \<notin> set waitlist_use_cases then (Inl (Check_violation ''waitlist_use_case_check''), s)
      else if to_lower email \<in> set (map (to_lower \<circ> wl_email) (signups s))
      then (Inr (), s\<lparr> signups := upd_where (\<lambda>r. to_lower (wl_email r) = to_lower email)
              (\<lambda>r. r\<lparr> wl_use_case := use_case, wl_name := coalesce2 (nullif name '''') (wl_name r),
                      wl_college := coalesce2 (nullif college '''') (wl_college r), wl_updated := now \<rparr>)
              (signups s) \<rparr>)
      else (Inr (), s\<lparr> signups := signups s @
              [\<lparr> wl_id = fresh, wl_email = email, wl_use_case = use_case, wl_name = nullif name '''',
                 wl_college = nullif college '''', wl_created = now, wl_updated = now \<rparr>] \<rparr>))"

definition ListWaitlistSignups :: "db \<Rightarrow> signup list" where
  "ListWaitlistSignups s = sort_key (\<lambda>r. - wl_created r) (signups s)"

section \<open>Deleting a project\<close>

definition ListDeploymentIDsForProject :: "db \<Rightarrow> uuid \<Rightarrow> uuid list" where
  "ListDeploymentIDsForProject s pid = map d_id (filter (\<lambda>d. d_project d = pid) (deployments s))"

text \<open>The row, and by the foreign keys everything that refers to it.\<close>
definition DeleteProject :: "uuid \<Rightarrow> db \<Rightarrow> bool \<times> db" where
  "DeleteProject pid s =
     (let gone = ListDeploymentIDsForProject s pid
      in (pid \<in> p_id ` set (projects s),
          s\<lparr> projects := upd_where (\<lambda>p. \<exists>d \<in> set gone. p_prod_dep p = Some d)
                            (\<lambda>p. p\<lparr> p_prod_dep := None \<rparr>) (filter (\<lambda>p. p_id p \<noteq> pid) (projects s)),
             deployments := filter (\<lambda>d. d_project d \<noteq> pid) (deployments s),
             project_dbs := filter (\<lambda>x. pd_project x \<noteq> pid) (project_dbs s),
             env_vars := filter (\<lambda>v. ev_project v \<noteq> pid) (env_vars s),
             domains := filter (\<lambda>d. dm_project d \<noteq> pid) (domains s) \<rparr>))"

section \<open>Ownership isolation\<close>

definition project_owner :: "db \<Rightarrow> uuid \<Rightarrow> uuid option" where
  "project_owner s pid = (case lookup_project s pid of None \<Rightarrow> None | Some p \<Rightarrow> p_owner p)"

definition deployment_owner :: "db \<Rightarrow> uuid \<Rightarrow> uuid option" where
  "deployment_owner s did =
     (case lookup_dep s did of None \<Rightarrow> None | Some d \<Rightarrow> project_owner s (d_project d))"

definition opt_string :: "string \<Rightarrow> string option" where "opt_string x = nullif x ''''"

lemma opt_string_None [simp]: "opt_string x = None \<longleftrightarrow> x = ''''"
  by (simp add: opt_string_def nullif_def)

lemma owned_project_admin: "owned_project s pid '''' = lookup_project s pid"
  by (simp add: owned_project_def owner_matches_def split: option.splits)

lemma owned_project_user:
  "uid \<noteq> '''' \<Longrightarrow>
   owned_project s pid uid = (if project_owner s pid = Some uid then lookup_project s pid else None)"
  by (auto simp: owned_project_def owner_matches_def project_owner_def split: option.splits)

interpretation own_info: owner_scoped GetProjectForOwner "\<lambda>s k. GetProjectForOwner s k ''''" project_owner
  by unfold_locales (simp_all add: GetProjectForOwner_def owned_project_admin owned_project_user)

interpretation own_target: owner_scoped GetProjectForDeploy "\<lambda>s k. GetProjectForDeploy s k ''''" project_owner
  by unfold_locales (simp_all add: GetProjectForDeploy_def owned_project_admin owned_project_user)

interpretation own_delete: owner_scoped GetProjectDeleteMeta "\<lambda>s k. GetProjectDeleteMeta s k ''''" project_owner
  by unfold_locales (simp_all add: GetProjectDeleteMeta_def owned_project_admin owned_project_user)

interpretation own_db: owner_scoped GetProjectDatabaseForOwner GetProjectDatabase project_owner
  by unfold_locales
     (auto simp: GetProjectDatabaseForOwner_def GetProjectDatabase_def owned_project_admin
        owned_project_user split: option.splits)

interpretation own_dep: owner_scoped GetDeploymentForUser GetDeployment deployment_owner
  by unfold_locales
     (auto simp: GetDeploymentForUser_def GetDeployment_def deployment_owner_def project_owner_def
        split: option.splits)

interpretation own_login:
  owner_scoped "\<lambda>s k uid. opt_string (GetDeploymentTenantLogin s k uid)"
    "\<lambda>s k. opt_string (GetDeploymentTenantLogin s k '''')" deployment_owner
  by unfold_locales
     (auto simp: GetDeploymentTenantLogin_def deployment_owner_def project_owner_def owner_matches_def
        opt_string_def nullif_def split: option.splits)

text \<open>tenant isolation of the read path: whatever one of the six scoped look-ups returns to a
  signed-in, non-administrator user belongs to a project that user owns; for anyone else's ids the
  answer is the same as for ids that do not exist.\<close>
theorem scoped_lookups_isolated:
  assumes "uid \<noteq> ''''"
  shows "(project_owner s pid \<noteq> Some uid \<longrightarrow>
            GetProjectForOwner s pid uid = None \<and> GetProjectForDeploy s pid uid = None
          \<and> GetProjectDeleteMeta s pid uid = None \<and> GetProjectDatabaseForOwner s pid uid = None)
       \<and> (deployment_owner s did \<noteq> Some uid \<longrightarrow>
            GetDeploymentForUser s did uid = None \<and> GetDeploymentTenantLogin s did uid = '''')"
  using own_info.foreign_is_missing[OF assms] own_target.foreign_is_missing[OF assms]
    own_delete.foreign_is_missing[OF assms] own_db.foreign_is_missing[OF assms]
    own_dep.foreign_is_missing[OF assms] own_login.foreign_is_missing[OF assms]
  by simp

theorem scoped_lookups_isolated_witness:
  "GetProjectForOwner (demo_db []) ''p1'' ''u2'' = None
   \<and> (\<exists>x. GetProjectForOwner (demo_db []) ''p1'' ''u1'' = Some x)"
proof
  have "project_owner (demo_db []) ''p1'' \<noteq> Some ''u2''"
    by (simp add: project_owner_def lookup_project_def demo_defs)
  then show "GetProjectForOwner (demo_db []) ''p1'' ''u2'' = None"
    using scoped_lookups_isolated[of "''u2''" "demo_db []" "''p1''"] by simp
qed (simp add: GetProjectForOwner_def owned_project_def owner_matches_def lookup_project_def demo_defs)

text \<open>a redeploy by a user who does not own the source deployment's project changes nothing and
  answers "not found"; by the owner it appends exactly one queued copy of the source row.\<close>
theorem redeploy_owner_only:
  assumes "lookup_dep s src = Some d" "lookup_project s (d_project d) = Some p"
    and "fresh \<notin> d_id ` set (deployments s)"
  shows "EnqueueRedeploy now fresh src uid s =
     (if uid = '''' \<or> p_owner p = Some uid
      then (Inr (fresh, p_slug p),
            s\<lparr> deployments := deployments s @
                [new_deployment now fresh (d_project d) (d_sha d) (d_ref d) ''redeploy'' None no_options] \<rparr>)
      else (Inr ('''', ''''), s))"
proof -
  have "d_project d \<in> p_id ` set (projects s)"
    using lookup_project_Some[OF assms(2)] by (metis imageI)
  then show ?thesis using assms
    by (simp add: EnqueueRedeploy_def owner_matches_def insert_deployment_def new_deployment_def)
qed

theorem redeploy_owner_only_witness:
  "fst (EnqueueRedeploy 9 ''d9'' ''d1'' ''u1'' (demo_db [demo_dep ''d1'' ''aa'' Failed 3])) = Inr (''d9'', ''octo-app'')
   \<and> EnqueueRedeploy 9 ''d9'' ''d1'' ''u2'' (demo_db [demo_dep ''d1'' ''aa'' Failed 3])
       = (Inr ('''', ''''), demo_db [demo_dep ''d1'' ''aa'' Failed 3])"
proof -
  let ?s = "demo_db [demo_dep ''d1'' ''aa'' Failed 3]"
  have "lookup_dep ?s ''d1'' = Some (demo_dep ''d1'' ''aa'' Failed 3)"
    "lookup_project ?s (d_project (demo_dep ''d1'' ''aa'' Failed 3)) = Some demo_project"
    "''d9'' \<notin> d_id ` set (deployments ?s)"
    by (simp_all add: lookup_dep_def lookup_project_def demo_defs)
  note r = redeploy_owner_only[OF this, of 9]
  show ?thesis using r[of "''u1''"] r[of "''u2''"] by (simp add: demo_project_def)
qed

section \<open>Environment variables as a keyed store\<close>

definition env_put :: "time \<Rightarrow> uuid \<times> string \<Rightarrow> string \<Rightarrow> db \<Rightarrow> db" where
  "env_put now k v s = snd (UpsertProjectEnv now (fst k) (snd k) v s)"

definition env_del :: "uuid \<times> string \<Rightarrow> db \<Rightarrow> db" where
  "env_del k s = snd (DeleteProjectEnv (fst k) (snd k) s)"

definition env_valid :: "uuid \<times> string \<Rightarrow> string \<Rightarrow> db \<Rightarrow> bool" where
  "env_valid k v s \<longleftrightarrow> fst k \<in> p_id ` set (projects s)
     \<and> envNameRE (snd k) \<and> length (snd k) \<le> 128 \<and> length v \<le> 65536"

lemma find_env_upd:
  "find (\<lambda>v. env_key v = k')
      (upd_where (\<lambda>v. env_key v = k) (\<lambda>v. v\<lparr> ev_value := x, ev_updated := now \<rparr>) vs)
   = (if k' = k then map_option (\<lambda>v. v\<lparr> ev_value := x, ev_updated := now \<rparr>)
                       (find (\<lambda>v. env_key v = k) vs)
      else find (\<lambda>v. env_key v = k') vs)"
  by (induction vs) (auto simp: env_key_def)

interpretation env_store: keyed_store lookup_env "env_put now" env_del env_valid
proof unfold_locales
  fix k k' :: "uuid \<times> string" and v :: string and s :: db
  assume valid: "env_valid k v s"
  then have ok: "env_check \<lparr> ev_project = fst k, ev_name = snd k, ev_value = v, ev_updated = now \<rparr>"
    "fst k \<in> p_id ` set (projects s)" by (auto simp: env_valid_def env_check_def)
  show "lookup_env (env_put now k v s) k' = (if k' = k then Some v else lookup_env s k')"
  proof (cases "k \<in> env_key ` set (env_vars s)")
    case True
    then obtain e where "find (\<lambda>x. env_key x = k) (env_vars s) = Some e"
      by (cases "find (\<lambda>x. env_key x = k) (env_vars s)") (auto simp: find_None_iff_bex)
    then show ?thesis using True ok
      by (simp add: lookup_env_def env_put_def UpsertProjectEnv_def Let_def find_env_upd option.map_comp)
  next
    case False
    then have "find (\<lambda>x. env_key x = k) (env_vars s) = None" by (auto simp: find_None_iff_bex)
    then show ?thesis using False ok
      by (auto simp: lookup_env_def env_put_def UpsertProjectEnv_def Let_def find_append env_key_def
          split: option.splits)
  qed
next
  fix k k' :: "uuid \<times> string" and s :: db
  show "lookup_env (env_del k s) k' = (if k' = k then None else lookup_env s k')"
  proof (cases "k' = k")
    case False
    then have "find (\<lambda>v. env_key v = k') (filter (\<lambda>v. env_key v \<noteq> k) (env_vars s))
        = find (\<lambda>v. env_key v = k') (env_vars s)" by (intro find_filter_other) auto
    then show ?thesis using False by (simp add: lookup_env_def env_del_def DeleteProjectEnv_def)
  qed (simp add: lookup_env_def env_del_def DeleteProjectEnv_def)
next
  fix k k' :: "uuid \<times> string" and v v' :: string and s :: db
  show "env_valid k' v' s \<Longrightarrow> env_valid k' v' (env_put now k v s)"
    by (auto simp: env_valid_def env_put_def UpsertProjectEnv_def Let_def)
  show "env_valid k' v' s \<Longrightarrow> env_valid k' v' (env_del k s)"
    by (auto simp: env_valid_def env_del_def DeleteProjectEnv_def)
qed

text \<open>environment variables behave as a map per project: reading back a variable after an upsert
  gives the new value, no other variable of any project changes, and deleting it afterwards leaves
  what deleting it alone would.\<close>
theorem env_upsert_delete_map:
  assumes "env_valid (pid, name) value s"
  shows "lookup_env (snd (UpsertProjectEnv now pid name value s)) (pid, name) = Some value
       \<and> (\<forall>k. k \<noteq> (pid, name) \<longrightarrow>
            lookup_env (snd (UpsertProjectEnv now pid name value s)) k = lookup_env s k)
       \<and> (\<forall>k. lookup_env (snd (DeleteProjectEnv pid name
                  (snd (UpsertProjectEnv now pid name value s)))) k
              = lookup_env (snd (DeleteProjectEnv pid name s)) k)"
  using env_store.look_put[OF assms, of now] env_store.put_then_del[OF assms, of now]
  by (simp add: env_put_def env_del_def)

theorem env_upsert_delete_map_witness:
  "lookup_env (snd (UpsertProjectEnv 9 ''p1'' ''API_KEY'' ''x'' (demo_db []))) (''p1'', ''API_KEY'') = Some ''x''"
proof -
  have "envNameRE ''API_KEY''" by code_simp
  then have "env_valid (''p1'', ''API_KEY'') ''x'' (demo_db [])"
    by (simp add: env_valid_def demo_defs)
  then show ?thesis using env_upsert_delete_map[of "''p1''" "''API_KEY''" "''x''" "demo_db []" 9] by blast
qed

end
