(* ===== verification/Store_Invariant.thy ===== *)
theory Store_Invariant
  imports Store_Projects
begin

text \<open>
  The declared constraints of the schema (\<open>db_ok\<close>) are an invariant of every store operation, with PostgreSQL refusing the statements that would
  break one: a preservation lemma per operation, a step relation with one rule per operation, and the cap on projects, which the code enforces itself.  A theory of its own because it ranges over all
  operations of the three store theories.
\<close>

section \<open>Frame rules\<close>

lemma installs_ok_frame [simp]:
  "installs_ok (s\<lparr> projects := x_projects \<rparr>) = installs_ok s"
  "installs_ok (s\<lparr> deployments := x_deployments \<rparr>) = installs_ok s"
  "installs_ok (s\<lparr> deliveries := x_deliveries \<rparr>) = installs_ok s"
  "installs_ok (s\<lparr> sessions := x_sessions \<rparr>) = installs_ok s"
  "installs_ok (s\<lparr> project_dbs := x_project_dbs \<rparr>) = installs_ok s"
  "installs_ok (s\<lparr> env_vars := x_env_vars \<rparr>) = installs_ok s"
  "installs_ok (s\<lparr> domains := x_domains \<rparr>) = installs_ok s"
  "installs_ok (s\<lparr> signups := x_signups \<rparr>) = installs_ok s"
  by (simp_all add: installs_ok_def)

lemma projects_ok_frame [simp]:
  "projects_ok (s\<lparr> installations := x_installations \<rparr>) = projects_ok s"
  "projects_ok (s\<lparr> install_repos := x_install_repos \<rparr>) = projects_ok s"
  "projects_ok (s\<lparr> deliveries := x_deliveries \<rparr>) = projects_ok s"
  "projects_ok (s\<lparr> sessions := x_sessions \<rparr>) = projects_ok s"
  "projects_ok (s\<lparr> project_dbs := x_project_dbs \<rparr>) = projects_ok s"
  "projects_ok (s\<lparr> env_vars := x_env_vars \<rparr>) = projects_ok s"
  "projects_ok (s\<lparr> domains := x_domains \<rparr>) = projects_ok s"
  "projects_ok (s\<lparr> signups := x_signups \<rparr>) = projects_ok s"
  by (simp_all add: projects_ok_def)

lemma deploys_ok_frame [simp]:
  "deploys_ok (s\<lparr> installations := x_installations \<rparr>) = deploys_ok s"
  "deploys_ok (s\<lparr> install_repos := x_install_repos \<rparr>) = deploys_ok s"
  "deploys_ok (s\<lparr> users := x_users \<rparr>) = deploys_ok s"
  "deploys_ok (s\<lparr> sessions := x_sessions \<rparr>) = deploys_ok s"
  "deploys_ok (s\<lparr> project_dbs := x_project_dbs \<rparr>) = deploys_ok s"
  "deploys_ok (s\<lparr> env_vars := x_env_vars \<rparr>) = deploys_ok s"
  "deploys_ok (s\<lparr> domains := x_domains \<rparr>) = deploys_ok s"
  "deploys_ok (s\<lparr> signups := x_signups \<rparr>) = deploys_ok s"
  by (simp_all add: deploys_ok_def)

lemma users_ok_frame [simp]:
  "users_ok (s\<lparr> installations := x_installations \<rparr>) = users_ok s"
  "users_ok (s\<lparr> install_repos := x_install_repos \<rparr>) = users_ok s"
  "users_ok (s\<lparr> projects := x_projects \<rparr>) = users_ok s"
  "users_ok (s\<lparr> deployments := x_deployments \<rparr>) = users_ok s"
  "users_ok (s\<lparr> deliveries := x_deliveries \<rparr>) = users_ok s"
  "users_ok (s\<lparr> project_dbs := x_project_dbs \<rparr>) = users_ok s"
  "users_ok (s\<lparr> env_vars := x_env_vars \<rparr>) = users_ok s"
  "users_ok (s\<lparr> domains := x_domains \<rparr>) = users_ok s"
  "users_ok (s\<lparr> signups := x_signups \<rparr>) = users_ok s"
  by (simp_all add: users_ok_def)

lemma extras_ok_frame [simp]:
  "extras_ok (s\<lparr> installations := x_installations \<rparr>) = extras_ok s"
  "extras_ok (s\<lparr> install_repos := x_install_repos \<rparr>) = extras_ok s"
  "extras_ok (s\<lparr> deployments := x_deployments \<rparr>) = extras_ok s"
  "extras_ok (s\<lparr> deliveries := x_deliveries \<rparr>) = extras_ok s"
  "extras_ok (s\<lparr> users := x_users \<rparr>) = extras_ok s"
  "extras_ok (s\<lparr> sessions := x_sessions \<rparr>) = extras_ok s"
  by (simp_all add: extras_ok_def)

lemma image_upd_where:
  assumes "\<And>r. g (f r) = g r"
  shows "g ` set (upd_where P f rs) = g ` set rs"
  using map_upd_where[of g f P rs] assms by (metis list.set_map)

lemma distinct_map_filter_key: "distinct (map g xs) \<Longrightarrow> distinct (map g (filter P xs))"
  by (simp add: distinct_map_filter)

lemma ball_upd_where:
  "(\<forall>x \<in> set (upd_where P f rs). Q x) \<longleftrightarrow> (\<forall>r \<in> set rs. Q (if P r then f r else r))"
  by (induction rs) auto

lemmas upd_simps = map_upd_where image_upd_where ball_upd_where

section \<open>Installations, repositories, users\<close>

lemma db_ok_RecordDelivery: "db_ok s \<Longrightarrow> db_ok (snd (RecordDelivery v now i e a n r pl s))"
  by (auto simp: RecordDelivery_def db_ok_def deploys_ok_def)

lemma db_ok_UpsertInstallation: "db_ok s \<Longrightarrow> db_ok (UpsertInstallation now u s)"
  by (auto simp: UpsertInstallation_def db_ok_def installs_ok_def upd_simps)

lemma db_ok_SuspendInstallation: "db_ok s \<Longrightarrow> db_ok (SuspendInstallation now i b s)"
  by (simp add: SuspendInstallation_def db_ok_def installs_ok_def upd_simps)

lemma db_ok_DeleteInstallation: "db_ok s \<Longrightarrow> db_ok (DeleteInstallation i s)"
  by (auto simp: DeleteInstallation_def db_ok_def installs_ok_def distinct_map_filter_key)

lemma db_ok_exec_upsert_repo: "db_ok s \<Longrightarrow> db_ok (snd (exec_upsert_repo inst r s))"
  by (auto simp: exec_upsert_repo_def db_ok_def installs_ok_def upd_simps)

lemma owner_is_user:
  "installs_ok s \<Longrightarrow> lookup_inst s i = Some r \<Longrightarrow> in_owner r = Some u \<Longrightarrow> u \<in> u_id ` set (users s)"
  using lookup_inst_Some[of s i r] by (auto simp: installs_ok_def)

lemma deploys_ok_add_project:
  "deploys_ok s \<Longrightarrow> deploys_ok (s\<lparr> projects := projects s @ [p] \<rparr>)"
  by (auto simp: deploys_ok_def)

lemma extras_ok_add_project:
  "extras_ok s \<Longrightarrow> extras_ok (s\<lparr> projects := projects s @ [p] \<rparr>)"
  by (auto simp: extras_ok_def)

lemma projects_ok_add_project:
  assumes "projects_ok s" "p_id p \<notin> p_id ` set (projects s)" "p_slug p \<notin> p_slug ` set (projects s)"
    "(p_inst p, p_repo p) \<notin> set (map (\<lambda>p. (p_inst p, p_repo p)) (projects s))"
    "\<And>u. p_owner p = Some u \<Longrightarrow> u \<in> u_id ` set (users s)" "p_prod_dep p = None"
  shows "projects_ok (s\<lparr> projects := projects s @ [p] \<rparr>)"
  using assms by (simp add: projects_ok_def)

lemma db_ok_exec_insert_project:
  assumes "db_ok s"
  shows "db_ok (snd (exec_insert_project now inst repo fn br fresh s))"
proof (cases "lookup_inst s inst")
  case (Some i)
  have own: "\<And>u. in_owner i = Some u \<Longrightarrow> u \<in> u_id ` set (users s)"
    using assms Some owner_is_user by (auto simp: db_ok_def)
  show ?thesis using assms Some own
    by (auto simp: exec_insert_project_def db_ok_def intro!: projects_ok_add_project
        deploys_ok_add_project extras_ok_add_project)
qed (simp add: exec_insert_project_def assms)

lemma db_ok_exec_add_stmt: "db_ok s \<Longrightarrow> db_ok (snd (exec_add_stmt now inst st s))"
  using db_ok_exec_upsert_repo[of s inst]
    db_ok_exec_insert_project[of s now inst]
  by (auto simp: exec_add_stmt_def split: add_stmt.splits prod.splits sum.splits) (metis snd_conv)+

lemma db_ok_exec_stmts: "db_ok s \<Longrightarrow> db_ok (snd (exec_stmts now inst sts s))"
proof (induction sts arbitrary: s)
  case (Cons st sts)
  have "db_ok (snd (exec_add_stmt now inst st s))" by (rule db_ok_exec_add_stmt[OF Cons.prems])
  then show ?case using Cons.IH by (auto split: prod.splits sum.splits)
qed simp

lemma db_ok_AddRepos:
  assumes "db_ok s"
  shows "db_ok (snd (AddRepos now inst repos cap s))"
  using assms db_ok_exec_stmts[OF assms, of now inst]
  by (auto simp: AddRepos_def Let_def split: prod.splits sum.splits) (metis snd_conv)+

lemma db_ok_upd_repos:
  assumes "db_ok s" "\<And>r. ir_inst (f r) = ir_inst r" "\<And>r. ir_repo (f r) = ir_repo r"
  shows "db_ok (s\<lparr> install_repos := upd_where P f (install_repos s) \<rparr>)"
  using assms by (auto simp: db_ok_def installs_ok_def upd_simps)

lemma db_ok_RemoveRepos: "db_ok s \<Longrightarrow> db_ok (RemoveRepos now inst ids s)"
  by (auto simp: RemoveRepos_def intro: db_ok_upd_repos)

lemma db_ok_reconcile: "db_ok s \<Longrightarrow> db_ok (snd (reconcile_orphans now fresh os created s))"
proof (induction os arbitrary: created s)
  case (Cons o1 os)
  have "db_ok (snd (exec_insert_project now (or_inst o1) (or_repo o1) (or_full_name o1)
          (if or_branch o1 = '''' then ''main'' else or_branch o1)
          (fresh (or_inst o1) (or_repo o1)) s))"
    by (rule db_ok_exec_insert_project[OF Cons.prems])
  then show ?case using Cons.IH by (auto split: prod.splits sum.splits)
qed simp

lemma db_ok_ReconcileOrphanRepos: "db_ok s \<Longrightarrow> db_ok (snd (ReconcileOrphanRepos now fresh s))"
  by (simp add: ReconcileOrphanRepos_def db_ok_reconcile)

text \<open>Updating projects in place, without touching their keys or references.\<close>
lemma db_ok_upd_projects:
  assumes "db_ok s" "\<And>p. p_id (f p) = p_id p" "\<And>p. p_slug (f p) = p_slug p"
    "\<And>p. p_inst (f p) = p_inst p" "\<And>p. p_repo (f p) = p_repo p"
    "\<And>p u. p_owner (f p) = Some u \<Longrightarrow> p_owner p = Some u \<or> u \<in> u_id ` set (users s)"
    "\<And>p d. p_prod_dep (f p) = Some d \<Longrightarrow> p_prod_dep p = Some d \<or> d \<in> d_id ` set (deployments s)"
  shows "db_ok (s\<lparr> projects := upd_where P f (projects s) \<rparr>)"
proof -
  have "p_id ` set (upd_where P f (projects s)) = p_id ` set (projects s)"
    using assms(2) by (rule image_upd_where)
  then have "deploys_ok (s\<lparr> projects := upd_where P f (projects s) \<rparr>)"
    "extras_ok (s\<lparr> projects := upd_where P f (projects s) \<rparr>)"
    using assms(1) by (simp_all add: db_ok_def deploys_ok_def extras_ok_def)
  moreover have "projects_ok (s\<lparr> projects := upd_where P f (projects s) \<rparr>)"
    using assms by (auto simp: db_ok_def projects_ok_def upd_simps split: if_splits; blast)
  ultimately show ?thesis using assms(1) by (simp add: db_ok_def)
qed

lemma db_ok_UpdateProjectDisplayName: "db_ok s \<Longrightarrow> db_ok (UpdateProjectDisplayName pid name s)"
  unfolding UpdateProjectDisplayName_def by (rule db_ok_upd_projects) simp_all

lemma db_ok_UpdateProjectProductionBranch:
  assumes "db_ok s"
  shows "db_ok (UpdateProjectProductionBranch pid b s)"
proof -
  have "db_ok (s\<lparr> projects := upd_where (\<lambda>p. p_id p = pid) (\<lambda>p. p\<lparr> p_branch := b \<rparr>) (projects s) \<rparr>)"
    by (rule db_ok_upd_projects) (simp_all add: assms)
  from db_ok_upd_repos[OF this, of "\<lambda>r. r\<lparr> ir_branch := Some b \<rparr>"]
  show ?thesis by (simp add: UpdateProjectProductionBranch_def Let_def)
qed

lemma db_ok_UpsertUser:
  assumes "db_ok s"
  shows "db_ok (snd (UpsertUserFromGitHub now fresh i s))"
proof (cases "find (\<lambda>u. u_github u = uu_github i) (users s)")
  case (Some u)
  let ?f = "\<lambda>u. u\<lparr> u_login := uu_login i, u_email := coalesce2 (nullif (uu_email i) '''') (u_email u),
     u_avatar := coalesce2 (nullif (uu_avatar i) '''') (u_avatar u),
     u_token := coalesce2 (nullif (uu_token i) '''') (u_token u),
     u_token_exp := coalesce2 (uu_expires i) (u_token_exp u), u_last_login := now \<rparr>"
  have "u_id ` set (upd_where (\<lambda>u. u_github u = uu_github i) ?f (users s)) = u_id ` set (users s)"
    by (rule image_upd_where) simp
  then show ?thesis using assms Some
    by (simp add: UpsertUserFromGitHub_def db_ok_def installs_ok_def projects_ok_def users_ok_def
        map_upd_where)
next
  case None
  then have "uu_github i \<notin> u_github ` set (users s)" by (auto simp: find_None_iff_bex)
  then show ?thesis using assms None
    by (auto simp: UpsertUserFromGitHub_def db_ok_def installs_ok_def projects_ok_def users_ok_def)
qed

lemma db_ok_CreateSession: "db_ok s \<Longrightarrow> db_ok (snd (CreateSession r s))"
  by (simp add: CreateSession_def db_ok_def users_ok_def)

lemma db_ok_DeleteSession: "db_ok s \<Longrightarrow> db_ok (DeleteSession h s)"
  by (auto simp: DeleteSession_def db_ok_def users_ok_def distinct_map_filter_key)

lemma db_ok_upd_installs:
  assumes "db_ok s" "\<And>i. in_id (f i) = in_id i"
    "\<And>i u. in_owner (f i) = Some u \<Longrightarrow> in_owner i = Some u \<or> u \<in> u_id ` set (users s)"
  shows "db_ok (s\<lparr> installations := upd_where P f (installations s) \<rparr>)"
proof -
  have "in_id ` set (upd_where P f (installations s)) = in_id ` set (installations s)"
    using assms(2) by (rule image_upd_where)
  then show ?thesis
    using assms by (auto simp: db_ok_def installs_ok_def map_upd_where ball_upd_where split: if_splits; blast)
qed

lemma db_ok_ClaimInstallations:
  assumes "db_ok s"
  shows "db_ok (snd (ClaimInstallationsForUser now uid acc s))"
proof -
  let ?hit = "\<lambda>i. in_account i = acc \<and> in_owner i \<noteq> Some uid"
  let ?insts = "upd_where ?hit (\<lambda>i. i\<lparr> in_owner := Some uid, in_updated := now \<rparr>) (installations s)"
  let ?mine = "map in_id (filter (\<lambda>i. in_owner i = Some uid) ?insts)"
  show ?thesis
  proof (cases "uid \<in> u_id ` set (users s)")
    case True
    have 1: "db_ok (s\<lparr> installations := ?insts \<rparr>)"
      by (rule db_ok_upd_installs) (use assms True in auto)
    have "db_ok (s\<lparr> installations := ?insts, projects := upd_where
             (\<lambda>p. p_inst p \<in> set ?mine \<and> p_owner p \<noteq> Some uid)
             (\<lambda>p. p\<lparr> p_owner := Some uid \<rparr>) (projects s) \<rparr>)"
      using db_ok_upd_projects[OF 1, of "\<lambda>p. p\<lparr> p_owner := Some uid \<rparr>"] True by simp
    then show ?thesis using assms by (simp add: ClaimInstallationsForUser_def Let_def)
  next
    case False
    then have own: "\<And>i. i \<in> set (installations s) \<Longrightarrow> in_owner i \<noteq> Some uid"
      using assms by (auto simp: db_ok_def installs_ok_def)
    show ?thesis
    proof (cases "count_where ?hit (installations s) > 0")
      case True
      then show ?thesis using False assms by (simp add: ClaimInstallationsForUser_def Let_def)
    next
      case none: False
      then have "\<And>i. i \<in> set (installations s) \<Longrightarrow> \<not> ?hit i"
        by (auto simp: count_where_def filter_empty_conv)
      then have "?insts = installations s" by (intro upd_where_id) blast
      then have "?mine = []" using own by (auto simp: filter_empty_conv)
      then show ?thesis using none assms \<open>?insts = installations s\<close>
        by (simp add: ClaimInstallationsForUser_def Let_def upd_where_id)
    qed
  qed
qed

lemma db_ok_LinkInstallation:
  assumes "db_ok s"
  shows "db_ok (LinkInstallationByGitHubAccount now inst acc s)"
proof (cases "find (\<lambda>u. u_github u = acc) (users s)")
  case (Some u)
  then have "u_id u \<in> u_id ` set (users s)" by (auto dest: find_SomeD)
  then have "db_ok (s\<lparr> installations := upd_where (\<lambda>i. in_id i = inst \<and> in_owner i \<noteq> Some (u_id u))
               (\<lambda>i. i\<lparr> in_owner := Some (u_id u), in_updated := now \<rparr>) (installations s) \<rparr>)"
    by (intro db_ok_upd_installs) (use assms in auto)
  then show ?thesis by (simp add: LinkInstallationByGitHubAccount_def Some)
qed (simp add: LinkInstallationByGitHubAccount_def assms)

lemma db_ok_SetProjectOwner:
  assumes "db_ok s"
  shows "db_ok (SetProjectOwnerByInstallation inst s)"
proof (cases "lookup_inst s inst")
  case i: (Some i)
  show ?thesis
  proof (cases "in_owner i")
    case (Some u)
    then have "u \<in> u_id ` set (users s)" using assms i owner_is_user by (auto simp: db_ok_def)
    then have "db_ok (s\<lparr> projects := upd_where (\<lambda>p. p_inst p = inst \<and> p_owner p \<noteq> Some u)
                 (\<lambda>p. p\<lparr> p_owner := Some u \<rparr>) (projects s) \<rparr>)"
      by (intro db_ok_upd_projects) (use assms in auto)
    then show ?thesis by (simp add: SetProjectOwnerByInstallation_def i Some)
  qed (simp add: SetProjectOwnerByInstallation_def i assms)
qed (simp add: SetProjectOwnerByInstallation_def assms)

section \<open>Deployments\<close>

lemma db_ok_insert_deployment: "db_ok s \<Longrightarrow> db_ok (snd (insert_deployment d s))"
  by (auto simp: insert_deployment_def db_ok_def deploys_ok_def projects_ok_def)

lemma snd_case_sum [simp]:
  "snd (case r of (Inl e, s') \<Rightarrow> (f e, s') | (Inr x, s') \<Rightarrow> (g x, s')) = snd r"
  by (cases r; cases "fst r") auto

lemma snd_EnqueueDeployment:
  "snd (EnqueueDeployment now fresh inst repo sha ref dlv trig opt s) = s \<or>
   (\<exists>d. snd (EnqueueDeployment now fresh inst repo sha ref dlv trig opt s) = snd (insert_deployment d s))"
  by (cases "project_by_repo inst repo s") (simp_all add: EnqueueDeployment_def Let_def, blast)

lemma snd_EnqueueRedeploy:
  "snd (EnqueueRedeploy now fresh src uid s) = s \<or>
   (\<exists>d. snd (EnqueueRedeploy now fresh src uid s) = snd (insert_deployment d s))"
proof (cases "lookup_dep s src")
  case (Some d)
  then show ?thesis
    by (cases "lookup_project s (d_project d)") (simp_all add: EnqueueRedeploy_def, blast)
qed (simp add: EnqueueRedeploy_def)

lemma db_ok_EnqueueDeployment:
  assumes "db_ok s"
  shows "db_ok (snd (EnqueueDeployment now fresh inst repo sha ref dlv trig opt s))"
  using snd_EnqueueDeployment[of now fresh inst repo sha ref dlv trig opt s] assms
    db_ok_insert_deployment[OF assms] by metis

lemma db_ok_EnqueueRedeploy:
  assumes "db_ok s"
  shows "db_ok (snd (EnqueueRedeploy now fresh src uid s))"
  using snd_EnqueueRedeploy[of now fresh src uid s] assms db_ok_insert_deployment[OF assms] by metis

lemma db_ok_upd_deployments:
  assumes "db_ok s" "\<And>d. d_id (f d) = d_id d" "\<And>d. d_project (f d) = d_project d"
  shows "db_ok (s\<lparr> deployments := upd_where P f (deployments s) \<rparr>)"
  using assms by (simp add: db_ok_def deploys_ok_def projects_ok_def upd_simps)

lemma db_ok_set_dep:
  "db_ok s \<Longrightarrow> (\<And>d. d_id (f d) = d_id d) \<Longrightarrow> (\<And>d. d_project (f d) = d_project d) \<Longrightarrow> db_ok (set_dep did f s)"
  unfolding set_dep_def by (rule db_ok_upd_deployments)

lemma db_ok_ClaimNextQueued:
  assumes "db_ok s"
  shows "db_ok (snd (ClaimNextQueued now s))"
  by (rule ClaimNextQueued_cases[of s now])
     (use assms in \<open>auto intro!: db_ok_set_dep simp: start_build_def\<close>)

lemma db_ok_marks:
  assumes "db_ok s"
  shows "db_ok (MarkDeploying now did img s)" "db_ok (MarkReady now did url s)"
    "db_ok (MarkFailed now did reason s)" "db_ok (MarkFailedIfInFlight now did reason s)"
  unfolding MarkDeploying_def MarkReady_def MarkFailed_def MarkFailedIfInFlight_def
  by (auto intro!: db_ok_set_dep db_ok_upd_deployments assms simp: fail_row_def)

lemma db_ok_requeues:
  assumes "db_ok s"
  shows "db_ok (snd (RequeueDeployment did reason s))" "db_ok (snd (RequeueStale now age s))"
    "db_ok (snd (RequeueStuck s))"
  unfolding RequeueDeployment_def RequeueStale_def RequeueStuck_def Let_def snd_conv
  by (auto intro!: db_ok_upd_deployments assms simp: requeue_row_def)

lemma db_ok_SetProductionDeployment:
  assumes "db_ok s"
  shows "db_ok (snd (SetProductionDeployment pid did s))"
proof (cases "did \<in> d_id ` set (deployments s)")
  case True
  then have "db_ok (s\<lparr> projects := upd_where (\<lambda>p. p_id p = pid) (\<lambda>p. p\<lparr> p_prod_dep := Some did \<rparr>) (projects s) \<rparr>)"
    by (intro db_ok_upd_projects) (use assms in auto)
  then show ?thesis using assms by (simp add: SetProductionDeployment_def)
next
  case False
  then have "upd_where (\<lambda>p. p_id p = pid) (\<lambda>p. p\<lparr> p_prod_dep := Some did \<rparr>) (projects s) = projects s"
    if "pid \<notin> p_id ` set (projects s)" using that by (intro upd_where_id) auto
  then show ?thesis using False assms by (auto simp: SetProductionDeployment_def)
qed

section \<open>Databases, environment, domains, waitlist, deletion\<close>

lemma db_ok_CreateProjectDatabase: "db_ok s \<Longrightarrow> db_ok (snd (CreateProjectDatabase x s))"
  by (simp add: CreateProjectDatabase_def db_ok_def extras_ok_def)

lemma env_pairs: "(\<lambda>v. (ev_project v, ev_name v)) = env_key"
  by (rule ext) (simp add: env_key_def)

lemma db_ok_UpsertProjectEnv:
  assumes "db_ok s"
  shows "db_ok (snd (UpsertProjectEnv now pid name v s))"
proof -
  let ?f = "\<lambda>x. x\<lparr> ev_value := v, ev_updated := now \<rparr>"
  have key: "map env_key (upd_where P ?f vs) = map env_key vs" for P vs
    by (rule map_upd_where) (simp add: env_key_def)
  have "env_check (if env_key x = (pid, name) then ?f x else x)"
    if "x \<in> set (env_vars s)" "env_check \<lparr> ev_project = pid, ev_name = name, ev_value = v, ev_updated = now \<rparr>" for x
    using that assms by (auto simp: db_ok_def extras_ok_def env_check_def env_key_def)
  then show ?thesis using assms
    by (auto simp: UpsertProjectEnv_def Let_def db_ok_def extras_ok_def env_pairs key
        ball_upd_where) (auto simp: env_key_def split: if_splits)
qed

lemma db_ok_DeleteProjectEnv: "db_ok s \<Longrightarrow> db_ok (snd (DeleteProjectEnv pid name s))"
  by (auto simp: DeleteProjectEnv_def db_ok_def extras_ok_def distinct_map_filter_key)

lemma db_ok_insert_domain: "db_ok s \<Longrightarrow> db_ok (snd (insert_domain d s))"
  by (simp add: insert_domain_def db_ok_def extras_ok_def)

lemma db_ok_AddProjectDomain:
  assumes "db_ok s"
  shows "db_ok (snd (AddProjectDomain now rnd pid h s))"
  using assms db_ok_insert_domain[OF assms]
  by (auto simp: AddProjectDomain_def Let_def split: option.splits prod.splits sum.splits)

lemma db_ok_MarkDomainVerified: "db_ok s \<Longrightarrow> db_ok (snd (MarkDomainVerified now pid h s))"
  by (simp add: MarkDomainVerified_def Let_def db_ok_def extras_ok_def upd_simps)

lemma db_ok_DeleteProjectDomain: "db_ok s \<Longrightarrow> db_ok (snd (DeleteProjectDomain pid h s))"
  by (auto simp: DeleteProjectDomain_def db_ok_def extras_ok_def distinct_map_filter_key)

lemma db_ok_UpsertWaitlistSignup: "db_ok s \<Longrightarrow> db_ok (snd (UpsertWaitlistSignup now fresh e u n c s))"
  by (auto simp: UpsertWaitlistSignup_def db_ok_def extras_ok_def upd_simps split: if_splits)

lemma db_ok_DeleteProject:
  assumes "db_ok s"
  shows "db_ok (snd (DeleteProject pid s))"
proof -
  let ?gone = "ListDeploymentIDsForProject s pid"
  let ?f = "\<lambda>p. p\<lparr> p_prod_dep := None \<rparr>"
  let ?P = "\<lambda>p. \<exists>d \<in> set ?gone. p_prod_dep p = Some d"
  let ?ps = "upd_where ?P ?f (filter (\<lambda>p. p_id p \<noteq> pid) (projects s))"
  have ids: "p_id ` set ?ps = p_id ` set (filter (\<lambda>p. p_id p \<noteq> pid) (projects s))"
    by (rule image_upd_where) simp
  have keep: "d \<in> d_id ` set (filter (\<lambda>d. d_project d \<noteq> pid) (deployments s))"
    if "d \<in> d_id ` set (deployments s)" "d \<notin> set ?gone" for d
    using that by (auto simp: ListDeploymentIDsForProject_def)
  have "projects_ok (snd (DeleteProject pid s))"
    using assms keep
    by (auto simp: DeleteProject_def Let_def db_ok_def projects_ok_def map_upd_where
        distinct_map_filter_key ball_upd_where split: if_splits)
  moreover have "installs_ok (snd (DeleteProject pid s))" "users_ok (snd (DeleteProject pid s))"
    using assms by (simp_all add: DeleteProject_def Let_def db_ok_def)
  moreover have "deploys_ok (snd (DeleteProject pid s))" "extras_ok (snd (DeleteProject pid s))"
    using assms ids
    by (auto simp: DeleteProject_def Let_def db_ok_def deploys_ok_def extras_ok_def
        distinct_map_filter_key)
  ultimately show ?thesis by (simp add: db_ok_def)
qed

section \<open>Reachable databases\<close>

inductive db_step :: "db \<Rightarrow> db \<Rightarrow> bool" where
  delivery: "db_step s (snd (RecordDelivery v now i e a n r pl s))"
| install: "db_step s (UpsertInstallation now u s)"
| suspend: "db_step s (SuspendInstallation now i b s)"
| uninstall: "db_step s (DeleteInstallation i s)"
| add_repos: "db_step s (snd (AddRepos now inst repos cap s))"
| remove_repos: "db_step s (RemoveRepos now inst ids s)"
| reconcile: "db_step s (snd (ReconcileOrphanRepos now fr s))"
| display: "db_step s (UpdateProjectDisplayName pid name s)"
| branch: "db_step s (UpdateProjectProductionBranch pid name s)"
| upsert_user: "db_step s (snd (UpsertUserFromGitHub now f uu s))"
| login: "db_step s (snd (CreateSession sr s))"
| logout: "db_step s (DeleteSession h s)"
| claim_inst: "db_step s (snd (ClaimInstallationsForUser now uid acc s))"
| link: "db_step s (LinkInstallationByGitHubAccount now inst acc s)"
| set_owner: "db_step s (SetProjectOwnerByInstallation inst s)"
| enqueue: "db_step s (snd (EnqueueDeployment now f inst repo sha ref dlv trig opt s))"
| redeploy: "db_step s (snd (EnqueueRedeploy now f src uid s))"
| claim: "db_step s (snd (ClaimNextQueued now s))"
| deploying: "db_step s (MarkDeploying now did img s)"
| ready: "db_step s (MarkReady now did url s)"
| failed: "db_step s (MarkFailed now did reason s)"
| failed_if: "db_step s (MarkFailedIfInFlight now did reason s)"
| requeue: "db_step s (snd (RequeueDeployment did reason s))"
| requeue_stale: "db_step s (snd (RequeueStale now age s))"
| requeue_stuck: "db_step s (snd (RequeueStuck s))"
| set_prod: "db_step s (snd (SetProductionDeployment pid did s))"
| create_db: "db_step s (snd (CreateProjectDatabase x s))"
| put_env: "db_step s (snd (UpsertProjectEnv now pid name v s))" for v :: string
| del_env: "db_step s (snd (DeleteProjectEnv pid name s))"
| add_domain: "db_step s (snd (AddProjectDomain now rnd pid h s))"
| verify_domain: "db_step s (snd (MarkDomainVerified now pid h s))"
| del_domain: "db_step s (snd (DeleteProjectDomain pid h s))"
| waitlist: "db_step s (snd (UpsertWaitlistSignup now f em uc nm col s))"
| del_project: "db_step s (snd (DeleteProject pid s))"

lemmas db_ok_ops = db_ok_RecordDelivery db_ok_UpsertInstallation db_ok_SuspendInstallation
  db_ok_DeleteInstallation db_ok_AddRepos db_ok_RemoveRepos db_ok_ReconcileOrphanRepos
  db_ok_UpdateProjectDisplayName db_ok_UpdateProjectProductionBranch db_ok_UpsertUser
  db_ok_CreateSession db_ok_DeleteSession db_ok_ClaimInstallations db_ok_LinkInstallation
  db_ok_SetProjectOwner db_ok_EnqueueDeployment db_ok_EnqueueRedeploy db_ok_ClaimNextQueued
  db_ok_marks db_ok_requeues db_ok_SetProductionDeployment db_ok_CreateProjectDatabase
  db_ok_UpsertProjectEnv db_ok_DeleteProjectEnv db_ok_AddProjectDomain db_ok_MarkDomainVerified
  db_ok_DeleteProjectDomain db_ok_UpsertWaitlistSignup db_ok_DeleteProject

lemma db_step_ok: "db_step s s' \<Longrightarrow> db_ok s \<Longrightarrow> db_ok s'"
  by (induction rule: db_step.induct) (rule db_ok_ops; assumption)+

abbreviation db_steps :: "db \<Rightarrow> db \<Rightarrow> bool" where "db_steps \<equiv> db_step\<^sup>*\<^sup>*"

lemma step1: "db_step s s' \<Longrightarrow> db_steps s s'" by (rule r_into_rtranclp)

lemma db_steps_ok: "db_steps s s' \<Longrightarrow> db_ok s \<Longrightarrow> db_ok s'"
  by (induction rule: rtranclp_induct) (auto dest: db_step_ok)

lemma steps_enqueue: "EnqueueDeployment now f inst repo sha ref dlv trig opt s = (q, d) \<Longrightarrow> db_steps s d"
  by (metis db_step.enqueue step1 snd_conv)

text \<open>What every other development may assume of a database: it is reachable from the empty one by the 34 operations, so its constraints hold.  PostgreSQL
  enforces them, and the operations model its refusals: a statement that would violate one fails and leaves the tables as they were.\<close>
theorem reachable_db_ok:
  assumes "db_step\<^sup>*\<^sup>* empty_db s"
  shows "db_ok s"
  using assms by (induction rule: rtranclp_induct) (auto simp: db_ok_empty dest: db_step_ok)

theorem reachable_db_ok_witness:
  "db_ok (UpsertInstallation 5 \<lparr> iu_id = 7, iu_login = ''octo'', iu_account = 42, iu_target = ''User'' \<rparr> empty_db)
   \<and> installations (UpsertInstallation 5 \<lparr> iu_id = 7, iu_login = ''octo'', iu_account = 42,
        iu_target = ''User'' \<rparr> empty_db) \<noteq> []"
proof
  let ?u = "\<lparr> iu_id = 7, iu_login = ''octo'', iu_account = 42, iu_target = ''User'' \<rparr>"
  have "db_step\<^sup>*\<^sup>* empty_db (UpsertInstallation 5 ?u empty_db)"
    by (rule r_into_rtranclp) (rule db_step.install)
  then show "db_ok (UpsertInstallation 5 ?u empty_db)" by (rule reachable_db_ok)
qed (simp add: UpsertInstallation_def empty_db_def)

section \<open>The per-user project cap\<close>

lemma snd_exec_upsert_repo_projects [simp]: "projects (snd (exec_upsert_repo inst r s)) = projects s"
  by (simp add: exec_upsert_repo_def)

lemma lookup_inst_exec_add [simp]:
  "lookup_inst (snd (exec_add_stmt now inst st s)) i = lookup_inst s i"
  by (cases st) (auto simp: exec_add_stmt_def exec_upsert_repo_def exec_insert_project_def lookup_inst_def
      split: option.splits)

definition inserts :: "add_stmt list \<Rightarrow> nat" where
  "inserts sts = length (filter (\<lambda>st. case st of Insert_project _ _ \<Rightarrow> True | _ \<Rightarrow> False) sts)"

lemma count_exec_add:
  "count_where Q (projects (snd (exec_add_stmt now inst st s)))
     \<le> count_where Q (projects s) + inserts [st]"
  by (cases st) (auto simp: exec_add_stmt_def exec_insert_project_def inserts_def count_where_def
      split: option.splits)

lemma count_exec_stmts:
  "count_where Q (projects (snd (exec_stmts now inst sts s))) \<le> count_where Q (projects s) + inserts sts"
proof (induction sts arbitrary: s)
  case (Cons st sts)
  let ?s = "snd (exec_add_stmt now inst st s)"
  have 1: "count_where Q (projects ?s) \<le> count_where Q (projects s) + inserts [st]" by (rule count_exec_add)
  have 2: "count_where Q (projects (snd (exec_stmts now inst sts ?s)))
      \<le> count_where Q (projects ?s) + inserts sts" by (rule Cons.IH)
  have "inserts (st # sts) = inserts [st] + inserts sts" by (simp add: inserts_def)
  then show ?case using 1 2 by (auto split: prod.splits sum.splits)
qed (simp add: inserts_def)

lemma inserts_add_batch:
  assumes "cap > 0" "own \<noteq> None" "own \<noteq> Some ''''"
  shows "int (inserts (add_batch cap own existing rs)) \<le> max 0 (cap - existing)"
  using assms
  by (induction cap own existing rs rule: add_batch.induct) (auto simp: inserts_def)

text \<open>C13: the cap holds: adding any list of repositories to an installation that has an owner never
  gives that owner more projects than the larger of the cap and what the owner already had.\<close>
theorem AddRepos_respects_cap:
  assumes "cap > 0" "lookup_inst s inst = Some i" "in_owner i = Some u" "u \<noteq> ''''"
  shows "int (CountProjectsForUser u (snd (AddRepos now inst repos cap s)))
           \<le> max cap (int (CountProjectsForUser u s))"
proof (cases "repos = []")
  case False
  let ?e = "int (CountProjectsForUser u s)"
  let ?b = "add_batch cap (Some u) ?e repos"
  have own: "add_owner cap inst s = Some u" using assms by (simp add: add_owner_def)
  have "int (inserts ?b) \<le> max 0 (cap - ?e)"
    by (rule inserts_add_batch) (use assms in auto)
  moreover have "count_where (\<lambda>p. p_owner p = Some u) (projects (snd (exec_stmts now inst ?b s)))
      \<le> count_where (\<lambda>p. p_owner p = Some u) (projects s) + inserts ?b"
    by (rule count_exec_stmts)
  ultimately show ?thesis using False own assms(4)
    by (auto simp: AddRepos_def Let_def CountProjectsForUser_def split: prod.splits sum.splits)
qed (simp add: AddRepos_def)

theorem AddRepos_respects_cap_witness:
  "int (CountProjectsForUser ''u1'' (snd (AddRepos 5 7
      [(\<lparr> rr_id = 1, rr_full_name = ''octo/a'', rr_private = False, rr_branch = '''' \<rparr>, ''q1''),
       (\<lparr> rr_id = 2, rr_full_name = ''octo/b'', rr_private = False, rr_branch = '''' \<rparr>, ''q2'')] 1 (demo_db [])))) \<le> 1"
proof -
  let ?rs = "[(\<lparr> rr_id = 1, rr_full_name = ''octo/a'', rr_private = False, rr_branch = '''' \<rparr>, ''q1''),
       (\<lparr> rr_id = 2, rr_full_name = ''octo/b'', rr_private = False, rr_branch = '''' \<rparr>, ''q2'')]"
  have i: "lookup_inst (demo_db []) 7 = Some demo_install" "in_owner demo_install = Some ''u1''"
    by (simp_all add: demo_defs lookup_inst_def)
  have c: "CountProjectsForUser ''u1'' (demo_db []) \<le> 1"
    by (simp add: CountProjectsForUser_def demo_defs count_where_def)
  have "int (CountProjectsForUser ''u1'' (snd (AddRepos 5 7 ?rs 1 (demo_db []))))
      \<le> max 1 (int (CountProjectsForUser ''u1'' (demo_db [])))"
    by (rule AddRepos_respects_cap) (use i in auto)
  then show ?thesis using c by simp
qed

end
