(* ===== verification/Kube.thy ===== *)
theory Kube
  imports Idents "HOL-Library.AList"
begin

text \<open>
  The Kubernetes REST client of \<open>k8s.go\<close>.  JSON values are \<open>json\<close>; the API server is code outside the
  repository and therefore a parameter \<open>api\<close> of every operation: it maps a request and the
  cluster state (of an arbitrary type) to a response and a new state.  The client state also
  records the requests issued, so that theorems can speak about them.  Errors are the error
  strings of the Go code; \<open>None\<close> is the nil error.
\<close>

section \<open>JSON\<close>

datatype json = JNull | JBool bool | JInt int | JStr string | JArr "json list" | JObj "(string \<times> json) list"

definition jget :: "json \<Rightarrow> string \<Rightarrow> json option" where
  "jget j k = (case j of JObj kvs \<Rightarrow> map_of kvs k | _ \<Rightarrow> None)"

fun jpath :: "json \<Rightarrow> string list \<Rightarrow> json option" where
  "jpath j [] = Some j"
| "jpath j (k # ks) = (case jget j k of None \<Rightarrow> None | Some v \<Rightarrow> jpath v ks)"

text \<open>Assignment \<open>m[k] = v\<close> to an object.\<close>
definition jset :: "string \<Rightarrow> json \<Rightarrow> json \<Rightarrow> json" where
  "jset k v j = (case j of JObj kvs \<Rightarrow> JObj (AList.update k v kvs) | _ \<Rightarrow> j)"

definition jstr :: "json option \<Rightarrow> string" where
  "jstr v = (case v of Some (JStr x) \<Rightarrow> x | _ \<Rightarrow> '''')"

definition jint :: "json option \<Rightarrow> int" where
  "jint v = (case v of Some (JInt x) \<Rightarrow> x | _ \<Rightarrow> 0)"

definition jarr :: "json option \<Rightarrow> json list" where
  "jarr v = (case v of Some (JArr xs) \<Rightarrow> xs | _ \<Rightarrow> [])"

definition jlabels :: "(string \<times> string) list \<Rightarrow> json" where
  "jlabels ls = JObj (map (\<lambda>(k, v). (k, JStr v)) ls)"

definition nestedString :: "json \<Rightarrow> string list \<Rightarrow> string option" where
  "nestedString j ks = (case jpath j ks of Some (JStr x) \<Rightarrow> Some x | _ \<Rightarrow> None)"

section \<open>Paths\<close>

definition hex_upper :: "nat \<Rightarrow> char" where
  "hex_upper n = (if n < 10 then char_of (48 + n) else char_of (55 + n))"

definition percent :: "char \<Rightarrow> string" where
  "percent c = [CHR ''%'', hex_upper (ccode c div 16), hex_upper (ccode c mod 16)]"

definition unreserved :: "char \<Rightarrow> bool" where
  "unreserved c \<longleftrightarrow> is_lower c \<or> is_upper c \<or> is_digit c \<or> c \<in> set ''-_.~''"

definition pathEscape :: "string \<Rightarrow> string" where
  "pathEscape s = concat (map (\<lambda>c. if unreserved c \<or> c \<in> set ''$&+=:@'' then [c] else percent c) s)"

definition queryEscape :: "string \<Rightarrow> string" where
  "queryEscape s =
     concat (map (\<lambda>c. if unreserved c then [c] else if c = CHR '' '' then ''+'' else percent c) s)"

lemma pathEscape_id: "(\<And>c. c \<in> set s \<Longrightarrow> unreserved c) \<Longrightarrow> pathEscape s = s"
  by (induction s) (auto simp: pathEscape_def)

section \<open>Requests\<close>

datatype meth = GET | POST | PUT | DELETE | PATCH

record kreq =
  rq_meth :: meth
  rq_path :: string
  rq_body :: "json option"

text \<open>A transport error, or a status with the body's text and its decoding (if it is JSON).\<close>
datatype kresp = Net_error string | Resp nat string "json option"

type_synonym 'k api = "kreq \<Rightarrow> 'k \<Rightarrow> kresp \<times> 'k"

record 'k kube =
  k_state :: 'k
  k_trace :: "kreq list"

type_synonym 'k kcmd = "'k kube \<Rightarrow> string option \<times> 'k kube"

definition kdo :: "'k api \<Rightarrow> meth \<Rightarrow> string \<Rightarrow> json option \<Rightarrow> 'k kube \<Rightarrow> kresp \<times> 'k kube" where
  "kdo api m path body s =
     (let r = \<lparr> rq_meth = m, rq_path = path, rq_body = body \<rparr>;
          (resp, k') = api r (k_state s)
      in (resp, \<lparr> k_state = k', k_trace = k_trace s @ [r] \<rparr>))"

definition ok2xx :: "nat \<Rightarrow> bool" where "ok2xx st \<longleftrightarrow> 200 \<le> st \<and> st < 300"

definition snippet :: "string \<Rightarrow> string" where
  "snippet b = trim_space (if length b > 400 then take 400 b else b)"

definition status_error :: "string \<Rightarrow> nat \<Rightarrow> string \<Rightarrow> string" where
  "status_error what st body = what @ '': status '' @ show_nat st @ '': '' @ snippet body"

definition kube_error :: "string \<Rightarrow> nat \<Rightarrow> string \<Rightarrow> string" where
  "kube_error what st body = what @ '': kube returned '' @ show_nat st @ '': '' @ body"

section \<open>Create or update\<close>

definition with_rv :: "string \<Rightarrow> json \<Rightarrow> json" where
  "with_rv rv obj =
     (case jget obj ''metadata'' of
        Some md \<Rightarrow> jset ''metadata'' (jset ''resourceVersion'' (JStr rv) md) obj
      | None \<Rightarrow> obj)"

definition kapply :: "'k api \<Rightarrow> string \<Rightarrow> string \<Rightarrow> json \<Rightarrow> 'k kcmd" where
  "kapply api coll name obj s =
     (case kdo api POST coll (Some obj) s of
        (Net_error e, s1) \<Rightarrow> (Some e, s1)
      | (Resp st body _, s1) \<Rightarrow>
          if ok2xx st then (None, s1)
          else if st \<noteq> 409 then (Some (status_error (''create '' @ coll) st body), s1)
          else
            (let p = coll @ ''/'' @ pathEscape name
             in case kdo api GET p None s1 of
                  (Net_error e, s2) \<Rightarrow> (Some e, s2)
                | (Resp st2 body2 j2, s2) \<Rightarrow>
                    if st2 \<noteq> 200
                    then (Some (status_error (''get '' @ p @ '' for update'') st2 body2), s2)
                    else (case j2 of
                            Some (JObj kvs) \<Rightarrow>
                              (case kdo api PUT p
                                      (Some (with_rv (jstr (jpath (JObj kvs) [''metadata'', ''resourceVersion''])) obj)) s2 of
                                 (Net_error e, s3) \<Rightarrow> (Some e, s3)
                               | (Resp st3 body3 _, s3) \<Rightarrow>
                                   if ok2xx st3 then (None, s3)
                                   else (Some (status_error (''update '' @ p) st3 body3), s3))
                          | _ \<Rightarrow> (Some ''decode existing'', s2))))"

section \<open>Jobs\<close>

record jobPhase =
  jp_succeeded :: int
  jp_failed :: int
  jp_active :: int
  jp_msg :: string

definition errJobExists :: string where "errJobExists = ''job already exists''"

definition ns_path :: "string \<Rightarrow> string \<Rightarrow> string \<Rightarrow> string" where
  "ns_path pre ns res = pre @ ''/namespaces/'' @ pathEscape ns @ ''/'' @ res"

definition createJob :: "'k api \<Rightarrow> string \<Rightarrow> json \<Rightarrow> 'k kcmd" where
  "createJob api ns job s =
     (case kdo api POST (ns_path ''/apis/batch/v1'' ns ''jobs'') (Some job) s of
        (Net_error e, s1) \<Rightarrow> (Some e, s1)
      | (Resp st body _, s1) \<Rightarrow>
          if st = 409 then (Some errJobExists, s1)
          else if \<not> ok2xx st then (Some (status_error ''create job'' st body), s1)
          else (None, s1))"

definition deleteJob :: "'k api \<Rightarrow> string \<Rightarrow> string \<Rightarrow> 'k kcmd" where
  "deleteJob api ns name s =
     (case kdo api DELETE (ns_path ''/apis/batch/v1'' ns ''jobs/'' @ pathEscape name
                             @ ''?propagationPolicy=Foreground'') None s of
        (Net_error e, s1) \<Rightarrow> (Some e, s1)
      | (Resp st body _, s1) \<Rightarrow>
          if st = 404 then (None, s1)
          else if \<not> ok2xx st then (Some (status_error ''delete job'' st body), s1)
          else (None, s1))"

text \<open>The last true \<open>Failed\<close> condition wins, as in the loop of \<open>getJobPhase\<close>.\<close>
fun failure_msg :: "json list \<Rightarrow> string \<Rightarrow> string" where
  "failure_msg [] msg = msg"
| "failure_msg (c # cs) msg =
     failure_msg cs
       (if jstr (jget c ''type'') = ''Failed'' \<and> jstr (jget c ''status'') = ''True''
        then trim_space (jstr (jget c ''reason'') @ '': '' @ jstr (jget c ''message'')) else msg)"

definition decode_job :: "json \<Rightarrow> jobPhase" where
  "decode_job j =
     \<lparr> jp_succeeded = jint (jpath j [''status'', ''succeeded'']),
       jp_failed = jint (jpath j [''status'', ''failed'']),
       jp_active = jint (jpath j [''status'', ''active'']),
       jp_msg = failure_msg (jarr (jpath j [''status'', ''conditions''])) '''' \<rparr>"

definition getJobPhase ::
  "'k api \<Rightarrow> string \<Rightarrow> string \<Rightarrow> 'k kube \<Rightarrow> (string, jobPhase option) result \<times> 'k kube" where
  "getJobPhase api ns name s =
     (case kdo api GET (ns_path ''/apis/batch/v1'' ns ''jobs/'' @ pathEscape name) None s of
        (Net_error e, s1) \<Rightarrow> (Inl e, s1)
      | (Resp st body j, s1) \<Rightarrow>
          if st = 404 then (Inr None, s1)
          else if \<not> ok2xx st then (Inl (status_error ''get job'' st body), s1)
          else (case j of None \<Rightarrow> (Inl ''decode job'', s1) | Some v \<Rightarrow> (Inr (Some (decode_job v)), s1)))"

section \<open>Secrets\<close>

text \<open>\<open>getSecretData\<close>; base64 decoding is a parameter (\<open>encoding/base64\<close>).\<close>
fun decode_data :: "(string \<Rightarrow> string option) \<Rightarrow> (string \<times> json) list \<Rightarrow> (string, (string \<times> string) list) result" where
  "decode_data b64 [] = Inr []"
| "decode_data b64 ((k, v) # kvs) =
     (case b64 (jstr (Some v)) of
        None \<Rightarrow> Inl (''decode key '' @ k)
      | Some x \<Rightarrow> (case decode_data b64 kvs of Inl e \<Rightarrow> Inl e | Inr r \<Rightarrow> Inr ((k, x) # r)))"

definition getSecretData ::
  "'k api \<Rightarrow> (string \<Rightarrow> string option) \<Rightarrow> string \<Rightarrow> string \<Rightarrow> 'k kube
     \<Rightarrow> (string, (string \<times> string) list option) result \<times> 'k kube" where
  "getSecretData api b64 ns name s =
     (case kdo api GET (ns_path ''/api/v1'' ns ''secrets/'' @ pathEscape name) None s of
        (Net_error e, s1) \<Rightarrow> (Inl e, s1)
      | (Resp st body j, s1) \<Rightarrow>
          if st = 404 then (Inr None, s1)
          else if \<not> ok2xx st
          then (Inl (status_error (''get secret '' @ ns @ ''/'' @ name) st body), s1)
          else (case j of
                  None \<Rightarrow> (Inl ''decode secret'', s1)
                | Some v \<Rightarrow>
                    (case decode_data b64 (case jget v ''data'' of Some (JObj kvs) \<Rightarrow> kvs | _ \<Rightarrow> []) of
                       Inl e \<Rightarrow> (Inl e, s1) | Inr d \<Rightarrow> (Inr (Some d), s1))))"

definition dockerConfigSecret :: "(string \<Rightarrow> string) \<Rightarrow> string \<Rightarrow> string \<Rightarrow> string \<Rightarrow> json" where
  "dockerConfigSecret enc ns name cfg = JObj
     [(''apiVersion'', JStr ''v1''), (''kind'', JStr ''Secret''),
      (''type'', JStr ''kubernetes.io/dockerconfigjson''),
      (''metadata'', JObj
        [(''name'', JStr name), (''namespace'', JStr ns),
         (''labels'', jlabels [(''app.kubernetes.io/managed-by'', ''control-plane''),
                               (''app.kubernetes.io/component'', ''registry-pull'')])]),
      (''data'', JObj [(''.dockerconfigjson'', JStr (enc cfg))])]"

definition applyDockerConfigSecret :: "'k api \<Rightarrow> (string \<Rightarrow> string) \<Rightarrow> string \<Rightarrow> string \<Rightarrow> string \<Rightarrow> 'k kcmd" where
  "applyDockerConfigSecret api enc ns name cfg =
     kapply api (ns_path ''/api/v1'' ns ''secrets'') name (dockerConfigSecret enc ns name cfg)"

definition secretManifest :: "string \<Rightarrow> string \<Rightarrow> (string \<times> string) list \<Rightarrow> (string \<times> string) list \<Rightarrow> json" where
  "secretManifest ns name stringData labels = JObj
     [(''apiVersion'', JStr ''v1''), (''kind'', JStr ''Secret''), (''type'', JStr ''Opaque''),
      (''metadata'', JObj [(''name'', JStr name), (''namespace'', JStr ns), (''labels'', jlabels labels)]),
      (''stringData'', jlabels stringData)]"

definition applySecret ::
  "'k api \<Rightarrow> string \<Rightarrow> string \<Rightarrow> (string \<times> string) list \<Rightarrow> (string \<times> string) list \<Rightarrow> 'k kcmd" where
  "applySecret api ns name stringData labels =
     kapply api (ns_path ''/api/v1'' ns ''secrets'') name (secretManifest ns name stringData labels)"

section \<open>Workloads\<close>

definition applyDeployment :: "'k api \<Rightarrow> string \<Rightarrow> string \<Rightarrow> json \<Rightarrow> 'k kcmd" where
  "applyDeployment api ns = kapply api (ns_path ''/apis/apps/v1'' ns ''deployments'')"

definition applyService :: "'k api \<Rightarrow> string \<Rightarrow> string \<Rightarrow> json \<Rightarrow> 'k kcmd" where
  "applyService api ns = kapply api (ns_path ''/api/v1'' ns ''services'')"

definition applyIngressRoute :: "'k api \<Rightarrow> string \<Rightarrow> string \<Rightarrow> json \<Rightarrow> 'k kcmd" where
  "applyIngressRoute api ns = kapply api (ns_path ''/apis/traefik.io/v1alpha1'' ns ''ingressroutes'')"

definition applyNamespace :: "'k api \<Rightarrow> string \<Rightarrow> json \<Rightarrow> 'k kcmd" where
  "applyNamespace api = kapply api ''/api/v1/namespaces''"

definition applyResourceQuota :: "'k api \<Rightarrow> string \<Rightarrow> string \<Rightarrow> json \<Rightarrow> 'k kcmd" where
  "applyResourceQuota api ns = kapply api (ns_path ''/api/v1'' ns ''resourcequotas'')"

definition applyLimitRange :: "'k api \<Rightarrow> string \<Rightarrow> string \<Rightarrow> json \<Rightarrow> 'k kcmd" where
  "applyLimitRange api ns = kapply api (ns_path ''/api/v1'' ns ''limitranges'')"

definition applyNetworkPolicy :: "'k api \<Rightarrow> string \<Rightarrow> string \<Rightarrow> json \<Rightarrow> 'k kcmd" where
  "applyNetworkPolicy api ns = kapply api (ns_path ''/apis/networking.k8s.io/v1'' ns ''networkpolicies'')"

definition item_names :: "json \<Rightarrow> string list" where
  "item_names j = map (\<lambda>i. jstr (jpath i [''metadata'', ''name''])) (jarr (jget j ''items''))"

definition listDeployments ::
  "'k api \<Rightarrow> string \<Rightarrow> string \<Rightarrow> 'k kube \<Rightarrow> (string, string list) result \<times> 'k kube" where
  "listDeployments api ns sel s =
     (case kdo api GET (ns_path ''/apis/apps/v1'' ns ''deployments?labelSelector='' @ queryEscape sel) None s of
        (Net_error e, s1) \<Rightarrow> (Inl e, s1)
      | (Resp st body j, s1) \<Rightarrow>
          if st \<noteq> 200 then (Inl (kube_error ''list deployments'' st body), s1)
          else (case j of None \<Rightarrow> (Inl ''decode deployments list'', s1)
                | Some v \<Rightarrow> (Inr (item_names v), s1)))"

definition patchDeploymentScale :: "'k api \<Rightarrow> string \<Rightarrow> string \<Rightarrow> int \<Rightarrow> 'k kcmd" where
  "patchDeploymentScale api ns name replicas s =
     (case kdo api PUT (ns_path ''/apis/apps/v1'' ns ''deployments/'' @ pathEscape name @ ''/scale'')
             (Some (JObj [(''apiVersion'', JStr ''autoscaling/v1''), (''kind'', JStr ''Scale''),
                (''metadata'', JObj [(''name'', JStr name), (''namespace'', JStr ns)]),
                (''spec'', JObj [(''replicas'', JInt replicas)])])) s of
        (Net_error e, s1) \<Rightarrow> (Some e, s1)
      | (Resp st body _, s1) \<Rightarrow>
          if st \<noteq> 200 then (Some (kube_error ''scale deployment'' st body), s1) else (None, s1))"

record deploymentScale =
  sc_desired :: int
  sc_ready :: int

text \<open>\<open>None\<close> is "not found" (the existence flag of \<open>getDeploymentScale\<close>).\<close>
definition getDeploymentScale ::
  "'k api \<Rightarrow> string \<Rightarrow> string \<Rightarrow> 'k kube \<Rightarrow> (string, deploymentScale option) result \<times> 'k kube" where
  "getDeploymentScale api ns name s =
     (case kdo api GET (ns_path ''/apis/apps/v1'' ns ''deployments/'' @ pathEscape name) None s of
        (Net_error e, s1) \<Rightarrow> (Inl e, s1)
      | (Resp st body j, s1) \<Rightarrow>
          if st = 404 then (Inr None, s1)
          else if st \<noteq> 200 then (Inl (kube_error ''get deployment'' st body), s1)
          else (case j of None \<Rightarrow> (Inl ''decode deployment'', s1)
                | Some v \<Rightarrow>
                    (Inr (Some \<lparr> sc_desired = jint (jpath v [''spec'', ''replicas'']),
                                 sc_ready = jint (jpath v [''status'', ''readyReplicas'']) \<rparr>), s1)))"

section \<open>Deletion\<close>

definition deleteIngressRoute :: "'k api \<Rightarrow> string \<Rightarrow> string \<Rightarrow> 'k kcmd" where
  "deleteIngressRoute api ns name s =
     (case kdo api DELETE (ns_path ''/apis/traefik.io/v1alpha1'' ns ''ingressroutes/'' @ pathEscape name) None s of
        (Net_error e, s1) \<Rightarrow> (Some e, s1)
      | (Resp st body _, s1) \<Rightarrow>
          if st = 404 \<or> st = 200 then (None, s1)
          else (Some (kube_error ''delete ingressroute'' st body), s1))"

definition listResourceNames :: "'k api \<Rightarrow> string \<Rightarrow> 'k kube \<Rightarrow> (string, string list) result \<times> 'k kube" where
  "listResourceNames api path s =
     (case kdo api GET path None s of
        (Net_error e, s1) \<Rightarrow> (Inl e, s1)
      | (Resp st body j, s1) \<Rightarrow>
          if st \<noteq> 200 then (Inl (status_error ''list resources'' st body), s1)
          else (case j of None \<Rightarrow> (Inl ''decode list'', s1) | Some v \<Rightarrow> (Inr (item_names v), s1)))"

definition deleteResource :: "'k api \<Rightarrow> string \<Rightarrow> 'k kcmd" where
  "deleteResource api path s =
     (case kdo api DELETE path None s of
        (Net_error e, s1) \<Rightarrow> (Some e, s1)
      | (Resp st body _, s1) \<Rightarrow>
          if st = 404 \<or> st = 200 then (None, s1)
          else (Some (status_error ''delete resource'' st body), s1))"

definition label_path :: "string \<Rightarrow> string \<Rightarrow> string \<Rightarrow> string" where
  "label_path pre ns res =
     ''/'' @ trim (\<lambda>c. c = CHR ''/'') pre @ ''/namespaces/'' @ pathEscape ns @ ''/'' @ res"

fun delete_names :: "'k api \<Rightarrow> string \<Rightarrow> string \<Rightarrow> string list \<Rightarrow> 'k kcmd" where
  "delete_names api base res [] s = (None, s)"
| "delete_names api base res (n # ns) s =
     (case deleteResource api (base @ ''/'' @ pathEscape n) s of
        (Some e, s1) \<Rightarrow> (Some (''delete '' @ res @ ''/'' @ n @ '': '' @ e), s1)
      | (None, s1) \<Rightarrow> delete_names api base res ns s1)"

definition deleteAllByLabel :: "'k api \<Rightarrow> string \<Rightarrow> string \<Rightarrow> string \<Rightarrow> string \<Rightarrow> 'k kcmd" where
  "deleteAllByLabel api ns pre res sel s =
     (let base = label_path pre ns res
      in case listResourceNames api (base @ ''?labelSelector='' @ queryEscape sel) s of
           (Inl e, s1) \<Rightarrow> (Some e, s1)
         | (Inr names, s1) \<Rightarrow> delete_names api base res names s1)"

definition deleteSecret :: "'k api \<Rightarrow> string \<Rightarrow> string \<Rightarrow> 'k kcmd" where
  "deleteSecret api ns name =
     deleteResource api (ns_path ''/api/v1'' ns ''secrets/'' @ pathEscape name)"

section \<open>Sequencing\<close>

text \<open>\<open>if err := f(); err != nil { return wrap(err) }\<close>\<close>
definition kthen :: "'k kcmd \<Rightarrow> (string \<Rightarrow> string) \<Rightarrow> 'k kcmd \<Rightarrow> 'k kcmd" where
  "kthen f wrap g s = (case f s of (Some e, s1) \<Rightarrow> (Some (wrap e), s1) | (None, s1) \<Rightarrow> g s1)"

definition wrap_err :: "string \<Rightarrow> string \<Rightarrow> string" where "wrap_err what e = what @ '': '' @ e"

text \<open>Every command only appends requests to the trace.\<close>
definition extends :: "'k kube \<Rightarrow> 'k kube \<Rightarrow> bool" where
  "extends s s' \<longleftrightarrow> prefix (k_trace s) (k_trace s')"

lemma extends_refl [simp]: "extends s s" by (simp add: extends_def)

lemma extends_trans: "extends a b \<Longrightarrow> extends b c \<Longrightarrow> extends a c"
  by (simp add: extends_def)

lemma kdo_trace: "kdo api m p b s = (r, s') \<Longrightarrow>
    k_trace s' = k_trace s @ [\<lparr> rq_meth = m, rq_path = p, rq_body = b \<rparr>]"
  by (auto simp: kdo_def Let_def split: prod.splits)

end
