(* ===== verification/Go_Json.thy ===== *)
theory Go_Json
  imports Kube
begin

text \<open>
  What \<open>encoding/json\<close> does when a decoded document is stored into a Go struct: a missing key or null
  leaves the zero value, a value of another JSON type leaves the zero value and makes \<open>Unmarshal\<close>
  return an error after the other fields have been filled.  A decoder therefore returns the Go
  value and whether there was no error.  Objects hold each key once, numbers are integers.
\<close>

type_synonym 'a dec = "json option \<Rightarrow> 'a \<times> bool"

definition json_field :: "json option \<Rightarrow> string \<Rightarrow> json option" where
  "json_field j k = (case j of Some (JObj kvs) \<Rightarrow> map_of kvs k | _ \<Rightarrow> None)"

definition json_at :: "json option \<Rightarrow> string list \<Rightarrow> json option" where
  "json_at j ks = foldl json_field j ks"

definition obj_ok :: "json option \<Rightarrow> bool" where
  "obj_ok j = (case j of None \<Rightarrow> True | Some JNull \<Rightarrow> True | Some (JObj _) \<Rightarrow> True | _ \<Rightarrow> False)"

definition dec_str :: "string dec" where
  "dec_str j = (case j of Some (JStr x) \<Rightarrow> (x, True) | None \<Rightarrow> ('''', True) | Some JNull \<Rightarrow> ('''', True)
                        | _ \<Rightarrow> ('''', False))"

text \<open>\<open>int64\<close>: a number out of range is an error as well.\<close>
definition dec_int :: "int dec" where
  "dec_int j = (case j of Some (JInt n) \<Rightarrow> if - (2 ^ 63) \<le> n \<and> n < 2 ^ 63 then (n, True) else (0, False)
                        | None \<Rightarrow> (0, True) | Some JNull \<Rightarrow> (0, True) | _ \<Rightarrow> (0, False))"

definition dec_bool :: "bool dec" where
  "dec_bool j = (case j of Some (JBool b) \<Rightarrow> (b, True) | None \<Rightarrow> (False, True) | Some JNull \<Rightarrow> (False, True)
                         | _ \<Rightarrow> (False, False))"

definition dec_list :: "'a dec \<Rightarrow> 'a list dec" where
  "dec_list d j = (case j of
       Some (JArr xs) \<Rightarrow> (map (\<lambda>x. fst (d (Some x))) xs, list_all (\<lambda>x. snd (d (Some x))) xs)
     | None \<Rightarrow> ([], True) | Some JNull \<Rightarrow> ([], True) | _ \<Rightarrow> ([], False))"

text \<open>A pointer field: nil when the key is missing or null.\<close>
definition dec_ptr :: "'a dec \<Rightarrow> 'a option dec" where
  "dec_ptr d j = (case j of None \<Rightarrow> (None, True) | Some JNull \<Rightarrow> (None, True)
                          | Some v \<Rightarrow> (Some (fst (d (Some v))), snd (d (Some v))))"

text \<open>\<open>Unmarshal\<close> of a body whose decoding is \<open>j\<close> (\<open>None\<close>: not JSON) into one field.\<close>
definition unmarshal :: "json option \<Rightarrow> string list \<Rightarrow> 'a dec \<Rightarrow> 'a \<times> bool" where
  "unmarshal j path d =
     (fst (d (json_at j path)),
      j \<noteq> None \<and> (\<forall>n < length path. obj_ok (json_at j (take n path))) \<and> snd (d (json_at j path)))"

lemma field_simps [simp]:
  "json_field None k = None" "json_field (Some JNull) k = None" "json_field (Some (JStr x)) k = None"
  "json_field (Some (JInt n)) k = None" "json_field (Some (JBool b)) k = None" "json_field (Some (JArr xs)) k = None"
  "json_field (Some (JObj kvs)) k = map_of kvs k"
  by (simp_all add: json_field_def)

lemma json_at_simps [simp]: "json_at j [] = j" "json_at j (k # ks) = json_at (json_field j k) ks"
  by (simp_all add: json_at_def)

lemma dec_str_simps [simp]:
  "dec_str None = ('''', True)" "dec_str (Some (JStr x)) = (x, True)" "dec_str (Some JNull) = ('''', True)"
  by (simp_all add: dec_str_def)

lemma dec_list_None [simp]: "dec_list d None = ([], True)"
  by (simp add: dec_list_def)

end
