(* ===== verification/Github.thy ===== *)
theory Github
  imports Go_Json
begin

text \<open>
  The GitHub App client of \<open>github.go\<close>: minting and caching installation tokens, commit statuses and the two
  look-ups of branches.  GitHub's API is code outside the repository: \<open>gx_api\<close> maps a request and the
  remote state to a response.  Parameters are also the signed App JWT, the clock, the parsing of an RFC 3339
  time and, per attempt, whether the caller's context is cancelled.  Errors are the Go error strings.
\<close>

record greq =
  gq_meth :: meth
  gq_url :: string
  gq_bearer :: string
  gq_body :: "json option"

record cachedToken =
  ct_token :: string
  ct_expires :: time

record 'g github =
  g_state :: 'g
  g_cache :: "int \<rightharpoonup> cachedToken"
  g_trace :: "greq list"

record 'g gx =
  gx_api :: "greq \<Rightarrow> 'g \<Rightarrow> kresp \<times> 'g"
  gx_jwt :: "(string, string) result"
  gx_now :: time
  gx_time :: "string \<Rightarrow> time option"
  gx_cancel :: "nat \<Rightarrow> string option"

definition gdo :: "'g gx \<Rightarrow> greq \<Rightarrow> 'g github \<Rightarrow> kresp \<times> 'g github" where
  "gdo x r g =
     (let (resp, st) = gx_api x r (g_state g)
      in (resp, g\<lparr> g_state := st, g_trace := g_trace g @ [r] \<rparr>))"

definition minute :: time where "minute = 60 * 1000000000"

section \<open>Installation tokens\<close>

text \<open>The cached token while it has more than five minutes to live.\<close>
definition fresh_token :: "time \<Rightarrow> cachedToken option \<Rightarrow> string option" where
  "fresh_token now c =
     (case c of None \<Rightarrow> None
      | Some t \<Rightarrow> if ct_expires t - now > 5 * minute then Some (ct_token t) else None)"

definition token_url :: "int \<Rightarrow> string" where
  "token_url inst = ''https://api.github.com/app/installations/'' @ show_int inst @ ''/access_tokens''"

definition zero_time :: time where "zero_time = -62135596800000000000"

text \<open>A response of the token endpoint; \<open>expires_at\<close> missing is the zero time.\<close>
definition token_response :: "'g gx \<Rightarrow> nat \<Rightarrow> string \<Rightarrow> json option \<Rightarrow> (string, cachedToken) result" where
  "token_response x st body j =
     (if \<not> ok2xx st then Inl (''installation token: status '' @ show_nat st @ '': '' @ trim_space body)
      else if \<not> (snd (unmarshal j [''token''] dec_str) \<and> snd (unmarshal j [''expires_at''] dec_str))
      then Inl ''decode token response''
      else case (case json_at j [''expires_at''] of Some (JStr e) \<Rightarrow> gx_time x e | _ \<Rightarrow> Some zero_time) of
             None \<Rightarrow> Inl ''decode token response''
           | Some t \<Rightarrow>
               if fst (dec_str (json_at j [''token''])) = '''' then Inl ''empty token in response''
               else Inr \<lparr> ct_token = fst (dec_str (json_at j [''token''])), ct_expires = t \<rparr>)"

text \<open>The attempts \<open>i, .., 2\<close>; only transport errors are retried.\<close>
fun mint_attempts :: "'g gx \<Rightarrow> string \<Rightarrow> int \<Rightarrow> nat \<Rightarrow> string \<Rightarrow> nat \<Rightarrow> 'g github \<Rightarrow> (string, string) result \<times> 'g github" where
  "mint_attempts x jwt inst i err 0 g = (Inl (''mint token after 3 attempts: '' @ err), g)"
| "mint_attempts x jwt inst i err (Suc n) g =
     (case (if i > 0 then gx_cancel x i else None) of
        Some e \<Rightarrow> (Inl e, g)
      | None \<Rightarrow>
          (case gdo x \<lparr> gq_meth = POST, gq_url = token_url inst, gq_bearer = jwt, gq_body = None \<rparr> g of
             (Net_error e, g1) \<Rightarrow> mint_attempts x jwt inst (Suc i) e n g1
           | (Resp st body j, g1) \<Rightarrow>
               (case token_response x st body j of
                  Inl e \<Rightarrow> (Inl e, g1)
                | Inr t \<Rightarrow> (Inr (ct_token t), g1\<lparr> g_cache := (g_cache g1)(inst \<mapsto> t) \<rparr>))))"

definition installationToken :: "'g gx \<Rightarrow> int \<Rightarrow> 'g github \<Rightarrow> (string, string) result \<times> 'g github" where
  "installationToken x inst g =
     (case fresh_token (gx_now x) (g_cache g inst) of
        Some t \<Rightarrow> (Inr t, g)
      | None \<Rightarrow>
          (case gx_jwt x of
             Inl e \<Rightarrow> (Inl (''sign jwt: '' @ e), g)
           | Inr jwt \<Rightarrow> mint_attempts x jwt inst 0 '''' 3 g))"

section \<open>Calls as an installation\<close>

text \<open>\<open>setCommitStatus\<close> cuts the description to GitHub's 140 characters.\<close>
definition clip_description :: "string \<Rightarrow> string" where
  "clip_description d = (if length d > 140 then take 137 d @ ''...'' else d)"

definition setCommitStatus ::
  "'g gx \<Rightarrow> int \<Rightarrow> string \<Rightarrow> string \<Rightarrow> string \<Rightarrow> string \<Rightarrow> string \<Rightarrow> string \<Rightarrow> 'g github \<Rightarrow> string option \<times> 'g github" where
  "setCommitStatus x inst repo sha state description target context g =
     (case installationToken x inst g of
        (Inl e, g1) \<Rightarrow> (Some (''mint token: '' @ e), g1)
      | (Inr tok, g1) \<Rightarrow>
          (case gdo x \<lparr> gq_meth = POST,
                  gq_url = ''https://api.github.com/repos/'' @ repo @ ''/statuses/'' @ sha, gq_bearer = tok,
                  gq_body = Some (jlabels [(''state'', state), (''target_url'', target),
                     (''description'', clip_description description), (''context'', context)]) \<rparr> g1 of
             (Net_error e, g2) \<Rightarrow> (Some e, g2)
           | (Resp st body _, g2) \<Rightarrow>
               if ok2xx st then (None, g2)
               else (Some (''set status: HTTP '' @ show_nat st @ '': '' @ trim_space body), g2)))"

text \<open>The common part of the two look-ups: GET, check the status, decode one string, refuse an empty one.\<close>
definition gh_lookup ::
  "'g gx \<Rightarrow> int \<Rightarrow> string \<Rightarrow> string \<Rightarrow> string list \<Rightarrow> string \<Rightarrow> string \<Rightarrow> 'g github \<Rightarrow> (string, string) result \<times> 'g github" where
  "gh_lookup x inst url what path decode_err empty_err g =
     (case installationToken x inst g of
        (Inl e, g1) \<Rightarrow> (Inl (''mint token: '' @ e), g1)
      | (Inr tok, g1) \<Rightarrow>
          (case gdo x \<lparr> gq_meth = GET, gq_url = url, gq_bearer = tok, gq_body = None \<rparr> g1 of
             (Net_error e, g2) \<Rightarrow> (Inl e, g2)
           | (Resp st body j, g2) \<Rightarrow>
               if \<not> ok2xx st
               then (Inl (what @ '': HTTP '' @ show_nat st @ '': '' @ trim_space body), g2)
               else (let (v, ok) = unmarshal j path dec_str
                     in if \<not> ok then (Inl decode_err, g2)
                        else if v = '''' then (Inl empty_err, g2)
                        else (Inr v, g2))))"

definition quoted :: "string \<Rightarrow> string" where "quoted s = [CHR 0x22] @ s @ [CHR 0x22]"

definition fetchBranchSHA ::
  "'g gx \<Rightarrow> int \<Rightarrow> string \<Rightarrow> string \<Rightarrow> 'g github \<Rightarrow> (string, string) result \<times> 'g github" where
  "fetchBranchSHA x inst repo branch =
     gh_lookup x inst (''https://api.github.com/repos/'' @ repo @ ''/branches/'' @ branch)
       (''fetch branch '' @ quoted branch) [''commit'', ''sha''] ''decode branch response''
       ''github returned empty sha for branch''"

definition fetchRepoDefaultBranch ::
  "'g gx \<Rightarrow> int \<Rightarrow> string \<Rightarrow> 'g github \<Rightarrow> (string, string) result \<times> 'g github" where
  "fetchRepoDefaultBranch x inst repo =
     gh_lookup x inst (''https://api.github.com/repos/'' @ repo) (''fetch repo '' @ quoted repo)
       [''default_branch''] ''decode repo response'' ''github returned empty default_branch for repo''"

section \<open>What the cache guarantees\<close>

lemma gdo_simps: "gdo x r g = (fst (gx_api x r (g_state g)),
    g\<lparr> g_state := snd (gx_api x r (g_state g)), g_trace := g_trace g @ [r] \<rparr>)"
  by (simp add: gdo_def case_prod_unfold Let_def)

text \<open>An invariant of the cache: every cached token is a non-empty string.\<close>
definition cache_ok :: "'g github \<Rightarrow> bool" where
  "cache_ok g \<longleftrightarrow> (\<forall>i t. g_cache g i = Some t \<longrightarrow> ct_token t \<noteq> '''')"

lemma token_response_nonempty: "token_response x st body j = Inr t \<Longrightarrow> ct_token t \<noteq> ''''"
  by (auto simp: token_response_def split: if_splits option.splits)

lemma mint_attempts_Suc:
  "mint_attempts x jwt inst i err (Suc n) g = (r, g') \<Longrightarrow>
   (g' = g \<and> (\<exists>e. r = Inl e))
   \<or> (\<exists>g1. g_trace g1 = g_trace g @ [\<lparr> gq_meth = POST, gq_url = token_url inst, gq_bearer = jwt, gq_body = None \<rparr>]
          \<and> g_cache g1 = g_cache g
          \<and> ((\<exists>e. mint_attempts x jwt inst (Suc i) e n g1 = (r, g'))
             \<or> (g' = g1 \<and> (\<exists>e. r = Inl e))
             \<or> (\<exists>t. r = Inr (ct_token t) \<and> ct_token t \<noteq> '''' \<and> g' = g1\<lparr> g_cache := (g_cache g1)(inst \<mapsto> t) \<rparr>)))"
proof -
  let ?q = "\<lparr> gq_meth = POST, gq_url = token_url inst, gq_bearer = jwt, gq_body = None \<rparr>"
  assume m: "mint_attempts x jwt inst i err (Suc n) g = (r, g')"
  show ?thesis
  proof (cases "if i > 0 then gx_cancel x i else None")
    case (Some e)
    then show ?thesis using m by (auto simp del: mint_attempts.simps(1))
  next
    case None
    obtain q g1 where d: "gdo x ?q g = (q, g1)" by (cases "gdo x ?q g")
    then have g1: "g_trace g1 = g_trace g @ [?q]" "g_cache g1 = g_cache g" by (auto simp: gdo_simps)
    show ?thesis
    proof (cases q)
      case (Net_error e)
      then show ?thesis using m None d g1 by (auto simp del: mint_attempts.simps(1))
    next
      case (Resp st body j)
      show ?thesis
      proof (cases "token_response x st body j")
        case (Inl e)
        then show ?thesis using m None d g1 Resp by (auto simp del: mint_attempts.simps(1))
      next
        case (Inr t)
        then have "r = Inr (ct_token t) \<and> g' = g1\<lparr> g_cache := (g_cache g1)(inst \<mapsto> t) \<rparr>"
          using m None d Resp by simp
        then show ?thesis using g1 token_response_nonempty[OF Inr] by blast
      qed
    qed
  qed
qed

declare mint_attempts.simps(2) [simp del]

lemma mint_attempts_spec:
  "mint_attempts x jwt inst i err n g = (r, g') \<Longrightarrow>
     length (g_trace g') \<le> length (g_trace g) + n
     \<and> (cache_ok g \<longrightarrow> cache_ok g')
     \<and> (\<forall>t. r = Inr t \<longrightarrow> t \<noteq> '''' \<and> (\<exists>c. g_cache g' inst = Some c \<and> ct_token c = t))"
proof (induction n arbitrary: i err g)
  case (Suc n)
  from mint_attempts_Suc[OF Suc.prems] show ?case
  proof (elim disjE exE conjE)
    fix g1 e assume g1: "g_trace g1 = g_trace g @ [\<lparr> gq_meth = POST, gq_url = token_url inst, gq_bearer = jwt, gq_body = None \<rparr>]"
      "g_cache g1 = g_cache g" and m: "mint_attempts x jwt inst (Suc i) e n g1 = (r, g')"
    show ?thesis using Suc.IH[OF m] g1 by (auto simp: cache_ok_def)
  qed (auto simp: cache_ok_def)
qed auto

text \<open>C20: the token cache: a cached token with more than five minutes to live is returned without any
  request; otherwise at most three requests are sent, only non-empty tokens are cached, and a token that is returned is the one
  the cache now holds for the installation.\<close>
theorem installationToken_cache:
  assumes "installationToken x inst g = (r, g')" "cache_ok g"
  shows "cache_ok g' \<and> length (g_trace g') \<le> length (g_trace g) + 3
    \<and> (\<forall>t. fresh_token (gx_now x) (g_cache g inst) = Some t \<longrightarrow> r = Inr t \<and> g' = g)
    \<and> (\<forall>t. r = Inr t \<longrightarrow> t \<noteq> '''' \<and> (\<exists>c. g_cache g' inst = Some c \<and> ct_token c = t))"
proof -
  have hit: "r = Inr t \<and> g' = g" if "fresh_token (gx_now x) (g_cache g inst) = Some t" for t
    using assms(1) that by (simp add: installationToken_def)
  have all: "length (g_trace g') \<le> length (g_trace g) + 3 \<and> cache_ok g'
      \<and> (\<forall>t. r = Inr t \<longrightarrow> t \<noteq> '''' \<and> (\<exists>c. g_cache g' inst = Some c \<and> ct_token c = t))"
  proof (cases "fresh_token (gx_now x) (g_cache g inst)")
    case (Some t0)
    then show ?thesis using assms
      by (auto simp: installationToken_def fresh_token_def cache_ok_def split: option.splits if_splits)
  next
    case None
    show ?thesis
    proof (cases "gx_jwt x")
      case (Inl e)
      then show ?thesis using assms None by (auto simp: installationToken_def)
    next
      case (Inr jwt)
      then have "mint_attempts x jwt inst 0 '''' 3 g = (r, g')"
        using assms(1) None by (simp add: installationToken_def)
      from mint_attempts_spec[OF this] show ?thesis using assms(2) by blast
    qed
  qed
  then show ?thesis using hit by blast
qed

section \<open>A GitHub for the witnesses\<close>

definition demo_gx :: "unit gx" where
  "demo_gx = \<lparr> gx_api = (\<lambda>r st. (Resp 200 '''' (Some (JObj [(''token'', JStr ''tok''), (''expires_at'', JStr ''t''),
        (''commit'', JObj [(''sha'', JStr ''abcdef1234'')]), (''default_branch'', JStr ''main'')])), st)),
     gx_jwt = Inr ''jwt'', gx_now = 0, gx_time = (\<lambda>_. Some (60 * minute)), gx_cancel = (\<lambda>_. None) \<rparr>"

definition demo_gh :: "unit github" where
  "demo_gh = \<lparr> g_state = (), g_cache = (\<lambda>_. None), g_trace = [] \<rparr>"

lemma demo_token: "fst (installationToken demo_gx 7 demo_gh) = Inr ''tok''"
  by (simp add: installationToken_def demo_gx_def demo_gh_def fresh_token_def eval_nat_numeral mint_attempts.simps(2)
      gdo_simps token_response_def ok2xx_def unmarshal_def obj_ok_def)

theorem installationToken_cache_witness:
  "cache_ok (snd (installationToken demo_gx 7 demo_gh))
   \<and> length (g_trace (snd (installationToken demo_gx 7 demo_gh))) \<le> 3
   \<and> g_cache (snd (installationToken demo_gx 7 demo_gh)) 7 \<noteq> None"
proof -
  obtain r g' where r: "installationToken demo_gx 7 demo_gh = (r, g')"
    by (cases "installationToken demo_gx 7 demo_gh")
  have ok: "cache_ok demo_gh" by (simp add: cache_ok_def demo_gh_def)
  have "r = Inr ''tok''" using demo_token r by simp
  then show ?thesis
    using installationToken_cache[OF r ok] r by (auto simp: demo_gh_def)
qed

end
