(* ===== verification/Webhook.thy ===== *)
theory Webhook
  imports Store_Invariant Github
begin

text \<open>
  The GitHub webhook receiver (\<open>main.go\<close>, \<open>preview_webhook.go\<close>): signature check, envelope, delivery log,
  dispatch to the handlers of installations, repositories, pushes and pull requests, and the automatic
  first deployment.  The state is the database and the GitHub client.  Parameters: the secret, HMAC-SHA256,
  JSON parsing, GitHub, the cap on projects, the time and the ids the database would generate for the
  k-th new project or deployment of the request.
\<close>

record 'g hook_world =
  hw_db :: db
  hw_gh :: "'g github"

record 'g hook_ext =
  hx_secret :: string
  hx_mac :: "string \<Rightarrow> string \<Rightarrow> string"
  hx_json :: "string \<Rightarrow> json option"
  hx_gx :: "'g gx"
  hx_cap :: int
  hx_now :: time
  hx_dep :: "nat \<Rightarrow> uuid"
  hx_proj :: "nat \<Rightarrow> uuid"

text \<open>The end of a handler step: nil, an error, or a panic (which \<open>net/http\<close> recovers).\<close>
datatype hook_end = H_ok | H_err string | H_panic

definition with_db :: "(db \<Rightarrow> db) \<Rightarrow> 'g hook_world \<Rightarrow> 'g hook_world" where
  "with_db f w = w\<lparr> hw_db := f (hw_db w) \<rparr>"

section \<open>Signature\<close>

definition sig_prefix :: string where "sig_prefix = ''sha256=''"

definition verifySignature :: "(string \<Rightarrow> string \<Rightarrow> string) \<Rightarrow> string \<Rightarrow> string \<Rightarrow> string \<Rightarrow> bool" where
  "verifySignature mac secret header body =
     (if take (length sig_prefix) header \<noteq> sig_prefix then False
      else case hex_decode (drop (length sig_prefix) header) of
             None \<Rightarrow> False
           | Some want \<Rightarrow> mac secret body = want)"

section \<open>Payloads\<close>

record envelope =
  e_action :: string
  e_ref :: string
  e_after :: string
  e_deleted :: bool
  e_repo_id :: int
  e_repo_name :: string
  e_inst :: int
  e_target :: string
  e_login :: string
  e_account :: int

definition at_str :: "json option \<Rightarrow> string list \<Rightarrow> string" where
  "at_str j ks = fst (dec_str (json_at j ks))"

definition at_int :: "json option \<Rightarrow> string list \<Rightarrow> int" where
  "at_int j ks = fst (dec_int (json_at j ks))"

text \<open>The error of \<open>Unmarshal\<close> is ignored: fields of the wrong type stay zero.\<close>
definition parseEnvelope :: "json option \<Rightarrow> envelope" where
  "parseEnvelope j =
     \<lparr> e_action = at_str j [''action''], e_ref = at_str j [''ref''], e_after = at_str j [''after''],
       e_deleted = fst (dec_bool (json_at j [''deleted''])),
       e_repo_id = at_int j [''repository'', ''id''], e_repo_name = at_str j [''repository'', ''full_name''],
       e_inst = at_int j [''installation'', ''id''], e_target = at_str j [''installation'', ''target_type''],
       e_login = at_str j [''installation'', ''account'', ''login''],
       e_account = at_int j [''installation'', ''account'', ''id''] \<rparr>"

record githubRepo =
  gr_id :: int
  gr_full_name :: string
  gr_private :: bool
  gr_branch :: string

definition dec_repo :: "githubRepo dec" where
  "dec_repo j =
     (\<lparr> gr_id = at_int j [''id''], gr_full_name = at_str j [''full_name''],
        gr_private = fst (dec_bool (json_at j [''private''])), gr_branch = at_str j [''default_branch''] \<rparr>,
      obj_ok j \<and> snd (dec_int (json_at j [''id''])) \<and> snd (dec_str (json_at j [''full_name'']))
      \<and> snd (dec_bool (json_at j [''private''])) \<and> snd (dec_str (json_at j [''default_branch''])))"

definition toRepoRows :: "githubRepo list \<Rightarrow> repoRow list" where
  "toRepoRows = map (\<lambda>r. \<lparr> rr_id = gr_id r, rr_full_name = gr_full_name r, rr_private = gr_private r,
                           rr_branch = gr_branch r \<rparr>)"

definition pushCommitMessage :: "json option \<Rightarrow> string" where
  "pushCommitMessage j =
     (let (m, ok) = unmarshal j [''head_commit'', ''message''] dec_str in if ok then m else '''')"

section \<open>Automatic deployment\<close>

definition tryAutoDeployRepo :: "'g hook_ext \<Rightarrow> int \<Rightarrow> nat \<times> githubRepo \<Rightarrow> 'g hook_world \<Rightarrow> 'g hook_world" where
  "tryAutoDeployRepo x inst kr w =
     (let r = snd kr;
          b0 = trim_space (gr_branch r);
          branch = (if b0 = '''' then ''main'' else b0)
      in case fetchBranchSHA (hx_gx x) inst (gr_full_name r) branch (hw_gh w) of
           (Inl e, g) \<Rightarrow> w\<lparr> hw_gh := g \<rparr>
         | (Inr sha, g) \<Rightarrow>
             w\<lparr> hw_gh := g,
                hw_db := snd (EnqueueDeployment (hx_now x) (hx_dep x (fst kr)) inst (gr_id r) sha
                                (''refs/heads/'' @ branch) '''' ''install'' no_options (hw_db w)) \<rparr>)"

definition autoDeployAll :: "'g hook_ext \<Rightarrow> int \<Rightarrow> githubRepo list \<Rightarrow> 'g hook_world \<Rightarrow> 'g hook_world" where
  "autoDeployAll x inst rs = fold (tryAutoDeployRepo x inst) (enumerate 0 rs)"

text \<open>\<open>AddRepos\<close>, the owner back-fill (its error is dropped) and the deployments, shared by both handlers.\<close>
definition connectRepos :: "'g hook_ext \<Rightarrow> int \<Rightarrow> githubRepo list \<Rightarrow> 'g hook_world \<Rightarrow> hook_end \<times> 'g hook_world" where
  "connectRepos x inst rs w =
     (case AddRepos (hx_now x) inst (zip (toRepoRows rs) (map (hx_proj x) [0..<length rs])) (hx_cap x) (hw_db w) of
        (Inl e, d) \<Rightarrow> (H_err (error_text e), w\<lparr> hw_db := d \<rparr>)
      | (Inr _, d) \<Rightarrow>
          (H_ok, autoDeployAll x inst rs (w\<lparr> hw_db := SetProjectOwnerByInstallation inst d \<rparr>)))"

section \<open>Event handlers\<close>

definition handleInstallation ::
  "'g hook_ext \<Rightarrow> envelope \<Rightarrow> json option \<Rightarrow> 'g hook_world \<Rightarrow> hook_end \<times> 'g hook_world" where
  "handleInstallation x env j w =
     (if e_action env \<in> {''created'', ''new_permissions_accepted'', ''unsuspend''}
      then (let w1 = with_db (LinkInstallationByGitHubAccount (hx_now x) (e_inst env) (e_account env) \<circ>
                       UpsertInstallation (hx_now x) \<lparr> iu_id = e_inst env, iu_login = e_login env,
                          iu_account = e_account env, iu_target = e_target env \<rparr>) w;
                (repos, ok) = unmarshal j [''repositories''] (dec_list dec_repo)
            in if ok \<and> repos \<noteq> [] then connectRepos x (e_inst env) repos w1 else (H_ok, w1))
      else if e_action env = ''suspend''
      then (H_ok, with_db (SuspendInstallation (hx_now x) (e_inst env) True) w)
      else if e_action env = ''deleted'' then (H_ok, with_db (DeleteInstallation (e_inst env)) w)
      else (H_ok, w))"

definition handleInstallationRepos ::
  "'g hook_ext \<Rightarrow> envelope \<Rightarrow> json option \<Rightarrow> 'g hook_world \<Rightarrow> hook_end \<times> 'g hook_world" where
  "handleInstallationRepos x env j w =
     (let (added, ok1) = unmarshal j [''repositories_added''] (dec_list dec_repo);
          (removed, ok2) = unmarshal j [''repositories_removed''] (dec_list dec_repo)
      in if \<not> (ok1 \<and> ok2) then (H_err ''json'', w)
         else case (if added = [] then (H_ok, w) else connectRepos x (e_inst env) added w) of
                (H_ok, w1) \<Rightarrow>
                  (H_ok, if removed = [] then w1
                         else with_db (RemoveRepos (hx_now x) (e_inst env) (map gr_id removed)) w1)
              | (r, w1) \<Rightarrow> (r, w1))"

text \<open>\<open>case "push"\<close> of \<open>dispatch\<close>.\<close>
definition handlePush ::
  "'g hook_ext \<Rightarrow> envelope \<Rightarrow> json option \<Rightarrow> string \<Rightarrow> 'g hook_world \<Rightarrow> hook_end \<times> 'g hook_world" where
  "handlePush x env j delivery w =
     (if e_deleted env \<or> take 11 (e_ref env) \<noteq> ''refs/heads/'' \<or> e_after env = ''''
         \<or> e_after env = replicate 40 (CHR ''0'')
      then (H_ok, w)
      else case EnqueueDeployment (hx_now x) (hx_dep x 0) (e_inst env) (e_repo_id env) (e_after env) (e_ref env)
                  delivery ''webhook'' \<lparr> eo_message = pushCommitMessage j, eo_preview = False, eo_pr = 0 \<rparr> (hw_db w) of
             (Inl e, d) \<Rightarrow> (H_err (error_text e), w\<lparr> hw_db := d \<rparr>)
           | (Inr _, d) \<Rightarrow> (H_ok, w\<lparr> hw_db := d \<rparr>))"

record prPayload =
  pq_number :: int
  pq_sha :: string
  pq_title :: string

text \<open>\<open>head.ref\<close> and \<open>action\<close> are decoded too and can make \<open>Unmarshal\<close> fail.\<close>
definition dec_pr :: "json option \<Rightarrow> prPayload option" where
  "dec_pr j =
     (if snd (unmarshal j [''action''] dec_str) \<and> snd (unmarshal j [''number''] dec_int)
         \<and> snd (unmarshal j [''pull_request'', ''head'', ''sha''] dec_str)
         \<and> snd (unmarshal j [''pull_request'', ''head'', ''ref''] dec_str)
         \<and> snd (unmarshal j [''pull_request'', ''title''] dec_str)
      then Some \<lparr> pq_number = at_int j [''number''], pq_sha = at_str j [''pull_request'', ''head'', ''sha''],
                  pq_title = at_str j [''pull_request'', ''title''] \<rparr>
      else None)"

text \<open>Both log lines slice \<open>sha[:8]\<close>, which panics on a shorter SHA, after the row has been written.\<close>
definition handlePullRequest ::
  "'g hook_ext \<Rightarrow> envelope \<Rightarrow> json option \<Rightarrow> string \<Rightarrow> 'g hook_world \<Rightarrow> hook_end \<times> 'g hook_world" where
  "handlePullRequest x env j delivery w =
     (if e_action env \<notin> {''opened'', ''synchronize'', ''reopened''} then (H_ok, w)
      else case dec_pr j of
             None \<Rightarrow> (H_err ''parse pull_request'', w)
           | Some pr \<Rightarrow>
               if pq_sha pr = '''' then (H_ok, w)
               else (case EnqueueDeployment (hx_now x) (hx_dep x 0) (e_inst env) (e_repo_id env) (pq_sha pr)
                            (''refs/pull/'' @ show_int (pq_number pr) @ ''/head'') delivery ''preview''
                            \<lparr> eo_message = (if pq_title pr = ''''
                                 then ''PR #'' @ show_int (pq_number pr) @ '' preview'' else pq_title pr),
                              eo_preview = True, eo_pr = pq_number pr \<rparr> (hw_db w) of
                       (Inl e, d) \<Rightarrow> (H_err (error_text e), w\<lparr> hw_db := d \<rparr>)
                     | (Inr None, d) \<Rightarrow> (H_ok, w\<lparr> hw_db := d \<rparr>)
                     | (Inr (Some res), d) \<Rightarrow>
                         (if length (pq_sha pr) < 8 then H_panic else H_ok, w\<lparr> hw_db := d \<rparr>)))"

definition dispatch ::
  "'g hook_ext \<Rightarrow> string \<Rightarrow> json option \<Rightarrow> envelope \<Rightarrow> string \<Rightarrow> 'g hook_world \<Rightarrow> hook_end \<times> 'g hook_world" where
  "dispatch x event j env delivery w =
     (if event = ''installation'' then handleInstallation x env j w
      else if event = ''installation_repositories'' then handleInstallationRepos x env j w
      else if event = ''push'' then handlePush x env j delivery w
      else if event = ''pull_request'' then handlePullRequest x env j delivery w
      else (H_ok, w))"

section \<open>The receiver\<close>

record hook_req =
  hq_event :: string
  hq_delivery :: string
  hq_sig :: string
  hq_body :: string

datatype hook_reply = Status nat | Handler_panic

definition maxBodyBytes :: int where "maxBodyBytes = 5 * 1048576"

definition handleGitHubWebhook :: "'g hook_ext \<Rightarrow> hook_req \<Rightarrow> 'g hook_world \<Rightarrow> hook_reply \<times> 'g hook_world" where
  "handleGitHubWebhook x r w =
     (if int (length (hq_body r)) > maxBodyBytes then (Status 400, w)
      else if \<not> verifySignature (hx_mac x) (hx_secret x) (hq_sig r) (hq_body r) then (Status 401, w)
      else (let j = hx_json x (hq_body r); env = parseEnvelope j
            in case RecordDelivery (\<lambda>b. hx_json x b \<noteq> None) (hx_now x) (hq_delivery r) (hq_event r) (e_action env)
                      (e_inst env) (e_repo_name env) (hq_body r) (hw_db w) of
                 (Inl e, d) \<Rightarrow> (Status 500, w\<lparr> hw_db := d \<rparr>)
               | (Inr False, d) \<Rightarrow> (Status 202, w\<lparr> hw_db := d \<rparr>)
               | (Inr True, d) \<Rightarrow>
                   (case dispatch x (hq_event r) j env (hq_delivery r) (w\<lparr> hw_db := d \<rparr>) of
                      (H_panic, w1) \<Rightarrow> (Handler_panic, w1)
                    | (_, w1) \<Rightarrow> (Status 202, w1))))"

section \<open>Start-up reconciliation\<close>

text \<open>\<open>main\<close>: the orphan repositories that got a project are deployed as if just added.\<close>
definition startupReconcile :: "'g hook_ext \<Rightarrow> (int \<Rightarrow> int \<Rightarrow> uuid) \<Rightarrow> 'g hook_world \<Rightarrow> 'g hook_world" where
  "startupReconcile x fr w =
     (let d0 = snd (RequeueStuck (hw_db w))
      in case ReconcileOrphanRepos (hx_now x) fr d0 of
           (Inl e, d) \<Rightarrow> w\<lparr> hw_db := d \<rparr>
         | (Inr os, d) \<Rightarrow>
             fold (\<lambda>(k, o1). tryAutoDeployRepo x (or_inst o1)
                     (k, \<lparr> gr_id = or_repo o1, gr_full_name = or_full_name o1, gr_private = False,
                           gr_branch = or_branch o1 \<rparr>))
               (enumerate 0 os) (w\<lparr> hw_db := d \<rparr>))"

section \<open>Handlers only use the store's operations\<close>

lemma steps_tryAutoDeploy: "db_steps (hw_db w) (hw_db (tryAutoDeployRepo x inst kr w))"
  by (auto simp: tryAutoDeployRepo_def Let_def split: prod.splits sum.splits intro: step1 db_step.enqueue)

lemma steps_fold: "(\<And>a w. db_steps (hw_db w) (hw_db (f a w))) \<Longrightarrow> db_steps (hw_db w) (hw_db (fold f as w))"
  by (induction as arbitrary: w) (auto intro: rtranclp_trans)

lemma steps_autoDeployAll: "db_steps (hw_db w) (hw_db (autoDeployAll x inst rs w))"
  unfolding autoDeployAll_def by (rule steps_fold) (rule steps_tryAutoDeploy)

lemma steps_connectRepos: "db_steps (hw_db w) (hw_db (snd (connectRepos x inst rs w)))"
proof -
  let ?a = "AddRepos (hx_now x) inst (zip (toRepoRows rs) (map (hx_proj x) [0..<length rs])) (hx_cap x) (hw_db w)"
  obtain q d where a: "?a = (q, d)" by (cases ?a)
  then have 1: "db_steps (hw_db w) d" using step1[OF db_step.add_repos] by (metis snd_conv)
  have "db_steps d (SetProjectOwnerByInstallation inst d)" by (rule step1[OF db_step.set_owner])
  moreover have "db_steps (SetProjectOwnerByInstallation inst d)
      (hw_db (autoDeployAll x inst rs (w\<lparr> hw_db := SetProjectOwnerByInstallation inst d \<rparr>)))"
    using steps_autoDeployAll[of "w\<lparr> hw_db := SetProjectOwnerByInstallation inst d \<rparr>"] by simp
  ultimately show ?thesis using 1 a by (cases q) (auto simp: connectRepos_def)
qed

lemma steps_with_db: "(\<And>d. db_steps d (f d)) \<Longrightarrow> db_steps (hw_db w) (hw_db (with_db f w))"
  by (simp add: with_db_def)

lemma steps_handleInstallation: "db_steps (hw_db w) (hw_db (snd (handleInstallation x env j w)))"
proof -
  let ?u = "\<lparr> iu_id = e_inst env, iu_login = e_login env, iu_account = e_account env, iu_target = e_target env \<rparr>"
  let ?f = "LinkInstallationByGitHubAccount (hx_now x) (e_inst env) (e_account env) \<circ> UpsertInstallation (hx_now x) ?u"
  have f: "db_steps d (?f d)" for d
    using rtranclp_trans[OF step1[OF db_step.install] step1[OF db_step.link]] by simp
  have up: "db_steps (hw_db w) (hw_db (with_db ?f w))" by (rule steps_with_db) (rule f)
  moreover have "db_steps (hw_db w) (hw_db (snd (connectRepos x (e_inst env) rs (with_db ?f w))))" for rs
    by (rule rtranclp_trans[OF up steps_connectRepos])
  ultimately show ?thesis
    by (auto simp: handleInstallation_def Let_def with_db_def split: prod.splits
        intro: step1 db_step.suspend db_step.uninstall)
qed

lemma steps_handleInstallationRepos: "db_steps (hw_db w) (hw_db (snd (handleInstallationRepos x env j w)))"
proof -
  have r: "db_steps (hw_db w) (hw_db (with_db (RemoveRepos (hx_now x) (e_inst env) ids) w'))"
    if "db_steps (hw_db w) (hw_db w')" for ids w'
    using that step1[OF db_step.remove_repos] by (auto simp: with_db_def intro: rtranclp_trans)
  show ?thesis
    by (auto simp: handleInstallationRepos_def case_prod_unfold Let_def split: hook_end.splits
        intro!: r steps_connectRepos)
qed

lemma steps_handlePush: "db_steps (hw_db w) (hw_db (snd (handlePush x env j dlv w)))"
  by (auto simp: handlePush_def split: prod.splits sum.splits intro: steps_enqueue)

lemma steps_handlePullRequest: "db_steps (hw_db w) (hw_db (snd (handlePullRequest x env j dlv w)))"
  by (auto simp: handlePullRequest_def split: prod.splits sum.splits option.splits intro: steps_enqueue)

lemma steps_dispatch: "db_steps (hw_db w) (hw_db (snd (dispatch x ev j env dlv w)))"
  using steps_handleInstallation[of w] steps_handleInstallationRepos[of w] steps_handlePush[of w]
    steps_handlePullRequest[of w] by (simp add: dispatch_def)

section \<open>Authentication, integrity, replay\<close>

lemma verifySignature_iff:
  "verifySignature mac secret header body
   \<longleftrightarrow> (\<exists>h. header = sig_prefix @ h \<and> hex_decode h = Some (mac secret body))"
  by (auto simp: verifySignature_def split: option.splits if_splits) (metis append_take_drop_id)

lemma steps_webhook: "db_steps (hw_db w) (hw_db (snd (handleGitHubWebhook x r w)))"
proof -
  let ?j = "hx_json x (hq_body r)"
  let ?R = "RecordDelivery (\<lambda>b. hx_json x b \<noteq> None) (hx_now x) (hq_delivery r) (hq_event r)
      (e_action (parseEnvelope ?j)) (e_inst (parseEnvelope ?j)) (e_repo_name (parseEnvelope ?j)) (hq_body r) (hw_db w)"
  obtain q d where R: "?R = (q, d)" by (cases ?R)
  then have 1: "db_steps (hw_db w) d" using step1[OF db_step.delivery] by (metis snd_conv)
  have 2: "db_steps (hw_db w) (hw_db (snd (dispatch x (hq_event r) ?j (parseEnvelope ?j) (hq_delivery r) (w\<lparr> hw_db := d \<rparr>))))"
    using rtranclp_trans[OF 1] steps_dispatch[of "w\<lparr> hw_db := d \<rparr>"] by simp
  show ?thesis using 1 2 R
    by (auto simp: handleGitHubWebhook_def Let_def split: prod.splits sum.splits bool.splits hook_end.splits)
qed

text \<open>only GitHub gets in: unless the signature header is \<open>sha256=\<close> followed by a hex encoding of the HMAC
  of exactly this body under the webhook secret, the request is answered with 401 (or 400 for an
  oversized body) and neither the database nor the GitHub client is touched.\<close>
theorem webhook_authenticated:
  assumes "\<nexists>h. hq_sig r = ''sha256='' @ h \<and> hex_decode h = Some (hx_mac x (hx_secret x) (hq_body r))"
  shows "handleGitHubWebhook x r w = (Status 401, w) \<or> handleGitHubWebhook x r w = (Status 400, w)"
  using assms by (simp add: handleGitHubWebhook_def verifySignature_iff sig_prefix_def)

definition demo_hx :: "(string \<Rightarrow> json option) \<Rightarrow> unit hook_ext" where
  "demo_hx js = \<lparr> hx_secret = ''s'', hx_mac = (\<lambda>k b. k @ b), hx_json = js, hx_gx = demo_gx, hx_cap = 3, hx_now = 9,
     hx_dep = (\<lambda>k. ''dep-'' @ show_nat k), hx_proj = (\<lambda>k. ''proj-'' @ show_nat k) \<rparr>"

definition demo_hook :: "string \<Rightarrow> string \<Rightarrow> hook_req" where
  "demo_hook ev b = \<lparr> hq_event = ev, hq_delivery = ''dl'', hq_sig = ''sha256='' @ hex_encode (''s'' @ b), hq_body = b \<rparr>"

definition demo_hw :: "db \<Rightarrow> unit hook_world" where
  "demo_hw d = \<lparr> hw_db = d, hw_gh = demo_gh \<rparr>"

theorem webhook_authenticated_witness:
  "fst (handleGitHubWebhook (demo_hx (\<lambda>_. None)) \<lparr> hq_event = ''push'', hq_delivery = ''dl'', hq_sig = ''sha256=00'', hq_body = ''{}'' \<rparr>
     (demo_hw empty_db)) \<in> {Status 401, Status 400}"
proof -
  have "\<nexists>h. ''sha256=00'' = ''sha256='' @ h \<and> hex_decode h = Some (hx_mac (demo_hx (\<lambda>_. None)) (hx_secret (demo_hx (\<lambda>_. None))) ''{}'')"
    by (auto simp: demo_hx_def hex_val_def split: option.splits)
  then show ?thesis
    using webhook_authenticated[of "\<lparr> hq_event = ''push'', hq_delivery = ''dl'', hq_sig = ''sha256=00'', hq_body = ''{}'' \<rparr>"
        "demo_hx (\<lambda>_. None)" "demo_hw empty_db"] by auto
qed

text \<open>whatever a webhook contains and whatever GitHub answers, the effect on the database is a sequence of the
  store's operations, so every constraint of the schema still holds afterwards.\<close>
theorem webhook_keeps_constraints:
  assumes "db_ok (hw_db w)"
  shows "db_steps (hw_db w) (hw_db (snd (handleGitHubWebhook x r w)))
       \<and> db_ok (hw_db (snd (handleGitHubWebhook x r w)))"
proof -
  show ?thesis using assms steps_webhook db_steps_ok by blast
qed

theorem webhook_keeps_constraints_witness:
  "db_ok (hw_db (snd (handleGitHubWebhook (demo_hx (\<lambda>_. Some (JObj []))) (demo_hook ''push'' ''{}'') (demo_hw empty_db))))"
  using webhook_keeps_constraints[of "demo_hw empty_db"] db_ok_empty by (simp add: demo_hw_def)

section \<open>Replays\<close>

definition delivery_ids :: "db \<Rightarrow> string set" where "delivery_ids s = set (map w_id (deliveries s))"

lemma delivery_ids_exec_stmts: "deliveries (snd (exec_stmts now inst sts s)) = deliveries s"
proof (induction sts arbitrary: s)
  case (Cons st sts)
  have "deliveries (snd (exec_add_stmt now inst st s)) = deliveries s"
    by (cases st) (auto simp: exec_add_stmt_def exec_upsert_repo_def exec_insert_project_def split: option.splits)
  then show ?case using Cons by (auto split: prod.splits sum.splits)
qed simp

lemma delivery_ids_reconcile: "deliveries (snd (reconcile_orphans now fr os created s)) = deliveries s"
proof (induction os arbitrary: created s)
  case (Cons o1 os)
  obtain q d where e: "exec_insert_project now (or_inst o1) (or_repo o1) (or_full_name o1)
      (if or_branch o1 = '''' then ''main'' else or_branch o1) (fr (or_inst o1) (or_repo o1)) s = (q, d)"
    by fastforce
  have "deliveries d = deliveries s"
    using arg_cong[OF e, of snd] by (auto simp: exec_insert_project_def split: option.splits if_splits)
  then show ?case using Cons e by (cases q) simp_all
qed simp

lemmas store_defs = RecordDelivery_def UpsertInstallation_def SuspendInstallation_def DeleteInstallation_def
  RemoveRepos_def UpdateProjectDisplayName_def UpdateProjectProductionBranch_def UpsertUserFromGitHub_def
  CreateSession_def DeleteSession_def ClaimInstallationsForUser_def LinkInstallationByGitHubAccount_def
  SetProjectOwnerByInstallation_def insert_deployment_def ClaimNextQueued_def set_dep_def
  MarkDeploying_def MarkReady_def MarkFailed_def MarkFailedIfInFlight_def RequeueDeployment_def RequeueStale_def
  RequeueStuck_def SetProductionDeployment_def CreateProjectDatabase_def UpsertProjectEnv_def DeleteProjectEnv_def
  insert_domain_def MarkDomainVerified_def DeleteProjectDomain_def UpsertWaitlistSignup_def DeleteProject_def

lemma deliveries_AddRepos: "deliveries (snd (AddRepos now inst repos cap s)) = deliveries s"
  using delivery_ids_exec_stmts by (auto simp: AddRepos_def Let_def split: prod.splits sum.splits) (metis snd_conv)

lemma deliveries_insert: "deliveries (snd (insert_deployment d s)) = deliveries s"
  by (simp add: insert_deployment_def)

lemma deliveries_Enqueue: "deliveries (snd (EnqueueDeployment now f inst repo sha ref dlv trig opt s)) = deliveries s"
  "deliveries (snd (EnqueueRedeploy now f src uid s)) = deliveries s"
  using snd_EnqueueDeployment[of now f inst repo sha ref dlv trig opt s] snd_EnqueueRedeploy[of now f src uid s]
  by (auto simp: deliveries_insert)

lemma deliveries_domain: "deliveries (snd (AddProjectDomain now rnd pid h s)) = deliveries s"
  by (auto simp: AddProjectDomain_def insert_domain_def Let_def split: option.splits)

lemma delivery_ids_step: "db_step s s' \<Longrightarrow> delivery_ids s \<subseteq> delivery_ids s'"
  by (induction rule: db_step.induct)
     (auto simp: delivery_ids_def ReconcileOrphanRepos_def delivery_ids_reconcile deliveries_AddRepos
        deliveries_Enqueue deliveries_domain store_defs Let_def split: option.splits)

lemma delivery_ids_steps: "db_steps s s' \<Longrightarrow> delivery_ids s \<subseteq> delivery_ids s'"
  by (induction rule: rtranclp_induct) (auto dest: delivery_ids_step)

lemma recorded_after:
  assumes "handleGitHubWebhook x r w = (q, w')" "q \<in> {Status 202, Handler_panic}"
  shows "int (length (hq_body r)) \<le> maxBodyBytes" "verifySignature (hx_mac x) (hx_secret x) (hq_sig r) (hq_body r)"
    "hq_delivery r \<noteq> ''''" "hx_json x (hq_body r) \<noteq> None" "hq_delivery r \<in> delivery_ids (hw_db w')"
proof -
  let ?j = "hx_json x (hq_body r)"
  let ?R = "RecordDelivery (\<lambda>b. hx_json x b \<noteq> None) (hx_now x) (hq_delivery r) (hq_event r)
      (e_action (parseEnvelope ?j)) (e_inst (parseEnvelope ?j)) (e_repo_name (parseEnvelope ?j)) (hq_body r) (hw_db w)"
  show "int (length (hq_body r)) \<le> maxBodyBytes" "verifySignature (hx_mac x) (hx_secret x) (hq_sig r) (hq_body r)"
    using assms by (auto simp: handleGitHubWebhook_def split: if_splits)
  obtain q1 d where R: "?R = (q1, d)" by (cases ?R)
  obtain h w1 where D: "dispatch x (hq_event r) ?j (parseEnvelope ?j) (hq_delivery r) (w\<lparr> hw_db := d \<rparr>) = (h, w1)"
    by (cases "dispatch x (hq_event r) ?j (parseEnvelope ?j) (hq_delivery r) (w\<lparr> hw_db := d \<rparr>)")
  obtain b where b: "q1 = Inr b" and w': "w' = (if b then w1 else w\<lparr> hw_db := d \<rparr>)"
    using assms R D by (cases q1) (auto simp: handleGitHubWebhook_def Let_def split: if_splits bool.splits hook_end.splits)
  have "hq_delivery r \<noteq> '''' \<and> ?j \<noteq> None \<and> hq_delivery r \<in> delivery_ids d"
    using R b by (auto simp: RecordDelivery_def delivery_ids_def split: if_splits)
  moreover have "delivery_ids d \<subseteq> delivery_ids (hw_db w1)"
    using delivery_ids_steps[OF steps_dispatch[of "w\<lparr> hw_db := d \<rparr>" x "hq_event r" ?j "parseEnvelope ?j" "hq_delivery r"]] D
    by simp
  ultimately show "hq_delivery r \<noteq> ''''" "?j \<noteq> None" "hq_delivery r \<in> delivery_ids (hw_db w')"
    using w' by auto
qed

text \<open>at most once: once a delivery has been acknowledged (or its handler has panicked), the same request
  arriving again, at any later time, is acknowledged and changes nothing.  In particular a delivery whose
  processing failed halfway is never processed again.\<close>
theorem webhook_replay:
  assumes "handleGitHubWebhook x r w = (q, w')" "q \<in> {Status 202, Handler_panic}"
    and "db_steps (hw_db w') (hw_db w2)"
    and "hx_secret y = hx_secret x" "hx_mac y = hx_mac x" "hx_json y = hx_json x"
  shows "handleGitHubWebhook y r w2 = (Status 202, w2)"
proof -
  note rec = recorded_after[OF assms(1,2)]
  have "hq_delivery r \<in> delivery_ids (hw_db w2)" using delivery_ids_steps[OF assms(3)] rec(5) by blast
  then show ?thesis using rec(1-4) assms(4-6)
    by (simp add: handleGitHubWebhook_def RecordDelivery_def delivery_ids_def Let_def)
qed

theorem webhook_replay_witness:
  "handleGitHubWebhook (demo_hx (\<lambda>_. Some (JObj []))) (demo_hook ''push'' ''{}'')
     (snd (handleGitHubWebhook (demo_hx (\<lambda>_. Some (JObj []))) (demo_hook ''push'' ''{}'') (demo_hw empty_db)))
   = (Status 202, snd (handleGitHubWebhook (demo_hx (\<lambda>_. Some (JObj []))) (demo_hook ''push'' ''{}'') (demo_hw empty_db)))"
proof -
  let ?x = "demo_hx (\<lambda>_. Some (JObj []))" and ?r = "demo_hook ''push'' ''{}''"
  have v: "verifySignature (hx_mac ?x) (hx_secret ?x) (hq_sig ?r) (hq_body ?r)"
    by (simp add: verifySignature_iff demo_hx_def demo_hook_def sig_prefix_def)
  have m: "int (length (hq_body ?r)) \<le> maxBodyBytes" by (simp add: demo_hook_def maxBodyBytes_def)
  have e: "e_ref (parseEnvelope (Some (JObj []))) = ''''" by (simp add: parseEnvelope_def at_str_def)
  have "fst (handleGitHubWebhook ?x ?r (demo_hw empty_db)) = Status 202"
    using v m e by (simp add: handleGitHubWebhook_def RecordDelivery_def Let_def demo_hw_def empty_db_def
        dispatch_def handlePush_def, simp add: demo_hx_def demo_hook_def)
  then show ?thesis
    by (intro webhook_replay[of ?x ?r "demo_hw empty_db" "Status 202"]) (auto simp: prod_eq_iff)
qed

section \<open>A push to production\<close>

text \<open>C7: push to deploy: a verified push event for the production branch of a known project, seen for the
  first time, is acknowledged and appends exactly one queued deployment with the pushed commit, the
  branch's ref, the delivery id and the head commit's message, also when that commit was built before.\<close>
theorem push_queues_build:
  assumes "int (length (hq_body r)) \<le> maxBodyBytes" "verifySignature (hx_mac x) (hx_secret x) (hq_sig r) (hq_body r)"
    and "hq_event r = ''push''" "hq_delivery r \<noteq> ''''" "hq_delivery r \<notin> delivery_ids (hw_db w)"
    and "hx_json x (hq_body r) = Some j" "env = parseEnvelope (Some j)"
    and "project_by_repo (e_inst env) (e_repo_id env) (hw_db w) = Some p"
    and "p_branch p \<noteq> ''''" "e_ref env = ''refs/heads/'' @ p_branch p"
    and "\<not> e_deleted env" "e_after env \<noteq> ''''" "e_after env \<noteq> replicate 40 (CHR ''0'')"
    and "hx_dep x 0 \<notin> d_id ` set (deployments (hw_db w))"
  shows "\<exists>w'. handleGitHubWebhook x r w = (Status 202, w')
    \<and> deployments (hw_db w') = deployments (hw_db w) @
        [new_deployment (hx_now x) (hx_dep x 0) (p_id p) (e_after env) (''refs/heads/'' @ p_branch p) ''webhook''
           (Some (hq_delivery r))
           \<lparr> eo_message = pushCommitMessage (Some j), eo_preview = False, eo_pr = 0 \<rparr>]"
proof -
  obtain d where R: "RecordDelivery (\<lambda>b. hx_json x b \<noteq> None) (hx_now x) (hq_delivery r) (hq_event r)
      (e_action env) (e_inst env) (e_repo_name env) (hq_body r) (hw_db w) = (Inr True, d)"
    and d: "deployments d = deployments (hw_db w)" "projects d = projects (hw_db w)"
    using assms(4-6) by (auto simp: RecordDelivery_def delivery_ids_def)
  have p: "project_by_repo (e_inst env) (e_repo_id env) d = Some p" using assms(8) d by (simp add: project_by_repo_def)
  note enq = enqueue_production_or_manual[OF p, of "hx_dep x 0" "''webhook''" "''refs/heads/'' @ p_branch p"
      "hx_now x" "e_after env" "hq_delivery r"]
  show ?thesis
    using assms R d enq
    by (auto simp: handleGitHubWebhook_def dispatch_def handlePush_def nullif_def Let_def)
qed

definition demo_push :: json where
  "demo_push = JObj [(''ref'', JStr ''refs/heads/main''), (''after'', JStr ''aa''),
     (''repository'', JObj [(''id'', JInt 11)]), (''installation'', JObj [(''id'', JInt 7)])]"

theorem push_queues_build_witness:
  "\<exists>w'. handleGitHubWebhook (demo_hx (\<lambda>_. Some demo_push)) (demo_hook ''push'' ''{}'') (demo_hw (demo_db [demo_dep ''d1'' ''aa'' Ready 3]))
      = (Status 202, w')
    \<and> map d_status (deployments (hw_db w')) = [Ready, Queued]"
proof -
  let ?x = "demo_hx (\<lambda>_. Some demo_push)" and ?r = "demo_hook ''push'' ''{}''"
  let ?w = "demo_hw (demo_db [demo_dep ''d1'' ''aa'' Ready 3])"
  have v: "verifySignature (hx_mac ?x) (hx_secret ?x) (hq_sig ?r) (hq_body ?r)"
    by (simp add: verifySignature_iff demo_hx_def demo_hook_def sig_prefix_def)
  have z: "''aa'' \<noteq> replicate 40 (CHR ''0'')" by (rule notI, drule arg_cong[where f = length]) simp
  have "\<exists>w'. handleGitHubWebhook ?x ?r ?w = (Status 202, w')
    \<and> deployments (hw_db w') = deployments (hw_db ?w) @
        [new_deployment (hx_now ?x) (hx_dep ?x 0) (p_id demo_project) (e_after (parseEnvelope (Some demo_push)))
           (''refs/heads/'' @ p_branch demo_project) ''webhook'' (Some (hq_delivery ?r))
           \<lparr> eo_message = pushCommitMessage (Some demo_push), eo_preview = False, eo_pr = 0 \<rparr>]"
    by (rule push_queues_build[OF _ v])
       (simp_all add: demo_hook_def demo_hx_def demo_hw_def demo_push_def parseEnvelope_def at_str_def at_int_def dec_int_def
          dec_bool_def maxBodyBytes_def delivery_ids_def project_by_repo_def demo_defs z)
  then show ?thesis by (auto simp: demo_hw_def demo_defs new_deployment_def)
qed

end
