(* ===== verification/Kube_Apply.thy ===== *)
theory Kube_Apply
  imports Kube
begin

text \<open>
  What \<open>kapply\<close> (create, on conflict read and replace) achieves.  The API server is the parameter \<open>api\<close>; what its documentation promises is
  stated over a record \<open>server\<close> of what the client cannot see: the stored objects (\<open>ks_look\<close>, with everything the server adds to them: uid,
  timestamps, versions, defaults, status), the relation \<open>ks_keeps\<close> between a submitted manifest and an object that is stored for it, and the
  states from which a set of intended requests goes through (\<open>ks_ready\<close>).  Two predicates:

  \<open>kube_contract\<close> holds of the server at all times.  A create or a replacement that is answered with success has stored an object that keeps the
  manifest; a read that is answered with 200 shows what is stored; a stored object keeps the \<open>data\<close> of its manifest; the resource version of a
  manifest is not part of what is kept.  Nothing is promised of a request that is refused or not answered: it may or may not have taken effect.

  \<open>kube_serves\<close> says when requests succeed.  \<open>ks_ready S k is\<close> reads: from state \<open>k\<close> on, and for as long as only the requests of the intents \<open>is\<close>
  are sent, the server is up, the account is authorised for them, validation, admission, immutable fields and quota do not stand in
  their way, and nobody else writes their objects.  Even then a create needs its namespace to exist; it is refused with 409 if the object exists.
\<close>

definition obj_path :: "string \<Rightarrow> string \<Rightarrow> string" where
  "obj_path coll name = coll @ ''/'' @ pathEscape name"

definition rv_of :: "json \<Rightarrow> string" where
  "rv_of o1 = jstr (jpath o1 [''metadata'', ''resourceVersion''])"

definition has_meta :: "string \<Rightarrow> json \<Rightarrow> bool" where
  "has_meta name obj \<longleftrightarrow>
     (\<exists>kvs mkvs. obj = JObj kvs \<and> map_of kvs ''metadata'' = Some (JObj mkvs)
        \<and> map_of mkvs ''name'' = Some (JStr name))"

section \<open>The contract of the API server\<close>

text \<open>The namespace a collection lies in: \<open>.../namespaces/<ns>/<resource>\<close>; the collection of namespaces itself is cluster-scoped.\<close>
definition coll_ns :: "string \<Rightarrow> string option" where
  "coll_ns coll = (case rev (split_on (CHR ''/'') coll) of
     res # n # w # _ \<Rightarrow> if w = ''namespaces'' then Some n else None | _ \<Rightarrow> None)"

text \<open>What a client intends: to apply a manifest under a name in a collection, or to read a path.\<close>
datatype intent = Apply string string json | Read string

fun intent_path :: "intent \<Rightarrow> string" where
  "intent_path (Apply coll name obj) = obj_path coll name"
| "intent_path (Read p) = p"

record 'k server =
  ks_look :: "'k \<Rightarrow> string \<Rightarrow> json option"
  ks_keeps :: "json \<Rightarrow> json \<Rightarrow> bool"
  ks_ready :: "'k \<Rightarrow> intent list \<Rightarrow> bool"

definition kept :: "'k server \<Rightarrow> 'k \<Rightarrow> string \<Rightarrow> json \<Rightarrow> bool" where
  "kept S k p obj = (case ks_look S k p of None \<Rightarrow> False | Some v \<Rightarrow> ks_keeps S obj v)"

definition home :: "'k server \<Rightarrow> 'k \<Rightarrow> string \<Rightarrow> bool" where
  "home S k coll = (case coll_ns coll of None \<Rightarrow> True | Some n \<Rightarrow> ks_look S k (''/api/v1/namespaces/'' @ n) \<noteq> None)"

definition kube_contract :: "'k api \<Rightarrow> 'k server \<Rightarrow> bool" where
  "kube_contract api S \<longleftrightarrow>
     (\<forall>coll name obj k st b j k'. has_meta name obj \<and> ok2xx st
        \<and> api \<lparr> rq_meth = POST, rq_path = coll, rq_body = Some obj \<rparr> k = (Resp st b j, k') \<longrightarrow> kept S k' (obj_path coll name) obj)
   \<and> (\<forall>p name obj k st b j k'. has_meta name obj \<and> ok2xx st
        \<and> api \<lparr> rq_meth = PUT, rq_path = p, rq_body = Some obj \<rparr> k = (Resp st b j, k') \<longrightarrow> kept S k' p obj)
   \<and> (\<forall>p k b v k'. CHR ''?'' \<notin> set p \<and> api \<lparr> rq_meth = GET, rq_path = p, rq_body = None \<rparr> k = (Resp 200 b (Some v), k')
        \<longrightarrow> ks_look S k' p = Some v)
   \<and> (\<forall>r obj v. ks_keeps S (with_rv r obj) v \<longrightarrow> ks_keeps S obj v)
   \<and> (\<forall>obj v d. ks_keeps S obj v \<and> jget obj ''data'' = Some d \<longrightarrow> jget v ''data'' = Some d)"

text \<open>The requests of an intent.\<close>
definition intent_req :: "intent \<Rightarrow> kreq \<Rightarrow> bool" where
  "intent_req i r \<longleftrightarrow> r = \<lparr> rq_meth = GET, rq_path = intent_path i, rq_body = None \<rparr>
     \<or> (case i of Read p \<Rightarrow> False
          | Apply coll name obj \<Rightarrow> r = \<lparr> rq_meth = POST, rq_path = coll, rq_body = Some obj \<rparr>
              \<or> (\<exists>v. r = \<lparr> rq_meth = PUT, rq_path = obj_path coll name, rq_body = Some (with_rv v obj) \<rparr>))"

text \<open>Nobody else writes the objects of the intents: a request of one intent leaves the objects of the others, and every namespace, in place.\<close>
definition undisturbed :: "'k server \<Rightarrow> intent list \<Rightarrow> string \<Rightarrow> 'k \<Rightarrow> 'k \<Rightarrow> bool" where
  "undisturbed S is p k k' \<longleftrightarrow>
     (\<forall>i \<in> set is. intent_path i \<noteq> p \<longrightarrow> (\<forall>obj. kept S k (intent_path i) obj \<longrightarrow> kept S k' (intent_path i) obj))
   \<and> (\<forall>coll. home S k coll \<longrightarrow> home S k' coll)"

definition kube_serves :: "'k api \<Rightarrow> 'k server \<Rightarrow> bool" where
  "kube_serves api S \<longleftrightarrow>
     (\<forall>k is i r. ks_ready S k is \<and> i \<in> set is \<and> intent_req i r \<longrightarrow>
        ks_ready S (snd (api r k)) is \<and> undisturbed S is (intent_path i) k (snd (api r k)))
   \<and> (\<forall>k is coll name obj. ks_ready S k is \<and> Apply coll name obj \<in> set is \<and> has_meta name obj \<and> home S k coll \<longrightarrow>
        (\<exists>st b j k'. api \<lparr> rq_meth = POST, rq_path = coll, rq_body = Some obj \<rparr> k = (Resp st b j, k')
           \<and> (if ks_look S k (obj_path coll name) = None then ok2xx st else st = 409 \<and> ks_look S k' (obj_path coll name) \<noteq> None)))
   \<and> (\<forall>k is i v. ks_ready S k is \<and> i \<in> set is \<and> ks_look S k (intent_path i) = Some v \<longrightarrow>
        (\<exists>b k' kvs. api \<lparr> rq_meth = GET, rq_path = intent_path i, rq_body = None \<rparr> k = (Resp 200 b (Some v), k')
           \<and> v = JObj kvs \<and> ks_look S k' (intent_path i) = Some v))
   \<and> (\<forall>k is coll name obj v. ks_ready S k is \<and> Apply coll name obj \<in> set is \<and> has_meta name obj
        \<and> ks_look S k (obj_path coll name) = Some v \<longrightarrow>
        (\<exists>st b j k'. api \<lparr> rq_meth = PUT, rq_path = obj_path coll name, rq_body = Some (with_rv (rv_of v) obj) \<rparr> k = (Resp st b j, k')
           \<and> ok2xx st))"

lemma contract_post:
  "kube_contract api S \<Longrightarrow> has_meta name obj \<Longrightarrow> ok2xx st \<Longrightarrow>
   api \<lparr> rq_meth = POST, rq_path = coll, rq_body = Some obj \<rparr> k = (Resp st b j, k') \<Longrightarrow> kept S k' (obj_path coll name) obj"
  unfolding kube_contract_def by (elim conjE) meson

lemma contract_put:
  "kube_contract api S \<Longrightarrow> has_meta name obj \<Longrightarrow> ok2xx st \<Longrightarrow>
   api \<lparr> rq_meth = PUT, rq_path = p, rq_body = Some obj \<rparr> k = (Resp st b j, k') \<Longrightarrow> kept S k' p obj"
  unfolding kube_contract_def by (elim conjE) meson

lemma contract_get:
  "kube_contract api S \<Longrightarrow> CHR ''?'' \<notin> set p \<Longrightarrow>
   api \<lparr> rq_meth = GET, rq_path = p, rq_body = None \<rparr> k = (Resp 200 b (Some v), k') \<Longrightarrow> ks_look S k' p = Some v"
  unfolding kube_contract_def by (elim conjE) meson

lemma contract_rv: "kube_contract api S \<Longrightarrow> kept S k p (with_rv r obj) \<Longrightarrow> kept S k p obj"
  unfolding kube_contract_def kept_def by (auto split: option.splits)

lemma contract_data: "kube_contract api S \<Longrightarrow> ks_keeps S obj v \<Longrightarrow> jget obj ''data'' = Some d \<Longrightarrow> jget v ''data'' = Some d"
  unfolding kube_contract_def by (elim conjE) meson

lemma serves_step:
  "kube_serves api S \<Longrightarrow> ks_ready S k is \<Longrightarrow> i \<in> set is \<Longrightarrow> intent_req i r \<Longrightarrow>
   ks_ready S (snd (api r k)) is \<and> undisturbed S is (intent_path i) k (snd (api r k))"
  unfolding kube_serves_def by (elim conjE) meson

lemma serves_post:
  assumes "kube_serves api S" "ks_ready S k is" "Apply coll name obj \<in> set is" "has_meta name obj" "home S k coll"
  obtains st b j k' where "api \<lparr> rq_meth = POST, rq_path = coll, rq_body = Some obj \<rparr> k = (Resp st b j, k')"
    "if ks_look S k (obj_path coll name) = None then ok2xx st else st = 409 \<and> ks_look S k' (obj_path coll name) \<noteq> None"
  using assms unfolding kube_serves_def by (elim conjE) meson

lemma serves_get:
  assumes "kube_serves api S" "ks_ready S k is" "i \<in> set is" "ks_look S k (intent_path i) = Some v"
  obtains b k' kvs where "api \<lparr> rq_meth = GET, rq_path = intent_path i, rq_body = None \<rparr> k = (Resp 200 b (Some v), k')"
    "v = JObj kvs" "ks_look S k' (intent_path i) = Some v"
  using assms unfolding kube_serves_def by (elim conjE) meson

lemma serves_put:
  assumes "kube_serves api S" "ks_ready S k is" "Apply coll name obj \<in> set is" "has_meta name obj" "ks_look S k (obj_path coll name) = Some v"
  obtains st b j k' where
    "api \<lparr> rq_meth = PUT, rq_path = obj_path coll name, rq_body = Some (with_rv (rv_of v) obj) \<rparr> k = (Resp st b j, k')" "ok2xx st"
  using assms unfolding kube_serves_def by (elim conjE) meson

lemma undisturbed_trans: "undisturbed S is p k k1 \<Longrightarrow> undisturbed S is p k1 k2 \<Longrightarrow> undisturbed S is p k k2"
  unfolding undisturbed_def by blast

lemma update_overwrite: "AList.update k w (AList.update k v kvs) = AList.update k w kvs"
  by (induction kvs) auto

lemma map_of_update: "map_of (AList.update k v kvs) = (map_of kvs)(k \<mapsto> v)"
  by (rule update_conv')

lemma with_rv_eq:
  "map_of kvs ''metadata'' = Some (JObj mkvs) \<Longrightarrow>
   with_rv rv (JObj kvs) =
     JObj (AList.update ''metadata'' (JObj (AList.update ''resourceVersion'' (JStr rv) mkvs)) kvs)"
  by (simp add: with_rv_def jget_def jset_def)

lemma with_rv_overwrite: "has_meta name obj \<Longrightarrow> with_rv r (with_rv q obj) = with_rv r obj"
  by (auto simp: has_meta_def with_rv_eq map_of_update update_overwrite)

lemma rv_of_with_rv: "has_meta name obj \<Longrightarrow> rv_of (with_rv r obj) = r"
  by (auto simp: has_meta_def with_rv_eq rv_of_def jget_def map_of_update jstr_def)

lemma has_meta_with_rv: "has_meta name obj \<Longrightarrow> has_meta name (with_rv r obj)"
  by (auto simp: has_meta_def with_rv_eq map_of_update)

lemma kdo_eq: "kdo api m p b s = (fst (api \<lparr> rq_meth = m, rq_path = p, rq_body = b \<rparr> (k_state s)),
    \<lparr> k_state = snd (api \<lparr> rq_meth = m, rq_path = p, rq_body = b \<rparr> (k_state s)),
      k_trace = k_trace s @ [\<lparr> rq_meth = m, rq_path = p, rq_body = b \<rparr>] \<rparr>)"
  by (simp add: kdo_def Let_def split: prod.splits)

section \<open>Create or replace\<close>

text \<open>An apply that reports success has stored the manifest.\<close>
lemma kapply_stores:
  assumes c: "kube_contract api S" and m: "has_meta name obj" and r: "kapply api coll name obj s = (None, s')"
  shows "kept S (k_state s') (obj_path coll name) obj"
proof -
  let ?p = "obj_path coll name"
  obtain q1 k1 where 1: "api \<lparr> rq_meth = POST, rq_path = coll, rq_body = Some obj \<rparr> (k_state s) = (q1, k1)" by fastforce
  obtain q2 k2 where 2: "api \<lparr> rq_meth = GET, rq_path = ?p, rq_body = None \<rparr> k1 = (q2, k2)" by fastforce
  from r obtain st b j where q1: "q1 = Resp st b j" using 1 by (cases q1) (simp_all add: kapply_def kdo_eq)
  show ?thesis
  proof (cases "ok2xx st")
    case True
    then have "k_state s' = k1" using r 1 q1 by (auto simp: kapply_def kdo_eq)
    then show ?thesis using contract_post[OF c m True] 1 q1 by simp
  next
    case False
    obtain q3 k3 where 3: "api \<lparr> rq_meth = PUT, rq_path = ?p,
        rq_body = Some (with_rv (case q2 of Resp st2 b2 (Some v) \<Rightarrow> rv_of v | _ \<Rightarrow> '''') obj) \<rparr> k2 = (q3, k3)" by fastforce
    from r False 1 2 q1 obtain b2 kvs where q2: "q2 = Resp 200 b2 (Some (JObj kvs))"
      by (cases q2) (auto simp: kapply_def kdo_eq Let_def obj_path_def split: if_splits option.splits json.splits)
    from r False 1 2 3 q1 q2 obtain st3 b3 j3 where q3: "q3 = Resp st3 b3 j3" "ok2xx st3" "k_state s' = k3"
      by (cases q3) (auto simp: kapply_def kdo_eq Let_def obj_path_def rv_of_def split: if_splits)
    have "kept S k3 ?p (with_rv (rv_of (JObj kvs)) obj)"
      by (rule contract_put[OF c has_meta_with_rv[OF m] q3(2)]) (use 3 q2 q3(1) in simp)
    then show ?thesis using contract_rv[OF c] q3(3) by simp
  qed
qed

text \<open>An apply that the server is ready for goes through, and disturbs nothing.\<close>
lemma kapply_goes_through:
  assumes v: "kube_serves api S" and m: "has_meta name obj"
    and rd: "ks_ready S (k_state s) is" and i: "Apply coll name obj \<in> set is" and h: "home S (k_state s) coll"
  shows "\<exists>s'. kapply api coll name obj s = (None, s') \<and> ks_ready S (k_state s') is
     \<and> undisturbed S is (obj_path coll name) (k_state s) (k_state s')"
proof -
  let ?p = "obj_path coll name" and ?i = "Apply coll name obj"
  let ?post = "\<lparr> rq_meth = POST, rq_path = coll, rq_body = Some obj \<rparr>" and ?get = "\<lparr> rq_meth = GET, rq_path = ?p, rq_body = None \<rparr>"
  obtain st b j k1 where 1: "api ?post (k_state s) = (Resp st b j, k1)"
    "if ks_look S (k_state s) ?p = None then ok2xx st else st = 409 \<and> ks_look S k1 ?p \<noteq> None"
    by (rule serves_post[OF v rd i m h])
  have s1: "ks_ready S k1 is \<and> undisturbed S is ?p (k_state s) k1"
    using serves_step[OF v rd i, of ?post] 1(1) by (simp add: intent_req_def)
  show ?thesis
  proof (cases "ok2xx st")
    case True
    have "kapply api coll name obj s = (None, \<lparr> k_state = k1, k_trace = k_trace s @ [?post] \<rparr>)"
      using True 1(1) by (simp add: kapply_def kdo_eq)
    then show ?thesis using s1 by simp
  next
    case False
    then obtain w where w: "st = 409" "ks_look S k1 ?p = Some w" using 1(2) by (auto split: if_splits)
    obtain b2 k2 kvs where 2: "api ?get k1 = (Resp 200 b2 (Some w), k2)" "w = JObj kvs" "ks_look S k2 ?p = Some w"
      using serves_get[OF v conjunct1[OF s1] i, of w] w(2) by auto
    have s2: "ks_ready S k2 is \<and> undisturbed S is ?p k1 k2"
      using serves_step[OF v conjunct1[OF s1] i, of ?get] 2(1) by (simp add: intent_req_def)
    let ?put = "\<lparr> rq_meth = PUT, rq_path = ?p, rq_body = Some (with_rv (rv_of w) obj) \<rparr>"
    obtain st3 b3 j3 k3 where 3: "api ?put k2 = (Resp st3 b3 j3, k3)" "ok2xx st3"
      by (rule serves_put[OF v conjunct1[OF s2] i m 2(3)])
    have s3: "ks_ready S k3 is \<and> undisturbed S is ?p k2 k3"
      using serves_step[OF v conjunct1[OF s2] i, of ?put] 3(1) by (auto simp: intent_req_def)
    have "kapply api coll name obj s = (None, \<lparr> k_state = k3, k_trace = k_trace s @ [?post] @ [?get] @ [?put] \<rparr>)"
      using 1(1) w(1) 2(1,2) 3 False by (simp add: kapply_def kdo_eq Let_def obj_path_def rv_of_def)
    moreover have "undisturbed S is ?p (k_state s) k3"
      using undisturbed_trans[OF conjunct2[OF s1] undisturbed_trans[OF conjunct2[OF s2] conjunct2[OF s3]]] .
    ultimately show ?thesis using conjunct1[OF s3] by simp
  qed
qed

lemma kapply_ready:
  assumes "kube_contract api S" "kube_serves api S" "has_meta name obj"
    and "ks_ready S (k_state s) is" "Apply coll name obj \<in> set is" "home S (k_state s) coll"
  obtains s' where "kapply api coll name obj s = (None, s')" "ks_ready S (k_state s') is"
    "undisturbed S is (obj_path coll name) (k_state s) (k_state s')" "kept S (k_state s') (obj_path coll name) obj"
  using kapply_goes_through[OF assms(2-6)] kapply_stores[OF assms(1,3)] by blast

text \<open>C15: \<open>apply\<close> establishes the desired object.  Against any API server that keeps its contract, an apply that reports success, be it by creating
  the object or by replacing an existing one, leaves an object stored at its path that keeps the manifest; and if the server is ready for the
  request and the namespace exists, the apply does report success, whether or not the object is there, the server stays ready, and the objects of the
  other intended requests keep what they held.\<close>
theorem kapply_establishes:
  assumes "kube_contract api S" "has_meta name obj"
  shows "(case kapply api coll name obj s of (e, s') \<Rightarrow>
      (e = None \<longrightarrow> kept S (k_state s') (obj_path coll name) obj)
    \<and> (kube_serves api S \<and> ks_ready S (k_state s) is \<and> Apply coll name obj \<in> set is \<and> home S (k_state s) coll \<longrightarrow>
         e = None \<and> ks_ready S (k_state s') is \<and> undisturbed S is (obj_path coll name) (k_state s) (k_state s')))"
proof -
  obtain e s' where r: "kapply api coll name obj s = (e, s')" by fastforce
  show ?thesis
    using kapply_stores[OF assms, of coll s s'] kapply_goes_through[OF _ assms(2), of api S s "is" coll] unfolding r by auto
qed

section \<open>A small API server\<close>

text \<open>A map of objects and a counter for resource versions.  It wants the namespace of a new object, adds metadata of its own, refuses names that are too
  long and checks the resource version of a replacement.\<close>
type_synonym toy = "(string \<Rightarrow> (string \<times> json) list option) \<times> nat"

definition fields :: "json \<Rightarrow> (string \<times> json) list" where
  "fields j = (case j of JObj kvs \<Rightarrow> kvs | _ \<Rightarrow> [])"

definition server_meta :: "string list" where "server_meta = [''uid'', ''creationTimestamp'', ''resourceVersion'']"

text \<open>The stored form of an object.\<close>
definition toy_stored :: "string \<Rightarrow> nat \<Rightarrow> json \<Rightarrow> (string \<times> json) list" where
  "toy_stored p n obj =
     AList.update ''metadata'' (JObj (AList.update ''uid'' (JStr (''uid-'' @ p)) (AList.update ''creationTimestamp'' (JStr ''2025-01-01T00:00:00Z'')
        (AList.update ''resourceVersion'' (JStr (show_nat n)) (fields (case jget obj ''metadata'' of None \<Rightarrow> JNull | Some m \<Rightarrow> m)))))) (fields obj)"

definition toy_put :: "string \<Rightarrow> json \<Rightarrow> toy \<Rightarrow> toy" where
  "toy_put p obj k = ((fst k)(p \<mapsto> toy_stored p (snd k) obj), Suc (snd k))"

definition toy_look :: "toy \<Rightarrow> string \<Rightarrow> json option" where
  "toy_look k p = map_option JObj (fst k p)"

definition toy_api :: "toy api" where
  "toy_api r k =
     (case (rq_meth r, rq_body r) of
        (POST, Some obj) \<Rightarrow>
          (let name = jstr (jpath obj [''metadata'', ''name'']); p = obj_path (rq_path r) name
           in if (case coll_ns (rq_path r) of None \<Rightarrow> False | Some n \<Rightarrow> fst k (''/api/v1/namespaces/'' @ n) = None)
              then (Resp 404 ''namespace not found'' None, k)
              else if length name > 253 then (Resp 422 ''invalid name'' None, k)
              else if fst k p = None then (Resp 201 '''' None, toy_put p obj k) else (Resp 409 '''' None, k))
      | (PUT, Some obj) \<Rightarrow>
          (case fst k (rq_path r) of
             None \<Rightarrow> (Resp 404 '''' None, k)
           | Some v \<Rightarrow> if rv_of obj = rv_of (JObj v) then (Resp 200 '''' None, toy_put (rq_path r) obj k)
                       else (Resp 409 '''' None, k))
      | (GET, _) \<Rightarrow>
          (case fst k (rq_path r) of Some kvs \<Rightarrow> (Resp 200 '''' (Some (JObj kvs)), k)
           | None \<Rightarrow> (Resp 404 '''' None, k))
      | (DELETE, _) \<Rightarrow> (Resp 200 '''' None, ((fst k)(rq_path r := None), snd k))
      | _ \<Rightarrow> (Resp 400 '''' None, k))"

text \<open>Every submitted field is stored as it was, apart from the metadata that the server sets.\<close>
definition toy_keeps :: "json \<Rightarrow> json \<Rightarrow> bool" where
  "toy_keeps obj v \<longleftrightarrow> (\<forall>f x. f \<noteq> ''metadata'' \<and> jget obj f = Some x \<longrightarrow> jget v f = Some x)
     \<and> (\<forall>f x. f \<notin> set server_meta \<and> jpath obj [''metadata'', f] = Some x \<longrightarrow> jpath v [''metadata'', f] = Some x)"

definition toy_server :: "toy server" where
  "toy_server = \<lparr> ks_look = toy_look, ks_keeps = toy_keeps,
     ks_ready = (\<lambda>k is. list_all (\<lambda>i. case i of Apply coll name obj \<Rightarrow> has_meta name obj \<and> length name \<le> 253 | Read p \<Rightarrow> True) is) \<rparr>"

lemma jget_update: "jget (JObj (AList.update k v kvs)) f = (if f = k then Some v else map_of kvs f)"
  by (simp add: jget_def map_of_update)

lemma toy_stored_keeps: "has_meta name obj \<Longrightarrow> toy_keeps obj (JObj (toy_stored p n obj))"
  by (auto simp: has_meta_def toy_keeps_def toy_stored_def jget_update fields_def server_meta_def jget_def map_of_update
      split: if_splits)

lemma jget_jset: "f \<noteq> k \<Longrightarrow> jget (jset k v j) f = jget j f"
  by (simp add: jget_def jset_def map_of_update split: json.split)

lemma with_rv_field: "f \<noteq> ''metadata'' \<Longrightarrow> jget (with_rv r obj) f = jget obj f"
  by (simp add: with_rv_def jget_jset split: option.split)

lemma with_rv_meta:
  assumes "f \<noteq> ''resourceVersion''"
  shows "jpath (with_rv r obj) [''metadata'', f] = jpath obj [''metadata'', f]"
proof (cases "jget obj ''metadata''")
  case (Some md)
  then obtain kvs where "obj = JObj kvs" by (auto simp: jget_def split: json.splits)
  then have "jget (with_rv r obj) ''metadata'' = Some (jset ''resourceVersion'' (JStr r) md)"
    using Some by (simp add: with_rv_def jset_def[of "''metadata''"] jget_update)
  then show ?thesis using Some assms by (simp add: jget_jset)
qed (simp add: with_rv_def)

lemma toy_keeps_rv: "toy_keeps (with_rv r obj) v \<Longrightarrow> toy_keeps obj v"
  by (simp add: toy_keeps_def with_rv_field with_rv_meta server_meta_def del: jpath.simps)

lemma has_meta_name: "has_meta name obj \<Longrightarrow> jstr (jpath obj [''metadata'', ''name'']) = name"
  by (auto simp: has_meta_def jget_def jstr_def)

lemma toy_kept_put: "has_meta name obj \<Longrightarrow> kept toy_server (toy_put p obj k) p obj"
  by (simp add: kept_def toy_server_def toy_look_def toy_put_def toy_stored_keeps)

lemma toy_post:
  "has_meta name obj \<Longrightarrow> toy_api \<lparr> rq_meth = POST, rq_path = coll, rq_body = Some obj \<rparr> k =
     (if \<not> home toy_server k coll then (Resp 404 ''namespace not found'' None, k)
      else if length name > 253 then (Resp 422 ''invalid name'' None, k)
      else if toy_look k (obj_path coll name) = None then (Resp 201 '''' None, toy_put (obj_path coll name) obj k)
      else (Resp 409 '''' None, k))"
proof -
  assume m: "has_meta name obj"
  have h: "home toy_server k coll \<longleftrightarrow> \<not> (case coll_ns coll of None \<Rightarrow> False | Some n \<Rightarrow> fst k (''/api/v1/namespaces/'' @ n) = None)"
    by (cases "coll_ns coll") (simp_all add: home_def toy_server_def toy_look_def)
  have l: "toy_look k p = None \<longleftrightarrow> fst k p = None" for p by (simp add: toy_look_def)
  show ?thesis unfolding h l not_not
    by (simp only: toy_api_def kreq.select_convs prod.case meth.case option.case Let_def has_meta_name[OF m])
qed

lemma toy_put_req:
  "toy_api \<lparr> rq_meth = PUT, rq_path = p, rq_body = Some obj \<rparr> k =
     (case toy_look k p of None \<Rightarrow> (Resp 404 '''' None, k)
      | Some v \<Rightarrow> if rv_of obj = rv_of v then (Resp 200 '''' None, toy_put p obj k) else (Resp 409 '''' None, k))"
  by (simp add: toy_api_def toy_look_def split: option.splits)

lemma toy_get:
  "toy_api \<lparr> rq_meth = GET, rq_path = p, rq_body = None \<rparr> k =
     (case toy_look k p of None \<Rightarrow> (Resp 404 '''' None, k) | Some v \<Rightarrow> (Resp 200 '''' (Some v), k))"
  by (simp add: toy_api_def toy_look_def split: option.splits)

lemma toy_contract: "kube_contract toy_api toy_server"
  unfolding kube_contract_def
proof (intro conjI allI impI)
  fix coll name obj and k :: toy and st b j k'
  assume a: "has_meta name obj \<and> ok2xx st \<and> toy_api \<lparr> rq_meth = POST, rq_path = coll, rq_body = Some obj \<rparr> k = (Resp st b j, k')"
  then have "k' = toy_put (obj_path coll name) obj k" using toy_post[of name obj coll k] by (auto simp: ok2xx_def split: if_splits)
  then show "kept toy_server k' (obj_path coll name) obj" using toy_kept_put a by blast
next
  fix p name obj and k :: toy and st b j k'
  assume a: "has_meta name obj \<and> ok2xx st \<and> toy_api \<lparr> rq_meth = PUT, rq_path = p, rq_body = Some obj \<rparr> k = (Resp st b j, k')"
  then have "k' = toy_put p obj k" by (auto simp: toy_put_req ok2xx_def split: option.splits if_splits)
  then show "kept toy_server k' p obj" using toy_kept_put a by blast
next
  fix p and k :: toy and b v k'
  assume "CHR ''?'' \<notin> set p \<and> toy_api \<lparr> rq_meth = GET, rq_path = p, rq_body = None \<rparr> k = (Resp 200 b (Some v), k')"
  then show "ks_look toy_server k' p = Some v" by (auto simp: toy_get toy_server_def split: option.splits)
next
  fix r obj v
  assume "ks_keeps toy_server (with_rv r obj) v"
  then show "ks_keeps toy_server obj v" using toy_keeps_rv by (simp add: toy_server_def)
next
  fix obj v d
  assume "ks_keeps toy_server obj v \<and> jget obj ''data'' = Some d"
  then show "jget v ''data'' = Some d" by (simp add: toy_server_def toy_keeps_def)
qed

lemma toy_undisturbed: "undisturbed toy_server is p k k" "undisturbed toy_server is p k (toy_put p obj k)"
  by (auto simp: undisturbed_def kept_def home_def toy_server_def toy_look_def toy_put_def split: option.splits)

lemma toy_serves: "kube_serves toy_api toy_server"
  unfolding kube_serves_def
proof (intro conjI allI impI)
  fix k :: toy and "is" i r
  assume a: "ks_ready toy_server k is \<and> i \<in> set is \<and> intent_req i r"
  have rd: "ks_ready toy_server k' is" for k' using a by (simp add: toy_server_def)
  have "undisturbed toy_server is (intent_path i) k (snd (toy_api r k))"
  proof (cases i)
    case (Read p)
    then show ?thesis using a by (auto simp: intent_req_def toy_get toy_undisturbed split: option.splits)
  next
    case (Apply coll name obj)
    then have "has_meta name obj" using a by (auto simp: toy_server_def list_all_iff)
    then show ?thesis using a unfolding Apply
      by (auto simp: intent_req_def toy_get toy_put_req toy_post toy_undisturbed split: option.splits)
  qed
  then show "ks_ready toy_server (snd (toy_api r k)) is" "undisturbed toy_server is (intent_path i) k (snd (toy_api r k))"
    using rd by blast+
next
  fix k :: toy and "is" coll name obj
  assume a: "ks_ready toy_server k is \<and> Apply coll name obj \<in> set is \<and> has_meta name obj \<and> home toy_server k coll"
  then have "\<not> length name > 253" by (auto simp: toy_server_def list_all_iff)
  then show "\<exists>st b j k'. toy_api \<lparr> rq_meth = POST, rq_path = coll, rq_body = Some obj \<rparr> k = (Resp st b j, k')
      \<and> (if ks_look toy_server k (obj_path coll name) = None then ok2xx st
         else st = 409 \<and> ks_look toy_server k' (obj_path coll name) \<noteq> None)"
    using a toy_post[of name obj coll k] by (cases "toy_look k (obj_path coll name)") (auto simp: toy_server_def ok2xx_def)
next
  fix k :: toy and "is" i v
  assume "ks_ready toy_server k is \<and> i \<in> set is \<and> ks_look toy_server k (intent_path i) = Some v"
  then show "\<exists>b k' kvs. toy_api \<lparr> rq_meth = GET, rq_path = intent_path i, rq_body = None \<rparr> k = (Resp 200 b (Some v), k')
      \<and> v = JObj kvs \<and> ks_look toy_server k' (intent_path i) = Some v"
    by (cases k) (auto simp: toy_get toy_server_def toy_look_def)
next
  fix k :: toy and "is" coll name obj v
  assume a: "ks_ready toy_server k is \<and> Apply coll name obj \<in> set is \<and> has_meta name obj \<and> ks_look toy_server k (obj_path coll name) = Some v"
  then have "rv_of (with_rv (rv_of v) obj) = rv_of v" using rv_of_with_rv by blast
  then show "\<exists>st b j k'. toy_api \<lparr> rq_meth = PUT, rq_path = obj_path coll name, rq_body = Some (with_rv (rv_of v) obj) \<rparr> k = (Resp st b j, k')
      \<and> ok2xx st"
    using a by (simp add: toy_put_req toy_server_def ok2xx_def)
qed

text \<open>The object exists with another content: the replacement goes through and keeps the manifest.\<close>
theorem kapply_establishes_witness:
  "\<exists>s'. kapply toy_api ''/c'' ''a'' (JObj [(''metadata'', JObj [(''name'', JStr ''a'')]), (''data'', JInt 2)])
       \<lparr> k_state = ([''/c/a'' \<mapsto> [(''metadata'', JObj [(''name'', JStr ''a'')]), (''data'', JInt 1)]], 7), k_trace = [] \<rparr> = (None, s')
     \<and> map_option (\<lambda>v. (jget v ''data'', jpath v [''metadata'', ''name''])) (toy_look (k_state s') ''/c/a'') = Some (Some (JInt 2), Some (JStr ''a''))"
proof -
  let ?o = "JObj [(''metadata'', JObj [(''name'', JStr ''a'')]), (''data'', JInt 2)]"
  let ?s = "\<lparr> k_state = ([''/c/a'' \<mapsto> [(''metadata'', JObj [(''name'', JStr ''a'')]), (''data'', JInt 1)]], 7::nat), k_trace = [] \<rparr>"
  have m: "has_meta ''a'' ?o" by (simp add: has_meta_def)
  have p: "obj_path ''/c'' ''a'' = ''/c/a''" by code_simp
  have h: "coll_ns ''/c'' = None" by code_simp
  have "ks_ready toy_server (k_state ?s) [Apply ''/c'' ''a'' ?o]" "home toy_server (k_state ?s) ''/c''"
    using m h by (simp_all add: toy_server_def home_def)
  then obtain s' where s': "kapply toy_api ''/c'' ''a'' ?o ?s = (None, s')" "kept toy_server (k_state s') ''/c/a'' ?o"
    using toy_serves kapply_establishes[OF toy_contract m, of "''/c''" ?s "[Apply ''/c'' ''a'' ?o]"] p by fastforce
  then obtain v where v: "toy_look (k_state s') ''/c/a'' = Some v" "toy_keeps ?o v"
    by (auto simp: kept_def toy_server_def split: option.splits)
  have "jget v ''data'' = Some (JInt 2)"
    by (rule conjunct1[OF v(2)[unfolded toy_keeps_def], rule_format]) (simp add: jget_def)
  moreover have "jpath v [''metadata'', ''name''] = Some (JStr ''a'')"
    by (rule conjunct2[OF v(2)[unfolded toy_keeps_def], rule_format]) (simp add: jget_def server_meta_def)
  ultimately show ?thesis using s'(1) v(1) by auto
qed

end
