(* ===== verification/Tenant.thy ===== *)
theory Tenant
  imports Kube_Apply
begin

text \<open>
  Tenant isolation (\<open>tenant.go\<close>): the manifests of a tenant namespace, \<open>ensureTenant\<close>, and the
  traffic its network policies allow.  Network policies are interpreted by \<open>np_allows\<close>, the
  documented rule of the NetworkPolicy API: a pod selected by a policy of a direction may only use
  connections some rule of some such policy admits.
\<close>

section \<open>Manifests\<close>

definition buildNamespace :: string where "buildNamespace = ''paas-system''"
definition dockerCfgSecret :: string where "dockerCfgSecret = ''registry-dockercfg''"
definition tenantPort :: int where "tenantPort = 8080"

definition tenantNamespaceManifest :: "string \<Rightarrow> string \<Rightarrow> json" where
  "tenantNamespaceManifest name login = JObj
     [(''apiVersion'', JStr ''v1''), (''kind'', JStr ''Namespace''),
      (''metadata'', JObj
        [(''name'', JStr name),
         (''labels'', jlabels
           [(''app.kubernetes.io/managed-by'', ''control-plane''),
            (''paas.tenant.login'', sanitizeLabelValue login),
            (''pod-security.kubernetes.io/enforce'', ''restricted''),
            (''pod-security.kubernetes.io/enforce-version'', ''latest''),
            (''pod-security.kubernetes.io/audit'', ''restricted''),
            (''pod-security.kubernetes.io/warn'', ''restricted'')])])]"

definition tenantResourceQuotaManifest :: "string \<Rightarrow> json" where
  "tenantResourceQuotaManifest ns = JObj
     [(''apiVersion'', JStr ''v1''), (''kind'', JStr ''ResourceQuota''),
      (''metadata'', JObj [(''name'', JStr ''tenant''), (''namespace'', JStr ns)]),
      (''spec'', JObj [(''hard'', jlabels
        [(''requests.cpu'', ''4''), (''requests.memory'', ''4Gi''), (''limits.cpu'', ''8''),
         (''limits.memory'', ''8Gi''), (''pods'', ''30''), (''services'', ''10''),
         (''persistentvolumeclaims'', ''5''), (''secrets'', ''30'')])])]"

definition tenantLimitRangeManifest :: "string \<Rightarrow> json" where
  "tenantLimitRangeManifest ns = JObj
     [(''apiVersion'', JStr ''v1''), (''kind'', JStr ''LimitRange''),
      (''metadata'', JObj [(''name'', JStr ''tenant''), (''namespace'', JStr ns)]),
      (''spec'', JObj [(''limits'', JArr [JObj
        [(''type'', JStr ''Container''),
         (''default'', jlabels [(''cpu'', ''100m''), (''memory'', ''128Mi'')]),
         (''defaultRequest'', jlabels [(''cpu'', ''20m''), (''memory'', ''32Mi'')]),
         (''max'', jlabels [(''cpu'', ''1''), (''memory'', ''1Gi'')])]])])]"

definition netpol :: "string \<Rightarrow> string \<Rightarrow> json \<Rightarrow> string list \<Rightarrow> (string \<times> json) list \<Rightarrow> json" where
  "netpol name ns sel types rules = JObj
     [(''apiVersion'', JStr ''networking.k8s.io/v1''), (''kind'', JStr ''NetworkPolicy''),
      (''metadata'', JObj [(''name'', JStr name), (''namespace'', JStr ns)]),
      (''spec'', JObj ([(''podSelector'', sel), (''policyTypes'', JArr (map JStr types))] @ rules))]"

definition tenantDefaultDenyNetworkPolicyManifest :: "string \<Rightarrow> json" where
  "tenantDefaultDenyNetworkPolicyManifest ns =
     netpol ''default-deny'' ns (JObj []) [''Ingress'', ''Egress''] []"

definition ns_selector :: "string \<Rightarrow> string \<times> json" where
  "ns_selector n =
     (''namespaceSelector'', JObj [(''matchLabels'', jlabels [(''kubernetes.io/metadata.name'', n)])])"

definition port_rule :: "string \<Rightarrow> int \<Rightarrow> json" where
  "port_rule proto p = JObj [(''protocol'', JStr proto), (''port'', JInt p)]"

definition tenantAllowTraefikIngressManifest :: "string \<Rightarrow> json" where
  "tenantAllowTraefikIngressManifest ns =
     netpol ''allow-traefik-ingress'' ns (JObj []) [''Ingress'']
       [(''ingress'', JArr [JObj
          [(''from'', JArr [JObj [ns_selector ''traefik-system'']]),
           (''ports'', JArr [port_rule ''TCP'' tenantPort])]])]"

definition tenantAllowPublicEgressManifest :: "string \<Rightarrow> json" where
  "tenantAllowPublicEgressManifest ns =
     netpol ''allow-public-egress'' ns (JObj []) [''Egress'']
       [(''egress'', JArr
          [JObj
            [(''to'', JArr [JObj [ns_selector ''kube-system''],
                            JObj [(''ipBlock'', JObj [(''cidr'', JStr ''169.254.20.10/32'')])]]),
             (''ports'', JArr [port_rule ''UDP'' 53, port_rule ''TCP'' 53])],
           JObj
            [(''to'', JArr [JObj [(''ipBlock'', JObj
               [(''cidr'', JStr ''0.0.0.0/0''),
                (''except'', JArr [JStr ''10.0.0.0/8'', JStr ''172.16.0.0/12'',
                                   JStr ''192.168.0.0/16'', JStr ''169.254.0.0/16''])])]])]])]"

definition tenantAllowPaasDBEgressManifest :: "string \<Rightarrow> json" where
  "tenantAllowPaasDBEgressManifest ns =
     netpol ''allow-paas-db-egress'' ns (JObj [(''matchLabels'', jlabels [(''paas.db'', ''enabled'')])])
       [''Egress'']
       [(''egress'', JArr [JObj
          [(''to'', JArr [JObj
             [ns_selector ''paas-system'',
              (''podSelector'', JObj [(''matchLabels'', jlabels [(''cnpg.io/cluster'', ''paas-db'')])])]]),
           (''ports'', JArr [port_rule ''TCP'' 5432])]])]"

section \<open>Creating a tenant\<close>

definition mirrorRegistryPullSecret ::
  "'k api \<Rightarrow> (string \<Rightarrow> string option) \<Rightarrow> (string \<Rightarrow> string) \<Rightarrow> string \<Rightarrow> 'k kcmd" where
  "mirrorRegistryPullSecret api b64 enc ns s =
     (let src = buildNamespace @ ''/'' @ dockerCfgSecret
      in case getSecretData api b64 buildNamespace dockerCfgSecret s of
           (Inl e, s1) \<Rightarrow> (Some e, s1)
         | (Inr None, s1) \<Rightarrow> (Some (''source secret '' @ src @ '' not found''), s1)
         | (Inr (Some d), s1) \<Rightarrow>
             (case map_of d ''.dockerconfigjson'' of
                None \<Rightarrow> (Some (''source secret '' @ src @ '' missing .dockerconfigjson''), s1)
              | Some body \<Rightarrow>
                  if body = '''' then (Some (''source secret '' @ src @ '' missing .dockerconfigjson''), s1)
                  else applyDockerConfigSecret api enc ns dockerCfgSecret body s1))"

text \<open>The steps of \<open>ensureTenant\<close>, each with the text its error is wrapped in.\<close>
definition tenant_steps ::
  "'k api \<Rightarrow> (string \<Rightarrow> string option) \<Rightarrow> (string \<Rightarrow> string) \<Rightarrow> string \<Rightarrow> (string \<times> 'k kcmd) list" where
  "tenant_steps api b64 enc login =
     (let ns = tenantNamespaceFor login in
      [(''apply namespace '' @ ns, applyNamespace api ns (tenantNamespaceManifest ns login)),
       (''apply quota'', applyResourceQuota api ns ''tenant'' (tenantResourceQuotaManifest ns)),
       (''apply limitrange'', applyLimitRange api ns ''tenant'' (tenantLimitRangeManifest ns)),
       (''apply default-deny'', applyNetworkPolicy api ns ''default-deny'' (tenantDefaultDenyNetworkPolicyManifest ns)),
       (''apply allow-traefik'', applyNetworkPolicy api ns ''allow-traefik-ingress'' (tenantAllowTraefikIngressManifest ns)),
       (''apply allow-egress'', applyNetworkPolicy api ns ''allow-public-egress'' (tenantAllowPublicEgressManifest ns)),
       (''apply allow-paas-db'', applyNetworkPolicy api ns ''allow-paas-db-egress'' (tenantAllowPaasDBEgressManifest ns)),
       (''mirror registry pull secret'', mirrorRegistryPullSecret api b64 enc ns)])"

fun run_steps :: "(string \<times> 'k kcmd) list \<Rightarrow> 'k kcmd" where
  "run_steps [] s = (None, s)"
| "run_steps ((what, f) # fs) s =
     (case f s of (Some e, s1) \<Rightarrow> (Some (wrap_err what e), s1) | (None, s1) \<Rightarrow> run_steps fs s1)"

definition ensureTenant ::
  "'k api \<Rightarrow> (string \<Rightarrow> string option) \<Rightarrow> (string \<Rightarrow> string) \<Rightarrow> string \<Rightarrow> 'k kube
     \<Rightarrow> (string, string) result \<times> 'k kube" where
  "ensureTenant api b64 enc login s =
     (case run_steps (tenant_steps api b64 enc login) s of
        (Some e, s1) \<Rightarrow> (Inl e, s1)
      | (None, s1) \<Rightarrow> (Inr (tenantNamespaceFor login), s1))"

section \<open>What a network policy allows\<close>

definition ipv4 :: "string \<Rightarrow> int option" where
  "ipv4 s = (let xs = map parse_nat (split_on (CHR ''.'') s)
     in if length xs = 4 \<and> None \<notin> set xs then Some (foldl (\<lambda>a x. a * 256 + int (the x)) 0 xs) else None)"

definition cidr_match :: "string \<Rightarrow> int \<Rightarrow> bool" where
  "cidr_match c ip = (case split_on (CHR ''/'') c of
       [a, l] \<Rightarrow> (case (ipv4 a, parse_nat l) of
           (Some n, Some b) \<Rightarrow> ip div 2 ^ (32 - b) = n div 2 ^ (32 - b) | _ \<Rightarrow> False)
     | _ \<Rightarrow> False)"

record endpoint =
  ep_ip :: int
  ep_pod :: bool
  ep_ns :: "(string \<times> string) list"
  ep_labels :: "(string \<times> string) list"

definition labels_match :: "json \<Rightarrow> (string \<times> string) list \<Rightarrow> bool" where
  "labels_match sel ls = (case jget sel ''matchLabels'' of
       Some (JObj kvs) \<Rightarrow> list_all (\<lambda>(k, v). map_of ls k = Some (jstr (Some v))) kvs
     | _ \<Rightarrow> True)"

definition peer_match :: "string \<Rightarrow> json \<Rightarrow> endpoint \<Rightarrow> bool" where
  "peer_match ns p e = (case jget p ''ipBlock'' of
       Some b \<Rightarrow> cidr_match (jstr (jget b ''cidr'')) (ep_ip e)
                 \<and> \<not> list_ex (\<lambda>x. cidr_match (jstr (Some x)) (ep_ip e)) (jarr (jget b ''except''))
     | None \<Rightarrow> ep_pod e
         \<and> (case jget p ''namespaceSelector'' of
              Some sel \<Rightarrow> labels_match sel (ep_ns e)
            | None \<Rightarrow> map_of (ep_ns e) ''kubernetes.io/metadata.name'' = Some ns)
         \<and> (case jget p ''podSelector'' of Some sel \<Rightarrow> labels_match sel (ep_labels e) | None \<Rightarrow> True))"

definition rule_match :: "string \<Rightarrow> string \<Rightarrow> json \<Rightarrow> endpoint \<Rightarrow> string \<Rightarrow> int \<Rightarrow> bool" where
  "rule_match ns side r e proto port \<longleftrightarrow>
     (case jget r side of None \<Rightarrow> True | Some ps \<Rightarrow> list_ex (\<lambda>p. peer_match ns p e) (jarr (Some ps)))
   \<and> (case jget r ''ports'' of None \<Rightarrow> True
      | Some ps \<Rightarrow> list_ex (\<lambda>p. jstr (jget p ''protocol'') = proto \<and> jint (jget p ''port'') = port) (jarr (Some ps)))"

definition selects :: "string \<Rightarrow> (string \<times> string) list \<Rightarrow> json \<Rightarrow> bool" where
  "selects dir pod pol \<longleftrightarrow> JStr dir \<in> set (jarr (jpath pol [''spec'', ''policyTypes'']))
     \<and> (case jpath pol [''spec'', ''podSelector''] of Some sel \<Rightarrow> labels_match sel pod | None \<Rightarrow> True)"

definition np_rules :: "string \<Rightarrow> json \<Rightarrow> json list" where
  "np_rules side pol = jarr (jpath pol [''spec'', side])"

definition egress_allowed :: "string \<Rightarrow> json list \<Rightarrow> (string \<times> string) list \<Rightarrow> endpoint \<Rightarrow> string \<Rightarrow> int \<Rightarrow> bool" where
  "egress_allowed ns pols pod e proto port =
     (let app = filter (selects ''Egress'' pod) pols
      in app = [] \<or> list_ex (\<lambda>pol. list_ex (\<lambda>r. rule_match ns ''to'' r e proto port)
                                   (np_rules ''egress'' pol)) app)"

definition ingress_allowed :: "string \<Rightarrow> json list \<Rightarrow> (string \<times> string) list \<Rightarrow> endpoint \<Rightarrow> string \<Rightarrow> int \<Rightarrow> bool" where
  "ingress_allowed ns pols pod e proto port =
     (let app = filter (selects ''Ingress'' pod) pols
      in app = [] \<or> list_ex (\<lambda>pol. list_ex (\<lambda>r. rule_match ns ''from'' r e proto port)
                                   (np_rules ''ingress'' pol)) app)"

definition tenant_policies :: "string \<Rightarrow> json list" where
  "tenant_policies ns =
     [tenantDefaultDenyNetworkPolicyManifest ns, tenantAllowTraefikIngressManifest ns,
      tenantAllowPublicEgressManifest ns, tenantAllowPaasDBEgressManifest ns]"

definition private_ip :: "int \<Rightarrow> bool" where
  "private_ip ip \<longleftrightarrow> cidr_match ''10.0.0.0/8'' ip \<or> cidr_match ''172.16.0.0/12'' ip
     \<or> cidr_match ''192.168.0.0/16'' ip \<or> cidr_match ''169.254.0.0/16'' ip"

definition in_ns :: "string \<Rightarrow> endpoint \<Rightarrow> bool" where
  "in_ns n e \<longleftrightarrow> ep_pod e \<and> map_of (ep_ns e) ''kubernetes.io/metadata.name'' = Some n"

lemma dns_vip: "cidr_match ''169.254.20.10/32'' ip \<longleftrightarrow> ip = 2852000778"
proof -
  have "split_on (CHR ''/'') ''169.254.20.10/32'' = [''169.254.20.10'', ''32'']"
    "ipv4 ''169.254.20.10'' = Some 2852000778" "parse_nat ''32'' = Some 32" by code_simp+
  then show ?thesis by (simp add: cidr_match_def)
qed

lemmas policy_defs = np_rules_def tenantDefaultDenyNetworkPolicyManifest_def tenantAllowTraefikIngressManifest_def
  tenantAllowPublicEgressManifest_def tenantAllowPaasDBEgressManifest_def netpol_def ns_selector_def
  port_rule_def jlabels_def jget_def jarr_def jstr_def jint_def

lemma selects_deny: "selects d pod (tenantDefaultDenyNetworkPolicyManifest ns) \<longleftrightarrow> d = ''Ingress'' \<or> d = ''Egress''"
  by (auto simp: selects_def labels_match_def policy_defs)

lemma selects_traefik: "selects d pod (tenantAllowTraefikIngressManifest ns) \<longleftrightarrow> d = ''Ingress''"
  by (auto simp: selects_def labels_match_def policy_defs)

lemma selects_public: "selects d pod (tenantAllowPublicEgressManifest ns) \<longleftrightarrow> d = ''Egress''"
  by (auto simp: selects_def labels_match_def policy_defs)

lemma selects_db: "selects d pod (tenantAllowPaasDBEgressManifest ns) \<longleftrightarrow>
    d = ''Egress'' \<and> map_of pod ''paas.db'' = Some ''enabled''"
  by (auto simp: selects_def labels_match_def policy_defs)

lemma egress_deny: "np_rules ''egress'' (tenantDefaultDenyNetworkPolicyManifest ns) = []"
  by (simp add: policy_defs)

lemma egress_public:
  "list_ex (\<lambda>r. rule_match ns ''to'' r e proto port)
      (np_rules ''egress'' (tenantAllowPublicEgressManifest ns))
   \<longleftrightarrow> (in_ns ''kube-system'' e \<or> ep_ip e = 2852000778) \<and> (proto = ''UDP'' \<or> proto = ''TCP'') \<and> port = 53
      \<or> cidr_match ''0.0.0.0/0'' (ep_ip e) \<and> \<not> private_ip (ep_ip e)"
  by (simp add: policy_defs rule_match_def peer_match_def labels_match_def dns_vip private_ip_def in_ns_def)
     blast

lemma egress_db:
  "list_ex (\<lambda>r. rule_match ns ''to'' r e proto port)
      (np_rules ''egress'' (tenantAllowPaasDBEgressManifest ns))
   \<longleftrightarrow> in_ns ''paas-system'' e \<and> map_of (ep_labels e) ''cnpg.io/cluster'' = Some ''paas-db''
       \<and> proto = ''TCP'' \<and> port = 5432"
  by (auto simp: policy_defs rule_match_def peer_match_def labels_match_def in_ns_def)

lemma ingress_traefik:
  "list_ex (\<lambda>r. rule_match ns ''from'' r e proto port)
      (np_rules ''ingress'' (tenantAllowTraefikIngressManifest ns))
   \<longleftrightarrow> in_ns ''traefik-system'' e \<and> proto = ''TCP'' \<and> port = tenantPort"
  by (auto simp: policy_defs rule_match_def peer_match_def labels_match_def in_ns_def)

lemma ingress_deny: "np_rules ''ingress'' (tenantDefaultDenyNetworkPolicyManifest ns) = []"
  by (simp add: policy_defs)

lemmas egress_facts = selects_deny selects_traefik selects_public selects_db egress_deny egress_public
  egress_db ingress_traefik ingress_deny

text \<open>C4: tenant isolation on the network: a tenant pod can reach a private or link-local address
  (the cluster's pods and services, the API server, the registry, the LAN, cloud metadata) only for
  DNS on port 53 in \<open>kube-system\<close> or at the node-local resolver, and, only if it carries the
  label \<open>paas.db=enabled\<close>, on TCP 5432 at the pods of the shared database cluster; and nothing but
  Traefik on the application port can connect to it.\<close>
theorem tenant_network_isolation:
  "(private_ip (ep_ip e) \<longrightarrow> egress_allowed ns (tenant_policies ns) pod e proto port \<longrightarrow>
      (port = 53 \<and> (in_ns ''kube-system'' e \<or> ep_ip e = 2852000778))
    \<or> (map_of pod ''paas.db'' = Some ''enabled'' \<and> proto = ''TCP'' \<and> port = 5432 \<and> in_ns ''paas-system'' e
       \<and> map_of (ep_labels e) ''cnpg.io/cluster'' = Some ''paas-db''))
   \<and> (ingress_allowed ns (tenant_policies ns) pod e proto port
        \<longleftrightarrow> in_ns ''traefik-system'' e \<and> proto = ''TCP'' \<and> port = 8080)"
  by (auto simp: egress_allowed_def ingress_allowed_def tenant_policies_def Let_def egress_facts
      tenantPort_def split: if_splits)

theorem tenant_network_isolation_witness:
  "\<not> egress_allowed ''paas-tenant-octo'' (tenant_policies ''paas-tenant-octo'') []
       \<lparr> ep_ip = 167772161, ep_pod = False, ep_ns = [], ep_labels = [] \<rparr> ''TCP'' 443"
proof -
  have "private_ip 167772161" by code_simp
  then show ?thesis
    using tenant_network_isolation[of "\<lparr> ep_ip = 167772161, ep_pod = False, ep_ns = [], ep_labels = [] \<rparr>"
        "''paas-tenant-octo''" "[]" "''TCP''" 443]
    by (simp add: in_ns_def)
qed

section \<open>\<open>ensureTenant\<close> on an API server that keeps its contract\<close>

type_synonym step = "string \<times> string \<times> string \<times> json"

definition apply_step :: "'k api \<Rightarrow> step \<Rightarrow> string \<times> 'k kcmd" where
  "apply_step api st = (case st of (what, coll, name, obj) \<Rightarrow> (what, kapply api coll name obj))"

definition step_path :: "step \<Rightarrow> string" where
  "step_path st = (case st of (what, coll, name, obj) \<Rightarrow> obj_path coll name)"

definition step_intent :: "step \<Rightarrow> intent" where
  "step_intent st = (case st of (what, coll, name, obj) \<Rightarrow> Apply coll name obj)"

definition holds :: "'k server \<Rightarrow> 'k \<Rightarrow> step \<Rightarrow> bool" where
  "holds S k st = (case st of (what, coll, name, obj) \<Rightarrow> kept S k (obj_path coll name) obj)"

text \<open>A step the server is ready for, in a namespace that exists.\<close>
definition step_fits :: "'k server \<Rightarrow> 'k \<Rightarrow> intent list \<Rightarrow> step \<Rightarrow> bool" where
  "step_fits S k is st = (case st of (what, coll, name, obj) \<Rightarrow> has_meta name obj \<and> Apply coll name obj \<in> set is \<and> home S k coll)"

lemma undisturbed_home: "undisturbed S is p k k' \<Longrightarrow> step_fits S k is st \<Longrightarrow> step_fits S k' is st"
  by (auto simp: undisturbed_def step_fits_def)

lemma undisturbed_kept: "undisturbed S is p k k' \<Longrightarrow> i \<in> set is \<Longrightarrow> intent_path i \<noteq> p \<Longrightarrow> kept S k (intent_path i) obj \<Longrightarrow> kept S k' (intent_path i) obj"
  by (simp add: undisturbed_def)

lemma run_ready_steps:
  assumes "kube_contract api S" "kube_serves api S"
    and "ks_ready S (k_state s) is" "\<forall>st \<in> set sts. step_fits S (k_state s) is st" "distinct (map step_path sts)"
  shows "\<exists>s'. run_steps (map (apply_step api) sts @ fs) s = run_steps fs s' \<and> ks_ready S (k_state s') is
     \<and> (\<forall>st \<in> set sts. holds S (k_state s') st) \<and> (\<forall>coll. home S (k_state s) coll \<longrightarrow> home S (k_state s') coll)
     \<and> (\<forall>i \<in> set is. intent_path i \<notin> step_path ` set sts \<longrightarrow> (\<forall>obj. kept S (k_state s) (intent_path i) obj \<longrightarrow> kept S (k_state s') (intent_path i) obj))"
  using assms(3-)
proof (induction sts arbitrary: s)
  case (Cons st sts)
  obtain what coll name obj where st: "st = (what, coll, name, obj)" by (cases st)
  then have f: "has_meta name obj" "Apply coll name obj \<in> set is" "home S (k_state s) coll" using Cons.prems(2) by (auto simp: step_fits_def)
  obtain s1 where 1: "kapply api coll name obj s = (None, s1)" "ks_ready S (k_state s1) is"
    "undisturbed S is (obj_path coll name) (k_state s) (k_state s1)" "kept S (k_state s1) (obj_path coll name) obj"
    by (rule kapply_ready[OF assms(1,2) f(1) Cons.prems(1) f(2,3)])
  obtain s' where 2: "run_steps (map (apply_step api) sts @ fs) s1 = run_steps fs s'" "ks_ready S (k_state s') is"
    "\<forall>x \<in> set sts. holds S (k_state s') x" "\<forall>coll. home S (k_state s1) coll \<longrightarrow> home S (k_state s') coll"
    "\<forall>i \<in> set is. intent_path i \<notin> step_path ` set sts \<longrightarrow> (\<forall>obj. kept S (k_state s1) (intent_path i) obj \<longrightarrow> kept S (k_state s') (intent_path i) obj)"
    using Cons.IH[OF 1(2)] Cons.prems(2,3) undisturbed_home[OF 1(3)] by auto
  have "kept S (k_state s') (obj_path coll name) obj"
    using bspec[OF 2(5) f(2)] 1(4) Cons.prems(3) st by (simp add: step_path_def)
  then have "holds S (k_state s') st" by (simp add: st holds_def)
  moreover have "apply_step api st = (what, kapply api coll name obj)" "step_path st = obj_path coll name"
    by (simp_all add: st apply_step_def step_path_def)
  moreover have "\<forall>coll. home S (k_state s) coll \<longrightarrow> home S (k_state s') coll" using 1(3) 2(4) by (simp add: undisturbed_def)
  ultimately show ?case using 1 2 undisturbed_kept[OF 1(3)] by (intro exI[of _ s']) auto
qed auto

definition tenant_objects :: "string \<Rightarrow> step list" where
  "tenant_objects login =
     (let ns = tenantNamespaceFor login; np = ns_path ''/apis/networking.k8s.io/v1'' ns ''networkpolicies'' in
      [(''apply namespace '' @ ns, ''/api/v1/namespaces'', ns, tenantNamespaceManifest ns login),
       (''apply quota'', ns_path ''/api/v1'' ns ''resourcequotas'', ''tenant'', tenantResourceQuotaManifest ns),
       (''apply limitrange'', ns_path ''/api/v1'' ns ''limitranges'', ''tenant'', tenantLimitRangeManifest ns),
       (''apply default-deny'', np, ''default-deny'', tenantDefaultDenyNetworkPolicyManifest ns),
       (''apply allow-traefik'', np, ''allow-traefik-ingress'', tenantAllowTraefikIngressManifest ns),
       (''apply allow-egress'', np, ''allow-public-egress'', tenantAllowPublicEgressManifest ns),
       (''apply allow-paas-db'', np, ''allow-paas-db-egress'', tenantAllowPaasDBEgressManifest ns)])"

lemma tenant_steps_split:
  "tenant_steps api b64 enc login = map (apply_step api) (tenant_objects login)
     @ [(''mirror registry pull secret'', mirrorRegistryPullSecret api b64 enc (tenantNamespaceFor login))]"
  by (simp add: tenant_steps_def tenant_objects_def apply_step_def Let_def applyNamespace_def
      applyResourceQuota_def applyLimitRange_def applyNetworkPolicy_def)

lemma tenant_objects_meta: "\<forall>(what, coll, name, obj) \<in> set (tenant_objects login). has_meta name obj"
  by (simp add: tenant_objects_def Let_def has_meta_def tenantNamespaceManifest_def
      tenantResourceQuotaManifest_def tenantLimitRangeManifest_def
      tenantDefaultDenyNetworkPolicyManifest_def tenantAllowTraefikIngressManifest_def
      tenantAllowPublicEgressManifest_def tenantAllowPaasDBEgressManifest_def netpol_def)

lemma pathEscape_lits:
  "pathEscape ''tenant'' = ''tenant''" "pathEscape ''default-deny'' = ''default-deny''"
  "pathEscape ''allow-traefik-ingress'' = ''allow-traefik-ingress''"
  "pathEscape ''allow-public-egress'' = ''allow-public-egress''"
  "pathEscape ''allow-paas-db-egress'' = ''allow-paas-db-egress''"
  "pathEscape ''paas-system'' = ''paas-system''"
  "pathEscape ''registry-dockercfg'' = ''registry-dockercfg''"
  by code_simp+

lemma tenant_objects_distinct: "distinct (map step_path (tenant_objects login))"
  by (simp add: tenant_objects_def Let_def step_path_def obj_path_def ns_path_def pathEscape_lits)

definition pull_secret_path :: string where
  "pull_secret_path = obj_path (ns_path ''/api/v1'' buildNamespace ''secrets'') dockerCfgSecret"

lemma tenant_ns_escaped: "pathEscape (tenantNamespaceFor login) = ''paas-tenant-'' @ pathEscape (drop 12 (tenantNamespaceFor login))"
proof -
  have e: "tenantNamespaceFor login = ''paas-tenant-'' @ drop 12 (tenantNamespaceFor login)"
    using prefix_tenantNamespaceFor[of login] by (auto simp: prefix_def)
  have "pathEscape (a @ b) = pathEscape a @ pathEscape b" for a b by (simp add: pathEscape_def)
  moreover have "pathEscape ''paas-tenant-'' = ''paas-tenant-''" by code_simp
  ultimately show ?thesis using e by metis
qed

lemma coll_ns_namespaces: "coll_ns ''/api/v1/namespaces'' = None"
  by code_simp

lemma pull_secret_untouched: "pull_secret_path \<notin> step_path ` set (tenant_objects login)"
proof -
  have "hd (pathEscape (tenantNamespaceFor login)) = CHR ''p''" by (subst tenant_ns_escaped) simp
  then show ?thesis using tenant_ns_escaped[of login]
    by (simp add: pull_secret_path_def tenant_objects_def Let_def step_path_def obj_path_def ns_path_def
        pathEscape_lits buildNamespace_def dockerCfgSecret_def)
qed

lemma mirrored_secret_untouched:
  "obj_path (ns_path ''/api/v1'' (tenantNamespaceFor login) ''secrets'') dockerCfgSecret
     \<notin> step_path ` set (tenant_objects login)"
  by (simp add: tenant_objects_def Let_def step_path_def obj_path_def ns_path_def pathEscape_lits
      dockerCfgSecret_def)

text \<open>The intents of \<open>ensureTenant\<close>: the objects, the source of the pull secret and its copy.\<close>
definition tenant_intents :: "(string \<Rightarrow> string) \<Rightarrow> string \<Rightarrow> string \<Rightarrow> intent list" where
  "tenant_intents enc login body =
     (let ns = tenantNamespaceFor login
      in map step_intent (tenant_objects login)
         @ [Read pull_secret_path, Apply (ns_path ''/api/v1'' ns ''secrets'') dockerCfgSecret (dockerConfigSecret enc ns dockerCfgSecret body)])"

lemma kept_present: "kept S k p obj \<Longrightarrow> \<exists>v. ks_look S k p = Some v \<and> ks_keeps S obj v"
  by (auto simp: kept_def split: option.splits)

lemma pathEscape_no_slash: "CHR ''/'' \<notin> set (pathEscape s)"
proof -
  have "list_all (\<lambda>n. hex_upper n \<noteq> CHR ''/'') [0..<16]" by code_simp
  then have h: "hex_upper n \<noteq> CHR ''/''" if "n < 16" for n using that by (simp add: list_all_iff)
  have "ccode c div 16 < 16" "ccode c mod 16 < 16" for c using of_char_less_256[of c] by (auto simp: less_mult_imp_div_less)
  then have "CHR ''/'' \<noteq> hex_upper (ccode c div 16)" "CHR ''/'' \<noteq> hex_upper (ccode c mod 16)" for c
    using h[of "ccode c div 16"] h[of "ccode c mod 16"] by metis+
  then have "CHR ''/'' \<notin> set (percent c)" for c by (simp add: percent_def)
  then show ?thesis by (auto simp: pathEscape_def unreserved_def is_lower_def is_upper_def is_digit_def split: if_splits)
qed

lemma split_on_append: "split_on d (a @ d # b) = split_on d a @ split_on d b"
  by (induction a) (auto split: list.splits)

lemma coll_ns_ns_path:
  assumes "CHR ''/'' \<notin> set res"
  shows "coll_ns (ns_path pre ns res) = Some (pathEscape ns)"
proof -
  have "split_on (CHR ''/'') (pre @ CHR ''/'' # ''namespaces'' @ CHR ''/'' # pathEscape ns @ CHR ''/'' # res)
      = split_on (CHR ''/'') pre @ [''namespaces'', pathEscape ns, res]"
    unfolding split_on_append using assms pathEscape_no_slash[of ns] by (simp add: split_on_append_sep split_on_no_sep del: append_Cons)
  then show ?thesis by (simp add: coll_ns_def ns_path_def)
qed

lemma tenant_object_homes:
  assumes "kept S k (obj_path ''/api/v1/namespaces'' (tenantNamespaceFor login)) obj" "st \<in> set (tl (tenant_objects login))"
  shows "step_fits S k (tenant_intents enc login body) st"
proof -
  have n: "home S k (ns_path pre (tenantNamespaceFor login) res)" if "CHR ''/'' \<notin> set res" for pre res
    using kept_present[OF assms(1)] by (auto simp: home_def coll_ns_ns_path[OF that] obj_path_def)
  obtain what coll name m where st: "st = (what, coll, name, m)" by (cases st)
  have t: "st \<in> set (tenant_objects login)" using assms(2) by (simp add: tenant_objects_def Let_def)
  then have "has_meta name m" using tenant_objects_meta st by blast
  moreover have "Apply coll name m \<in> set (tenant_intents enc login body)"
    using t st by (force simp: tenant_intents_def Let_def step_intent_def)
  moreover have "home S k coll" using assms(2) st n by (auto simp: tenant_objects_def Let_def)
  ultimately show ?thesis by (simp add: st step_fits_def)
qed

lemma pull_secret_path_eq: "ns_path ''/api/v1'' buildNamespace ''secrets/'' @ pathEscape dockerCfgSecret = pull_secret_path"
  by (simp add: pull_secret_path_def obj_path_def ns_path_def)

lemma mirrored_not_pull: "pull_secret_path \<noteq> obj_path (ns_path ''/api/v1'' (tenantNamespaceFor login) ''secrets'') dockerCfgSecret"
proof -
  have "pathEscape (tenantNamespaceFor login) = ''paas-tenant-'' @ pathEscape (drop 12 (tenantNamespaceFor login))"
    by (rule tenant_ns_escaped)
  then show ?thesis by (simp add: pull_secret_path_def obj_path_def ns_path_def pathEscape_lits buildNamespace_def)
qed

text \<open>The copy of the pull secret.\<close>
lemma mirror_ready:
  assumes c: "kube_contract api S" and v: "kube_serves api S" and rd: "ks_ready S (k_state s) (tenant_intents enc login body)"
    and src: "kept S (k_state s) pull_secret_path src" "jget src ''data'' = Some (JObj kvs)"
    and d: "decode_data b64 kvs = Inr d" "map_of d ''.dockerconfigjson'' = Some body" "body \<noteq> ''''"
    and h: "home S (k_state s) (ns_path ''/api/v1'' (tenantNamespaceFor login) ''secrets'')"
  shows "\<exists>s'. mirrorRegistryPullSecret api b64 enc (tenantNamespaceFor login) s = (None, s')
     \<and> kept S (k_state s') (obj_path (ns_path ''/api/v1'' (tenantNamespaceFor login) ''secrets'') dockerCfgSecret)
          (dockerConfigSecret enc (tenantNamespaceFor login) dockerCfgSecret body)
     \<and> (\<forall>st \<in> set (tenant_objects login). holds S (k_state s) st \<longrightarrow> holds S (k_state s') st)"
proof -
  let ?is = "tenant_intents enc login body" and ?ns = "tenantNamespaceFor login"
  let ?coll = "ns_path ''/api/v1'' ?ns ''secrets''" and ?m = "dockerConfigSecret enc ?ns dockerCfgSecret body"
  have i: "Read pull_secret_path \<in> set ?is" "Apply ?coll dockerCfgSecret ?m \<in> set ?is" by (simp_all add: tenant_intents_def Let_def)
  obtain w where w: "ks_look S (k_state s) pull_secret_path = Some w" "ks_keeps S src w" using kept_present[OF src(1)] by blast
  obtain b k1 kvs1 where g: "api \<lparr> rq_meth = GET, rq_path = pull_secret_path, rq_body = None \<rparr> (k_state s) = (Resp 200 b (Some w), k1)"
    by (rule serves_get[OF v rd i(1), of w, unfolded intent_path.simps, OF w(1)])
  let ?s1 = "\<lparr> k_state = k1, k_trace = k_trace s @ [\<lparr> rq_meth = GET, rq_path = pull_secret_path, rq_body = None \<rparr>] \<rparr>"
  have u: "ks_ready S k1 ?is \<and> undisturbed S ?is pull_secret_path (k_state s) k1"
    using serves_step[OF v rd i(1), of "\<lparr> rq_meth = GET, rq_path = pull_secret_path, rq_body = None \<rparr>"] g by (simp add: intent_req_def)
  have "jget w ''data'' = Some (JObj kvs)" by (rule contract_data[OF c w(2) src(2)])
  then have get: "getSecretData api b64 buildNamespace dockerCfgSecret s = (Inr (Some d), ?s1)"
    using g d(1) by (simp add: getSecretData_def pull_secret_path_eq kdo_eq ok2xx_def)
  have m: "has_meta dockerCfgSecret ?m" by (simp add: has_meta_def dockerConfigSecret_def)
  have "home S (k_state ?s1) ?coll" using h u by (simp add: undisturbed_def)
  then obtain s' where s': "kapply api ?coll dockerCfgSecret ?m ?s1 = (None, s')" "kept S (k_state s') (obj_path ?coll dockerCfgSecret) ?m"
    "undisturbed S ?is (obj_path ?coll dockerCfgSecret) k1 (k_state s')"
    using kapply_ready[OF c v m, of ?s1 ?is ?coll] u i(2) by auto
  have "holds S (k_state s') st" if t: "st \<in> set (tenant_objects login)" "holds S (k_state s) st" for st
  proof -
    obtain what coll name obj where st: "st = (what, coll, name, obj)" by (cases st)
    have "Apply coll name obj \<in> set ?is" using t(1) st by (force simp: tenant_intents_def Let_def step_intent_def)
    moreover have "step_path st \<noteq> pull_secret_path" "step_path st \<noteq> obj_path ?coll dockerCfgSecret"
      using t(1) pull_secret_untouched mirrored_secret_untouched by (metis image_eqI)+
    ultimately show ?thesis
      using t(2) undisturbed_kept[OF conjunct2[OF u], of "Apply coll name obj"] undisturbed_kept[OF s'(3), of "Apply coll name obj"] st
      by (simp add: holds_def step_path_def)
  qed
  then show ?thesis using get s' d(2,3) by (simp add: mirrorRegistryPullSecret_def applyDockerConfigSecret_def Let_def)
qed

text \<open>C16: \<open>ensureTenant\<close> is complete: if the registry pull secret is stored and the API server is ready for the manifests of the tenant, then,
  whether or not the namespace and any of its objects exist, it succeeds and returns the tenant's namespace, and afterwards the
  namespace (with pod security \<open>restricted\<close>), the quota, the limit range, all four network policies and the copy of the pull secret are stored and
  keep their manifests.  The server wants the namespace of an object to exist before the object is created.\<close>
theorem ensureTenant_establishes:
  assumes "kube_contract api S" "kube_serves api S" "ks_ready S (k_state s) (tenant_intents enc login body)"
    and "kept S (k_state s) pull_secret_path src" "jget src ''data'' = Some (JObj kvs)"
    and "decode_data b64 kvs = Inr d" "map_of d ''.dockerconfigjson'' = Some body" "body \<noteq> ''''"
  shows "\<exists>s'. ensureTenant api b64 enc login s = (Inr (tenantNamespaceFor login), s')
     \<and> (\<forall>st \<in> set (tenant_objects login). holds S (k_state s') st)
     \<and> kept S (k_state s') (obj_path (ns_path ''/api/v1'' (tenantNamespaceFor login) ''secrets'') dockerCfgSecret)
          (dockerConfigSecret enc (tenantNamespaceFor login) dockerCfgSecret body)"
proof -
  let ?is = "tenant_intents enc login body" and ?ns = "tenantNamespaceFor login" and ?o = "tenant_objects login"
  let ?mirror = "[(''mirror registry pull secret'', mirrorRegistryPullSecret api b64 enc ?ns)]"
  let ?np = "obj_path ''/api/v1/namespaces'' ?ns" and ?nm = "tenantNamespaceManifest ?ns login"
  have o: "?o = (''apply namespace '' @ ?ns, ''/api/v1/namespaces'', ?ns, ?nm) # tl ?o" by (simp add: tenant_objects_def Let_def)
  have nm: "has_meta ?ns ?nm" "Apply ''/api/v1/namespaces'' ?ns ?nm \<in> set ?is" "home S (k_state s) ''/api/v1/namespaces''"
    "Read pull_secret_path \<in> set ?is"
    by (simp_all add: has_meta_def tenantNamespaceManifest_def tenant_intents_def Let_def tenant_objects_def step_intent_def home_def
        coll_ns_namespaces)
  have np: "pull_secret_path \<noteq> ?np" using pull_secret_untouched[of login] by (subst (asm) o) (simp add: step_path_def)
  obtain s1 where 1: "kapply api ''/api/v1/namespaces'' ?ns ?nm s = (None, s1)" "ks_ready S (k_state s1) ?is"
    "undisturbed S ?is ?np (k_state s) (k_state s1)" "kept S (k_state s1) ?np ?nm"
    by (rule kapply_ready[OF assms(1,2) nm(1) assms(3) nm(2,3)])
  have p1: "kept S (k_state s1) pull_secret_path src" using undisturbed_kept[OF 1(3) nm(4), of src] np assms(4) by simp
  have dist: "distinct (map step_path (tl ?o))" "?np \<notin> step_path ` set (tl ?o)"
    using tenant_objects_distinct[of login] by (subst (asm) o, simp add: step_path_def)+
  obtain s2 where 2: "run_steps (map (apply_step api) (tl ?o) @ ?mirror) s1 = run_steps ?mirror s2" "ks_ready S (k_state s2) ?is"
    "\<forall>st \<in> set (tl ?o). holds S (k_state s2) st" "\<forall>coll. home S (k_state s1) coll \<longrightarrow> home S (k_state s2) coll"
    "\<forall>i \<in> set ?is. intent_path i \<notin> step_path ` set (tl ?o) \<longrightarrow> (\<forall>obj. kept S (k_state s1) (intent_path i) obj \<longrightarrow> kept S (k_state s2) (intent_path i) obj)"
    using run_ready_steps[OF assms(1,2) 1(2) _ dist(1), of ?mirror] tenant_object_homes[OF 1(4)] by blast
  have n2: "kept S (k_state s2) ?np ?nm" using bspec[OF 2(5) nm(2)] dist(2) 1(4) by simp
  have "pull_secret_path \<notin> step_path ` set (tl ?o)" using pull_secret_untouched[of login] by (subst (asm) o) simp
  then have p2: "kept S (k_state s2) pull_secret_path src" using bspec[OF 2(5) nm(4)] p1 by simp
  have h2: "home S (k_state s2) (ns_path ''/api/v1'' ?ns ''secrets'')"
    using kept_present[OF n2] by (auto simp: home_def coll_ns_ns_path obj_path_def)
  obtain s3 where 3: "mirrorRegistryPullSecret api b64 enc ?ns s2 = (None, s3)"
    "kept S (k_state s3) (obj_path (ns_path ''/api/v1'' ?ns ''secrets'') dockerCfgSecret) (dockerConfigSecret enc ?ns dockerCfgSecret body)"
    "\<forall>st \<in> set ?o. holds S (k_state s2) st \<longrightarrow> holds S (k_state s3) st"
    using mirror_ready[OF assms(1,2) 2(2) p2 assms(5-8) h2] by blast
  have "run_steps (tenant_steps api b64 enc login) s = (None, s3)"
    unfolding tenant_steps_split using 1(1) 2(1) 3(1) by (subst o) (simp add: apply_step_def)
  moreover have "\<forall>st \<in> set ?o. holds S (k_state s2) st" using 2(3) n2 by (subst o) (simp add: holds_def)
  ultimately show ?thesis using 3(2,3) by (simp add: ensureTenant_def)
qed

text \<open>A cluster that has only the pull secret.\<close>
definition bare_cluster :: "toy kube" where
  "bare_cluster = \<lparr> k_state = ([pull_secret_path \<mapsto> [(''data'', JObj [(''.dockerconfigjson'', JStr ''x'')])]], 0), k_trace = [] \<rparr>"

theorem ensureTenant_establishes_witness:
  "\<exists>s'. ensureTenant toy_api Some id ''Octo'' bare_cluster = (Inr ''paas-tenant-octo'', s')
     \<and> (\<forall>st \<in> set (tenant_objects ''Octo''). holds toy_server (k_state s') st)"
proof -
  let ?src = "JObj [(''data'', JObj [(''.dockerconfigjson'', JStr ''x'')])]"
  have ns: "tenantNamespaceFor ''Octo'' = ''paas-tenant-octo''" by code_simp
  have "ks_ready toy_server (k_state bare_cluster) (tenant_intents id ''Octo'' ''x'')"
    using tenant_objects_meta[of "''Octo''"]
    by (simp add: toy_server_def tenant_intents_def Let_def tenant_objects_def step_intent_def ns dockerCfgSecret_def has_meta_def dockerConfigSecret_def)
  moreover have "kept toy_server (k_state bare_cluster) pull_secret_path ?src"
    by (simp add: kept_def toy_server_def toy_look_def toy_keeps_def bare_cluster_def)
  ultimately have "\<exists>s'. ensureTenant toy_api Some id ''Octo'' bare_cluster = (Inr (tenantNamespaceFor ''Octo''), s')
     \<and> (\<forall>st \<in> set (tenant_objects ''Octo''). holds toy_server (k_state s') st)"
    using ensureTenant_establishes[OF toy_contract toy_serves, of bare_cluster id "''Octo''" "''x''" ?src "[(''.dockerconfigjson'', JStr ''x'')]" Some "[(''.dockerconfigjson'', ''x'')]"]
    by (auto simp: jget_def jstr_def)
  then show ?thesis unfolding ns .
qed

end
