(* ===== verification/Manifests.thy ===== *)
theory Manifests
  imports Tenant
begin

text \<open>
  The manifests of the build worker (\<open>builder.go\<close>): the Kaniko build Job, and the Deployment, Service and
  IngressRoute of a commit, with the production alias.  The text of \<open>autoDockerfileScript\<close> (a shell
  script that runs in the build container) is the argument \<open>script\<close>.  The pod of a tenant is checked against the whole pod security profile \<open>restricted\<close>.
\<close>

definition tenantHostZone :: string where "tenantHostZone = ''spinup.in''"
definition kanikoImage :: string where "kanikoImage = ''gcr.io/kaniko-project/executor:v1.23.2''"
definition registryPushHost :: string where
  "registryPushHost = ''registry.paas-system.svc.cluster.local:5000''"
definition registryPullHost :: string where "registryPullHost = ''registry.spinup.in''"
definition tunnelTarget :: string where
  "tunnelTarget = ''3a067db9-77b1-49c9-a3d4-30f86d16c80d.cfargotunnel.com''"
definition statusContext :: string where "statusContext = ''paas/deploy''"
definition dashboardBaseURL :: string where "dashboardBaseURL = ''https://spinup.in''"

definition backquote :: string where "backquote = [CHR 0x60]"

definition host_rule :: "string \<Rightarrow> string" where
  "host_rule host = ''Host('' @ backquote @ host @ backquote @ '')''"

section \<open>Routes and services\<close>

definition route_spec :: "string \<Rightarrow> string \<Rightarrow> json" where
  "route_spec host service = JObj
     [(''entryPoints'', JArr [JStr ''web'']),
      (''routes'', JArr [JObj
        [(''match'', JStr (host_rule host)), (''kind'', JStr ''Rule''),
         (''services'', JArr [JObj [(''name'', JStr service), (''port'', JInt 80)]])]])]"

definition route_object :: "string \<Rightarrow> string \<Rightarrow> (string \<times> string) list \<Rightarrow> string \<Rightarrow> string \<Rightarrow> json" where
  "route_object name ns labels host service = JObj
     [(''apiVersion'', JStr ''traefik.io/v1alpha1''), (''kind'', JStr ''IngressRoute''),
      (''metadata'', JObj
        [(''name'', JStr name), (''namespace'', JStr ns), (''labels'', jlabels labels),
         (''annotations'', jlabels [(''external-dns.alpha.kubernetes.io/target'', tunnelTarget)])]),
      (''spec'', route_spec host service)]"

definition productionAliasManifest :: "string \<Rightarrow> string \<Rightarrow> string \<Rightarrow> string \<Rightarrow> string \<Rightarrow> json" where
  "productionAliasManifest routeName ns host serviceName slug =
     route_object routeName ns
       [(''app.kubernetes.io/managed-by'', ''control-plane''),
        (''app.kubernetes.io/component'', ''production-alias''), (''paas.project'', slug)]
       host serviceName"

definition ingressRouteManifest :: "string \<Rightarrow> string \<Rightarrow> string \<Rightarrow> string \<Rightarrow> string \<Rightarrow> json" where
  "ingressRouteManifest name ns host slug shortSHA =
     route_object name ns
       [(''app.kubernetes.io/managed-by'', ''control-plane''), (''paas.project'', slug),
        (''paas.commit'', shortSHA)]
       host name"

definition serviceManifest :: "string \<Rightarrow> string \<Rightarrow> string \<Rightarrow> string \<Rightarrow> int \<Rightarrow> json" where
  "serviceManifest name ns slug shortSHA port = JObj
     [(''apiVersion'', JStr ''v1''), (''kind'', JStr ''Service''),
      (''metadata'', JObj
        [(''name'', JStr name), (''namespace'', JStr ns),
         (''labels'', jlabels [(''app.kubernetes.io/managed-by'', ''control-plane''),
                               (''paas.project'', slug), (''paas.commit'', shortSHA)])]),
      (''spec'', JObj
        [(''selector'', jlabels [(''app'', name)]),
         (''ports'', JArr [JObj [(''name'', JStr ''http''), (''port'', JInt 80), (''targetPort'', JInt port)]])])]"

section \<open>The build Job\<close>

record buildJobInput =
  bj_name :: string
  bj_ns :: string
  bj_destination :: string
  bj_secret :: string
  bj_deployment :: uuid
  bj_slug :: string

definition newline :: string where "newline = [CHR 10]"

definition cloneCmd :: "string \<Rightarrow> string" where
  "cloneCmd script =
     (let q = [CHR 0x22]; pad = replicate 12 (CHR '' '')
      in ''set -e'' @ newline
       @ pad @ ''git clone --quiet '' @ q @ ''$GIT_CLONE_URL'' @ q @ '' /workspace'' @ newline
       @ pad @ ''cd /workspace'' @ newline
       @ pad @ ''git -c advice.detachedHead=false checkout --quiet '' @ q @ ''$COMMIT_SHA'' @ q @ newline
       @ pad @ ''echo '' @ q @ ''cloned $(git rev-parse --short HEAD) at $(date -u +%FT%TZ)'' @ q @ newline
       @ script)"

definition res_pair :: "string \<Rightarrow> string \<Rightarrow> string \<Rightarrow> string \<Rightarrow> json" where
  "res_pair rc rm lc lm = JObj
     [(''requests'', jlabels [(''cpu'', rc), (''memory'', rm)]),
      (''limits'', jlabels [(''cpu'', lc), (''memory'', lm)])]"

definition buildJobManifest :: "string \<Rightarrow> buildJobInput \<Rightarrow> json" where
  "buildJobManifest script i =
     (let workspaceMount = jlabels [(''name'', ''workspace''), (''mountPath'', ''/workspace'')];
          dockerCfgMount = JObj [(''name'', JStr ''docker-config''), (''mountPath'', JStr ''/kaniko/.docker''),
                                 (''readOnly'', JBool True)];
          secretEnvFrom = JArr [JObj [(''secretRef'', jlabels [(''name'', bj_secret i)])]]
      in JObj
       [(''apiVersion'', JStr ''batch/v1''), (''kind'', JStr ''Job''),
        (''metadata'', JObj
          [(''name'', JStr (bj_name i)), (''namespace'', JStr (bj_ns i)),
           (''labels'', jlabels [(''app.kubernetes.io/component'', ''build''),
              (''app.kubernetes.io/managed-by'', ''control-plane''),
              (''paas.deployment'', bj_deployment i), (''paas.project'', bj_slug i)])]),
        (''spec'', JObj
          [(''backoffLimit'', JInt 0), (''activeDeadlineSeconds'', JInt 1200),
           (''ttlSecondsAfterFinished'', JInt 1800),
           (''template'', JObj
             [(''metadata'', JObj [(''labels'', jlabels [(''app.kubernetes.io/component'', ''build''),
                 (''paas.deployment'', bj_deployment i)])]),
              (''spec'', JObj
                [(''restartPolicy'', JStr ''Never''),
                 (''volumes'', JArr
                   [JObj [(''name'', JStr ''workspace''), (''emptyDir'', JObj [])],
                    JObj [(''name'', JStr ''docker-config''),
                      (''secret'', JObj [(''secretName'', JStr dockerCfgSecret),
                         (''items'', JArr [jlabels [(''key'', ''.dockerconfigjson''), (''path'', ''config.json'')]])])]]),
                 (''initContainers'', JArr [JObj
                   [(''name'', JStr ''clone''), (''image'', JStr ''alpine/git:latest''),
                    (''command'', JArr [JStr ''sh'', JStr ''-c'', JStr (cloneCmd script)]),
                    (''envFrom'', secretEnvFrom), (''volumeMounts'', JArr [workspaceMount]),
                    (''resources'', res_pair ''50m'' ''64Mi'' ''500m'' ''256Mi'')]]),
                 (''containers'', JArr [JObj
                   [(''name'', JStr ''kaniko''), (''image'', JStr kanikoImage),
                    (''args'', JArr
                      [JStr ''--context=dir:///workspace'', JStr ''--dockerfile=Dockerfile'',
                       JStr (''--destination='' @ bj_destination i), JStr ''--insecure'',
                       JStr ''--snapshot-mode=redo'', JStr ''--use-new-run'', JStr ''--cache=false'',
                       JStr ''--verbosity=info'']),
                    (''volumeMounts'', JArr [workspaceMount, dockerCfgMount]),
                    (''resources'', res_pair ''1'' ''1536Mi'' ''2'' ''4Gi'')]])])])])])"

section \<open>The tenant Deployment\<close>

record deployInput =
  di_name :: string
  di_ns :: string
  di_slug :: string
  di_short :: string
  di_image :: string
  di_deployment :: uuid
  di_sha :: string
  di_port :: int
  di_db_secret :: string
  di_env_secret :: string

definition pod_labels :: "deployInput \<Rightarrow> (string \<times> string) list" where
  "pod_labels i =
     [(''app'', di_name i), (''app.kubernetes.io/managed-by'', ''control-plane''),
      (''app.kubernetes.io/component'', ''tenant''), (''paas.project'', di_slug i),
      (''paas.deployment'', di_deployment i), (''paas.commit'', di_short i)]
     @ (if di_db_secret i \<noteq> '''' then [(''paas.db'', ''enabled'')] else [])"

definition app_container :: "deployInput \<Rightarrow> json" where
  "app_container i = JObj
     ([(''name'', JStr ''app''), (''image'', JStr (di_image i)), (''imagePullPolicy'', JStr ''IfNotPresent''),
       (''ports'', JArr [JObj [(''containerPort'', JInt (di_port i)), (''name'', JStr ''http'')]]),
       (''resources'', res_pair ''50m'' ''32Mi'' ''500m'' ''256Mi''),
       (''securityContext'', JObj [(''allowPrivilegeEscalation'', JBool False),
          (''capabilities'', JObj [(''drop'', JArr [JStr ''ALL''])])])]
      @ (if di_db_secret i \<noteq> ''''
         then [(''env'', JArr [JObj [(''name'', JStr ''DATABASE_URL''),
                 (''valueFrom'', JObj [(''secretKeyRef'',
                    jlabels [(''name'', di_db_secret i), (''key'', ''DATABASE_URL'')])])]])] else [])
      @ (if di_env_secret i \<noteq> ''''
         then [(''envFrom'', JArr [JObj [(''secretRef'',
                 JObj [(''name'', JStr (di_env_secret i)), (''optional'', JBool True)])]])] else []))"

definition pod_spec :: "deployInput \<Rightarrow> json" where
  "pod_spec i = JObj
     [(''imagePullSecrets'', JArr [jlabels [(''name'', dockerCfgSecret)]]),
      (''dnsPolicy'', JStr ''None''),
      (''dnsConfig'', JObj
        [(''nameservers'', JArr [JStr ''10.96.0.10'']),
         (''searches'', JArr [JStr (di_ns i @ ''.svc.cluster.local''), JStr ''svc.cluster.local'',
                              JStr ''cluster.local'']),
         (''options'', JArr [jlabels [(''name'', ''ndots''), (''value'', ''5'')]])]),
      (''securityContext'', JObj
        [(''runAsNonRoot'', JBool True), (''runAsUser'', JInt 101), (''runAsGroup'', JInt 101),
         (''fsGroup'', JInt 101), (''seccompProfile'', jlabels [(''type'', ''RuntimeDefault'')])]),
      (''containers'', JArr [app_container i])]"

definition deploymentManifest :: "deployInput \<Rightarrow> json" where
  "deploymentManifest i = JObj
     [(''apiVersion'', JStr ''apps/v1''), (''kind'', JStr ''Deployment''),
      (''metadata'', JObj
        [(''name'', JStr (di_name i)), (''namespace'', JStr (di_ns i)),
         (''labels'', jlabels (pod_labels i)),
         (''annotations'', jlabels [(''paas.commit-sha'', di_sha i)])]),
      (''spec'', JObj
        [(''replicas'', JInt 1),
         (''selector'', JObj [(''matchLabels'', jlabels [(''app'', di_name i)])]),
         (''strategy'', JObj [(''type'', JStr ''RollingUpdate''),
            (''rollingUpdate'', JObj [(''maxSurge'', JInt 1), (''maxUnavailable'', JInt 0)])]),
         (''template'', JObj
            [(''metadata'', JObj [(''labels'', jlabels (pod_labels i))]),
             (''spec'', pod_spec i)])])]"

section \<open>Consistency of the objects of one commit\<close>

definition jbool :: "json option \<Rightarrow> bool" where
  "jbool v = (case v of Some (JBool b) \<Rightarrow> b | _ \<Rightarrow> False)"

definition str_map :: "json option \<Rightarrow> (string \<times> string) list" where
  "str_map v = (case v of Some (JObj kvs) \<Rightarrow> map (\<lambda>(k, x). (k, jstr (Some x))) kvs | _ \<Rightarrow> [])"

text \<open>The pod security profile \<open>restricted\<close>: the whole list of the documentation for Linux pods.  \<open>unset\<close>: a field that is missing or has one of the
  allowed values.\<close>
definition unset :: "json \<Rightarrow> string list \<Rightarrow> json list \<Rightarrow> bool" where
  "unset j ks vs = (case jpath j ks of None \<Rightarrow> True | Some v \<Rightarrow> v \<in> set vs)"

definition psa_container :: "bool \<Rightarrow> bool \<Rightarrow> json \<Rightarrow> bool" where
  "psa_container nonroot seccomp c \<longleftrightarrow>
     (let cap = \<lambda>k. jarr (jpath c [''securityContext'', ''capabilities'', k]); types = [JStr ''RuntimeDefault'', JStr ''Localhost'']
      in unset c [''securityContext'', ''privileged''] [JBool False]
       \<and> jpath c [''securityContext'', ''allowPrivilegeEscalation''] = Some (JBool False)
       \<and> JStr ''ALL'' \<in> set (cap ''drop'') \<and> set (cap ''add'') \<subseteq> {JStr ''NET_BIND_SERVICE''}
       \<and> (if nonroot then unset c [''securityContext'', ''runAsNonRoot''] [JBool True]
          else jpath c [''securityContext'', ''runAsNonRoot''] = Some (JBool True))
       \<and> jpath c [''securityContext'', ''runAsUser''] \<noteq> Some (JInt 0)
       \<and> (if seccomp then unset c [''securityContext'', ''seccompProfile'', ''type''] types
          else \<exists>v\<in>set types. jpath c [''securityContext'', ''seccompProfile'', ''type''] = Some v)
       \<and> unset c [''securityContext'', ''procMount''] [JStr ''Default'']
       \<and> unset c [''securityContext'', ''appArmorProfile''] [] \<and> unset c [''securityContext'', ''seLinuxOptions''] []
       \<and> unset c [''securityContext'', ''windowsOptions''] []
       \<and> list_all (\<lambda>q. unset q [''hostPort''] [JInt 0]) (jarr (jget c ''ports''))
       \<and> list_all (\<lambda>q. unset c [q, ''httpGet'', ''host''] [] \<and> unset c [q, ''tcpSocket'', ''host''] []) [''livenessProbe'', ''readinessProbe'', ''startupProbe'']
       \<and> unset c [''lifecycle''] [])"

definition psa_restricted :: "json \<Rightarrow> bool" where
  "psa_restricted pod \<longleftrightarrow>
     (let types = [JStr ''RuntimeDefault'', JStr ''Localhost'']
      in list_all (\<lambda>k. unset pod [k] [JBool False]) [''hostNetwork'', ''hostPID'', ''hostIPC'']
       \<and> list_all (\<lambda>v. list_all (\<lambda>k. k \<in> {''name'', ''configMap'', ''csi'', ''downwardAPI'', ''emptyDir'', ''ephemeral'', ''persistentVolumeClaim'', ''projected'', ''secret''})
            (map fst (case v of JObj kvs \<Rightarrow> kvs | _ \<Rightarrow> []))) (jarr (jget pod ''volumes''))
       \<and> unset pod [''securityContext'', ''sysctls''] [JArr []] \<and> jpath pod [''securityContext'', ''runAsUser''] \<noteq> Some (JInt 0)
       \<and> unset pod [''securityContext'', ''appArmorProfile''] [] \<and> unset pod [''securityContext'', ''seLinuxOptions''] []
       \<and> unset pod [''securityContext'', ''windowsOptions''] []
       \<and> unset pod [''securityContext'', ''seccompProfile'', ''type''] types
       \<and> list_all (\<lambda>k. list_all (psa_container (jpath pod [''securityContext'', ''runAsNonRoot''] = Some (JBool True))
                        (\<exists>v\<in>set types. jpath pod [''securityContext'', ''seccompProfile'', ''type''] = Some v)) (jarr (jget pod k)))
            [''initContainers'', ''containers'', ''ephemeralContainers''])"

lemmas jdefs = jget_def jstr_def jint_def jbool_def jarr_def jlabels_def

lemma app_container_restricted: "psa_container True True (app_container i)"
  by (simp add: psa_container_def app_container_def unset_def jdefs)

text \<open>Every tenant pod the worker creates meets the profile that its namespace enforces, for every input of \<open>deploymentManifest\<close>.\<close>
lemma deployment_psa_restricted:
  "\<exists>pod. jpath (deploymentManifest i) [''spec'', ''template'', ''spec''] = Some pod \<and> psa_restricted pod"
proof -
  have "jpath (deploymentManifest i) [''spec'', ''template'', ''spec''] = Some (pod_spec i)"
    by (simp add: deploymentManifest_def jget_def)
  moreover have "psa_restricted (pod_spec i)"
    using app_container_restricted[of i] by (simp add: psa_restricted_def pod_spec_def unset_def jdefs)
  ultimately show ?thesis by blast
qed

definition labels_sub :: "(string \<times> string) list \<Rightarrow> (string \<times> string) list \<Rightarrow> bool" where
  "labels_sub sel ls \<longleftrightarrow> list_all (\<lambda>(k, v). map_of ls k = Some v) sel"

lemma str_map_jlabels: "str_map (Some (jlabels ls)) = ls"
  by (induction ls) (auto simp: str_map_def jlabels_def jstr_def)

text \<open>the objects of one commit fit together: the Deployment's selector and the Service's selector
  both match the labels of the pods the Deployment creates, the Service's target port is the container's
  port, and both the preview route and the production alias forward to a port the Service of that name
  exposes.\<close>
theorem commit_objects_consistent:
  assumes "di_ns i = ns" "di_name i = name" "di_port i = port"
  shows "labels_sub (str_map (jpath (deploymentManifest i) [''spec'', ''selector'', ''matchLabels'']))
           (str_map (jpath (deploymentManifest i) [''spec'', ''template'', ''metadata'', ''labels'']))
       \<and> labels_sub (str_map (jpath (serviceManifest name ns slug sha port) [''spec'', ''selector'']))
           (str_map (jpath (deploymentManifest i) [''spec'', ''template'', ''metadata'', ''labels'']))
       \<and> map (\<lambda>p. jint (jget p ''containerPort'')) (jarr (jget (app_container i) ''ports''))
           = map (\<lambda>p. jint (jget p ''targetPort''))
               (jarr (jpath (serviceManifest name ns slug sha port) [''spec'', ''ports'']))
       \<and> (\<forall>r \<in> {ingressRouteManifest name ns host slug sha, productionAliasManifest alias ns host name slug}.
            map (\<lambda>x. map (\<lambda>s. (jstr (jget s ''name''), jint (jget s ''port''))) (jarr (jget x ''services'')))
              (jarr (jpath r [''spec'', ''routes'']))
            = [[(jstr (jpath (serviceManifest name ns slug sha port) [''metadata'', ''name'']),
                 hd (map (\<lambda>p. jint (jget p ''port''))
                      (jarr (jpath (serviceManifest name ns slug sha port) [''spec'', ''ports'']))))]])"
proof -
  have tl: "jpath (deploymentManifest i) [''spec'', ''template'', ''metadata'', ''labels'']
      = Some (jlabels (pod_labels i))"
    "jpath (deploymentManifest i) [''spec'', ''selector'', ''matchLabels''] = Some (jlabels [(''app'', di_name i)])"
    "jpath (serviceManifest name ns slug sha port) [''spec'', ''selector''] = Some (jlabels [(''app'', name)])"
    by (simp_all add: deploymentManifest_def serviceManifest_def jget_def)
  have "labels_sub [(''app'', di_name i)] (pod_labels i)" by (simp add: labels_sub_def pod_labels_def)
  then show ?thesis unfolding tl str_map_jlabels
    using assms
    by (simp add: app_container_def serviceManifest_def ingressRouteManifest_def productionAliasManifest_def
        route_object_def route_spec_def jdefs)
qed

theorem commit_objects_consistent_witness:
  "\<exists>i. labels_sub (str_map (jpath (serviceManifest ''a-1'' ''ns'' ''a'' ''1'' 8080) [''spec'', ''selector'']))
           (str_map (jpath (deploymentManifest i) [''spec'', ''template'', ''metadata'', ''labels'']))"
proof -
  let ?i = "\<lparr> di_name = ''a-1'', di_ns = ''ns'', di_slug = ''a'', di_short = ''1'', di_image = ''x'',
     di_deployment = ''d'', di_sha = ''1'', di_port = 8080, di_db_secret = '''', di_env_secret = '''' \<rparr>"
  have "di_ns ?i = ''ns''" "di_name ?i = ''a-1''" "di_port ?i = 8080" by simp_all
  then show ?thesis using commit_objects_consistent by blast
qed

text \<open>a pod may reach the shared database exactly when the project has one: the network policy that
  opens port 5432 selects the pod if and only if the Deployment was given a database secret, and
  exactly then the container receives \<open>DATABASE_URL\<close>.\<close>
theorem db_binding_consistent:
  "(selects ''Egress'' (str_map (jpath (deploymentManifest i) [''spec'', ''template'', ''metadata'', ''labels'']))
       (tenantAllowPaasDBEgressManifest ns) \<longleftrightarrow> di_db_secret i \<noteq> '''')
   \<and> (jget (app_container i) ''env'' \<noteq> None \<longleftrightarrow> di_db_secret i \<noteq> '''')"
proof -
  have "jpath (deploymentManifest i) [''spec'', ''template'', ''metadata'', ''labels''] = Some (jlabels (pod_labels i))"
    by (simp add: deploymentManifest_def jget_def)
  moreover have "map_of (pod_labels i) ''paas.db'' = Some ''enabled'' \<longleftrightarrow> di_db_secret i \<noteq> ''''"
    by (simp add: pod_labels_def)
  moreover have "jget (app_container i) ''env'' \<noteq> None \<longleftrightarrow> di_db_secret i \<noteq> ''''"
    by (simp add: app_container_def jget_def)
  ultimately show ?thesis by (simp only: str_map_jlabels selects_db) simp
qed

text \<open>name lengths: the per-commit object name \<open><slug>-<sha8>\<close> is a valid DNS label whenever the slug is
  a non-empty slug of at most 54 characters, but a repository whose full name slugs to 55 or more
  characters (GitHub allows 140) gives a Service name over the 63-character limit.\<close>
theorem deploy_name_length:
  assumes "slugify full \<noteq> ''''" "length sha \<ge> 8" "list_all is_alnum_lc (take 8 sha)"
  shows "dns_label (slugify full @ ''-'' @ short sha) \<longleftrightarrow> length (slugify full) \<le> 54"
proof -
  have ends: "dash_free_ends (slugify full)" unfolding slugify_def by (rule slug_squeeze_ends[OF trim_dash_ends])
  have chars: "list_all (\<lambda>c. is_alnum_lc c \<or> c = CHR ''-'') (slugify full)"
    using slugify_chars[of _ full] not_slug_unsafe_alnum by (auto simp: list_all_iff)
  have hd: "is_alnum_lc (hd (slugify full))"
    using ends chars assms(1) by (cases "slugify full") (auto simp: dash_free_ends_def)
  have t: "length (take 8 sha) = 8" using assms(2) by simp
  then have ne: "take 8 sha \<noteq> []" by auto
  have lst: "is_alnum_lc (last (take 8 sha))" using assms(3) ne by (simp add: list_all_iff)
  have all: "list_all (\<lambda>c. is_alnum_lc c \<or> c = CHR ''-'') (take 8 sha)"
    using assms(3) by (auto simp: list_all_iff)
  have len: "length (slugify full @ ''-'' @ take 8 sha) = length (slugify full) + 9" using t by simp
  have last: "last (slugify full @ ''-'' @ take 8 sha) = last (take 8 sha)"
    using ne by (metis append_is_Nil_conv last_appendR)
  have "hd (slugify full @ ''-'' @ take 8 sha) = hd (slugify full)" using assms(1) by simp
  then show ?thesis
    unfolding dns_label_def short_eq_take len last
    using hd lst chars all assms(1) by (simp add: is_alnum_lc_def)
qed

theorem deploy_name_length_witness:
  "dns_label (slugify ''octo/app'' @ ''-'' @ short ''0123456789abcdef'')"
proof -
  have "slugify ''octo/app'' = ''octo-app''" by code_simp
  moreover have "list_all is_alnum_lc (take 8 ''0123456789abcdef'')" by code_simp
  ultimately show ?thesis using deploy_name_length[of "''octo/app''" "''0123456789abcdef''"] by simp
qed

end
