(* ===== verification/Queue.thy ===== *)
theory Queue
  imports Store_Invariant
begin

text \<open>
  The contract between the store and its two clients, the build worker and the build reconciler:
  a queue of deployments with claim, requeue and conditional failure.  The
  contract is a locale, its consequences (no double claim, terminal rows are final under any
  interleaving of the conditional operations) are proved once from the laws, and the store
  operations of \<open>store.go\<close> are an interpretation.
\<close>

section \<open>The contract\<close>

datatype 'k queue_op = Claim_op time | Requeue_op 'k string | Fail_op time 'k string | Stuck_op

locale deployment_queue =
  fixes inv :: "'s \<Rightarrow> bool"
    and status :: "'s \<Rightarrow> 'k \<Rightarrow> dstatus option"
    and claim :: "time \<Rightarrow> 's \<Rightarrow> 'k option \<times> 's"
    and requeue :: "'k \<Rightarrow> string \<Rightarrow> 's \<Rightarrow> 's"
    and fail_if :: "time \<Rightarrow> 'k \<Rightarrow> string \<Rightarrow> 's \<Rightarrow> 's"
    and stuck :: "'s \<Rightarrow> 's"
  assumes claim_None: "inv s \<Longrightarrow> claim t s = (None, s') \<Longrightarrow> s' = s"
    and claim_Some: "inv s \<Longrightarrow> claim t s = (Some k, s') \<Longrightarrow>
          status s k = Some Queued \<and> status s' = (status s)(k := Some Building)"
    and status_requeue: "inv s \<Longrightarrow> status (requeue k r s) j =
          (if j = k \<and> (\<exists>x. status s k = Some x \<and> in_flight x) then Some Queued else status s j)"
    and status_fail_if: "inv s \<Longrightarrow> status (fail_if t k r s) j =
          (if j = k \<and> (\<exists>x. status s k = Some x \<and> in_flight x) then Some Failed else status s j)"
    and status_stuck: "inv s \<Longrightarrow> status (stuck s) j =
          (case status s j of None \<Rightarrow> None | Some x \<Rightarrow> Some (if in_flight x then Queued else x))"
    and inv_ops: "inv s \<Longrightarrow> inv (snd (claim t s)) \<and> inv (requeue k r s) \<and> inv (fail_if t k r s) \<and> inv (stuck s)"
begin

lemma no_double_claim:
  assumes "inv s" "claim t s = (Some k, s1)" "claim t' s1 = (Some j, s2)"
  shows "j \<noteq> k"
proof -
  have "inv s1" using inv_ops[OF assms(1)] assms(2) by (metis snd_conv)
  then have "status s1 j = Some Queued" using claim_Some assms(3) by blast
  moreover have "status s1 k = Some Building" using claim_Some[OF assms(1,2)] by simp
  ultimately show ?thesis by auto
qed

definition step :: "'k queue_op \<Rightarrow> 's \<Rightarrow> 's" where
  "step q s = (case q of Claim_op t \<Rightarrow> snd (claim t s) | Requeue_op k r \<Rightarrow> requeue k r s
      | Fail_op t k r \<Rightarrow> fail_if t k r s | Stuck_op \<Rightarrow> stuck s)"

lemma inv_step: "inv s \<Longrightarrow> inv (step q s)"
  using inv_ops by (cases q) (simp_all add: step_def)

lemma inv_run: "inv s \<Longrightarrow> inv (fold step qs s)"
  by (induction qs arbitrary: s) (simp_all add: inv_step)

lemma terminal_step:
  assumes "inv s" "status s k = Some x" "terminal x"
  shows "status (step q s) k = Some x"
proof (cases q)
  case (Claim_op t)
  obtain r s' where c: "claim t s = (r, s')" by (cases "claim t s")
  show ?thesis
  proof (cases r)
    case None
    then have "s' = s" using claim_None[OF assms(1)] c by blast
    then show ?thesis using c assms(2) by (simp add: step_def Claim_op)
  next
    case (Some j)
    then have "status s j = Some Queued" "status s' = (status s)(j := Some Building)"
      using claim_Some[OF assms(1)] c by blast+
    then show ?thesis using assms(2,3) c by (auto simp: step_def Claim_op terminal_def)
  qed
qed (use assms in \<open>auto simp: step_def status_requeue status_fail_if status_stuck terminal_def in_flight_def\<close>)

lemma terminal_final:
  "inv s \<Longrightarrow> status s k = Some x \<Longrightarrow> terminal x \<Longrightarrow> status (fold step qs s) k = Some x"
  by (induction qs arbitrary: s) (simp_all add: inv_step terminal_step)

lemma known_step: "inv s \<Longrightarrow> (status (step q s) k = None) = (status s k = None)"
proof (cases q)
  case (Claim_op t)
  assume inv: "inv s"
  obtain r s' where c: "claim t s = (r, s')" by (cases "claim t s")
  show ?thesis
  proof (cases r)
    case None
    then have "s' = s" using claim_None[OF inv] c by blast
    then show ?thesis using c by (simp add: step_def Claim_op)
  next
    case (Some j)
    then have "status s j = Some Queued" "status s' = (status s)(j := Some Building)"
      using claim_Some[OF inv] c by blast+
    then show ?thesis using c by (auto simp: step_def Claim_op)
  qed
qed (auto simp: step_def status_requeue status_fail_if status_stuck split: option.splits)

lemma no_row_lost: "inv s \<Longrightarrow> (status (fold step qs s) k = None) = (status s k = None)"
  by (induction qs arbitrary: s) (simp_all add: inv_step known_step)

end

section \<open>The store implements it\<close>

definition dep_status :: "db \<Rightarrow> uuid \<Rightarrow> dstatus option" where
  "dep_status s k = map_option d_status (lookup_dep s k)"

definition claim_id :: "time \<Rightarrow> db \<Rightarrow> uuid option \<times> db" where
  "claim_id now s =
     (case ClaimNextQueued now s of
        (Inr (Some c), s') \<Rightarrow> (Some (c_deployment c), s') | (_, s') \<Rightarrow> (None, s'))"

definition run_queue_op :: "uuid queue_op \<Rightarrow> db \<Rightarrow> db" where
  "run_queue_op q s = (case q of Claim_op t \<Rightarrow> snd (ClaimNextQueued t s)
      | Requeue_op k r \<Rightarrow> snd (RequeueDeployment k r s)
      | Fail_op t k r \<Rightarrow> MarkFailedIfInFlight t k r s | Stuck_op \<Rightarrow> snd (RequeueStuck s))"

lemma find_upd_where_key:
  assumes "\<And>r. key (f r) = key r"
  shows "find (\<lambda>r. key r = k) (upd_where P f rs)
    = map_option (\<lambda>r. if P r then f r else r) (find (\<lambda>r. key r = k) rs)"
  using assms by (induction rs) auto

lemma lookup_dep_upd:
  assumes "\<And>d. d_id (f d) = d_id d"
  shows "lookup_dep (s\<lparr> deployments := upd_where P f (deployments s) \<rparr>) k
    = map_option (\<lambda>d. if P d then f d else d) (lookup_dep s k)"
  unfolding lookup_dep_def using find_upd_where_key[of d_id f] assms by simp

lemma claim_id_cases:
  "deploys_ok s \<Longrightarrow> claim_id t s = (r, s') \<Longrightarrow>
     (r = None \<and> s' = s) \<or>
     (\<exists>d :: deployment. r = Some (d_id d) \<and> dep_status s (d_id d) = Some Queued \<and> s' = set_dep (d_id d) (start_build t) s)"
proof (rule ClaimNextQueued_cases[of s t])
  fix d p i c
  assume ok: "deploys_ok s" and e: "claim_id t s = (r, s')"
    and c: "oldest_queued s = Some d" "ClaimNextQueued t s = (Inr (Some c), set_dep (d_id d) (start_build t) s)"
      "c_deployment c = d_id d"
  have "dep_status s (d_id d) = Some Queued"
    using oldest_queued_Some[OF c(1)] lookup_dep_unique[OF ok] by (simp add: dep_status_def)
  moreover have "r = Some (d_id d)" "s' = set_dep (d_id d) (start_build t) s"
    using e c by (simp_all add: claim_id_def)
  ultimately show ?thesis by blast
qed (auto simp: claim_id_def)

lemma snd_claim_id: "snd (claim_id t s) = snd (ClaimNextQueued t s)"
  by (auto simp: claim_id_def split: prod.splits sum.splits option.splits)

interpretation store_queue: deployment_queue deploys_ok dep_status claim_id
  "\<lambda>k r s. snd (RequeueDeployment k r s)" MarkFailedIfInFlight "\<lambda>s. snd (RequeueStuck s)"
proof unfold_locales
  fix s s' :: db and t and k j :: uuid and r :: string
  assume ok: "deploys_ok s"
  show "claim_id t s = (None, s') \<Longrightarrow> s' = s" using claim_id_cases[OF ok] by blast
  show "claim_id t s = (Some k, s') \<Longrightarrow>
      dep_status s k = Some Queued \<and> dep_status s' = (dep_status s)(k := Some Building)"
  proof -
    assume "claim_id t s = (Some k, s')"
    then have q: "dep_status s k = Some Queued" and s': "s' = set_dep k (start_build t) s"
      using claim_id_cases[OF ok] by blast+
    have "dep_status s' j = (if j = k then Some Building else dep_status s j)" for j
      using q lookup_dep_upd[where f = "start_build t" and P = "\<lambda>d. d_id d = k" and s = s and k = j] lookup_dep_Some[of s j]
      by (cases "lookup_dep s j") (auto simp: dep_status_def s' set_dep_def start_build_def)
    then show ?thesis using q by auto
  qed
  show "dep_status (snd (RequeueDeployment k r s)) j =
      (if j = k \<and> (\<exists>x. dep_status s k = Some x \<and> in_flight x) then Some Queued else dep_status s j)"
    using lookup_dep_upd[where f = "requeue_row (Some r)" and P = "\<lambda>d. d_id d = k \<and> in_flight (d_status d)" and s = s and k = j]
      lookup_dep_Some[of s j]
    by (cases "lookup_dep s j") (auto simp: dep_status_def RequeueDeployment_def Let_def requeue_row_def)
  show "dep_status (MarkFailedIfInFlight t k r s) j =
      (if j = k \<and> (\<exists>x. dep_status s k = Some x \<and> in_flight x) then Some Failed else dep_status s j)"
    using lookup_dep_upd[where f = "fail_row t r" and P = "\<lambda>d. d_id d = k \<and> in_flight (d_status d)" and s = s and k = j]
      lookup_dep_Some[of s j]
    by (cases "lookup_dep s j") (auto simp: dep_status_def MarkFailedIfInFlight_def fail_row_def)
  show "dep_status (snd (RequeueStuck s)) j =
      (case dep_status s j of None \<Rightarrow> None | Some x \<Rightarrow> Some (if in_flight x then Queued else x))"
    using lookup_dep_upd[where f = "requeue_row None" and P = "\<lambda>d. in_flight (d_status d)" and s = s and k = j]
    by (cases "lookup_dep s j") (auto simp: dep_status_def RequeueStuck_def Let_def requeue_row_def)
  have upd: "deploys_ok (s\<lparr> deployments := upd_where P f (deployments s) \<rparr>)"
    if "\<And>d. d_id (f d) = d_id d" "\<And>d. d_project (f d) = d_project d" for P f
    using ok that by (simp add: deploys_ok_def upd_simps)
  have "deploys_ok (snd (claim_id t s))"
    unfolding snd_claim_id
    by (rule ClaimNextQueued_cases[of s t]) (auto simp: ok set_dep_def start_build_def intro: upd)
  then show "deploys_ok (snd (claim_id t s)) \<and> deploys_ok (snd (RequeueDeployment k r s))
      \<and> deploys_ok (MarkFailedIfInFlight t k r s) \<and> deploys_ok (snd (RequeueStuck s))"
    by (auto simp: RequeueDeployment_def MarkFailedIfInFlight_def RequeueStuck_def Let_def
        fail_row_def requeue_row_def intro!: upd)
qed

lemma run_queue_op_step: "run_queue_op q = store_queue.step q"
  by (rule ext, cases q) (simp_all add: run_queue_op_def store_queue.step_def snd_claim_id)

text \<open>C5: terminal deployments are final and no deployment is lost: under every interleaving of
  claims, requeues (by the reconciler), conditional failures (by the worker) and boot recoveries,
  a ready or failed deployment keeps its status, and a row exists afterwards exactly if it existed
  before.\<close>
theorem queue_terminal_final:
  assumes "deploys_ok s" "dep_status s k = Some x" "terminal x"
  shows "dep_status (fold run_queue_op qs s) k = Some x
       \<and> (dep_status (fold run_queue_op qs s) j = None \<longleftrightarrow> dep_status s j = None)"
proof -
  have "(run_queue_op :: uuid queue_op \<Rightarrow> db \<Rightarrow> db) = store_queue.step"
    by (rule ext) (rule run_queue_op_step)
  then show ?thesis
    using store_queue.terminal_final[OF assms] store_queue.no_row_lost[OF assms(1)] by metis
qed

theorem queue_terminal_final_witness:
  "dep_status (fold run_queue_op [Claim_op 9, Requeue_op ''d1'' ''stuck'', Stuck_op]
      (demo_db [demo_dep ''d1'' ''aa'' Queued 3, demo_dep ''d2'' ''bb'' Ready 1])) ''d2'' = Some Ready"
proof -
  let ?s = "demo_db [demo_dep ''d1'' ''aa'' Queued 3, demo_dep ''d2'' ''bb'' Ready 1]"
  have "deploys_ok ?s" "dep_status ?s ''d2'' = Some Ready" "terminal Ready"
    by (simp_all add: deploys_ok_def dep_status_def lookup_dep_def terminal_def demo_defs)
  then show ?thesis using queue_terminal_final by blast
qed

text \<open>two consecutive claims never hand out the same deployment.\<close>
theorem claims_distinct:
  assumes "deploys_ok s" "ClaimNextQueued t s = (Inr (Some c), s1)"
    and "ClaimNextQueued t' s1 = (Inr (Some c'), s2)"
  shows "c_deployment c' \<noteq> c_deployment c"
  using store_queue.no_double_claim[OF assms(1), of t "c_deployment c" s1 t' "c_deployment c'" s2] assms(2,3)
  by (simp add: claim_id_def)

theorem claims_distinct_witness:
  "\<exists>c s1 c' s2. ClaimNextQueued 9 (demo_db [demo_dep ''d1'' ''aa'' Queued 3, demo_dep ''d2'' ''bb'' Queued 4])
       = (Inr (Some c), s1) \<and> ClaimNextQueued 10 s1 = (Inr (Some c'), s2) \<and> c_deployment c' \<noteq> c_deployment c"
proof -
  let ?s = "demo_db [demo_dep ''d1'' ''aa'' Queued 3, demo_dep ''d2'' ''bb'' Queued 4]"
  have ok: "deploys_ok ?s" by (simp add: deploys_ok_def demo_defs)
  obtain c s1 where 1: "ClaimNextQueued 9 ?s = (Inr (Some c), s1)"
    "s1 = set_dep ''d1'' (start_build 9) ?s"
    by (simp add: ClaimNextQueued_def oldest_queued_def lookup_project_def lookup_inst_def demo_defs)
  obtain c' s2 where 2: "ClaimNextQueued 10 s1 = (Inr (Some c'), s2)"
    by (simp add: 1(2) ClaimNextQueued_def oldest_queued_def lookup_project_def lookup_inst_def demo_defs
        set_dep_def start_build_def)
  show ?thesis using 1 2 claims_distinct[OF ok 1(1) 2] by blast
qed

section \<open>Batch semantics of \<open>AddRepos\<close>\<close>

definition demo_repo :: "int \<Rightarrow> string \<Rightarrow> repoRow" where
  "demo_repo i n = \<lparr> rr_id = i, rr_full_name = n, rr_private = False, rr_branch = '''' \<rparr>"

text \<open>the cap is over-counted: a repository that already has a project still uses up a slot, so an
  owner with one project and a cap of two does not get the second project when the payload lists
  the known repository before the new one.\<close>
theorem AddRepos_overcounts:
  "(let r = AddRepos 9 7 [(demo_repo 11 ''octo/app'', ''x1''), (demo_repo 12 ''octo/new'', ''x2'')] 2 (demo_db [])
    in fst r = Inr () \<and> CountProjectsForUser ''u1'' (snd r) = 1 \<and> project_by_repo 7 12 (snd r) = None)"
  by (simp add: AddRepos_def Let_def add_owner_def demo_repo_def demo_defs lookup_inst_def CountProjectsForUser_def
      count_where_def exec_add_stmt_def exec_upsert_repo_def exec_insert_project_def project_by_repo_def)

text \<open>one slug collision rejects the whole payload: when a new repository's slug is already taken
  by another account's project, none of the repositories of the same delivery is added.\<close>
theorem AddRepos_slug_collision:
  "AddRepos 9 7 [(demo_repo 12 ''octo/new'', ''x2''), (demo_repo 13 ''Octo/App'', ''x3'')] 0 (demo_db [])
     = (Inl (Unique_violation ''projects_slug_key''), demo_db [])"
proof -
  have "slugify ''Octo/App'' = ''octo-app''" "slugify ''octo/new'' = ''octo-new''" by code_simp+
  then show ?thesis
    by (simp add: AddRepos_def Let_def add_owner_def demo_repo_def demo_defs lookup_inst_def coalesce_def nullif_def
      exec_add_stmt_def exec_upsert_repo_def exec_insert_project_def)
qed

end
