(* ===== verification/Builder.thy ===== *)
theory Builder
  imports Manifests Queue
begin

text \<open>
  The build worker (\<open>builder.go\<close>): \<open>ensureBuildJob\<close>, \<open>waitForJob\<close>, \<open>runOne\<close> in the three phases build,
  deploy and finish, and \<open>tick\<close>.  The state is a \<open>world\<close>: the database, the Kubernetes client and the commit statuses
  posted.  What lies outside the repository is the record \<open>ext\<close>: the API server, base64, the
  GitHub token exchange, the build script, the clock and the context's cancellation as
  seen by each iteration of the wait loop.  A wait that has not ended within \<open>x_fuel\<close> iterations is the outcome
  \<open>Running\<close>; enough iterations end it, as the last section shows.
\<close>

datatype outcome = Running | Panic | Done "string option"

record commit_status =
  cs_sha :: string
  cs_state :: string
  cs_desc :: string
  cs_target :: string

record 'k world =
  wd :: db
  wk :: "'k kube"
  ws :: "commit_status list"

record 'k ext =
  x_api :: "'k api"
  x_b64 :: "string \<Rightarrow> string option"
  x_enc :: "string \<Rightarrow> string"
  x_token :: "int \<Rightarrow> (string, string) result"
  x_script :: string
  x_clock :: "nat \<Rightarrow> time \<times> string option"
  x_fuel :: nat
  x_now :: "string \<Rightarrow> time"

section \<open>Constants and names\<close>

definition buildTimeout :: time where "buildTimeout = 15 * 60 * second"
definition missing_grace :: time where "missing_grace = 2 * 60 * second"

definition deploymentLogURL :: "uuid \<Rightarrow> string" where
  "deploymentLogURL did = dashboardBaseURL @ ''/#d='' @ did"

definition repo_path :: "claimedDeployment \<Rightarrow> string" where
  "repo_path c = c_slug c @ '':'' @ short (c_sha c)"

definition push_image :: "claimedDeployment \<Rightarrow> string" where
  "push_image c = registryPushHost @ ''/'' @ repo_path c"

definition pull_image :: "claimedDeployment \<Rightarrow> string" where
  "pull_image c = registryPullHost @ ''/'' @ repo_path c"

definition deploy_name :: "claimedDeployment \<Rightarrow> string" where
  "deploy_name c = c_slug c @ ''-'' @ short (c_sha c)"

definition preview_host :: "claimedDeployment \<Rightarrow> string" where
  "preview_host c = c_slug c @ ''-'' @ short (c_sha c) @ ''.'' @ tenantHostZone"

definition is_production :: "claimedDeployment \<Rightarrow> bool" where
  "is_production c \<longleftrightarrow> c_ref c = ''refs/heads/'' @ c_branch c"

definition on_kube :: "('k kube \<Rightarrow> 'a \<times> 'k kube) \<Rightarrow> 'k world \<Rightarrow> 'a \<times> 'k world" where
  "on_kube f w = (let (r, k') = f (wk w) in (r, w\<lparr> wk := k' \<rparr>))"

text \<open>Errors of the GitHub call are swallowed; the status record keeps what was posted.\<close>
definition postStatus :: "claimedDeployment \<Rightarrow> string \<Rightarrow> string \<Rightarrow> string \<Rightarrow> 'k world \<Rightarrow> 'k world" where
  "postStatus c st desc target w =
     w\<lparr> ws := ws w @ [\<lparr> cs_sha = c_sha c, cs_state = st, cs_desc = desc, cs_target = target \<rparr>] \<rparr>"

section \<open>The build Job\<close>

definition ensureBuildJob :: "'k api \<Rightarrow> string \<Rightarrow> string \<Rightarrow> json \<Rightarrow> 'k kcmd" where
  "ensureBuildJob api ns name spec s =
     (let create = (\<lambda>s. case createJob api ns spec s of
                      (Some e, s') \<Rightarrow> (Some (wrap_err ''create job'' e), s') | (None, s') \<Rightarrow> (None, s'))
      in case getJobPhase api ns name s of
           (Inl e, s1) \<Rightarrow> (Some e, s1)
         | (Inr None, s1) \<Rightarrow> create s1
         | (Inr (Some ph), s1) \<Rightarrow>
             if jp_failed ph > 0 \<or> jp_msg ph \<noteq> ''''
             then (case deleteJob api ns name s1 of
                     (Some e, s2) \<Rightarrow> (Some e, s2) | (None, s2) \<Rightarrow> create s2)
             else (None, s1))"

fun wait_loop ::
  "'k api \<Rightarrow> (nat \<Rightarrow> time \<times> string option) \<Rightarrow> string \<Rightarrow> string \<Rightarrow> time \<Rightarrow> nat \<Rightarrow> nat \<Rightarrow> bool \<Rightarrow> time option
     \<Rightarrow> 'k kube \<Rightarrow> outcome \<times> 'k kube" where
  "wait_loop api clock ns name deadline 0 i seen nil_since s = (Running, s)"
| "wait_loop api clock ns name deadline (Suc fuel) i seen nil_since s =
     (case snd (clock i) of
        Some cancelled \<Rightarrow> (Done (Some cancelled), s)
      | None \<Rightarrow>
          (case getJobPhase api ns name s of
             (Inl e, s1) \<Rightarrow> (Done (Some (wrap_err ''get job phase'' e)), s1)
           | (Inr None, s1) \<Rightarrow>
               if seen then (Done (Some ''build job deleted unexpectedly''), s1)
               else (case nil_since of
                       None \<Rightarrow> wait_loop api clock ns name deadline fuel (Suc i) seen (Some (fst (clock i))) s1
                     | Some t0 \<Rightarrow>
                         if fst (clock i) - t0 > missing_grace
                         then (Done (Some ''build job not found after create''), s1)
                         else wait_loop api clock ns name deadline fuel (Suc i) seen (Some t0) s1)
           | (Inr (Some ph), s1) \<Rightarrow>
               if jp_succeeded ph \<ge> 1 then (Done None, s1)
               else if jp_failed ph \<ge> 1 \<or> jp_msg ph \<noteq> ''''
               then (Done (Some (''build failed: '' @
                       (if jp_msg ph = '''' then ''kaniko job failed (failed='' @ show_int (jp_failed ph) @ '')''
                        else jp_msg ph))), s1)
               else if fst (clock i) > deadline then (Done (Some ''build timed out after 15m0s''), s1)
               else wait_loop api clock ns name deadline fuel (Suc i) True None s1))"

definition waitForJob ::
  "'k api \<Rightarrow> (nat \<Rightarrow> time \<times> string option) \<Rightarrow> nat \<Rightarrow> string \<Rightarrow> string \<Rightarrow> 'k kube \<Rightarrow> outcome \<times> 'k kube" where
  "waitForJob api clock fuel ns name s =
     wait_loop api clock ns name (fst (clock 0) + buildTimeout) fuel 0 False None s"

section \<open>\<open>runOne\<close>\<close>

text \<open>Lines 149 to 211: names, pending status, token, clone secret, Job, wait.\<close>
definition run_build :: "'k ext \<Rightarrow> claimedDeployment \<Rightarrow> 'k world \<Rightarrow> outcome \<times> 'k world" where
  "run_build x c w =
     (case buildJobName (c_deployment c) of
        None \<Rightarrow> (Panic, w)
      | Some buildName \<Rightarrow>
          (let w0 = postStatus c ''pending'' ''building'' (deploymentLogURL (c_deployment c)) w;
               secretName = buildName @ ''-git''
           in case x_token x (c_inst c) of
                Inl e \<Rightarrow> (Done (Some (wrap_err ''mint installation token'' e)), w0)
              | Inr token \<Rightarrow>
                  (case on_kube (applySecret (x_api x) buildNamespace secretName
                           [(''GIT_CLONE_URL'', ''https://x-access-token:'' @ token @ ''@github.com/'' @ c_repo c @ ''.git''),
                            (''COMMIT_SHA'', c_sha c)]
                           [(''app.kubernetes.io/managed-by'', ''control-plane''),
                            (''app.kubernetes.io/component'', ''build''), (''paas.deployment'', c_deployment c)]) w0 of
                     (Some e, w1) \<Rightarrow> (Done (Some (wrap_err ''create git secret'' e)), w1)
                   | (None, w1) \<Rightarrow>
                       (case on_kube (ensureBuildJob (x_api x) buildNamespace buildName
                               (buildJobManifest (x_script x)
                                  \<lparr> bj_name = buildName, bj_ns = buildNamespace, bj_destination = push_image c,
                                    bj_secret = secretName, bj_deployment = c_deployment c,
                                    bj_slug = c_slug c \<rparr>)) w1 of
                          (Some e, w2) \<Rightarrow> (Done (Some (wrap_err ''ensure job'' e)), w2)
                        | (None, w2) \<Rightarrow>
                            on_kube (waitForJob (x_api x) (x_clock x) (x_fuel x) buildNamespace buildName) w2))))"

definition env_secret_name :: "claimedDeployment \<Rightarrow> string" where
  "env_secret_name c = ''paas-env-'' @ c_slug c"

definition deploy_input :: "claimedDeployment \<Rightarrow> string \<Rightarrow> string \<Rightarrow> deployInput" where
  "deploy_input c ns dbSecret =
     \<lparr> di_name = deploy_name c, di_ns = ns, di_slug = c_slug c, di_short = short (c_sha c),
       di_image = pull_image c, di_deployment = c_deployment c, di_sha = c_sha c, di_port = tenantPort,
       di_db_secret = dbSecret, di_env_secret = env_secret_name c \<rparr>"

text \<open>Lines 253 to 298: the environment secret and the three workload objects.\<close>
definition workload_steps :: "'k api \<Rightarrow> claimedDeployment \<Rightarrow> string \<Rightarrow> string \<Rightarrow> (string \<times> string) list
     \<Rightarrow> (string \<times> 'k kcmd) list" where
  "workload_steps api c ns dbSecret envMap =
     [(''apply env secret'', applySecret api ns (env_secret_name c) envMap
         [(''app.kubernetes.io/managed-by'', ''control-plane''),
          (''app.kubernetes.io/component'', ''tenant-env''), (''paas.project'', c_slug c)]),
      (''apply deployment'', applyDeployment api ns (deploy_name c) (deploymentManifest (deploy_input c ns dbSecret))),
      (''apply service'', applyService api ns (deploy_name c)
         (serviceManifest (deploy_name c) ns (c_slug c) (short (c_sha c)) tenantPort)),
      (''apply ingressroute'', applyIngressRoute api ns (deploy_name c)
         (ingressRouteManifest (deploy_name c) ns (preview_host c) (c_slug c) (short (c_sha c))))]"

definition em_dash :: string where "em_dash = [CHR 0xE2, CHR 0x80, CHR 0x94]"

text \<open>Lines 213 to 298; the result is the tenant namespace.\<close>
definition run_deploy :: "'k ext \<Rightarrow> claimedDeployment \<Rightarrow> 'k world \<Rightarrow> (string, string) result \<times> 'k world" where
  "run_deploy x c w =
     (let w0 = w\<lparr> wd := MarkDeploying (x_now x ''deploying'') (c_deployment c) (pull_image c) (wd w) \<rparr>
      in if c_login c = ''''
         then (Inl (''deployment '' @ c_deployment c @ '' has no tenant login '' @ em_dash @ '' refusing to deploy unscoped''), w0)
         else case on_kube (ensureTenant (x_api x) (x_b64 x) (x_enc x) (c_login c)) w0 of
                (Inl e, w1) \<Rightarrow> (Inl (wrap_err ''ensure tenant namespace'' e), w1)
              | (Inr ns, w1) \<Rightarrow>
                  (let dbSecret = (case GetProjectDatabase (wd w1) (c_project c) of None \<Rightarrow> '''' | Some p \<Rightarrow> pd_secret p);
                       envMap = MapProjectEnv (wd w1) (c_project c)
                   in case on_kube (run_steps (workload_steps (x_api x) c ns dbSecret envMap)) w1 of
                        (Some e, w2) \<Rightarrow> (Inl e, w2)
                      | (None, w2) \<Rightarrow> (Inr ns, w2)))"

definition prod_host :: "claimedDeployment \<Rightarrow> string" where
  "prod_host c = c_slug c @ ''.'' @ tenantHostZone"

definition prod_route :: "string \<Rightarrow> string" where "prod_route slug = ''prod-'' @ slug"

definition live_url :: "claimedDeployment \<Rightarrow> string" where "live_url c = ''https://'' @ preview_host c"

text \<open>Lines 310 to 333: the production alias and the pointer; failures are logged only.  The result is
  the URL of the success status.\<close>
definition run_alias :: "'k ext \<Rightarrow> claimedDeployment \<Rightarrow> string \<Rightarrow> 'k world \<Rightarrow> string \<times> 'k world" where
  "run_alias x c ns w =
     (case on_kube (applyIngressRoute (x_api x) ns (prod_route (c_slug c))
              (productionAliasManifest (prod_route (c_slug c)) ns (prod_host c) (deploy_name c) (c_slug c))) w of
        (Some _, w1) \<Rightarrow> (live_url c, w1)
      | (None, w1) \<Rightarrow>
          (''https://'' @ prod_host c,
           w1\<lparr> wd := snd (SetProductionDeployment (c_project c) (c_deployment c) (wd w1)) \<rparr>))"

text \<open>Lines 341 to 355: every verified custom domain is re-pointed; an error skips that domain.\<close>
definition run_domain :: "'k ext \<Rightarrow> claimedDeployment \<Rightarrow> string \<Rightarrow> string \<Rightarrow> 'k world \<Rightarrow> 'k world" where
  "run_domain x c ns host w =
     snd (on_kube (applyIngressRoute (x_api x) ns (customDomainRouteName host)
            (productionAliasManifest (customDomainRouteName host) ns host (deploy_name c) (c_slug c))) w)"

definition gc_selector :: "claimedDeployment \<Rightarrow> string" where
  "gc_selector c = ''paas.project='' @ c_slug c @ '',paas.commit!='' @ short (c_sha c)"

text \<open>Lines 362 to 370: old Deployments and Services of the project are removed.\<close>
definition run_gc :: "'k ext \<Rightarrow> claimedDeployment \<Rightarrow> string \<Rightarrow> 'k world \<Rightarrow> 'k world" where
  "run_gc x c ns w =
     (let w1 = snd (on_kube (deleteAllByLabel (x_api x) ns ''apis/apps/v1'' ''deployments'' (gc_selector c)) w)
      in snd (on_kube (deleteAllByLabel (x_api x) ns ''api/v1'' ''services'' (gc_selector c)) w1))"

definition run_finish :: "'k ext \<Rightarrow> claimedDeployment \<Rightarrow> string \<Rightarrow> 'k world \<Rightarrow> 'k world" where
  "run_finish x c ns w =
     (let w0 = w\<lparr> wd := MarkReady (x_now x ''ready'') (c_deployment c) (live_url c) (wd w) \<rparr>
      in if is_production c
         then (let (url, w1) = run_alias x c ns w0;
                   w2 = fold (run_domain x c ns) (ListVerifiedDomainsForProject (wd w1) (c_project c)) w1;
                   w3 = run_gc x c ns w2
               in postStatus c ''success'' ''deployed'' url w3)
         else postStatus c ''success'' ''deployed'' (live_url c) w0)"

definition runOne :: "'k ext \<Rightarrow> claimedDeployment \<Rightarrow> 'k world \<Rightarrow> outcome \<times> 'k world" where
  "runOne x c w =
     (case run_build x c w of
        (Done None, w1) \<Rightarrow>
          (case run_deploy x c w1 of
             (Inl e, w2) \<Rightarrow> (Done (Some e), w2)
           | (Inr ns, w2) \<Rightarrow> (Done None, run_finish x c ns w2))
      | (r, w1) \<Rightarrow> (r, w1))"

section \<open>\<open>tick\<close>\<close>

datatype tick_result = Tick_claim_error sql_error | Tick_idle | Tick_ran claimedDeployment outcome

definition tick :: "'k ext \<Rightarrow> 'k world \<Rightarrow> tick_result \<times> 'k world" where
  "tick x w =
     (let w0 = w\<lparr> wd := snd (RequeueStale (x_now x ''tick'') buildTimeout (wd w)) \<rparr>
      in case ClaimNextQueued (x_now x ''claim'') (wd w0) of
           (Inl e, d) \<Rightarrow> (Tick_claim_error e, w0\<lparr> wd := d \<rparr>)
         | (Inr None, d) \<Rightarrow> (Tick_idle, w0\<lparr> wd := d \<rparr>)
         | (Inr (Some c), d) \<Rightarrow>
             (case runOne x c (w0\<lparr> wd := d \<rparr>) of
                (Done (Some e), w1) \<Rightarrow>
                  (Tick_ran c (Done (Some e)),
                   postStatus c ''failure'' e (deploymentLogURL (c_deployment c))
                     (w1\<lparr> wd := MarkFailedIfInFlight (x_now x ''failed'') (c_deployment c) e (wd w1) \<rparr>))
              | (r, w1) \<Rightarrow> (Tick_ran c r, w1)))"

section \<open>Termination of the wait\<close>

lemma wait_loop_returns:
  assumes "i \<le> m" "fst (clock m) > deadline" "fst (clock m) - fst (clock 0) > missing_grace" "0 < m"
    and "m - i < fuel"
    and "(i = 0 \<and> \<not> seen \<and> nil_since = None) \<or> (0 < i \<and> (seen \<or> nil_since = Some (fst (clock 0))))"
  shows "\<exists>e s'. wait_loop api clock ns name deadline fuel i seen nil_since s = (Done e, s')"
  using assms(1,5,6)
proof (induction fuel arbitrary: i seen nil_since s)
  case (Suc fuel)
  have next_i: "\<exists>e s'. wait_loop api clock ns name deadline fuel (Suc i) sn nl s1 = (Done e, s')"
    if "i \<noteq> m" "sn \<or> nl = Some (fst (clock 0))" for sn nl s1
    using Suc.IH[of "Suc i" sn nl s1] Suc.prems that by auto
  obtain r s1 where g: "getJobPhase api ns name s = (r, s1)" by (cases "getJobPhase api ns name s")
  show ?case
  proof (cases "snd (clock i)")
    case None
    note simps = g None
    have late: "i \<noteq> m \<or> (0 < i \<and> fst (clock i) > deadline \<and> fst (clock i) - fst (clock 0) > missing_grace)"
      using assms(2-4) by auto
    show ?thesis
    proof (cases r)
      case (Inl e)
      then show ?thesis by (simp add: simps)
    next
      case (Inr ph)
      show ?thesis
      proof (cases ph)
        case None
        have nl: "seen \<or> (fst (clock i) = fst (clock 0) \<and> nil_since = None) \<or> nil_since = Some (fst (clock 0))"
          using Suc.prems(3) by auto
        from late show ?thesis
        proof
          assume "i \<noteq> m"
          then show ?thesis using nl None Inr next_i[of seen "Some (fst (clock 0))" s1]
            by (auto simp: simps)
        next
          assume "0 < i \<and> fst (clock i) > deadline \<and> fst (clock i) - fst (clock 0) > missing_grace"
          then show ?thesis using Suc.prems(3) None Inr by (auto simp: simps)
        qed
      next
        case (Some p)
        from late show ?thesis using Inr Some next_i[of True None s1] by (auto simp: simps)
      qed
    qed
  qed simp
qed simp

text \<open>C18: the wait for the build Job always ends: whatever the API server answers, once the clock
  has passed the deadline and the two-minute grace for a missing Job, the loop has returned a result
  (it may of course return earlier).\<close>
theorem waitForJob_returns:
  assumes "0 < m" "m < fuel" "fst (clock m) > fst (clock 0) + buildTimeout"
  shows "\<exists>e s'. waitForJob api clock fuel ns name s = (Done e, s')"
  unfolding waitForJob_def
  by (rule wait_loop_returns[where m = m])
     (use assms in \<open>auto simp: buildTimeout_def missing_grace_def second_def\<close>)

theorem waitForJob_returns_witness:
  "\<exists>e s'. waitForJob toy_api (\<lambda>i. (int i * 1000000000000, None)) 9 ''n'' ''j''
     \<lparr> k_state = (\<lambda>_. None, 0), k_trace = [] \<rparr> = (Done e, s')"
  by (rule waitForJob_returns[of 2]) (simp_all add: buildTimeout_def second_def)

end
