(* ===== verification/Reconciler.thy ===== *)
theory Reconciler
  imports Builder Go_Json
begin

text \<open>
  The build reconciler (\<open>build_reconciler.go\<close>), a second loop beside the worker that requeues builds whose
  Job is gone and restarts builds that kaniko never finishes, with the pod look-ups of \<open>k8s.go\<close> it
  needs.  Parameters: the API server, the clock of the tick, the parsing of timestamps and the printing of durations.
\<close>

section \<open>Pods\<close>

definition pod_created :: "(string \<Rightarrow> time) \<Rightarrow> json \<Rightarrow> time" where
  "pod_created tm p = (case jpath p [''metadata'', ''creationTimestamp''] of Some (JStr t) \<Rightarrow> tm t | _ \<Rightarrow> 0)"

definition pod_name :: "json \<Rightarrow> string" where
  "pod_name p = jstr (jpath p [''metadata'', ''name''])"

text \<open>The first of the most recently created pods.\<close>
definition newest_pod :: "(string \<Rightarrow> time) \<Rightarrow> json list \<Rightarrow> string" where
  "newest_pod tm ps =
     (case ps of [] \<Rightarrow> ''''
      | q # qs \<Rightarrow> pod_name (fold (\<lambda>it best. if pod_created tm it > pod_created tm best then it else best) qs q))"

definition findBuildPod ::
  "'k api \<Rightarrow> (string \<Rightarrow> time) \<Rightarrow> string \<Rightarrow> uuid \<Rightarrow> 'k kube \<Rightarrow> (string, string) result \<times> 'k kube" where
  "findBuildPod api tm ns did s =
     (case kdo api GET (ns_path ''/api/v1'' ns ''pods?labelSelector=''
               @ queryEscape (''paas.deployment='' @ did @ '',app.kubernetes.io/component=build'')) None s of
        (Net_error e, s1) \<Rightarrow> (Inl e, s1)
      | (Resp st body j, s1) \<Rightarrow>
          if \<not> ok2xx st then (Inl (status_error ''list pods'' st body), s1)
          else (case j of None \<Rightarrow> (Inl ''decode pods'', s1)
                | Some v \<Rightarrow> (Inr (newest_pod tm (jarr (jget v ''items''))), s1)))"

record containerState =
  cn_waiting :: bool
  cn_running :: bool
  cn_terminated :: bool
  cn_reason :: string

definition present :: "json option \<Rightarrow> bool" where
  "present j = (case j of None \<Rightarrow> False | Some JNull \<Rightarrow> False | Some _ \<Rightarrow> True)"

definition container_state :: "json \<Rightarrow> containerState" where
  "container_state cs =
     (let wt = jpath cs [''state'', ''waiting'']; tr = jpath cs [''state'', ''terminated'']
      in \<lparr> cn_waiting = present wt, cn_running = present (jpath cs [''state'', ''running'']),
           cn_terminated = present tr,
           cn_reason = (if present tr then jstr (json_field tr ''reason'')
                        else if present wt then jstr (json_field wt ''reason'') else '''') \<rparr>)"

definition containerStatus ::
  "'k api \<Rightarrow> string \<Rightarrow> string \<Rightarrow> string \<Rightarrow> 'k kube \<Rightarrow> (string, containerState option) result \<times> 'k kube" where
  "containerStatus api ns pod container s =
     (case kdo api GET (ns_path ''/api/v1'' ns ''pods/'' @ pathEscape pod) None s of
        (Net_error e, s1) \<Rightarrow> (Inl e, s1)
      | (Resp st body j, s1) \<Rightarrow>
          if st = 404 then (Inr None, s1)
          else if \<not> ok2xx st then (Inl (status_error ''get pod'' st body), s1)
          else (case j of None \<Rightarrow> (Inl ''decode pod'', s1)
                | Some v \<Rightarrow>
                    (Inr (map_option container_state
                       (find (\<lambda>c. jstr (jget c ''name'') = container)
                         (jarr (jpath v [''status'', ''initContainerStatuses''])
                          @ jarr (jpath v [''status'', ''containerStatuses''])))), s1)))"

section \<open>One tick\<close>

definition stuckKanikoThreshold :: time where "stuckKanikoThreshold = 8 * 60 * second"
definition missingJobGrace :: time where "missingJobGrace = 90 * second"

definition requeue :: "uuid \<Rightarrow> string \<Rightarrow> 'k world \<Rightarrow> 'k world" where
  "requeue did reason w = w\<lparr> wd := snd (RequeueDeployment did reason (wd w)) \<rparr>"

record 'k rec_ext =
  rx_api :: "'k api"
  rx_now :: time
  rx_time :: "string \<Rightarrow> time"
  rx_show :: "time \<Rightarrow> string"

text \<open>The part of the loop body that looks at the pod of a Job that has been running too long.\<close>
definition restart_stuck :: "'k rec_ext \<Rightarrow> inFlightDeployment \<Rightarrow> string \<Rightarrow> 'k world \<Rightarrow> 'k world" where
  "restart_stuck x d jobName w =
     (case on_kube (findBuildPod (rx_api x) (rx_time x) buildNamespace (if_id d)) w of
        (Inl _, w1) \<Rightarrow> w1
      | (Inr pod, w1) \<Rightarrow>
          if pod = '''' then w1
          else (case on_kube (containerStatus (rx_api x) buildNamespace pod ''kaniko'') w1 of
                  (Inr (Some st), w2) \<Rightarrow>
                    if \<not> cn_running st then w2
                    else (case on_kube (deleteJob (rx_api x) buildNamespace jobName) w2 of
                            (Some _, w3) \<Rightarrow> w3
                          | (None, w3) \<Rightarrow>
                              requeue (if_id d) (''kaniko stalled after '' @ rx_show x (rx_now x - if_started d) @ ''; retrying'') w3)
                | (_, w2) \<Rightarrow> w2))"

text \<open>\<open>None\<close> is the panic of slicing a deployment id that is shorter than eight bytes.\<close>
definition reconcile_one :: "'k rec_ext \<Rightarrow> inFlightDeployment \<Rightarrow> 'k world \<Rightarrow> 'k world option" where
  "reconcile_one x d w =
     (if if_status d \<noteq> Building then Some w
      else case buildJobName (if_id d) of
             None \<Rightarrow> None
           | Some jobName \<Rightarrow>
               Some (case on_kube (getJobPhase (rx_api x) buildNamespace jobName) w of
                       (Inl _, w1) \<Rightarrow> w1
                     | (Inr None, w1) \<Rightarrow>
                         if rx_now x - if_started d > missingJobGrace
                         then requeue (if_id d) ''build job missing from cluster; retrying'' w1 else w1
                     | (Inr (Some ph), w1) \<Rightarrow>
                         if jp_succeeded ph \<ge> 1 \<or> jp_failed ph \<ge> 1 \<or> jp_msg ph \<noteq> '''' then w1
                         else if rx_now x - if_started d < stuckKanikoThreshold \<or> jp_active ph < 1 then w1
                         else restart_stuck x d jobName w1))"

fun reconcile_all :: "'k rec_ext \<Rightarrow> inFlightDeployment list \<Rightarrow> 'k world \<Rightarrow> 'k world option" where
  "reconcile_all x [] w = Some w"
| "reconcile_all x (d # ds) w =
     (case reconcile_one x d w of None \<Rightarrow> None | Some w1 \<Rightarrow> reconcile_all x ds w1)"

definition reconciler_tick :: "'k rec_ext \<Rightarrow> 'k world \<Rightarrow> 'k world option" where
  "reconciler_tick x w = reconcile_all x (ListInFlightDeployments (wd w)) w"

section \<open>What a tick changes\<close>

definition old_build :: "'k rec_ext \<Rightarrow> inFlightDeployment \<Rightarrow> bool" where
  "old_build x d \<longleftrightarrow> if_status d = Building \<and> rx_now x - if_started d > missingJobGrace"

lemma on_kube_wd: "on_kube f w = (r, w') \<Longrightarrow> wd w' = wd w"
  by (auto simp: on_kube_def Let_def split: prod.splits)

lemma restart_stuck_db:
  "wd (restart_stuck x d j w) = wd w \<or> (\<exists>e. wd (restart_stuck x d j w) = snd (RequeueDeployment (if_id d) e (wd w)))"
proof -
  obtain q1 w1 where 1: "on_kube (findBuildPod (rx_api x) (rx_time x) buildNamespace (if_id d)) w = (q1, w1)" by fastforce
  obtain q2 w2 where 2: "on_kube (containerStatus (rx_api x) buildNamespace (projr q1) ''kaniko'') w1 = (q2, w2)" by fastforce
  obtain q3 w3 where 3: "on_kube (deleteJob (rx_api x) buildNamespace j) w2 = (q3, w3)" by fastforce
  have "wd w1 = wd w" "wd w2 = wd w" "wd w3 = wd w" using 1 2 3 by (auto dest!: on_kube_wd)
  then show ?thesis using 1 2 3
    by (cases q1) (auto simp: restart_stuck_def requeue_def split: sum.splits option.splits)
qed

lemma reconcile_one_db:
  assumes "reconcile_one x d w = Some w'"
  shows "wd w' = wd w \<or> (old_build x d \<and> (\<exists>e. wd w' = snd (RequeueDeployment (if_id d) e (wd w))))"
proof (cases "if_status d = Building")
  case True
  then obtain j where j: "buildJobName (if_id d) = Some j"
    using assms by (auto simp: reconcile_one_def split: option.splits)
  obtain q w1 where g: "on_kube (getJobPhase (rx_api x) buildNamespace j) w = (q, w1)" by fastforce
  have w1: "wd w1 = wd w" using on_kube_wd[OF g] .
  have late: "\<not> rx_now x - if_started d < stuckKanikoThreshold \<Longrightarrow> rx_now x - if_started d > missingJobGrace"
    by (simp add: stuckKanikoThreshold_def missingJobGrace_def second_def)
  show ?thesis
    using assms True j g w1 late restart_stuck_db[of x d j w1]
    by (auto simp: reconcile_one_def old_build_def requeue_def split: sum.splits option.splits if_splits)
next
  case False
  then show ?thesis using assms by (simp add: reconcile_one_def)
qed

text \<open>Row by row: unchanged, or requeued because of an old build in the list.\<close>
definition unstuck :: "'k rec_ext \<Rightarrow> inFlightDeployment list \<Rightarrow> deployment \<Rightarrow> deployment \<Rightarrow> bool" where
  "unstuck x ds d d' \<longleftrightarrow>
     d' = d \<or> (\<exists>i \<in> set ds. old_build x i \<and> if_id i = d_id d \<and> (\<exists>e. d' = requeue_row (Some e) d))"

lemma requeue_row_twice [simp]: "requeue_row e2 (requeue_row e1 d) = requeue_row e2 d" "d_id (requeue_row e d) = d_id d"
  by (simp_all add: requeue_row_def)

lemma unstuck_trans: "unstuck x as a b \<Longrightarrow> unstuck x bs b c \<Longrightarrow> set as \<union> set bs \<subseteq> set cs \<Longrightarrow> unstuck x cs a c"
  unfolding unstuck_def by (auto) (metis requeue_row_twice subsetD)+

lemma unstuck_requeue:
  "old_build x i \<Longrightarrow> list_all2 (unstuck x [i]) (deployments s) (deployments (snd (RequeueDeployment (if_id i) e s)))"
  by (auto simp: RequeueDeployment_def Let_def upd_where_def list_all2_map2 unstuck_def intro!: list.rel_refl_strong)

lemma reconcile_all_rows:
  "reconcile_all x ds w = Some w' \<Longrightarrow>
     list_all2 (unstuck x ds) (deployments (wd w)) (deployments (wd w'))
     \<and> wd w' = (wd w)\<lparr> deployments := deployments (wd w') \<rparr>"
proof (induction ds arbitrary: w)
  case Nil
  then show ?case by (auto simp: unstuck_def intro!: list.rel_refl_strong)
next
  case (Cons i ds)
  then obtain w1 where one: "reconcile_one x i w = Some w1" and rest: "reconcile_all x ds w1 = Some w'"
    by (auto split: option.splits)
  have "list_all2 (unstuck x [i]) (deployments (wd w)) (deployments (wd w1))
      \<and> wd w1 = (wd w)\<lparr> deployments := deployments (wd w1) \<rparr>"
    using reconcile_one_db[OF one] unstuck_requeue[of x i "wd w"]
    by (auto simp: RequeueDeployment_def Let_def unstuck_def intro!: list.rel_refl_strong)
  moreover have "list_all2 (unstuck x ds) (deployments (wd w1)) (deployments (wd w'))
      \<and> wd w' = (wd w1)\<lparr> deployments := deployments (wd w') \<rparr>" by (rule Cons.IH[OF rest])
  moreover have "unstuck x (i # ds) a c" if "unstuck x [i] a b" "unstuck x ds b c" for a b c
    by (rule unstuck_trans[OF that]) auto
  ultimately show ?case
    using list_all2_trans[of "unstuck x [i]" "unstuck x ds" "unstuck x (i # ds)"]
    by (metis db.update_convs(4) db.surjective)
qed

text \<open>C19: the reconciler only unsticks: a tick leaves every table but the deployments alone, keeps every
  row in place, and changes a row only by putting it back into the queue with a reason, and only when it was
  building and had been for more than ninety seconds; queued, deploying, ready, failed and young
  builds are never touched, whatever the API server answers.\<close>
theorem reconciler_only_unsticks:
  assumes "reconciler_tick x w = Some w'" "deploys_ok (wd w)"
  shows "wd w' = (wd w)\<lparr> deployments := deployments (wd w') \<rparr>
    \<and> list_all2 (\<lambda>d d'. d' = d \<or> (d_status d = Building \<and> rx_now x - started_at d > missingJobGrace
                                  \<and> (\<exists>e. d' = requeue_row (Some e) d)))
        (deployments (wd w)) (deployments (wd w'))"
proof -
  let ?ds = "ListInFlightDeployments (wd w)"
  have rows: "list_all2 (unstuck x ?ds) (deployments (wd w)) (deployments (wd w'))
      \<and> wd w' = (wd w)\<lparr> deployments := deployments (wd w') \<rparr>"
    using assms(1) unfolding reconciler_tick_def by (rule reconcile_all_rows)
  have row: "d_status d = Building \<and> rx_now x - started_at d > missingJobGrace"
    if d: "d \<in> set (deployments (wd w))" and i: "i \<in> set ?ds" "old_build x i" "if_id i = d_id d" for d i
  proof -
    obtain d0 where d0: "d0 \<in> set (deployments (wd w))" "d_id d0 = if_id i" "d_status d0 = if_status i" "started_at d0 = if_started i"
      using i(1) by (auto simp: ListInFlightDeployments_def)
    have "d0 = d" using d0(1,2) d i(3) assms(2) by (metis lookup_dep_unique option.inject)
    then show ?thesis using d0 i(2) by (simp add: old_build_def)
  qed
  have "list_all2 (\<lambda>d d'. d' = d \<or> (d_status d = Building \<and> rx_now x - started_at d > missingJobGrace
                                  \<and> (\<exists>e. d' = requeue_row (Some e) d)))
        (deployments (wd w)) (deployments (wd w'))"
    by (rule list.rel_mono_strong[OF conjunct1[OF rows]]) (auto simp: unstuck_def dest: row)
  then show ?thesis using rows by blast
qed

theorem reconciler_only_unsticks_witness:
  "\<exists>w'. reconciler_tick \<lparr> rx_api = (\<lambda>r s. (Resp 404 '''' None, s)), rx_now = 100 * second, rx_time = (\<lambda>_. 0), rx_show = (\<lambda>_. '''') \<rparr>
       \<lparr> wd = demo_db [demo_dep ''d1-00000'' ''aa'' Building 3, demo_dep ''d2-00000'' ''bb'' Ready 4],
         wk = \<lparr> k_state = (), k_trace = [] \<rparr>, ws = [] \<rparr> = Some w'
     \<and> map d_status (deployments (wd w')) = [Queued, Ready]
     \<and> wd w' = (demo_db [demo_dep ''d1-00000'' ''aa'' Building 3, demo_dep ''d2-00000'' ''bb'' Ready 4])
          \<lparr> deployments := deployments (wd w') \<rparr>"
proof -
  let ?x = "\<lparr> rx_api = (\<lambda>r s. (Resp 404 '''' None, s)), rx_now = 100 * second, rx_time = (\<lambda>_. 0), rx_show = (\<lambda>_. '''') \<rparr> :: unit rec_ext"
  let ?ds = "[demo_dep ''d1-00000'' ''aa'' Building 3, demo_dep ''d2-00000'' ''bb'' Ready 4]"
  let ?w = "\<lparr> wd = demo_db ?ds, wk = \<lparr> k_state = (), k_trace = [] \<rparr>, ws = [] \<rparr> :: unit world"
  have l: "ListInFlightDeployments (demo_db ?ds) = [\<lparr> if_id = ''d1-00000'', if_status = Building, if_started = 3 \<rparr>]"
    by (simp add: ListInFlightDeployments_def demo_defs in_flight_def started_at_def coalesce_def)
  obtain j where j: "buildJobName ''d1-00000'' = Some j" by (simp add: buildJobName_def)
  obtain w' where t: "reconciler_tick ?x ?w = Some w'" and q: "map d_status (deployments (wd w')) = [Queued, Ready]"
    by (simp add: reconciler_tick_def l reconcile_one_def j on_kube_def getJobPhase_def kdo_def missingJobGrace_def
        second_def requeue_def Let_def,
        simp add: RequeueDeployment_def upd_where_def demo_defs in_flight_def requeue_row_def Let_def)
  have "deploys_ok (wd ?w)" by (simp add: deploys_ok_def demo_defs)
  from reconciler_only_unsticks[OF t this] show ?thesis using t q by auto
qed

end
