(* ===== verification/Api.thy ===== *)
theory Api
  imports Builder Github
begin

text \<open>
  The authenticated project and deployment handlers: authorisation (\<open>env_handlers.go\<close>), redeploy, deploy-now,
  project settings, environment variables and promotion (\<open>redeploy_handlers.go\<close>, \<open>deploy_handlers.go\<close>,
  \<open>project_handlers.go\<close>, \<open>promote_handlers.go\<close>).  The state is the database with the Kubernetes and GitHub
  clients.  A request carries the path parameters, the user the middleware attached and the first
  JSON value of its body as read within the handler's size limit.  A reply is a status and, for
  JSON replies, the document.
\<close>

section \<open>State, requests, replies\<close>

record ('k, 'g) srv =
  sv_db :: db
  sv_kube :: "'k kube"
  sv_gh :: "'g github"

record ('k, 'g) srv_ext =
  sx_api :: "'k api"
  sx_gx :: "'g gx"
  sx_b64 :: "string \<Rightarrow> string option"
  sx_enc :: "string \<Rightarrow> string"
  sx_now :: time
  sx_id :: uuid
  sx_random :: "string option"
  sx_txt :: "string \<Rightarrow> string list option"
  sx_stamp :: "time \<Rightarrow> string"

record user_req =
  ur_id :: string
  ur_name :: string
  ur_json :: "json option"
  ur_user :: "sessionUser option"

record http_reply =
  hp_status :: nat
  hp_json :: "json option"

definition err :: "nat \<Rightarrow> http_reply" where "err st = \<lparr> hp_status = st, hp_json = None \<rparr>"

definition reply :: "nat \<Rightarrow> (string \<times> json) list \<Rightarrow> http_reply" where
  "reply st kvs = \<lparr> hp_status = st, hp_json = Some (JObj kvs) \<rparr>"

definition on_db :: "(db \<Rightarrow> 'a \<times> db) \<Rightarrow> ('k, 'g) srv \<Rightarrow> 'a \<times> ('k, 'g) srv" where
  "on_db f w = (let (r, d) = f (sv_db w) in (r, w\<lparr> sv_db := d \<rparr>))"

definition on_k8s :: "('k kube \<Rightarrow> 'a \<times> 'k kube) \<Rightarrow> ('k, 'g) srv \<Rightarrow> 'a \<times> ('k, 'g) srv" where
  "on_k8s f w = (let (r, k) = f (sv_kube w) in (r, w\<lparr> sv_kube := k \<rparr>))"

definition on_gh :: "('g github \<Rightarrow> 'a \<times> 'g github) \<Rightarrow> ('k, 'g) srv \<Rightarrow> 'a \<times> ('k, 'g) srv" where
  "on_gh f w = (let (r, g) = f (sv_gh w) in (r, w\<lparr> sv_gh := g \<rparr>))"

text \<open>The empty scope skips the owner filter of the store.\<close>
definition scope_of :: "sessionUser \<Rightarrow> uuid" where
  "scope_of u = (if su_admin u then '''' else su_id u)"

definition authoriseProject :: "user_req \<Rightarrow> db \<Rightarrow> (nat, projectInfo) result" where
  "authoriseProject r s =
     (if \<not> uuidRE (ur_id r) then Inl 400
      else case ur_user r of
             None \<Rightarrow> Inl 401
           | Some u \<Rightarrow>
               (case uuid_in (ur_id r) of
                  None \<Rightarrow> Inl 500
                | Some k \<Rightarrow>
                    (case GetProjectForOwner s k (scope_of u) of
                       None \<Rightarrow> Inl 404
                     | Some p \<Rightarrow> Inr p)))"

section \<open>Redeploy and deploy now\<close>

definition handleRedeploy :: "('k, 'g) srv_ext \<Rightarrow> user_req \<Rightarrow> ('k, 'g) srv \<Rightarrow> http_reply \<times> ('k, 'g) srv" where
  "handleRedeploy x r w =
     (if \<not> uuidRE (ur_id r) then (err 400, w)
      else case ur_user r of
             None \<Rightarrow> (err 401, w)
           | Some u \<Rightarrow>
               (case uuid_in (ur_id r) of
                  None \<Rightarrow> (err 500, w)
                | Some did \<Rightarrow>
                    (case on_db (EnqueueRedeploy (sx_now x) (sx_id x) did (scope_of u)) w of
                       (Inl _, w1) \<Rightarrow> (err 500, w1)
                     | (Inr (new_id, slug), w1) \<Rightarrow>
                         if new_id = '''' then (err 404, w1)
                         else (reply 201 [(''deployment_id'', JStr new_id), (''status'', JStr ''queued'')], w1))))"

text \<open>The branch and HEAD of deploy-now: on a 404 the default branch is asked for, stored and tried.\<close>
definition resolveHead ::
  "('k, 'g) srv_ext \<Rightarrow> uuid \<Rightarrow> projectDeployTarget \<Rightarrow> ('k, 'g) srv \<Rightarrow> (string \<times> (string, string) result) \<times> ('k, 'g) srv" where
  "resolveHead x pid p w =
     (let b0 = trim_space (dt_branch p); branch = (if b0 = '''' then ''main'' else b0)
      in case on_gh (fetchBranchSHA (sx_gx x) (dt_inst p) (dt_full_name p) branch) w of
           (Inr sha, w1) \<Rightarrow> ((branch, Inr sha), w1)
         | (Inl e, w1) \<Rightarrow>
             if \<not> contains e ''HTTP 404'' then ((branch, Inl e), w1)
             else (case on_gh (fetchRepoDefaultBranch (sx_gx x) (dt_inst p) (dt_full_name p)) w1 of
                     (Inl _, w2) \<Rightarrow> ((branch, Inl e), w2)
                   | (Inr def, w2) \<Rightarrow>
                       if def = branch then ((branch, Inl e), w2)
                       else (let w3 = w2\<lparr> sv_db := UpdateProjectProductionBranch pid def (sv_db w2) \<rparr>;
                                 (q, w4) = on_gh (fetchBranchSHA (sx_gx x) (dt_inst p) (dt_full_name p) def) w3
                             in ((def, q), w4))))"

definition handleDeployNow :: "('k, 'g) srv_ext \<Rightarrow> user_req \<Rightarrow> ('k, 'g) srv \<Rightarrow> http_reply \<times> ('k, 'g) srv" where
  "handleDeployNow x r w =
     (if \<not> uuidRE (ur_id r) then (err 400, w)
      else case ur_user r of
             None \<Rightarrow> (err 401, w)
           | Some u \<Rightarrow>
               (case uuid_in (ur_id r) of
                  None \<Rightarrow> (err 500, w)
                | Some pid \<Rightarrow>
               (case GetProjectForDeploy (sv_db w) pid (scope_of u) of
                  None \<Rightarrow> (err 404, w)
                | Some p \<Rightarrow>
                    (case resolveHead x pid p w of
                       ((_, Inl _), w1) \<Rightarrow> (err 422, w1)
                     | ((branch, Inr sha), w1) \<Rightarrow>
                         (case on_db (EnqueueDeployment (sx_now x) (sx_id x) (dt_inst p) (dt_repo p) sha
                                        (''refs/heads/'' @ branch) '''' ''manual'' no_options) w1 of
                            (Inl _, w2) \<Rightarrow> (err 500, w2)
                          | (Inr None, w2) \<Rightarrow> (err 404, w2)
                          | (Inr (Some res), w2) \<Rightarrow>
                              (reply 201 [(''deployment_id'', JStr (de_deployment res)), (''commit_sha'', JStr sha),
                                          (''branch'', JStr branch), (''status'', JStr ''queued'')], w2))))))"

section \<open>Project settings\<close>

text \<open>The part for \<open>production_branch\<close>, which runs after the display name has been stored.  The updates are keyed with the id of the path, which
  has just been cast to the id of \<open>proj\<close>; the reply repeats it as it was spelled.\<close>
definition patchBranch :: "uuid \<Rightarrow> string option \<Rightarrow> (string \<times> json) list \<Rightarrow> db \<Rightarrow> http_reply \<times> db" where
  "patchBranch pid br resp s =
     (case br of
        None \<Rightarrow> (reply 200 resp, s)
      | Some b \<Rightarrow>
          (let branch = trim_space b
           in if branch = '''' then (err 400, s)
              else if length branch > 255 then (err 400, s)
              else (reply 200 (resp @ [(''production_branch'', JStr branch)]),
                    UpdateProjectProductionBranch pid branch s)))"

definition handlePatchProject :: "user_req \<Rightarrow> db \<Rightarrow> http_reply \<times> db" where
  "handlePatchProject r s =
     (case authoriseProject r s of
        Inl st \<Rightarrow> (err st, s)
      | Inr proj \<Rightarrow>
          (let (dn, ok1) = unmarshal (ur_json r) [''display_name''] (dec_ptr dec_str);
               (br, ok2) = unmarshal (ur_json r) [''production_branch''] (dec_ptr dec_str)
           in if \<not> (ok1 \<and> ok2) then (err 400, s)
              else if dn = None \<and> br = None then (err 400, s)
              else (case dn of
                      None \<Rightarrow> patchBranch (pi_id proj) br [(''id'', JStr (ur_id r))] s
                    | Some n \<Rightarrow>
                        (let name = trim_space n
                         in if length name > 80 then (err 400, s)
                            else patchBranch (pi_id proj) br [(''id'', JStr (ur_id r)), (''display_name'', JStr name)]
                                   (UpdateProjectDisplayName (pi_id proj) name s)))))"

section \<open>Environment variables\<close>

definition envValueMaxBytes :: int where "envValueMaxBytes = 64 * 1024"

definition handleListProjectEnv :: "('k, 'g) srv_ext \<Rightarrow> user_req \<Rightarrow> db \<Rightarrow> http_reply \<times> db" where
  "handleListProjectEnv x r s =
     (case authoriseProject r s of
        Inl st \<Rightarrow> (err st, s)
      | Inr proj \<Rightarrow>
          (reply 200 [(''vars'', JArr (map (\<lambda>v. JObj [(''name'', JStr (ev_name v)), (''value'', JStr (ev_value v)),
                                                       (''updated_at'', JStr (sx_stamp x (ev_updated v)))])
                                        (ListProjectEnv s (pi_id proj))))], s))"

definition handleUpsertProjectEnv :: "('k, 'g) srv_ext \<Rightarrow> user_req \<Rightarrow> db \<Rightarrow> http_reply \<times> db" where
  "handleUpsertProjectEnv x r s =
     (case authoriseProject r s of
        Inl st \<Rightarrow> (err st, s)
      | Inr proj \<Rightarrow>
          if \<not> envNameRE (ur_name r) \<or> length (ur_name r) > 128 then (err 400, s)
          else if ur_name r \<in> set ReservedEnvVarNames then (err 400, s)
          else (let (v, ok) = unmarshal (ur_json r) [''value''] dec_str
                in if \<not> ok then (err 400, s)
                   else if int (length v) > envValueMaxBytes then (err 413, s)
                   else (case UpsertProjectEnv (sx_now x) (pi_id proj) (ur_name r) v s of
                           (Inl _, s1) \<Rightarrow> (err 500, s1)
                         | (Inr t, s1) \<Rightarrow>
                             (reply 200 [(''name'', JStr (ur_name r)), (''value'', JStr v),
                                         (''updated_at'', JStr (sx_stamp x t))], s1))))"

definition handleDeleteProjectEnv :: "user_req \<Rightarrow> db \<Rightarrow> http_reply \<times> db" where
  "handleDeleteProjectEnv r s =
     (case authoriseProject r s of
        Inl st \<Rightarrow> (err st, s)
      | Inr proj \<Rightarrow>
          if \<not> envNameRE (ur_name r) \<or> length (ur_name r) > 128 then (err 400, s)
          else (let (ok, s1) = DeleteProjectEnv (pi_id proj) (ur_name r) s
                in (if ok then err 204 else err 404, s1)))"

section \<open>Promotion\<close>

text \<open>The loop over the verified custom domains: those whose route was applied.\<close>
fun promoteDomains ::
  "'k api \<Rightarrow> string \<Rightarrow> string \<Rightarrow> string \<Rightarrow> string list \<Rightarrow> 'k kube \<Rightarrow> string list \<times> 'k kube" where
  "promoteDomains api ns svc slug [] k = ([], k)"
| "promoteDomains api ns svc slug (h # hs) k =
     (let (e, k1) = applyIngressRoute api ns (customDomainRouteName h)
                      (productionAliasManifest (customDomainRouteName h) ns h svc slug) k;
          (done, k2) = promoteDomains api ns svc slug hs k1
      in (if e = None then h # done else done, k2))"

definition handlePromoteDeployment ::
  "('k, 'g) srv_ext \<Rightarrow> user_req \<Rightarrow> ('k, 'g) srv \<Rightarrow> http_reply \<times> ('k, 'g) srv" where
  "handlePromoteDeployment x r w =
     (if \<not> uuidRE (ur_id r) then (err 400, w)
      else case ur_user r of
             None \<Rightarrow> (err 401, w)
           | Some u \<Rightarrow>
               (case uuid_in (ur_id r) of
                  None \<Rightarrow> (err 500, w)
                | Some did \<Rightarrow>
               (case GetDeploymentForUser (sv_db w) did (scope_of u) of
                  None \<Rightarrow> (err 404, w)
                | Some dep \<Rightarrow>
                    if dr_status dep \<noteq> Ready then (err 400, w)
                    else (let login = GetDeploymentTenantLogin (sv_db w) did (scope_of u)
                          in if login = '''' then (err 400, w)
                             else (let ns = tenantNamespaceFor login;
                                       svc = dr_slug dep @ ''-'' @ short (dr_sha dep);
                                       host = dr_slug dep @ ''.'' @ tenantHostZone;
                                       rt = prod_route (dr_slug dep)
                                   in case on_k8s (applyIngressRoute (sx_api x) ns rt
                                             (productionAliasManifest rt ns host svc (dr_slug dep))) w of
                                        (Some _, w1) \<Rightarrow> (err 500, w1)
                                      | (None, w1) \<Rightarrow>
                                          (let w2 = w1\<lparr> sv_db := snd (SetProductionDeployment (dr_project dep) (dr_id dep) (sv_db w1)) \<rparr>;
                                               (done, w3) = on_k8s (promoteDomains (sx_api x) ns svc (dr_slug dep)
                                                              (ListVerifiedDomainsForProject (sv_db w2) (dr_project dep))) w2
                                           in (reply 200 ([(''deployment_id'', JStr (dr_id dep)), (''project_id'', JStr (dr_project dep)),
                                                 (''slug'', JStr (dr_slug dep)), (''commit_sha'', JStr (dr_sha dep)),
                                                 (''host'', JStr host), (''url'', JStr (''https://'' @ host))]
                                                 @ (if done = [] then [] else [(''custom_domains'', JArr (map JStr done))])), w3)))))))"

end
