(* ===== verification/Api_Domains.thy ===== *)
theory Api_Domains
  imports Api
begin

text \<open>
  Custom domains (\<open>domain_handlers.go\<close>): registration with a verification token, DNS verification, publishing of
  the route in the tenant namespace, removal.  The resolver is the parameter \<open>sx_txt\<close> (\<open>None\<close> is a failed look-up).
\<close>

section \<open>Replies\<close>

definition dtoForDomain :: "(time \<Rightarrow> string) \<Rightarrow> domain \<Rightarrow> (string \<times> json) list" where
  "dtoForDomain stamp d =
     [(''hostname'', JStr (dm_host d)), (''verification_token'', JStr (dm_token d)),
      (''verified'', JBool (dm_verified d \<noteq> None)), (''created_at'', JStr (stamp (dm_created d)))]
     @ (case dm_verified d of None \<Rightarrow> [] | Some t \<Rightarrow> [(''verified_at'', JStr (stamp t))])
     @ [(''verify_name'', JStr (''_paas-verify.'' @ dm_host d)), (''verify_value'', JStr (dm_token d)),
        (''cname_target'', JStr tunnelTarget)]"

section \<open>Routes\<close>

text \<open>The commit of the first ready row among the five newest deployments.\<close>
definition publish_target :: "db \<Rightarrow> uuid \<Rightarrow> string" where
  "publish_target s pid =
     (case find (\<lambda>d. dr_status d = Ready) (ListDeploymentsForProjects s [pid] 5 pid) of
        None \<Rightarrow> '''' | Some d \<Rightarrow> dr_sha d)"

definition publishDomainRoute :: "'k api \<Rightarrow> db \<Rightarrow> projectInfo \<Rightarrow> string \<Rightarrow> 'k kcmd" where
  "publishDomainRoute api s proj host k =
     (if pi_login proj = '''' then (Some ''project has no tenant namespace yet'', k)
      else (let sha = publish_target s (pi_id proj)
            in if sha = '''' then (Some ''no READY deployment to route to yet'', k)
               else (let ns = tenantNamespaceFor (pi_login proj); rt = customDomainRouteName host
                     in applyIngressRoute api ns rt
                          (productionAliasManifest rt ns host (pi_slug proj @ ''-'' @ short sha) (pi_slug proj)) k)))"

definition deleteDomainRoute :: "'k api \<Rightarrow> projectInfo \<Rightarrow> string \<Rightarrow> 'k kcmd" where
  "deleteDomainRoute api proj host k =
     (if pi_login proj = '''' then (None, k)
      else deleteIngressRoute api (tenantNamespaceFor (pi_login proj)) (customDomainRouteName host) k)"

text \<open>Whether a record matches, and what was seen.\<close>
definition checkVerificationTXT :: "(string \<Rightarrow> string list option) \<Rightarrow> string \<Rightarrow> string \<Rightarrow> bool \<times> string list" where
  "checkVerificationTXT txt host expected =
     (case txt (''_paas-verify.'' @ host) of
        None \<Rightarrow> (False, [])
      | Some rs \<Rightarrow> (\<exists>r \<in> set rs. trim_space r = expected, rs))"

section \<open>Handlers\<close>

definition handleListProjectDomains :: "('k, 'g) srv_ext \<Rightarrow> user_req \<Rightarrow> db \<Rightarrow> http_reply \<times> db" where
  "handleListProjectDomains x r s =
     (case authoriseProject r s of
        Inl st \<Rightarrow> (err st, s)
      | Inr proj \<Rightarrow>
          (reply 200 [(''domains'', JArr (map (JObj \<circ> dtoForDomain (sx_stamp x)) (ListProjectDomains s (pi_id proj)))),
                      (''cname_target'', JStr tunnelTarget)], s))"

definition platform_host :: "string \<Rightarrow> bool" where
  "platform_host host \<longleftrightarrow>
     host \<in> set reservedHostnames \<or> suffix (''.'' @ tenantHostZone) host \<or> host = tenantHostZone"

definition handleAddProjectDomain :: "('k, 'g) srv_ext \<Rightarrow> user_req \<Rightarrow> db \<Rightarrow> http_reply \<times> db" where
  "handleAddProjectDomain x r s =
     (case authoriseProject r s of
        Inl st \<Rightarrow> (err st, s)
      | Inr proj \<Rightarrow>
          (let (h, ok) = unmarshal (ur_json r) [''hostname''] dec_str; host = normaliseHostname h
           in if \<not> ok then (err 400, s)
              else if \<not> hostnameRE host then (err 400, s)
              else if platform_host host then (err 400, s)
              else (case AddProjectDomain (sx_now x) (sx_random x) (pi_id proj) host s of
                      (Inl Domain_already_exists, s1) \<Rightarrow> (err 409, s1)
                    | (Inl _, s1) \<Rightarrow> (err 500, s1)
                    | (Inr d, s1) \<Rightarrow> (reply 201 (dtoForDomain (sx_stamp x) d), s1))))"

definition handleVerifyProjectDomain ::
  "('k, 'g) srv_ext \<Rightarrow> user_req \<Rightarrow> ('k, 'g) srv \<Rightarrow> http_reply \<times> ('k, 'g) srv" where
  "handleVerifyProjectDomain x r w =
     (case authoriseProject r (sv_db w) of
        Inl st \<Rightarrow> (err st, w)
      | Inr proj \<Rightarrow>
          (let host = normaliseHostname (ur_name r)
           in case GetProjectDomain (sv_db w) (pi_id proj) host of
                None \<Rightarrow> (err 404, w)
              | Some d \<Rightarrow>
                  if dm_verified d \<noteq> None
                  then (reply 200 (dtoForDomain (sx_stamp x) d),
                        snd (on_k8s (publishDomainRoute (sx_api x) (sv_db w) proj host) w))
                  else (let (ok, found) = checkVerificationTXT (sx_txt x) host (dm_token d)
                        in if \<not> ok
                           then (reply 400 [(''verified'', JBool False), (''hostname'', JStr host),
                                   (''verify_name'', JStr (''_paas-verify.'' @ host)), (''verify_value'', JStr (dm_token d)),
                                   (''hint'', JStr (''TXT record not found or doesn'' @ [CHR 0x27] @ ''t match. DNS can take a few minutes to propagate.'')),
                                   (''found'', JArr (map JStr found))], w)
                           else (let w1 = w\<lparr> sv_db := snd (MarkDomainVerified (sx_now x) (pi_id proj) host (sv_db w)) \<rparr>;
                                     w2 = snd (on_k8s (publishDomainRoute (sx_api x) (sv_db w1) proj host) w1)
                                 in (case GetProjectDomain (sv_db w2) (pi_id proj) host of
                                       Some u \<Rightarrow> reply 200 (dtoForDomain (sx_stamp x) u)
                                     | None \<Rightarrow> reply 200 [(''verified'', JBool True), (''hostname'', JStr host)], w2)))))"

text \<open>The route is torn down before the row is looked for.\<close>
definition handleDeleteProjectDomain ::
  "('k, 'g) srv_ext \<Rightarrow> user_req \<Rightarrow> ('k, 'g) srv \<Rightarrow> http_reply \<times> ('k, 'g) srv" where
  "handleDeleteProjectDomain x r w =
     (case authoriseProject r (sv_db w) of
        Inl st \<Rightarrow> (err st, w)
      | Inr proj \<Rightarrow>
          (let host = normaliseHostname (ur_name r)
           in if host = '''' then (err 400, w)
              else (let w1 = snd (on_k8s (deleteDomainRoute (sx_api x) proj host) w);
                        (deleted, w2) = on_db (DeleteProjectDomain (pi_id proj) host) w1
                    in (if deleted then err 204 else err 404, w2))))"

end
