(* ===== verification/Api_Projects.thy ===== *)
theory Api_Projects
  imports Api_Domains
begin

text \<open>
  Start and stop (\<open>scale_handlers.go\<close>), deletion of a project with the tear-down of its cluster objects
  (\<open>project_delete.go\<close>) and the table of authenticated routes of \<open>main.go\<close> that work on one project or
  deployment.
\<close>

section \<open>Scale\<close>

record scaleState =
  sl_replicas :: int
  sl_ready :: int
  sl_deployments :: nat

definition scale_reply :: "projectInfo \<Rightarrow> scaleState \<Rightarrow> http_reply" where
  "scale_reply proj st = reply 200
     [(''project_id'', JStr (pi_id proj)), (''slug'', JStr (pi_slug proj)), (''running'', JBool (sl_ready st > 0)),
      (''replicas'', JInt (sl_replicas st)), (''ready'', JInt (sl_ready st)), (''deployments'', JInt (int (sl_deployments st)))]"

definition project_selector :: "string \<Rightarrow> string" where "project_selector slug = ''paas.project='' @ slug"

fun sum_scales :: "'k api \<Rightarrow> string \<Rightarrow> string list \<Rightarrow> int \<times> int \<Rightarrow> 'k kube \<Rightarrow> (string, int \<times> int) result \<times> 'k kube" where
  "sum_scales api ns [] acc k = (Inr acc, k)"
| "sum_scales api ns (n # nms) acc k =
     (case getDeploymentScale api ns n k of
        (Inl e, k1) \<Rightarrow> (Inl (''get '' @ ns @ ''/'' @ n @ '' scale: '' @ e), k1)
      | (Inr None, k1) \<Rightarrow> sum_scales api ns nms acc k1
      | (Inr (Some sc), k1) \<Rightarrow> sum_scales api ns nms (fst acc + sc_desired sc, snd acc + sc_ready sc) k1)"

definition readProjectScale :: "'k api \<Rightarrow> projectInfo \<Rightarrow> 'k kube \<Rightarrow> (string, scaleState) result \<times> 'k kube" where
  "readProjectScale api proj k =
     (if pi_login proj = '''' then (Inr \<lparr> sl_replicas = 0, sl_ready = 0, sl_deployments = 0 \<rparr>, k)
      else (let ns = tenantNamespaceFor (pi_login proj)
            in case listDeployments api ns (project_selector (pi_slug proj)) k of
                 (Inl e, k1) \<Rightarrow> (Inl (wrap_err ''list deployments'' e), k1)
               | (Inr nms, k1) \<Rightarrow>
                   (case sum_scales api ns nms (0, 0) k1 of
                      (Inl e, k2) \<Rightarrow> (Inl e, k2)
                    | (Inr (a, b), k2) \<Rightarrow>
                        (Inr \<lparr> sl_replicas = a, sl_ready = b, sl_deployments = length nms \<rparr>, k2))))"

definition handleProjectStatus :: "('k, 'g) srv_ext \<Rightarrow> user_req \<Rightarrow> ('k, 'g) srv \<Rightarrow> http_reply \<times> ('k, 'g) srv" where
  "handleProjectStatus x r w =
     (case authoriseProject r (sv_db w) of
        Inl st \<Rightarrow> (err st, w)
      | Inr proj \<Rightarrow>
          (case on_k8s (readProjectScale (sx_api x) proj) w of
             (Inl _, w1) \<Rightarrow> (err 500, w1)
           | (Inr st, w1) \<Rightarrow> (scale_reply proj st, w1)))"

text \<open>The goroutines of \<open>fanoutScale\<close> run here one after the other, in list order: each sends one PUT for a
  different Deployment, and the errors are collected.\<close>
fun fanoutScale :: "'k api \<Rightarrow> string \<Rightarrow> string list \<Rightarrow> int \<Rightarrow> 'k kube \<Rightarrow> string list \<times> 'k kube" where
  "fanoutScale api ns [] replicas k = ([], k)"
| "fanoutScale api ns (n # nms) replicas k =
     (let (e, k1) = patchDeploymentScale api ns n replicas k;
          (es, k2) = fanoutScale api ns nms replicas k1
      in (case e of None \<Rightarrow> es | Some m \<Rightarrow> (n @ '': '' @ m) # es, k2))"

definition scale_action :: "string \<Rightarrow> int option" where
  "scale_action a = (if a = ''start'' then Some 1 else if a = ''stop'' then Some 0 else None)"

definition handleProjectScale :: "('k, 'g) srv_ext \<Rightarrow> user_req \<Rightarrow> ('k, 'g) srv \<Rightarrow> http_reply \<times> ('k, 'g) srv" where
  "handleProjectScale x r w =
     (case authoriseProject r (sv_db w) of
        Inl st \<Rightarrow> (err st, w)
      | Inr proj \<Rightarrow>
          (let (act, ok) = unmarshal (ur_json r) [''action''] dec_str
           in if \<not> ok then (err 400, w)
              else case scale_action act of
                     None \<Rightarrow> (err 400, w)
                   | Some replicas \<Rightarrow>
                       if pi_login proj = '''' then (err 400, w)
                       else (let ns = tenantNamespaceFor (pi_login proj)
                             in case on_k8s (listDeployments (sx_api x) ns (project_selector (pi_slug proj))) w of
                                  (Inl _, w1) \<Rightarrow> (err 500, w1)
                                | (Inr nms, w1) \<Rightarrow>
                                    if nms = [] then (err 400, w1)
                                    else (case on_k8s (fanoutScale (sx_api x) ns nms replicas) w1 of
                                            (_ # _, w2) \<Rightarrow> (err 500, w2)
                                          | ([], w2) \<Rightarrow>
                                              (case on_k8s (readProjectScale (sx_api x) proj) w2 of
                                                 (Inl _, w3) \<Rightarrow>
                                                   (scale_reply proj \<lparr> sl_replicas = replicas * int (length nms), sl_ready = 0,
                                                                       sl_deployments = length nms \<rparr>, w3)
                                               | (Inr st, w3) \<Rightarrow> (scale_reply proj st, w3))))))"

section \<open>Deletion\<close>

text \<open>A list of commands whose errors become warnings.\<close>
fun collect :: "'k kcmd list \<Rightarrow> 'k kube \<Rightarrow> string list \<times> 'k kube" where
  "collect [] k = ([], k)"
| "collect (c # cs) k =
     (let (e, k1) = c k; (warns, k2) = collect cs k1
      in (case e of None \<Rightarrow> warns | Some m \<Rightarrow> m # warns, k2))"

definition tenant_teardown :: "'k api \<Rightarrow> projectDeleteMeta \<Rightarrow> 'k kcmd list" where
  "tenant_teardown api m =
     (if pm_login m = '''' then []
      else (let ns = tenantNamespaceFor (pm_login m); sel = project_selector (pm_slug m)
            in [deleteAllByLabel api ns ''apis/apps/v1'' ''deployments'' sel,
                deleteAllByLabel api ns ''api/v1'' ''services'' sel,
                deleteAllByLabel api ns ''apis/traefik.io/v1alpha1'' ''ingressroutes'' sel,
                deleteAllByLabel api ns ''api/v1'' ''secrets'' sel,
                deleteSecret api ns (''paas-env-'' @ pm_slug m),
                deleteSecret api ns (''paas-db-'' @ Idents.truncate (pm_slug m) 50)]))"

text \<open>\<open>None\<close> is the panic of \<open>buildJobName\<close> on an id of fewer than eight bytes.\<close>
definition teardownProjectResources :: "'k api \<Rightarrow> db \<Rightarrow> projectDeleteMeta \<Rightarrow> 'k kube \<Rightarrow> string list option \<times> 'k kube" where
  "teardownProjectResources api s m k =
     (let jobs = map buildJobName (ListDeploymentIDsForProject s (pm_id m));
          (warns, k1) = collect (tenant_teardown api m
             @ [deleteAllByLabel api buildNamespace ''apis/batch/v1'' ''jobs'' (project_selector (pm_slug m))]
             @ map (\<lambda>j. deleteSecret api buildNamespace (the j @ ''-git'')) (takeWhile (\<lambda>j. j \<noteq> None) jobs)) k
      in if None \<in> set jobs then (None, k1)
         else (Some (warns @ map (\<lambda>h. ''Custom domain '' @ quoted h
                     @ '' may still route via cloudflared '' @ em_dash @ '' remove from tunnel config and DNS if no longer needed'')
                 (ListVerifiedDomainsForProject s (pm_id m))), k1))"

definition deleteScope :: "user_req \<Rightarrow> uuid" where
  "deleteScope r = (case ur_user r of None \<Rightarrow> '''' | Some u \<Rightarrow> scope_of u)"

definition handleDeleteProject :: "('k, 'g) srv_ext \<Rightarrow> user_req \<Rightarrow> ('k, 'g) srv \<Rightarrow> http_reply option \<times> ('k, 'g) srv" where
  "handleDeleteProject x r w =
     (case authoriseProject r (sv_db w) of
        Inl st \<Rightarrow> (Some (err st), w)
      | Inr proj \<Rightarrow>
          (case GetProjectDeleteMeta (sv_db w) (pi_id proj) (deleteScope r) of
             None \<Rightarrow> (Some (err 404), w)
           | Some m \<Rightarrow>
               (case on_k8s (teardownProjectResources (sx_api x) (sv_db w) m) w of
                  (None, w1) \<Rightarrow> (None, w1)
                | (Some warns, w1) \<Rightarrow>
                    (let (deleted, w2) = on_db (DeleteProject (pm_id m)) w1
                     in (Some (if deleted
                               then reply 200 [(''deleted'', JBool True), (''slug'', JStr (pm_slug m)),
                                               (''warnings'', JArr (map JStr warns))]
                               else err 404), w2)))))"

end
