(* ===== verification/Api_Databases.thy ===== *)
theory Api_Databases
  imports Api
begin

text \<open>
  Per-project databases: the provisioner that sends DDL to PostgreSQL as the superuser (\<open>db_provisioner.go\<close>) and the
  handlers (\<open>database_handlers.go\<close>).  The server is code outside the repository: connecting, the two EXISTS
  queries and the execution of a statement are parameters over its state, and every statement executed is recorded.  So are
  parsing and printing of URLs.
\<close>

section \<open>Connection strings\<close>

definition userEscape :: "string \<Rightarrow> string" where
  "userEscape s = concat (map (\<lambda>c. if unreserved c \<or> c \<in> set ''$&+,;='' then [c] else percent c) s)"

definition urlPathEscape :: "string \<Rightarrow> string" where
  "urlPathEscape s = concat (map (\<lambda>c. if unreserved c \<or> c \<in> set ''$&+,/:;=@'' then [c] else percent c) s)"

definition buildDSN :: "string \<Rightarrow> int \<Rightarrow> string \<Rightarrow> string \<Rightarrow> string \<Rightarrow> string" where
  "buildDSN host port user password dbName =
     ''postgres://'' @ userEscape user @ '':'' @ userEscape password @ ''@'' @ host @ '':'' @ show_int port
       @ urlPathEscape (''/'' @ dbName) @ ''?sslmode=require''"

record url =
  url_rest :: string
  url_path :: string
  url_query :: "(string \<times> string) list"

definition normalizeAdminURI :: "(string \<Rightarrow> (string, url) result) \<Rightarrow> (url \<Rightarrow> string) \<Rightarrow> string \<Rightarrow> (string, string) result" where
  "normalizeAdminURI parse print uri =
     (case parse uri of
        Inl e \<Rightarrow> Inl e
      | Inr u \<Rightarrow>
          (let u1 = (if url_path u \<in> {'''', ''/'', ''/*''} then u\<lparr> url_path := ''/postgres'' \<rparr> else u);
               v = coalesce (map_of (url_query u) ''dbname'') '''';
               u2 = (if v = '''' \<or> v = ''*'' then u1\<lparr> url_query := filter (\<lambda>(k, _). k \<noteq> ''dbname'') (url_query u1) \<rparr> else u1)
           in Inr (print u2)))"

section \<open>Provisioning\<close>

record 'p pg =
  pg_state :: 'p
  pg_trace :: "string list"

record 'p pg_ext =
  px_parse :: "string \<Rightarrow> (string, url) result"
  px_print :: "url \<Rightarrow> string"
  px_connect :: "string \<Rightarrow> string option"
  px_has_role :: "string \<Rightarrow> 'p \<Rightarrow> (string, bool) result"
  px_has_db :: "string \<Rightarrow> 'p \<Rightarrow> (string, bool) result"
  px_exec :: "string \<Rightarrow> 'p \<Rightarrow> string option \<times> 'p"
  px_b64url :: "string \<Rightarrow> string"

definition pg_exec :: "'p pg_ext \<Rightarrow> string \<Rightarrow> 'p pg \<Rightarrow> string option \<times> 'p pg" where
  "pg_exec x q s =
     (let (e, st) = px_exec x q (pg_state s) in (e, \<lparr> pg_state = st, pg_trace = pg_trace s @ [q] \<rparr>))"

fun pg_execs :: "'p pg_ext \<Rightarrow> string \<Rightarrow> string list \<Rightarrow> 'p pg \<Rightarrow> string option \<times> 'p pg" where
  "pg_execs x what [] s = (None, s)"
| "pg_execs x what (q # qs) s =
     (case pg_exec x q s of (Some e, s1) \<Rightarrow> (Some (wrap_err what e), s1) | (None, s1) \<Rightarrow> pg_execs x what qs s1)"

definition create_role_ddl :: "string \<Rightarrow> string \<Rightarrow> string" where
  "create_role_ddl role pw = ''CREATE ROLE '' @ quoteIdent role @ '' WITH LOGIN PASSWORD '' @ sqlSingleQuote pw
     @ '' NOSUPERUSER NOCREATEDB NOCREATEROLE INHERIT''"

definition alter_role_ddl :: "string \<Rightarrow> string \<Rightarrow> string" where
  "alter_role_ddl role pw = ''ALTER ROLE '' @ quoteIdent role @ '' WITH PASSWORD '' @ sqlSingleQuote pw"

definition create_db_ddl :: "string \<Rightarrow> string \<Rightarrow> string" where
  "create_db_ddl d role = ''CREATE DATABASE '' @ quoteIdent d @ '' OWNER '' @ quoteIdent role"

definition lock_down_ddl :: "string \<Rightarrow> string \<Rightarrow> string list" where
  "lock_down_ddl d role = [''REVOKE ALL ON DATABASE '' @ quoteIdent d @ '' FROM PUBLIC'',
     ''GRANT ALL ON DATABASE '' @ quoteIdent d @ '' TO '' @ quoteIdent role]"

definition ident_error_text :: "ident_error \<Rightarrow> string" where
  "ident_error_text e = (case e of Ident_length n \<Rightarrow> ''invalid length '' @ show_nat n
     | Ident_leading_digit \<Rightarrow> ''must not start with a digit'' | Ident_bad_char c \<Rightarrow> ''disallowed character '' @ [c])"

definition Provision :: "'p pg_ext \<Rightarrow> string \<Rightarrow> string \<Rightarrow> string \<Rightarrow> string \<Rightarrow> 'p pg \<Rightarrow> string option \<times> 'p pg" where
  "Provision x superURI roleName dbName password s =
     (case validateIdent roleName of
        Some e \<Rightarrow> (Some (wrap_err ''role name'' (ident_error_text e)), s)
      | None \<Rightarrow>
     (case validateIdent dbName of
        Some e \<Rightarrow> (Some (wrap_err ''db name'' (ident_error_text e)), s)
      | None \<Rightarrow>
     (case normalizeAdminURI (px_parse x) (px_print x) superURI of
        Inl e \<Rightarrow> (Some (wrap_err ''normalize superuser uri'' e), s)
      | Inr adminURI \<Rightarrow>
     (case px_connect x adminURI of
        Some e \<Rightarrow> (Some (wrap_err ''connect superuser'' e), s)
      | None \<Rightarrow>
     (case px_has_role x roleName (pg_state s) of
        Inl e \<Rightarrow> (Some (wrap_err ''check role'' e), s)
      | Inr role_exists \<Rightarrow>
     (case pg_exec x (if role_exists then alter_role_ddl roleName password else create_role_ddl roleName password) s of
        (Some e, s1) \<Rightarrow> (Some (wrap_err (if role_exists then ''alter role password'' else ''create role'') e), s1)
      | (None, s1) \<Rightarrow>
     (case px_has_db x dbName (pg_state s1) of
        Inl e \<Rightarrow> (Some (wrap_err ''check database'' e), s1)
      | Inr db_exists \<Rightarrow>
     (case (if db_exists then (None, s1) else pg_exec x (create_db_ddl dbName roleName) s1) of
        (Some e, s2) \<Rightarrow> (Some (wrap_err ''create database'' e), s2)
      | (None, s2) \<Rightarrow> pg_execs x ''lock down db'' (lock_down_ddl dbName roleName) s2))))))))"

section \<open>Handlers\<close>

definition writeDBResponse :: "project_db \<Rightarrow> bool \<Rightarrow> http_reply" where
  "writeDBResponse pd created =
     reply (if created then 201 else 200)
       [(''database'', JObj [(''host'', JStr (pd_host pd)), (''port'', JInt (pd_port pd)), (''db_name'', JStr (pd_name pd)),
          (''role_name'', JStr (pd_role pd)), (''password'', JStr (pd_password pd)),
          (''uri'', JStr (buildDSN (pd_host pd) (pd_port pd) (pd_role pd) (pd_password pd) (pd_name pd))),
          (''secret_name'', JStr (pd_secret pd)), (''env_var_name'', JStr ''DATABASE_URL'')])]"

definition applyDBSecret :: "('k, 'g) srv_ext \<Rightarrow> string \<Rightarrow> project_db \<Rightarrow> 'k kcmd" where
  "applyDBSecret x login pd k =
     (case ensureTenant (sx_api x) (sx_b64 x) (sx_enc x) login k of
        (Inl e, k1) \<Rightarrow> (Some e, k1)
      | (Inr ns, k1) \<Rightarrow>
          applySecret (sx_api x) ns (pd_secret pd)
            [(''DATABASE_URL'', buildDSN (pd_host pd) (pd_port pd) (pd_role pd) (pd_password pd) (pd_name pd))]
            [(''app.kubernetes.io/managed-by'', ''control-plane''), (''paas.kind'', ''tenant-db'')] k1)"

text \<open>Unpadded base64url of random bytes (\<open>None\<close>: the random source failed).\<close>
definition genPassword :: "(string \<Rightarrow> string) \<Rightarrow> string option \<Rightarrow> string option" where
  "genPassword enc random = map_option enc random"

text \<open>The names are made from the id as the path spells it, the row refers to the value it casts to.\<close>
definition new_project_db :: "uuid \<Rightarrow> uuid \<Rightarrow> string \<Rightarrow> string \<Rightarrow> string \<Rightarrow> project_db" where
  "new_project_db row_id pid id_text slug pw =
     \<lparr> pd_id = row_id, pd_project = pid, pd_name = ''app_'' @ shortID id_text, pd_role = ''u_'' @ shortID id_text,
       pd_password = pw, pd_host = ''paas-db-rw.paas-system.svc.cluster.local'', pd_port = 5432,
       pd_secret = ''paas-db-'' @ Idents.truncate slug 50 \<rparr>"

definition handleCreateProjectDatabase ::
  "('k, 'g) srv_ext \<Rightarrow> 'p pg_ext \<Rightarrow> string \<Rightarrow> user_req \<Rightarrow> ('k, 'g) srv \<times> 'p pg \<Rightarrow> http_reply \<times> ('k, 'g) srv \<times> 'p pg" where
  "handleCreateProjectDatabase x px superURI r wp =
     (let w = fst wp; s = snd wp
      in case authoriseProject r (sv_db w) of
           Inl st \<Rightarrow> (err st, w, s)
         | Inr proj \<Rightarrow>
             if pi_login proj = '''' then (err 400, w, s)
             else (case GetProjectDatabaseForOwner (sv_db w) (pi_id proj) (coalesce (map_option scope_of (ur_user r)) '''') of
                     Some pd \<Rightarrow>
                       (case on_k8s (applyDBSecret x (pi_login proj) pd) w of
                          (Some _, w1) \<Rightarrow> (err 500, w1, s)
                        | (None, w1) \<Rightarrow> (writeDBResponse pd False, w1, s))
                   | None \<Rightarrow>
                       if trim_space superURI = '''' then (err 503, w, s)
                       else (case genPassword (px_b64url px) (sx_random x) of
                               None \<Rightarrow> (err 500, w, s)
                             | Some pw \<Rightarrow>
                                 (let pd = new_project_db (sx_id x) (pi_id proj) (ur_id r) (pi_slug proj) pw
                                  in case Provision px (trim_space superURI) (pd_role pd) (pd_name pd) (pd_password pd) s of
                                       (Some _, s1) \<Rightarrow> (err 500, w, s1)
                                     | (None, s1) \<Rightarrow>
                                         (case on_k8s (applyDBSecret x (pi_login proj) pd) w of
                                            (Some _, w1) \<Rightarrow> (err 500, w1, s1)
                                          | (None, w1) \<Rightarrow>
                                              (case on_db (CreateProjectDatabase pd) w1 of
                                                 (Inl _, w2) \<Rightarrow> (err 500, w2, s1)
                                               | (Inr _, w2) \<Rightarrow> (writeDBResponse pd True, w2, s1)))))))"

definition handleGetProjectDatabase :: "user_req \<Rightarrow> db \<Rightarrow> http_reply \<times> db" where
  "handleGetProjectDatabase r s =
     (case authoriseProject r s of
        Inl st \<Rightarrow> (err st, s)
      | Inr proj \<Rightarrow>
          (case GetProjectDatabaseForOwner s (pi_id proj) (coalesce (map_option scope_of (ur_user r)) '''') of
             None \<Rightarrow> (reply 200 [(''database'', JNull)], s)
           | Some pd \<Rightarrow> (writeDBResponse pd False, s)))"

end
