(* ===== verification/Auth.thy ===== *)
theory Auth
  imports Store_Invariant Github
begin

text \<open>
  Sign-in with GitHub and sessions (\<open>auth.go\<close>): the allowlist, signed OAuth states, the login, callback and
  logout handlers and the session middleware.  Parameters (\<open>auth_ext\<close>): the configuration, HMAC-SHA256, random
  bytes, base64, GitHub's token and user endpoints, the clock.  A reply is its status, the location
  of a redirect and the cookies set; the bodies are not kept.
\<close>

section \<open>Configuration and allowlist\<close>

record authConfig =
  ac_client :: string
  ac_client_secret :: string
  ac_session_secret :: string
  ac_base :: string
  ac_allowed :: "string set"

definition list_sep :: "char \<Rightarrow> bool" where
  "list_sep c \<longleftrightarrow> c \<in> {CHR '','', CHR '' '', CHR 0x0A, CHR 0x0D, CHR 0x09, CHR '';''}"

definition parseAllowlist :: "string \<Rightarrow> string set" where
  "parseAllowlist raw =
     set (filter (\<lambda>f. f \<noteq> '''') (map (to_lower \<circ> trim_space) (fields_func list_sep raw)))"

definition loginAllowed :: "string set \<Rightarrow> string \<Rightarrow> bool" where
  "loginAllowed allowed login = (if allowed = {} then True else to_lower (trim_space login) \<in> allowed)"

text \<open>The environment is a function; base64 is a parameter.\<close>
definition loadAuthConfig :: "(string \<Rightarrow> string option) \<Rightarrow> (string \<Rightarrow> string) \<Rightarrow> (string, authConfig) result" where
  "loadAuthConfig b64 env =
     (let cid = trim_space (env ''GITHUB_APP_CLIENT_ID''); cs = trim_space (env ''GITHUB_APP_CLIENT_SECRET'');
          ss = trim_space (env ''SESSION_SECRET''); base0 = trim_space (env ''DASHBOARD_BASE_URL'');
          base = (if base0 = '''' then ''https://spinup.in'' else base0)
      in if cid = '''' \<or> cs = '''' \<or> ss = ''''
         then Inl ''auth requires GITHUB_APP_CLIENT_ID, GITHUB_APP_CLIENT_SECRET, SESSION_SECRET''
         else (let raw = (case b64 ss of None \<Rightarrow> ss | Some r \<Rightarrow> if length r < 32 then ss else r)
               in if length raw < 32
                  then Inl (''SESSION_SECRET must be at least 32 bytes (got '' @ show_nat (length raw) @ '')'')
                  else Inr \<lparr> ac_client = cid, ac_client_secret = cs, ac_session_secret = raw,
                             ac_base = trim_right (\<lambda>c. c = CHR ''/'') base,
                             ac_allowed = parseAllowlist (env ''ALLOWED_GH_LOGINS'') \<rparr>))"

section \<open>Tokens and states\<close>

type_synonym mac = "string \<Rightarrow> string \<Rightarrow> string"

definition hashSessionToken :: "mac \<Rightarrow> string \<Rightarrow> string \<Rightarrow> string" where
  "hashSessionToken mac secret token = mac secret token"

text \<open>\<open>None\<close> is a failing random source; times are nanoseconds, the payload holds seconds.\<close>
definition signState :: "mac \<Rightarrow> string \<Rightarrow> string option \<Rightarrow> time \<Rightarrow> time \<Rightarrow> string option" where
  "signState mac secret nonce now ttl =
     map_option (\<lambda>n. let payload = hex_encode n @ ''.'' @ show_int ((now + ttl) div second)
                      in payload @ ''.'' @ hex_encode (mac secret payload)) nonce"

text \<open>\<open>fmt.Sscan\<close> into an \<open>int64\<close>: blanks, a sign and the leading decimal digits; the base prefixes and
  underscores it also accepts are left out.\<close>
definition sscan_int :: "string \<Rightarrow> int option" where
  "sscan_int s =
     (case trim_left is_space s of
        [] \<Rightarrow> None
      | c # cs \<Rightarrow> if c \<in> {CHR ''-'', CHR ''+''} then atoi (c # takeWhile is_digit cs)
                  else atoi (takeWhile is_digit (c # cs)))"

definition verifyState :: "mac \<Rightarrow> string \<Rightarrow> time \<Rightarrow> string \<Rightarrow> string option" where
  "verifyState mac secret now raw =
     (case split_on (CHR ''.'') raw of
        [p0, p1, p2] \<Rightarrow>
          (case hex_decode p2 of
             None \<Rightarrow> Some ''encoding/hex''
           | Some want \<Rightarrow>
               if want \<noteq> mac secret (p0 @ ''.'' @ p1) then Some ''state signature mismatch''
               else (case sscan_int p1 of
                       None \<Rightarrow> Some ''malformed state expiry''
                     | Some expiry \<Rightarrow> if now div second > expiry then Some ''state expired'' else None))
      | _ \<Rightarrow> Some ''malformed state'')"

definition clientIP :: "string \<Rightarrow> string \<Rightarrow> string" where
  "clientIP forwarded remote =
     (if forwarded \<noteq> ''''
      then (case index_byte forwarded (CHR '','') of
              Some i \<Rightarrow> if i > 0 then trim_space (take i forwarded) else trim_space forwarded
            | None \<Rightarrow> trim_space forwarded)
      else (case last_index_byte remote (CHR '':'') of
              Some i \<Rightarrow> if i > 0 then take i remote else remote
            | None \<Rightarrow> remote))"

section \<open>GitHub OAuth\<close>

record 'g auth_ext =
  ax_cfg :: authConfig
  ax_mac :: mac
  ax_http :: "greq \<Rightarrow> kresp"
  ax_now :: time
  ax_token :: "string option"
  ax_nonce :: "string option"
  ax_user_id :: uuid

record oauth_token =
  ot_access :: string
  ot_expires_in :: int

definition exchangeOAuthCode :: "authConfig \<Rightarrow> (greq \<Rightarrow> kresp) \<Rightarrow> string \<Rightarrow> (string, oauth_token) result" where
  "exchangeOAuthCode cfg http code =
     (case http \<lparr> gq_meth = POST, gq_url = ''https://github.com/login/oauth/access_token'', gq_bearer = '''',
              gq_body = Some (jlabels [(''client_id'', ac_client cfg), (''client_secret'', ac_client_secret cfg),
                 (''code'', code), (''redirect_uri'', ac_base cfg @ ''/auth/callback'')]) \<rparr> of
        Net_error e \<Rightarrow> Inl e
      | Resp st body j \<Rightarrow>
          if \<not> ok2xx st then Inl (''token endpoint: HTTP '' @ show_nat st @ '': '' @ trim_space body)
          else if \<not> (snd (unmarshal j [''access_token''] dec_str) \<and> snd (unmarshal j [''expires_in''] dec_int)
                  \<and> snd (unmarshal j [''refresh_token''] dec_str) \<and> snd (unmarshal j [''refresh_token_expires_in''] dec_int)
                  \<and> snd (unmarshal j [''scope''] dec_str) \<and> snd (unmarshal j [''token_type''] dec_str)
                  \<and> snd (unmarshal j [''error''] dec_str) \<and> snd (unmarshal j [''error_description''] dec_str))
          then Inl ''decode token''
          else (let err = fst (dec_str (json_at j [''error''])); tok = fst (dec_str (json_at j [''access_token'']))
                in if err \<noteq> ''''
                   then Inl (''oauth error: '' @ err @ '': '' @ fst (dec_str (json_at j [''error_description''])))
                   else if tok = '''' then Inl ''empty access_token from github''
                   else Inr \<lparr> ot_access = tok, ot_expires_in = fst (dec_int (json_at j [''expires_in''])) \<rparr>))"

record githubUser =
  gu_id :: int
  gu_login :: string
  gu_email :: string
  gu_avatar :: string

definition fetchGitHubUser :: "(greq \<Rightarrow> kresp) \<Rightarrow> string \<Rightarrow> (string, githubUser) result" where
  "fetchGitHubUser http token =
     (case http \<lparr> gq_meth = GET, gq_url = ''https://api.github.com/user'', gq_bearer = token, gq_body = None \<rparr> of
        Net_error e \<Rightarrow> Inl e
      | Resp st body j \<Rightarrow>
          if \<not> ok2xx st then Inl (''get user: HTTP '' @ show_nat st @ '': '' @ trim_space body)
          else if \<not> (snd (unmarshal j [''id''] dec_int) \<and> snd (unmarshal j [''login''] dec_str)
                  \<and> snd (unmarshal j [''email''] dec_str) \<and> snd (unmarshal j [''avatar_url''] dec_str))
          then Inl ''json''
          else (let u = \<lparr> gu_id = fst (dec_int (json_at j [''id''])), gu_login = fst (dec_str (json_at j [''login''])),
                          gu_email = fst (dec_str (json_at j [''email''])),
                          gu_avatar = fst (dec_str (json_at j [''avatar_url''])) \<rparr>
                in if gu_id u = 0 \<or> gu_login u = '''' then Inl ''empty user response from github'' else Inr u))"

section \<open>Handlers\<close>

text \<open>All cookies are \<open>HttpOnly\<close>, \<open>Secure\<close>, \<open>SameSite=Lax\<close>, path \<open>/\<close>.\<close>
record cookie =
  ck_name :: string
  ck_value :: string
  ck_max_age :: int

record reply =
  rp_status :: nat
  rp_location :: string
  rp_cookies :: "cookie list"

record auth_req =
  aq_code :: string
  aq_state :: string
  aq_setup :: string
  aq_state_cookie :: "string option"
  aq_session :: "string option"
  aq_agent :: string
  aq_forwarded :: string
  aq_remote :: string

definition sessionCookie :: string where "sessionCookie = ''paas_session''"
definition stateCookie :: string where "stateCookie = ''paas_oauth_state''"
definition sessionLifetime :: time where "sessionLifetime = 30 * 24 * 60 * minute"
definition stateLifetime :: time where "stateLifetime = 10 * minute"

definition plain :: "nat \<Rightarrow> reply" where "plain st = \<lparr> rp_status = st, rp_location = '''', rp_cookies = [] \<rparr>"

definition clear_cookie :: "string \<Rightarrow> cookie" where
  "clear_cookie n = \<lparr> ck_name = n, ck_value = '''', ck_max_age = -1 \<rparr>"

definition handleLogin :: "'g auth_ext \<Rightarrow> reply" where
  "handleLogin x =
     (case signState (ax_mac x) (ac_session_secret (ax_cfg x)) (ax_nonce x) (ax_now x) stateLifetime of
        None \<Rightarrow> plain 500
      | Some st \<Rightarrow>
          \<lparr> rp_status = 302,
            rp_location = ''https://github.com/login/oauth/authorize?client_id='' @ queryEscape (ac_client (ax_cfg x))
               @ ''&redirect_uri='' @ queryEscape (ac_base (ax_cfg x) @ ''/auth/callback'') @ ''&state='' @ queryEscape st,
            rp_cookies = [\<lparr> ck_name = stateCookie, ck_value = st, ck_max_age = stateLifetime div second \<rparr>] \<rparr>)"

text \<open>Lines 238 to 258: \<open>Some\<close> of an error status, or the cookies already set.\<close>
definition checkState :: "'g auth_ext \<Rightarrow> auth_req \<Rightarrow> (nat, cookie list) result" where
  "checkState x r =
     (if aq_setup r = ''install'' then Inr []
      else if aq_state r = '''' then Inl 400
      else if aq_state_cookie r \<noteq> Some (aq_state r) then Inl 400
      else (case verifyState (ax_mac x) (ac_session_secret (ax_cfg x)) (ax_now x) (aq_state r) of
              Some _ \<Rightarrow> Inl 400
            | None \<Rightarrow> Inr [clear_cookie stateCookie]))"

definition upsert_of :: "time \<Rightarrow> oauth_token \<Rightarrow> githubUser \<Rightarrow> userUpsert" where
  "upsert_of now tok gh =
     \<lparr> uu_github = gu_id gh, uu_login = gu_login gh, uu_email = gu_email gh, uu_avatar = gu_avatar gh,
       uu_token = ot_access tok,
       uu_expires = (if ot_expires_in tok > 0 then Some (now + ot_expires_in tok * second) else None) \<rparr>"

text \<open>Lines 282 to 338: the user row, the claimed installations (best effort), the session.\<close>
definition finishLogin :: "'g auth_ext \<Rightarrow> auth_req \<Rightarrow> cookie list \<Rightarrow> oauth_token \<Rightarrow> githubUser \<Rightarrow> db \<Rightarrow> reply \<times> db" where
  "finishLogin x r cs tok gh s =
     (case UpsertUserFromGitHub (ax_now x) (ax_user_id x) (upsert_of (ax_now x) tok gh) s of
        (Inl _, s1) \<Rightarrow> (\<lparr> rp_status = 500, rp_location = '''', rp_cookies = cs \<rparr>, s1)
      | (Inr uid, s1) \<Rightarrow>
          (let s2 = snd (ClaimInstallationsForUser (ax_now x) uid (gu_id gh) s1)
           in case ax_token x of
                None \<Rightarrow> (\<lparr> rp_status = 500, rp_location = '''', rp_cookies = cs \<rparr>, s2)
              | Some token \<Rightarrow>
                  (case CreateSession
                          \<lparr> sr_hash = hashSessionToken (ax_mac x) (ac_session_secret (ax_cfg x)) token, sr_user = uid,
                            sr_agent = aq_agent r, sr_ip = clientIP (aq_forwarded r) (aq_remote r),
                            sr_expires = ax_now x + sessionLifetime \<rparr> s2 of
                     (Inl _, s3) \<Rightarrow> (\<lparr> rp_status = 500, rp_location = '''', rp_cookies = cs \<rparr>, s3)
                   | (Inr _, s3) \<Rightarrow>
                       (\<lparr> rp_status = 302, rp_location = ''/'',
                          rp_cookies = cs @ [\<lparr> ck_name = sessionCookie, ck_value = token,
                                               ck_max_age = sessionLifetime div second \<rparr>] \<rparr>, s3))))"

definition handleCallback :: "'g auth_ext \<Rightarrow> auth_req \<Rightarrow> db \<Rightarrow> reply \<times> db" where
  "handleCallback x r s =
     (if aq_code r = '''' then (plain 400, s)
      else case checkState x r of
             Inl st \<Rightarrow> (plain st, s)
           | Inr cs \<Rightarrow>
               (case exchangeOAuthCode (ax_cfg x) (ax_http x) (aq_code r) of
                  Inl _ \<Rightarrow> (\<lparr> rp_status = 502, rp_location = '''', rp_cookies = cs \<rparr>, s)
                | Inr tok \<Rightarrow>
                    (case fetchGitHubUser (ax_http x) (ot_access tok) of
                       Inl _ \<Rightarrow> (\<lparr> rp_status = 502, rp_location = '''', rp_cookies = cs \<rparr>, s)
                     | Inr gh \<Rightarrow>
                         if \<not> loginAllowed (ac_allowed (ax_cfg x)) (gu_login gh)
                         then (\<lparr> rp_status = 403, rp_location = '''', rp_cookies = cs \<rparr>, s)
                         else finishLogin x r cs tok gh s)))"

definition session_hash :: "'g auth_ext \<Rightarrow> auth_req \<Rightarrow> string option" where
  "session_hash x r =
     (case aq_session r of
        None \<Rightarrow> None
      | Some v \<Rightarrow> if v = '''' then None
                  else Some (hashSessionToken (ax_mac x) (ac_session_secret (ax_cfg x)) v))"

definition handleLogout :: "'g auth_ext \<Rightarrow> auth_req \<Rightarrow> db \<Rightarrow> reply \<times> db" where
  "handleLogout x r s =
     (\<lparr> rp_status = 200, rp_location = '''', rp_cookies = [clear_cookie sessionCookie] \<rparr>,
      case session_hash x r of None \<Rightarrow> s | Some h \<Rightarrow> DeleteSession h s)"

definition userFromRequest :: "'g auth_ext \<Rightarrow> auth_req \<Rightarrow> db \<Rightarrow> sessionUser option" where
  "userFromRequest x r s =
     (case session_hash x r of None \<Rightarrow> None | Some h \<Rightarrow> LookupSession (ax_now x) h s)"

text \<open>The middleware: \<open>next\<close> runs with the user, or nobody is let through.\<close>
definition requireUser :: "'g auth_ext \<Rightarrow> string \<Rightarrow> (sessionUser \<Rightarrow> db \<Rightarrow> reply \<times> db) \<Rightarrow> auth_req \<Rightarrow> db \<Rightarrow> reply \<times> db" where
  "requireUser x md next_handler r s =
     (case userFromRequest x r s of
        None \<Rightarrow> (if md = ''html'' then \<lparr> rp_status = 302, rp_location = ''/login'', rp_cookies = [] \<rparr>
                 else plain 401, s)
      | Some u \<Rightarrow> next_handler u s)"

section \<open>States\<close>

lemma show_int_sscan:
  "- (2 ^ 63) \<le> n \<Longrightarrow> n < 2 ^ 63 \<Longrightarrow> sscan_int (show_int n) = Some n"
proof -
  assume r: "- (2 ^ 63) \<le> n" "n < 2 ^ 63"
  have a: "atoi (show_int n) = Some n" using atoi_show_int r by blast
  have dg: "takeWhile is_digit (show_nat k) = show_nat k" for k
    by (simp add: takeWhile_eq_all_conv show_nat_digits)
  have sp: "is_digit c \<Longrightarrow> \<not> is_space c" for c by (auto simp: is_digit_def is_space_def)
  show ?thesis
  proof (cases "n < 0")
    case True
    then have "show_int n = CHR ''-'' # show_nat (nat (- n))" by (simp add: show_int_def)
    moreover have "\<not> is_space (CHR ''-'')" by (simp add: is_space_def)
    ultimately show ?thesis using a by (simp add: sscan_int_def trim_left_def dg)
  next
    case False
    then have s: "show_int n = show_nat (nat n)" by (simp add: show_int_def)
    obtain c cs where c: "show_nat (nat n) = c # cs" using show_nat_neq_Nil by (metis list.exhaust)
    then have "is_digit c" using show_nat_digits[of c "nat n"] by simp
    then have "\<not> is_space c" "c \<notin> {CHR ''-'', CHR ''+''}" using sp digit_not_sign by auto
    moreover have tk: "takeWhile is_digit (c # cs) = c # cs" using dg[of "nat n"] c by metis
    ultimately show ?thesis using a s c by (simp add: sscan_int_def trim_left_def tk del: takeWhile.simps)
  qed
qed

lemma show_int_no_dot: "CHR ''.'' \<notin> set (show_int n)"
proof -
  have "CHR ''.'' \<notin> set (show_nat k)" for k using show_nat_digits digit_not_sign by blast
  then show ?thesis by (simp add: show_int_def)
qed

text \<open>C21: a state the login handler issued is accepted by the callback exactly until it expires, whatever HMAC
  and nonce are.\<close>
theorem state_roundtrip:
  assumes "signState mac secret (Some nonce) t ttl = Some st"
    and "- (2 ^ 63) \<le> (t + ttl) div second" "(t + ttl) div second < 2 ^ 63"
  shows "verifyState mac secret now st = None \<longleftrightarrow> now div second \<le> (t + ttl) div second"
proof -
  let ?e = "show_int ((t + ttl) div second)"
  let ?m = "hex_encode (mac secret (hex_encode nonce @ ''.'' @ ?e))"
  have st: "st = hex_encode nonce @ CHR ''.'' # ?e @ CHR ''.'' # ?m"
    using assms(1) by (simp add: signState_def Let_def)
  have "split_on (CHR ''.'') st = [hex_encode nonce, ?e, ?m]"
    unfolding st using hex_encode_no_dot show_int_no_dot
    by (simp add: split_on_append_sep split_on_no_sep)
  then show ?thesis using show_int_sscan[OF assms(2,3)] by (simp add: verifyState_def)
qed

theorem state_roundtrip_witness:
  "verifyState (\<lambda>k b. k @ b) ''key'' (400 * second) (the (signState (\<lambda>k b. k @ b) ''key'' (Some ''n'') 0 stateLifetime)) = None
   \<and> verifyState (\<lambda>k b. k @ b) ''key'' (700 * second) (the (signState (\<lambda>k b. k @ b) ''key'' (Some ''n'') 0 stateLifetime)) \<noteq> None"
proof -
  obtain st where st: "signState (\<lambda>k b. k @ b) ''key'' (Some ''n'') 0 stateLifetime = Some st"
    by (simp add: signState_def)
  show ?thesis
    using state_roundtrip[OF st, of "400 * second"] state_roundtrip[OF st, of "700 * second"] st
    by (simp add: stateLifetime_def second_def minute_def)
qed

section \<open>Who gets in\<close>

text \<open>C12: sign-in gate: if the callback changes the database or sets a session cookie then GitHub exchanged the
  code and named a user, that login is allowed, and either the state equals the cookie and verifies or the
  request claims to be an installation callback.\<close>
theorem callback_gate:
  assumes "handleCallback x r s = (p, s')"
    and "s' \<noteq> s \<or> sessionCookie \<in> ck_name ` set (rp_cookies p)"
  shows "(\<exists>tok gh. exchangeOAuthCode (ax_cfg x) (ax_http x) (aq_code r) = Inr tok
             \<and> fetchGitHubUser (ax_http x) (ot_access tok) = Inr gh
             \<and> loginAllowed (ac_allowed (ax_cfg x)) (gu_login gh))
    \<and> (aq_setup r = ''install''
       \<or> (aq_state_cookie r = Some (aq_state r) \<and> aq_state r \<noteq> ''''
          \<and> verifyState (ax_mac x) (ac_session_secret (ax_cfg x)) (ax_now x) (aq_state r) = None))"
proof -
  have st: "sessionCookie \<notin> ck_name ` set cs \<and> (aq_setup r = ''install'' \<or> (aq_state_cookie r = Some (aq_state r) \<and> aq_state r \<noteq> ''''
      \<and> verifyState (ax_mac x) (ac_session_secret (ax_cfg x)) (ax_now x) (aq_state r) = None))"
    if "checkState x r = Inr cs" for cs
    using that by (auto simp: checkState_def clear_cookie_def sessionCookie_def stateCookie_def
        split: if_splits option.splits)
  show ?thesis
    using assms
    by (auto simp: handleCallback_def plain_def split: if_splits sum.splits dest!: st)
qed

section \<open>Sessions\<close>

definition demo_cfg :: authConfig where
  "demo_cfg = \<lparr> ac_client = ''c'', ac_client_secret = ''cs'', ac_session_secret = ''key'', ac_base = ''https://spinup.in'',
     ac_allowed = {} \<rparr>"

definition demo_ax :: "unit auth_ext" where
  "demo_ax = \<lparr> ax_cfg = demo_cfg, ax_mac = (\<lambda>k b. k @ b),
     ax_http = (\<lambda>q. Resp 200 '''' (Some (if gq_meth q = POST then JObj [(''access_token'', JStr ''t'')]
                        else JObj [(''id'', JInt 42), (''login'', JStr ''Octo'')]))),
     ax_now = 9, ax_token = Some ''tok'', ax_nonce = Some ''n'', ax_user_id = ''u9'' \<rparr>"

definition demo_aq :: auth_req where
  "demo_aq = \<lparr> aq_code = ''c0de'', aq_state = '''', aq_setup = ''install'', aq_state_cookie = None,
     aq_session = Some ''tok'', aq_agent = ''ua'', aq_forwarded = '''', aq_remote = ''10.0.0.9:1234'' \<rparr>"

lemma demo_exchange: "exchangeOAuthCode (ax_cfg demo_ax) (ax_http demo_ax) code = Inr \<lparr> ot_access = ''t'', ot_expires_in = 0 \<rparr>"
  by (simp add: exchangeOAuthCode_def demo_ax_def demo_cfg_def ok2xx_def unmarshal_def obj_ok_def dec_int_def)

lemma demo_user_resp: "fetchGitHubUser (ax_http demo_ax) tok =
    Inr \<lparr> gu_id = 42, gu_login = ''Octo'', gu_email = '''', gu_avatar = '''' \<rparr>"
  by (simp add: fetchGitHubUser_def demo_ax_def ok2xx_def unmarshal_def obj_ok_def dec_int_def)

lemma demo_login:
  "\<exists>p s'. handleCallback demo_ax demo_aq (demo_db []) = (p, s') \<and> s' \<noteq> demo_db []
     \<and> sessionCookie \<in> ck_name ` set (rp_cookies p)"
proof -
  have u: "find (\<lambda>u. u_github u = 42) (users (demo_db [])) = Some demo_user" by (simp add: demo_defs)
  show ?thesis
    by (simp add: handleCallback_def demo_exchange demo_user_resp checkState_def finishLogin_def upsert_of_def
        loginAllowed_def Let_def,
        simp add: demo_aq_def demo_ax_def demo_cfg_def demo_defs count_where_def upd_where_def
        UpsertUserFromGitHub_def ClaimInstallationsForUser_def CreateSession_def)
qed

theorem callback_gate_witness:
  "loginAllowed (ac_allowed (ax_cfg demo_ax)) ''Octo'' \<and> aq_setup demo_aq = ''install''"
proof -
  obtain p s' where c: "handleCallback demo_ax demo_aq (demo_db []) = (p, s')" "s' \<noteq> demo_db []"
    using demo_login by blast
  have "(\<exists>tok gh. exchangeOAuthCode (ax_cfg demo_ax) (ax_http demo_ax) (aq_code demo_aq) = Inr tok
             \<and> fetchGitHubUser (ax_http demo_ax) (ot_access tok) = Inr gh
             \<and> loginAllowed (ac_allowed (ax_cfg demo_ax)) (gu_login gh))
    \<and> (aq_setup demo_aq = ''install''
       \<or> (aq_state_cookie demo_aq = Some (aq_state demo_aq) \<and> aq_state demo_aq \<noteq> ''''
          \<and> verifyState (ax_mac demo_ax) (ac_session_secret (ax_cfg demo_ax)) (ax_now demo_ax) (aq_state demo_aq) = None))"
    by (rule callback_gate[OF c(1)]) (use c(2) in simp)
  then show ?thesis by (auto simp: demo_user_resp demo_aq_def)
qed

lemma upd_where_memI: "a \<in> set as \<Longrightarrow> P a \<Longrightarrow> h a \<in> set (upd_where P h as)"
  by (force simp: upd_where_def)

lemma upsert_user_row:
  "UpsertUserFromGitHub now f i s = (Inr uid, s1) \<Longrightarrow> \<exists>u \<in> set (users s1). u_id u = uid \<and> u_github u = uu_github i"
proof (cases "find (\<lambda>u. u_github u = uu_github i) (users s)")
  case (Some u0)
  assume a: "UpsertUserFromGitHub now f i s = (Inr uid, s1)"
  have "u0 \<in> set (users s)" "u_github u0 = uu_github i" using find_SomeD[OF Some] by simp_all
  then have m: "h u0 \<in> set (upd_where (\<lambda>u. u_github u = uu_github i) h (users s))" for h
    by (rule upd_where_memI)
  obtain h where "users s1 = upd_where (\<lambda>u. u_github u = uu_github i) h (users s)" "uid = u_id u0"
    "\<And>u. u_id (h u) = u_id u \<and> u_github (h u) = u_github u"
    using a Some by (force simp: UpsertUserFromGitHub_def)
  then show ?thesis using m[of h] \<open>u_github u0 = uu_github i\<close> by (metis (no_types))
qed (auto simp: UpsertUserFromGitHub_def split: if_splits)

lemma users_Claim [simp]: "users (snd (ClaimInstallationsForUser now uid a s)) = users s"
  by (simp add: ClaimInstallationsForUser_def Let_def)

lemma find_append_no: "(\<And>a. a \<in> set as \<Longrightarrow> \<not> P a) \<Longrightarrow> find P (as @ bs) = find P bs"
  by (induction as) auto

text \<open>C6: sessions: after a successful sign-in the new cookie identifies the GitHub account that signed in until the
  thirty days are over, not longer, and not after a logout with that cookie.\<close>
theorem session_lifecycle:
  assumes "db_ok s" "handleCallback x r s = (p, s')" "sessionCookie \<in> ck_name ` set (rp_cookies p)"
    and "ax_token x = Some token" "token \<noteq> ''''"
    and "ax_cfg y = ax_cfg x" "ax_mac y = ax_mac x" "aq_session q = Some token"
    and "fetchGitHubUser (ax_http x) tk = Inr gh" "exchangeOAuthCode (ax_cfg x) (ax_http x) (aq_code r) = Inr \<lparr> ot_access = tk, ot_expires_in = e \<rparr>"
  shows "(if ax_now y < ax_now x + sessionLifetime
          then \<exists>u. userFromRequest y q s' = Some u \<and> su_github u = gu_id gh
          else userFromRequest y q s' = None)
    \<and> userFromRequest y q (snd (handleLogout y q s')) = None"
proof -
  let ?h = "hashSessionToken (ax_mac x) (ac_session_secret (ax_cfg x)) token"
  let ?tok = "\<lparr> ot_access = tk, ot_expires_in = e \<rparr>"
  obtain cs where cs: "checkState x r = Inr cs" "sessionCookie \<notin> ck_name ` set cs"
    and f: "finishLogin x r cs ?tok gh s = (p, s')"
    using assms(2,3,9,10)
    by (auto simp: handleCallback_def checkState_def plain_def clear_cookie_def sessionCookie_def stateCookie_def
        split: if_splits option.splits)
  obtain q1 s1 where u: "UpsertUserFromGitHub (ax_now x) (ax_user_id x) (upsert_of (ax_now x) ?tok gh) s = (q1, s1)"
    by fastforce
  obtain uid where uid: "q1 = Inr uid" using f u cs(2) assms(3) by (cases q1) (auto simp: finishLogin_def)
  define s2 where "s2 = snd (ClaimInstallationsForUser (ax_now x) uid (gu_id gh) s1)"
  define row where "row = \<lparr> sr_hash = ?h, sr_user = uid, sr_agent = aq_agent r,
      sr_ip = clientIP (aq_forwarded r) (aq_remote r), sr_expires = ax_now x + sessionLifetime \<rparr>"
  obtain q2 s3 where c: "CreateSession row s2 = (q2, s3)" by fastforce
  have q2: "q2 = Inr ()" and s3: "s' = s3"
    using f u uid c assms(3,4) cs(2) by (auto simp: finishLogin_def Let_def s2_def row_def split: sum.splits)
  have new: "?h \<notin> ss_hash ` set (sessions s2)"
    and ss: "sessions s' = sessions s2 @ [\<lparr> ss_hash = ?h, ss_user = uid, ss_agent = nullif (aq_agent r) '''',
        ss_ip = nullif (clientIP (aq_forwarded r) (aq_remote r)) '''', ss_expires = ax_now x + sessionLifetime \<rparr>]"
    and us: "users s' = users s1"
    using c q2 s3 by (auto simp: CreateSession_def row_def s2_def split: if_splits)
  have ok: "db_ok s1" using db_ok_UpsertUser[OF assms(1), of "ax_now x" "ax_user_id x" "upsert_of (ax_now x) ?tok gh"] u by simp
  obtain v where v: "v \<in> set (users s1)" "u_id v = uid" "u_github v = gu_id gh"
    using upsert_user_row[OF u[unfolded uid]] by (auto simp: upsert_of_def)
  have lu: "lookup_user s' uid = Some v"
    using ok v us find_distinct_key[of u_id "users s1" v] by (simp add: db_ok_def users_ok_def lookup_user_def)
  have h: "session_hash y q = Some ?h" using assms(5-8) by (simp add: session_hash_def)
  have new': "\<And>a. a \<in> set (sessions s2) \<Longrightarrow> ss_hash a \<noteq> ?h" using new by (metis imageI)
  have fnd: "find (\<lambda>z. ss_hash z = ?h \<and> ss_expires z > ax_now y) (sessions s')
      = (if ax_now y < ax_now x + sessionLifetime then Some (last (sessions s')) else None)"
    using new' unfolding ss by (subst find_append_no) auto
  have "find (\<lambda>z. ss_hash z = ?h \<and> ss_expires z > ax_now y) (sessions (DeleteSession ?h s')) = None"
    by (simp add: DeleteSession_def find_None_iff)
  then show ?thesis using h fnd ss lu v
    by (simp add: userFromRequest_def LookupSession_def handleLogout_def)
qed

lemma db_ok_demo: "db_ok (demo_db [])"
  by (simp add: demo_defs db_ok_def installs_ok_def projects_ok_def deploys_ok_def users_ok_def extras_ok_def)

theorem session_lifecycle_witness:
  "\<exists>s' u. userFromRequest demo_ax demo_aq s' = Some u \<and> su_github u = 42
     \<and> userFromRequest demo_ax demo_aq (snd (handleLogout demo_ax demo_aq s')) = None"
proof -
  obtain p s' where c: "handleCallback demo_ax demo_aq (demo_db []) = (p, s')"
    and ck: "sessionCookie \<in> ck_name ` set (rp_cookies p)"
    using demo_login by blast
  have "(if ax_now demo_ax < ax_now demo_ax + sessionLifetime
          then \<exists>u. userFromRequest demo_ax demo_aq s' = Some u
                 \<and> su_github u = gu_id \<lparr> gu_id = 42, gu_login = ''Octo'', gu_email = '''', gu_avatar = '''' \<rparr>
          else userFromRequest demo_ax demo_aq s' = None)
    \<and> userFromRequest demo_ax demo_aq (snd (handleLogout demo_ax demo_aq s')) = None"
    by (rule session_lifecycle[OF db_ok_demo c ck _ _ refl refl _ demo_user_resp demo_exchange, of "''tok''"])
       (simp_all add: demo_ax_def demo_aq_def)
  then show ?thesis by (auto simp: sessionLifetime_def minute_def)
qed

end
