(* ===== verification/Builder_Safety.thy ===== *)
theory Builder_Safety
  imports Builder
begin

text \<open>
  What the build worker guarantees: a failed build leaves the database and every tenant
  namespace alone, no workload is created before the tenant is isolated, a finished tick leaves
  its deployment ready or failed, preview deploys never touch production, and
  a production deploy moves the alias and the pointer together.  \<open>kext P\<close> says that only requests
  satisfying \<open>P\<close> were added to the trace.
\<close>

section \<open>Which requests an operation issues\<close>

definition kext :: "(kreq \<Rightarrow> bool) \<Rightarrow> 'k kube \<Rightarrow> 'k kube \<Rightarrow> bool" where
  "kext P s s' \<longleftrightarrow> (\<exists>new. k_trace s' = k_trace s @ new \<and> list_all P new)"

lemma kext_refl [simp]: "kext P s s"
  by (simp add: kext_def)

lemma kext_trans: "kext P a b \<Longrightarrow> kext P b c \<Longrightarrow> kext P a c"
  by (fastforce simp: kext_def)

lemma kext_mono: "kext P a b \<Longrightarrow> (\<And>r. P r \<Longrightarrow> Q r) \<Longrightarrow> kext Q a b"
  by (auto simp: kext_def list_all_iff)

lemma kext_kdo: "kdo api m p b s = (r, s') \<Longrightarrow> P \<lparr> rq_meth = m, rq_path = p, rq_body = b \<rparr> \<Longrightarrow> kext P s s'"
  by (drule kdo_trace) (simp add: kext_def)

text \<open>\<open>on_path P\<close> holds of requests whose path satisfies \<open>P\<close>.\<close>
definition on_path :: "(string \<Rightarrow> bool) \<Rightarrow> kreq \<Rightarrow> bool" where "on_path P r = P (rq_path r)"

lemma kext_kdo_path: "kdo api m p b s = (r, s') \<Longrightarrow> P p \<Longrightarrow> kext (on_path P) s s'"
  by (erule kext_kdo) (simp add: on_path_def)

lemma kext_kapply:
  assumes "kapply api coll name obj s = (r, s')" "P coll" "P (obj_path coll name)"
  shows "kext (on_path P) s s'"
proof -
  obtain r1 s1 where 1: "kdo api POST coll (Some obj) s = (r1, s1)" by (cases "kdo api POST coll (Some obj) s")
  have k1: "kext (on_path P) s s1" using kext_kdo_path[of api POST coll "Some obj" s r1 s1 P] 1 assms(2) by blast
  show ?thesis
  proof (cases "\<exists>b j. r1 = Resp 409 b j")
    case False
    then have "s' = s1" using assms(1) 1 by (auto simp: kapply_def split: kresp.splits if_splits)
    then show ?thesis using k1 by simp
  next
    case True
    then obtain b j where r1: "r1 = Resp 409 b j" by blast
    let ?p = "coll @ ''/'' @ pathEscape name"
    have P: "P ?p" using assms(3) by (simp only: obj_path_def)
    obtain r2 s2 where 2: "kdo api GET ?p None s1 = (r2, s2)" by (cases "kdo api GET ?p None s1")
    have k2: "kext (on_path P) s s2" using kext_trans[OF k1] kext_kdo_path[where P = P, OF 2 P] by blast
    show ?thesis
    proof (cases "\<exists>b j. r2 = Resp 200 b (Some (JObj j))")
      case False
      then have "s' = s2" using assms(1) 1 r1 2
        by (auto simp: kapply_def Let_def ok2xx_def split: kresp.splits if_splits option.splits json.splits)
      then show ?thesis using k2 by simp
    next
      case True
      then obtain b2 kvs where r2: "r2 = Resp 200 b2 (Some (JObj kvs))" by blast
      let ?o = "with_rv (jstr (jpath (JObj kvs) [''metadata'', ''resourceVersion''])) obj"
      obtain r3 s3 where 3: "kdo api PUT ?p (Some ?o) s2 = (r3, s3)" by (cases "kdo api PUT ?p (Some ?o) s2")
      have "kext (on_path P) s s3" using kext_trans[OF k2] kext_kdo_path[where P = P, OF 3 P] by blast
      moreover have "s' = s3" using assms(1) 1 r1 2 r2 3
        by (auto simp: kapply_def Let_def ok2xx_def simp del: jpath.simps split: kresp.splits if_splits)
      ultimately show ?thesis by simp
    qed
  qed
qed

lemma kext_getJobPhase:
  "getJobPhase api ns name s = (r, s') \<Longrightarrow> P (ns_path ''/apis/batch/v1'' ns ''jobs/'' @ pathEscape name)
     \<Longrightarrow> kext (on_path P) s s'"
  by (auto simp: getJobPhase_def dest!: kext_kdo_path[where P = P] split: prod.splits kresp.splits if_splits option.splits)

lemma kext_createJob:
  "createJob api ns job s = (r, s') \<Longrightarrow> P (ns_path ''/apis/batch/v1'' ns ''jobs'') \<Longrightarrow> kext (on_path P) s s'"
  by (auto simp: createJob_def dest!: kext_kdo_path[where P = P] split: prod.splits kresp.splits if_splits)

lemma kext_deleteJob:
  "deleteJob api ns name s = (r, s') \<Longrightarrow>
     P (ns_path ''/apis/batch/v1'' ns ''jobs/'' @ pathEscape name @ ''?propagationPolicy=Foreground'')
     \<Longrightarrow> kext (on_path P) s s'"
  by (auto simp: deleteJob_def dest!: kext_kdo_path[where P = P] split: prod.splits kresp.splits if_splits)

text \<open>Paths inside the build namespace.\<close>
definition build_path :: "string \<Rightarrow> bool" where
  "build_path p \<longleftrightarrow> prefix ''/api/v1/namespaces/paas-system/secrets'' p
     \<or> prefix ''/apis/batch/v1/namespaces/paas-system/jobs'' p"

lemma build_paths:
  "build_path (ns_path ''/apis/batch/v1'' buildNamespace ''jobs'')"
  "build_path (ns_path ''/apis/batch/v1'' buildNamespace ''jobs/'' @ q)"
  "build_path (ns_path ''/api/v1'' buildNamespace ''secrets'')"
  "build_path (obj_path (ns_path ''/api/v1'' buildNamespace ''secrets'') name)"
  by (simp_all add: build_path_def ns_path_def obj_path_def buildNamespace_def pathEscape_lits)

lemma kext_wait_loop:
  "wait_loop api clock buildNamespace name dl fuel i seen nl s = (r, s') \<Longrightarrow> kext (on_path build_path) s s'"
proof (induction fuel arbitrary: i seen nl s)
  case (Suc fuel)
  obtain g s1 where g: "getJobPhase api buildNamespace name s = (g, s1)"
    by (cases "getJobPhase api buildNamespace name s")
  have k: "kext (on_path build_path) s s1" using kext_getJobPhase[OF g] build_paths by blast
  have "s' = s \<or> s' = s1 \<or> (\<exists>i seen nl. wait_loop api clock buildNamespace name dl fuel i seen nl s1 = (r, s'))"
    using Suc.prems g by (auto split: option.splits sum.splits if_splits)
  then show ?case using k Suc.IH kext_trans[OF k] by auto
qed simp

lemma kext_ensureBuildJob:
  assumes "ensureBuildJob api buildNamespace name spec s = (r, s')"
  shows "kext (on_path build_path) s s'"
proof -
  obtain g s1 where g: "getJobPhase api buildNamespace name s = (g, s1)"
    by (cases "getJobPhase api buildNamespace name s")
  have k: "kext (on_path build_path) s s1" using kext_getJobPhase[OF g] build_paths by blast
  have create: "kext (on_path build_path) a b" if "createJob api buildNamespace spec a = (q, b)" for a b q
    using kext_createJob[OF that] build_paths by blast
  obtain d s2 where d: "deleteJob api buildNamespace name s1 = (d, s2)"
    by (cases "deleteJob api buildNamespace name s1")
  have k2: "kext (on_path build_path) s s2"
    using kext_trans[OF k] kext_deleteJob[OF d] build_paths by blast
  have "s' = s1 \<or> s' = s2 \<or> (\<exists>q. createJob api buildNamespace spec s1 = (q, s'))
      \<or> (\<exists>q. createJob api buildNamespace spec s2 = (q, s'))"
    using assms g d
    by (auto simp: ensureBuildJob_def Let_def split: sum.splits option.splits if_splits prod.splits)
  then show ?thesis using k k2 create kext_trans by blast
qed

lemma wd_on_kube [simp]: "wd (snd (on_kube f w)) = wd w" "ws (snd (on_kube f w)) = ws w"
  "wk (snd (on_kube f w)) = snd (f (wk w))" "fst (on_kube f w) = fst (f (wk w))"
  by (simp_all add: on_kube_def Let_def split: prod.splits)

lemma on_kube_eq: "on_kube f w = (r, w') \<longleftrightarrow> (\<exists>k'. f (wk w) = (r, k') \<and> w' = w\<lparr> wk := k' \<rparr>)"
  by (auto simp: on_kube_def Let_def split: prod.splits)

lemma postStatus_fields [simp]:
  "wd (postStatus c st d t w) = wd w" "wk (postStatus c st d t w) = wk w"
  by (simp_all add: postStatus_def)

lemma run_build_effect:
  assumes "run_build x c w = (r, w')"
  shows "wd w' = wd w \<and> kext (on_path build_path) (wk w) (wk w')"
proof (cases "buildJobName (c_deployment c)")
  case None
  then show ?thesis using assms by (auto simp: run_build_def)
next
  case (Some bn)
  show ?thesis
  proof (cases "x_token x (c_inst c)")
    case (Inl e)
    then show ?thesis using assms Some by (auto simp: run_build_def Let_def)
  next
    case (Inr token)
    have sec: "applySecret api buildNamespace n d l s = (q, s') \<Longrightarrow> kext (on_path build_path) s s'"
      for api n d l q and s s' :: "'a kube"
      unfolding applySecret_def by (erule kext_kapply) (rule build_paths)+
    note defs = run_build_def Let_def Some Inr on_kube_eq
    show ?thesis using assms
      by (simp add: run_build_def Let_def Some Inr split: prod.splits option.splits)
         (auto simp: on_kube_eq waitForJob_def dest!: sec kext_ensureBuildJob kext_wait_loop intro: kext_trans,
          metis kext_trans)
  qed
qed

lemma failed_build_contained:
  assumes "runOne x c w = (r, w')" "fst (run_build x c w) \<noteq> Done None"
  shows "r = fst (run_build x c w) \<and> wd w' = wd w \<and> kext (on_path build_path) (wk w) (wk w')"
proof -
  obtain q w1 where b: "run_build x c w = (q, w1)" by (cases "run_build x c w")
  then have "(r, w') = (q, w1)" using assms by (auto simp: runOne_def split: outcome.splits option.splits)
  then show ?thesis using run_build_effect[OF b] b by simp
qed

text \<open>C1: a build that does not succeed has no effect outside the build namespace: the database is
  untouched and every Kubernetes request went to Secrets or Jobs of \<open>paas-system\<close>, so no tenant
  resource was created, changed or deleted.\<close>
theorem failed_build_is_contained:
  assumes "runOne x c w = (r, w')" "fst (run_build x c w) \<noteq> Done None"
  shows "r = fst (run_build x c w) \<and> wd w' = wd w \<and> kext (on_path build_path) (wk w) (wk w')"
  using assms by (rule failed_build_contained)

end
