(* ===== verification/Builder_Props.thy ===== *)
theory Builder_Props
  imports Builder_Safety
begin

text \<open>
  The build worker, continued: what a successful run leaves in the database and in the cluster, what
  one tick guarantees about the claimed row, and what distinguishes preview from production deploys.
\<close>

section \<open>A concrete run\<close>

text \<open>An API server that accepts everything and answers every read with one document.\<close>
definition yes_json :: json where
  "yes_json = JObj
     [(''status'', JObj [(''succeeded'', JInt 1)]),
      (''data'', JObj [(''.dockerconfigjson'', JStr ''x'')]),
      (''items'', JArr [JObj [(''metadata'', JObj [(''name'', JStr ''octo-app-old'')])]])]"

definition yes_api :: "unit api" where "yes_api r k = (Resp 200 '''' (Some yes_json), k)"

definition demo_ext :: "'k api \<Rightarrow> 'k ext" where
  "demo_ext api = \<lparr> x_api = api, x_b64 = Some, x_enc = id, x_token = (\<lambda>i. Inr ''tok''), x_script = '''',
     x_clock = (\<lambda>i. (int i, None)), x_fuel = 3, x_now = (\<lambda>_. 50) \<rparr>"

definition demo_claim :: "string \<Rightarrow> claimedDeployment" where
  "demo_claim ref = \<lparr> c_deployment = ''d1-00000'', c_project = ''p1'', c_slug = ''octo-app'',
     c_repo = ''octo/app'', c_inst = 7, c_sha = ''aa'', c_ref = ref, c_branch = ''main'', c_login = ''Octo'' \<rparr>"

definition demo_world :: "unit world" where
  "demo_world = \<lparr> wd = demo_db [demo_dep ''d1-00000'' ''aa'' Building 3],
     wk = \<lparr> k_state = (), k_trace = [] \<rparr>, ws = [] \<rparr>"

lemma yes_kdo: "kdo yes_api m p b s =
    (Resp 200 '''' (Some yes_json), s\<lparr> k_trace := k_trace s @ [\<lparr> rq_meth = m, rq_path = p, rq_body = b \<rparr>] \<rparr>)"
  by (simp add: kdo_def yes_api_def)

lemma yes_kapply: "kapply yes_api coll name obj s =
    (None, s\<lparr> k_trace := k_trace s @ [\<lparr> rq_meth = POST, rq_path = coll, rq_body = Some obj \<rparr>] \<rparr>)"
  by (simp add: kapply_def yes_kdo ok2xx_def)

lemma yes_phase: "\<exists>s'. getJobPhase yes_api ns name s
    = (Inr (Some \<lparr> jp_succeeded = 1, jp_failed = 0, jp_active = 0, jp_msg = '''' \<rparr>), s')"
  by (simp add: getJobPhase_def yes_kdo ok2xx_def decode_job_def yes_json_def jget_def jint_def jarr_def)

lemma yes_build: "\<exists>w1. run_build (demo_ext yes_api) (demo_claim ref) w = (Done None, w1)"
proof -
  have bn: "buildJobName ''d1-00000'' = Some ''build-d100000''" by code_simp
  obtain a where a: "applySecret yes_api n m d l s = (None, a n m d l s)" for n m d l s
    by (auto simp: applySecret_def yes_kapply)
  have e: "\<exists>s'. ensureBuildJob yes_api n m j s = (None, s')" for n m j s
    using yes_phase[of n m s] by (auto simp: ensureBuildJob_def Let_def)
  have t: "\<exists>s'. waitForJob yes_api (\<lambda>i. (int i, None)) 3 n m s = (Done None, s')" for n m s
    using yes_phase[of n m s] by (auto simp: waitForJob_def numeral_3_eq_3)
  obtain ej where ej: "ensureBuildJob yes_api n m j s = (None, ej n m j s)" for n m j s using e by metis
  obtain tj where tj: "waitForJob yes_api (\<lambda>i. (int i, None)) 3 n m s = (Done None, tj n m s)" for n m s
    using t by metis
  show ?thesis
    by (simp add: run_build_def demo_ext_def demo_claim_def bn on_kube_def a ej tj Let_def)
qed

lemma yes_steps: "list_all (\<lambda>st. \<forall>s. \<exists>s'. snd st s = (None, s')) fs \<Longrightarrow> \<exists>s'. run_steps fs s = (None, s')"
proof (induction fs arbitrary: s)
  case (Cons f fs)
  then show ?case by (cases f) (auto, metis (mono_tags) case_prod_conv option.simps(4))
qed simp

lemma yes_tenant: "\<exists>s'. ensureTenant yes_api Some id l s = (Inr (tenantNamespaceFor l), s')"
proof -
  have m: "\<exists>s'. mirrorRegistryPullSecret yes_api Some id ns s = (None, s')" for ns s
    by (simp add: mirrorRegistryPullSecret_def getSecretData_def yes_kdo ok2xx_def yes_json_def jget_def
        jstr_def applyDockerConfigSecret_def yes_kapply Let_def)
  have "\<exists>s'. run_steps (tenant_steps yes_api Some id l) s = (None, s')"
    by (rule yes_steps) (simp add: tenant_steps_def Let_def applyNamespace_def applyResourceQuota_def
        applyLimitRange_def applyNetworkPolicy_def yes_kapply m)
  then show ?thesis by (auto simp: ensureTenant_def)
qed

lemma yes_deploy: "\<exists>ns w1. run_deploy (demo_ext yes_api) (demo_claim ref) w = (Inr ns, w1)"
proof -
  have s: "\<exists>s'. run_steps (workload_steps yes_api c ns d e) s = (None, s')" for c ns d e s
    by (rule yes_steps) (simp add: workload_steps_def applySecret_def applyDeployment_def applyService_def
        applyIngressRoute_def yes_kapply)
  obtain a where a: "ensureTenant yes_api Some id l s = (Inr (tenantNamespaceFor l), a l s)" for l s
    using yes_tenant by metis
  obtain b where b: "run_steps (workload_steps yes_api c ns d e) s = (None, b c ns d e s)" for c ns d e s
    using s by metis
  show ?thesis by (simp add: run_deploy_def demo_ext_def demo_claim_def Let_def on_kube_def a b)
qed

lemma yes_run: "\<exists>w'. runOne (demo_ext yes_api) (demo_claim ref) w = (Done None, w')"
proof -
  obtain w1 where b: "run_build (demo_ext yes_api) (demo_claim ref) w = (Done None, w1)"
    using yes_build by blast
  obtain ns w2 where "run_deploy (demo_ext yes_api) (demo_claim ref) w1 = (Inr ns, w2)"
    using yes_deploy by blast
  then show ?thesis using b by (simp add: runOne_def)
qed

section \<open>Effect of the phases on the database\<close>

lemma run_deploy_db:
  "wd (snd (run_deploy x c w)) = MarkDeploying (x_now x ''deploying'') (c_deployment c) (pull_image c) (wd w)"
  by (simp add: run_deploy_def Let_def on_kube_def split: prod.splits sum.splits option.splits)

lemma run_domain_wd [simp]: "wd (run_domain x c ns h w) = wd w"
  by (simp add: run_domain_def)

lemma fold_domain_wd [simp]: "wd (fold (run_domain x c ns) hs w) = wd w"
  by (induction hs arbitrary: w) simp_all

lemma run_gc_wd [simp]: "wd (run_gc x c ns w) = wd w"
  by (simp add: run_gc_def Let_def)

lemma run_alias_db:
  "wd (snd (run_alias x c ns w)) = wd w
   \<or> wd (snd (run_alias x c ns w)) = snd (SetProductionDeployment (c_project c) (c_deployment c) (wd w))"
  by (simp add: run_alias_def on_kube_def Let_def split: prod.splits option.splits)

lemma deployments_SetProduction [simp]: "deployments (snd (SetProductionDeployment p d s)) = deployments s"
  by (simp add: SetProductionDeployment_def)

lemma run_finish_deployments:
  "deployments (wd (run_finish x c ns w))
   = deployments (MarkReady (x_now x ''ready'') (c_deployment c) (live_url c) (wd w))"
  using run_alias_db[of x c ns "w\<lparr> wd := MarkReady (x_now x ''ready'') (c_deployment c) (live_url c) (wd w) \<rparr>"]
  by (auto simp: run_finish_def Let_def case_prod_unfold)

definition finished_row :: "'k ext \<Rightarrow> claimedDeployment \<Rightarrow> deployment \<Rightarrow> deployment" where
  "finished_row x c d =
     d\<lparr> d_status := Ready, d_ended := Some (x_now x ''deploying''), d_image := Some (pull_image c),
        d_ready := Some (x_now x ''ready''), d_url := Some (live_url c) \<rparr>"

lemma lookup_dep_cong: "deployments s = deployments t \<Longrightarrow> lookup_dep s k = lookup_dep t k"
  by (simp add: lookup_dep_def)

lemma lookup_set_dep:
  assumes "\<And>d. d_id (f d) = d_id d"
  shows "lookup_dep (set_dep did f s) k = (if k = did then map_option f (lookup_dep s k) else lookup_dep s k)"
proof -
  have "lookup_dep (set_dep did f s) k = map_option (\<lambda>d. if d_id d = did then f d else d) (lookup_dep s k)"
    unfolding set_dep_def by (rule lookup_dep_upd) (rule assms)
  then show ?thesis using lookup_dep_Some[of s k] by (cases "lookup_dep s k") auto
qed

lemma runOne_success_cases:
  assumes "runOne x c w = (Done None, w')"
  obtains w1 ns w2 where "run_build x c w = (Done None, w1)" "run_deploy x c w1 = (Inr ns, w2)"
    "w' = run_finish x c ns w2" "wd w1 = wd w"
    "wd w2 = MarkDeploying (x_now x ''deploying'') (c_deployment c) (pull_image c) (wd w)"
proof -
  obtain r w1 where b: "run_build x c w = (r, w1)" by (cases "run_build x c w")
  then have r: "r = Done None" using assms by (auto simp: runOne_def split: outcome.splits option.splits)
  obtain q w2 where d: "run_deploy x c w1 = (q, w2)" by (cases "run_deploy x c w1")
  obtain ns where q: "q = Inr ns" using assms b r d by (cases q) (auto simp: runOne_def)
  have "wd w1 = wd w" using run_build_effect[OF b] by simp
  moreover have "w' = run_finish x c ns w2" using assms b r d q by (simp add: runOne_def)
  moreover have "wd w2 = MarkDeploying (x_now x ''deploying'') (c_deployment c) (pull_image c) (wd w)"
    using run_deploy_db[of x c w1] d calculation(1) by simp
  ultimately show ?thesis using that b r d q by blast
qed

lemma success_row:
  assumes "runOne x c w = (Done None, w')" "lookup_dep (wd w) (c_deployment c) = Some d"
  shows "lookup_dep (wd w') (c_deployment c) = Some (finished_row x c d)
       \<and> (\<forall>k. k \<noteq> c_deployment c \<longrightarrow> lookup_dep (wd w') k = lookup_dep (wd w) k)"
proof -
  obtain w1 ns w2 where r: "w' = run_finish x c ns w2"
    "wd w2 = MarkDeploying (x_now x ''deploying'') (c_deployment c) (pull_image c) (wd w)"
    using runOne_success_cases[OF assms(1)] by metis
  have "lookup_dep (wd w') k = lookup_dep (MarkReady (x_now x ''ready'') (c_deployment c) (live_url c)
      (MarkDeploying (x_now x ''deploying'') (c_deployment c) (pull_image c) (wd w))) k" for k
    using r run_finish_deployments[of x c ns w2] by (intro lookup_dep_cong) simp
  then show ?thesis using assms(2)
    by (simp add: MarkReady_def MarkDeploying_def lookup_set_dep finished_row_def)
qed

text \<open>C9: a successful run leaves its deployment row ready, with the image that was built for exactly this
  commit and the preview URL \<open>https://<slug>-<sha8>.spinup.in\<close>, and changes no other deployment
  row.\<close>
theorem runOne_success_row:
  assumes "runOne x c w = (Done None, w')" "lookup_dep (wd w) (c_deployment c) = Some d"
  shows "lookup_dep (wd w') (c_deployment c) = Some (finished_row x c d)
       \<and> (\<forall>k. k \<noteq> c_deployment c \<longrightarrow> lookup_dep (wd w') k = lookup_dep (wd w) k)"
  using assms by (rule success_row)

theorem runOne_success_row_witness:
  "\<exists>w' d. runOne (demo_ext yes_api) (demo_claim ''refs/heads/x'') demo_world = (Done None, w')
     \<and> lookup_dep (wd w') ''d1-00000'' = Some d \<and> d_status d = Ready
     \<and> d_url d = Some ''https://octo-app-aa.spinup.in''"
proof -
  let ?c = "demo_claim ''refs/heads/x''"
  obtain w' where w': "runOne (demo_ext yes_api) ?c demo_world = (Done None, w')" using yes_run by blast
  have "lookup_dep (wd demo_world) (c_deployment ?c) = Some (demo_dep ''d1-00000'' ''aa'' Building 3)"
    by (simp add: lookup_dep_def demo_world_def demo_claim_def demo_defs)
  from runOne_success_row[OF w' this] w' show ?thesis
    by (simp add: finished_row_def demo_claim_def live_url_def preview_host_def short_def tenantHostZone_def)
qed

section \<open>One tick\<close>

lemma runOne_row:
  assumes "runOne x c w = (Done r, w')" "lookup_dep (wd w) (c_deployment c) = Some d" "in_flight (d_status d)"
  shows "\<exists>d'. lookup_dep (wd w') (c_deployment c) = Some d'
       \<and> (r = None \<longrightarrow> d_status d' = Ready) \<and> (r \<noteq> None \<longrightarrow> in_flight (d_status d'))"
proof (cases "fst (run_build x c w) = Done None")
  case False
  then have "Done r = fst (run_build x c w)" "wd w' = wd w" using failed_build_contained[OF assms(1)] by auto
  then show ?thesis using assms(2,3) False by (cases r) auto
next
  case True
  then obtain w1 where b: "run_build x c w = (Done None, w1)" by (cases "run_build x c w") auto
  have w1: "wd w1 = wd w" using run_build_effect[OF b] by simp
  obtain q w2 where dd: "run_deploy x c w1 = (q, w2)" by (cases "run_deploy x c w1")
  show ?thesis
  proof (cases q)
    case (Inl e)
    then have "r = Some e" "w' = w2" using assms(1) b dd by (auto simp: runOne_def)
    moreover have "wd w2 = MarkDeploying (x_now x ''deploying'') (c_deployment c) (pull_image c) (wd w)"
      using run_deploy_db[of x c w1] dd w1 by simp
    ultimately show ?thesis using assms(2) by (simp add: MarkDeploying_def lookup_set_dep in_flight_def)
  next
    case (Inr ns)
    then have "r = None" using assms(1) b dd by (auto simp: runOne_def)
    then show ?thesis using success_row[of x c w w' d] assms(1,2) by (simp add: finished_row_def)
  qed
qed

text \<open>C8: a tick settles what it claims: when the run of the claimed deployment ends, its row is ready if
  the run succeeded and failed, with the error text stored, if it did not; it is never left
  building or deploying.\<close>
theorem tick_settles:
  assumes "deploys_ok (wd w)" "tick x w = (Tick_ran c (Done r), w')"
  shows "\<exists>d. lookup_dep (wd w') (c_deployment c) = Some d
     \<and> (case r of None \<Rightarrow> d_status d = Ready | Some e \<Rightarrow> d_status d = Failed \<and> d_error d = Some e)"
proof -
  let ?w0 = "w\<lparr> wd := snd (RequeueStale (x_now x ''tick'') buildTimeout (wd w)) \<rparr>"
  have ok: "deploys_ok (wd ?w0)" using assms(1)
    by (simp add: RequeueStale_def Let_def deploys_ok_def upd_simps requeue_row_def)
  obtain c' s' where cl: "ClaimNextQueued (x_now x ''claim'') (wd ?w0) = (Inr (Some c'), s')"
    using assms(2) by (auto simp: tick_def Let_def split: prod.splits sum.splits option.splits)
  obtain q w1 where run: "runOne x c' (?w0\<lparr> wd := s' \<rparr>) = (q, w1)" by (cases "runOne x c' (?w0\<lparr> wd := s' \<rparr>)")
  have c: "c' = c" and q: "q = Done r"
    using assms(2) cl run by (auto simp: tick_def Let_def split: outcome.splits option.splits)
  obtain d0 where d0: "lookup_dep s' (c_deployment c) = Some (start_build (x_now x ''claim'') d0)"
    using claim_fifo_row[OF ok cl] c by blast
  obtain d1 where d1: "lookup_dep (wd w1) (c_deployment c) = Some d1"
    "r = None \<longrightarrow> d_status d1 = Ready" "r \<noteq> None \<longrightarrow> in_flight (d_status d1)"
    using runOne_row[of x c "?w0\<lparr> wd := s' \<rparr>" r w1] run c q d0 by (auto simp: start_build_def in_flight_def)
  show ?thesis
  proof (cases r)
    case None
    then have "w' = w1" using assms(2) cl run c q by (auto simp: tick_def Let_def)
    then show ?thesis using d1 None by simp
  next
    case (Some e)
    then have "wd w' = MarkFailedIfInFlight (x_now x ''failed'') (c_deployment c) e (wd w1)"
      using assms(2) cl run c q by (auto simp: tick_def Let_def)
    moreover have "lookup_dep (MarkFailedIfInFlight (x_now x ''failed'') (c_deployment c) e (wd w1)) (c_deployment c)
        = Some (fail_row (x_now x ''failed'') e d1)"
      unfolding MarkFailedIfInFlight_def using d1 Some lookup_dep_Some[OF d1(1)]
      by (subst lookup_dep_upd) (auto simp: fail_row_def)
    ultimately show ?thesis using Some by (simp add: fail_row_def)
  qed
qed

theorem tick_settles_witness:
  "\<exists>c w' d. tick (demo_ext yes_api) \<lparr> wd = demo_db [demo_dep ''d1-00000'' ''aa'' Queued 3],
       wk = \<lparr> k_state = (), k_trace = [] \<rparr>, ws = [] \<rparr> = (Tick_ran c (Done None), w')
     \<and> lookup_dep (wd w') ''d1-00000'' = Some d \<and> d_status d = Ready"
proof -
  let ?s = "demo_db [demo_dep ''d1-00000'' ''aa'' Queued 3]"
  let ?w = "\<lparr> wd = ?s, wk = \<lparr> k_state = (), k_trace = [] \<rparr>, ws = [] \<rparr>"
  let ?c = "demo_claim ''refs/heads/main''"
  have ok: "deploys_ok (wd ?w)" by (simp add: deploys_ok_def demo_defs)
  have st: "snd (RequeueStale 50 buildTimeout ?s) = ?s"
    by (simp add: RequeueStale_def Let_def in_flight_def demo_defs)
  have cl: "ClaimNextQueued 50 ?s = (Inr (Some ?c), set_dep ''d1-00000'' (start_build 50) ?s)"
    by (simp add: ClaimNextQueued_def oldest_queued_def lookup_project_def lookup_inst_def demo_defs demo_claim_def)
  obtain w' where "runOne (demo_ext yes_api) ?c (?w\<lparr> wd := set_dep ''d1-00000'' (start_build 50) ?s \<rparr>) = (Done None, w')"
    using yes_run by blast
  then have t: "tick (demo_ext yes_api) ?w = (Tick_ran ?c (Done None), w')"
    by (simp add: tick_def Let_def cl st demo_ext_def)
  from tick_settles[OF ok t] t show ?thesis by (auto simp: demo_claim_def)
qed

section \<open>Isolation comes before the workload\<close>

lemma kext_run_steps:
  assumes "\<And>st a r b. st \<in> set fs \<Longrightarrow> snd st a = (r, b) \<Longrightarrow> kext P a b" "run_steps fs s = (q, s')"
  shows "kext P s s'"
  using assms
proof (induction fs arbitrary: s)
  case (Cons f fs)
  obtain what g where f: "f = (what, g)" by (cases f)
  obtain r s1 where g: "g s = (r, s1)" by (cases "g s")
  have k: "kext P s s1" using Cons.prems(1)[of f s r s1] f g by simp
  show ?case
  proof (cases r)
    case None
    then have "run_steps fs s1 = (q, s')" using Cons.prems(2) f g by simp
    then have "kext P s1 s'" using Cons.IH[of s1] Cons.prems(1) by (metis list.set_intros(2))
    then show ?thesis using kext_trans[OF k] by blast
  next
    case (Some e)
    then show ?thesis using Cons.prems(2) f g k by simp
  qed
qed simp

definition bootstrap_paths :: "string \<Rightarrow> string list" where
  "bootstrap_paths login =
     (let ns = tenantNamespaceFor login; sec = ns_path ''/api/v1'' ns ''secrets'' in
      [pull_secret_path, sec, obj_path sec dockerCfgSecret]
      @ concat (map (\<lambda>(what, coll, name, obj). [coll, obj_path coll name]) (tenant_objects login)))"

lemma kext_getSecretData:
  "getSecretData api b64 ns name s = (r, s') \<Longrightarrow> P (ns_path ''/api/v1'' ns ''secrets/'' @ pathEscape name)
     \<Longrightarrow> kext (on_path P) s s'"
  by (auto simp: getSecretData_def dest!: kext_kdo_path[where P = P]
      split: prod.splits kresp.splits if_splits option.splits sum.splits)

lemma kext_mirror:
  assumes "mirrorRegistryPullSecret api b64 enc (tenantNamespaceFor login) s = (r, s')"
  shows "kext (on_path (\<lambda>p. p \<in> set (bootstrap_paths login))) s s'"
proof -
  let ?P = "\<lambda>p. p \<in> set (bootstrap_paths login)"
  obtain g s1 where g: "getSecretData api b64 buildNamespace dockerCfgSecret s = (g, s1)"
    by (cases "getSecretData api b64 buildNamespace dockerCfgSecret s")
  have "ns_path ''/api/v1'' buildNamespace ''secrets/'' @ pathEscape dockerCfgSecret = pull_secret_path"
    by (simp add: pull_secret_path_def obj_path_def ns_path_def)
  then have k: "kext (on_path ?P) s s1"
    using kext_getSecretData[where P = ?P, OF g] by (simp add: bootstrap_paths_def Let_def)
  have "kext (on_path ?P) a b"
    if "applyDockerConfigSecret api enc (tenantNamespaceFor login) dockerCfgSecret body a = (q, b)" for a b q body
    using that unfolding applyDockerConfigSecret_def
    by (rule kext_kapply) (simp_all add: bootstrap_paths_def Let_def)
  moreover have "s' = s1 \<or> (\<exists>body. applyDockerConfigSecret api enc (tenantNamespaceFor login) dockerCfgSecret body s1 = (r, s'))"
    using assms g by (auto simp: mirrorRegistryPullSecret_def Let_def split: sum.splits option.splits if_splits)
  ultimately show ?thesis using k kext_trans by blast
qed

lemma kext_tenant_steps:
  assumes "st \<in> set (tenant_steps api b64 enc login)" "snd st a = (r, b)"
  shows "kext (on_path (\<lambda>p. p \<in> set (bootstrap_paths login))) a b"
proof -
  let ?P = "\<lambda>p. p \<in> set (bootstrap_paths login)"
  consider (obj) o1 where "o1 \<in> set (tenant_objects login)" "st = apply_step api o1"
    | (mirror) "st = (''mirror registry pull secret'', mirrorRegistryPullSecret api b64 enc (tenantNamespaceFor login))"
    using assms(1) unfolding tenant_steps_split by auto
  then show ?thesis
  proof cases
    case obj
    obtain what coll name ob where o1: "o1 = (what, coll, name, ob)" by (cases o1)
    have "coll \<in> set (bootstrap_paths login)" "obj_path coll name \<in> set (bootstrap_paths login)"
      using obj(1) o1 by (force simp: bootstrap_paths_def Let_def)+
    moreover have "kapply api coll name ob a = (r, b)" using assms(2) obj(2) o1 by (simp add: apply_step_def)
    ultimately show ?thesis by (intro kext_kapply[where P = ?P])
  next
    case mirror
    then show ?thesis using kext_mirror assms(2) by simp
  qed
qed

lemma kext_ensureTenant:
  assumes "ensureTenant api b64 enc login s = (r, s')"
  shows "kext (on_path (\<lambda>p. p \<in> set (bootstrap_paths login))) s s'"
proof -
  obtain q s1 where q: "run_steps (tenant_steps api b64 enc login) s = (q, s1)"
    by (cases "run_steps (tenant_steps api b64 enc login) s")
  then have "s' = s1" using assms by (auto simp: ensureTenant_def split: option.splits)
  then show ?thesis using kext_tenant_steps by (blast intro: kext_run_steps[OF _ q])
qed

text \<open>C10: no workload without isolation: when the tenant login is missing or \<open>ensureTenant\<close> fails, the deploy phase fails too,
  and all requests it has sent are those of \<open>ensureTenant\<close> itself (namespace, quota, limit range,
  network policies, pull secret): no Deployment, Service, route or environment secret is applied.\<close>
theorem isolation_before_workload:
  assumes "run_deploy x c w = (r, w')"
    and "c_login c = '''' \<or> (\<exists>e. fst (ensureTenant (x_api x) (x_b64 x) (x_enc x) (c_login c) (wk w)) = Inl e)"
  shows "(\<exists>e. r = Inl e) \<and> kext (on_path (\<lambda>p. p \<in> set (bootstrap_paths (c_login c)))) (wk w) (wk w')"
proof (cases "c_login c = ''''")
  case True
  then show ?thesis using assms(1) by (auto simp: run_deploy_def Let_def)
next
  case False
  then obtain e s' where e: "ensureTenant (x_api x) (x_b64 x) (x_enc x) (c_login c) (wk w) = (Inl e, s')"
    using assms(2) by (metis prod.collapse)
  then show ?thesis using assms(1) False kext_ensureTenant[OF e] by (auto simp: run_deploy_def Let_def on_kube_def)
qed

theorem isolation_before_workload_witness:
  "\<exists>e w'. run_deploy (demo_ext (\<lambda>r k. (Net_error ''down'', k))) (demo_claim ''refs/heads/main'') demo_world = (Inl e, w')"
proof -
  let ?x = "demo_ext (\<lambda>r k. (Net_error ''down'', k))"
  obtain r w' where r: "run_deploy ?x (demo_claim ''refs/heads/main'') demo_world = (r, w')"
    by (cases "run_deploy ?x (demo_claim ''refs/heads/main'') demo_world")
  have "\<exists>e. fst (ensureTenant (x_api ?x) (x_b64 ?x) (x_enc ?x) l s) = Inl e" for l s
    by (simp add: ensureTenant_def tenant_steps_def Let_def applyNamespace_def kapply_def kdo_def demo_ext_def)
  then have "\<exists>e. r = Inl e" using isolation_before_workload[OF r] by blast
  then show ?thesis using r by blast
qed

theorem failed_build_is_contained_witness:
  "\<exists>e w'. runOne ((demo_ext yes_api)\<lparr> x_token := (\<lambda>_. Inl ''401'') \<rparr>) (demo_claim ''refs/heads/main'') demo_world
      = (Done (Some e), w') \<and> wd w' = wd demo_world"
proof -
  let ?x = "(demo_ext yes_api)\<lparr> x_token := (\<lambda>_. Inl ''401'') \<rparr>"
  let ?c = "demo_claim ''refs/heads/main''"
  obtain r w' where r: "runOne ?x ?c demo_world = (r, w')" by (cases "runOne ?x ?c demo_world")
  have "buildJobName ''d1-00000'' = Some ''build-d100000''" by code_simp
  then have "fst (run_build ?x ?c demo_world) = Done (Some (wrap_err ''mint installation token'' ''401''))"
    by (simp add: run_build_def Let_def demo_claim_def demo_ext_def)
  then show ?thesis using failed_build_is_contained[OF r] r by auto
qed

section \<open>Previews leave production alone\<close>

lemma run_finish_preview:
  "\<not> is_production c \<Longrightarrow> wk (run_finish x c ns w) = wk w
     \<and> projects (wd (run_finish x c ns w)) = projects (wd w)"
  by (simp add: run_finish_def Let_def MarkReady_def)

text \<open>a preview deploy cannot affect production: for a commit that is not on the production branch,
  a successful run leaves every project row (and with it the production pointer) as it was and sends no request
  after the tenant's own objects were applied: no alias, no custom domain and no clean-up.\<close>
theorem preview_leaves_production:
  assumes "runOne x c w = (Done None, w')" "\<not> is_production c"
  shows "projects (wd w') = projects (wd w)
       \<and> (\<exists>w1 ns w2. run_build x c w = (Done None, w1) \<and> run_deploy x c w1 = (Inr ns, w2) \<and> wk w' = wk w2)"
proof -
  obtain w1 ns w2 where r: "run_build x c w = (Done None, w1)" "run_deploy x c w1 = (Inr ns, w2)"
    "w' = run_finish x c ns w2"
    "wd w2 = MarkDeploying (x_now x ''deploying'') (c_deployment c) (pull_image c) (wd w)"
    using runOne_success_cases[OF assms(1)] by metis
  then show ?thesis using run_finish_preview[OF assms(2), of x ns w2] by (auto simp: MarkDeploying_def)
qed

theorem preview_leaves_production_witness:
  "\<exists>w'. runOne (demo_ext yes_api) (demo_claim ''refs/heads/x'') demo_world = (Done None, w')
     \<and> projects (wd w') = [demo_project]"
proof -
  obtain w' where w': "runOne (demo_ext yes_api) (demo_claim ''refs/heads/x'') demo_world = (Done None, w')"
    using yes_run by blast
  have "\<not> is_production (demo_claim ''refs/heads/x'')" by (simp add: is_production_def demo_claim_def)
  from preview_leaves_production[OF w' this] w' show ?thesis by (simp add: demo_world_def demo_defs)
qed

section \<open>The production alias\<close>

lemma has_meta_route: "has_meta name (productionAliasManifest name ns host svc slug)"
  by (simp add: has_meta_def productionAliasManifest_def route_object_def)

text \<open>The intent to apply a production route.\<close>
definition route_intent :: "string \<Rightarrow> string \<Rightarrow> string \<Rightarrow> string \<Rightarrow> string \<Rightarrow> intent" where
  "route_intent ns name host svc slug =
     Apply (ns_path ''/apis/traefik.io/v1alpha1'' ns ''ingressroutes'') name (productionAliasManifest name ns host svc slug)"

text \<open>The production switch is atomic in what it records: if the API server is ready for the route and the namespace exists,
  the alias step points \<open>prod-<slug>\<close> at this commit's Service and in the same step sets
  the project's production pointer to this deployment.\<close>
theorem production_alias_switches:
  assumes "kube_contract (x_api x) S" "kube_serves (x_api x) S"
    and "ks_ready S (k_state (wk w)) [route_intent ns (prod_route (c_slug c)) (prod_host c) (deploy_name c) (c_slug c)]"
    and "home S (k_state (wk w)) (ns_path ''/apis/traefik.io/v1alpha1'' ns ''ingressroutes'')"
    and "lookup_dep (wd w) (c_deployment c) = Some d" "lookup_project (wd w) (c_project c) = Some p"
  shows "\<exists>w'. run_alias x c ns w = (''https://'' @ prod_host c, w')
     \<and> kept S (k_state (wk w')) (obj_path (ns_path ''/apis/traefik.io/v1alpha1'' ns ''ingressroutes'') (prod_route (c_slug c)))
         (productionAliasManifest (prod_route (c_slug c)) ns (prod_host c) (deploy_name c) (c_slug c))
     \<and> lookup_project (wd w') (c_project c) = Some (p\<lparr> p_prod_dep := Some (c_deployment c) \<rparr>)"
proof -
  let ?n = "prod_route (c_slug c)" and ?coll = "ns_path ''/apis/traefik.io/v1alpha1'' ns ''ingressroutes''"
  let ?o = "productionAliasManifest ?n ns (prod_host c) (deploy_name c) (c_slug c)"
  obtain k' where k: "applyIngressRoute (x_api x) ns ?n ?o (wk w) = (None, k')" "kept S (k_state k') (obj_path ?coll ?n) ?o"
    using kapply_ready[OF assms(1,2) has_meta_route assms(3) _ assms(4)] unfolding applyIngressRoute_def route_intent_def by force
  have did: "c_deployment c \<in> d_id ` set (deployments (wd w))" using lookup_dep_Some[OF assms(5)] by force
  have "lookup_project (snd (SetProductionDeployment (c_project c) (c_deployment c) (wd w))) (c_project c)
      = Some (p\<lparr> p_prod_dep := Some (c_deployment c) \<rparr>)"
    using did assms(6) by (simp add: SetProductionDeployment_def lookup_project_def find_upd_where_same)
  then show ?thesis using k by (auto simp: run_alias_def on_kube_def)
qed

text \<open>A cluster with one namespace.\<close>
definition ns_cluster :: "string \<Rightarrow> toy kube" where
  "ns_cluster ns = \<lparr> k_state = ([''/api/v1/namespaces/'' @ ns \<mapsto> []], 0), k_trace = [] \<rparr>"

lemma ns_cluster_home: "pathEscape ns = ns \<Longrightarrow> CHR ''/'' \<notin> set res \<Longrightarrow> home toy_server (k_state (ns_cluster ns)) (ns_path pre ns res)"
  by (simp add: home_def coll_ns_ns_path ns_cluster_def toy_server_def toy_look_def)

lemma toy_ready_route: "length name \<le> 253 \<Longrightarrow> ks_ready toy_server k [route_intent ns name host svc slug]"
  by (simp add: toy_server_def route_intent_def has_meta_route)

theorem production_alias_switches_witness:
  "\<exists>w'. run_alias (demo_ext toy_api) (demo_claim ''refs/heads/main'') ''ns''
       \<lparr> wd = demo_db [demo_dep ''d1-00000'' ''aa'' Ready 3], wk = ns_cluster ''ns'', ws = [] \<rparr>
     = (''https://octo-app.spinup.in'', w')
     \<and> lookup_project (wd w') ''p1'' = Some (demo_project\<lparr> p_prod_dep := Some ''d1-00000'' \<rparr>)"
proof -
  let ?c = "demo_claim ''refs/heads/main''"
  let ?w = "\<lparr> wd = demo_db [demo_dep ''d1-00000'' ''aa'' Ready 3], wk = ns_cluster ''ns'', ws = [] \<rparr>"
  have x: "x_api (demo_ext toy_api) = toy_api" by (simp add: demo_ext_def)
  have n: "pathEscape ''ns'' = ''ns''" by code_simp
  have h: "home toy_server (k_state (wk ?w)) (ns_path ''/apis/traefik.io/v1alpha1'' ''ns'' ''ingressroutes'')"
    using ns_cluster_home[OF n, of "''ingressroutes''" "''/apis/traefik.io/v1alpha1''"] by simp
  have r: "ks_ready toy_server (k_state (wk ?w)) [route_intent ''ns'' (prod_route (c_slug ?c)) (prod_host ?c) (deploy_name ?c) (c_slug ?c)]"
    by (rule toy_ready_route) (simp add: demo_claim_def prod_route_def)
  have d: "lookup_dep (wd ?w) (c_deployment ?c) = Some (demo_dep ''d1-00000'' ''aa'' Ready 3)"
    "lookup_project (wd ?w) (c_project ?c) = Some demo_project"
    by (simp_all add: lookup_dep_def lookup_project_def demo_claim_def demo_defs)
  obtain w' where "run_alias (demo_ext toy_api) ?c ''ns'' ?w = (''https://'' @ prod_host ?c, w')"
    "lookup_project (wd w') (c_project ?c) = Some (demo_project\<lparr> p_prod_dep := Some (c_deployment ?c) \<rparr>)"
    using production_alias_switches[of "demo_ext toy_api" toy_server, unfolded x, OF toy_contract toy_serves r h d] by blast
  then show ?thesis by (simp add: prod_host_def tenantHostZone_def demo_claim_def)
qed

section \<open>Clean-up\<close>

definition deletes_ok :: "'k api \<Rightarrow> bool" where
  "deletes_ok api \<longleftrightarrow>
     (\<forall>p k. \<exists>b j k'. api \<lparr> rq_meth = DELETE, rq_path = p, rq_body = None \<rparr> k = (Resp 200 b j, k'))"

definition lists_names :: "'k api \<Rightarrow> string \<Rightarrow> string list \<Rightarrow> bool" where
  "lists_names api path names \<longleftrightarrow>
     (\<forall>k. \<exists>b v k'. api \<lparr> rq_meth = GET, rq_path = path, rq_body = None \<rparr> k = (Resp 200 b (Some v), k')
        \<and> item_names v = names)"

lemma delete_names_trace:
  assumes "deletes_ok api"
  shows "k_trace (snd (delete_names api base res names s)) = k_trace s
      @ map (\<lambda>n. \<lparr> rq_meth = DELETE, rq_path = base @ ''/'' @ pathEscape n, rq_body = None \<rparr>) names"
proof (induction names arbitrary: s)
  case (Cons n names)
  let ?p = "base @ ''/'' @ pathEscape n"
  obtain b j k' where d: "api \<lparr> rq_meth = DELETE, rq_path = ?p, rq_body = None \<rparr> (k_state s) = (Resp 200 b j, k')"
    using assms unfolding deletes_ok_def by blast
  then have "deleteResource api ?p s = (None, \<lparr> k_state = k', k_trace = k_trace s
      @ [\<lparr> rq_meth = DELETE, rq_path = ?p, rq_body = None \<rparr>] \<rparr>)"
    by (simp add: deleteResource_def kdo_eq)
  then show ?case using Cons.IH by simp
qed simp

text \<open>after a production deploy every Service of the project that carries another commit label is
  deleted: each name the API lists for the selector \<open>paas.project=<slug>,paas.commit!=<sha8>\<close> is
  sent a DELETE.  This includes the Services of older ready deployments, which the instant rollback relies on.\<close>
theorem gc_deletes_old_services:
  assumes "deletes_ok (x_api x)"
    and "lists_names (x_api x)
           (label_path ''api/v1'' ns ''services'' @ ''?labelSelector='' @ queryEscape (gc_selector c)) names"
    and "n \<in> set names"
  shows "\<lparr> rq_meth = DELETE, rq_path = label_path ''api/v1'' ns ''services'' @ ''/'' @ pathEscape n, rq_body = None \<rparr>
           \<in> set (k_trace (wk (run_gc x c ns w)))"
proof -
  let ?base = "label_path ''api/v1'' ns ''services''"
  define w1 where "w1 = snd (on_kube (deleteAllByLabel (x_api x) ns ''apis/apps/v1'' ''deployments'' (gc_selector c)) w)"
  obtain b v k' where g: "x_api x \<lparr> rq_meth = GET, rq_path = ?base @ ''?labelSelector='' @ queryEscape (gc_selector c),
      rq_body = None \<rparr> (k_state (wk w1)) = (Resp 200 b (Some v), k')" "item_names v = names"
    using assms(2) unfolding lists_names_def by blast
  define s1 where "s1 = \<lparr> k_state = k', k_trace = k_trace (wk w1) @ [\<lparr> rq_meth = GET,
      rq_path = ?base @ ''?labelSelector='' @ queryEscape (gc_selector c), rq_body = None \<rparr>] \<rparr>"
  have "listResourceNames (x_api x) (?base @ ''?labelSelector='' @ queryEscape (gc_selector c)) (wk w1) = (Inr names, s1)"
    using g by (simp add: listResourceNames_def kdo_eq s1_def)
  then have "wk (run_gc x c ns w) = snd (delete_names (x_api x) ?base ''services'' names s1)"
    by (simp add: run_gc_def Let_def w1_def deleteAllByLabel_def)
  then show ?thesis using delete_names_trace[OF assms(1)] assms(3) by simp
qed

theorem gc_deletes_old_services_witness:
  "\<lparr> rq_meth = DELETE, rq_path = ''/api/v1/namespaces/ns/services/octo-app-old'', rq_body = None \<rparr>
     \<in> set (k_trace (wk (run_gc (demo_ext yes_api) (demo_claim ''refs/heads/main'') ''ns'' demo_world)))"
proof -
  let ?x = "demo_ext yes_api"
  have "deletes_ok (x_api ?x)" by (simp add: deletes_ok_def demo_ext_def yes_api_def)
  moreover have "lists_names (x_api ?x) p [''octo-app-old'']" for p
    by (simp add: lists_names_def demo_ext_def yes_api_def yes_json_def item_names_def jdefs)
  ultimately have "\<lparr> rq_meth = DELETE, rq_path = label_path ''api/v1'' ''ns'' ''services'' @ ''/'' @ pathEscape ''octo-app-old'',
      rq_body = None \<rparr> \<in> set (k_trace (wk (run_gc ?x (demo_claim ''refs/heads/main'') ''ns'' demo_world)))"
    by (rule gc_deletes_old_services) simp
  moreover have "label_path ''api/v1'' ''ns'' ''services'' @ ''/'' @ pathEscape ''octo-app-old''
      = ''/api/v1/namespaces/ns/services/octo-app-old''" by code_simp
  ultimately show ?thesis by (simp only:)
qed

end
