(* ===== verification/Api_Routes.thy ===== *)
theory Api_Routes
  imports Api_Projects Api_Databases Auth Builder_Props
begin

text \<open>
  The table \<open>apiHandlers\<close> of \<open>main.go\<close> for the routes on one project or one deployment, behind the session
  middleware, and what holds of all of them: tenant isolation, the schema's constraints, and the cluster
  paths they may touch.  Routes that only read for a page (telemetry, insights, logs, listings) are not in it.
\<close>

section \<open>The routes\<close>

datatype route = Patch_project | Delete_project | Redeploy | Promote | Deploy_now | Get_database | Create_database
  | List_env | Put_env | Delete_env | Get_status | Post_scale | List_domains | Add_domain | Verify_domain | Delete_domain

record ('k, 'g, 'p) site =
  st_srv :: "('k, 'g) srv"
  st_pg :: "'p pg"

record ('k, 'g, 'p) site_ext =
  se_srv :: "('k, 'g) srv_ext"
  se_pg :: "'p pg_ext"
  se_super :: string

definition db_handler :: "(db \<Rightarrow> http_reply \<times> db) \<Rightarrow> ('k, 'g) srv \<Rightarrow> http_reply option \<times> ('k, 'g) srv" where
  "db_handler h w = (let (r, d) = h (sv_db w) in (Some r, w\<lparr> sv_db := d \<rparr>))"

definition srv_handler :: "(('k, 'g) srv \<Rightarrow> http_reply \<times> ('k, 'g) srv) \<Rightarrow> ('k, 'g) srv \<Rightarrow> http_reply option \<times> ('k, 'g) srv" where
  "srv_handler h w = (let (r, w') = h w in (Some r, w'))"

text \<open>All routes but the creation of a database; no reply is a panic.\<close>
definition serve_srv :: "('k, 'g) srv_ext \<Rightarrow> route \<Rightarrow> user_req \<Rightarrow> ('k, 'g) srv \<Rightarrow> http_reply option \<times> ('k, 'g) srv" where
  "serve_srv x rt r =
     (case rt of
        Patch_project \<Rightarrow> db_handler (handlePatchProject r)
      | Delete_project \<Rightarrow> handleDeleteProject x r
      | Redeploy \<Rightarrow> srv_handler (handleRedeploy x r)
      | Promote \<Rightarrow> srv_handler (handlePromoteDeployment x r)
      | Deploy_now \<Rightarrow> srv_handler (handleDeployNow x r)
      | Get_database \<Rightarrow> db_handler (handleGetProjectDatabase r)
      | Create_database \<Rightarrow> (\<lambda>w. (None, w))
      | List_env \<Rightarrow> db_handler (handleListProjectEnv x r)
      | Put_env \<Rightarrow> db_handler (handleUpsertProjectEnv x r)
      | Delete_env \<Rightarrow> db_handler (handleDeleteProjectEnv r)
      | Get_status \<Rightarrow> srv_handler (handleProjectStatus x r)
      | Post_scale \<Rightarrow> srv_handler (handleProjectScale x r)
      | List_domains \<Rightarrow> db_handler (handleListProjectDomains x r)
      | Add_domain \<Rightarrow> db_handler (handleAddProjectDomain x r)
      | Verify_domain \<Rightarrow> srv_handler (handleVerifyProjectDomain x r)
      | Delete_domain \<Rightarrow> srv_handler (handleDeleteProjectDomain x r))"

definition serve :: "('k, 'g, 'p) site_ext \<Rightarrow> route \<Rightarrow> user_req \<Rightarrow> ('k, 'g, 'p) site \<Rightarrow> http_reply option \<times> ('k, 'g, 'p) site" where
  "serve x rt r w =
     (if rt = Create_database
      then (let (q, w1, p1) = handleCreateProjectDatabase (se_srv x) (se_pg x) (se_super x) r (st_srv w, st_pg w)
            in (Some q, w\<lparr> st_srv := w1, st_pg := p1 \<rparr>))
      else (let (q, w1) = serve_srv (se_srv x) rt r (st_srv w) in (q, w\<lparr> st_srv := w1 \<rparr>)))"

text \<open>\<open>s.requireUser(h, "json")\<close> around every handler of the table.\<close>
definition apiHandler ::
  "('k, 'g, 'p) site_ext \<Rightarrow> 'a auth_ext \<Rightarrow> auth_req \<Rightarrow> route \<Rightarrow> user_req \<Rightarrow> ('k, 'g, 'p) site
     \<Rightarrow> http_reply option \<times> ('k, 'g, 'p) site" where
  "apiHandler x ax aq rt r w =
     (case userFromRequest ax aq (sv_db (st_srv w)) of
        None \<Rightarrow> (Some (reply 401 [(''error'', JStr ''unauthenticated'')]), w)
      | Some u \<Rightarrow> serve x rt (r\<lparr> ur_user := Some u \<rparr>) w)"

section \<open>A site for the examples\<close>

definition demo_sx :: "(unit, unit) srv_ext" where
  "demo_sx = \<lparr> sx_api = yes_api, sx_gx = demo_gx, sx_b64 = Some, sx_enc = id, sx_now = 50, sx_id = ''n1-00000'',
     sx_random = Some ''rnd'', sx_txt = (\<lambda>_. Some [''paas-verify-726e64'']), sx_stamp = show_int \<rparr>"

definition demo_px :: "unit pg_ext" where
  "demo_px = \<lparr> px_parse = (\<lambda>u. Inr \<lparr> url_rest = u, url_path = ''/*'', url_query = [] \<rparr>), px_print = (\<lambda>u. url_rest u @ url_path u),
     px_connect = (\<lambda>_. None), px_has_role = (\<lambda>_ _. Inr True), px_has_db = (\<lambda>_ _. Inr True),
     px_exec = (\<lambda>_ s. (None, s)), px_b64url = id \<rparr>"

definition demo_sitex :: "(unit, unit, unit) site_ext" where
  "demo_sitex = \<lparr> se_srv = demo_sx, se_pg = demo_px, se_super = ''postgres://su'' \<rparr>"

definition demo_site :: "db \<Rightarrow> (unit, unit, unit) site" where
  "demo_site s = \<lparr> st_srv = \<lparr> sv_db = s, sv_kube = \<lparr> k_state = (), k_trace = [] \<rparr>, sv_gh = demo_gh \<rparr>,
     st_pg = \<lparr> pg_state = (), pg_trace = [] \<rparr> \<rparr>"

definition pid1 :: uuid where "pid1 = ''0a1b2c3d-0000-4000-8000-000000000001''"
definition did1 :: uuid where "did1 = ''d1000000-0000-4000-8000-000000000001''"

text \<open>Two users, one project of the first with one ready deployment, and a session of each.\<close>
definition site_db :: db where
  "site_db = (demo_db [(demo_dep did1 ''0123456789'' Ready 3)\<lparr> d_project := pid1 \<rparr>])
     \<lparr> projects := [demo_project\<lparr> p_id := pid1 \<rparr>],
       users := [demo_user, demo_user\<lparr> u_id := ''u2'', u_github := 43 \<rparr>],
       sessions := [\<lparr> ss_hash = ''keytok1'', ss_user = ''u1'', ss_agent = None, ss_ip = None, ss_expires = 99 \<rparr>,
                    \<lparr> ss_hash = ''keytok2'', ss_user = ''u2'', ss_agent = None, ss_ip = None, ss_expires = 99 \<rparr>] \<rparr>"

definition user1 :: sessionUser where
  "user1 = \<lparr> su_id = ''u1'', su_github = 42, su_login = ''octo'', su_email = '''', su_avatar = '''', su_admin = False \<rparr>"

definition cookie_req :: "string \<Rightarrow> auth_req" where "cookie_req c = demo_aq\<lparr> aq_session := Some c \<rparr>"

definition api_req :: "uuid \<Rightarrow> string \<Rightarrow> json option \<Rightarrow> user_req" where
  "api_req k nm j = \<lparr> ur_id = k, ur_name = nm, ur_json = j, ur_user = None \<rparr>"

lemmas site_defs = demo_sx_def demo_px_def demo_sitex_def demo_site_def site_db_def

lemma site_users:
  "userFromRequest demo_ax (cookie_req ''tok1'') site_db = Some user1"
  "userFromRequest demo_ax (cookie_req ''tok2'') site_db = Some (user1\<lparr> su_id := ''u2'', su_github := 43 \<rparr>)"
  "userFromRequest demo_ax (cookie_req ''tok3'') site_db = None"
  by (simp_all add: userFromRequest_def session_hash_def cookie_req_def demo_aq_def demo_ax_def demo_cfg_def
      hashSessionToken_def LookupSession_def site_db_def demo_defs lookup_user_def user1_def coalesce_def)

lemma site_uuids [simp]: "uuidRE pid1" "uuidRE did1" "uuid_in pid1 = Some pid1" "uuid_in did1 = Some did1"
  by code_simp+

lemma site_owners:
  "project_owner site_db pid1 = Some ''u1''" "deployment_owner site_db did1 = Some ''u1''"
  by (simp_all add: project_owner_def deployment_owner_def lookup_project_def lookup_dep_def site_db_def demo_defs)

section \<open>Tenant isolation\<close>

text \<open>Whose project a request is about: the routes of deployments name a deployment.  The id of the path counts as the value it casts to.\<close>
definition target_owner :: "route \<Rightarrow> db \<Rightarrow> string \<Rightarrow> uuid option" where
  "target_owner rt = named_by (if rt \<in> {Redeploy, Promote} then deployment_owner else project_owner)"

lemma named_by_other: "uuid_in txt = Some k \<Longrightarrow> named_by owner s txt = owner s k"
  by (simp add: named_by_def)

lemma authorise_foreign:
  assumes "ur_user r = Some u" "\<not> su_admin u" "su_id u \<noteq> ''''" "named_by project_owner s (ur_id r) \<noteq> Some (su_id u)"
  shows "authoriseProject r s = Inl (id_refusal (ur_id r))"
  using own_info.foreign_is_missing[OF assms(3)] assms(1,2,4)
  by (cases "uuid_in (ur_id r)") (simp_all add: authoriseProject_def scope_of_def id_refusal_def named_by_def)

lemma redeploy_foreign:
  assumes "su_id u \<noteq> ''''" "deployment_owner s k \<noteq> Some (su_id u)"
  shows "EnqueueRedeploy now f k (su_id u) s = (Inr ('''', ''''), s)"
  using assms by (auto simp: EnqueueRedeploy_def deployment_owner_def project_owner_def owner_matches_def split: option.splits)

lemma serve_srv_foreign:
  assumes "ur_user r = Some u" "\<not> su_admin u" "su_id u \<noteq> ''''" "rt \<noteq> Create_database"
    and "target_owner rt (sv_db w) (ur_id r) \<noteq> Some (su_id u)"
  shows "serve_srv x rt r w = (Some (err (id_refusal (ur_id r))), w)"
proof (cases "rt \<in> {Redeploy, Promote}")
  case True
  have d: "deployment_owner (sv_db w) k \<noteq> Some (su_id u)" if "uuid_in (ur_id r) = Some k" for k
    using True that assms(5) by (simp add: target_owner_def named_by_other)
  note o = redeploy_foreign[OF assms(3) d] own_dep.foreign_is_missing[OF assms(3) d]
  show ?thesis
    using True assms(1,2) o
    by (cases "uuid_in (ur_id r)")
       (auto simp: serve_srv_def srv_handler_def handleRedeploy_def handlePromoteDeployment_def scope_of_def on_db_def id_refusal_def)
next
  case False
  then have o: "named_by project_owner (sv_db w) (ur_id r) \<noteq> Some (su_id u)" using assms(5) by (simp add: target_owner_def)
  have t: "GetProjectForDeploy (sv_db w) k (su_id u) = None" if "uuid_in (ur_id r) = Some k" for k
    using o own_target.foreign_is_missing[OF assms(3)] that by (simp add: named_by_other)
  show ?thesis
    using False assms(1,2,4) authorise_foreign[OF assms(1,2,3) o] t
    by (cases rt; cases "uuid_in (ur_id r)")
       (simp_all add: id_refusal_def serve_srv_def srv_handler_def db_handler_def handlePatchProject_def handleDeleteProject_def
         handleDeployNow_def handleGetProjectDatabase_def handleListProjectEnv_def handleUpsertProjectEnv_def
         handleDeleteProjectEnv_def handleProjectStatus_def handleProjectScale_def handleListProjectDomains_def
         handleAddProjectDomain_def handleVerifyProjectDomain_def handleDeleteProjectDomain_def scope_of_def)
qed

text \<open>tenant isolation of the whole API: a signed-in user who is not an administrator and addresses a project or
  deployment of somebody else (or none) gets 404 (400 for a malformed id, 500 for one that does not cast to a uuid), the same on all sixteen routes, and nothing
  changes: not the database, not the cluster, not the PostgreSQL server, and no request is sent to any of them or to GitHub.\<close>
theorem api_tenant_isolation:
  assumes "userFromRequest ax aq (sv_db (st_srv w)) = Some u" "\<not> su_admin u" "su_id u \<noteq> ''''"
    and "target_owner rt (sv_db (st_srv w)) (ur_id r) \<noteq> Some (su_id u)"
  shows "apiHandler x ax aq rt r w = (Some (err (id_refusal (ur_id r))), w)"
proof (cases "rt = Create_database")
  case True
  then show ?thesis using assms authorise_foreign[of "r\<lparr> ur_user := Some u \<rparr>" u "sv_db (st_srv w)"]
    by (simp add: apiHandler_def serve_def handleCreateProjectDatabase_def target_owner_def Let_def)
next
  case False
  then show ?thesis using assms serve_srv_foreign[of "r\<lparr> ur_user := Some u \<rparr>" u rt "st_srv w" "se_srv x"]
    by (simp add: apiHandler_def serve_def)
qed

theorem api_tenant_isolation_witness:
  "apiHandler demo_sitex demo_ax (cookie_req ''tok2'') Delete_project (api_req pid1 '''' None) (demo_site site_db)
     = (Some (err 404), demo_site site_db)
   \<and> project_owner site_db pid1 = Some ''u1''"
proof -
  have u: "userFromRequest demo_ax (cookie_req ''tok2'') (sv_db (st_srv (demo_site site_db)))
      = Some (user1\<lparr> su_id := ''u2'', su_github := 43 \<rparr>)" using site_users(2) by (simp add: demo_site_def)
  have "apiHandler demo_sitex demo_ax (cookie_req ''tok2'') Delete_project (api_req pid1 '''' None) (demo_site site_db)
      = (Some (err (id_refusal (ur_id (api_req pid1 '''' None)))), demo_site site_db)"
    by (rule api_tenant_isolation[OF u])
       (simp_all add: user1_def target_owner_def named_by_def api_req_def demo_site_def site_owners)
  then show ?thesis by (simp add: api_req_def site_owners id_refusal_def)
qed

text \<open>no session, no effect: without a session cookie whose hash is in the table and has not expired, every route
  answers 401 and changes nothing.\<close>
theorem api_requires_session:
  assumes "\<And>c h. aq_session aq = Some c \<Longrightarrow> h \<in> set (sessions (sv_db (st_srv w))) \<Longrightarrow>
      ss_hash h = hashSessionToken (ax_mac ax) (ac_session_secret (ax_cfg ax)) c \<Longrightarrow> ss_expires h \<le> ax_now ax"
  shows "apiHandler x ax aq rt r w = (Some (reply 401 [(''error'', JStr ''unauthenticated'')]), w)"
proof -
  have "LookupSession (ax_now ax) h (sv_db (st_srv w)) = None" if sh: "session_hash ax aq = Some h" for h
  proof -
    obtain c where c: "aq_session aq = Some c" "h = hashSessionToken (ax_mac ax) (ac_session_secret (ax_cfg ax)) c"
      using sh by (auto simp: session_hash_def split: option.splits if_splits)
    have "\<not> (ss_hash z = h \<and> ss_expires z > ax_now ax)" if "z \<in> set (sessions (sv_db (st_srv w)))" for z
      using assms[OF c(1) that] c(2) by auto
    then have "find (\<lambda>z. ss_hash z = h \<and> ss_expires z > ax_now ax) (sessions (sv_db (st_srv w))) = None"
      unfolding find_None_iff by blast
    then show ?thesis by (simp add: LookupSession_def)
  qed
  then have "userFromRequest ax aq (sv_db (st_srv w)) = None"
    by (auto simp: userFromRequest_def split: option.splits)
  then show ?thesis by (simp add: apiHandler_def)
qed

theorem api_requires_session_witness:
  "apiHandler demo_sitex demo_ax (cookie_req ''tok3'') Promote (api_req did1 '''' None) (demo_site site_db)
     = (Some (reply 401 [(''error'', JStr ''unauthenticated'')]), demo_site site_db)"
  by (rule api_requires_session)
     (auto simp: cookie_req_def demo_aq_def demo_site_def site_db_def demo_defs demo_ax_def demo_cfg_def hashSessionToken_def)

end
