(* ===== verification/Api_Props.thy ===== *)
theory Api_Props
  imports Api_Routes
begin

text \<open>
  What the authenticated API guarantees: every route reaches the tables through the operations of the store
  only, host names are registered and verified under the rules of \<open>domain_handlers.go\<close>, and the cluster
  requests of a route stay inside the tenant namespace of its project.
\<close>

section \<open>Effects of a route on the tables\<close>

text \<open>\<open>calm\<close>: store operations that register and verify no domain.\<close>
definition calm :: "db \<Rightarrow> db \<Rightarrow> bool" where
  "calm s s' \<longleftrightarrow> db_steps s s' \<and> set (domains s') \<subseteq> set (domains s)"

lemma calm_refl [simp]: "calm s s"
  by (simp add: calm_def)

lemma calm_trans: "calm a b \<Longrightarrow> calm b c \<Longrightarrow> calm a c"
  by (auto simp: calm_def intro: rtranclp_trans)

lemma calm_step: "db_step s s' \<Longrightarrow> set (domains s') \<subseteq> set (domains s) \<Longrightarrow> calm s s'"
  by (simp add: calm_def step1)

lemma calm_ops:
  "calm s (UpdateProjectDisplayName pid nm s)"
  "calm s (UpdateProjectProductionBranch pid nm s)"
  "calm s (snd (EnqueueDeployment now f inst repo sha ref dlv trig opt s))"
  "calm s (snd (EnqueueRedeploy now f src uid s))"
  "calm s (snd (SetProductionDeployment pid did s))"
  "calm s (snd (CreateProjectDatabase x s))"
  "calm s (snd (UpsertProjectEnv now pid nm v s))"
  "calm s (snd (DeleteProjectEnv pid nm s))"
  "calm s (snd (DeleteProjectDomain pid nm s))"
  "calm s (snd (DeleteProject pid s))"
  for v :: string
  by (rule calm_step, rule db_step.intros,
      (auto simp: UpdateProjectDisplayName_def UpdateProjectProductionBranch_def EnqueueDeployment_def EnqueueRedeploy_def
        insert_deployment_def SetProductionDeployment_def CreateProjectDatabase_def UpsertProjectEnv_def DeleteProjectEnv_def
        DeleteProjectDomain_def DeleteProject_def Let_def split: option.splits if_splits)[1])+

lemmas calm_then = calm_ops[THEN calm_trans[rotated]]

lemma on_simps [simp]:
  "sv_db (snd (on_db f w)) = snd (f (sv_db w))" "sv_kube (snd (on_db f w)) = sv_kube w"
  "fst (on_db f w) = fst (f (sv_db w))"
  "sv_db (snd (on_k8s g w)) = sv_db w" "sv_kube (snd (on_k8s g w)) = snd (g (sv_kube w))"
  "fst (on_k8s g w) = fst (g (sv_kube w))"
  "sv_db (snd (on_gh h w)) = sv_db w" "sv_kube (snd (on_gh h w)) = sv_kube w"
  by (simp_all add: on_db_def on_k8s_def on_gh_def split: prod.splits)

lemma on_eqD:
  "on_db f w = (a, w') \<Longrightarrow> sv_db w' = snd (f (sv_db w)) \<and> sv_kube w' = sv_kube w \<and> a = fst (f (sv_db w))"
  "on_k8s g w = (b, w') \<Longrightarrow> sv_db w' = sv_db w \<and> sv_kube w' = snd (g (sv_kube w)) \<and> b = fst (g (sv_kube w))"
  "on_gh h w = (c, w') \<Longrightarrow> sv_db w' = sv_db w \<and> sv_kube w' = sv_kube w"
  using on_simps by (metis fst_conv snd_conv)+

lemma calm_patchBranch: "calm s (snd (patchBranch pid br resp s))"
  by (auto simp: patchBranch_def Let_def calm_ops split: option.splits)

lemma calm_patch: "calm s (snd (handlePatchProject r s))"
  by (auto simp: handlePatchProject_def Let_def split: sum.splits option.splits prod.splits
      intro: calm_patchBranch calm_trans[OF calm_ops(1) calm_patchBranch])

lemma calm_env:
  "calm s (snd (handleUpsertProjectEnv x r s))" "calm s (snd (handleDeleteProjectEnv r s))"
  using calm_ops(7,8)[of s]
  by (auto simp: handleUpsertProjectEnv_def handleDeleteProjectEnv_def Let_def split: sum.splits prod.splits)
    (metis snd_conv)+

lemma calm_redeploy: "calm (sv_db w) (sv_db (snd (handleRedeploy x r w)))"
  by (auto simp: handleRedeploy_def dest!: on_eqD(1) split: sum.splits prod.splits option.splits intro: calm_ops)

lemma calm_resolveHead: "resolveHead x pid p w = (a, w') \<Longrightarrow> calm (sv_db w) (sv_db w')"
  by (auto simp: resolveHead_def Let_def calm_ops dest!: on_eqD(3) split: sum.splits prod.splits if_splits)

lemma calm_deploy_now: "calm (sv_db w) (sv_db (snd (handleDeployNow x r w)))"
  by (auto simp: handleDeployNow_def dest!: on_eqD(1) calm_resolveHead split: sum.splits prod.splits option.splits
      intro: calm_ops calm_then)

lemma calm_promote: "calm (sv_db w) (sv_db (snd (handlePromoteDeployment x r w)))"
  by (auto simp: handlePromoteDeployment_def Let_def dest!: on_eqD(2) split: sum.splits prod.splits option.splits
      intro: calm_ops calm_then)

lemma calm_delete_domain: "calm (sv_db w) (sv_db (snd (handleDeleteProjectDomain x r w)))"
  by (auto simp: handleDeleteProjectDomain_def Let_def dest!: on_eqD(1) split: sum.splits prod.splits option.splits
      intro: calm_ops calm_then)

lemma calm_delete_project: "calm (sv_db w) (sv_db (snd (handleDeleteProject x r w)))"
  by (auto simp: handleDeleteProject_def Let_def dest!: on_eqD(1,2) split: sum.splits prod.splits option.splits
      intro: calm_ops calm_then)

lemma scale_db:
  "sv_db (snd (handleProjectStatus x r w)) = sv_db w" "sv_db (snd (handleProjectScale x r w)) = sv_db w"
  by (auto simp: handleProjectStatus_def handleProjectScale_def Let_def dest!: on_eqD(2)
      split: sum.splits prod.splits option.splits list.splits)

lemma calm_create_database:
  "handleCreateProjectDatabase x px su r (w, p) = (q, w', p') \<Longrightarrow> calm (sv_db w) (sv_db w')"
  by (auto simp: handleCreateProjectDatabase_def Let_def dest!: on_eqD(1,2) split: sum.splits prod.splits option.splits if_splits
      intro: calm_ops calm_then)

section \<open>Custom domains\<close>

lemma is_space_lower: "is_space (lower_char c) = is_space c"
proof (cases "is_upper c")
  case True
  then have "ccode (lower_char c) = ccode c + 32"
    by (simp add: lower_char_def is_upper_def of_char_of)
  then show ?thesis using True by (simp add: is_space_def is_upper_def)
qed (simp add: lower_char_id)

lemma normaliseHostname_idem [simp]: "normaliseHostname (normaliseHostname h) = normaliseHostname h"
proof -
  let ?t = "trim_space h"
  have "trim is_space (to_lower ?t) = to_lower ?t"
    using trim_hd[of is_space h] trim_last[of is_space h]
    by (intro trim_id) (auto simp: to_lower_def trim_space_def hd_map last_map is_space_lower)
  then show ?thesis by (simp add: normaliseHostname_def trim_space_def)
qed

lemma authorised:
  assumes "authoriseProject r s = Inr proj"
  obtains u where "ur_user r = Some u" "uuidRE (ur_id r)" "uuid_in (ur_id r) = Some (pi_id proj)"
    "GetProjectForOwner s (pi_id proj) (scope_of u) = Some proj" "scope_of u = '''' \<or> project_owner s (pi_id proj) = Some (scope_of u)"
proof -
  obtain u k where u: "ur_user r = Some u" "uuidRE (ur_id r)" "GetProjectForOwner s k (scope_of u) = Some proj" "uuid_in (ur_id r) = Some k"
    using assms by (auto simp: authoriseProject_def split: if_splits option.splits)
  have "pi_id proj = k"
    using u(3) by (auto simp: GetProjectForOwner_def owned_project_def lookup_project_Some split: option.splits if_splits)
  then show ?thesis using that u own_info.get_Some_owner[OF u(3)] by blast
qed

lemma steps_add_domain: "db_steps s (snd (handleAddProjectDomain x r s))"
proof -
  have "db_steps s d" if "AddProjectDomain n rnd pid h s = (a, d)" for n rnd pid h a d
    using step1[OF db_step.add_domain[of s n rnd pid h]] that by simp
  then show ?thesis by (auto simp: handleAddProjectDomain_def Let_def split: sum.splits prod.splits domain_error.splits)
qed

lemma steps_verify_domain: "db_steps (sv_db w) (sv_db (snd (handleVerifyProjectDomain x r w)))"
  by (auto simp: handleVerifyProjectDomain_def Let_def step1[OF db_step.verify_domain] split: sum.splits prod.splits option.splits)

lemma add_domain_rows:
  assumes "d' \<in> set (domains (snd (handleAddProjectDomain x r s)))" "d' \<notin> set (domains s)"
  shows "\<exists>proj. authoriseProject r s = Inr proj \<and> dm_project d' = pi_id proj \<and> dm_verified d' = None
     \<and> hostnameRE (dm_host d') \<and> \<not> platform_host (dm_host d') \<and> dm_host d' \<notin> dm_host ` set (domains s)"
  using assms
  by (auto simp: handleAddProjectDomain_def AddProjectDomain_def insert_domain_def Let_def
      split: sum.splits prod.splits option.splits if_splits domain_error.splits)

lemma verify_domain_rows:
  assumes "distinct (map dm_host (domains (sv_db w)))"
    and "d' \<in> set (domains (sv_db (snd (handleVerifyProjectDomain x r w))))" "d' \<notin> set (domains (sv_db w))"
  shows "\<exists>proj d rs t. authoriseProject r (sv_db w) = Inr proj \<and> d \<in> set (domains (sv_db w)) \<and> dm_project d = pi_id proj
     \<and> d' = d\<lparr> dm_verified := Some (sx_now x) \<rparr> \<and> dm_verified d = None
     \<and> sx_txt x (''_paas-verify.'' @ dm_host d) = Some rs \<and> t \<in> set rs \<and> trim_space t = dm_token d"
proof -
  obtain proj where p: "authoriseProject r (sv_db w) = Inr proj"
    using assms by (auto simp: handleVerifyProjectDomain_def split: sum.splits)
  let ?h = "normaliseHostname (ur_name r)"
  obtain d where d: "GetProjectDomain (sv_db w) (pi_id proj) ?h = Some d" "dm_verified d = None"
      "fst (checkVerificationTXT (sx_txt x) ?h (dm_token d))"
    and mark: "d' \<in> set (domains (snd (MarkDomainVerified (sx_now x) (pi_id proj) ?h (sv_db w))))"
    using assms p by (auto simp: handleVerifyProjectDomain_def Let_def split: option.splits prod.splits if_splits)
  obtain e where e: "e \<in> set (domains (sv_db w))" "domain_hit (pi_id proj) ?h e" "dm_verified e = None"
      "d' = e\<lparr> dm_verified := Some (sx_now x) \<rparr>"
    using mark assms(3) by (auto simp: MarkDomainVerified_def Let_def in_set_upd_where split: if_splits)
  have hd: "d \<in> set (domains (sv_db w))" "domain_hit (pi_id proj) ?h d"
    using d(1) by (auto simp: GetProjectDomain_def dest: find_SomeD)
  have "e = d" using assms(1) e(1,2) hd by (simp add: domain_hit_def distinct_map inj_on_def)
  moreover obtain rs t where "sx_txt x (''_paas-verify.'' @ ?h) = Some rs" "t \<in> set rs" "trim_space t = dm_token d"
    using d(3) by (auto simp: checkVerificationTXT_def split: option.splits)
  ultimately show ?thesis using p hd e(3,4)
    by (intro exI[of _ proj] exI[of _ d] exI[of _ rs] exI[of _ t]) (simp add: domain_hit_def)
qed

section \<open>The whole table of routes\<close>

lemma serve_srv_calm:
  assumes "serve_srv x rt r w = (q, w')" "rt \<notin> {Add_domain, Verify_domain}"
  shows "calm (sv_db w) (sv_db w')"
proof -
  have db: "calm (sv_db w) (sv_db (snd (db_handler h w)))" if "calm (sv_db w) (snd (h (sv_db w)))" for h
    using that by (auto simp: db_handler_def split: prod.splits)
  have sr: "calm (sv_db w) (sv_db (snd (srv_handler h w)))" if "calm (sv_db w) (sv_db (snd (h w)))" for h
    using that by (auto simp: srv_handler_def split: prod.splits)
  have same: "snd (handleGetProjectDatabase r s) = s" "snd (handleListProjectEnv x r s) = s"
      "snd (handleListProjectDomains x r s) = s" for s
    by (simp_all add: handleGetProjectDatabase_def handleListProjectEnv_def handleListProjectDomains_def
        split: sum.splits option.splits)
  have "calm (sv_db w) (sv_db (snd (serve_srv x rt r w)))"
    using assms(2)
    by (cases rt) (simp_all add: serve_srv_def db sr same calm_patch calm_env calm_redeploy calm_deploy_now calm_promote
        calm_delete_domain calm_delete_project scale_db)
  then show ?thesis using assms(1) by simp
qed

lemma serve_steps:
  assumes "serve x rt r w = (q, w')"
  shows "db_steps (sv_db (st_srv w)) (sv_db (st_srv w'))"
    "rt \<notin> {Add_domain, Verify_domain} \<Longrightarrow> set (domains (sv_db (st_srv w'))) \<subseteq> set (domains (sv_db (st_srv w)))"
proof -
  have c: "calm (sv_db (st_srv w)) (sv_db (st_srv w'))" if "rt \<notin> {Add_domain, Verify_domain}"
  proof (cases "rt = Create_database")
    case True
    then show ?thesis using assms calm_create_database
      by (auto simp: serve_def split: prod.splits)
  next
    case False
    then show ?thesis using assms that by (auto simp: serve_def split: prod.splits dest: serve_srv_calm)
  qed
  then show "rt \<notin> {Add_domain, Verify_domain} \<Longrightarrow>
      set (domains (sv_db (st_srv w'))) \<subseteq> set (domains (sv_db (st_srv w)))" by (simp add: calm_def)
  show "db_steps (sv_db (st_srv w)) (sv_db (st_srv w'))"
    using c assms steps_add_domain[of "sv_db (st_srv w)" "se_srv x" r] steps_verify_domain[of "st_srv w" "se_srv x" r]
    by (cases "rt \<in> {Add_domain, Verify_domain}")
       (auto simp: calm_def serve_def serve_srv_def db_handler_def srv_handler_def split: prod.splits)
qed

text \<open>The constraints under the API: whatever a signed-in client requests, the tables change by operations of the
  store only, so every constraint of the schema holds afterwards.\<close>
theorem api_keeps_constraints:
  assumes "db_ok (sv_db (st_srv w))"
  shows "db_steps (sv_db (st_srv w)) (sv_db (st_srv (snd (apiHandler x ax aq rt r w))))
       \<and> db_ok (sv_db (st_srv (snd (apiHandler x ax aq rt r w))))"
proof -
  have "db_steps (sv_db (st_srv w)) (sv_db (st_srv (snd (apiHandler x ax aq rt r w))))"
    using serve_steps(1)[OF surjective_pairing] by (auto simp: apiHandler_def split: option.splits)
  then show ?thesis using db_steps_ok assms by blast
qed

text \<open>C17: Where domains come from: a row that is new after a request belongs to a project the caller may manage, and is
  either a fresh unverified registration of a well-formed host outside the platform's names that nobody had registered,
  or a registered row that was just verified because its token is published in the TXT record of that host.\<close>
theorem domain_rules:
  assumes "apiHandler x ax aq rt r w = (q, w')" "db_ok (sv_db (st_srv w))"
    and "d' \<in> set (domains (sv_db (st_srv w')))" "d' \<notin> set (domains (sv_db (st_srv w)))"
  shows "\<exists>u. userFromRequest ax aq (sv_db (st_srv w)) = Some u
    \<and> (scope_of u = '''' \<or> project_owner (sv_db (st_srv w)) (dm_project d') = Some (scope_of u))
    \<and> ((dm_verified d' = None \<and> hostnameRE (dm_host d') \<and> \<not> platform_host (dm_host d')
          \<and> dm_host d' \<notin> dm_host ` set (domains (sv_db (st_srv w))))
       \<or> (\<exists>d rs t. d \<in> set (domains (sv_db (st_srv w))) \<and> dm_verified d = None
            \<and> d' = d\<lparr> dm_verified := Some (sx_now (se_srv x)) \<rparr>
            \<and> sx_txt (se_srv x) (''_paas-verify.'' @ dm_host d) = Some rs \<and> t \<in> set rs \<and> trim_space t = dm_token d))"
proof -
  let ?s = "sv_db (st_srv w)"
  obtain u where u: "userFromRequest ax aq ?s = Some u" and sv: "serve x rt (r\<lparr> ur_user := Some u \<rparr>) w = (q, w')"
    using assms(1,3,4) by (auto simp: apiHandler_def split: option.splits)
  let ?r = "r\<lparr> ur_user := Some u \<rparr>"
  have own: "scope_of u = '''' \<or> project_owner ?s (pi_id proj) = Some (scope_of u)" if "authoriseProject ?r ?s = Inr proj" for proj
    using authorised[OF that] by fastforce
  consider "rt = Add_domain" | "rt = Verify_domain" using serve_steps(2)[OF sv] assms(3,4) by blast
  then show ?thesis
  proof cases
    case 1
    then have "d' \<in> set (domains (snd (handleAddProjectDomain (se_srv x) ?r ?s)))"
      using sv assms(3) by (auto simp: serve_def serve_srv_def db_handler_def split: prod.splits)
    from add_domain_rows[OF this assms(4)] show ?thesis using u own by auto
  next
    case 2
    then have d': "d' \<in> set (domains (sv_db (snd (handleVerifyProjectDomain (se_srv x) ?r (st_srv w)))))"
      using sv assms(3) by (auto simp: serve_def serve_srv_def srv_handler_def split: prod.splits)
    have "distinct (map dm_host (domains ?s))" using assms(2) by (simp add: db_ok_def extras_ok_def)
    from verify_domain_rows[OF this d' assms(4)] show ?thesis using u own by fastforce
  qed
qed

lemma db_ok_site: "db_ok site_db"
  by (simp add: site_db_def demo_defs db_ok_def installs_ok_def projects_ok_def deploys_ok_def users_ok_def extras_ok_def)

theorem api_keeps_constraints_witness:
  "db_ok (sv_db (st_srv (snd (apiHandler demo_sitex demo_ax (cookie_req ''tok1'') Delete_project (api_req pid1 '''' None)
      (demo_site site_db)))))"
  using api_keeps_constraints[of "demo_site site_db"] db_ok_site by (simp add: demo_site_def)

definition owner_req :: "uuid \<Rightarrow> string \<Rightarrow> json option \<Rightarrow> user_req" where
  "owner_req k nm j = (api_req k nm j)\<lparr> ur_user := Some user1 \<rparr>"

definition site_proj :: projectInfo where
  "site_proj = \<lparr> pi_id = pid1, pi_slug = ''octo-app'', pi_login = ''Octo'', pi_owner = ''u1'' \<rparr>"

lemma site_authorise: "authoriseProject (owner_req pid1 nm j) site_db = Inr site_proj"
proof -
  have "GetProjectForOwner site_db pid1 ''u1'' = Some site_proj"
    by (simp add: GetProjectForOwner_def owned_project_def lookup_project_def lookup_inst_def install_login_def site_db_def
        demo_defs owner_matches_def site_proj_def coalesce_def)
  then show ?thesis by (simp add: authoriseProject_def owner_req_def api_req_def user1_def scope_of_def)
qed

lemma owner_req_simps [simp]: "ur_id (owner_req k nm j) = k" "ur_name (owner_req k nm j) = nm" "ur_json (owner_req k nm j) = j"
  "ur_user (owner_req k nm j) = Some user1"
  by (simp_all add: owner_req_def api_req_def)

theorem domain_rules_witness:
  "\<exists>q w' d'. apiHandler demo_sitex demo_ax (cookie_req ''tok1'') Add_domain
       (api_req pid1 '''' (Some (JObj [(''hostname'', JStr ''App.example.com'')]))) (demo_site site_db) = (q, w')
     \<and> d' \<in> set (domains (sv_db (st_srv w'))) \<and> dm_host d' = ''app.example.com'' \<and> dm_project d' = pid1
     \<and> \<not> platform_host (dm_host d')"
proof -
  let ?r = "api_req pid1 '''' (Some (JObj [(''hostname'', JStr ''App.example.com'')]))"
  let ?o = "owner_req pid1 '''' (Some (JObj [(''hostname'', JStr ''App.example.com'')]))"
  let ?d = "\<lparr> dm_project = pid1, dm_host = ''app.example.com'', dm_token = ''paas-verify-726e64'', dm_verified = None, dm_created = 50 \<rparr>"
  let ?h = "apiHandler demo_sitex demo_ax (cookie_req ''tok1'') Add_domain ?r (demo_site site_db)"
  have hh: "normaliseHostname ''App.example.com'' = ''app.example.com''" "hostnameRE ''app.example.com''"
    "hostname_check ''app.example.com''" "\<not> platform_host ''app.example.com''" "generateDomainToken (Some ''rnd'') = Some ''paas-verify-726e64''"
    "normaliseHostname ''app.example.com'' = ''app.example.com''"
    by code_simp+
  have s0: "domains site_db = []" "pid1 \<in> p_id ` set (projects site_db)"
    by (simp_all add: site_db_def demo_defs)
  have um: "unmarshal (ur_json ?o) [''hostname''] dec_str = (''App.example.com'', True)"
    by (simp add: unmarshal_def obj_ok_def)
  have "?d \<in> set (domains (snd (handleAddProjectDomain demo_sx ?o site_db)))"
    using site_authorise um hh s0
    by (simp add: handleAddProjectDomain_def Let_def AddProjectDomain_def insert_domain_def demo_sx_def site_proj_def)
  moreover have "snd (handleAddProjectDomain demo_sx ?o site_db) = sv_db (st_srv (snd ?h))"
    using site_users(1)
    by (simp add: apiHandler_def demo_site_def demo_sitex_def serve_def serve_srv_def db_handler_def owner_req_def split: prod.splits)
  ultimately have d: "?d \<in> set (domains (sv_db (st_srv (snd ?h))))" by simp
  moreover have "?d \<notin> set (domains (sv_db (st_srv (demo_site site_db))))" "db_ok (sv_db (st_srv (demo_site site_db)))"
    using s0 db_ok_site by (simp_all add: demo_site_def)
  ultimately have "\<not> platform_host (dm_host ?d)"
    using domain_rules[OF surjective_pairing, of "demo_site site_db" ?d demo_sitex demo_ax "cookie_req ''tok1''" Add_domain ?r]
    by (auto simp: demo_site_def s0)
  then show ?thesis using d by (intro exI[of _ "fst ?h"] exI[of _ "snd ?h"] exI[of _ ?d]) simp
qed

end
