(* ===== verification/Api_Scope.thy ===== *)
theory Api_Scope
  imports Api_Props
begin

text \<open>
  Which cluster paths the routes of the API may touch: those of the tenant namespace of the project
  addressed, the bootstrap of that namespace, and, for deletion, the build Jobs and clone Secrets.
\<close>

section \<open>Paths\<close>

definition in_tenant :: "string \<Rightarrow> string \<Rightarrow> bool" where
  "in_tenant login p \<longleftrightarrow> (\<exists>pre q. p = ns_path pre (tenantNamespaceFor login) q)"

definition in_builds :: "string \<Rightarrow> bool" where
  "in_builds p \<longleftrightarrow> (\<exists>pre q. p = ns_path pre buildNamespace q)"

text \<open>What a route for a project of \<open>login\<close> may address: the tenant's namespace; the bootstrap of the namespace only to create a database, and the
  build namespace only to delete the project.\<close>
definition route_path :: "route \<Rightarrow> string \<Rightarrow> string \<Rightarrow> bool" where
  "route_path rt login p \<longleftrightarrow> in_tenant login p \<or> rt = Create_database \<and> p \<in> set (bootstrap_paths login) \<or> rt = Delete_project \<and> in_builds p"

lemma in_tenant_ns [simp]:
  "in_tenant login (ns_path pre (tenantNamespaceFor login) q)"
  "in_tenant login (ns_path pre (tenantNamespaceFor login) q @ z)"
  "in_tenant login (obj_path (ns_path pre (tenantNamespaceFor login) q) n)"
  "in_tenant login (label_path pre (tenantNamespaceFor login) q)"
  "in_tenant login (label_path pre (tenantNamespaceFor login) q @ z)"
  by (auto simp: in_tenant_def ns_path_def obj_path_def label_path_def)
    (metis append.assoc append_Cons append_Nil)+

lemma in_builds_ns [simp]:
  "in_builds (ns_path pre buildNamespace q)"
  "in_builds (ns_path pre buildNamespace q @ z)"
  "in_builds (label_path pre buildNamespace q)"
  "in_builds (label_path pre buildNamespace q @ z)"
  by (auto simp: in_builds_def ns_path_def obj_path_def label_path_def)
    (metis append.assoc append_Cons append_Nil)+

section \<open>Commands\<close>

lemma kext_snd_kdo: "P p \<Longrightarrow> kext (on_path P) s (snd (kdo api m p b s))"
  by (rule kext_kdo_path[OF surjective_pairing])

text \<open>The commands that send one request.\<close>
lemma one_request:
  "snd (deleteResource api p s) = snd (kdo api DELETE p None s)"
  "snd (listResourceNames api p s) = snd (kdo api GET p None s)"
  "snd (listDeployments api ns sel s)
     = snd (kdo api GET (ns_path ''/apis/apps/v1'' ns ''deployments?labelSelector='' @ queryEscape sel) None s)"
  "snd (getDeploymentScale api ns n s) = snd (kdo api GET (ns_path ''/apis/apps/v1'' ns ''deployments/'' @ pathEscape n) None s)"
  "snd (deleteIngressRoute api ns n s)
     = snd (kdo api DELETE (ns_path ''/apis/traefik.io/v1alpha1'' ns ''ingressroutes/'' @ pathEscape n) None s)"
  by (simp_all add: deleteResource_def listResourceNames_def listDeployments_def getDeploymentScale_def deleteIngressRoute_def
      split: prod.splits kresp.splits option.splits)

lemma kext_patch: "P (ns_path ''/apis/apps/v1'' ns ''deployments/'' @ pathEscape n @ ''/scale'') \<Longrightarrow>
    kext (on_path P) s (snd (patchDeploymentScale api ns n rep s))"
  by (auto simp: patchDeploymentScale_def dest!: kext_kdo_path[where P = P] split: prod.splits kresp.splits)

lemma kext_delete_names:
  "(\<And>n. P (base @ ''/'' @ pathEscape n)) \<Longrightarrow> kext (on_path P) s (snd (delete_names api base res nms s))"
proof (induction nms arbitrary: s)
  case (Cons n nms)
  obtain e s1 where d: "deleteResource api (base @ ''/'' @ pathEscape n) s = (e, s1)"
    by (cases "deleteResource api (base @ ''/'' @ pathEscape n) s")
  then have "kext (on_path P) s s1"
    using one_request(1)[of api "base @ ''/'' @ pathEscape n" s] kext_snd_kdo[of P, OF Cons.prems] by (metis snd_conv)
  then show ?case using Cons.IH[OF Cons.prems, of s1] d kext_trans by (cases e) auto
qed simp

lemma kext_deleteAll:
  assumes "\<And>z. P (label_path pre ns res @ z)"
  shows "kext (on_path P) s (snd (deleteAllByLabel api ns pre res sel s))"
proof -
  let ?p = "label_path pre ns res @ ''?labelSelector='' @ queryEscape sel"
  obtain q s1 where l: "listResourceNames api ?p s = (q, s1)" by (cases "listResourceNames api ?p s")
  then have k: "kext (on_path P) s s1"
    using one_request(2)[of api ?p s] kext_snd_kdo[of P, OF assms] by (metis snd_conv)
  have d: "kext (on_path P) s1 (snd (delete_names api (label_path pre ns res) res nms s1))" for nms
    by (rule kext_delete_names) (rule assms)
  show ?thesis using l k by (auto simp: deleteAllByLabel_def Let_def split: sum.splits intro: kext_trans[OF k d])
qed

lemma kext_sum_scales:
  "(\<And>n. P (ns_path ''/apis/apps/v1'' ns ''deployments/'' @ pathEscape n)) \<Longrightarrow>
     kext (on_path P) s (snd (sum_scales api ns nms acc s))"
proof (induction nms arbitrary: acc s)
  case (Cons n nms)
  obtain q s1 where g: "getDeploymentScale api ns n s = (q, s1)" by (cases "getDeploymentScale api ns n s")
  then have k: "kext (on_path P) s s1"
    using one_request(4)[of api ns n s] kext_snd_kdo[of P, OF Cons.prems] by (metis snd_conv)
  show ?case using g k by (auto split: sum.splits option.splits intro: kext_trans[OF k Cons.IH[OF Cons.prems]])
qed simp

lemma kext_fanout:
  "(\<And>n. P (ns_path ''/apis/apps/v1'' ns ''deployments/'' @ pathEscape n @ ''/scale'')) \<Longrightarrow>
     kext (on_path P) s (snd (fanoutScale api ns nms rep s))"
proof (induction nms arbitrary: s)
  case (Cons n nms)
  have "kext (on_path P) s (snd (patchDeploymentScale api ns n rep s))" by (rule kext_patch) (rule Cons.prems)
  then show ?case using Cons.IH[OF Cons.prems, of "snd (patchDeploymentScale api ns n rep s)"] kext_trans
    by (auto split: prod.splits option.splits)
qed simp

lemma kext_collect: "(\<And>c s. c \<in> set cs \<Longrightarrow> kext P s (snd (c s))) \<Longrightarrow> kext P s (snd (collect cs s))"
proof (induction cs arbitrary: s)
  case (Cons c cs)
  have "kext P s (snd (c s))" "kext P (snd (c s)) (snd (collect cs (snd (c s))))"
    using Cons.prems Cons.IH by auto
  then show ?case using kext_trans by (auto split: prod.splits)
qed simp

lemma kext_promoteDomains:
  "kext (on_path (in_tenant login)) s (snd (promoteDomains api (tenantNamespaceFor login) svc slug hs s))"
proof (induction hs arbitrary: s)
  case (Cons h hs)
  let ?f = "applyIngressRoute api (tenantNamespaceFor login) (customDomainRouteName h)
    (productionAliasManifest (customDomainRouteName h) (tenantNamespaceFor login) h svc slug)"
  have "kext (on_path (in_tenant login)) s (snd (?f s))"
    unfolding applyIngressRoute_def by (rule kext_kapply[OF surjective_pairing]) simp_all
  then show ?case using Cons.IH[of "snd (?f s)"] kext_trans by (auto split: prod.splits)
qed simp

section \<open>Operations of the handlers\<close>

lemma route_path_tenant: "in_tenant login p \<Longrightarrow> route_path rt login p" by (simp add: route_path_def)

lemma kext_route: "kext (on_path (in_tenant login)) s s' \<Longrightarrow> kext (on_path (route_path rt login)) s s'"
  by (rule kext_mono[where P = "on_path (in_tenant login)"]) (simp_all add: on_path_def route_path_def)

lemma kext_applyRoute:
  "kext (on_path (in_tenant login)) s (snd (applyIngressRoute api (tenantNamespaceFor login) n obj s))"
  unfolding applyIngressRoute_def by (rule kext_kapply[OF surjective_pairing]) simp_all

lemma kext_publish: "kext (on_path (in_tenant (pi_login proj))) s (snd (publishDomainRoute api d proj host s))"
  by (simp add: publishDomainRoute_def Let_def kext_applyRoute)

lemma kext_delete_route: "kext (on_path (in_tenant (pi_login proj))) s (snd (deleteDomainRoute api proj host s))"
  by (simp add: deleteDomainRoute_def one_request kext_snd_kdo)

lemma kext_list:
  "kext (on_path (in_tenant login)) s (snd (listDeployments api (tenantNamespaceFor login) sel s))"
  by (simp add: one_request kext_snd_kdo)

lemma kext_readScale: "kext (on_path (in_tenant (pi_login proj))) s (snd (readProjectScale api proj s))"
proof -
  let ?ns = "tenantNamespaceFor (pi_login proj)"
  obtain q s1 where l: "listDeployments api ?ns (project_selector (pi_slug proj)) s = (q, s1)"
    by (cases "listDeployments api ?ns (project_selector (pi_slug proj)) s")
  have k: "kext (on_path (in_tenant (pi_login proj))) s s1"
    using kext_list[of "pi_login proj" s api "project_selector (pi_slug proj)"] l by simp
  have "kext (on_path (in_tenant (pi_login proj))) s1 (snd (sum_scales api ?ns nms acc s1))" for nms acc
    by (rule kext_sum_scales) simp
  then have "kext (on_path (in_tenant (pi_login proj))) s1 s2" if "sum_scales api ?ns nms acc s1 = (a, s2)" for nms acc a s2
    using that by (metis snd_conv)
  then show ?thesis using l k
    by (auto simp: readProjectScale_def Let_def split: sum.splits prod.splits intro: kext_trans[OF k])
qed

lemma kext_applyDBSecret: "kext (on_path (route_path Create_database login)) s (snd (applyDBSecret x login pd s))"
proof -
  obtain q s1 where t: "ensureTenant (sx_api x) (sx_b64 x) (sx_enc x) login s = (q, s1)"
    by (cases "ensureTenant (sx_api x) (sx_b64 x) (sx_enc x) login s")
  have k: "kext (on_path (route_path Create_database login)) s s1"
    using kext_ensureTenant[OF t] by (rule kext_mono) (simp add: on_path_def route_path_def)
  show ?thesis
  proof (cases q)
    case (Inr ns)
    then have "ns = tenantNamespaceFor login" using t by (auto simp: ensureTenant_def Let_def split: prod.splits option.splits)
    moreover have "kext (on_path (in_tenant login)) s1 (snd (applySecret (sx_api x) (tenantNamespaceFor login) n d l s1))" for n d l
      unfolding applySecret_def by (rule kext_kapply[OF surjective_pairing]) simp_all
    ultimately show ?thesis using t Inr by (auto simp: applyDBSecret_def intro: kext_trans[OF k kext_route])
  qed (use t k in \<open>simp add: applyDBSecret_def\<close>)
qed

lemma kext_delete_ops:
  "kext (on_path (route_path Delete_project login)) s (snd (deleteSecret api (tenantNamespaceFor login) n s))"
  "kext (on_path (route_path Delete_project login)) s (snd (deleteSecret api buildNamespace n s))"
  "kext (on_path (route_path Delete_project login)) s (snd (deleteAllByLabel api (tenantNamespaceFor login) pre res sel s))"
  "kext (on_path (route_path Delete_project login)) s (snd (deleteAllByLabel api buildNamespace pre res sel s))"
  by (simp_all add: deleteSecret_def one_request kext_snd_kdo kext_deleteAll route_path_def)

lemma kext_teardown: "kext (on_path (route_path Delete_project (pm_login m))) s (snd (teardownProjectResources api d m s))"
proof -
  have cmd: "kext (on_path (route_path Delete_project (pm_login m))) s (snd (c s))"
    if "c \<in> set (tenant_teardown api m @ [deleteAllByLabel api buildNamespace pre res sel]
          @ map (\<lambda>j. deleteSecret api buildNamespace (f j)) js)" for c s pre res sel f and js :: "string option list"
    using that by (auto simp: tenant_teardown_def Let_def kext_delete_ops split: if_splits)
  have snd_case: "snd (case p of (a, k) \<Rightarrow> if b then (None, k) else (Some (g a), k)) = snd p"
    for p :: "string list \<times> 'a kube" and b and g :: "string list \<Rightarrow> string list"
    by (cases p) simp
  have "\<exists>pre res sel f js. snd (teardownProjectResources api d m s)
      = snd (collect (tenant_teardown api m @ [deleteAllByLabel api buildNamespace pre res sel]
          @ map (\<lambda>j. deleteSecret api buildNamespace (f j)) (js :: string option list)) s)"
    unfolding teardownProjectResources_def Let_def
    by (intro exI) (rule snd_case)
  then show ?thesis by (elim exE) (simp only:, rule kext_collect, erule cmd)
qed

section \<open>Handlers\<close>

abbreviation within :: "route \<Rightarrow> string \<Rightarrow> ('k, 'g) srv \<Rightarrow> ('k, 'g) srv \<Rightarrow> bool" where
  "within rt login w w' \<equiv> kext (on_path (route_path rt login)) (sv_kube w) (sv_kube w')"

text \<open>The login of the project of an authorised request.\<close>
definition target_login :: "route \<Rightarrow> db \<Rightarrow> string \<Rightarrow> string" where
  "target_login rt s txt =
     (case uuid_in txt of
        None \<Rightarrow> ''''
      | Some k \<Rightarrow> if rt = Promote then GetDeploymentTenantLogin s k ''''
                   else (case GetProjectForOwner s k '''' of None \<Rightarrow> '''' | Some p \<Rightarrow> pi_login p))"

lemma authorised_login:
  assumes "authoriseProject r s = Inr proj" "rt \<noteq> Promote"
  shows "pi_login proj = target_login rt s (ur_id r)"
  using assms by (elim authorised) (simp add: target_login_def own_info.get_Some_raw)

lemma within_on:
  "on_db f w = (a, w') \<Longrightarrow> within rt l w w'"
  "on_gh h w = (c, w') \<Longrightarrow> within rt l w w'"
  by (drule on_eqD, simp)+

lemma within_k8s: "on_k8s g w = (b, w') \<Longrightarrow> kext P (sv_kube w) (snd (g (sv_kube w))) \<Longrightarrow> kext P (sv_kube w) (sv_kube w')"
  by (drule on_eqD, simp)

lemma within_resolveHead: "resolveHead x pid p w = (a, w') \<Longrightarrow> sv_kube w' = sv_kube w"
  by (auto simp: resolveHead_def Let_def dest!: on_eqD(3) split: sum.splits prod.splits if_splits)

lemma kube_deploy_now: "sv_kube (snd (handleDeployNow x r w)) = sv_kube w"
  by (auto simp: handleDeployNow_def dest!: on_eqD(1) within_resolveHead split: sum.splits prod.splits option.splits)

lemma kube_redeploy: "sv_kube (snd (handleRedeploy x r w)) = sv_kube w"
  by (auto simp: handleRedeploy_def dest!: on_eqD(1) split: sum.splits prod.splits option.splits)

lemma within_verify:
  "authoriseProject r (sv_db w) = Inr proj \<Longrightarrow> within rt (pi_login proj) w (snd (handleVerifyProjectDomain x r w))"
  by (auto simp: handleVerifyProjectDomain_def Let_def kext_route[OF kext_publish] split: sum.splits prod.splits option.splits)

lemma within_delete_domain:
  "authoriseProject r (sv_db w) = Inr proj \<Longrightarrow> within rt (pi_login proj) w (snd (handleDeleteProjectDomain x r w))"
  by (auto simp: handleDeleteProjectDomain_def Let_def kext_route[OF kext_delete_route] dest!: on_eqD(1)
      split: sum.splits prod.splits option.splits)

lemma within_status:
  "authoriseProject r (sv_db w) = Inr proj \<Longrightarrow> within rt (pi_login proj) w (snd (handleProjectStatus x r w))"
  using kext_route[OF kext_readScale[of proj "sv_kube w" "sx_api x"]]
  by (auto simp: handleProjectStatus_def dest!: on_eqD(2) split: sum.splits prod.splits)

lemma within_scale:
  assumes "authoriseProject r (sv_db w) = Inr proj"
  shows "within rt (pi_login proj) w (snd (handleProjectScale x r w))"
proof -
  let ?ns = "tenantNamespaceFor (pi_login proj)"
  have l: "within rt (pi_login proj) w w1" if "on_k8s (listDeployments (sx_api x) ?ns sel) w = (q, w1)" for sel q w1
    using within_k8s[OF that kext_route[OF kext_list]] .
  have f: "within rt (pi_login proj) w1 w2" if "on_k8s (fanoutScale (sx_api x) ?ns nms n) w1 = (q, w2)" for nms n q w1 w2
    by (rule within_k8s[OF that kext_fanout]) (simp add: route_path_tenant)
  have s: "within rt (pi_login proj) w2 w3" if "on_k8s (readProjectScale (sx_api x) proj) w2 = (q, w3)" for q w2 w3
    using within_k8s[OF that kext_route[OF kext_readScale]] .
  show ?thesis using assms
    by (auto simp: handleProjectScale_def Let_def split: prod.splits option.splits sum.splits list.splits
        dest!: l f s intro: kext_trans)
qed

lemma delete_meta_login:
  assumes "GetProjectForOwner s k u = Some proj" "GetProjectDeleteMeta s k v = Some m"
  shows "pm_login m = pi_login proj"
  using assms by (auto simp: GetProjectForOwner_def GetProjectDeleteMeta_def owned_project_def split: option.splits if_splits)

lemma within_delete_project:
  assumes "authoriseProject r (sv_db w) = Inr proj"
  shows "within Delete_project (pi_login proj) w (snd (handleDeleteProject x r w))"
proof -
  have "pm_login m = pi_login proj" if "GetProjectDeleteMeta (sv_db w) (pi_id proj) sc = Some m" for m sc
    using authorised[OF assms] delete_meta_login that by metis
  then have "within Delete_project (pi_login proj) w w1"
    if "GetProjectDeleteMeta (sv_db w) (pi_id proj) sc = Some m"
      "on_k8s (teardownProjectResources (sx_api x) (sv_db w) m) w = (q, w1)" for m sc q w1
    using that within_k8s[OF that(2) kext_teardown] by metis
  then show ?thesis using assms
    by (auto simp: handleDeleteProject_def split: prod.splits option.splits dest!: on_eqD(1))
qed

lemma login_scope: "GetDeploymentTenantLogin s k u \<noteq> '''' \<Longrightarrow> GetDeploymentTenantLogin s k u = GetDeploymentTenantLogin s k ''''"
  by (auto simp: GetDeploymentTenantLogin_def owner_matches_def split: option.splits if_splits)

lemma within_promote: "within Promote (target_login Promote (sv_db w) (ur_id r)) w (snd (handlePromoteDeployment x r w))"
proof (cases "uuid_in (ur_id r)")
  case None
  then show ?thesis by (simp add: handlePromoteDeployment_def split: option.splits)
next
  case (Some key)
  let ?l = "GetDeploymentTenantLogin (sv_db w) key"
  have a: "kext (on_path (in_tenant login)) (sv_kube w) (sv_kube w1)"
    if "on_k8s (applyIngressRoute api (tenantNamespaceFor login) n obj) w = (q, w1)" for api login n obj q w1
    using within_k8s[OF that kext_applyRoute] .
  have l: "kext (on_path (in_tenant (?l u))) (sv_kube w) k \<Longrightarrow> ?l u \<noteq> '''' \<Longrightarrow>
      kext (on_path (route_path Promote (target_login Promote (sv_db w) (ur_id r)))) (sv_kube w) k" for u k
    using kext_route[of "?l u" "sv_kube w" k] login_scope[of "sv_db w" key u] Some by (simp add: target_login_def)
  show ?thesis
    by (auto simp: handlePromoteDeployment_def Let_def Some split: option.splits prod.splits
        dest!: a intro!: l) (drule on_eqD(2), simp add: kext_trans[OF _ kext_promoteDomains])
qed

lemma within_create_database:
  assumes "authoriseProject r (sv_db w) = Inr proj" "handleCreateProjectDatabase x px su r (w, s) = (q, w', s')"
  shows "within Create_database (pi_login proj) w w'"
proof -
  have k: "within Create_database (pi_login proj) v v'" if "on_k8s (applyDBSecret x (pi_login proj) pd) v = (e, v')" for pd v e v'
    by (rule within_k8s[OF that kext_applyDBSecret])
  show ?thesis using assms
    by (auto simp: handleCreateProjectDatabase_def Let_def split: option.splits prod.splits sum.splits if_splits
        dest!: k on_eqD(1))
qed

lemma serve_within:
  "within rt (target_login rt (sv_db (st_srv w)) (ur_id r)) (st_srv w) (st_srv (snd (serve x rt r w)))"
proof (cases "authoriseProject r (sv_db (st_srv w))")
  case (Inl st)
  then show ?thesis
    using within_promote[of "st_srv w" r "se_srv x"] kube_redeploy[of "se_srv x" r "st_srv w"]
      kube_deploy_now[of "se_srv x" r "st_srv w"]
    by (cases rt)
       (auto simp: serve_def serve_srv_def srv_handler_def db_handler_def handlePatchProject_def handleDeleteProject_def
         handleGetProjectDatabase_def handleListProjectEnv_def handleUpsertProjectEnv_def
         handleDeleteProjectEnv_def handleProjectStatus_def handleProjectScale_def handleListProjectDomains_def
         handleAddProjectDomain_def handleVerifyProjectDomain_def handleDeleteProjectDomain_def
         handleCreateProjectDatabase_def Let_def split: prod.splits)
next
  case (Inr proj)
  note own = authorised_login[OF Inr]
  show ?thesis
    using within_promote[of "st_srv w" r "se_srv x"] kube_redeploy[of "se_srv x" r "st_srv w"]
      kube_deploy_now[of "se_srv x" r "st_srv w"] within_verify[OF Inr, of rt "se_srv x"]
      within_delete_domain[OF Inr, of rt "se_srv x"] within_status[OF Inr, of rt "se_srv x"] within_scale[OF Inr, of rt "se_srv x"]
      within_delete_project[OF Inr, of "se_srv x"]
      within_create_database[OF Inr, of "se_srv x" "se_pg x" "se_super x" "st_pg w"]
    by (cases rt) (auto simp: serve_def serve_srv_def srv_handler_def db_handler_def own[symmetric] split: prod.splits)
qed


end
