(* ===== verification/Api_Behaviour.thy ===== *)
theory Api_Behaviour
  imports Api_Scope
begin

text \<open>
  What single routes do: promotion switches the production alias and pointer, database creation provisions, binds and
  records in that order, and three behaviours of settings and domains that a reader of the
  replies would not expect.
\<close>

section \<open>Promotion\<close>

definition domain_intents :: "string \<Rightarrow> string \<Rightarrow> string \<Rightarrow> string list \<Rightarrow> intent list" where
  "domain_intents ns svc slug hs = map (\<lambda>h. route_intent ns (customDomainRouteName h) h svc slug) hs"

lemma promoteDomains_ready:
  assumes "kube_contract api S" "kube_serves api S"
    and "ks_ready S (k_state k) is" "set (domain_intents ns svc slug hs) \<subseteq> set is"
    and "home S (k_state k) (ns_path ''/apis/traefik.io/v1alpha1'' ns ''ingressroutes'')"
    and "i \<in> set is" "\<And>h. h \<in> set hs \<Longrightarrow> intent_path i \<noteq> obj_path (ns_path ''/apis/traefik.io/v1alpha1'' ns ''ingressroutes'') (customDomainRouteName h)"
    and "kept S (k_state k) (intent_path i) obj"
  shows "fst (promoteDomains api ns svc slug hs k) = hs \<and> kept S (k_state (snd (promoteDomains api ns svc slug hs k))) (intent_path i) obj"
  using assms(3-5,7-)
proof (induction hs arbitrary: k)
  case (Cons h hs)
  let ?n = "customDomainRouteName h" and ?coll = "ns_path ''/apis/traefik.io/v1alpha1'' ns ''ingressroutes''"
  let ?o = "productionAliasManifest ?n ns h svc slug"
  have "Apply ?coll ?n ?o \<in> set is" using Cons.prems(2) by (auto simp: domain_intents_def route_intent_def)
  then obtain k1 where k1: "applyIngressRoute api ns ?n ?o k = (None, k1)" "ks_ready S (k_state k1) is"
    "undisturbed S is (obj_path ?coll ?n) (k_state k) (k_state k1)"
    using kapply_ready[OF assms(1,2) has_meta_route Cons.prems(1) _ Cons.prems(3)] unfolding applyIngressRoute_def by force
  have "home S (k_state k1) ?coll" using k1(3) Cons.prems(3) by (simp add: undisturbed_def)
  moreover have "kept S (k_state k1) (intent_path i) obj"
    using undisturbed_kept[OF k1(3) assms(6)] Cons.prems(4)[of h] Cons.prems(5) by simp
  moreover have "set (domain_intents ns svc slug hs) \<subseteq> set is" using Cons.prems(2) by (simp add: domain_intents_def)
  ultimately show ?case using Cons.IH[OF k1(2)] Cons.prems(4) k1(1) by (auto split: prod.splits)
qed simp

lemma alias_path_neq:
  "obj_path coll (prod_route slug) \<noteq> obj_path coll (customDomainRouteName h)"
proof -
  have "pathEscape (c # s) = c # pathEscape s" if "unreserved c" for c s using that by (simp add: pathEscape_def)
  then have "hd (pathEscape (prod_route slug)) = CHR ''p''" "hd (pathEscape (customDomainRouteName h)) = CHR ''c''"
    by (simp_all add: prod_route_def customDomainRouteName_def unreserved_def is_lower_def)
  then show ?thesis by (auto simp: obj_path_def)
qed

text \<open>What a promotion intends: the production route, and the route of every verified custom domain.\<close>
definition promote_intents :: "db \<Rightarrow> deploymentRow \<Rightarrow> string \<Rightarrow> intent list" where
  "promote_intents s dep login =
     (let ns = tenantNamespaceFor login; svc = dr_slug dep @ ''-'' @ short (dr_sha dep)
      in route_intent ns (prod_route (dr_slug dep)) (dr_slug dep @ ''.'' @ tenantHostZone) svc (dr_slug dep)
         # domain_intents ns svc (dr_slug dep) (ListVerifiedDomainsForProject s (dr_project dep)))"

text \<open>C24: Promotion: for a ready deployment the caller may see, if the API server is ready for the routes to be written and the tenant's
  namespace exists, the stored route \<open>prod-<slug>\<close> ends up keeping the manifest that points at the Service of the promoted commit, the production pointer
  of the project is the promoted deployment, every verified custom domain is listed as moved, and no deployment row changes.\<close>
theorem promote_switches:
  assumes "kube_contract (sx_api x) S" "kube_serves (sx_api x) S" "ur_user r = Some u" "uuidRE (ur_id r)" "uuid_in (ur_id r) = Some did"
    and "GetDeploymentForUser (sv_db w) did (scope_of u) = Some dep" "dr_status dep = Ready"
    and "GetDeploymentTenantLogin (sv_db w) did (scope_of u) = login" "login \<noteq> ''''"
    and "lookup_project (sv_db w) (dr_project dep) = Some p" "dr_id dep \<in> d_id ` set (deployments (sv_db w))"
    and "ks_ready S (k_state (sv_kube w)) (promote_intents (sv_db w) dep login)"
    and "home S (k_state (sv_kube w)) (ns_path ''/apis/traefik.io/v1alpha1'' (tenantNamespaceFor login) ''ingressroutes'')"
  shows "\<exists>w' kvs. handlePromoteDeployment x r w = (reply 200 kvs, w')
    \<and> kept S (k_state (sv_kube w')) (obj_path (ns_path ''/apis/traefik.io/v1alpha1'' (tenantNamespaceFor login) ''ingressroutes'')
          (prod_route (dr_slug dep)))
        (productionAliasManifest (prod_route (dr_slug dep)) (tenantNamespaceFor login)
           (dr_slug dep @ ''.'' @ tenantHostZone) (dr_slug dep @ ''-'' @ short (dr_sha dep)) (dr_slug dep))
    \<and> lookup_project (sv_db w') (dr_project dep) = Some (p\<lparr> p_prod_dep := Some (dr_id dep) \<rparr>)
    \<and> deployments (sv_db w') = deployments (sv_db w)
    \<and> map_of kvs ''custom_domains'' = (case ListVerifiedDomainsForProject (sv_db w) (dr_project dep) of
         [] \<Rightarrow> None | hs \<Rightarrow> Some (JArr (map JStr hs)))"
proof -
  let ?ns = "tenantNamespaceFor login" and ?rt = "prod_route (dr_slug dep)" and ?is = "promote_intents (sv_db w) dep login"
  let ?svc = "dr_slug dep @ ''-'' @ short (dr_sha dep)" and ?coll = "ns_path ''/apis/traefik.io/v1alpha1'' (tenantNamespaceFor login) ''ingressroutes''"
  let ?o = "productionAliasManifest ?rt ?ns (dr_slug dep @ ''.'' @ tenantHostZone) ?svc (dr_slug dep)"
  let ?hs = "ListVerifiedDomainsForProject (sv_db w) (dr_project dep)" and ?i = "Apply ?coll ?rt ?o"
  have i: "?i \<in> set ?is" "set (domain_intents ?ns ?svc (dr_slug dep) ?hs) \<subseteq> set ?is"
    by (auto simp: promote_intents_def route_intent_def Let_def)
  obtain k1 where k1: "applyIngressRoute (sx_api x) ?ns ?rt ?o (sv_kube w) = (None, k1)" "ks_ready S (k_state k1) ?is"
    "undisturbed S ?is (obj_path ?coll ?rt) (k_state (sv_kube w)) (k_state k1)" "kept S (k_state k1) (obj_path ?coll ?rt) ?o"
    using kapply_ready[OF assms(1,2) has_meta_route assms(12) i(1) assms(13)] unfolding applyIngressRoute_def by blast
  let ?d = "snd (SetProductionDeployment (dr_project dep) (dr_id dep) (sv_db w))"
  have d: "lookup_project ?d (dr_project dep) = Some (p\<lparr> p_prod_dep := Some (dr_id dep) \<rparr>)"
    "deployments ?d = deployments (sv_db w)" "domains ?d = domains (sv_db w)"
    using assms(10,11) by (simp_all add: SetProductionDeployment_def lookup_project_def find_upd_where_same)
  have hs: "ListVerifiedDomainsForProject ?d (dr_project dep) = ?hs" using d(3) by (simp add: ListVerifiedDomainsForProject_def)
  obtain mv k2 where pd: "promoteDomains (sx_api x) ?ns ?svc (dr_slug dep) ?hs k1 = (mv, k2)"
    by (cases "promoteDomains (sx_api x) ?ns ?svc (dr_slug dep) ?hs k1")
  have h1: "home S (k_state k1) ?coll" using k1(3) assms(13) by (simp add: undisturbed_def)
  have "mv = ?hs" "kept S (k_state k2) (obj_path ?coll ?rt) ?o"
    using promoteDomains_ready[OF assms(1,2) k1(2) i(2) h1 i(1), of ?o] k1(4) alias_path_neq[of ?coll "dr_slug dep"] pd by simp_all
  then show ?thesis using assms(3-9) k1(1) d pd hs
    by (auto simp: handlePromoteDeployment_def Let_def on_k8s_def reply_def split: list.splits)
qed

definition toy_srv :: "(toy, unit) srv" where
  "toy_srv = \<lparr> sv_db = site_db, sv_kube = ns_cluster ''paas-tenant-octo'', sv_gh = demo_gh \<rparr>"

definition toy_sx :: "(toy, unit) srv_ext" where
  "toy_sx = \<lparr> sx_api = toy_api, sx_gx = demo_gx, sx_b64 = Some, sx_enc = id, sx_now = 50, sx_id = ''n1-00000'',
     sx_random = Some ''rnd'', sx_txt = (\<lambda>_. None), sx_stamp = show_int \<rparr>"

theorem promote_switches_witness:
  "\<exists>w' kvs. handlePromoteDeployment toy_sx (api_req did1 '''' None\<lparr> ur_user := Some user1 \<rparr>) toy_srv = (reply 200 kvs, w')
     \<and> map_option p_prod_dep (lookup_project (sv_db w') pid1) = Some (Some did1)"
proof -
  let ?r = "api_req did1 '''' None\<lparr> ur_user := Some user1 \<rparr>"
  have x: "sx_api toy_sx = toy_api" by (simp add: toy_sx_def)
  let ?dep = "row_short ((demo_dep did1 ''0123456789'' Ready 3)\<lparr> d_project := pid1 \<rparr>) ''octo-app''"
  have d: "GetDeploymentForUser site_db did1 ''u1'' = Some ?dep"
    by (simp add: GetDeploymentForUser_def lookup_dep_def lookup_project_def site_db_def demo_defs)
  have f: "dr_status ?dep = Ready" "dr_id ?dep = did1" "dr_project ?dep = pid1"
    by (simp_all add: row_short_def row_full_def demo_defs)
  have p: "lookup_project site_db pid1 = Some (demo_project\<lparr> p_id := pid1 \<rparr>)" "did1 \<in> d_id ` set (deployments site_db)"
    by (simp_all add: lookup_project_def site_db_def demo_defs)
  have t: "GetDeploymentTenantLogin site_db did1 ''u1'' = ''Octo''"
    by (simp add: GetDeploymentTenantLogin_def lookup_dep_def lookup_project_def lookup_inst_def site_db_def demo_defs
        owner_matches_def)
  have h: "ur_user ?r = Some user1" "uuidRE (ur_id ?r)" "uuid_in (ur_id ?r) = Some did1"
    "GetDeploymentForUser (sv_db toy_srv) did1 (scope_of user1) = Some ?dep"
    "GetDeploymentTenantLogin (sv_db toy_srv) did1 (scope_of user1) = ''Octo''"
    "lookup_project (sv_db toy_srv) (dr_project ?dep) = Some (demo_project\<lparr> p_id := pid1 \<rparr>)"
    "dr_id ?dep \<in> d_id ` set (deployments (sv_db toy_srv))"
    using d f p t by (simp_all add: api_req_def toy_srv_def user1_def scope_of_def)
  have ns: "tenantNamespaceFor ''Octo'' = ''paas-tenant-octo''" "pathEscape ''paas-tenant-octo'' = ''paas-tenant-octo''" by code_simp+
  have hm: "home toy_server (k_state (sv_kube toy_srv)) (ns_path ''/apis/traefik.io/v1alpha1'' (tenantNamespaceFor ''Octo'') ''ingressroutes'')"
    unfolding ns(1) using ns_cluster_home[OF ns(2), of "''ingressroutes''" "''/apis/traefik.io/v1alpha1''"] by (simp add: toy_srv_def)
  have "ListVerifiedDomainsForProject (sv_db toy_srv) (dr_project ?dep) = []"
    by (simp add: toy_srv_def ListVerifiedDomainsForProject_def site_db_def demo_defs)
  moreover have "length (prod_route (dr_slug ?dep)) \<le> 253" by (simp add: row_short_def row_full_def prod_route_def)
  ultimately have rd: "ks_ready toy_server (k_state (sv_kube toy_srv)) (promote_intents (sv_db toy_srv) ?dep ''Octo'')"
    unfolding promote_intents_def Let_def by (simp add: domain_intents_def toy_ready_route)
  have "''Octo'' \<noteq> ''''" by simp
  from promote_switches[of toy_sx, unfolded x, OF toy_contract toy_serves h(1-4) f(1) h(5) this h(6,7) rd hm] obtain w' kvs where
    "handlePromoteDeployment toy_sx ?r toy_srv = (reply 200 kvs, w')"
    "lookup_project (sv_db w') (dr_project ?dep) = Some ((demo_project\<lparr> p_id := pid1 \<rparr>)\<lparr> p_prod_dep := Some (dr_id ?dep) \<rparr>)"
    by blast
  then show ?thesis unfolding f by (intro exI conjI) (assumption, simp)
qed

section \<open>Database creation\<close>

lemma pg_execs_ok:
  "pg_execs x what qs s = (None, s') \<Longrightarrow> pg_trace s' = pg_trace s @ qs"
  by (induction qs arbitrary: s) (auto simp: pg_exec_def split: prod.splits option.splits)

lemma pg_exec_trace: "pg_exec x q s = (e, s') \<Longrightarrow> pg_trace s' = pg_trace s @ [q]"
  by (auto simp: pg_exec_def split: prod.splits)

lemma Provision_ok:
  assumes "Provision x uri role d pw s = (None, s')"
  shows "\<exists>ddl. (ddl = create_role_ddl role pw \<or> ddl = alter_role_ddl role pw)
     \<and> (\<exists>mid. (mid = [] \<or> mid = [create_db_ddl d role]) \<and> pg_trace s' = pg_trace s @ ddl # mid @ lock_down_ddl d role)"
  using assms
proof -
  obtain b s1 c s2 where st: "pg_exec x (if b then alter_role_ddl role pw else create_role_ddl role pw) s = (None, s1)"
      "(if c then (None, s1) else pg_exec x (create_db_ddl d role) s1) = (None, s2)"
      "pg_execs x ''lock down db'' (lock_down_ddl d role) s2 = (None, s')"
    using assms unfolding Provision_def by (simp split: option.splits sum.splits prod.splits)
  from st(2) have "pg_trace s2 = pg_trace s1 @ (if c then [] else [create_db_ddl d role])"
    by (auto dest: pg_exec_trace split: if_splits)
  then show ?thesis using pg_exec_trace[OF st(1)] pg_execs_ok[OF st(3)] by (cases b; cases c) auto
qed

text \<open>The database of a project is created in a fixed order: a 201 means that the role was created or its password replaced, the
  database created if missing, access revoked from PUBLIC and granted to the role as the last two statements, the
  connection secret applied in the tenant namespace, and only then the row recorded, with the same password in all three
  places, so that the reply is what later reads return.\<close>
theorem create_database_effect:
  assumes "handleCreateProjectDatabase x px uri r (w, s) = (q, w', s')" "hp_status q = 201"
  shows "\<exists>proj pw ddl mid. authoriseProject r (sv_db w) = Inr proj \<and> genPassword (px_b64url px) (sx_random x) = Some pw
    \<and> (let pd = new_project_db (sx_id x) (pi_id proj) (ur_id r) (pi_slug proj) pw in
        (ddl = create_role_ddl (pd_role pd) pw \<or> ddl = alter_role_ddl (pd_role pd) pw)
      \<and> (mid = [] \<or> mid = [create_db_ddl (pd_name pd) (pd_role pd)])
      \<and> pg_trace s' = pg_trace s @ ddl # mid @ lock_down_ddl (pd_name pd) (pd_role pd)
      \<and> applyDBSecret x (pi_login proj) pd (sv_kube w) = (None, sv_kube w')
      \<and> project_dbs (sv_db w') = project_dbs (sv_db w) @ [pd]
      \<and> q = writeDBResponse pd True)"
proof -
  obtain proj where p: "authoriseProject r (sv_db w) = Inr proj"
    using assms by (auto simp: handleCreateProjectDatabase_def err_def Let_def authoriseProject_def split: sum.splits option.splits if_splits)
  have no: "GetProjectDatabaseForOwner (sv_db w) (pi_id proj) (coalesce (map_option scope_of (ur_user r)) '''') = None"
    using assms p by (auto simp: handleCreateProjectDatabase_def err_def writeDBResponse_def reply_def Let_def split: option.splits if_splits prod.splits)
  obtain pw where pw: "genPassword (px_b64url px) (sx_random x) = Some pw"
    using assms p no by (auto simp: handleCreateProjectDatabase_def err_def Let_def split: option.splits if_splits)
  let ?pd = "new_project_db (sx_id x) (pi_id proj) (ur_id r) (pi_slug proj) pw"
  obtain w1 where st: "Provision px (trim_space uri) (pd_role ?pd) (pd_name ?pd) (pd_password ?pd) s = (None, s')"
      "on_k8s (applyDBSecret x (pi_login proj) ?pd) w = (None, w1)"
      "on_db (CreateProjectDatabase ?pd) w1 = (Inr (), w')" "q = writeDBResponse ?pd True"
    using assms p no pw
    by (auto simp: handleCreateProjectDatabase_def err_def Let_def split: option.splits if_splits prod.splits sum.splits)
  have "project_dbs (sv_db w') = project_dbs (sv_db w) @ [?pd] \<and> applyDBSecret x (pi_login proj) ?pd (sv_kube w) = (None, sv_kube w')"
    using st(2,3) by (auto simp: on_db_def on_k8s_def CreateProjectDatabase_def split: prod.splits if_splits)
  moreover have "pd_password ?pd = pw" by (simp add: new_project_db_def)
  ultimately show ?thesis using p pw st(4) Provision_ok[OF st(1)] by (auto simp: Let_def)
qed

section \<open>Replies that hide an effect\<close>

text \<open>A rejected settings change is half applied: the display name is stored before the branch is looked at, so a
  request with a good name and a blank branch is answered 400 with the name changed.\<close>
theorem patch_stores_before_rejecting:
  assumes "authoriseProject r s = Inr proj" "ur_json r = Some (JObj kvs)"
    and "map_of kvs ''display_name'' = Some (JStr n)" "map_of kvs ''production_branch'' = Some (JStr b)"
    and "length (trim_space n) \<le> 80" "trim_space b = ''''"
  shows "handlePatchProject r s = (err 400, UpdateProjectDisplayName (pi_id proj) (trim_space n) s)"
proof -
  have "unmarshal (ur_json r) [''display_name''] (dec_ptr dec_str) = (Some n, True)"
    "unmarshal (ur_json r) [''production_branch''] (dec_ptr dec_str) = (Some b, True)"
    using assms(2-4) by (simp_all add: unmarshal_def dec_ptr_def obj_ok_def)
  then show ?thesis using assms(1,5,6) by (simp add: handlePatchProject_def patchBranch_def Let_def)
qed

text \<open>Removing a domain that the project does not have is answered 404, but the request for the route of that host has been
  sent: a sibling project of the same tenant that does have the domain loses its route.\<close>
theorem delete_domain_sends_first:
  assumes "authoriseProject r (sv_db w) = Inr proj" "pi_login proj \<noteq> ''''" "normaliseHostname (ur_name r) \<noteq> ''''"
    and "GetProjectDomain (sv_db w) (pi_id proj) (normaliseHostname (ur_name r)) = None"
  shows "\<exists>w'. handleDeleteProjectDomain x r w = (err 404, w') \<and> sv_db w' = sv_db w
     \<and> k_trace (sv_kube w') = k_trace (sv_kube w)
        @ [\<lparr> rq_meth = DELETE,
             rq_path = obj_path (ns_path ''/apis/traefik.io/v1alpha1'' (tenantNamespaceFor (pi_login proj)) ''ingressroutes'')
               (customDomainRouteName (normaliseHostname (ur_name r))), rq_body = None \<rparr>]"
proof -
  let ?h = "normaliseHostname (ur_name r)"
  have none: "\<not> domain_hit (pi_id proj) ?h d" if "d \<in> set (domains (sv_db w))" for d
    using assms(4) that by (auto simp: GetProjectDomain_def find_None_iff)
  then have del: "DeleteProjectDomain (pi_id proj) ?h (sv_db w) = (False, sv_db w)"
    by (auto simp: DeleteProjectDomain_def)
  let ?k = "snd (deleteDomainRoute (sx_api x) proj ?h (sv_kube w))"
  have k: "k_trace ?k = k_trace (sv_kube w) @ [\<lparr> rq_meth = DELETE,
      rq_path = obj_path (ns_path ''/apis/traefik.io/v1alpha1'' (tenantNamespaceFor (pi_login proj)) ''ingressroutes'')
        (customDomainRouteName ?h), rq_body = None \<rparr>]"
    using assms(2) by (simp add: deleteDomainRoute_def one_request kdo_trace[OF surjective_pairing] obj_path_def ns_path_def)
  show ?thesis
    by (rule exI[of _ "w\<lparr> sv_kube := ?k \<rparr>"])
       (use assms(1,3) del k in \<open>simp add: handleDeleteProjectDomain_def Let_def on_k8s_def on_db_def split: prod.splits\<close>)
qed

text \<open>Witnesses, on the site of \<open>Api_Routes\<close>.\<close>

definition site_srv :: "(unit, unit) srv" where "site_srv = st_srv (demo_site site_db)"

lemma site_srv_db [simp]: "sv_db site_srv = site_db" by (simp add: site_srv_def demo_site_def)

theorem create_database_effect_witness:
  "\<exists>q w' s'. handleCreateProjectDatabase demo_sx demo_px ''postgres://su'' (owner_req pid1 '''' None)
       (site_srv, \<lparr> pg_state = (), pg_trace = [] \<rparr>) = (q, w', s')
     \<and> hp_status q = 201 \<and> last (pg_trace s') = ''GRANT ALL ON DATABASE '' @ quoteIdent ''app_0a1b2c3d'' @ '' TO '' @ quoteIdent ''u_0a1b2c3d''
     \<and> map pd_password (project_dbs (sv_db w')) = [''rnd'']"
proof -
  let ?pd = "new_project_db (sx_id demo_sx) pid1 pid1 (pi_slug site_proj) ''rnd''"
  have id8: "pd_name ?pd = ''app_0a1b2c3d''" "pd_role ?pd = ''u_0a1b2c3d''" "pd_password ?pd = ''rnd''" "pd_project ?pd = pid1"
    by (simp_all add: new_project_db_def) code_simp+
  have pi: "pi_id site_proj = pid1" by (simp add: site_proj_def)
  have nodb: "GetProjectDatabaseForOwner site_db pid1 u = None" for u
    by (simp add: GetProjectDatabaseForOwner_def site_db_def demo_defs)
  have uri: "trim_space ''postgres://su'' = ''postgres://su''" "validateIdent ''app_0a1b2c3d'' = None" "validateIdent ''u_0a1b2c3d'' = None"
    by code_simp+
  have pw: "genPassword (px_b64url demo_px) (sx_random demo_sx) = Some ''rnd''"
    by (simp add: genPassword_def demo_px_def demo_sx_def)
  have norm: "normalizeAdminURI (px_parse demo_px) (px_print demo_px) ''postgres://su'' = Inr ''postgres://su/postgres''"
    by (simp add: normalizeAdminURI_def demo_px_def coalesce_def)
  obtain s1 where prov: "Provision demo_px ''postgres://su'' ''u_0a1b2c3d'' ''app_0a1b2c3d'' ''rnd'' \<lparr> pg_state = (), pg_trace = [] \<rparr> = (None, s1)"
    using uri norm by (simp add: Provision_def demo_px_def pg_exec_def lock_down_ddl_def)
  obtain t where t: "ensureTenant yes_api Some id l k = (Inr (tenantNamespaceFor l), t l k)" for l k
    using yes_tenant by metis
  obtain k1 where sec: "applyDBSecret demo_sx (pi_login site_proj) ?pd (sv_kube site_srv) = (None, k1)"
    by (simp add: applyDBSecret_def demo_sx_def t applySecret_def yes_kapply)
  have row: "CreateProjectDatabase ?pd site_db = (Inr (), site_db\<lparr> project_dbs := [?pd] \<rparr>)"
    using id8 by (simp add: CreateProjectDatabase_def site_db_def demo_defs)
  have "\<exists>w'. handleCreateProjectDatabase demo_sx demo_px ''postgres://su'' (owner_req pid1 '''' None)
       (site_srv, \<lparr> pg_state = (), pg_trace = [] \<rparr>) = (writeDBResponse ?pd True, w', s1)"
    using site_authorise[of "''''" None] nodb uri pw prov sec row id8
    by (simp add: handleCreateProjectDatabase_def Let_def site_proj_def on_k8s_def on_db_def)
  then obtain w' where w': "handleCreateProjectDatabase demo_sx demo_px ''postgres://su'' (owner_req pid1 '''' None)
       (site_srv, \<lparr> pg_state = (), pg_trace = [] \<rparr>) = (writeDBResponse ?pd True, w', s1)" by blast
  have r201: "hp_status (writeDBResponse ?pd True) = 201" by (simp add: writeDBResponse_def reply_def)
  have p0: "project_dbs site_db = []" by (simp add: site_db_def demo_defs)
  have "last (pg_trace s1) = ''GRANT ALL ON DATABASE '' @ quoteIdent ''app_0a1b2c3d'' @ '' TO '' @ quoteIdent ''u_0a1b2c3d''
      \<and> project_dbs (sv_db w') = [?pd]"
    using create_database_effect[OF w' r201] site_authorise[of "''''" None] pw id8 p0 pi
    by (auto simp: Let_def lock_down_ddl_def)
  then show ?thesis using w' r201 id8 by (intro exI conjI) (assumption, simp_all)
qed

theorem patch_stores_before_rejecting_witness:
  "handlePatchProject (owner_req pid1 '''' (Some (JObj [(''display_name'', JStr ''New''), (''production_branch'', JStr '' '')]))) site_db
     = (err 400, UpdateProjectDisplayName pid1 ''New'' site_db)"
proof -
  have t: "trim_space ''New'' = ''New''" "trim_space '' '' = ''''" by code_simp+
  show ?thesis
    using patch_stores_before_rejecting[OF site_authorise, where kvs = "[(''display_name'', JStr ''New''), (''production_branch'', JStr '' '')]"
        and n = "''New''" and b = "'' ''"] t by (simp add: site_proj_def)
qed

theorem delete_domain_sends_first_witness:
  "\<exists>w'. handleDeleteProjectDomain demo_sx (owner_req pid1 ''x.org'' None) site_srv = (err 404, w')
     \<and> length (k_trace (sv_kube w')) = 1"
proof -
  have n: "normaliseHostname ''x.org'' \<noteq> ''''" by code_simp
  have g: "GetProjectDomain site_db pid1 h = None" for h
    by (simp add: GetProjectDomain_def site_db_def demo_defs)
  have a: "authoriseProject (owner_req pid1 ''x.org'' None) (sv_db site_srv) = Inr site_proj" by (simp add: site_authorise)
  have k: "k_trace (sv_kube site_srv) = []" by (simp add: site_srv_def demo_site_def)
  show ?thesis
    using delete_domain_sends_first[OF a, of demo_sx] n g k by (force simp: site_proj_def)
qed

end
