(* ===== verification/Edge.thy ===== *)
theory Edge
  imports Api Auth "HOL-Library.Signed_Division" "HOL-Library.AList"
begin

text \<open>
  The public edge: which host serves what (\<open>hosts.go\<close>, \<open>host_router.go\<close>), the fixed-window rate limiter
  (\<open>ratelimit.go\<close>) and the waitlist (\<open>waitlist_handlers.go\<close>).  Parsing of URLs and of mail addresses is library
  code and a parameter.  Headers and path of a request are a record; the reply of a routed request is the surface that
  handles it or a redirect.
\<close>

section \<open>Hosts\<close>

record hostConfig =
  hc_marketing :: "string set"
  hc_app :: "string set"
  hc_base :: string

text \<open>\<open>strings.TrimRight(s, "/")\<close>\<close>
definition trim_slashes :: "string \<Rightarrow> string" where "trim_slashes = trim_right (\<lambda>c. c = CHR ''/'')"

definition parseHostSet :: "string \<Rightarrow> string list \<Rightarrow> string set" where
  "parseHostSet raw defaults =
     (let fs = fields_func list_sep raw; gs = (if fs = [] then defaults else fs)
      in set (filter (\<lambda>h. h \<noteq> '''') (map (to_lower \<circ> trim_space) gs)))"

text \<open>\<open>host_of\<close> is the host name \<open>net/http\<close> parses out of a URL, \<open>None\<close> when it does not parse.\<close>
definition hostFromURL :: "(string \<Rightarrow> string option) \<Rightarrow> string \<Rightarrow> string" where
  "hostFromURL host_of u0 =
     (let u = trim_space u0
      in if u = '''' then ''''
         else (case host_of (if contains u ''://'' then u else ''https://'' @ u) of
                 None \<Rightarrow> '''' | Some h \<Rightarrow> to_lower h))"

definition loadHostConfig :: "(string \<Rightarrow> string option) \<Rightarrow> (string \<Rightarrow> string) \<Rightarrow> string \<Rightarrow> hostConfig" where
  "loadHostConfig host_of env dash =
     (let b0 = trim_slashes (trim_space dash);
          base = (if b0 = '''' then ''https://app.spinup.in'' else b0);
          marketing = parseHostSet (env ''MARKETING_HOSTS'') [''spinup.in'', ''www.spinup.in''];
          app = parseHostSet (env ''APP_HOSTS'') [''app.spinup.in''];
          host = hostFromURL host_of base
      in \<lparr> hc_marketing = marketing,
           hc_app = (if env ''APP_HOSTS'' = '''' \<and> host \<noteq> '''' \<and> host \<notin> marketing then insert host app else app),
           hc_base = base \<rparr>)"

definition requestHost :: "string \<Rightarrow> string" where
  "requestHost h = to_lower (case index_byte h (CHR '':'') of None \<Rightarrow> h | Some i \<Rightarrow> take i h)"

definition surface :: "hostConfig \<Rightarrow> string \<Rightarrow> string" where
  "surface hc host = (if host \<in> hc_marketing hc then ''marketing'' else ''app'')"

definition loadMaxProjects :: "(string \<Rightarrow> string) \<Rightarrow> int" where
  "loadMaxProjects env =
     (let raw = trim_space (env ''MAX_PROJECTS_PER_USER'')
      in if raw = '''' then 3
         else (case atoi raw of None \<Rightarrow> 3 | Some n \<Rightarrow> if n < 0 then 3 else n))"

record http_req =
  h_method :: string
  h_host :: string
  h_path :: string
  h_uri :: string

text \<open>\<open>Next\<close> is the handler the router wraps.\<close>
datatype routed = Next | Landing | Join_waitlist | Redirect string

definition withHostRouting :: "hostConfig \<Rightarrow> http_req \<Rightarrow> routed" where
  "withHostRouting hc r =
     (let path = h_path r
      in if path = ''/healthz'' \<or> path = ''/readyz'' \<or> path = ''/webhooks/github'' then Next
         else if surface hc (requestHost (h_host r)) \<noteq> ''marketing'' then Next
         else if h_method r = ''GET'' \<and> (path = ''/'' \<or> path = ''/login'') then Landing
         else if h_method r = ''POST'' \<and> path = ''/v1/waitlist'' then Join_waitlist
         else if prefix ''/auth/'' path then Redirect (hc_base hc @ path)
         else Redirect (hc_base hc @ h_uri r))"

section \<open>Rate limiting\<close>

record rate_limiter =
  rl_limit :: int
  rl_window :: time
  rl_counts :: "((string \<times> int) \<times> int) list"

definition newIPRateLimiter :: "int \<Rightarrow> time \<Rightarrow> rate_limiter" where
  "newIPRateLimiter limit window = \<lparr> rl_limit = limit, rl_window = window, rl_counts = [] \<rparr>"

text \<open>\<open>now.Unix() / int64(window.Seconds())\<close>: the division truncates.\<close>
definition rate_window :: "time \<Rightarrow> time \<Rightarrow> int" where
  "rate_window window now = (now div second) sdiv (window sdiv second)"

text \<open>\<open>None\<close> is the panic of the division when the window is shorter than a second.\<close>
definition allow :: "time \<Rightarrow> string \<Rightarrow> rate_limiter \<Rightarrow> (bool \<times> rate_limiter) option" where
  "allow now key rl =
     (if rl_limit rl \<le> 0 then Some (True, rl)
      else if rl_window rl sdiv second = 0 then None
      else (let w = rate_window (rl_window rl) now; k = (key, w);
                m = (if length (rl_counts rl) > 20000
                     then filter (\<lambda>e. \<not> snd (fst e) < w - 1) (rl_counts rl) else rl_counts rl);
                c = (case map_of m k of None \<Rightarrow> 0 | Some n \<Rightarrow> n)
            in if c \<ge> rl_limit rl then Some (False, rl\<lparr> rl_counts := m \<rparr>)
               else Some (True, rl\<lparr> rl_counts := AList.update k (c + 1) m \<rparr>)))"

section \<open>Waitlist\<close>

definition validUseCases :: "string list" where
  "validUseCases = [''final-year-project'', ''portfolio'', ''small-business'', ''hackathon'', ''side-project'', ''other'']"

record wait_ext =
  wx_now :: time
  wx_fresh :: uuid
  wx_mail :: "string \<Rightarrow> bool"

record wait_req =
  wr_forwarded :: string
  wr_remote :: string
  wr_json :: "json option"

text \<open>The JSON value is what the decoder reads within the first 4096 bytes; \<open>None\<close> status is the panic of the limiter.\<close>
definition handleJoinWaitlist ::
  "wait_ext \<Rightarrow> wait_req \<Rightarrow> rate_limiter \<times> db \<Rightarrow> nat option \<times> rate_limiter \<times> db" where
  "handleJoinWaitlist x r st =
     (let (rl, s) = st
      in case allow (wx_now x) (clientIP (wr_forwarded r) (wr_remote r)) rl of
           None \<Rightarrow> (None, rl, s)
         | Some (False, rl1) \<Rightarrow> (Some 429, rl1, s)
         | Some (True, rl1) \<Rightarrow>
             (let (em, ok1) = unmarshal (wr_json r) [''email''] dec_str; (uc, ok2) = unmarshal (wr_json r) [''use_case''] dec_str;
                  (nm, ok3) = unmarshal (wr_json r) [''name''] dec_str; (co, ok4) = unmarshal (wr_json r) [''college''] dec_str;
                  email = to_lower (trim_space em); useCase = trim_space uc
              in if \<not> (ok1 \<and> ok2 \<and> ok3 \<and> ok4) then (Some 400, rl1, s)
                 else if email = '''' then (Some 400, rl1, s)
                 else if \<not> wx_mail x email then (Some 400, rl1, s)
                 else if useCase \<notin> set validUseCases then (Some 400, rl1, s)
                 else (case UpsertWaitlistSignup (wx_now x) (wx_fresh x) email useCase
                              (take 120 (trim_space nm)) (take 120 (trim_space co)) s of
                         (Inl _, s1) \<Rightarrow> (Some 500, rl1, s1)
                       | (Inr _, s1) \<Rightarrow> (Some 201, rl1, s1))))"

text \<open>The nil user is \<open>None\<close>.\<close>
definition isOperator :: "string set \<Rightarrow> sessionUser option \<Rightarrow> bool" where
  "isOperator allowed u =
     (case u of None \<Rightarrow> False | Some v \<Rightarrow> if su_admin v then True else loginAllowed allowed (su_login v))"

definition waitlist_row :: "(time \<Rightarrow> string) \<Rightarrow> signup \<Rightarrow> json" where
  "waitlist_row stamp r = JObj
     [(''id'', JStr (wl_id r)), (''email'', JStr (wl_email r)), (''use_case'', JStr (wl_use_case r)),
      (''name'', JStr (coalesce (wl_name r) '''')), (''college'', JStr (coalesce (wl_college r) '''')),
      (''created_at'', JStr (stamp (wl_created r))), (''updated_at'', JStr (stamp (wl_updated r)))]"

definition handleAdminWaitlist :: "(time \<Rightarrow> string) \<Rightarrow> string set \<Rightarrow> sessionUser option \<Rightarrow> db \<Rightarrow> http_reply" where
  "handleAdminWaitlist stamp allowed u s =
     (if \<not> isOperator allowed u then err 403
      else (let rows = ListWaitlistSignups s
            in reply 200 [(''count'', JInt (int (length rows))), (''signups'', if rows = [] then JNull else JArr (map (waitlist_row stamp) rows))]))"

section \<open>What the limiter guarantees\<close>

fun run_limiter :: "(time \<times> string) list \<Rightarrow> rate_limiter \<Rightarrow> bool list option" where
  "run_limiter [] rl = Some []"
| "run_limiter ((t, k) # qs) rl =
     (case allow t k rl of None \<Rightarrow> None | Some (b, rl1) \<Rightarrow> map_option ((#) b) (run_limiter qs rl1))"

text \<open>The reference: a log of the grants, never pruned.\<close>
fun count_grants :: "int \<Rightarrow> time \<Rightarrow> (string \<times> int) list \<Rightarrow> (time \<times> string) list \<Rightarrow> bool list" where
  "count_grants limit window g [] = []"
| "count_grants limit window g ((t, k) # qs) =
     (let e = (k, rate_window window t); ok = int (count_list g e) < limit
      in ok # count_grants limit window (if ok then e # g else g) qs)"

lemma map_of_filter_fst: "map_of (filter (\<lambda>e. P (fst e)) m) k = (if P k then map_of m k else None)"
  by (induction m) auto

lemma rate_window_mono:
  assumes "second \<le> window" "0 \<le> t" "t \<le> t'"
  shows "rate_window window t \<le> rate_window window t'"
proof -
  have w: "0 < window div second" using assms(1) by (simp add: second_def pos_imp_zdiv_pos_iff)
  have "window sdiv second = window div second" using assms(1) by (simp add: signed_divide_int_def second_def sgn_if)
  moreover have "(x div second) sdiv (window div second) = x div second div (window div second)" if "0 \<le> x" for x
    using w that by (auto simp: signed_divide_int_def sgn_if second_def pos_imp_zdiv_nonneg_iff)
  ultimately show ?thesis using assms w
    by (simp add: rate_window_def) (intro zdiv_mono1; simp add: second_def zdiv_mono1)
qed

text \<open>The counters of all windows a later request may still ask for agree with the log.\<close>
definition tracks :: "(string \<times> int) list \<Rightarrow> int \<Rightarrow> rate_limiter \<Rightarrow> bool" where
  "tracks g w rl \<longleftrightarrow> (\<forall>k v. w \<le> v \<longrightarrow>
     (case map_of (rl_counts rl) (k, v) of None \<Rightarrow> 0 | Some n \<Rightarrow> n) = int (count_list g (k, v)))"

lemma allow_tracks:
  assumes "tracks g w rl" "0 < rl_limit rl" "second \<le> rl_window rl" "w \<le> rate_window (rl_window rl) t"
  shows "\<exists>rl'. allow t k rl = Some (int (count_list g (k, rate_window (rl_window rl) t)) < rl_limit rl, rl')
     \<and> rl_limit rl' = rl_limit rl \<and> rl_window rl' = rl_window rl
     \<and> tracks (if int (count_list g (k, rate_window (rl_window rl) t)) < rl_limit rl
               then (k, rate_window (rl_window rl) t) # g else g) (rate_window (rl_window rl) t) rl'"
proof -
  let ?w = "rate_window (rl_window rl) t"
  let ?m = "if length (rl_counts rl) > 20000 then filter (\<lambda>e. \<not> snd (fst e) < ?w - 1) (rl_counts rl) else rl_counts rl"
  have nz: "rl_window rl sdiv second \<noteq> 0"
    using assms(3) by (auto simp: signed_divide_int_def second_def sgn_if pos_imp_zdiv_pos_iff)
  have m: "map_of ?m (j, v) = map_of (rl_counts rl) (j, v)" if "?w \<le> v" for j v
    using that map_of_filter_fst[of "\<lambda>x. \<not> snd x < ?w - 1" "rl_counts rl" "(j, v)"] by simp
  have c: "(case map_of ?m (j, v) of None \<Rightarrow> 0 | Some n \<Rightarrow> n) = int (count_list g (j, v))" if "?w \<le> v" for j v
    using assms(1,4) that m[OF that] by (simp add: tracks_def)
  show ?thesis
  proof (cases "int (count_list g (k, ?w)) < rl_limit rl")
    case True
    have "allow t k rl = Some (True, rl\<lparr> rl_counts := AList.update (k, ?w) (int (count_list g (k, ?w)) + 1) ?m \<rparr>)"
      using True assms(2) nz c[of ?w k] by (simp add: allow_def Let_def)
    moreover have "tracks ((k, ?w) # g) ?w (rl\<lparr> rl_counts := AList.update (k, ?w) (int (count_list g (k, ?w)) + 1) ?m \<rparr>)"
      using c by (auto simp: tracks_def update_conv')
    ultimately show ?thesis using True by simp
  next
    case False
    have "allow t k rl = Some (False, rl\<lparr> rl_counts := ?m \<rparr>)"
      using False assms(2) nz c[of ?w k] by (simp add: allow_def Let_def)
    moreover have "tracks g ?w (rl\<lparr> rl_counts := ?m \<rparr>)" using c by (simp add: tracks_def)
    ultimately show ?thesis using False by simp
  qed
qed

lemma run_tracks:
  assumes "tracks g w rl" "0 < rl_limit rl" "second \<le> rl_window rl" "sorted (map fst qs)"
    and "\<forall>q \<in> set qs. 0 \<le> fst q \<and> w \<le> rate_window (rl_window rl) (fst q)"
  shows "run_limiter qs rl = Some (count_grants (rl_limit rl) (rl_window rl) g qs)"
  using assms
proof (induction qs arbitrary: g w rl)
  case (Cons q qs)
  obtain t k where q: "q = (t, k)" by (cases q)
  let ?w = "rate_window (rl_window rl) t"
  let ?g = "if int (count_list g (k, ?w)) < rl_limit rl then (k, ?w) # g else g"
  obtain rl' where a: "allow t k rl = Some (int (count_list g (k, ?w)) < rl_limit rl, rl')"
      "rl_limit rl' = rl_limit rl" "rl_window rl' = rl_window rl" "tracks ?g ?w rl'"
    using allow_tracks[OF Cons.prems(1-3), of t k] Cons.prems(5) q by auto
  have "run_limiter qs rl' = Some (count_grants (rl_limit rl') (rl_window rl') ?g qs)"
    using Cons.prems q a(2,3) by (intro Cons.IH[OF a(4)]) (auto intro: rate_window_mono)
  then show ?case using a q by (simp add: Let_def)
qed simp

lemma count_grants_le:
  assumes "0 < limit" "int (count_list g (k, w)) \<le> limit"
  shows "int (count_list g (k, w) + length (filter (\<lambda>((t, j), b). b \<and> j = k \<and> rate_window window t = w)
           (zip qs (count_grants limit window g qs)))) \<le> limit"
  using assms(2)
proof (induction qs arbitrary: g)
  case (Cons q qs)
  obtain t j where q: "q = (t, j)" by (cases q)
  let ?e = "(j, rate_window window t)"
  show ?case
  proof (cases "int (count_list g ?e) < limit")
    case True
    then have "int (count_list (?e # g) (k, w)) \<le> limit" using Cons.prems by auto
    from Cons.IH[OF this] show ?thesis using True q by (auto simp: Let_def)
  next
    case False
    then show ?thesis using Cons.IH[OF Cons.prems] q by (auto simp: Let_def)
  qed
qed simp

lemma limiter_reference:
  assumes "0 < limit" "second \<le> window" "sorted (map fst qs)" "\<forall>q \<in> set qs. 0 \<le> fst q"
  shows "run_limiter qs (newIPRateLimiter limit window) = Some (count_grants limit window [] qs)"
proof -
  have "0 \<le> rate_window window t" if "0 \<le> t" for t
    using rate_window_mono[OF assms(2), of 0 t] that by (simp add: rate_window_def)
  then show ?thesis
    using assms run_tracks[of "[]" 0 "newIPRateLimiter limit window" qs] by (auto simp: newIPRateLimiter_def tracks_def)
qed

text \<open>C26: The limiter counts exactly: for requests in the order of the clock it decides as the log of all
  grants would, although it drops old counters when the table is large, and so grants at most \<open>limit\<close> requests per key and
  window.\<close>
theorem limiter_exact:
  assumes "0 < limit" "second \<le> window" "sorted (map fst qs)" "\<forall>q \<in> set qs. 0 \<le> fst q"
  shows "run_limiter qs (newIPRateLimiter limit window) = Some (count_grants limit window [] qs)
    \<and> int (length (filter (\<lambda>((t, j), b). b \<and> j = k \<and> rate_window window t = w)
             (zip qs (count_grants limit window [] qs)))) \<le> limit"
  using limiter_reference[OF assms] count_grants_le[of limit "[]" k w window qs] assms(1) by simp

theorem limiter_exact_witness:
  "run_limiter [(0, ''a''), (1, ''a''), (2, ''b''), (3, ''a''), (minute, ''a'')] (newIPRateLimiter 2 minute)
     = Some [True, True, True, False, True]"
proof -
  have "run_limiter [(0, ''a''), (1, ''a''), (2, ''b''), (3, ''a''), (minute, ''a'')] (newIPRateLimiter 2 minute)
      = Some (count_grants 2 minute [] [(0, ''a''), (1, ''a''), (2, ''b''), (3, ''a''), (minute, ''a'')])"
    by (rule limiter_exact[THEN conjunct1]) (simp_all add: minute_def second_def)
  then show ?thesis by (simp add: Let_def rate_window_def minute_def second_def signed_divide_int_def)
qed

lemma count_grants_distinct:
  assumes "distinct ks" "\<forall>k \<in> set ks. \<forall>v. count_list g (k, v) = 0" "0 < limit"
  shows "count_grants limit window g (map (Pair t) ks) = replicate (length ks) True"
  using assms(1,2)
proof (induction ks arbitrary: g)
  case (Cons k ks)
  have "count_grants limit window ((k, rate_window window t) # g) (map (Pair t) ks) = replicate (length ks) True"
    using Cons.prems by (intro Cons.IH) auto
  then show ?case using Cons.prems assms(3) by (simp add: Let_def)
qed simp

text \<open>The key of the waitlist is the client's own header: a host that sends a different \<open>X-Forwarded-For\<close> with each request is never
  limited, however many requests it sends.\<close>
theorem rate_limit_spoofable:
  assumes "0 < limit" "second \<le> window" "0 \<le> t"
  shows "run_limiter (map (\<lambda>i. (t, clientIP (show_nat i) remote)) [0..<n]) (newIPRateLimiter limit window)
     = Some (replicate n True)"
proof -
  have ip: "clientIP (show_nat i) remote = show_nat i" for i
  proof -
    have d: "\<forall>c \<in> set (show_nat i). is_digit c" using show_nat_digits by blast
    then have "CHR '','' \<notin> set (show_nat i)" by (auto simp: is_digit_def)
    moreover have "trim_space (show_nat i) = show_nat i"
      using d[rule_format, OF hd_in_set] d[rule_format, OF last_in_set]
      unfolding trim_space_def by (intro trim_id) (auto simp: is_digit_def is_space_def)
    moreover from calculation(1) have "index_byte (show_nat i) (CHR '','') = None" by (simp only: index_byte_None) simp
    ultimately show ?thesis by (simp add: clientIP_def)
  qed
  have "map (\<lambda>i. (t, clientIP (show_nat i) remote)) [0..<n] = map (Pair t) (map show_nat [0..<n])" by (simp add: ip)
  moreover have "distinct (map show_nat [0..<n])"
    by (simp add: distinct_map inj_on_def) (metis parse_nat_show_nat option.inject)
  ultimately show ?thesis
    using limiter_reference[OF assms(1,2), of "map (Pair t) (map show_nat [0..<n])"]
      count_grants_distinct[of "map show_nat [0..<n]" "[]" limit window t] assms
    by (simp add: comp_def ip map_replicate_const)
qed

theorem rate_limit_spoofable_witness:
  "run_limiter (map (\<lambda>i. (0, clientIP (show_nat i) ''10.0.0.9:55'')) [0..<1000]) (newIPRateLimiter 10 minute)
     = Some (replicate 1000 True)"
  by (rule rate_limit_spoofable) (simp_all add: minute_def second_def)

section \<open>Routing and operators\<close>

text \<open>Routing by host: probes and the webhook pass on every host; other requests pass exactly on hosts that
  are not marketing hosts; the waitlist can only be joined through a marketing host; every redirect goes to the
  configured dashboard origin.\<close>
theorem host_routing:
  "(withHostRouting hc r = Next \<longleftrightarrow>
      h_path r \<in> {''/healthz'', ''/readyz'', ''/webhooks/github''} \<or> surface hc (requestHost (h_host r)) = ''app'')
   \<and> (withHostRouting hc r = Join_waitlist \<longleftrightarrow>
      h_method r = ''POST'' \<and> h_path r = ''/v1/waitlist'' \<and> requestHost (h_host r) \<in> hc_marketing hc)
   \<and> (withHostRouting hc r \<in> {Next, Landing, Join_waitlist} \<or> prefix (hc_base hc) (case withHostRouting hc r of Redirect u \<Rightarrow> u | _ \<Rightarrow> ''''))"
  by (simp add: withHostRouting_def surface_def Let_def)

text \<open>With no environment set, the dashboard origin that sign-in defaults to is itself a marketing host, so every request for
  \<open>/auth/\<close> on it is redirected to the URL it came from: sign-in never ends.\<close>
theorem default_origin_loops:
  "withHostRouting (loadHostConfig host_of (\<lambda>_. '''') ''https://spinup.in'')
     \<lparr> h_method = ''GET'', h_host = ''spinup.in'', h_path = ''/auth/'' @ p, h_uri = u \<rparr>
   = Redirect (''https://'' @ ''spinup.in'' @ ''/auth/'' @ p)"
proof -
  have m: "requestHost ''spinup.in'' \<in> hc_marketing (loadHostConfig host_of (\<lambda>_. '''') ''https://spinup.in'')"
    "hc_base (loadHostConfig host_of (\<lambda>_. '''') ''https://spinup.in'') = ''https://spinup.in''"
  proof -
    have f: "fields_func list_sep '''' = []" by (simp add: fields_func.simps)
    have "requestHost ''spinup.in'' = to_lower (trim_space ''spinup.in'')" "to_lower (trim_space ''spinup.in'') \<noteq> ''''"
      "trim_slashes (trim_space ''https://spinup.in'') = ''https://spinup.in''"
      by code_simp+
    then show "requestHost ''spinup.in'' \<in> hc_marketing (loadHostConfig host_of (\<lambda>_. '''') ''https://spinup.in'')"
      "hc_base (loadHostConfig host_of (\<lambda>_. '''') ''https://spinup.in'') = ''https://spinup.in''"
      by (simp_all add: loadHostConfig_def parseHostSet_def f Let_def del: One_nat_def)
  qed
  then show ?thesis
    by (simp add: withHostRouting_def surface_def Let_def)
qed

text \<open>Who may read the waitlist: administrators and logins on the allowlist; with an empty allowlist, which is how sign-in is opened to
  everybody, that is every signed-in user.\<close>
theorem waitlist_readers:
  "(hp_status (handleAdminWaitlist stamp allowed u s) = 200 \<longleftrightarrow>
      (\<exists>v. u = Some v \<and> (su_admin v \<or> allowed = {} \<or> to_lower (trim_space (su_login v)) \<in> allowed)))
   \<and> hp_status (handleAdminWaitlist stamp allowed u s) \<in> {200, 403}
   \<and> hp_status (handleAdminWaitlist stamp {} (Some v) s) = 200"
  by (cases u) (auto simp: handleAdminWaitlist_def isOperator_def loginAllowed_def err_def reply_def Let_def)

text \<open>A signup is stored with a known use case, a lower-case address that parsed, and at most 120 bytes of name and college; all
  other requests leave the table alone.\<close>
theorem join_waitlist_effect:
  assumes "handleJoinWaitlist x r (rl, s) = (q, rl', s')"
  shows "(q = Some 201 \<longrightarrow> (\<exists>em uc nm co. s' = snd (UpsertWaitlistSignup (wx_now x) (wx_fresh x) em uc nm co s)
            \<and> uc \<in> set validUseCases \<and> em \<noteq> '''' \<and> to_lower em = em \<and> wx_mail x em \<and> length nm \<le> 120 \<and> length co \<le> 120))
       \<and> (q \<noteq> Some 201 \<longrightarrow> s' = s)"
proof (cases "allow (wx_now x) (clientIP (wr_forwarded r) (wr_remote r)) rl")
  case (Some bl)
  obtain b rl1 where bl: "bl = (b, rl1)" by (cases bl)
  have fail: "snd (UpsertWaitlistSignup n f e u nm co s) = s" if "fst (UpsertWaitlistSignup n f e u nm co s) = Inl z" for n f e u nm co z
    using that by (auto simp: UpsertWaitlistSignup_def split: if_splits)
  show ?thesis
  proof (cases b)
    case True
    let ?f = "\<lambda>k. unmarshal (wr_json r) [k] dec_str"
    let ?em = "to_lower (trim_space (fst (?f ''email'')))" and ?uc = "trim_space (fst (?f ''use_case''))"
    let ?nm = "take 120 (trim_space (fst (?f ''name'')))" and ?co = "take 120 (trim_space (fst (?f ''college'')))"
    let ?U = "UpsertWaitlistSignup (wx_now x) (wx_fresh x) ?em ?uc ?nm ?co s"
    obtain z s1 where z: "?U = (z, s1)" by (cases ?U)
    have st: "(q, s') = (if \<not> (snd (?f ''email'') \<and> snd (?f ''use_case'') \<and> snd (?f ''name'') \<and> snd (?f ''college''))
          \<or> ?em = '''' \<or> \<not> wx_mail x ?em \<or> ?uc \<notin> set validUseCases
        then (Some 400, s) else (case z of Inl _ \<Rightarrow> (Some 500, s1) | Inr _ \<Rightarrow> (Some 201, s1)))"
      using assms Some bl True z
      by (simp add: handleJoinWaitlist_def Let_def case_prod_beta split: sum.splits if_splits) (auto split: sum.splits)
    show ?thesis
    proof (cases z)
      case (Inl e)
      then have "s1 = s" using fail z by (metis fst_conv snd_conv)
      then show ?thesis using st Inl by (auto split: if_splits)
    next
      case (Inr y)
      have "s1 = snd ?U" using z by simp
      then have "q = Some 201 \<Longrightarrow> s' = snd ?U \<and> ?uc \<in> set validUseCases \<and> ?em \<noteq> '''' \<and> to_lower ?em = ?em \<and> wx_mail x ?em
          \<and> length ?nm \<le> 120 \<and> length ?co \<le> 120" and "q \<noteq> Some 201 \<Longrightarrow> s' = s"
        using st Inr by (simp_all split: if_splits)
      then show ?thesis by blast
    qed
  qed (use assms Some bl in \<open>auto simp: handleJoinWaitlist_def\<close>)
qed (use assms in \<open>auto simp: handleJoinWaitlist_def\<close>)

end
