(* ===== verification/Self_Rebuild.thy ===== *)
theory Self_Rebuild
  imports Builder_Props Github
begin

text \<open>
  The self-rebuilder (\<open>self_rebuild.go\<close>): polling the head of the platform's own repository, recreating the
  Kaniko Job, restarting the control-plane Deployment and recording the commit in a ConfigMap.  GitHub's public
  endpoint is a function from the request to a response, the rate-limit header and the two time stamps are strings, and
  each polling loop has a clock that gives, per iteration, the time and whether the context was found cancelled.  The
  outcome \<open>Running\<close> stands for a loop that has used up its fuel.
\<close>

section \<open>Constants\<close>

definition selfRepoFullName :: string where "selfRepoFullName = ''jamilshaikh07/vercel-clone''"
definition selfRepoBranch :: string where "selfRepoBranch = ''main''"
definition rebuilderStateCM :: string where "rebuilderStateCM = ''control-plane-rebuilder-state''"
definition rebuilderJobName :: string where "rebuilderJobName = ''build-control-plane''"
definition rebuilderDeployName :: string where "rebuilderDeployName = ''control-plane''"
definition rebuilderNamespace :: string where "rebuilderNamespace = ''paas-system''"
definition rebuilderBuildTimeout :: time where "rebuilderBuildTimeout = 8 * minute"
definition rebuilderImagePushRef :: string where
  "rebuilderImagePushRef = ''registry.paas-system.svc.cluster.local:5000/spinup-control-plane:latest''"

definition cm_collection :: string where
  "cm_collection = ''/api/v1/namespaces/'' @ rebuilderNamespace @ ''/configmaps''"

definition cm_path :: string where "cm_path = cm_collection @ ''/'' @ rebuilderStateCM"

definition rb_jobs :: string where
  "rb_jobs = ''/apis/batch/v1/namespaces/'' @ rebuilderNamespace @ ''/jobs''"

definition rb_job_path :: string where "rb_job_path = rb_jobs @ ''/'' @ rebuilderJobName"

definition rb_deploy_path :: string where
  "rb_deploy_path = ''/apis/apps/v1/namespaces/'' @ rebuilderNamespace @ ''/deployments/'' @ rebuilderDeployName"

record 'k rb_ext =
  rb_api :: "'k api"
  rb_http :: "greq \<Rightarrow> kresp"
  rb_reset :: string
  rb_stamp :: string
  rb_restart :: string
  rb_gone_clock :: "nat \<Rightarrow> time \<times> string option"
  rb_clock :: "nat \<Rightarrow> time \<times> string option"
  rb_fuel :: nat

section \<open>Head of the branch\<close>

definition githubLatestSHA :: "(greq \<Rightarrow> kresp) \<Rightarrow> string \<Rightarrow> string \<Rightarrow> string \<Rightarrow> (string, string) result" where
  "githubLatestSHA http reset fullName branch =
     (case http \<lparr> gq_meth = GET, gq_url = ''https://api.github.com/repos/'' @ fullName @ ''/branches/'' @ pathEscape branch,
                 gq_bearer = '''', gq_body = None \<rparr> of
        Net_error e \<Rightarrow> Inl e
      | Resp st body j \<Rightarrow>
          if st \<noteq> 200 then Inl (''HTTP '' @ show_nat st @ (if reset \<noteq> '''' then '' ratelimit_reset='' @ reset else ''''))
          else (let (sha, ok) = unmarshal j [''commit'', ''sha''] dec_str
                in if \<not> ok then Inl ''decode''
                   else if length sha \<noteq> 40 then Inl (''unexpected sha format: '' @ quoted sha)
                   else Inr sha))"

section \<open>The state ConfigMap\<close>

definition dec_smap :: "(string \<times> string) list dec" where
  "dec_smap j = (case j of
       Some (JObj kvs) \<Rightarrow> (map (\<lambda>(k, v). (k, fst (dec_str (Some v)))) kvs, list_all (\<lambda>(k, v). snd (dec_str (Some v))) kvs)
     | None \<Rightarrow> ([], True) | Some JNull \<Rightarrow> ([], True) | _ \<Rightarrow> ([], False))"

definition readRebuilderState :: "'k api \<Rightarrow> 'k kube \<Rightarrow> (string, string) result \<times> 'k kube" where
  "readRebuilderState api s =
     (case kdo api GET cm_path None s of
        (Net_error e, s1) \<Rightarrow> (Inl e, s1)
      | (Resp st body j, s1) \<Rightarrow>
          if st = 404 then (Inr '''', s1)
          else if st \<noteq> 200 then (Inl (''HTTP '' @ show_nat st @ '': '' @ snippet body), s1)
          else (let (data, ok) = unmarshal j [''data''] dec_smap
                in if \<not> ok then (Inl ''decode'', s1)
                   else (Inr (coalesce (map_of data ''last_sha'') ''''), s1)))"

definition state_object :: "string \<Rightarrow> string \<Rightarrow> json" where
  "state_object stamp sha = JObj
     [(''apiVersion'', JStr ''v1''), (''kind'', JStr ''ConfigMap''),
      (''metadata'', JObj [(''name'', JStr rebuilderStateCM), (''namespace'', JStr rebuilderNamespace)]),
      (''data'', jlabels [(''last_sha'', sha), (''updated_at'', stamp)])]"

definition writeRebuilderState :: "'k api \<Rightarrow> string \<Rightarrow> string \<Rightarrow> 'k kcmd" where
  "writeRebuilderState api stamp sha = kapply api cm_collection rebuilderStateCM (state_object stamp sha)"

section \<open>The build Job\<close>

definition rebuild_job :: json where
  "rebuild_job = JObj
     [(''apiVersion'', JStr ''batch/v1''), (''kind'', JStr ''Job''),
      (''metadata'', JObj [(''name'', JStr rebuilderJobName), (''namespace'', JStr rebuilderNamespace),
         (''labels'', jlabels [(''app.kubernetes.io/component'', ''builder''), (''app.kubernetes.io/part-of'', ''paas''),
                               (''paas.trigger'', ''self-rebuilder'')])]),
      (''spec'', JObj
        [(''backoffLimit'', JInt 0), (''ttlSecondsAfterFinished'', JInt 3600),
         (''template'', JObj
           [(''metadata'', JObj [(''labels'', jlabels [(''app.kubernetes.io/component'', ''builder'')])]),
            (''spec'', JObj
              [(''restartPolicy'', JStr ''Never''),
               (''volumes'', JArr [JObj [(''name'', JStr ''docker-config''),
                  (''secret'', JObj [(''secretName'', JStr dockerCfgSecret),
                     (''items'', JArr [jlabels [(''key'', ''.dockerconfigjson''), (''path'', ''config.json'')]])])]]),
               (''containers'', JArr [JObj
                 [(''name'', JStr ''kaniko''), (''image'', JStr ''gcr.io/kaniko-project/executor:v1.23.2''),
                  (''args'', JArr (map JStr
                    [''--context=git://github.com/'' @ selfRepoFullName @ ''.git#refs/heads/'' @ selfRepoBranch,
                     ''--context-sub-path=control-plane'', ''--dockerfile=Dockerfile'',
                     ''--destination='' @ rebuilderImagePushRef, ''--insecure'', ''--snapshot-mode=redo'',
                     ''--use-new-run'', ''--cache=false'', ''--verbosity=info''])),
                  (''volumeMounts'', JArr [JObj [(''name'', JStr ''docker-config''), (''mountPath'', JStr ''/kaniko/.docker''),
                                               (''readOnly'', JBool True)]]),
                  (''resources'', JObj [(''requests'', jlabels [(''cpu'', ''500m''), (''memory'', ''1Gi'')]),
                                        (''limits'', jlabels [(''cpu'', ''2''), (''memory'', ''4Gi'')])])]])])])])]"

fun gone_loop :: "'k api \<Rightarrow> (nat \<Rightarrow> time \<times> string option) \<Rightarrow> time \<Rightarrow> nat \<Rightarrow> nat \<Rightarrow> 'k kube \<Rightarrow> outcome \<times> 'k kube" where
  "gone_loop api clock deadline 0 i s = (Running, s)"
| "gone_loop api clock deadline (Suc fuel) i s =
     (if \<not> fst (clock i) < deadline then (Done (Some ''old job still present after 30s''), s)
      else (case kdo api GET rb_job_path None s of
              (Net_error e, s1) \<Rightarrow> (Done (Some e), s1)
            | (Resp st _ _, s1) \<Rightarrow>
                if st = 404 then (Done None, s1)
                else (case snd (clock i) of
                        Some cancelled \<Rightarrow> (Done (Some cancelled), s1)
                      | None \<Rightarrow> gone_loop api clock deadline fuel (Suc i) s1)))"

definition waitForJobGone :: "'k api \<Rightarrow> (nat \<Rightarrow> time \<times> string option) \<Rightarrow> nat \<Rightarrow> 'k kube \<Rightarrow> outcome \<times> 'k kube" where
  "waitForJobGone api clock fuel s = gone_loop api clock (fst (clock 0) + 30 * second) fuel 0 s"

text \<open>The first condition that is true and of type Complete or Failed decides.\<close>
fun decide_conditions :: "(string \<times> string) list \<Rightarrow> bool \<times> bool" where
  "decide_conditions [] = (False, False)"
| "decide_conditions ((ty, st) # cs) =
     (if st \<noteq> ''True'' then decide_conditions cs
      else if ty = ''Complete'' then (True, True)
      else if ty = ''Failed'' then (False, True)
      else decide_conditions cs)"

definition dec_condition :: "(string \<times> string) dec" where
  "dec_condition j = ((fst (dec_str (json_field j ''type'')), fst (dec_str (json_field j ''status''))),
     obj_ok j \<and> snd (dec_str (json_field j ''type'')) \<and> snd (dec_str (json_field j ''status'')))"

definition jobOutcome :: "'k api \<Rightarrow> 'k kube \<Rightarrow> (string, bool \<times> bool) result \<times> 'k kube" where
  "jobOutcome api s =
     (case kdo api GET rb_job_path None s of
        (Net_error e, s1) \<Rightarrow> (Inl e, s1)
      | (Resp st _ j, s1) \<Rightarrow>
          if st \<noteq> 200 then (Inl (''HTTP '' @ show_nat st), s1)
          else (let (cs, ok) = unmarshal j [''status'', ''conditions''] (dec_list dec_condition)
                in if \<not> (ok \<and> snd (unmarshal j [''status'', ''succeeded''] dec_int) \<and> snd (unmarshal j [''status'', ''failed''] dec_int))
                   then (Inl ''decode'', s1)
                   else (Inr (decide_conditions cs), s1)))"

fun poll_loop :: "'k api \<Rightarrow> (nat \<Rightarrow> time \<times> string option) \<Rightarrow> time \<Rightarrow> nat \<Rightarrow> nat \<Rightarrow> 'k kube \<Rightarrow> outcome \<times> 'k kube" where
  "poll_loop api clock deadline 0 i s = (Running, s)"
| "poll_loop api clock deadline (Suc fuel) i s =
     (if \<not> fst (clock i) < deadline then (Done (Some ''build timed out after 8m0s''), s)
      else (case snd (clock i) of
              Some cancelled \<Rightarrow> (Done (Some cancelled), s)
            | None \<Rightarrow>
                (case jobOutcome api s of
                   (Inl _, s1) \<Rightarrow> poll_loop api clock deadline fuel (Suc i) s1
                 | (Inr (ok, fin), s1) \<Rightarrow>
                     if \<not> fin then poll_loop api clock deadline fuel (Suc i) s1
                     else if \<not> ok then (Done (Some ''build job failed''), s1)
                     else (Done None, s1))))"

definition triggerBuildJob :: "'k rb_ext \<Rightarrow> 'k kube \<Rightarrow> outcome \<times> 'k kube" where
  "triggerBuildJob x s =
     (case kdo (rb_api x) DELETE (rb_job_path @ ''?propagationPolicy=Background'') None s of
        (Net_error e, s1) \<Rightarrow> (Done (Some (wrap_err ''delete old job'' e)), s1)
      | (Resp st _ _, s1) \<Rightarrow>
          if st \<noteq> 200 \<and> st \<noteq> 202 \<and> st \<noteq> 404 then (Done (Some (''delete old job HTTP '' @ show_nat st)), s1)
          else (case waitForJobGone (rb_api x) (rb_gone_clock x) (rb_fuel x) s1 of
                  (Done None, s2) \<Rightarrow>
                    (case kdo (rb_api x) POST rb_jobs (Some rebuild_job) s2 of
                       (Net_error e, s3) \<Rightarrow> (Done (Some (wrap_err ''create job'' e)), s3)
                     | (Resp st2 body2 _, s3) \<Rightarrow>
                         if \<not> ok2xx st2 then (Done (Some (''create job HTTP '' @ show_nat st2 @ '': '' @ snippet body2)), s3)
                         else poll_loop (rb_api x) (rb_clock x) (fst (rb_clock x 0) + rebuilderBuildTimeout) (rb_fuel x) 0 s3)
                | (Done (Some e), s2) \<Rightarrow> (Done (Some (wrap_err ''wait for old job gone'' e)), s2)
                | (q, s2) \<Rightarrow> (q, s2)))"

definition restart_patch :: "string \<Rightarrow> json" where
  "restart_patch stamp = JObj [(''spec'', JObj [(''template'', JObj [(''metadata'', JObj
     [(''annotations'', jlabels [(''kubectl.kubernetes.io/restartedAt'', stamp)])])])])]"

definition rolloutRestart :: "'k api \<Rightarrow> string \<Rightarrow> 'k kcmd" where
  "rolloutRestart api stamp s =
     (case kdo api PATCH rb_deploy_path (Some (restart_patch stamp)) s of
        (Net_error e, s1) \<Rightarrow> (Some e, s1)
      | (Resp st _ _, s1) \<Rightarrow>
          if st \<noteq> 200 then (Some (''patch deployment HTTP '' @ show_nat st), s1) else (None, s1))"

text \<open>The log line slices the first eight bytes of the recorded commit: a shorter one is a panic.\<close>
definition rebuilderTick :: "'k rb_ext \<Rightarrow> 'k kube \<Rightarrow> outcome \<times> 'k kube" where
  "rebuilderTick x s =
     (case githubLatestSHA (rb_http x) (rb_reset x) selfRepoFullName selfRepoBranch of
        Inl e \<Rightarrow> (Done (Some (wrap_err ''get latest SHA'' e)), s)
      | Inr latest \<Rightarrow>
          (case readRebuilderState (rb_api x) s of
             (Inl e, s1) \<Rightarrow> (Done (Some (wrap_err ''read state'' e)), s1)
           | (Inr lastBuilt, s1) \<Rightarrow>
               if lastBuilt = '''' then (let (e, s2) = writeRebuilderState (rb_api x) (rb_stamp x) latest s1 in (Done e, s2))
               else if lastBuilt = latest then (Done None, s1)
               else if length lastBuilt < 8 then (Panic, s1)
               else (case triggerBuildJob x s1 of
                       (Done None, s2) \<Rightarrow>
                         (case rolloutRestart (rb_api x) (rb_restart x) s2 of
                            (Some e, s3) \<Rightarrow> (Done (Some (wrap_err ''rollout'' e)), s3)
                          | (None, s3) \<Rightarrow>
                              (case writeRebuilderState (rb_api x) (rb_stamp x) latest s3 of
                                 (Some e, s4) \<Rightarrow> (Done (Some (wrap_err ''save state'' e)), s4)
                               | (None, s4) \<Rightarrow> (Done None, s4)))
                     | (Done (Some e), s2) \<Rightarrow> (Done (Some (wrap_err ''trigger build'' e)), s2)
                     | (q, s2) \<Rightarrow> (q, s2))))"

section \<open>The loops end\<close>

lemma gone_loop_returns:
  assumes "i \<le> m" "\<not> fst (clock m) < deadline" "m - i < fuel"
  shows "\<exists>e s'. gone_loop api clock deadline fuel i s = (Done e, s')"
  using assms(1,3)
proof (induction fuel arbitrary: i s)
  case (Suc fuel)
  have next_i: "\<exists>e s'. gone_loop api clock deadline fuel (Suc i) s1 = (Done e, s')" if "i \<noteq> m" for s1
    using Suc.IH[of "Suc i" s1] Suc.prems that by auto
  show ?case
    by (cases "i = m") (use assms(2) next_i in \<open>auto split: prod.splits kresp.splits option.splits\<close>)
qed simp

lemma poll_loop_returns:
  assumes "i \<le> m" "\<not> fst (clock m) < deadline" "m - i < fuel"
  shows "\<exists>e s'. poll_loop api clock deadline fuel i s = (Done e, s')"
  using assms(1,3)
proof (induction fuel arbitrary: i s)
  case (Suc fuel)
  have next_i: "\<exists>e s'. poll_loop api clock deadline fuel (Suc i) s1 = (Done e, s')" if "i \<noteq> m" for s1
    using Suc.IH[of "Suc i" s1] Suc.prems that by auto
  show ?case
    by (cases "i = m") (use assms(2) next_i in \<open>auto split: prod.splits sum.splits option.splits\<close>)
qed simp

lemma trigger_returns:
  assumes "m < rb_fuel x" "fst (rb_clock x m) \<ge> fst (rb_clock x 0) + rebuilderBuildTimeout"
    and "n < rb_fuel x" "fst (rb_gone_clock x n) \<ge> fst (rb_gone_clock x 0) + 30 * second"
  shows "\<exists>e s'. triggerBuildJob x s = (Done e, s')"
proof -
  have g: "\<exists>e s'. waitForJobGone (rb_api x) (rb_gone_clock x) (rb_fuel x) s1 = (Done e, s')" for s1
    unfolding waitForJobGone_def by (rule gone_loop_returns[where m = n]) (use assms in auto)
  have p: "\<exists>e s'. poll_loop (rb_api x) (rb_clock x) (fst (rb_clock x 0) + rebuilderBuildTimeout) (rb_fuel x) 0 s1 = (Done e, s')" for s1
    by (rule poll_loop_returns[where m = m]) (use assms in auto)
  obtain q s1 where d: "kdo (rb_api x) DELETE (rb_job_path @ ''?propagationPolicy=Background'') None s = (q, s1)"
    by (cases "kdo (rb_api x) DELETE (rb_job_path @ ''?propagationPolicy=Background'') None s")
  obtain e s2 where w: "waitForJobGone (rb_api x) (rb_gone_clock x) (rb_fuel x) s1 = (Done e, s2)" using g by blast
  obtain q2 s3 where c: "kdo (rb_api x) POST rb_jobs (Some rebuild_job) s2 = (q2, s3)"
    by (cases "kdo (rb_api x) POST rb_jobs (Some rebuild_job) s2")
  show ?thesis using d w c p[of s3] by (cases e) (auto simp: triggerBuildJob_def split: kresp.splits)
qed

text \<open>A tick of the self-rebuilder always ends: once the clocks of its two loops have passed their deadlines within the fuel,
  the tick has returned a result or panicked, whatever GitHub and the API server answer.\<close>
theorem rebuild_returns:
  assumes "m < rb_fuel x" "fst (rb_clock x m) \<ge> fst (rb_clock x 0) + rebuilderBuildTimeout"
    and "n < rb_fuel x" "fst (rb_gone_clock x n) \<ge> fst (rb_gone_clock x 0) + 30 * second"
  shows "fst (rebuilderTick x s) \<noteq> Running"
proof -
  obtain t where t: "\<And>s. \<exists>s'. triggerBuildJob x s = (Done (t s), s')" using trigger_returns[OF assms] by metis
  then obtain u where u: "\<And>s. triggerBuildJob x s = (Done (t s), u s)" by metis
  show ?thesis
    by (auto simp: rebuilderTick_def u Let_def split: sum.splits prod.splits option.splits)
qed

section \<open>A bad build changes nothing\<close>

text \<open>Neither a restart nor a write of the state.\<close>
definition harmless :: "kreq \<Rightarrow> bool" where
  "harmless q \<longleftrightarrow> rq_meth q \<noteq> PATCH \<and> (rq_path q \<in> {cm_collection, cm_path} \<longrightarrow> rq_meth q = GET)"

lemma rb_path_neq: "rb_job_path \<notin> {cm_collection, cm_path}" "rb_jobs \<notin> {cm_collection, cm_path}"
  "rb_job_path @ q \<notin> {cm_collection, cm_path}"
  by (simp_all add: rb_job_path_def rb_jobs_def cm_collection_def cm_path_def rebuilderNamespace_def)

lemma harmless_gone: "gone_loop api clock dl fuel i s = (r, s') \<Longrightarrow> kext harmless s s'"
proof (induction fuel arbitrary: i s)
  case (Suc fuel)
  obtain q s1 where g: "kdo api GET rb_job_path None s = (q, s1)" by (cases "kdo api GET rb_job_path None s")
  have k: "kext harmless s s1" by (rule kext_kdo[OF g]) (simp add: harmless_def)
  show ?case using Suc.prems g k Suc.IH[of "Suc i" s1]
    by (auto split: if_splits kresp.splits option.splits intro: kext_trans[OF k])
qed simp

lemma harmless_poll: "poll_loop api clock dl fuel i s = (r, s') \<Longrightarrow> kext harmless s s'"
proof (induction fuel arbitrary: i s)
  case (Suc fuel)
  obtain q s1 where g: "kdo api GET rb_job_path None s = (q, s1)" by (cases "kdo api GET rb_job_path None s")
  have k: "kext harmless s s1" by (rule kext_kdo[OF g]) (simp add: harmless_def)
  have j: "snd (jobOutcome api s) = s1"
    using g by (auto simp: jobOutcome_def Let_def split: kresp.splits prod.splits)
  show ?case using Suc.prems k j Suc.IH[of "Suc i" s1]
    by (auto split: if_splits sum.splits option.splits prod.splits intro: kext_trans[OF k])
qed simp

lemma harmless_trigger:
  assumes "triggerBuildJob x s = (r, s')"
  shows "kext harmless s s'"
proof -
  obtain q s1 where d: "kdo (rb_api x) DELETE (rb_job_path @ ''?propagationPolicy=Background'') None s = (q, s1)"
    by (cases "kdo (rb_api x) DELETE (rb_job_path @ ''?propagationPolicy=Background'') None s")
  have k1: "kext harmless s s1" by (rule kext_kdo[OF d]) (use rb_path_neq in \<open>simp add: harmless_def\<close>)
  obtain e s2 where w: "waitForJobGone (rb_api x) (rb_gone_clock x) (rb_fuel x) s1 = (e, s2)"
    by (cases "waitForJobGone (rb_api x) (rb_gone_clock x) (rb_fuel x) s1")
  have k2: "kext harmless s s2" using kext_trans[OF k1] harmless_gone w unfolding waitForJobGone_def by blast
  obtain q2 s3 where c: "kdo (rb_api x) POST rb_jobs (Some rebuild_job) s2 = (q2, s3)"
    by (cases "kdo (rb_api x) POST rb_jobs (Some rebuild_job) s2")
  have k3: "kext harmless s s3"
    by (rule kext_trans[OF k2]) (rule kext_kdo[OF c], use rb_path_neq in \<open>simp add: harmless_def\<close>)
  have "s' \<in> {s1, s2, s3} \<or> (\<exists>dl. poll_loop (rb_api x) (rb_clock x) dl (rb_fuel x) 0 s3 = (r, s'))"
    using assms d w c by (auto simp: triggerBuildJob_def split: kresp.splits if_splits outcome.splits option.splits)
  then show ?thesis using k1 k2 k3 harmless_poll kext_trans[OF k3] by blast
qed

lemma harmless_read: "readRebuilderState api s = (r, s') \<Longrightarrow> kext harmless s s'"
  by (auto simp: readRebuilderState_def Let_def harmless_def dest!: kext_kdo[where P = harmless]
      split: prod.splits kresp.splits if_splits)

text \<open>C25: The first promise of the file: a commit whose build does not complete (it fails, cannot be created, times out or is cancelled)
  is not rolled out and not recorded: the tick reports an error and has sent neither the restart patch nor a write of the state, so
  the old pod keeps serving and the next tick tries again.\<close>
theorem bad_build_not_rolled_out:
  assumes "rebuilderTick x s = (r, s')" "readRebuilderState (rb_api x) s = (Inr old, s1)" "old \<noteq> ''''"
    and "githubLatestSHA (rb_http x) (rb_reset x) selfRepoFullName selfRepoBranch \<noteq> Inr old"
    and "fst (triggerBuildJob x s1) \<noteq> Done None"
  shows "r \<noteq> Done None \<and> kext harmless s s'"
proof (cases "githubLatestSHA (rb_http x) (rb_reset x) selfRepoFullName selfRepoBranch")
  case (Inl e)
  then show ?thesis using assms(1) by (auto simp: rebuilderTick_def)
next
  case (Inr latest)
  have k1: "kext harmless s s1" by (rule harmless_read[OF assms(2)])
  obtain q s2 where t: "triggerBuildJob x s1 = (q, s2)" by (cases "triggerBuildJob x s1")
  have k2: "kext harmless s s2" using kext_trans[OF k1 harmless_trigger[OF t]] .
  show ?thesis using assms Inr k1 k2 t
    by (auto simp: rebuilderTick_def split: if_splits outcome.splits option.splits)
qed

text \<open>An API server that has the state \<open>v\<close> and refuses everything but reading, and a GitHub whose head is forty times \<open>a\<close>.\<close>
definition no_api :: "string \<Rightarrow> unit api" where
  "no_api v r k = (if rq_meth r = GET then (Resp 200 '''' (Some (state_object ''t'' v)), k) else (Resp 500 ''no'' None, k))"

definition demo_head :: string where "demo_head = replicate 40 (CHR ''a'')"

definition demo_rb :: "'k api \<Rightarrow> 'k rb_ext" where
  "demo_rb api = \<lparr> rb_api = api,
     rb_http = (\<lambda>_. Resp 200 '''' (Some (JObj [(''commit'', JObj [(''sha'', JStr demo_head)])]))), rb_reset = '''',
     rb_stamp = ''t'', rb_restart = ''t'', rb_gone_clock = (\<lambda>i. (int i * 1000000000000, None)),
     rb_clock = (\<lambda>i. (int i * 1000000000000, None)), rb_fuel = 5 \<rparr>"

lemma demo_latest: "githubLatestSHA (rb_http (demo_rb api)) (rb_reset (demo_rb api)) selfRepoFullName selfRepoBranch = Inr demo_head"
  by (simp add: githubLatestSHA_def demo_rb_def unmarshal_def obj_ok_def demo_head_def Let_def numeral_eq_Suc All_less_Suc)

lemma no_read: "readRebuilderState (no_api v) s = (Inr v, s\<lparr> k_trace := k_trace s @ [\<lparr> rq_meth = GET, rq_path = cm_path, rq_body = None \<rparr>] \<rparr>)"
  by (simp add: readRebuilderState_def no_api_def kdo_def state_object_def jlabels_def unmarshal_def obj_ok_def dec_smap_def
      coalesce_def Let_def)

theorem rebuild_returns_witness: "fst (rebuilderTick (demo_rb toy_api) \<lparr> k_state = (\<lambda>_. None, 0), k_trace = [] \<rparr>) \<noteq> Running"
  by (rule rebuild_returns[of 1 _ 1]) (simp_all add: demo_rb_def rebuilderBuildTimeout_def minute_def second_def)

theorem bad_build_not_rolled_out_witness:
  "\<exists>r s'. rebuilderTick (demo_rb (no_api ''0123456789'')) \<lparr> k_state = (), k_trace = [] \<rparr> = (r, s') \<and> r \<noteq> Done None
     \<and> kext harmless \<lparr> k_state = (), k_trace = [] \<rparr> s'"
proof -
  let ?x = "demo_rb (no_api ''0123456789'')" and ?s = "\<lparr> k_state = (), k_trace = [] \<rparr>"
  obtain r s' where t: "rebuilderTick ?x ?s = (r, s')" by (cases "rebuilderTick ?x ?s")
  have "fst (triggerBuildJob ?x s1) \<noteq> Done None" for s1
    by (simp add: triggerBuildJob_def demo_rb_def no_api_def kdo_def)
  moreover have "githubLatestSHA (rb_http ?x) (rb_reset ?x) selfRepoFullName selfRepoBranch \<noteq> Inr ''0123456789''"
    unfolding demo_latest by (simp add: demo_head_def numeral_eq_Suc)
  moreover have "rb_api ?x = no_api ''0123456789''" by (simp add: demo_rb_def)
  ultimately show ?thesis using bad_build_not_rolled_out[OF t, of "''0123456789''"] no_read t by fastforce
qed

section \<open>Every commit is built once\<close>

lemma cm_obj_path: "obj_path cm_collection rebuilderStateCM = cm_path"
proof -
  have "pathEscape rebuilderStateCM = rebuilderStateCM" by code_simp
  then show ?thesis by (simp add: obj_path_def cm_path_def)
qed

lemma state_object_meta: "has_meta rebuilderStateCM (state_object stamp sha)"
  by (simp add: has_meta_def state_object_def)

text \<open>The commit an object of the cluster records, as \<open>readRebuilderState\<close> decodes it.\<close>
definition recorded :: "json \<Rightarrow> string option" where
  "recorded v = (let (data, ok) = unmarshal (Some v) [''data''] dec_smap in if ok then Some (coalesce (map_of data ''last_sha'') '''') else None)"

lemma cm_path_plain: "CHR ''?'' \<notin> set cm_path"
  by code_simp

lemma recorded_state:
  assumes "jget v ''data'' = Some (jlabels [(''last_sha'', sha), (''updated_at'', stamp)])"
  shows "recorded v = Some sha"
proof -
  obtain kvs where "v = JObj kvs" using assms by (auto simp: jget_def split: json.splits)
  then show ?thesis using assms by (simp add: recorded_def unmarshal_def obj_ok_def dec_smap_def jget_def jlabels_def coalesce_def dec_str_def Let_def)
qed

lemma read_recorded:
  assumes "readRebuilderState api s = (Inr sha, s1)" "sha \<noteq> ''''"
  obtains b v k' where "api \<lparr> rq_meth = GET, rq_path = cm_path, rq_body = None \<rparr> (k_state s) = (Resp 200 b (Some v), k')"
    "recorded v = Some sha" "k_state s1 = k'"
proof -
  obtain q k' where q: "api \<lparr> rq_meth = GET, rq_path = cm_path, rq_body = None \<rparr> (k_state s) = (q, k')" by fastforce
  from assms q obtain b j where 1: "q = Resp 200 b j" "k_state s1 = k'"
      "(let (data, ok) = unmarshal j [''data''] dec_smap in if ok then Some (coalesce (map_of data ''last_sha'') '''') else None) = Some sha"
    by (cases q) (auto simp: readRebuilderState_def kdo_eq Let_def split: if_splits prod.splits)
  then have "j \<noteq> None" by (auto simp: unmarshal_def Let_def split: if_splits)
  then show ?thesis using that 1 q unfolding recorded_def by blast
qed

lemma record_read:
  assumes "kube_serves api S" "ks_ready S (k_state s) [Read cm_path]" "ks_look S (k_state s) cm_path = Some v" "recorded v = Some sha"
  shows "\<exists>s'. readRebuilderState api s = (Inr sha, s') \<and> k_trace s' = k_trace s @ [\<lparr> rq_meth = GET, rq_path = cm_path, rq_body = None \<rparr>]"
proof -
  have "Read cm_path \<in> set [Read cm_path]" by simp
  then obtain b k' kvs where g: "api \<lparr> rq_meth = GET, rq_path = cm_path, rq_body = None \<rparr> (k_state s) = (Resp 200 b (Some v), k')"
    using serves_get[OF assms(1,2), of "Read cm_path" v] assms(3) unfolding intent_path.simps by metis
  then show ?thesis using assms(4) by (auto simp: readRebuilderState_def kdo_eq recorded_def Let_def split: prod.splits if_splits)
qed

lemma latest_nonempty: "githubLatestSHA http reset n b = Inr h \<Longrightarrow> h \<noteq> ''''"
  by (auto simp: githubLatestSHA_def Let_def split: kresp.splits if_splits prod.splits)

lemma write_state_kept:
  assumes "kube_contract api S" "writeRebuilderState api stamp sha s = (None, s')"
  shows "\<exists>v. ks_look S (k_state s') cm_path = Some v \<and> recorded v = Some sha"
proof -
  have "kept S (k_state s') cm_path (state_object stamp sha)"
    using kapply_stores[OF assms(1) state_object_meta assms(2)[unfolded writeRebuilderState_def]] by (simp add: cm_obj_path)
  then obtain v where v: "ks_look S (k_state s') cm_path = Some v" "ks_keeps S (state_object stamp sha) v" using kept_present[of S "k_state s'" cm_path] by metis
  have "jget v ''data'' = Some (jlabels [(''last_sha'', sha), (''updated_at'', stamp)])"
    by (rule contract_data[OF assms(1) v(2)]) (simp add: state_object_def jget_def)
  then show ?thesis using v(1) recorded_state by blast
qed

lemma tick_records:
  assumes "kube_contract (rb_api x) S"
    and "githubLatestSHA (rb_http x) (rb_reset x) selfRepoFullName selfRepoBranch = Inr h" "rebuilderTick x s = (Done None, s')"
  shows "\<exists>v. ks_look S (k_state s') cm_path = Some v \<and> recorded v = Some h"
proof -
  obtain old s1 where r: "readRebuilderState (rb_api x) s = (Inr old, s1)"
    using assms(2,3) by (auto simp: rebuilderTick_def split: prod.splits sum.splits)
  show ?thesis
  proof (cases "old = h")
    case True
    then have "s' = s1" "old \<noteq> ''''" using assms(2,3) r latest_nonempty[OF assms(2)] by (simp_all add: rebuilderTick_def)
    then show ?thesis using read_recorded[OF r] contract_get[OF assms(1) cm_path_plain] True by metis
  next
    case False
    then obtain s3 where "writeRebuilderState (rb_api x) (rb_stamp x) h s3 = (None, s')"
      using assms(2,3) r
      by (auto simp: rebuilderTick_def Let_def split: prod.splits if_splits outcome.splits option.splits)
    then show ?thesis using write_state_kept[OF assms(1)] by blast
  qed
qed

text \<open>Every commit is built once: on an API server that keeps its contract, a tick that succeeds leaves the head of the branch
  recorded, and as long as the head does not move and the record can be read, the next tick succeeds too and does nothing but read it.\<close>
theorem rebuild_once:
  assumes "kube_contract (rb_api x) S" "kube_serves (rb_api x) S"
    and "githubLatestSHA (rb_http x) (rb_reset x) selfRepoFullName selfRepoBranch = Inr h"
    and "rebuilderTick x s = (Done None, s')" "ks_ready S (k_state s') [Read cm_path]"
  shows "\<exists>s2. rebuilderTick x s' = (Done None, s2)
     \<and> k_trace s2 = k_trace s' @ [\<lparr> rq_meth = GET, rq_path = cm_path, rq_body = None \<rparr>]"
proof -
  obtain v where v: "ks_look S (k_state s') cm_path = Some v" "recorded v = Some h" using tick_records[OF assms(1,3,4)] by blast
  obtain s2 where "readRebuilderState (rb_api x) s' = (Inr h, s2)"
    "k_trace s2 = k_trace s' @ [\<lparr> rq_meth = GET, rq_path = cm_path, rq_body = None \<rparr>]"
    using record_read[OF assms(2,5) v] by blast
  then show ?thesis using assms(3) latest_nonempty[OF assms(3)] by (auto simp: rebuilderTick_def)
qed

text \<open>A recorded commit of fewer than eight bytes (the ConfigMap is edited by hand, or holds an abbreviated hash) makes the
  log line of the next tick slice out of range: the goroutine panics, and with it the control plane.\<close>
theorem short_state_panics:
  assumes "githubLatestSHA (rb_http x) (rb_reset x) selfRepoFullName selfRepoBranch = Inr h"
    and "readRebuilderState (rb_api x) s = (Inr old, s1)" "old \<noteq> ''''" "length old < 8"
  shows "rebuilderTick x s = (Panic, s1)"
proof -
  have "length h = 40"
    using assms(1) by (auto simp: githubLatestSHA_def Let_def split: kresp.splits if_splits prod.splits)
  then show ?thesis using assms by (auto simp: rebuilderTick_def)
qed

theorem rebuild_once_witness:
  "\<exists>s' s2. rebuilderTick (demo_rb toy_api) (ns_cluster ''paas-system'') = (Done None, s')
     \<and> rebuilderTick (demo_rb toy_api) s' = (Done None, s2) \<and> length (k_trace s2) = length (k_trace s') + 1"
proof -
  let ?x = "demo_rb toy_api" and ?s = "ns_cluster ''paas-system''" and ?m = "state_object (rb_stamp (demo_rb toy_api)) demo_head"
  have x: "rb_api ?x = toy_api" by (simp add: demo_rb_def)
  have "fst (k_state ?s) cm_path = None" by (simp add: ns_cluster_def cm_path_def cm_collection_def rebuilderNamespace_def)
  then have "readRebuilderState toy_api ?s = (Inr '''', \<lparr> k_state = k_state ?s, k_trace = k_trace ?s @ [\<lparr> rq_meth = GET, rq_path = cm_path, rq_body = None \<rparr>] \<rparr>)"
    by (simp add: readRebuilderState_def kdo_eq toy_get toy_look_def)
  then obtain s1 where r: "readRebuilderState toy_api ?s = (Inr '''', s1)" "k_state s1 = k_state ?s" by auto
  have n: "cm_collection = ns_path ''/api/v1'' ''paas-system'' ''configmaps''" "pathEscape ''paas-system'' = ''paas-system''" by code_simp+
  have h: "home toy_server (k_state s1) cm_collection" unfolding r(2) n(1) by (rule ns_cluster_home[OF n(2)]) simp
  have rd: "ks_ready toy_server (k_state s1) [Apply cm_collection rebuilderStateCM ?m]"
    by (simp add: toy_server_def state_object_meta rebuilderStateCM_def[symmetric]) (simp add: rebuilderStateCM_def)
  obtain s' where w: "writeRebuilderState toy_api (rb_stamp ?x) demo_head s1 = (None, s')"
    using kapply_ready[OF toy_contract toy_serves state_object_meta[of "rb_stamp ?x" demo_head] rd _ h]
    unfolding writeRebuilderState_def by auto
  have t: "rebuilderTick ?x ?s = (Done None, s')" using r(1) w demo_latest[of toy_api] by (simp add: rebuilderTick_def x)
  have "ks_ready toy_server (k_state s') [Read cm_path]" by (simp add: toy_server_def)
  then have "\<exists>s2. rebuilderTick ?x s' = (Done None, s2)
     \<and> k_trace s2 = k_trace s' @ [\<lparr> rq_meth = GET, rq_path = cm_path, rq_body = None \<rparr>]"
    using rebuild_once[of ?x toy_server, unfolded x, OF toy_contract toy_serves demo_latest t] by blast
  then show ?thesis using t by auto
qed

theorem short_state_panics_witness:
  "fst (rebuilderTick (demo_rb (no_api ''v1'')) \<lparr> k_state = (), k_trace = [] \<rparr>) = Panic"
  using short_state_panics[OF demo_latest, of "no_api ''v1''" "\<lparr> k_state = (), k_trace = [] \<rparr>" "''v1''"] no_read
  by (simp add: demo_rb_def)

end
