(* ===== verification/Ring_Buffers.thy ===== *)
theory Ring_Buffers
  imports Prelude "HOL-Library.AList"
begin

text \<open>
  The rolling histories of the control plane: a list that keeps its last \<open>cap\<close> entries.  The
  locale states what a push does; the uptime tracker, the status-code series and the two rings of the
  project series interpret it on their own operations.
\<close>

locale ring_buffer =
  fixes items :: "'s \<Rightarrow> 'a list"
    and push :: "'a \<Rightarrow> 's \<Rightarrow> 's"
    and cap :: nat
  assumes items_push: "items (push x s) = keep_last cap (items s @ [x])"
begin

lemma bounded_push: "length (items (push x s)) \<le> cap"
  by (simp add: items_push)

lemma newest_last: "0 < cap \<Longrightarrow> last (items (push x s)) = x"
  by (simp add: items_push keep_last_def)

lemma items_fold: "length (items s) \<le> cap \<Longrightarrow> items (fold push xs s) = keep_last cap (items s @ xs)"
proof (induction xs arbitrary: s)
  case (Cons x xs)
  have "length (items (push x s)) \<le> cap" by (rule bounded_push)
  then have "items (fold push xs (push x s)) = keep_last cap (keep_last cap (items s @ [x]) @ xs)"
    using Cons.IH[of "push x s"] by (simp add: items_push)
  then show ?case by (simp add: keep_last_append)
qed simp

lemma bounded_fold: "length (items s) \<le> cap \<Longrightarrow> length (items (fold push xs s)) \<le> cap"
  by (simp add: items_fold)

lemma forgets_fold: "length (items s) \<le> cap \<Longrightarrow> cap \<le> length xs \<Longrightarrow> items (fold push xs s) = keep_last cap xs"
  by (simp add: items_fold keep_last_def)

end

section \<open>Go maps as association lists\<close>

text \<open>\<open>m[k] += v\<close>\<close>
definition bump :: "'k \<Rightarrow> 'v :: plus \<Rightarrow> ('k \<times> 'v) list \<Rightarrow> ('k \<times> 'v) list" where
  "bump k v m = AList.map_default k v (\<lambda>x. x + v) m"

text \<open>\<open>m[k]\<close> with the zero value for a missing key\<close>
definition mget :: "('k \<times> 'v :: zero) list \<Rightarrow> 'k \<Rightarrow> 'v" where
  "mget m k = (case map_of m k of None \<Rightarrow> 0 | Some v \<Rightarrow> v)"

lemma mget_bump [simp]: "mget (bump k (v :: 'v :: comm_monoid_add) m) j = (if j = k then mget m k + v else mget m j)"
  by (simp add: mget_def bump_def map_of_map_default add.commute split: option.splits)

lemma mget_Nil [simp]: "mget [] k = 0"
  by (simp add: mget_def)

lemma sum_bump: "sum_list (map snd (bump k (v :: 'v :: comm_monoid_add) m)) = sum_list (map snd m) + v"
  by (induction m) (auto simp: bump_def ac_simps)

lemma distinct_bump: "distinct (map fst m) \<Longrightarrow> distinct (map fst (bump k v m))"
  by (simp add: bump_def distinct_map_default)

end
