(* ===== verification/Telemetry.thy ===== *)
theory Telemetry
  imports Complex_Main Ring_Buffers Go_Json Store_Projects
begin

text \<open>
  The telemetry collector (\<open>telemetry.go\<close>): Kubernetes quantities, the text format of Traefik's metrics, the
  snapshot and its cache.  A Go \<open>float64\<close> is an exact rational here: the counters are whole numbers below two to the
  53rd, which \<open>float64\<close> holds exactly; sums of durations and quotients are rounded by Go.  Go maps are association lists with
  each key once.  The clock and the fetch of the exposition text are parameters.
\<close>

section \<open>Machine integers and numbers\<close>

text \<open>The wrap-around of \<open>int64\<close>.\<close>
definition wrap64 :: "int \<Rightarrow> int" where "wrap64 i = (i + 2 ^ 63) mod 2 ^ 64 - 2 ^ 63"

text \<open>Go's integer division truncates.\<close>
definition quot :: "int \<Rightarrow> int \<Rightarrow> int" where
  "quot a b = (if b = 0 then 0 else sgn a * sgn b * (\<bar>a\<bar> div \<bar>b\<bar>))"

definition signed_digits :: "string \<Rightarrow> bool \<times> string" where
  "signed_digits s = (if s \<noteq> [] \<and> hd s = CHR ''-'' then (True, tl s)
                      else if s \<noteq> [] \<and> hd s = CHR ''+'' then (False, tl s) else (False, s))"

text \<open>\<open>n, _ := strconv.ParseInt(s, 10, 64)\<close>: zero for bad syntax, the nearest \<open>int64\<close> when out of range.\<close>
definition parse_int_or_0 :: "string \<Rightarrow> int" where
  "parse_int_or_0 s =
     (let (neg, ds) = signed_digits s
      in case parse_nat ds of
           None \<Rightarrow> 0
         | Some n \<Rightarrow> max (- (2 ^ 63)) (min (2 ^ 63 - 1) (if neg then - int n else int n)))"

text \<open>\<open>strconv.ParseFloat\<close> on decimal numbers: sign, digits with a point, exponent.  The forms it also accepts
  (hexadecimal, underscores, infinities, NaN) do not occur in what the program reads and are rejected.\<close>
definition parse_mantissa :: "string \<Rightarrow> (nat \<times> nat) option" where
  "parse_mantissa s =
     (case index_byte s (CHR ''.'') of
        None \<Rightarrow> map_option (\<lambda>n. (n, 0)) (parse_nat s)
      | Some i \<Rightarrow>
          (let a = take i s; b = drop (i + 1) s
           in if a = [] \<and> b = [] then None
              else map_option (\<lambda>n. (n, length b)) (parse_digits 0 (a @ b))))"

definition is_exp :: "char \<Rightarrow> bool" where "is_exp c \<longleftrightarrow> c = CHR ''e'' \<or> c = CHR ''E''"

definition parse_exponent :: "string \<Rightarrow> int option" where
  "parse_exponent s = (let (neg, ds) = signed_digits s in map_option (\<lambda>n. if neg then - int n else int n) (parse_nat ds))"

definition scale10 :: "rat \<Rightarrow> int \<Rightarrow> rat" where
  "scale10 q e = (if 0 \<le> e then q * 10 ^ nat e else q / 10 ^ nat (- e))"

definition parse_float :: "string \<Rightarrow> rat option" where
  "parse_float s =
     (let (neg, u) = signed_digits s;
          m = takeWhile (\<lambda>c. \<not> is_exp c) u; r = dropWhile (\<lambda>c. \<not> is_exp c) u
      in case parse_mantissa m of
           None \<Rightarrow> None
         | Some (n, d) \<Rightarrow>
             (let q = (if neg then - of_nat n else of_nat n)
              in case r of
                   [] \<Rightarrow> Some (scale10 q (- int d))
                 | _ # ds \<Rightarrow> map_option (\<lambda>e. scale10 q (e - int d)) (parse_exponent ds)))"

text \<open>\<open>int64(f)\<close>: truncation; out of range it is the least \<open>int64\<close>, as amd64 has it.\<close>
definition to_int64 :: "rat \<Rightarrow> int" where
  "to_int64 q =
     (let t = (if 0 \<le> q then \<lfloor>q\<rfloor> else \<lceil>q\<rceil>)
      in if - (2 ^ 63) \<le> t \<and> t < 2 ^ 63 then t else - (2 ^ 63))"

section \<open>Quantities\<close>

definition parseCPUm :: "string \<Rightarrow> int" where
  "parseCPUm v =
     (if v = '''' then 0
      else if suffix ''n'' v then quot (parse_int_or_0 (trim_suffix v ''n'')) 1000000
      else if suffix ''u'' v then quot (parse_int_or_0 (trim_suffix v ''u'')) 1000
      else if suffix ''m'' v then parse_int_or_0 (trim_suffix v ''m'')
      else (case parse_float v of Some f \<Rightarrow> to_int64 (f * 1000) | None \<Rightarrow> 0))"

definition parseMemMi :: "string \<Rightarrow> int" where
  "parseMemMi v =
     (if v = '''' then 0
      else if suffix ''Ki'' v then quot (parse_int_or_0 (trim_suffix v ''Ki'')) 1024
      else if suffix ''Mi'' v then parse_int_or_0 (trim_suffix v ''Mi'')
      else if suffix ''Gi'' v then wrap64 (parse_int_or_0 (trim_suffix v ''Gi'') * 1024)
      else if suffix ''Ti'' v then wrap64 (parse_int_or_0 (trim_suffix v ''Ti'') * 1024 * 1024)
      else if suffix ''K'' v then quot (parse_int_or_0 (trim_suffix v ''K'')) 1000
      else if suffix ''M'' v then parse_int_or_0 (trim_suffix v ''M'')
      else if suffix ''G'' v then wrap64 (parse_int_or_0 (trim_suffix v ''G'') * 1000)
      else if suffix ''T'' v then wrap64 (parse_int_or_0 (trim_suffix v ''T'') * 1000 * 1000)
      else quot (parse_int_or_0 v) (1024 * 1024))"

section \<open>Snapshots\<close>

record PodMetric =
  pm_namespace :: string
  pm_name :: string
  pm_cpu :: int
  pm_memory :: int

record ServiceTraffic =
  st_requests :: rat
  st_errors :: rat
  st_duration :: rat
  st_count :: rat
  st_classes :: "(string \<times> rat) list"
  st_buckets :: "(string \<times> rat) list"

definition new_traffic :: ServiceTraffic where
  "new_traffic = \<lparr> st_requests = 0, st_errors = 0, st_duration = 0, st_count = 0, st_classes = [], st_buckets = [] \<rparr>"

record TelemetrySnapshot =
  ts_as_of :: time
  ts_pods :: "(string \<times> PodMetric list) list"
  ts_services :: "(string \<times> ServiceTraffic) list"
  ts_err :: string

definition classifyCode :: "string \<Rightarrow> string" where
  "classifyCode code =
     (if length code \<noteq> 3 then ''other''
      else if hd code = CHR ''1'' then ''1xx'' else if hd code = CHR ''2'' then ''2xx''
      else if hd code = CHR ''3'' then ''3xx'' else if hd code = CHR ''4'' then ''4xx''
      else if hd code = CHR ''5'' then ''5xx'' else ''other'')"

section \<open>The exposition format\<close>

text \<open>Labels, value.\<close>
definition splitMetricLine :: "string \<Rightarrow> (string \<times> string) option" where
  "splitMetricLine line =
     (case (index_byte line (CHR ''{''), index_byte line (CHR ''}'')) of
        (Some op, Some cl) \<Rightarrow>
          if cl \<le> op then None
          else (let rest = trim_space (drop (cl + 1) line)
                in Some (drop (op + 1) (take cl line),
                         case index_byte rest (CHR '' '') of None \<Rightarrow> rest | Some sp \<Rightarrow> take sp rest))
      | _ \<Rightarrow> None)"

text \<open>The loop of \<open>splitLabels\<close>: current label and whether inside quotes.\<close>
fun split_labels :: "string \<Rightarrow> string \<Rightarrow> bool \<Rightarrow> string list" where
  "split_labels [] cur inq = (if cur = [] then [] else [cur])"
| "split_labels (c # cs) cur inq =
     (let q = (if c = CHR 0x22 then \<not> inq else inq)
      in if c = CHR '','' \<and> \<not> q then cur # split_labels cs [] q
         else split_labels cs (cur @ [c]) q)"

definition splitLabels :: "string \<Rightarrow> string list" where "splitLabels s = split_labels s [] False"

datatype family = Requests_total | Duration_sum | Duration_count | Duration_bucket

definition family_of :: "string \<Rightarrow> family option" where
  "family_of line =
     (if prefix ''traefik_service_requests_total{'' line then Some Requests_total
      else if prefix ''traefik_service_request_duration_seconds_sum{'' line then Some Duration_sum
      else if prefix ''traefik_service_request_duration_seconds_count{'' line then Some Duration_count
      else if prefix ''traefik_service_request_duration_seconds_bucket{'' line then Some Duration_bucket
      else None)"

text \<open>The last label of a name wins.\<close>
definition label_value :: "string \<Rightarrow> string list \<Rightarrow> string" where
  "label_value key kvs =
     fold (\<lambda>kv acc. case index_byte kv (CHR ''='') of
             None \<Rightarrow> acc
           | Some eq \<Rightarrow> if take eq kv = key then trim (\<lambda>c. c = CHR 0x22) (drop (eq + 1) kv) else acc) kvs ''''"

definition add_sample :: "family \<Rightarrow> string \<Rightarrow> string \<Rightarrow> rat \<Rightarrow> ServiceTraffic \<Rightarrow> ServiceTraffic" where
  "add_sample f code le v st =
     (case f of
        Requests_total \<Rightarrow>
          st\<lparr> st_requests := st_requests st + v,
              st_errors := (if length code = 3 \<and> (hd code = CHR ''4'' \<or> hd code = CHR ''5'') then st_errors st + v else st_errors st),
              st_classes := bump (classifyCode code) v (st_classes st) \<rparr>
      | Duration_sum \<Rightarrow> st\<lparr> st_duration := st_duration st + v \<rparr>
      | Duration_count \<Rightarrow> st\<lparr> st_count := st_count st + v \<rparr>
      | Duration_bucket \<Rightarrow> if le \<noteq> '''' then st\<lparr> st_buckets := bump le v (st_buckets st) \<rparr> else st)"

definition parse_line :: "string \<Rightarrow> (string \<times> ServiceTraffic) list \<Rightarrow> (string \<times> ServiceTraffic) list" where
  "parse_line line svcs =
     (if line = [] \<or> hd line = CHR ''#'' then svcs
      else case family_of line of
             None \<Rightarrow> svcs
           | Some f \<Rightarrow>
               (case splitMetricLine line of
                  None \<Rightarrow> svcs
                | Some (labels, v) \<Rightarrow>
                    (case parse_float v of
                       None \<Rightarrow> svcs
                     | Some val \<Rightarrow>
                         (let kvs = splitLabels labels; service = label_value ''service'' kvs
                          in if service = '''' then svcs
                             else AList.map_default service
                                    (add_sample f (label_value ''code'' kvs) (label_value ''le'' kvs) val new_traffic)
                                    (add_sample f (label_value ''code'' kvs) (label_value ''le'' kvs) val) svcs))))"

text \<open>The lines of \<open>bufio.Scanner\<close> with a one-mebibyte buffer: up to the first line that does not fit.\<close>
definition max_token :: nat where "max_token = 2 ^ 20"

definition drop_cr :: "string \<Rightarrow> string" where
  "drop_cr l = (if l \<noteq> [] \<and> last l = CHR 0x0D then butlast l else l)"

definition scan_lines :: "string \<Rightarrow> string list \<times> string option" where
  "scan_lines body =
     (let ls = split_on (CHR 0x0A) body; ls' = (if last ls = [] then butlast ls else ls);
          ok = takeWhile (\<lambda>l. length l < max_token) ls'
      in (map drop_cr ok, if length ok < length ls' then Some ''bufio.Scanner: token too long'' else None))"

definition parseTraefikMetrics :: "string \<Rightarrow> TelemetrySnapshot \<Rightarrow> string option \<times> TelemetrySnapshot" where
  "parseTraefikMetrics body snap =
     (let (ls, e) = scan_lines body in (e, snap\<lparr> ts_services := fold parse_line ls (ts_services snap) \<rparr>))"

section \<open>Collecting\<close>

definition dec_usage :: "(string \<times> string) list dec" where
  "dec_usage j = (case j of
       Some (JObj kvs) \<Rightarrow> (map (\<lambda>(k, v). (k, fst (dec_str (Some v)))) kvs, list_all (\<lambda>(k, v). snd (dec_str (Some v))) kvs)
     | None \<Rightarrow> ([], True) | Some JNull \<Rightarrow> ([], True) | _ \<Rightarrow> ([], False))"

text \<open>A field of an object, for decoders of list elements.\<close>
definition dec_at :: "string list \<Rightarrow> 'a dec \<Rightarrow> 'a dec" where
  "dec_at path d j = (fst (d (json_at j path)),
     (\<forall>n < length path. obj_ok (json_at j (take n path))) \<and> snd (d (json_at j path)))"

definition dec_pod :: "(string \<times> string \<times> (string \<times> string) list list) dec" where
  "dec_pod j =
     (let (nm, a) = dec_at [''metadata'', ''name''] dec_str j; (ns, b) = dec_at [''metadata'', ''namespace''] dec_str j;
          (us, c) = dec_at [''containers''] (dec_list (dec_at [''usage''] dec_usage)) j
      in ((nm, ns, us), a \<and> b \<and> c))"

definition usage_sum :: "string \<Rightarrow> (string \<Rightarrow> int) \<Rightarrow> (string \<times> string) list list \<Rightarrow> int" where
  "usage_sum key p us = fold (\<lambda>u acc. wrap64 (acc + p (coalesce (map_of u key) ''''))) us 0"

definition add_pod ::
  "string \<times> string \<times> (string \<times> string) list list \<Rightarrow> (string \<times> PodMetric list) list \<Rightarrow> (string \<times> PodMetric list) list" where
  "add_pod p m =
     (let (nm, ns, us) = p;
          pod = \<lparr> pm_namespace = ns, pm_name = nm, pm_cpu = usage_sum ''cpu'' parseCPUm us,
                  pm_memory = usage_sum ''memory'' parseMemMi us \<rparr>
      in if \<not> prefix ''paas-tenant-'' ns then m else AList.map_default ns [pod] (\<lambda>ps. ps @ [pod]) m)"

definition loadPodMetrics :: "'k api \<Rightarrow> TelemetrySnapshot \<Rightarrow> 'k kube \<Rightarrow> (string option \<times> TelemetrySnapshot) \<times> 'k kube" where
  "loadPodMetrics api snap s =
     (case kdo api GET ''/apis/metrics.k8s.io/v1beta1/pods'' None s of
        (Net_error e, s1) \<Rightarrow> ((Some e, snap), s1)
      | (Resp st body j, s1) \<Rightarrow>
          if st \<noteq> 200 then ((Some (''HTTP '' @ show_nat st @ '': '' @ snippet body), snap), s1)
          else (let (items, ok) = unmarshal j [''items''] (dec_list dec_pod)
                in if \<not> ok then ((Some ''parse'', snap), s1)
                   else ((None, snap\<lparr> ts_pods := fold add_pod items (ts_pods snap) \<rparr>), s1)))"

definition dec_traefik_pod :: "(string \<times> string) dec" where
  "dec_traefik_pod j =
     (let (nm, a) = dec_at [''metadata'', ''name''] dec_str j; (ip, b) = dec_at [''status'', ''podIP''] dec_str j;
          (ph, c) = dec_at [''status'', ''phase''] dec_str j
      in ((ip, ph), a \<and> b \<and> c))"

definition findTraefikPodIP :: "'k api \<Rightarrow> 'k kube \<Rightarrow> (string, string) result \<times> 'k kube" where
  "findTraefikPodIP api s =
     (case kdo api GET (''/api/v1/namespaces/traefik-system/pods?labelSelector='' @ queryEscape ''app.kubernetes.io/name=traefik'') None s of
        (Net_error e, s1) \<Rightarrow> (Inl e, s1)
      | (Resp st body j, s1) \<Rightarrow>
          if st \<noteq> 200 then (Inl (''list pods HTTP '' @ show_nat st @ '': '' @ snippet body), s1)
          else (let (items, ok) = unmarshal j [''items''] (dec_list dec_traefik_pod)
                in if \<not> ok then (Inl ''decode'', s1)
                   else (case find (\<lambda>(ip, ph). ph = ''Running'' \<and> ip \<noteq> '''') items of
                           None \<Rightarrow> (Inl ''no running traefik pod found'', s1)
                         | Some (ip, _) \<Rightarrow> (Inr ip, s1))))"

text \<open>\<open>fetch\<close> is the GET of the metrics page of a pod: an error, or status and body.\<close>
definition loadTraefikMetrics ::
  "'k api \<Rightarrow> (string \<Rightarrow> (string, nat \<times> string) result) \<Rightarrow> TelemetrySnapshot \<Rightarrow> 'k kube
     \<Rightarrow> (string option \<times> TelemetrySnapshot) \<times> 'k kube" where
  "loadTraefikMetrics api fetch snap s =
     (case findTraefikPodIP api s of
        (Inl e, s1) \<Rightarrow> ((Some e, snap), s1)
      | (Inr ip, s1) \<Rightarrow>
          (case fetch (''http://'' @ ip @ '':9100/metrics'') of
             Inl e \<Rightarrow> ((Some e, snap), s1)
           | Inr (st, body) \<Rightarrow>
               if st \<noteq> 200 then ((Some (''HTTP '' @ show_nat st), snap), s1)
               else (parseTraefikMetrics body snap, s1)))"

definition collectTelemetry ::
  "'k api \<Rightarrow> (string \<Rightarrow> (string, nat \<times> string) result) \<Rightarrow> time \<Rightarrow> 'k kube \<Rightarrow> TelemetrySnapshot \<times> 'k kube" where
  "collectTelemetry api fetch now s =
     (let snap = \<lparr> ts_as_of = now, ts_pods = [], ts_services = [], ts_err = '''' \<rparr>;
          ((e1, snap1), s1) = loadPodMetrics api snap s;
          ((e2, snap2), s2) = loadTraefikMetrics api fetch snap1 s1;
          errs = (case e1 of None \<Rightarrow> [] | Some e \<Rightarrow> [''metrics: '' @ e]) @ (case e2 of None \<Rightarrow> [] | Some e \<Rightarrow> [''traefik: '' @ e])
      in (if errs = [] then snap2 else snap2\<lparr> ts_err := join_with ''; '' errs \<rparr>, s2))"

definition telemetryTTL :: time where "telemetryTTL = 5 * second"

text \<open>The cache; \<open>now\<close> is read for the age check, \<open>later\<close> is the time stamp of a fresh snapshot.\<close>
definition cache_get ::
  "'k api \<Rightarrow> (string \<Rightarrow> (string, nat \<times> string) result) \<Rightarrow> time \<Rightarrow> time \<Rightarrow> TelemetrySnapshot option \<times> 'k kube
     \<Rightarrow> TelemetrySnapshot \<times> TelemetrySnapshot option \<times> 'k kube" where
  "cache_get api fetch now later cs =
     (case cs of
        (Some snap, s) \<Rightarrow>
          if now - ts_as_of snap < telemetryTTL then (snap, Some snap, s)
          else (let (n, s1) = collectTelemetry api fetch later s in (n, Some n, s1))
      | (None, s) \<Rightarrow> (let (n, s1) = collectTelemetry api fetch later s in (n, Some n, s1)))"

section \<open>What the parser guarantees\<close>

text \<open>The total of a service is the sum of its classes, and its errors are the 4xx and 5xx classes.\<close>
definition traffic_ok :: "ServiceTraffic \<Rightarrow> bool" where
  "traffic_ok st \<longleftrightarrow> st_requests st = sum_list (map snd (st_classes st))
     \<and> st_errors st = mget (st_classes st) ''4xx'' + mget (st_classes st) ''5xx''
     \<and> distinct (map fst (st_classes st)) \<and> distinct (map fst (st_buckets st))"

lemma classify_error:
  "classifyCode code = ''4xx'' \<longleftrightarrow> length code = 3 \<and> hd code = CHR ''4''"
  "classifyCode code = ''5xx'' \<longleftrightarrow> length code = 3 \<and> hd code = CHR ''5''"
  by (simp_all add: classifyCode_def)

lemma traffic_ok_add: "traffic_ok st \<Longrightarrow> traffic_ok (add_sample f code le v st)"
proof (cases f)
  case Requests_total
  assume ok: "traffic_ok st"
  let ?k = "classifyCode code"
  have e: "(length code = 3 \<and> (hd code = CHR ''4'' \<or> hd code = CHR ''5'')) \<longleftrightarrow> ?k = ''4xx'' \<or> ?k = ''5xx''"
    unfolding classify_error by blast
  have m: "mget (bump k v m) ''4xx'' + mget (bump k v m) ''5xx''
      = mget m ''4xx'' + mget m ''5xx'' + (if k = ''4xx'' \<or> k = ''5xx'' then v else 0)" for k :: string and m
    by (simp add: eq_commute[of _ k])
  show ?thesis using ok Requests_total
    by (simp add: traffic_ok_def add_sample_def sum_bump distinct_bump m e del: mget_bump)
qed (simp_all add: traffic_ok_def add_sample_def distinct_bump)

lemma traffic_ok_new: "traffic_ok new_traffic"
  by (simp add: traffic_ok_def new_traffic_def)

lemma map_default_Ball:
  assumes "\<forall>e \<in> set m. P (snd e)" "P v" "\<And>x. P x \<Longrightarrow> P (f x)"
  shows "\<forall>e \<in> set (AList.map_default k v f m). P (snd e)"
  using assms(1) by (induction m) (auto simp: assms(2,3))

definition services_ok :: "(string \<times> ServiceTraffic) list \<Rightarrow> bool" where
  "services_ok svcs \<longleftrightarrow> distinct (map fst svcs) \<and> (\<forall>e \<in> set svcs. traffic_ok (snd e))"

lemma services_ok_line: "services_ok svcs \<Longrightarrow> services_ok (parse_line line svcs)"
proof -
  assume ok: "services_ok svcs"
  have "services_ok (AList.map_default k (add_sample f c l v new_traffic) (add_sample f c l v) svcs)" for k f c l v
    using ok map_default_Ball[where P = traffic_ok and m = svcs and f = "add_sample f c l v" and v = "add_sample f c l v new_traffic"]
    by (simp add: services_ok_def distinct_map_default traffic_ok_add traffic_ok_new)
  then show ?thesis using ok by (simp add: parse_line_def Let_def split: option.splits prod.splits)
qed

text \<open>Every service of a scrape: its request total is the sum of its status classes, its errors are the 4xx and 5xx classes, and no class,
  bucket or service is listed twice, however the samples are spread over the lines.\<close>
theorem scrape_consistent:
  "services_ok (ts_services (snd (parseTraefikMetrics body \<lparr> ts_as_of = t, ts_pods = ps, ts_services = [], ts_err = '''' \<rparr>)))"
proof -
  have "services_ok svcs \<Longrightarrow> services_ok (fold parse_line ls svcs)" for ls svcs
    by (induction ls arbitrary: svcs) (auto intro: services_ok_line)
  moreover have "services_ok []" by (simp add: services_ok_def)
  ultimately show ?thesis by (simp add: parseTraefikMetrics_def split: prod.splits)
qed

text \<open>A label as Prometheus prints it: commas only inside quotes, and the quotes closed at the end.\<close>
fun quoted_commas :: "bool \<Rightarrow> string \<Rightarrow> bool" where
  "quoted_commas inq [] = (\<not> inq)"
| "quoted_commas inq (c # cs) =
     (let q = (if c = CHR 0x22 then \<not> inq else inq) in (c = CHR '','' \<longrightarrow> q) \<and> quoted_commas q cs)"

lemma split_labels_skip:
  "quoted_commas inq l \<Longrightarrow> split_labels (l @ r) cur inq = split_labels r (cur @ l) False"
  by (induction l arbitrary: cur inq) (auto simp: Let_def split: if_splits)

lemma split_labels_join:
  assumes "\<forall>l \<in> set ls. l \<noteq> [] \<and> quoted_commas False l"
  shows "splitLabels (join_with '','' ls) = ls"
  using assms
proof (induction ls rule: induct_list012)
  case (2 l)
  then show ?case using split_labels_skip[of False l "[]" "[]"] by (simp add: splitLabels_def)
next
  case (3 l m ls)
  then show ?case using split_labels_skip[of False l "CHR '','' # join_with '','' (m # ls)" "[]"]
    by (simp add: splitLabels_def Let_def)
qed (simp add: splitLabels_def)

text \<open>Labels survive printing and splitting: a list of labels whose commas are quoted, joined by commas, splits into itself.\<close>
theorem labels_roundtrip:
  assumes "\<forall>l \<in> set ls. l \<noteq> [] \<and> quoted_commas False l"
  shows "splitLabels (join_with '','' ls) = ls"
  using assms by (rule split_labels_join)

theorem labels_roundtrip_witness:
  "splitLabels (join_with '','' [''code='' @ [CHR 0x22] @ ''200'' @ [CHR 0x22], ''service='' @ [CHR 0x22] @ ''a,b@kubernetescrd'' @ [CHR 0x22]])
     = [''code='' @ [CHR 0x22] @ ''200'' @ [CHR 0x22], ''service='' @ [CHR 0x22] @ ''a,b@kubernetescrd'' @ [CHR 0x22]]"
  by (rule labels_roundtrip) (simp add: Let_def)

text \<open>The cache: a snapshot younger than five seconds is served without a request; otherwise a fresh one is collected and kept.\<close>
theorem cache_serves_fresh:
  assumes "cache_get api fetch now later (c, s) = (snap, c', s')"
  shows "c' = Some snap
     \<and> (case c of Some old \<Rightarrow> if now - ts_as_of old < 5 * second then snap = old \<and> s' = s
                              else (snap, s') = collectTelemetry api fetch later s
        | None \<Rightarrow> (snap, s') = collectTelemetry api fetch later s)"
  using assms by (auto simp: cache_get_def telemetryTTL_def split: option.splits prod.splits if_splits)

section \<open>Quantities\<close>

lemma show_nat_no_sign: "signed_digits (show_nat n) = (False, show_nat n)"
  using hd_show_nat_not_sign[of n] by (simp add: signed_digits_def)

lemma parse_show: "int n < 2 ^ 63 \<Longrightarrow> parse_int_or_0 (show_nat n) = int n"
  by (simp add: parse_int_or_0_def show_nat_no_sign)

lemma trim_suffix_append [simp]: "trim_suffix (a @ b) b = a"
  by (auto simp: trim_suffix_def suffix_def)

lemma quot_nonneg: "0 \<le> a \<Longrightarrow> 0 < b \<Longrightarrow> quot a b = a div b"
  by (cases "a = 0") (simp_all add: quot_def)

text \<open>The units that the metrics server prints are read as printed and rounded down: nanocores to millicores, kibibytes to mebibytes.\<close>
theorem quantities_read:
  assumes "int n < 2 ^ 63"
  shows "parseCPUm (show_nat n @ ''n'') = int n div 1000000 \<and> parseCPUm (show_nat n @ ''m'') = int n
       \<and> parseMemMi (show_nat n @ ''Ki'') = int n div 1024 \<and> parseMemMi (show_nat n @ ''Mi'') = int n"
  using assms by (simp add: parseCPUm_def parseMemMi_def parse_show quot_nonneg suffix_def)

end
