(* ===== verification/Traffic_Series.thy ===== *)
theory Traffic_Series
  imports Telemetry Store_Invariant "HOL-Library.Multiset"
begin

text \<open>
  Histories kept in memory: the status-code series per Traefik service (\<open>telemetry_series.go\<close>), the uptime
  tracker (\<open>uptime_tracker.go\<close>) and the synthetic monitor that feeds it (\<open>synthetic_monitor.go\<close>).  Times are
  nanoseconds; a probe is given by how long the tenant takes and what it answers, and the client's time-out and the
  deadline of the cycle are applied by the model.
\<close>

section \<open>Status-code series\<close>

definition seriesMaxLen :: nat where "seriesMaxLen = 120"

record seriesPoint =
  sp_t :: int
  sp_counts :: "(string \<times> int) list"

record serviceBuffer =
  sb_points :: "seriesPoint list"
  sb_last :: "(string \<times> rat) list"

type_synonym seriesStore = "(string \<times> serviceBuffer) list"

definition new_buffer :: serviceBuffer where "new_buffer = \<lparr> sb_points = [], sb_last = [] \<rparr>"

definition push_point :: "seriesPoint \<Rightarrow> serviceBuffer \<Rightarrow> serviceBuffer" where
  "push_point pt buf =
     (let pts = sb_points buf @ [pt]
      in buf\<lparr> sb_points := (if length pts > seriesMaxLen then drop (length pts - seriesMaxLen) pts else pts) \<rparr>)"

text \<open>The first sample only seeds the raw counters; a counter that went down counts as zero.\<close>
definition sample_buffer :: "int \<Rightarrow> (string \<times> rat) list \<Rightarrow> serviceBuffer \<Rightarrow> serviceBuffer" where
  "sample_buffer now raw buf =
     (if sb_last buf = [] then buf\<lparr> sb_last := raw \<rparr>
      else (let counts = map (\<lambda>(cls, cur). (cls, to_int64 (let d = cur - mget (sb_last buf) cls in if d < 0 then 0 else d))) raw
            in (push_point \<lparr> sp_t = now, sp_counts = counts \<rparr> buf)\<lparr> sb_last := raw \<rparr>))"

definition recordSnapshot :: "TelemetrySnapshot \<Rightarrow> seriesStore \<Rightarrow> seriesStore" where
  "recordSnapshot snap store =
     (let now = ts_as_of snap div second
      in fold (\<lambda>(name, st). AList.map_default name (sample_buffer now (st_classes st) new_buffer) (sample_buffer now (st_classes st)))
           (ts_services snap) store)"

text \<open>The inner loop of \<open>sortInt64Asc\<close> moves the element at \<open>j\<close> to the left.\<close>
fun sift :: "nat \<Rightarrow> int list \<Rightarrow> int list" where
  "sift 0 a = a"
| "sift (Suc j) a = (if a ! Suc j < a ! j then sift j (a[Suc j := a ! j, j := a ! Suc j]) else a)"

definition sortInt64Asc :: "int list \<Rightarrow> int list" where
  "sortInt64Asc a = fold sift [1..<length a] a"

definition merge_point :: "seriesPoint \<Rightarrow> (int \<times> (string \<times> int) list) list \<Rightarrow> (int \<times> (string \<times> int) list) list" where
  "merge_point p m =
     (let add = (\<lambda>cs. fold (\<lambda>(cls, n). bump cls n) (sp_counts p) cs)
      in AList.map_default (sp_t p) (add []) add m)"

definition pointsForServices :: "(string \<Rightarrow> bool) \<Rightarrow> seriesStore \<Rightarrow> seriesPoint list" where
  "pointsForServices matcher store =
     (let bufs = filter (\<lambda>(name, _). matcher name) store;
          merged = fold (\<lambda>(_, b). fold merge_point (sb_points b)) bufs []
      in map (\<lambda>t. \<lparr> sp_t = t, sp_counts = the (map_of merged t) \<rparr>) (sortInt64Asc (map fst merged)))"

definition matcherForProject :: "string \<Rightarrow> string \<Rightarrow> bool" where
  "matcherForProject slug name = contains name slug"

section \<open>Uptime\<close>

definition uptimeHistoryLen :: nat where "uptimeHistoryLen = 48"

record uptimeSample =
  us_at :: time
  us_ok :: bool
  us_latency :: int
  us_status :: nat

type_synonym uptimeTracker = "uuid \<Rightarrow> uptimeSample list"

definition push_sample :: "uptimeSample \<Rightarrow> uptimeSample list \<Rightarrow> uptimeSample list" where
  "push_sample x hist0 =
     (let hist = hist0 @ [x] in if length hist > uptimeHistoryLen then drop (length hist - uptimeHistoryLen) hist else hist)"

definition uptime_record :: "uuid \<Rightarrow> uptimeSample \<Rightarrow> uptimeTracker \<Rightarrow> uptimeTracker" where
  "uptime_record pid x t = (if pid = '''' then t else t(pid := push_sample x (t pid)))"

record uptimeSummary =
  um_pct :: rat
  um_latency :: int
  um_last_ok :: bool
  um_checked :: "time option"

definition summarizeUptime :: "uptimeSample list \<Rightarrow> uptimeSummary" where
  "summarizeUptime xs =
     (if xs = [] then \<lparr> um_pct = 100, um_latency = 0, um_last_ok = True, um_checked = None \<rparr>
      else \<lparr> um_pct = of_nat (length (filter us_ok xs)) / of_nat (length xs) * 100,
             um_latency = quot (sum_list (map us_latency xs)) (int (length xs)),
             um_last_ok = us_ok (last xs), um_checked = Some (us_at (last xs)) \<rparr>)"

text \<open>The rows of \<open>handleUptime\<close>: project, slug, summary, samples; \<open>None\<close> is the 401.\<close>
definition handleUptime :: "sessionUser option \<Rightarrow> db \<Rightarrow> uptimeTracker \<Rightarrow> (uuid \<times> string \<times> uptimeSummary \<times> uptimeSample list) list option" where
  "handleUptime u s t =
     (case u of
        None \<Rightarrow> None
      | Some v \<Rightarrow> Some (map (\<lambda>p. (pr_id p, pr_slug p, summarizeUptime (t (pr_id p)), t (pr_id p))) (ListProjectsForUser s (su_id v))))"

section \<open>The synthetic monitor\<close>

definition synthInterval :: time where "synthInterval = 30 * second"
definition synthMaxHitsPerApp :: nat where "synthMaxHitsPerApp = 4"
definition synthMinHitsPerApp :: nat where "synthMinHitsPerApp = 2"
definition synthRequestTimeout :: time where "synthRequestTimeout = 6 * second"
definition cycle_budget :: time where "cycle_budget = synthInterval - 2 * second"

text \<open>What the tenant does with a request: it fails, or answers with a status.\<close>
datatype probe = Probe_error | Probe_status nat

text \<open>\<open>client.Do\<close> and the read of the body, started \<open>e\<close> nanoseconds into the cycle: the time it ends and what the monitor sees.\<close>
definition do_probe :: "time \<Rightarrow> time \<times> probe \<Rightarrow> time \<times> probe" where
  "do_probe e p =
     (if e \<ge> cycle_budget then (e, Probe_error)
      else (let d = min (fst p) synthRequestTimeout
            in if e + d \<ge> cycle_budget then (cycle_budget, Probe_error)
               else (e + d, if fst p > synthRequestTimeout then Probe_error else snd p)))"

text \<open>The loop of \<open>hitApp\<close> from request \<open>i\<close> of \<open>n\<close>: elapsed time and, unless the cycle was cut in a pause, the last
  verdict, latency and status.\<close>
fun hit_loop :: "(nat \<Rightarrow> time \<times> probe) \<Rightarrow> nat \<Rightarrow> nat \<Rightarrow> nat \<Rightarrow> bool \<times> int \<times> nat \<Rightarrow> time \<Rightarrow> time \<times> (bool \<times> int \<times> nat) option" where
  "hit_loop pr 0 i n acc e = (e, Some acc)"
| "hit_loop pr (Suc k) i n (ok, ms, st) e =
     (case do_probe e (pr i) of
        (e1, Probe_error) \<Rightarrow> hit_loop pr k (Suc i) n (False, (e1 - e) div 1000000, st) e1
      | (e1, Probe_status q) \<Rightarrow>
          (let acc = (200 \<le> q \<and> q < 400, (e1 - e) div 1000000, q)
           in if i < n - 1
              then (if e1 + 200000000 \<ge> cycle_budget then (cycle_budget, None)
                    else hit_loop pr k (Suc i) n acc (e1 + 200000000))
              else hit_loop pr k (Suc i) n acc e1))"

record liveAppTarget =
  la_project :: uuid
  la_url :: string

text \<open>\<open>hits\<close> is the random number of requests; \<open>valid\<close> whether the URL makes a request; \<open>start\<close> the clock when the cycle began.\<close>
definition hitApp ::
  "(string \<Rightarrow> bool) \<Rightarrow> (string \<Rightarrow> nat \<Rightarrow> time \<times> probe) \<Rightarrow> nat \<Rightarrow> time \<Rightarrow> liveAppTarget \<Rightarrow> time \<times> uptimeTracker \<Rightarrow> time \<times> uptimeTracker" where
  "hitApp valid pr hits start tg et =
     (let (e, t) = et
      in if \<not> valid (la_url tg) then (e, t)
         else (case hit_loop (pr (la_url tg)) hits 0 hits (False, 0, 0) e of
                 (e1, None) \<Rightarrow> (e1, t)
               | (e1, Some (ok, ms, st)) \<Rightarrow>
                   (e1, if la_project tg = '''' then t
                        else uptime_record (la_project tg) \<lparr> us_at = start + e1, us_ok = ok, us_latency = ms, us_status = st \<rparr> t)))"

definition liveAppTargets :: "db \<Rightarrow> liveAppTarget list" where
  "liveAppTargets s =
     (let ps = ListProjectsWithTenant s ''''; ids = map pt_id ps
      in List.map_filter (\<lambda>p. map_option (\<lambda>d. \<lparr> la_project = pt_id p, la_url = the (dr_url d) \<rparr>)
           (find (\<lambda>d. dr_status d = Ready \<and> dr_url d \<noteq> None \<and> dr_url d \<noteq> Some '''') (ListDeploymentsForProjects s ids 5 (pt_id p)))) ps)"

definition runSyntheticCycle ::
  "(string \<Rightarrow> bool) \<Rightarrow> (string \<Rightarrow> nat \<Rightarrow> time \<times> probe) \<Rightarrow> (string \<Rightarrow> nat) \<Rightarrow> time \<Rightarrow> db \<Rightarrow> uptimeTracker \<Rightarrow> uptimeTracker" where
  "runSyntheticCycle valid pr hits start s t =
     snd (fold (\<lambda>tg. hitApp valid pr (hits (la_url tg)) start tg) (liveAppTargets s) (0, t))"

section \<open>The insertion sort\<close>

lemma sift_insert:
  "sorted p \<Longrightarrow> sift (length p) (p @ x # r) = insort x p @ r"
proof (induction p arbitrary: r rule: rev_induct)
  case (snoc y q)
  have srt: "sorted q" "\<forall>z \<in> set q. z \<le> y" using snoc.prems by (simp_all add: sorted_append)
  show ?case
  proof (cases "x < y")
    case True
    have "insort x (q @ [y]) = insort x q @ [y]" using True srt
      by (induction q) auto
    moreover have "sift (length q) (q @ x # y # r) = insort x q @ y # r" using snoc.IH[OF srt(1), of "y # r"] by simp
    ultimately show ?thesis using True by (simp add: nth_append list_update_append)
  next
    case False
    have "sort (x # q @ [y]) = q @ [y, x]"
      by (rule properties_for_sort) (use False srt in \<open>auto simp: sorted_append\<close>)
    then have "insort x (q @ [y]) = q @ [y, x]" using snoc.prems by (simp add: sorted_sort_id)
    then show ?thesis using False by (simp add: nth_append)
  qed
qed simp

lemma fold_sift:
  "n < length a \<or> n = length a \<Longrightarrow> 0 < n \<Longrightarrow> fold sift [1..<n] a = sort (take n a) @ drop n a"
proof (induction n)
  case (Suc n)
  show ?case
  proof (cases "n = 0")
    case True
    then show ?thesis using Suc.prems by (cases a) auto
  next
    case False
    have ih: "fold sift [1..<n] a = sort (take n a) @ drop n a" using Suc False by auto
    have d: "drop n a = a ! n # drop (Suc n) a" using Suc.prems by (intro Cons_nth_drop_Suc[symmetric]) auto
    have "sift n (sort (take n a) @ a ! n # drop (Suc n) a) = insort (a ! n) (sort (take n a)) @ drop (Suc n) a"
      using sift_insert[of "sort (take n a)" "a ! n" "drop (Suc n) a"] Suc.prems by (auto simp: min_def)
    moreover have "insort (a ! n) (sort (take n a)) = sort (take (Suc n) a)"
    proof (rule properties_for_sort[symmetric])
      have "n < length a" using Suc.prems by auto
      from take_Suc_conv_app_nth[OF this] show "mset (insort (a ! n) (sort (take n a))) = mset (take (Suc n) a)"
        by (simp only: mset_append) simp
    qed (simp add: sorted_insort)
    ultimately show ?thesis using ih d False by simp
  qed
qed simp

lemma insertion_sort: "sortInt64Asc a = sort a"
  using fold_sift[of "length a" a] by (cases a) (auto simp: sortInt64Asc_def)

text \<open>The hand-written insertion sort of the series is sorting.\<close>
theorem insertion_sort_sorts: "sortInt64Asc a = sort a"
  by (rule insertion_sort)

section \<open>Rings\<close>

interpretation point_ring: ring_buffer sb_points push_point seriesMaxLen
  by unfold_locales (auto simp: push_point_def Let_def keep_last_def)

interpretation uptime_ring: ring_buffer id push_sample uptimeHistoryLen
  by unfold_locales (auto simp: push_sample_def Let_def keep_last_def)

text \<open>The uptime history of a project is the last 48 samples recorded for it, in order, whatever is recorded for other
  projects in between.\<close>
theorem uptime_is_last_samples:
  "fold (\<lambda>(pid, x). uptime_record pid x) recs (\<lambda>_. []) p
     = (if p = '''' then [] else keep_last 48 (map snd (filter (\<lambda>(pid, _). pid = p) recs)))"
proof -
  have "fold (\<lambda>(pid, x). uptime_record pid x) recs t p
      = (if p = '''' then t p else fold push_sample (map snd (filter (\<lambda>(pid, _). pid = p) recs)) (t p))" for t
    by (induction recs arbitrary: t) (auto simp: uptime_record_def split: prod.splits)
  then show ?thesis using uptime_ring.items_fold[of "[]"] by (simp add: uptimeHistoryLen_def)
qed

lemma pct_bounds: "0 \<le> um_pct (summarizeUptime xs) \<and> um_pct (summarizeUptime xs) \<le> 100"
proof (cases "xs = []")
  case False
  have le: "length (filter us_ok xs) \<le> length xs" by simp
  have "0 \<le> q * 100 \<and> q * 100 \<le> 100" if "0 \<le> q" "q \<le> 1" for q :: rat using that by simp
  moreover have "(of_nat (length (filter us_ok xs)) :: rat) / of_nat (length xs) \<le> 1" using False le by simp
  moreover have "(0 :: rat) \<le> of_nat (length (filter us_ok xs)) / of_nat (length xs)" by simp
  ultimately show ?thesis using False by (simp only: summarizeUptime_def if_False uptimeSummary.simps)
qed (simp add: summarizeUptime_def)

text \<open>Every buffer keeps at most 120 points, all counts are zero or more, and no service has two buffers.\<close>
definition buffer_ok :: "serviceBuffer \<Rightarrow> bool" where
  "buffer_ok b \<longleftrightarrow> length (sb_points b) \<le> 120 \<and> (\<forall>p \<in> set (sb_points b). \<forall>c \<in> set (sp_counts p). 0 \<le> snd c)
     \<and> (\<forall>c \<in> set (sb_last b). 0 \<le> snd c)"

definition series_ok :: "seriesStore \<Rightarrow> bool" where
  "series_ok store \<longleftrightarrow> distinct (map fst store) \<and> (\<forall>e \<in> set store. buffer_ok (snd e))"

definition counters_small :: "(string \<times> rat) list \<Rightarrow> bool" where
  "counters_small cs \<longleftrightarrow> (\<forall>c \<in> set cs. 0 \<le> snd c \<and> snd c < 2 ^ 63)"

lemma to_int64_nonneg: "0 \<le> q \<Longrightarrow> q < 2 ^ 63 \<Longrightarrow> 0 \<le> to_int64 q"
  by (simp add: to_int64_def Let_def floor_less_iff)

lemma mget_nonneg: "\<forall>c \<in> set m. 0 \<le> snd c \<Longrightarrow> (0 :: rat) \<le> mget m k"
  by (auto simp: mget_def split: option.splits dest!: map_of_SomeD)

lemma delta_nonneg: "0 \<le> cur \<Longrightarrow> cur < 2 ^ 63 \<Longrightarrow> 0 \<le> prev \<Longrightarrow> 0 \<le> to_int64 (let d = cur - prev in if d < 0 then 0 else d)"
  by (auto simp: Let_def intro: to_int64_nonneg)

lemma buffer_ok_sample:
  assumes "buffer_ok b" "counters_small raw"
  shows "buffer_ok (sample_buffer now raw b)"
proof (cases "sb_last b = []")
  case False
  let ?cs = "map (\<lambda>(cls, cur). (cls, to_int64 (let d = cur - mget (sb_last b) cls in if d < 0 then 0 else d))) raw"
  let ?p = "\<lparr> sp_t = now, sp_counts = ?cs \<rparr>"
  have cs: "\<forall>c \<in> set ?cs. 0 \<le> snd c"
    using assms mget_nonneg[of "sb_last b"] delta_nonneg
    by (fastforce simp: buffer_ok_def counters_small_def simp del: Let_def)
  have "set (sb_points (push_point ?p b)) \<subseteq> set (sb_points b @ [?p])"
    unfolding point_ring.items_push by (rule set_keep_last)
  moreover have "length (sb_points (push_point ?p b)) \<le> 120"
    using point_ring.bounded_push by (simp add: seriesMaxLen_def)
  ultimately have "buffer_ok ((push_point ?p b)\<lparr> sb_last := raw \<rparr>)"
    using assms cs by (fastforce simp: buffer_ok_def counters_small_def)
  then show ?thesis using False by (simp add: sample_buffer_def Let_def)
qed (use assms in \<open>auto simp: sample_buffer_def buffer_ok_def counters_small_def\<close>)

text \<open>The series stays bounded and non-negative: after any number of scrapes with counters that \<open>int64\<close> can hold, even when Traefik
  restarts and counters fall, each service has one buffer of at most 120 points and no negative count.\<close>
theorem series_bounded:
  assumes "\<forall>snap \<in> set snaps. \<forall>e \<in> set (ts_services snap). counters_small (st_classes (snd e))"
  shows "series_ok (fold recordSnapshot snaps [])"
proof -
  have step: "series_ok (recordSnapshot snap store)"
    if "series_ok store" "\<forall>e \<in> set (ts_services snap). counters_small (st_classes (snd e))" for snap store
  proof -
    have "series_ok (fold (\<lambda>(name, st). AList.map_default name (sample_buffer now (st_classes st) new_buffer)
        (sample_buffer now (st_classes st))) svcs st0)"
      if "series_ok st0" "\<forall>e \<in> set svcs. counters_small (st_classes (snd e))" for svcs st0 now
      using that
    proof (induction svcs arbitrary: st0)
      case (Cons e svcs)
      obtain n st where e: "e = (n, st)" by (cases e)
      have c: "counters_small (st_classes st)" using Cons.prems(2) e by simp
      have "buffer_ok new_buffer" by (simp add: buffer_ok_def new_buffer_def)
      then have "series_ok (AList.map_default n (sample_buffer now (st_classes st) new_buffer) (sample_buffer now (st_classes st)) st0)"
        using Cons.prems(1) buffer_ok_sample[OF _ c]
          map_default_Ball[where P = buffer_ok and m = st0 and f = "sample_buffer now (st_classes st)"
            and v = "sample_buffer now (st_classes st) new_buffer"]
        by (simp add: series_ok_def distinct_map_default)
      then show ?case using Cons e by simp
    qed simp
    then show ?thesis using that by (simp add: recordSnapshot_def Let_def)
  qed
  have "series_ok (fold recordSnapshot ss store)"
    if "series_ok store" "\<forall>snap \<in> set ss. \<forall>e \<in> set (ts_services snap). counters_small (st_classes (snd e))" for ss store
    using that by (induction ss arbitrary: store) (auto intro: step)
  moreover have "series_ok []" by (simp add: series_ok_def)
  ultimately show ?thesis using assms by blast
qed

theorem series_bounded_witness:
  "series_ok (fold recordSnapshot (replicate 200 \<lparr> ts_as_of = 0, ts_pods = [],
      ts_services = [(''s'', new_traffic\<lparr> st_classes := [(''2xx'', 7)] \<rparr>)], ts_err = '''' \<rparr>) [])"
  by (rule series_bounded) (simp add: counters_small_def)

section \<open>Merging\<close>

definition class_total :: "string \<Rightarrow> (string \<times> int) list \<Rightarrow> int" where
  "class_total cls cs = sum_list (map snd (filter (\<lambda>(c, _). c = cls) cs))"

lemma mget_add_counts: "mget (fold (\<lambda>(c, n). bump c n) cs m) cls = mget m cls + class_total cls cs"
  by (induction cs arbitrary: m) (auto simp: class_total_def)

definition merged_at :: "(int \<times> (string \<times> int) list) list \<Rightarrow> int \<Rightarrow> string \<Rightarrow> int" where
  "merged_at m t cls = (case map_of m t of None \<Rightarrow> 0 | Some cs \<Rightarrow> mget cs cls)"

lemma merged_at_point:
  "merged_at (merge_point p m) t cls = merged_at m t cls + (if sp_t p = t then class_total cls (sp_counts p) else 0)"
  by (auto simp: merged_at_def merge_point_def Let_def map_of_map_default mget_add_counts split: option.splits)

lemma distinct_merge: "distinct (map fst m) \<Longrightarrow> distinct (map fst (merge_point p m))"
  by (simp add: merge_point_def Let_def distinct_map_default)

text \<open>The points of a project: strictly increasing in time, and at each time and class the sum over all matching services of what they
  counted then.\<close>
theorem merged_points:
  "sorted (map sp_t (pointsForServices f store)) \<and> distinct (map sp_t (pointsForServices f store))
   \<and> (case find (\<lambda>p. sp_t p = t) (pointsForServices f store) of None \<Rightarrow> 0 | Some p \<Rightarrow> mget (sp_counts p) cls)
      = (\<Sum>(n, b) \<leftarrow> filter (\<lambda>(n, _). f n) store. \<Sum>p \<leftarrow> sb_points b. if sp_t p = t then class_total cls (sp_counts p) else 0)"
proof -
  let ?g = "\<lambda>p. if sp_t p = t then class_total cls (sp_counts p) else 0"
  let ?bufs = "filter (\<lambda>(n, _). f n) store"
  let ?m = "fold (\<lambda>(_, b). fold merge_point (sb_points b)) ?bufs []"
  have pts: "merged_at (fold merge_point ps m) t cls = merged_at m t cls + sum_list (map ?g ps)
      \<and> (distinct (map fst m) \<longrightarrow> distinct (map fst (fold merge_point ps m)))" for ps m
    by (induction ps arbitrary: m) (auto simp: merged_at_point distinct_merge)
  have bufs: "merged_at (fold (\<lambda>(_, b). fold merge_point (sb_points b)) bs m) t cls
        = merged_at m t cls + (\<Sum>(n, b) \<leftarrow> bs. \<Sum>p \<leftarrow> sb_points b. ?g p)
      \<and> (distinct (map fst m) \<longrightarrow> distinct (map fst (fold (\<lambda>(_, b). fold merge_point (sb_points b)) bs m)))" for bs m
    using pts by (induction bs arbitrary: m) (auto split: prod.splits)
  have tot: "merged_at ?m t cls = (\<Sum>(n, b) \<leftarrow> ?bufs. \<Sum>p \<leftarrow> sb_points b. ?g p)" and dist: "distinct (map fst ?m)"
    using bufs[of ?bufs "[]"] by (auto simp: merged_at_def)
  have keys: "map sp_t (pointsForServices f store) = sort (map fst ?m)"
    by (simp add: pointsForServices_def insertion_sort comp_def Let_def)
  have "(case find (\<lambda>p. sp_t p = t) (pointsForServices f store) of None \<Rightarrow> 0 | Some p \<Rightarrow> mget (sp_counts p) cls) = merged_at ?m t cls"
  proof -
    have "find (\<lambda>p. sp_t p = t) (map (\<lambda>t. \<lparr> sp_t = t, sp_counts = g t \<rparr>) ks)
        = (if t \<in> set ks then Some \<lparr> sp_t = t, sp_counts = g t \<rparr> else None)" for g ks
      by (induction ks) auto
    moreover have "t \<in> set (map fst m) \<longleftrightarrow> map_of m t \<noteq> None" for m :: "(int \<times> (string \<times> int) list) list"
      by (simp add: map_of_eq_None_iff)
    ultimately show ?thesis
      by (simp add: pointsForServices_def insertion_sort merged_at_def Let_def del: set_map) (auto split: option.splits)
  qed
  then show ?thesis using tot keys dist by simp
qed

section \<open>A slow tenant takes the others down\<close>

lemma hit_loop_spent:
  "cycle_budget \<le> e \<Longrightarrow> hit_loop pr k i n (ok, ms, st) e = (e, Some (if k = 0 then (ok, ms, st) else (False, 0, st)))"
proof (induction k arbitrary: i ok ms)
  case (Suc k)
  have "do_probe e (pr i) = (e, Probe_error)" using Suc.prems by (simp add: do_probe_def)
  then show ?case using Suc.IH[OF Suc.prems, of "Suc i" False 0] by simp
qed simp

lemma synth_times: "cycle_budget = 28000000000" "synthRequestTimeout = 6000000000"
  by (simp_all add: cycle_budget_def synthInterval_def synthRequestTimeout_def second_def)

lemma hit_loop_hang:
  "\<forall>i. fst (pr i) > synthRequestTimeout \<Longrightarrow> e \<le> cycle_budget
   \<Longrightarrow> \<exists>acc'. hit_loop pr k i n acc e = (min cycle_budget (e + int k * synthRequestTimeout), Some acc')"
proof (induction k arbitrary: i acc e)
  case (Suc k)
  obtain ok ms st where acc: "acc = (ok, ms, st)" by (cases acc)
  have probe: "do_probe e (pr i) = (min cycle_budget (e + synthRequestTimeout), Probe_error)"
    using Suc.prems(2) Suc.prems(1)[rule_format, of i] by (auto simp: do_probe_def synth_times Let_def min_def)
  have "min cycle_budget (min cycle_budget (e + synthRequestTimeout) + int k * synthRequestTimeout)
      = min cycle_budget (e + int (Suc k) * synthRequestTimeout)"
    by (auto simp: min_def synth_times)
  then show ?case using Suc.IH[OF Suc.prems(1), of "min cycle_budget (e + synthRequestTimeout)"] probe acc by simp
next
  case 0
  then show ?case by (cases acc) simp
qed

lemma hitApp_hang:
  assumes "\<forall>i. fst (pr (la_url tg) i) > synthRequestTimeout" "e \<le> cycle_budget"
  shows "\<exists>t'. hitApp (\<lambda>_. True) pr hits start tg (e, t) = (min cycle_budget (e + int hits * synthRequestTimeout), t')
    \<and> (\<forall>q. q \<noteq> la_project tg \<longrightarrow> t' q = t q)"
  using hit_loop_hang[OF assms, of hits 0 hits "(False, 0, 0)"]
  by (auto simp: hitApp_def uptime_record_def split: prod.splits)

text \<open>When the deadline of a cycle has passed, every application still to be probed is recorded as down, with latency 0 and without a
  request having left, whatever its real state: requests with an expired context fail at once.\<close>
theorem spent_cycle_reports_down:
  assumes "cycle_budget \<le> e" "valid (la_url tg)" "la_project tg \<noteq> ''''" "0 < hits"
  shows "hitApp valid pr hits start tg (e, t) =
     (e, uptime_record (la_project tg) \<lparr> us_at = start + e, us_ok = False, us_latency = 0, us_status = 0 \<rparr> t)"
  using hit_loop_spent[OF assms(1), of "pr (la_url tg)" hits 0 hits False 0 0] assms(2-4) by (simp add: hitApp_def)

text \<open>Two tenants that hang use up the cycle; the third answers every request at once and is recorded as down.\<close>
theorem spent_cycle_reports_down_witness:
  "let pr = (\<lambda>u i. if u = ''c'' then (0, Probe_status 200) else (60 * second, Probe_status 200));
       run = fold (\<lambda>tg. hitApp (\<lambda>_. True) pr 4 0 tg)
         [\<lparr> la_project = ''1'', la_url = ''a'' \<rparr>, \<lparr> la_project = ''2'', la_url = ''b'' \<rparr>, \<lparr> la_project = ''3'', la_url = ''c'' \<rparr>]
         (0, \<lambda>_. [])
   in map us_ok (snd run ''3'') = [False]"
proof -
  let ?pr = "\<lambda>u i. if u = ''c'' then (0, Probe_status 200) else (60 * second, Probe_status 200)"
  let ?hit = "\<lambda>p u. hitApp (\<lambda>_. True) ?pr 4 0 \<lparr> la_project = p, la_url = u \<rparr>"
  have "\<exists>t'. ?hit ''1'' ''a'' (0, \<lambda>_. []) = (24 * second, t') \<and> t' ''3'' = []"
    using hitApp_hang[of ?pr "\<lparr> la_project = ''1'', la_url = ''a'' \<rparr>" 0 4 0 "\<lambda>_. []"] by (auto simp: synth_times second_def)
  then obtain t1 where t1: "?hit ''1'' ''a'' (0, \<lambda>_. []) = (24 * second, t1)" "t1 ''3'' = []" by blast
  have "\<exists>t'. ?hit ''2'' ''b'' (24 * second, t1) = (cycle_budget, t') \<and> t' ''3'' = t1 ''3''"
    using hitApp_hang[of ?pr "\<lparr> la_project = ''2'', la_url = ''b'' \<rparr>" "24 * second" 4 0 t1] by (auto simp: synth_times second_def)
  then obtain t2 where t2: "?hit ''2'' ''b'' (24 * second, t1) = (cycle_budget, t2)" "t2 ''3'' = t1 ''3''" by blast
  have "?hit ''3'' ''c'' (cycle_budget, t2)
      = (cycle_budget, uptime_record ''3'' \<lparr> us_at = 0 + cycle_budget, us_ok = False, us_latency = 0, us_status = 0 \<rparr> t2)"
    using spent_cycle_reports_down[of cycle_budget "\<lambda>_. True" "\<lparr> la_project = ''3'', la_url = ''c'' \<rparr>" 4 ?pr 0 t2] by simp
  then show ?thesis using t1 t2 by (simp add: uptime_record_def push_sample_def uptimeHistoryLen_def Let_def)
qed

text \<open>A failed last request keeps the status of the one before it: the sample says "down" with status 200.\<close>
lemma stale_status:
  "snd (hitApp (\<lambda>_. True) (\<lambda>_ i. if i = 0 then (second, Probe_status 200) else (second, Probe_error)) 2 0
     \<lparr> la_project = ''p'', la_url = ''u'' \<rparr> (0, \<lambda>_. [])) ''p''
   = [\<lparr> us_at = 2200000000, us_ok = False, us_latency = 1000, us_status = 200 \<rparr>]"
proof -
  let ?pr = "\<lambda>i::nat. if i = 0 then (second, Probe_status 200) else (second, Probe_error)"
  have "do_probe 0 (second, Probe_status 200) = (1000000000, Probe_status 200)" "do_probe 1200000000 (second, Probe_error) = (2200000000, Probe_error)"
    by (simp_all add: do_probe_def synth_times second_def)
  then have "hit_loop ?pr 2 0 2 (False, 0, 0) 0 = (2200000000, Some (False, 1000, 200))"
    by (simp add: synth_times numeral_2_eq_2 del: One_nat_def)
  then show ?thesis by (simp add: hitApp_def uptime_record_def push_sample_def uptimeHistoryLen_def)
qed

end
