(* ===== verification/Project_Series.thy ===== *)
theory Project_Series
  imports Traffic_Series
begin

text \<open>
  The rich history of a project (\<open>project_series.go\<close>), the window handler (\<open>project_series_handler.go\<close>) and one tick of the
  sampler (\<open>startTelemetrySampler\<close>).  Counters are exact rationals as in \<open>Telemetry\<close>; the sums of the accumulator are
  \<open>int64\<close> with its wrap-around, since a latency may be the least \<open>int64\<close>.  An upper bound of a histogram bucket is a number or
  \<open>+Inf\<close>, written \<open>None\<close>.
\<close>

section \<open>Points\<close>

definition seriesInterval :: time where "seriesInterval = 30 * second"
definition projectSeriesMaxLen :: nat where "projectSeriesMaxLen = 120"
definition longBucketTicks :: int where "longBucketTicks = 20"
definition longSeriesMaxLen :: nat where "longSeriesMaxLen = 1008"
definition longBucketSeconds :: int where "longBucketSeconds = quot seriesInterval second * longBucketTicks"

record projectMetric =
  mp_t :: int
  mp_pods :: int
  mp_cpu :: int
  mp_memory :: int
  mp_2xx :: int
  mp_3xx :: int
  mp_4xx :: int
  mp_5xx :: int
  mp_avg :: int
  mp_p50 :: int
  mp_p95 :: int
  mp_p99 :: int

definition point_at :: "int \<Rightarrow> projectMetric" where
  "point_at t = \<lparr> mp_t = t, mp_pods = 0, mp_cpu = 0, mp_memory = 0, mp_2xx = 0, mp_3xx = 0, mp_4xx = 0, mp_5xx = 0,
     mp_avg = 0, mp_p50 = 0, mp_p95 = 0, mp_p99 = 0 \<rparr>"

record longAccum =
  la_count :: int
  la_last_t :: int
  la_pods :: int
  la_cpu :: int
  la_mem :: int
  la_2xx :: int
  la_3xx :: int
  la_4xx :: int
  la_5xx :: int
  la_avg :: int
  la_p50 :: int
  la_p95 :: int
  la_p99 :: int
  la_weight :: int

definition empty_accum :: longAccum where
  "empty_accum = \<lparr> la_count = 0, la_last_t = 0, la_pods = 0, la_cpu = 0, la_mem = 0, la_2xx = 0, la_3xx = 0, la_4xx = 0,
     la_5xx = 0, la_avg = 0, la_p50 = 0, la_p95 = 0, la_p99 = 0, la_weight = 0 \<rparr>"

definition point_weight :: "projectMetric \<Rightarrow> int" where
  "point_weight pt = wrap64 (mp_2xx pt + mp_3xx pt + mp_4xx pt + mp_5xx pt)"

definition accum_add :: "projectMetric \<Rightarrow> longAccum \<Rightarrow> longAccum" where
  "accum_add pt a =
     (let a1 = a\<lparr> la_count := wrap64 (la_count a + 1), la_last_t := mp_t pt,
                  la_pods := wrap64 (la_pods a + mp_pods pt), la_cpu := wrap64 (la_cpu a + mp_cpu pt),
                  la_mem := wrap64 (la_mem a + mp_memory pt),
                  la_2xx := wrap64 (la_2xx a + mp_2xx pt), la_3xx := wrap64 (la_3xx a + mp_3xx pt),
                  la_4xx := wrap64 (la_4xx a + mp_4xx pt), la_5xx := wrap64 (la_5xx a + mp_5xx pt) \<rparr>;
          w = point_weight pt
      in if w > 0
         then a1\<lparr> la_avg := wrap64 (la_avg a + mp_avg pt * w), la_p50 := wrap64 (la_p50 a + mp_p50 pt * w),
                  la_p95 := wrap64 (la_p95 a + mp_p95 pt * w), la_p99 := wrap64 (la_p99 a + mp_p99 pt * w),
                  la_weight := wrap64 (la_weight a + w) \<rparr>
         else a1)"

text \<open>The aggregate point and the reset accumulator.\<close>
definition flush :: "longAccum \<Rightarrow> projectMetric \<times> longAccum" where
  "flush a =
     (let pt = (point_at (la_last_t a))
                 \<lparr> mp_pods := quot (la_pods a) (la_count a), mp_cpu := quot (la_cpu a) (la_count a),
                   mp_memory := quot (la_mem a) (la_count a), mp_2xx := la_2xx a, mp_3xx := la_3xx a,
                   mp_4xx := la_4xx a, mp_5xx := la_5xx a \<rparr>;
          pt1 = (if la_weight a > 0
                 then pt\<lparr> mp_avg := quot (la_avg a) (la_weight a), mp_p50 := quot (la_p50 a) (la_weight a),
                          mp_p95 := quot (la_p95 a) (la_weight a), mp_p99 := quot (la_p99 a) (la_weight a) \<rparr>
                 else pt)
      in (pt1, empty_accum))"

section \<open>Percentiles\<close>

text \<open>\<open>strconv.ParseFloat\<close> with its error ignored, and the literal \<open>+Inf\<close>.\<close>
definition bucket_le :: "string \<Rightarrow> rat option" where
  "bucket_le k = (if k = ''+Inf'' then None else Some (case parse_float k of Some q \<Rightarrow> q | None \<Rightarrow> 0))"

text \<open>\<open>int64(le * 1000)\<close>; for \<open>+Inf\<close> the conversion is what amd64 does, the least \<open>int64\<close>.\<close>
definition le_ms :: "rat option \<Rightarrow> int" where
  "le_ms le = (case le of Some q \<Rightarrow> to_int64 (q * 1000) | None \<Rightarrow> - (2 ^ 63))"

text \<open>Sorted by bound, the infinite ones last.\<close>
definition sort_buckets :: "(rat option \<times> rat) list \<Rightarrow> (rat option \<times> rat) list" where
  "sort_buckets bs = sort_key (\<lambda>b. the (fst b)) (filter (\<lambda>b. fst b \<noteq> None) bs) @ filter (\<lambda>b. fst b = None) bs"

definition interpolate :: "rat \<Rightarrow> rat \<Rightarrow> rat \<Rightarrow> rat \<Rightarrow> rat \<Rightarrow> rat" where
  "interpolate p l pv v t = p + (t - pv) / (v - pv) * (l - p)"

text \<open>The loop; at the end \<open>prevLe\<close> is the bound of the last bucket, which the code returns either way.  Interpolation starts at
  a finite bound, since infinite ones are last.\<close>
fun quantile_loop :: "(rat option \<times> rat) list \<Rightarrow> rat \<Rightarrow> rat option \<Rightarrow> rat \<Rightarrow> int" where
  "quantile_loop [] target prevLe prevV = le_ms prevLe"
| "quantile_loop ((le, v) # bs) target prevLe prevV =
     (if target \<le> v
      then (case le of
              None \<Rightarrow> le_ms prevLe
            | Some l \<Rightarrow>
                if v = prevV then le_ms le
                else (case prevLe of
                        None \<Rightarrow> le_ms None
                      | Some p \<Rightarrow> to_int64 (interpolate p l prevV v target * 1000)))
      else quantile_loop bs target le v)"

definition histogramQuantileMs :: "(string \<times> rat) list \<Rightarrow> rat \<Rightarrow> rat \<Rightarrow> int" where
  "histogramQuantileMs buckets cnt q =
     (if cnt \<le> 0 \<or> buckets = [] then 0
      else quantile_loop (sort_buckets (map (\<lambda>(k, v). (bucket_le k, v)) buckets)) (q * cnt) (Some 0) 0)"

section \<open>Recording\<close>

record projectBuf =
  pb_points :: "projectMetric list"
  pb_dur_sum :: "(string \<times> rat) list"
  pb_dur_cnt :: "(string \<times> rat) list"
  pb_class :: "(string \<times> (string \<times> rat) list) list"
  pb_buckets :: "(string \<times> (string \<times> rat) list) list"
  pb_long :: "projectMetric list"
  pb_accum :: longAccum

definition new_pbuf :: projectBuf where
  "new_pbuf = \<lparr> pb_points = [], pb_dur_sum = [], pb_dur_cnt = [], pb_class = [], pb_buckets = [], pb_long = [], pb_accum = empty_accum \<rparr>"

text \<open>The pods of a project in a snapshot, and the services whose name contains its slug.\<close>
definition project_pods :: "TelemetrySnapshot \<Rightarrow> string \<Rightarrow> string \<Rightarrow> PodMetric list" where
  "project_pods snap login slug =
     filter (\<lambda>pod. prefix (slug @ ''-'') (pm_name pod)) (coalesce (map_of (ts_pods snap) (''paas-tenant-'' @ login)) [])"

definition project_services :: "TelemetrySnapshot \<Rightarrow> string \<Rightarrow> (string \<times> ServiceTraffic) list" where
  "project_services snap slug = filter (\<lambda>(n, _). contains n slug) (ts_services snap)"

definition pos_part :: "rat \<Rightarrow> rat" where "pos_part d = (if d < 0 then 0 else d)"

definition count_class :: "string \<Rightarrow> rat \<Rightarrow> projectMetric \<Rightarrow> projectMetric" where
  "count_class cls d pt =
     (if cls = ''2xx'' then pt\<lparr> mp_2xx := wrap64 (mp_2xx pt + to_int64 d) \<rparr>
      else if cls = ''3xx'' then pt\<lparr> mp_3xx := wrap64 (mp_3xx pt + to_int64 d) \<rparr>
      else if cls = ''4xx'' then pt\<lparr> mp_4xx := wrap64 (mp_4xx pt + to_int64 d) \<rparr>
      else if cls = ''5xx'' then pt\<lparr> mp_5xx := wrap64 (mp_5xx pt + to_int64 d) \<rparr>
      else pt)"

text \<open>What one pass over the services accumulates.\<close>
record tick_acc =
  tk_buf :: projectBuf
  tk_pt :: projectMetric
  tk_sum :: rat
  tk_cnt :: rat
  tk_agg :: "(string \<times> rat) list"

definition service_tick :: "string \<times> ServiceTraffic \<Rightarrow> tick_acc \<Rightarrow> tick_acc" where
  "service_tick sv a =
     (let (n, t) = sv; b = tk_buf a;
          pt = (case map_of (pb_class b) n of
                  None \<Rightarrow> tk_pt a
                | Some prev \<Rightarrow> fold (\<lambda>(cls, raw). count_class cls (pos_part (raw - mget prev cls))) (st_classes t) (tk_pt a));
          agg = (case map_of (pb_buckets b) n of
                   None \<Rightarrow> tk_agg a
                 | Some prev \<Rightarrow> fold (\<lambda>(le, raw). bump le (pos_part (raw - mget prev le))) (st_buckets t) (tk_agg a))
      in \<lparr> tk_buf = b\<lparr> pb_class := AList.update n (st_classes t) (pb_class b),
                       pb_dur_sum := AList.update n (st_duration t) (pb_dur_sum b),
                       pb_dur_cnt := AList.update n (st_count t) (pb_dur_cnt b),
                       pb_buckets := AList.update n (st_buckets t) (pb_buckets b) \<rparr>,
           tk_pt = pt,
           tk_sum = tk_sum a + pos_part (st_duration t - mget (pb_dur_sum b) n),
           tk_cnt = tk_cnt a + pos_part (st_count t - mget (pb_dur_cnt b) n),
           tk_agg = agg \<rparr>)"

text \<open>Bookkeeping of services that are gone is dropped.\<close>
definition forget_gone :: "string list \<Rightarrow> projectBuf \<Rightarrow> projectBuf" where
  "forget_gone seen b =
     (let dead = filter (\<lambda>k. k \<notin> set seen) (map fst (pb_class b)); keep = (\<lambda>k. k \<notin> set dead)
      in b\<lparr> pb_class := filter (\<lambda>(k, _). keep k) (pb_class b), pb_dur_sum := filter (\<lambda>(k, _). keep k) (pb_dur_sum b),
            pb_dur_cnt := filter (\<lambda>(k, _). keep k) (pb_dur_cnt b), pb_buckets := filter (\<lambda>(k, _). keep k) (pb_buckets b) \<rparr>)"

definition pod_totals :: "PodMetric list \<Rightarrow> projectMetric \<Rightarrow> projectMetric" where
  "pod_totals pods pt = fold (\<lambda>pod pt. pt\<lparr> mp_pods := wrap64 (mp_pods pt + 1), mp_cpu := wrap64 (mp_cpu pt + pm_cpu pod),
      mp_memory := wrap64 (mp_memory pt + pm_memory pod) \<rparr>) pods pt"

definition latencies :: "tick_acc \<Rightarrow> projectMetric" where
  "latencies a =
     (let pt1 = (if tk_cnt a > 0 then (tk_pt a)\<lparr> mp_avg := to_int64 (tk_sum a / tk_cnt a * 1000) \<rparr> else tk_pt a)
      in if tk_cnt a > 0 \<and> tk_agg a \<noteq> []
         then pt1\<lparr> mp_p50 := histogramQuantileMs (tk_agg a) (tk_cnt a) (1 / 2),
                   mp_p95 := histogramQuantileMs (tk_agg a) (tk_cnt a) (95 / 100),
                   mp_p99 := histogramQuantileMs (tk_agg a) (tk_cnt a) (99 / 100) \<rparr>
         else pt1)"

definition push_native :: "projectMetric \<Rightarrow> projectBuf \<Rightarrow> projectBuf" where
  "push_native pt b =
     (let pts = pb_points b @ [pt]
      in b\<lparr> pb_points := (if length pts > projectSeriesMaxLen then drop (length pts - projectSeriesMaxLen) pts else pts) \<rparr>)"

definition push_long :: "projectMetric \<Rightarrow> projectBuf \<Rightarrow> projectBuf" where
  "push_long pt b =
     (let pts = pb_long b @ [pt]
      in b\<lparr> pb_long := (if length pts > longSeriesMaxLen then drop (length pts - longSeriesMaxLen) pts else pts) \<rparr>)"

definition downsample :: "projectMetric \<Rightarrow> projectBuf \<Rightarrow> projectBuf" where
  "downsample pt b =
     (let a = accum_add pt (pb_accum b)
      in if la_count a \<ge> longBucketTicks
         then (let (lp, a1) = flush a in push_long lp (b\<lparr> pb_accum := a1 \<rparr>))
         else b\<lparr> pb_accum := a \<rparr>)"

definition scan_services :: "TelemetrySnapshot \<Rightarrow> projectWithTenant \<Rightarrow> projectBuf \<Rightarrow> tick_acc" where
  "scan_services snap p b =
     fold service_tick (project_services snap (pt_slug p))
       \<lparr> tk_buf = b, tk_pt = pod_totals (project_pods snap (pt_login p) (pt_slug p)) (point_at (ts_as_of snap div second)),
         tk_sum = 0, tk_cnt = 0, tk_agg = [] \<rparr>"

definition project_tick :: "TelemetrySnapshot \<Rightarrow> projectWithTenant \<Rightarrow> projectBuf \<Rightarrow> projectBuf" where
  "project_tick snap p b =
     (let a = scan_services snap p b;
          b1 = forget_gone (map fst (project_services snap (pt_slug p))) (tk_buf a);
          pt = latencies a
      in downsample pt (push_native pt b1))"

type_synonym projectSeries = "(string \<times> projectBuf) list"

definition project_record :: "TelemetrySnapshot \<Rightarrow> projectWithTenant list \<Rightarrow> projectSeries \<Rightarrow> projectSeries" where
  "project_record snap ps store =
     fold (\<lambda>p. AList.map_default (pt_slug p) (project_tick snap p new_pbuf) (project_tick snap p)) ps store"

definition projectPoints :: "string \<Rightarrow> projectSeries \<Rightarrow> projectMetric list" where
  "projectPoints slug store = (case map_of store slug of None \<Rightarrow> [] | Some b \<Rightarrow> pb_points b)"

definition projectPointsLong :: "string \<Rightarrow> projectSeries \<Rightarrow> projectMetric list" where
  "projectPointsLong slug store = (case map_of store slug of None \<Rightarrow> [] | Some b \<Rightarrow> pb_long b)"

section \<open>Windows\<close>

text \<open>Which ring, and how many points.\<close>
definition rangeSpecs :: "string \<Rightarrow> (bool \<times> nat) option" where
  "rangeSpecs key = map_of [(''5m'', (False, 10)), (''15m'', (False, 30)), (''1h'', (False, 120)), (''1d'', (True, 144)), (''1w'', (True, 1008))] key"

text \<open>What the handler chooses: key, interval in seconds, points.\<close>
definition project_window :: "string \<Rightarrow> string \<Rightarrow> projectSeries \<Rightarrow> string \<times> int \<times> projectMetric list" where
  "project_window key0 slug store =
     (let (key, long, tail) = (case rangeSpecs key0 of Some (l, n) \<Rightarrow> (key0, l, n) | None \<Rightarrow> (''1h'', False, 120));
          (pts, iv) = (if long then (projectPointsLong slug store, longBucketSeconds)
                       else (projectPoints slug store, seriesInterval div second))
      in (key, iv, if length pts > tail then drop (length pts - tail) pts else pts))"

section \<open>The sampler\<close>

text \<open>One tick: a scrape that by-passes the cache, and both stores.  \<open>None\<close> for the projects is a failed listing.\<close>
definition sampler_tick ::
  "TelemetrySnapshot \<Rightarrow> projectWithTenant list option \<Rightarrow> seriesStore \<times> projectSeries \<Rightarrow> seriesStore \<times> projectSeries" where
  "sampler_tick snap ps st =
     (recordSnapshot snap (fst st), case ps of None \<Rightarrow> snd st | Some q \<Rightarrow> project_record snap q (snd st))"

end
