(* ===== verification/Series_Props.thy ===== *)
theory Series_Props
  imports Project_Series
begin

text \<open>
  Properties of the project series: the percentiles of a window, the two rings, and the downsampling to ten-minute points.
\<close>

section \<open>Conversions\<close>

lemma wrap64_id: "- (2 ^ 63) \<le> i \<Longrightarrow> i < 2 ^ 63 \<Longrightarrow> wrap64 i = i"
  by (simp add: wrap64_def)

lemma to_int64_floor: "0 \<le> q \<Longrightarrow> q \<le> 10 ^ 15 \<Longrightarrow> to_int64 q = \<lfloor>q\<rfloor>"
proof -
  assume q: "0 \<le> q" "q \<le> 10 ^ 15"
  have "\<lfloor>q\<rfloor> < 2 ^ 63" using q(2) by (simp add: floor_less_iff)
  moreover have "0 \<le> \<lfloor>q\<rfloor>" using q(1) by simp
  ultimately show ?thesis using q by (simp add: to_int64_def Let_def)
qed

lemma to_int64_mono: "0 \<le> x \<Longrightarrow> x \<le> y \<Longrightarrow> y \<le> 10 ^ 12 \<Longrightarrow> to_int64 (x * 1000) \<le> to_int64 (y * 1000)"
  using to_int64_floor[of "x * 1000"] to_int64_floor[of "y * 1000"] floor_mono[of "x * 1000" "y * 1000"] by simp

section \<open>Percentiles\<close>

text \<open>The buckets in order of their bounds.\<close>
definition ordered_buckets :: "(string \<times> rat) list \<Rightarrow> (rat option \<times> rat) list" where
  "ordered_buckets bs = sort_buckets (map (\<lambda>(k, v). (bucket_le k, v)) bs)"

text \<open>A histogram of at least \<open>cnt\<close> observations: cumulative counts and bounds of at most thirty thousand years.\<close>
definition cumulative :: "(string \<times> rat) list \<Rightarrow> rat \<Rightarrow> bool" where
  "cumulative bs cnt \<longleftrightarrow> distinct (map fst bs) \<and> bs \<noteq> [] \<and> sorted (0 # map snd (ordered_buckets bs))
     \<and> cnt \<le> snd (last (ordered_buckets bs))
     \<and> list_all (\<lambda>(le, _). case le of None \<Rightarrow> True | Some q \<Rightarrow> 0 \<le> q \<and> q \<le> 10 ^ 12) (ordered_buckets bs)"

text \<open>Bounds that grow from \<open>p\<close>, with an infinite one at the end only.\<close>
fun growing :: "rat \<Rightarrow> (rat option \<times> rat) list \<Rightarrow> bool" where
  "growing p [] = (p \<le> 10 ^ 12)"
| "growing p ((None, v) # bs) = (p \<le> 10 ^ 12 \<and> bs = [])"
| "growing p ((Some l, v) # bs) = (p \<le> l \<and> growing l bs)"

lemma growing_le: "growing p bs \<Longrightarrow> p \<le> 10 ^ 12"
  by (induction p bs rule: growing.induct) auto

lemma growing_append: "sorted (p # map (\<lambda>b. the (fst b)) fs) \<Longrightarrow> \<forall>b \<in> set fs. \<exists>q. fst b = Some q \<and> q \<le> 10 ^ 12 \<Longrightarrow> p \<le> 10 ^ 12
   \<Longrightarrow> length is \<le> 1 \<Longrightarrow> \<forall>b \<in> set is. fst b = None \<Longrightarrow> growing p (fs @ is)"
proof (induction fs arbitrary: p)
  case Nil
  then show ?case by (cases "is") auto
next
  case (Cons b fs)
  obtain q v where b: "b = (Some q, v)" "q \<le> 10 ^ 12" using Cons.prems(2) by (cases b) auto
  then show ?case using Cons by simp
qed

lemma cumulative_growing:
  assumes c: "cumulative bs cnt"
  shows "growing 0 (ordered_buckets bs)"
proof -
  define m where "m = map (\<lambda>(k, v). (bucket_le k, v)) bs"
  define fs where "fs = sort_key (\<lambda>b. the (fst b)) (filter (\<lambda>b. fst b \<noteq> None) m)"
  define ifs where "ifs = filter (\<lambda>b. fst b = None) m"
  have o: "ordered_buckets bs = fs @ ifs" by (simp add: ordered_buckets_def sort_buckets_def m_def fs_def ifs_def)
  have "distinct (map fst bs)" using c by (simp add: cumulative_def)
  then have "length (filter (\<lambda>(k, v). k = ''+Inf'') bs) \<le> 1"
    by (induction bs) (auto simp: filter_empty_conv image_iff)
  moreover have "length ifs = length (filter (\<lambda>(k, v). k = ''+Inf'') bs)"
    unfolding ifs_def m_def by (induction bs) (auto simp: bucket_le_def split: if_splits)
  ultimately have len: "length ifs \<le> 1" by simp
  have ok: "list_all (\<lambda>(le, _). case le of None \<Rightarrow> True | Some q \<Rightarrow> 0 \<le> q \<and> q \<le> 10 ^ 12) (fs @ ifs)"
    using c by (simp add: cumulative_def o)
  have fin: "\<exists>q. fst b = Some q \<and> 0 \<le> q \<and> q \<le> 10 ^ 12" if b: "b \<in> set fs" for b
  proof -
    have "fst b \<noteq> None" using b by (simp add: fs_def)
    then obtain q v where "b = (Some q, v)" by (cases b) auto
    moreover have "case b of (le, _) \<Rightarrow> case le of None \<Rightarrow> True | Some q \<Rightarrow> 0 \<le> q \<and> q \<le> 10 ^ 12"
      using ok b unfolding list_all_iff set_append by blast
    ultimately show ?thesis by simp
  qed
  have "0 \<le> the (fst b)" if "b \<in> set fs" for b using fin[OF that] by auto
  moreover have "sorted (map (\<lambda>b. the (fst b)) fs)" by (simp add: fs_def)
  ultimately have "sorted (0 # map (\<lambda>b. the (fst b)) fs)" by simp
  then show ?thesis unfolding o
    by (rule growing_append) (use fin len in \<open>auto simp: ifs_def\<close>)
qed

lemma interpolate_within:
  assumes "p \<le> l" "pv < t" "t \<le> v"
  shows "p \<le> interpolate p l pv v t" "interpolate p l pv v t \<le> l"
proof -
  have f: "0 \<le> (t - pv) / (v - pv)" "(t - pv) / (v - pv) \<le> 1" using assms by (simp_all add: divide_le_eq_1)
  have "0 \<le> (t - pv) / (v - pv) * (l - p)" using mult_nonneg_nonneg[OF f(1), of "l - p"] assms(1) by simp
  then show "p \<le> interpolate p l pv v t" by (simp add: interpolate_def)
  have "(t - pv) / (v - pv) * (l - p) \<le> 1 * (l - p)" by (rule mult_right_mono) (use f(2) assms(1) in auto)
  then show "interpolate p l pv v t \<le> l" by (simp add: interpolate_def)
qed

lemma interpolate_mono:
  assumes "p \<le> l" "pv < t1" "t1 \<le> t2" "t2 \<le> v"
  shows "interpolate p l pv v t1 \<le> interpolate p l pv v t2"
proof -
  have "(t1 - pv) / (v - pv) \<le> (t2 - pv) / (v - pv)" using assms by (simp add: divide_right_mono)
  from mult_right_mono[OF this, of "l - p"] show ?thesis using assms(1) by (simp add: interpolate_def)
qed

text \<open>The quantile in seconds that the loop scales.\<close>
lemma quantile_within:
  "growing p bs \<Longrightarrow> pv < t \<Longrightarrow> bs \<noteq> [] \<Longrightarrow> t \<le> snd (last bs)
   \<Longrightarrow> \<exists>x. quantile_loop bs t (Some p) pv = to_int64 (x * 1000) \<and> p \<le> x \<and> x \<le> 10 ^ 12"
proof (induction bs arbitrary: p pv)
  case (Cons b bs)
  obtain le v where b: "b = (le, v)" by (cases b)
  show ?case
  proof (cases le)
    case None
    then show ?thesis using Cons.prems b by (auto simp: le_ms_def)
  next
    case (Some l)
    then have g: "p \<le> l" "growing l bs" using Cons.prems(1) b by auto
    show ?thesis
    proof (cases "t \<le> v")
      case True
      then show ?thesis using b Some Cons.prems(2) interpolate_within[OF g(1) Cons.prems(2) True] growing_le[OF g(2)]
        by (auto intro!: exI[of _ "interpolate p l pv v t"])
    next
      case False
      then have "bs \<noteq> []" using Cons.prems(4) b by (cases bs) auto
      then obtain x where "quantile_loop bs t (Some l) v = to_int64 (x * 1000)" "l \<le> x" "x \<le> 10 ^ 12"
        using Cons.IH[OF g(2), of v] Cons.prems(4) False by auto
      then show ?thesis using b Some False g(1) by (auto intro: order_trans)
    qed
  qed
qed simp

lemma quantile_loop_mono:
  "growing p bs \<Longrightarrow> 0 \<le> p \<Longrightarrow> pv < t1 \<Longrightarrow> t1 \<le> t2 \<Longrightarrow> bs \<noteq> [] \<Longrightarrow> t2 \<le> snd (last bs)
   \<Longrightarrow> 0 \<le> quantile_loop bs t1 (Some p) pv \<and> quantile_loop bs t1 (Some p) pv \<le> quantile_loop bs t2 (Some p) pv"
proof (induction bs arbitrary: p pv)
  case (Cons b bs)
  obtain le v where b: "b = (le, v)" by (cases b)
  obtain x1 where x1: "quantile_loop (b # bs) t1 (Some p) pv = to_int64 (x1 * 1000)" "p \<le> x1" "x1 \<le> 10 ^ 12"
    using quantile_within[OF Cons.prems(1,3,5)] Cons.prems(4,6) by auto
  have nonneg: "0 \<le> quantile_loop (b # bs) t1 (Some p) pv"
    using x1 Cons.prems(2) to_int64_mono[of 0 x1] by (simp add: to_int64_def)
  show ?case
  proof (cases le)
    case None
    then show ?thesis using Cons.prems b nonneg by auto
  next
    case (Some l)
    then have g: "p \<le> l" "growing l bs" using Cons.prems(1) b by auto
    consider "t2 \<le> v" | "t1 \<le> v" "v < t2" | "v < t1" by linarith
    then show ?thesis
    proof cases
      case 1
      then have "to_int64 (interpolate p l pv v t1 * 1000) \<le> to_int64 (interpolate p l pv v t2 * 1000)"
        using interpolate_within[OF g(1), of pv t1 v] interpolate_within[OF g(1), of pv t2 v]
          interpolate_mono[OF g(1) Cons.prems(3,4) 1] Cons.prems(2,3,4) growing_le[OF g(2)]
        by (intro to_int64_mono) linarith+
      then show ?thesis using nonneg 1 b Some Cons.prems(3,4) by auto
    next
      case 2
      then have ne: "bs \<noteq> []" using Cons.prems(6) b by (cases bs) auto
      obtain x2 where x2: "quantile_loop bs t2 (Some l) v = to_int64 (x2 * 1000)" "l \<le> x2" "x2 \<le> 10 ^ 12"
        using quantile_within[OF g(2) 2(2) ne] Cons.prems(6) ne by auto
      have "quantile_loop (b # bs) t1 (Some p) pv = to_int64 (interpolate p l pv v t1 * 1000)"
        using 2 b Some Cons.prems(3) by auto
      moreover have "\<dots> \<le> to_int64 (x2 * 1000)"
        using interpolate_within[OF g(1) Cons.prems(3) 2(1)] x2(2,3) Cons.prems(2) by (intro to_int64_mono) linarith+
      ultimately show ?thesis using nonneg x2(1) 2 b Some by auto
    next
      case 3
      then have ne: "bs \<noteq> []" using Cons.prems(4,6) b by (cases bs) auto
      then show ?thesis using Cons.IH[OF g(2) _ 3 Cons.prems(4) ne] Cons.prems(2,4,6) 3 b Some g(1) by auto
    qed
  qed
qed simp

lemma quantile_mono:
  assumes "cumulative bs cnt" "0 < cnt" "0 < q1" "q1 \<le> q2" "q2 \<le> 1"
  shows "0 \<le> histogramQuantileMs bs cnt q1 \<and> histogramQuantileMs bs cnt q1 \<le> histogramQuantileMs bs cnt q2"
proof -
  have ne: "bs \<noteq> []" "cnt \<le> snd (last (ordered_buckets bs))" using assms(1) by (auto simp: cumulative_def)
  have "set (ordered_buckets bs) \<noteq> {}" using ne(1) by (cases bs) (auto simp: ordered_buckets_def sort_buckets_def)
  then have ne': "ordered_buckets bs \<noteq> []" by auto
  have "q2 * cnt \<le> cnt" using mult_right_mono[of q2 1 cnt] assms(2,5) by auto
  then have "q2 * cnt \<le> snd (last (ordered_buckets bs))" using ne(2) by (rule order_trans)
  moreover have "q1 * cnt \<le> q2 * cnt" "0 < q1 * cnt" using assms(2-4) by (auto intro: mult_right_mono)
  ultimately show ?thesis
    using quantile_loop_mono[OF cumulative_growing[OF assms(1)], of 0 "q1 * cnt" "q2 * cnt"] ne(1) ne' assms(2)
    by (simp add: histogramQuantileMs_def ordered_buckets_def)
qed

text \<open>C40: The percentiles of a window are ordered: when the window's histogram is cumulative and covers the requests counted in the
  window, p50, p95 and p99 are non-negative and increasing.\<close>
theorem percentiles_ordered:
  assumes "cumulative (tk_agg a) (tk_cnt a)" "0 < tk_cnt a"
  shows "0 \<le> mp_p50 (latencies a) \<and> mp_p50 (latencies a) \<le> mp_p95 (latencies a) \<and> mp_p95 (latencies a) \<le> mp_p99 (latencies a)"
proof -
  have "tk_agg a \<noteq> []" using assms(1) by (simp add: cumulative_def)
  then show ?thesis
    using quantile_mono[OF assms, of "1 / 2" "95 / 100"] quantile_mono[OF assms, of "95 / 100" "99 / 100"] assms(2)
    by (simp add: latencies_def Let_def)
qed

theorem percentiles_ordered_witness:
  "mp_p50 (latencies \<lparr> tk_buf = new_pbuf, tk_pt = point_at 0, tk_sum = 2, tk_cnt = 10,
      tk_agg = [(''+Inf'', 10), (''0.1'', 4), (''1'', 8)] \<rparr>) \<le> mp_p95 (latencies \<lparr> tk_buf = new_pbuf, tk_pt = point_at 0,
      tk_sum = 2, tk_cnt = 10, tk_agg = [(''+Inf'', 10), (''0.1'', 4), (''1'', 8)] \<rparr>)"
proof -
  let ?a = "\<lparr> tk_buf = new_pbuf, tk_pt = point_at 0, tk_sum = 2, tk_cnt = 10, tk_agg = [(''+Inf'', 10), (''0.1'', 4), (''1'', 8)] \<rparr>"
  have le: "bucket_le ''+Inf'' = None" "bucket_le ''0.1'' = Some (1 / 10)" "bucket_le ''1'' = Some 1"
    by code_simp+
  have "ordered_buckets (tk_agg ?a) = [(Some (1 / 10), 4), (Some 1, 8), (None, 10)]"
    by (simp add: ordered_buckets_def sort_buckets_def le del: not_None_eq)
  then have "cumulative (tk_agg ?a) (tk_cnt ?a)" by (simp add: cumulative_def)
  from percentiles_ordered[OF this] show ?thesis by simp
qed

text \<open>The loop when no bucket reaches the target: it ends on the last bound.\<close>
lemma uncovered_loop:
  "\<forall>b \<in> set bs. snd b < t \<Longrightarrow> bs \<noteq> [] \<Longrightarrow> quantile_loop bs t p pv = le_ms (fst (last bs))"
  by (induction bs t p pv rule: quantile_loop.induct) (auto split: if_splits)

lemma uncovered_quantile:
  assumes "list_all (\<lambda>(k, v). v < q * cnt) bs" "''+Inf'' \<in> fst ` set bs" "0 < cnt"
  shows "histogramQuantileMs bs cnt q = - (2 ^ 63)"
proof -
  let ?m = "map (\<lambda>(k, v). (bucket_le k, v)) bs"
  let ?is = "filter (\<lambda>b. fst b = None) ?m"
  have "\<exists>b \<in> set ?m. fst b = None" using assms(2) by (force simp: bucket_le_def)
  then have ne: "?is \<noteq> []" by (simp add: filter_empty_conv)
  then have "fst (last ?is) = None" using last_in_set[OF ne] by auto
  then have l: "fst (last (sort_buckets ?m)) = None" "sort_buckets ?m \<noteq> []" using ne by (simp_all add: sort_buckets_def)
  have "\<forall>b \<in> set (sort_buckets ?m). snd b < q * cnt"
    using assms(1) by (auto simp: sort_buckets_def list_all_iff)
  from uncovered_loop[OF this l(2)] show ?thesis
    using l(1) assms(3) ne by (auto simp: histogramQuantileMs_def le_ms_def)
qed

text \<open>C27: A window whose count is not covered by its histogram: when every bucket stays below half of the requests counted and
  \<open>+Inf\<close> is among them, all three percentiles are the least \<open>int64\<close>, not the highest finite bound the code means to return.  It
  happens on the first tick after a deployment: the count of the new service is added in full, its buckets are not.\<close>
theorem uncovered_window_underflows:
  assumes "list_all (\<lambda>(k, v). 2 * v < tk_cnt a) (tk_agg a)" "''+Inf'' \<in> fst ` set (tk_agg a)" "0 < tk_cnt a"
  shows "mp_p50 (latencies a) = - (2 ^ 63) \<and> mp_p95 (latencies a) = - (2 ^ 63) \<and> mp_p99 (latencies a) = - (2 ^ 63)"
proof -
  have q: "histogramQuantileMs (tk_agg a) (tk_cnt a) q = - (2 ^ 63)" if "1 / 2 \<le> q" for q :: rat
  proof (rule uncovered_quantile[OF _ assms(2,3)])
    have "1 / 2 * tk_cnt a \<le> q * tk_cnt a" using that assms(3) by (intro mult_right_mono) auto
    then show "list_all (\<lambda>(k, v). v < q * tk_cnt a) (tk_agg a)" using assms(1) by (force simp: list_all_iff)
  qed
  have "tk_agg a \<noteq> []" using assms(2) by auto
  then show ?thesis using q[of "1 / 2"] q[of "95 / 100"] q[of "99 / 100"] assms(3) by (simp add: latencies_def Let_def)
qed

definition traffic10 :: ServiceTraffic where
  "traffic10 = \<lparr> st_requests = 10, st_errors = 0, st_duration = 1, st_count = 10, st_classes = [(''2xx'', 10)],
     st_buckets = [(''0.1'', 10), (''+Inf'', 10)] \<rparr>"

definition deploy_snap :: TelemetrySnapshot where
  "deploy_snap = \<lparr> ts_as_of = 0, ts_pods = [], ts_services = [(''app-1-svc'', traffic10), (''app-2-svc'', traffic10)], ts_err = '''' \<rparr>"

lemma scan_keeps:
  "pb_points (tk_buf (scan_services snap p b)) = pb_points b \<and> pb_long (tk_buf (scan_services snap p b)) = pb_long b
   \<and> pb_accum (tk_buf (scan_services snap p b)) = pb_accum b"
proof -
  have "pb_points (tk_buf (fold service_tick svcs a)) = pb_points (tk_buf a) \<and> pb_long (tk_buf (fold service_tick svcs a)) = pb_long (tk_buf a)
   \<and> pb_accum (tk_buf (fold service_tick svcs a)) = pb_accum (tk_buf a)" for svcs a
    by (induction svcs arbitrary: a) (auto simp: service_tick_def Let_def split: prod.splits)
  then show ?thesis by (simp add: scan_services_def)
qed

lemma downsample_points: "pb_points (downsample pt b) = pb_points b"
  by (simp add: downsample_def push_long_def Let_def split: prod.split)

lemma tick_points:
  "pb_points (project_tick snap p b) = keep_last projectSeriesMaxLen (pb_points b @ [latencies (scan_services snap p b)])"
  by (simp add: project_tick_def downsample_points push_native_def forget_gone_def scan_keeps keep_last_def Let_def)

text \<open>The second service is new; the first one is idle.\<close>
theorem uncovered_window_underflows_witness:
  "let b0 = new_pbuf\<lparr> pb_class := [(''app-1-svc'', [(''2xx'', 10)])], pb_dur_sum := [(''app-1-svc'', 1)],
       pb_dur_cnt := [(''app-1-svc'', 10)], pb_buckets := [(''app-1-svc'', st_buckets traffic10)] \<rparr>
   in map mp_p99 (pb_points (project_tick deploy_snap \<lparr> pt_id = ''1'', pt_slug = ''app'', pt_login = ''o'' \<rparr> b0)) = [- (2 ^ 63)]"
proof -
  define b0 where "b0 = new_pbuf\<lparr> pb_class := [(''app-1-svc'', [(''2xx'', 10)])], pb_dur_sum := [(''app-1-svc'', 1)],
       pb_dur_cnt := [(''app-1-svc'', 10)], pb_buckets := [(''app-1-svc'', st_buckets traffic10)] \<rparr>"
  let ?p = "\<lparr> pt_id = ''1'', pt_slug = ''app'', pt_login = ''o'' \<rparr>"
  have "project_services deploy_snap ''app'' = ts_services deploy_snap"
    by (simp add: project_services_def deploy_snap_def) code_simp
  moreover have "project_pods deploy_snap ''o'' ''app'' = []" by (simp add: project_pods_def deploy_snap_def coalesce_def)
  ultimately have scan: "scan_services deploy_snap ?p b0 = fold service_tick (ts_services deploy_snap)
      \<lparr> tk_buf = b0, tk_pt = point_at 0, tk_sum = 0, tk_cnt = 0, tk_agg = [] \<rparr>"
    by (simp add: scan_services_def pod_totals_def) (simp add: deploy_snap_def)
  have a: "tk_cnt (scan_services deploy_snap ?p b0) = 10" "tk_agg (scan_services deploy_snap ?p b0) = [(''0.1'', 0), (''+Inf'', 0)]"
    unfolding scan by (simp_all add: b0_def deploy_snap_def traffic10_def service_tick_def new_pbuf_def mget_def pos_part_def bump_def)
  have "mp_p99 (latencies (scan_services deploy_snap ?p b0)) = - (2 ^ 63)"
    using uncovered_window_underflows[of "scan_services deploy_snap ?p b0"] a by simp
  moreover have "pb_points b0 = []" by (simp add: b0_def new_pbuf_def)
  ultimately show ?thesis by (simp add: b0_def[symmetric] tick_points projectSeriesMaxLen_def)
qed

section \<open>Rings and downsampling\<close>

interpretation native_ring: ring_buffer pb_points push_native projectSeriesMaxLen
  by unfold_locales (auto simp: push_native_def Let_def keep_last_def)

interpretation long_ring: ring_buffer pb_long push_long longSeriesMaxLen
  by unfold_locales (auto simp: push_long_def Let_def keep_last_def)

text \<open>The aggregate of a run of native points.\<close>
definition aggregate :: "projectMetric list \<Rightarrow> projectMetric" where
  "aggregate pts = fst (flush (fold accum_add pts empty_accum))"

fun full_chunks :: "nat \<Rightarrow> 'a list \<Rightarrow> 'a list list" where
  "full_chunks n xs = (if n = 0 \<or> length xs < n then [] else take n xs # full_chunks n (drop n xs))"

declare full_chunks.simps [simp del]

lemma accum_count_step: "la_count (accum_add pt a) = wrap64 (la_count a + 1)"
  by (simp add: accum_add_def Let_def)

lemma accum_count: "length pts \<le> 20 \<Longrightarrow> la_count (fold accum_add pts empty_accum) = int (length pts)"
proof (induction pts rule: rev_induct)
  case (snoc x xs)
  then show ?case using wrap64_id[of "int (length xs) + 1"] by (simp add: accum_count_step)
qed (simp add: empty_accum_def)

lemma downsample_run:
  "length cur < 20 \<Longrightarrow> length (pb_long b) \<le> longSeriesMaxLen \<Longrightarrow> pb_accum b = fold accum_add cur empty_accum
   \<Longrightarrow> pb_long (fold downsample pts b) = keep_last longSeriesMaxLen (pb_long b @ map aggregate (full_chunks 20 (cur @ pts)))
     \<and> 0 \<le> la_count (pb_accum (fold downsample pts b)) \<and> la_count (pb_accum (fold downsample pts b)) < 20"
proof (induction pts arbitrary: cur b)
  case Nil
  then show ?case by (simp add: full_chunks.simps accum_count)
next
  case (Cons pt pts)
  have a: "accum_add pt (pb_accum b) = fold accum_add (cur @ [pt]) empty_accum" using Cons.prems(3) by simp
  have n: "la_count (accum_add pt (pb_accum b)) = int (length cur) + 1" unfolding a using accum_count[of "cur @ [pt]"] Cons.prems(1) by simp
  show ?case
  proof (cases "length (cur @ [pt]) = 20")
    case True
    let ?b = "push_long (aggregate (cur @ [pt])) (b\<lparr> pb_accum := empty_accum \<rparr>)"
    have d: "downsample pt b = ?b" using n True a
      by (simp add: downsample_def longBucketTicks_def aggregate_def flush_def Let_def del: fold_append)
    have l: "pb_long ?b = keep_last longSeriesMaxLen (pb_long b @ [aggregate (cur @ [pt])])" by (simp add: long_ring.items_push)
    have acc: "pb_accum ?b = empty_accum" by (simp add: push_long_def Let_def)
    have "full_chunks 20 (cur @ pt # pts) = (cur @ [pt]) # full_chunks 20 pts"
      using True by (subst full_chunks.simps) simp
    then show ?thesis
      using Cons.IH[of "[]" ?b] d l acc by (simp add: keep_last_append)
  next
    case False
    have "downsample pt b = b\<lparr> pb_accum := fold accum_add (cur @ [pt]) empty_accum \<rparr>"
      using n False Cons.prems(1) a by (simp add: downsample_def longBucketTicks_def Let_def del: fold_append)
    then show ?thesis
      using Cons.IH[of "cur @ [pt]" "b\<lparr> pb_accum := fold accum_add (cur @ [pt]) empty_accum \<rparr>"] Cons.prems False by simp
  qed
qed

text \<open>The long ring is the aggregates of the consecutive full blocks of twenty native points, the last 1008 of them.\<close>
theorem long_ring_is_chunks:
  "pb_long (fold downsample pts new_pbuf) = keep_last 1008 (map aggregate (full_chunks 20 pts))"
  using downsample_run[of "[]" new_pbuf pts] by (simp add: new_pbuf_def longSeriesMaxLen_def)

text \<open>The store of the sampler stays within its memory budget.\<close>
definition pbuf_ok :: "projectBuf \<Rightarrow> bool" where
  "pbuf_ok b \<longleftrightarrow> length (pb_points b) \<le> 120 \<and> length (pb_long b) \<le> 1008
     \<and> 0 \<le> la_count (pb_accum b) \<and> la_count (pb_accum b) < longBucketTicks"

lemma push_native_keeps: "pb_long (push_native pt b) = pb_long b" "pb_accum (push_native pt b) = pb_accum b"
  by (simp_all add: push_native_def Let_def)

lemma forget_gone_keeps:
  "pb_points (forget_gone ns b) = pb_points b" "pb_long (forget_gone ns b) = pb_long b" "pb_accum (forget_gone ns b) = pb_accum b"
  by (simp_all add: forget_gone_def Let_def)

lemma downsample_ok:
  "0 \<le> la_count (pb_accum c) \<Longrightarrow> la_count (pb_accum c) < 20 \<Longrightarrow> length (pb_long c) \<le> 1008
   \<Longrightarrow> 0 \<le> la_count (pb_accum (downsample pt c)) \<and> la_count (pb_accum (downsample pt c)) < 20
     \<and> length (pb_long (downsample pt c)) \<le> 1008"
  using wrap64_id[of "la_count (pb_accum c) + 1"] long_ring.bounded_push
  by (auto simp: downsample_def longBucketTicks_def accum_count_step flush_def empty_accum_def push_long_def longSeriesMaxLen_def Let_def)

lemma pbuf_ok_tick: "pbuf_ok b \<Longrightarrow> pbuf_ok (project_tick snap p b)"
  using downsample_ok[of "push_native (latencies (scan_services snap p b)) (forget_gone (map fst (project_services snap (pt_slug p)))
        (tk_buf (scan_services snap p b)))" "latencies (scan_services snap p b)"] tick_points[of snap p b]
  by (simp add: pbuf_ok_def project_tick_def push_native_keeps forget_gone_keeps scan_keeps longBucketTicks_def projectSeriesMaxLen_def Let_def)

lemma pbuf_ok_new: "pbuf_ok new_pbuf"
  by (simp add: pbuf_ok_def new_pbuf_def empty_accum_def longBucketTicks_def)

definition store_ok :: "projectSeries \<Rightarrow> bool" where
  "store_ok st \<longleftrightarrow> distinct (map fst st) \<and> list_all (\<lambda>e. pbuf_ok (snd e)) st"

lemma store_ok_record: "store_ok st \<Longrightarrow> store_ok (project_record snap ps st)"
  unfolding project_record_def
proof (induction ps arbitrary: st)
  case (Cons p ps)
  have "\<forall>e \<in> set st. pbuf_ok (snd e)" using Cons.prems by (simp add: store_ok_def list_all_iff)
  from map_default_Ball[of st pbuf_ok, OF this pbuf_ok_tick[OF pbuf_ok_new] pbuf_ok_tick]
  have "store_ok (AList.map_default (pt_slug p) (project_tick snap p new_pbuf) (project_tick snap p) st)"
    using Cons.prems by (simp add: store_ok_def distinct_map_default list_all_iff)
  from Cons.IH[OF this] show ?case by simp
qed simp

text \<open>However long the sampler runs, for whatever projects and scrapes, there is one buffer per slug with at most 120 native points,
  at most 1008 aggregates and fewer than twenty points waiting to be aggregated.\<close>
theorem sampler_memory_bounded:
  "store_ok (snd (fold (\<lambda>(snap, ps). sampler_tick snap ps) ticks ([], [])))"
proof -
  have "store_ok (snd st) \<Longrightarrow> store_ok (snd (fold (\<lambda>(snap, ps). sampler_tick snap ps) ticks st))" for st
    by (induction ticks arbitrary: st) (auto simp: sampler_tick_def store_ok_record split: option.splits)
  from this[of "([], [])"] show ?thesis by (simp add: store_ok_def)
qed

section \<open>What an aggregate keeps\<close>

text \<open>A point whose counters are those of at most a hundred million requests and whose 99th percentile lies in the given range.\<close>
definition plausible :: "int \<Rightarrow> int \<Rightarrow> projectMetric \<Rightarrow> bool" where
  "plausible lo hi pt \<longleftrightarrow> 0 \<le> mp_2xx pt \<and> mp_2xx pt \<le> 10 ^ 8 \<and> 0 \<le> mp_3xx pt \<and> mp_3xx pt \<le> 10 ^ 8
     \<and> 0 \<le> mp_4xx pt \<and> mp_4xx pt \<le> 10 ^ 8 \<and> 0 \<le> mp_5xx pt \<and> mp_5xx pt \<le> 10 ^ 8 \<and> lo \<le> mp_p99 pt \<and> mp_p99 pt \<le> hi"

definition weight :: "projectMetric \<Rightarrow> int" where
  "weight pt = mp_2xx pt + mp_3xx pt + mp_4xx pt + mp_5xx pt"

definition p99_sum :: "projectMetric list \<Rightarrow> int" where
  "p99_sum pts = (\<Sum>pt \<leftarrow> pts. mp_p99 pt * weight pt)"

lemma weighted_range:
  assumes "list_all (plausible lo hi) pts"
  shows "lo * (\<Sum>pt \<leftarrow> pts. weight pt) \<le> p99_sum pts" "p99_sum pts \<le> hi * (\<Sum>pt \<leftarrow> pts. weight pt)"
proof -
  have "lo * weight pt \<le> mp_p99 pt * weight pt \<and> mp_p99 pt * weight pt \<le> hi * weight pt" if "plausible lo hi pt" for pt
    using that by (auto simp: plausible_def weight_def intro!: mult_right_mono)
  then have "lo * (\<Sum>pt \<leftarrow> pts. weight pt) \<le> p99_sum pts \<and> p99_sum pts \<le> hi * (\<Sum>pt \<leftarrow> pts. weight pt)"
    using assms unfolding p99_sum_def by (induction pts) (auto simp: distrib_left add_mono)
  then show "lo * (\<Sum>pt \<leftarrow> pts. weight pt) \<le> p99_sum pts" "p99_sum pts \<le> hi * (\<Sum>pt \<leftarrow> pts. weight pt)" by simp_all
qed

lemma plausible_sums:
  assumes "list_all (plausible lo hi) pts"
  shows "0 \<le> sum_list (map mp_5xx pts)" "sum_list (map mp_5xx pts) \<le> 10 ^ 8 * int (length pts)"
    "0 \<le> sum_list (map weight pts)" "sum_list (map weight pts) \<le> 4 * 10 ^ 8 * int (length pts)"
  using assms by (induction pts) (auto simp: plausible_def weight_def)

lemma accum_exact:
  assumes "list_all (plausible 0 hi) pts" "length pts \<le> 20" "hi \<le> 10 ^ 7"
  shows "la_5xx (fold accum_add pts empty_accum) = sum_list (map mp_5xx pts)
    \<and> la_weight (fold accum_add pts empty_accum) = sum_list (map weight pts)
    \<and> la_p99 (fold accum_add pts empty_accum) = p99_sum pts"
  using assms
proof (induction pts rule: rev_induct)
  case (snoc x xs)
  have pl: "list_all (plausible 0 hi) (xs @ [x])" using snoc.prems by simp
  have w: "weight x = point_weight x" "0 \<le> weight x"
    using snoc.prems(1) wrap64_id[of "weight x"] by (simp_all add: plausible_def weight_def point_weight_def)
  have n: "int (length (xs @ [x])) \<le> 20" using snoc.prems(2) by simp
  have sums: "sum_list (map mp_5xx (xs @ [x])) \<le> 10 ^ 8 * 20" "sum_list (map weight (xs @ [x])) \<le> 4 * 10 ^ 8 * 20"
    using plausible_sums(2,4)[OF pl] n by (auto elim!: order_trans)
  have "hi * (\<Sum>pt \<leftarrow> xs @ [x]. weight pt) \<le> 10 ^ 7 * (4 * 10 ^ 8 * 20)"
    using snoc.prems(3) sums(2) plausible_sums(3)[OF pl] by (intro mult_mono) auto
  then have p: "0 \<le> p99_sum (xs @ [x])" "p99_sum (xs @ [x]) \<le> 10 ^ 7 * (4 * 10 ^ 8 * 20)"
    using weighted_range[OF pl] by auto
  show ?case
    using snoc.IH snoc.prems w wrap64_id[of "sum_list (map mp_5xx (xs @ [x]))"] wrap64_id[of "sum_list (map weight (xs @ [x]))"]
      wrap64_id[of "p99_sum (xs @ [x])"] plausible_sums(1,3)[OF pl] sums p
    by (cases "weight x = 0") (auto simp: accum_add_def Let_def p99_sum_def)
qed (simp add: empty_accum_def p99_sum_def)

lemma flush_p99: "0 < la_weight a \<Longrightarrow> mp_p99 (fst (flush a)) = quot (la_p99 a) (la_weight a)"
  by (simp add: flush_def Let_def)

lemma flush_5xx: "mp_5xx (fst (flush a)) = la_5xx a"
  by (simp add: flush_def Let_def)

text \<open>An aggregate of at most twenty points keeps the number of server errors exactly, and its 99th percentile lies between the
  smallest and the largest of the points that it averages.\<close>
theorem aggregate_keeps:
  assumes "list_all (plausible lo hi) pts" "length pts \<le> 20" "0 \<le> lo" "hi \<le> 10 ^ 7" "0 < sum_list (map weight pts)"
  shows "mp_5xx (aggregate pts) = sum_list (map mp_5xx pts) \<and> lo \<le> mp_p99 (aggregate pts) \<and> mp_p99 (aggregate pts) \<le> hi"
proof -
  let ?w = "sum_list (map weight pts)"
  have "list_all (plausible 0 hi) pts" using assms(1,3) by (auto simp: list_all_iff plausible_def)
  note e = accum_exact[OF this assms(2,4)]
  have r: "lo * ?w \<le> p99_sum pts" "p99_sum pts \<le> hi * ?w" using weighted_range[OF assms(1)] by simp_all
  have "0 \<le> lo * ?w" using assms(3,5) by simp
  then have nn: "0 \<le> p99_sum pts" using r(1) by (rule order_trans)
  have "mp_p99 (aggregate pts) = p99_sum pts div ?w"
    using flush_p99[of "fold accum_add pts empty_accum"] e assms(5) quot_nonneg[OF nn assms(5)] by (simp only: aggregate_def)
  moreover have "lo \<le> p99_sum pts div ?w" using zdiv_mono1[OF r(1) assms(5)] assms(5) by simp
  moreover have "p99_sum pts div ?w \<le> hi" using zdiv_mono1[OF r(2) assms(5)] assms(5) by simp
  moreover have "mp_5xx (aggregate pts) = sum_list (map mp_5xx pts)" using flush_5xx e by (simp only: aggregate_def)
  ultimately show ?thesis by simp
qed

theorem aggregate_keeps_witness:
  "mp_5xx (aggregate (replicate 20 ((point_at 0)\<lparr> mp_5xx := 3, mp_p99 := 250 \<rparr>))) = 60
   \<and> mp_p99 (aggregate (replicate 20 ((point_at 0)\<lparr> mp_5xx := 3, mp_p99 := 250 \<rparr>))) = 250"
proof -
  let ?pts = "replicate 20 ((point_at 0)\<lparr> mp_5xx := 3, mp_p99 := 250 \<rparr>)"
  have "list_all (plausible 250 250) ?pts" by (simp add: list_all_iff plausible_def point_at_def)
  moreover have "sum_list (map weight ?pts) = 60" "sum_list (map mp_5xx ?pts) = 60"
    by (simp_all add: weight_def point_at_def sum_list_replicate)
  ultimately show ?thesis using aggregate_keeps[of 250 250 ?pts] by simp
qed

end
