(* ===== verification/Telemetry_Api.thy ===== *)
theory Telemetry_Api
  imports Project_Series Idents Api_Routes
begin

text \<open>
  The JSON endpoints over the telemetry snapshot and the series (\<open>telemetry_handlers.go\<close>, \<open>handleProjectMetrics\<close>).  \<open>snap\<close> is what
  \<open>cache_get\<close> returned for the request; an answer is a record with the fields of the JSON document, and the
  rendering of the time stamp is left out.  \<open>None\<close> or \<open>Inl\<close> is the error status.
\<close>

section \<open>Rows\<close>

definition wsum :: "int list \<Rightarrow> int" where "wsum xs = fold (\<lambda>x a. wrap64 (a + x)) xs 0"

record appTelemetry =
  at_id :: uuid
  at_slug :: string
  at_pods :: int
  at_cpu :: int
  at_memory :: int
  at_requests :: rat
  at_errors :: rat
  at_latency :: int

definition avg_latency :: "ServiceTraffic list \<Rightarrow> int" where
  "avg_latency ts =
     (let s = sum_list (map st_duration ts); c = sum_list (map st_count ts)
      in if c > 0 then to_int64 (s / c * 1000) else 0)"

definition app_row :: "TelemetrySnapshot \<Rightarrow> projectWithTenant \<Rightarrow> appTelemetry" where
  "app_row snap p =
     (let pods = project_pods snap (pt_login p) (pt_slug p); ts = map snd (project_services snap (pt_slug p))
      in \<lparr> at_id = pt_id p, at_slug = pt_slug p, at_pods = int (length pods), at_cpu = wsum (map pm_cpu pods),
           at_memory = wsum (map pm_memory pods), at_requests = sum_list (map st_requests ts),
           at_errors = sum_list (map st_errors ts), at_latency = avg_latency ts \<rparr>)"

record globalTelemetry =
  gt_degraded :: string
  gt_cpu :: int
  gt_memory :: int
  gt_pods :: int
  gt_requests :: rat
  gt_apps :: "appTelemetry list"

text \<open>Most requests first, then most CPU; the order of ties, which \<open>sort.Slice\<close> leaves open, is the order of the listing.\<close>
definition by_activity :: "appTelemetry list \<Rightarrow> appTelemetry list" where
  "by_activity apps = sort_key (\<lambda>a. - at_requests a) (sort_key (\<lambda>a. - at_cpu a) apps)"

definition handleGlobalTelemetry :: "sessionUser option \<Rightarrow> db \<Rightarrow> TelemetrySnapshot \<Rightarrow> globalTelemetry option" where
  "handleGlobalTelemetry u s snap =
     (case u of
        None \<Rightarrow> None
      | Some v \<Rightarrow>
          (let apps = map (app_row snap) (ListProjectsWithTenant s (scope_of v))
           in Some \<lparr> gt_degraded = ts_err snap, gt_cpu = wsum (map at_cpu apps), gt_memory = wsum (map at_memory apps),
                     gt_pods = wsum (map at_pods apps), gt_requests = sum_list (map at_requests apps), gt_apps = by_activity apps \<rparr>))"

text \<open>Requests and pods of all projects of a user.\<close>
definition telemetryRollupForUser :: "db \<Rightarrow> uuid \<Rightarrow> TelemetrySnapshot \<Rightarrow> rat \<times> int" where
  "telemetryRollupForUser s uid snap =
     (let rows = ListProjectsWithTenant s uid
      in (sum_list (map (\<lambda>p. sum_list (map (st_requests \<circ> snd) (project_services snap (pt_slug p)))) rows),
          sum_list (map (\<lambda>p. int (length (project_pods snap (pt_login p) (pt_slug p)))) rows)))"

record projectTelemetry =
  pj_degraded :: string
  pj_id :: uuid
  pj_slug :: string
  pj_pods :: "PodMetric list"
  pj_cpu :: int
  pj_memory :: int
  pj_requests :: rat
  pj_errors :: rat
  pj_latency :: int
  pj_classes :: "(string \<times> rat) list"

definition handleProjectTelemetry :: "user_req \<Rightarrow> db \<Rightarrow> TelemetrySnapshot \<Rightarrow> (nat, projectTelemetry) result" where
  "handleProjectTelemetry r s snap =
     (case authoriseProject r s of
        Inl st \<Rightarrow> Inl st
      | Inr proj \<Rightarrow>
          (let pods = project_pods snap (pi_login proj) (pi_slug proj); ts = map snd (project_services snap (pi_slug proj))
           in Inr \<lparr> pj_degraded = ts_err snap, pj_id = pi_id proj, pj_slug = pi_slug proj, pj_pods = pods,
                    pj_cpu = wsum (map pm_cpu pods), pj_memory = wsum (map pm_memory pods),
                    pj_requests = sum_list (map st_requests ts), pj_errors = sum_list (map st_errors ts), pj_latency = avg_latency ts,
                    pj_classes = fold (\<lambda>t. fold (\<lambda>(c, v). bump c v) (st_classes t)) ts [] \<rparr>))"

text \<open>Id, slug, interval, points.\<close>
definition handleProjectSeries :: "user_req \<Rightarrow> db \<Rightarrow> seriesStore \<Rightarrow> (nat, uuid \<times> string \<times> int \<times> seriesPoint list) result" where
  "handleProjectSeries r s store =
     (case authoriseProject r s of
        Inl st \<Rightarrow> Inl st
      | Inr proj \<Rightarrow> Inr (pi_id proj, pi_slug proj, quot seriesInterval second,
                         pointsForServices (matcherForProject (pi_slug proj)) store))"

text \<open>Id, slug, and the window: key, interval, points.\<close>
definition handleProjectMetrics ::
  "user_req \<Rightarrow> string \<Rightarrow> db \<Rightarrow> projectSeries \<Rightarrow> (nat, uuid \<times> string \<times> string \<times> int \<times> projectMetric list) result" where
  "handleProjectMetrics r rng s store =
     (case authoriseProject r s of
        Inl st \<Rightarrow> Inl st
      | Inr proj \<Rightarrow> Inr (pi_id proj, pi_slug proj, project_window rng (pi_slug proj) store))"

section \<open>Windows\<close>

lemma specs: "rangeSpecs k = Some (l, n) \<Longrightarrow> n \<in> {10, 30, 120, 144, 1008}"
  by (auto simp: rangeSpecs_def split: if_splits)

text \<open>The window is the newest end of one of the two rings, never more than 1008 points, and 30 or 600 seconds apart as announced.\<close>
theorem window_is_tail:
  "\<exists>n. (project_window k slug store = (if rangeSpecs k = None then ''1h'' else k, 30, keep_last n (projectPoints slug store))
      \<or> project_window k slug store = (if rangeSpecs k = None then ''1h'' else k, 600, keep_last n (projectPointsLong slug store)))
    \<and> n \<le> 1008"
proof -
  have iv: "seriesInterval div second = 30" "longBucketSeconds = 600"
    by (simp_all add: seriesInterval_def second_def longBucketSeconds_def quot_def longBucketTicks_def)
  have cut: "(if n < length pts then drop (length pts - n) pts else pts) = keep_last n pts" for n and pts :: "projectMetric list"
    by (simp add: keep_last_def)
  show ?thesis
  proof (cases "rangeSpecs k")
    case None
    then show ?thesis using iv cut by (intro exI[of _ 120]) (simp add: project_window_def)
  next
    case (Some ln)
    obtain l n where ln: "ln = (l, n)" by (cases ln)
    then have "n \<le> 1008" using specs[of k l n] Some by auto
    then show ?thesis using Some ln iv cut by (intro exI[of _ n]) (cases l; simp add: project_window_def)
  qed
qed

section \<open>What a project sees\<close>

lemma contains_trans: "contains b a \<Longrightarrow> contains n b \<Longrightarrow> contains n a"
  by (auto simp: contains_def dest: sublist_order.order_trans)

lemma filter_sum_mono:
  fixes g :: "'a \<Rightarrow> rat"
  assumes "\<And>x. P x \<Longrightarrow> Q x" "\<And>x. x \<in> set xs \<Longrightarrow> 0 \<le> g x"
  shows "sum_list (map g (filter P xs)) \<le> sum_list (map g (filter Q xs))"
  using assms(2) by (induction xs) (auto simp: assms(1) add_increasing)

text \<open>Traffic leaks between tenants: when the slug of a project occurs inside the slug of another project, whoever owns it, the requests
  shown to the first project's owner include all the requests of the other project.\<close>
theorem traffic_leaks_by_slug:
  assumes "handleProjectTelemetry r1 s snap = Inr t1" "handleProjectTelemetry r2 s snap = Inr t2"
    and "contains (pj_slug t2) (pj_slug t1)" "list_all (\<lambda>(_, t). 0 \<le> st_requests t) (ts_services snap)"
  shows "pj_requests t2 \<le> pj_requests t1"
proof -
  have req: "pj_requests t = sum_list (map (st_requests \<circ> snd) (project_services snap (pj_slug t)))"
    if "handleProjectTelemetry r s snap = Inr t" for r t
    using that by (auto simp: handleProjectTelemetry_def Let_def split: sum.splits)
  show ?thesis
    unfolding req[OF assms(1)] req[OF assms(2)] project_services_def
    by (rule filter_sum_mono) (use contains_trans[OF assms(3)] assms(4) in \<open>auto simp: list_all_iff\<close>)
qed

definition two_tenants :: db where
  "two_tenants = site_db\<lparr> projects := [demo_project\<lparr> p_id := pid1 \<rparr>,
     demo_project\<lparr> p_id := did1, p_repo := 12, p_slug := ''my-octo-app'', p_full_name := ''my/octo-app'', p_owner := Some ''u2'' \<rparr>] \<rparr>"

definition leak_snap :: TelemetrySnapshot where
  "leak_snap = \<lparr> ts_as_of = 0, ts_pods = [], ts_services = [(''my-octo-app-0123456-svc'', new_traffic\<lparr> st_requests := 7 \<rparr>)], ts_err = '''' \<rparr>"

text \<open>The only traffic there is goes to the second user's project; the first user is shown it as theirs.\<close>
theorem traffic_leaks_by_slug_witness:
  "\<exists>t. handleProjectTelemetry ((api_req pid1 '''' None)\<lparr> ur_user := Some user1 \<rparr>) two_tenants leak_snap = Inr t \<and> 7 \<le> pj_requests t"
proof -
  let ?r1 = "(api_req pid1 '''' None)\<lparr> ur_user := Some user1 \<rparr>"
  let ?r2 = "(api_req did1 '''' None)\<lparr> ur_user := Some (user1\<lparr> su_id := ''u2'' \<rparr>) \<rparr>"
  have ne: "pid1 \<noteq> did1" by code_simp
  have "authoriseProject ?r1 two_tenants = Inr \<lparr> pi_id = pid1, pi_slug = ''octo-app'', pi_login = ''Octo'', pi_owner = ''u1'' \<rparr>"
    "authoriseProject ?r2 two_tenants = Inr \<lparr> pi_id = did1, pi_slug = ''my-octo-app'', pi_login = ''Octo'', pi_owner = ''u2'' \<rparr>"
    using ne by (simp_all add: authoriseProject_def api_req_def user1_def scope_of_def GetProjectForOwner_def owned_project_def two_tenants_def
        lookup_project_def owner_matches_def install_login_def lookup_inst_def site_db_def demo_defs coalesce_def)
  then obtain t1 t2 where t: "handleProjectTelemetry ?r1 two_tenants leak_snap = Inr t1" "pj_slug t1 = ''octo-app''"
    "handleProjectTelemetry ?r2 two_tenants leak_snap = Inr t2" "pj_slug t2 = ''my-octo-app''"
    "pj_requests t2 = sum_list (map (st_requests \<circ> snd) (project_services leak_snap ''my-octo-app''))"
    by (auto simp: handleProjectTelemetry_def Let_def)
  have "contains ''my-octo-app-0123456-svc'' ''my-octo-app''" by code_simp
  then have "pj_requests t2 = 7" using t(5) by (simp add: project_services_def leak_snap_def)
  moreover have "contains ''my-octo-app'' ''octo-app''" by code_simp
  ultimately show ?thesis
    using traffic_leaks_by_slug[OF t(1,3)] t by (auto simp: leak_snap_def)
qed

text \<open>Pods are looked up under the login as GitHub spells it, while the namespace has it in lower case: the pods of a tenant whose login has an
  upper-case letter are never counted, since no Kubernetes namespace has such a name.\<close>
theorem upper_case_login_has_no_pods:
  assumes "authoriseProject r s = Inr p" "list_ex is_upper (pi_login p)" "list_all (\<lambda>(ns, _). \<not> list_ex is_upper ns) (ts_pods snap)"
  shows "\<exists>t. handleProjectTelemetry r s snap = Inr t \<and> pj_pods t = []"
proof -
  have "(''paas-tenant-'' @ pi_login p, ps) \<notin> set (ts_pods snap)" for ps
    using assms(2,3) by (auto simp: list_all_iff list_ex_iff dest!: bspec)
  then have "map_of (ts_pods snap) (''paas-tenant-'' @ pi_login p) = None"
    using map_of_SomeD by (metis not_None_eq)
  then show ?thesis using assms(1) by (simp add: handleProjectTelemetry_def project_pods_def coalesce_def Let_def)
qed

definition octo_snap :: TelemetrySnapshot where
  "octo_snap = \<lparr> ts_as_of = 0, ts_pods = [(tenantNamespaceFor ''Octo'', [\<lparr> pm_namespace = ''paas-tenant-octo'',
     pm_name = ''octo-app-0123456-x'', pm_cpu = 5, pm_memory = 9 \<rparr>])], ts_services = [], ts_err = '''' \<rparr>"

text \<open>The pod runs in the tenant's namespace, and the owner is told that there is none.\<close>
theorem upper_case_login_has_no_pods_witness:
  "\<exists>t. handleProjectTelemetry ((api_req pid1 '''' None)\<lparr> ur_user := Some user1 \<rparr>) site_db octo_snap = Inr t \<and> pj_pods t = []"
proof (rule upper_case_login_has_no_pods)
  show "authoriseProject ((api_req pid1 '''' None)\<lparr> ur_user := Some user1 \<rparr>) site_db
      = Inr \<lparr> pi_id = pid1, pi_slug = ''octo-app'', pi_login = ''Octo'', pi_owner = ''u1'' \<rparr>"
    by (simp add: authoriseProject_def api_req_def user1_def scope_of_def GetProjectForOwner_def owned_project_def
        lookup_project_def owner_matches_def install_login_def lookup_inst_def site_db_def demo_defs coalesce_def)
  have "tenantNamespaceFor ''Octo'' = ''paas-tenant-octo''" by code_simp
  then show "list_all (\<lambda>(ns, _). \<not> list_ex is_upper ns) (ts_pods octo_snap)" by (simp add: octo_snap_def is_upper_def)
qed (simp add: is_upper_def)

end
