(* ===== verification/Go_Regexp.thy ===== *)
theory Go_Regexp
  imports Go_Strings
begin

text \<open>
  The part of Go's \<open>regexp\<close> package that the SEO checks use: literals that ignore case, character classes, greedy and lazy
  repetition of a class, alternatives, one kind of group, word boundaries.  Matching is leftmost-first: the matcher returns every way a
  pattern can match at a position in the order in which the engine prefers them, and a search takes the first at the first
  position that has one.  A position is the text before it, reversed, and the text after it.
\<close>

section \<open>Patterns\<close>

datatype rx =
    Eps
  | One "char \<Rightarrow> bool"
  | Many bool "char \<Rightarrow> bool"
  | Seq rx rx
  | Alt rx rx
  | Grp rx
  | Bound

type_synonym pos = "string \<times> string"

definition word_char :: "char \<Rightarrow> bool" where
  "word_char c \<longleftrightarrow> is_lower c \<or> is_upper c \<or> is_digit c \<or> c = CHR ''_''"

definition at_boundary :: "pos \<Rightarrow> bool" where
  "at_boundary x \<longleftrightarrow> (fst x \<noteq> [] \<and> word_char (hd (fst x))) \<noteq> (snd x \<noteq> [] \<and> word_char (hd (snd x)))"

text \<open>The positions a repetition of a class can reach, the longest first when it is greedy.\<close>
fun runs :: "bool \<Rightarrow> (char \<Rightarrow> bool) \<Rightarrow> string \<Rightarrow> string \<Rightarrow> pos list" where
  "runs g C p [] = [(p, [])]"
| "runs g C p (c # cs) =
     (if C c then (if g then runs g C (c # p) cs @ [(p, c # cs)] else (p, c # cs) # runs g C (c # p) cs)
      else [(p, c # cs)])"

definition consumed :: "pos \<Rightarrow> pos \<Rightarrow> string" where
  "consumed x y = take (length (snd x) - length (snd y)) (snd x)"

fun matches :: "rx \<Rightarrow> pos \<Rightarrow> (pos \<times> string list) list" where
  "matches Eps x = [(x, [])]"
| "matches (One C) x = (case snd x of [] \<Rightarrow> [] | c # cs \<Rightarrow> if C c then [((c # fst x, cs), [])] else [])"
| "matches (Many g C) x = map (\<lambda>y. (y, [])) (runs g C (fst x) (snd x))"
| "matches (Seq a b) x = concat (map (\<lambda>(y, u). map (\<lambda>(z, v). (z, u @ v)) (matches b y)) (matches a x))"
| "matches (Alt a b) x = matches a x @ matches b x"
| "matches (Grp a) x = map (\<lambda>(y, u). (y, consumed x y # u)) (matches a x)"
| "matches Bound x = (if at_boundary x then [(x, [])] else [])"

text \<open>Patterns are written with these.\<close>
definition any_case :: "char \<Rightarrow> rx" where "any_case c = One (\<lambda>x. lower_char x = lower_char c)"
definition lit :: "string \<Rightarrow> rx" where "lit s = foldr (\<lambda>c. Seq (any_case c)) s Eps"
definition one_not :: "char \<Rightarrow> char \<Rightarrow> bool" where "one_not c x \<longleftrightarrow> x \<noteq> c"
definition star :: "(char \<Rightarrow> bool) \<Rightarrow> rx" where "star C = Many True C"
definition plus1 :: "(char \<Rightarrow> bool) \<Rightarrow> rx" where "plus1 C = Seq (One C) (Many True C)"
definition lazy_star :: "(char \<Rightarrow> bool) \<Rightarrow> rx" where "lazy_star C = Many False C"
definition opt :: "rx \<Rightarrow> rx" where "opt a = Alt a Eps"
definition rx_space :: "char \<Rightarrow> bool" where "rx_space c \<longleftrightarrow> c \<in> {CHR 0x09, CHR 0x0A, CHR 0x0C, CHR 0x0D, CHR 0x20}"
definition quote_char :: "char \<Rightarrow> bool" where "quote_char c \<longleftrightarrow> c = CHR 0x22 \<or> c = CHR 0x27"
definition rx_seq :: "rx list \<Rightarrow> rx" where "rx_seq as = foldr Seq as Eps"

section \<open>Searching\<close>

record rx_match =
  rm_pre :: string
  rm_text :: string
  rm_post :: string
  rm_groups :: "string list"

text \<open>The search from a position: where it starts, where it ends, the groups.\<close>
fun find_from :: "rx \<Rightarrow> string \<Rightarrow> string \<Rightarrow> (pos \<times> pos \<times> string list) option" where
  "find_from a p r =
     (case matches a (p, r) of
        (y, gs) # _ \<Rightarrow> Some ((p, r), y, gs)
      | [] \<Rightarrow> (case r of [] \<Rightarrow> None | c # cs \<Rightarrow> find_from a (c # p) cs))"

declare find_from.simps [simp del]

text \<open>\<open>FindStringSubmatchIndex\<close> on the whole string.\<close>
definition find_rx :: "rx \<Rightarrow> string \<Rightarrow> rx_match option" where
  "find_rx a s = map_option (\<lambda>(x, y, gs). \<lparr> rm_pre = rev (fst x), rm_text = consumed x y, rm_post = snd y, rm_groups = gs \<rparr>)
     (find_from a [] s)"

definition match_string :: "rx \<Rightarrow> string \<Rightarrow> bool" where "match_string a s \<longleftrightarrow> find_from a [] s \<noteq> None"

text \<open>The first group of the first match.\<close>
definition group1 :: "rx \<Rightarrow> string \<Rightarrow> string option" where
  "group1 a s = map_option (\<lambda>m. hd (rm_groups m @ [''''])) (find_rx a s)"

text \<open>\<open>FindAllStringSubmatch\<close> for a pattern that does not match the empty string.\<close>
function find_all_from :: "rx \<Rightarrow> string \<Rightarrow> string \<Rightarrow> (string \<times> string list) list" where
  "find_all_from a p r =
     (case find_from a p r of
        None \<Rightarrow> []
      | Some (x, y, gs) \<Rightarrow>
          (consumed x y, gs) # (if length (snd y) < length r then find_all_from a (fst y) (snd y) else []))"
  by pat_completeness auto
termination by (relation "measure (\<lambda>(_, _, r). length r)") auto

declare find_all_from.simps [simp del]

definition find_all :: "rx \<Rightarrow> string \<Rightarrow> (string \<times> string list) list" where "find_all a s = find_all_from a [] s"

text \<open>\<open>ReplaceAllString\<close> with a replacement without \<open>$\<close>.\<close>
function replace_from :: "rx \<Rightarrow> string \<Rightarrow> string \<Rightarrow> string \<Rightarrow> string" where
  "replace_from a new p r =
     (case find_from a p r of
        None \<Rightarrow> r
      | Some (x, y, gs) \<Rightarrow>
          take (length r - length (snd x)) r @ new
            @ (if length (snd y) < length r then replace_from a new (fst y) (snd y) else snd y))"
  by pat_completeness auto
termination by (relation "measure (\<lambda>(_, _, _, r). length r)") auto

declare replace_from.simps [simp del]

definition replace_rx :: "rx \<Rightarrow> string \<Rightarrow> string \<Rightarrow> string" where "replace_rx a new s = replace_from a new [] s"

section \<open>What a match is\<close>

text \<open>\<open>mat a p u r gs\<close>: the pattern matches \<open>u\<close> between \<open>p\<close> (reversed) and \<open>r\<close>, with the groups \<open>gs\<close>.\<close>
inductive mat :: "rx \<Rightarrow> string \<Rightarrow> string \<Rightarrow> string \<Rightarrow> string list \<Rightarrow> bool" where
  mat_Eps: "mat Eps p [] r []"
| mat_One: "C c \<Longrightarrow> mat (One C) p [c] r []"
| mat_Many: "list_all C u \<Longrightarrow> mat (Many g C) p u r []"
| mat_Seq: "mat a p u (v @ r) gs \<Longrightarrow> mat b (rev u @ p) v r hs \<Longrightarrow> mat (Seq a b) p (u @ v) r (gs @ hs)"
| mat_Alt1: "mat a p u r gs \<Longrightarrow> mat (Alt a b) p u r gs"
| mat_Alt2: "mat b p u r gs \<Longrightarrow> mat (Alt a b) p u r gs"
| mat_Grp: "mat a p u r gs \<Longrightarrow> mat (Grp a) p u r (u # gs)"
| mat_Bound: "at_boundary (p, r) \<Longrightarrow> mat Bound p [] r []"

inductive_simps mat_simps [simp]:
  "mat Eps p u r gs" "mat (One C) p u r gs" "mat (Many g C) p u r gs" "mat (Alt a b) p u r gs" "mat (Grp a) p u r gs" "mat Bound p u r gs"

inductive_cases mat_SeqE: "mat (Seq a b) p u r gs"

lemma runs_iff: "y \<in> set (runs g C p r) \<longleftrightarrow> (\<exists>u. r = u @ snd y \<and> fst y = rev u @ p \<and> list_all C u)"
proof (induction r arbitrary: p)
  case (Cons c cs)
  have "(\<exists>u. c # cs = u @ snd y \<and> fst y = rev u @ p \<and> list_all C u)
      \<longleftrightarrow> y = (p, c # cs) \<or> (C c \<and> (\<exists>u. cs = u @ snd y \<and> fst y = rev u @ c # p \<and> list_all C u))"
    by (cases y) (auto simp: Cons_eq_append_conv)
  then show ?case using Cons.IH[of "c # p"] by auto
qed (cases y, auto)

text \<open>The executable matcher finds exactly the matches of the relation.\<close>
lemma matches_sound:
  "(y, gs) \<in> set (matches a x) \<Longrightarrow> \<exists>u. snd x = u @ snd y \<and> fst y = rev u @ fst x \<and> mat a (fst x) u (snd y) gs"
proof (induction a arbitrary: x y gs)
  case (Many g C)
  then have "y \<in> set (runs g C (fst x) (snd x))" "gs = []" by auto
  then obtain u where "snd x = u @ snd y" "fst y = rev u @ fst x" "list_all C u" "gs = []" unfolding runs_iff by blast
  then show ?case by (intro exI[of _ u] conjI) auto
next
  case (Seq a b)
  from Seq.prems obtain z g1 g2 where z: "(z, g1) \<in> set (matches a x)" "(y, g2) \<in> set (matches b z)" "gs = g1 @ g2" by auto
  from Seq.IH(1)[OF z(1)] Seq.IH(2)[OF z(2)] z(3) show ?case
    by (metis append.assoc mat_Seq rev_append)
next
  case (Alt a b)
  from Alt.prems have "(y, gs) \<in> set (matches a x) \<or> (y, gs) \<in> set (matches b x)" by auto
  then show ?case using Alt.IH[of y gs x] by (metis mat_Alt1 mat_Alt2)
next
  case (Grp a)
  from Grp.prems obtain gs' where g: "(y, gs') \<in> set (matches a x)" "gs = consumed x y # gs'" by auto
  from Grp.IH[OF g(1)] obtain u where u: "snd x = u @ snd y" "fst y = rev u @ fst x" "mat a (fst x) u (snd y) gs'" by blast
  then have "consumed x y = u" by (simp add: consumed_def)
  then show ?case using u g(2) by (intro exI[of _ u]) auto
qed (auto split: list.splits if_splits)

lemma matches_complete: "mat a p u r gs \<Longrightarrow> ((rev u @ p, r), gs) \<in> set (matches a (p, u @ r))"
proof (induction rule: mat.induct)
  case (mat_Many C u g p r)
  then have "(rev u @ p, r) \<in> set (runs g C p (u @ r))" by (auto simp: runs_iff)
  then show ?case by (simp add: image_iff)
next
  case (mat_Seq a p u v r gs b hs)
  then show ?case by (force simp: image_iff)
next
  case (mat_Grp a p u r gs)
  then show ?case by (force simp: image_iff consumed_def)
qed (force simp: image_iff)+

lemma matches_iff: "matches a (p, r) \<noteq> [] \<longleftrightarrow> (\<exists>u r' gs. r = u @ r' \<and> mat a p u r' gs)"
proof
  assume "matches a (p, r) \<noteq> []"
  then obtain y gs where "(y, gs) \<in> set (matches a (p, r))" by (cases "matches a (p, r)") auto
  from matches_sound[OF this] show "\<exists>u r' gs. r = u @ r' \<and> mat a p u r' gs" by auto
next
  assume "\<exists>u r' gs. r = u @ r' \<and> mat a p u r' gs"
  then obtain u r' gs where "r = u @ r'" "mat a p u r' gs" by blast
  with matches_complete[OF this(2)] show "matches a (p, r) \<noteq> []" by auto
qed

lemma find_from_split:
  "find_from a p r = Some (x, y, gs) \<Longrightarrow> \<exists>q u. r = q @ u @ snd y \<and> x = (rev q @ p, u @ snd y) \<and> fst y = rev u @ rev q @ p
     \<and> mat a (rev q @ p) u (snd y) gs \<and> consumed x y = u"
proof (induction r arbitrary: p)
  case Nil
  then obtain tl where "matches a (p, []) = (y, gs) # tl" "x = (p, [])"
    by (subst (asm) find_from.simps) (auto split: list.splits)
  then show ?case using matches_sound[of y gs a x] by (auto simp: consumed_def)
next
  case (Cons c cs)
  show ?case
  proof (cases "matches a (p, c # cs)")
    case Nil
    then have "find_from a (c # p) cs = Some (x, y, gs)" using Cons.prems by (subst (asm) find_from.simps) simp
    from Cons.IH[OF this] obtain q u where "cs = q @ u @ snd y" "x = (rev q @ c # p, u @ snd y)" "fst y = rev u @ rev q @ c # p"
      "mat a (rev q @ c # p) u (snd y) gs" "consumed x y = u" by blast
    then show ?thesis by (intro exI[of _ "c # q"] exI[of _ u]) simp
  next
    case (Cons m ms)
    then have "m = (y, gs)" "x = (p, c # cs)" using Cons.prems by (subst (asm) find_from.simps, cases m, auto)+
    then have "(y, gs) \<in> set (matches a x)" using Cons by simp
    from matches_sound[OF this] obtain u where "snd x = u @ snd y" "fst y = rev u @ fst x" "mat a (fst x) u (snd y) gs" by blast
    then show ?thesis using \<open>x = _\<close> by (intro exI[of _ "[]"] exI[of _ u]) (auto simp: consumed_def)
  qed
qed

lemma find_rx_split:
  "find_rx a s = Some m \<Longrightarrow> s = rm_pre m @ rm_text m @ rm_post m \<and> mat a (rev (rm_pre m)) (rm_text m) (rm_post m) (rm_groups m)"
  using find_from_split[of a "[]" s] by (fastforce simp: find_rx_def)

lemma find_from_None: "find_from a p r = None \<longleftrightarrow> (\<nexists>q u r' gs. r = q @ u @ r' \<and> mat a (rev q @ p) u r' gs)"
proof (induction r arbitrary: p)
  case Nil
  have "find_from a p [] = None \<longleftrightarrow> matches a (p, []) = []"
    by (subst find_from.simps) (simp split: list.splits prod.splits)
  also have "\<dots> \<longleftrightarrow> (\<nexists>gs. mat a p [] [] gs)" using matches_iff[of a p "[]"] by auto
  finally show ?case by simp
next
  case (Cons c cs)
  let ?at = "\<lambda>p s. \<exists>u r' gs. s = u @ r' \<and> mat a p u r' gs"
  have split: "(\<exists>q r. c # cs = q @ r \<and> ?at (rev q @ p) r) \<longleftrightarrow> ?at p (c # cs) \<or> (\<exists>q r. cs = q @ r \<and> ?at (rev q @ c # p) r)"
  proof
    assume "\<exists>q r. c # cs = q @ r \<and> ?at (rev q @ p) r"
    then obtain q r where "c # cs = q @ r" "?at (rev q @ p) r" by blast
    then show "?at p (c # cs) \<or> (\<exists>q r. cs = q @ r \<and> ?at (rev q @ c # p) r)" by (cases q) auto
  next
    assume "?at p (c # cs) \<or> (\<exists>q r. cs = q @ r \<and> ?at (rev q @ c # p) r)"
    then show "\<exists>q r. c # cs = q @ r \<and> ?at (rev q @ p) r"
    proof
      assume "?at p (c # cs)"
      then show ?thesis by (intro exI[of _ "[]"] exI[of _ "c # cs"]) simp
    next
      assume "\<exists>q r. cs = q @ r \<and> ?at (rev q @ c # p) r"
      then obtain q r where "cs = q @ r" "?at (rev q @ c # p) r" by blast
      then show ?thesis by (intro exI[of _ "c # q"] exI[of _ r]) simp
    qed
  qed
  have "find_from a p (c # cs) = None \<longleftrightarrow> matches a (p, c # cs) = [] \<and> find_from a (c # p) cs = None"
    by (subst find_from.simps) (simp split: list.splits prod.splits)
  also have "\<dots> \<longleftrightarrow> \<not> (?at p (c # cs) \<or> (\<exists>q r. cs = q @ r \<and> ?at (rev q @ c # p) r))"
    unfolding Cons.IH[of "c # p"] using matches_iff[of a p "c # cs"] by metis
  also have "\<dots> \<longleftrightarrow> (\<nexists>q u r' gs. c # cs = q @ u @ r' \<and> mat a (rev q @ p) u r' gs)" unfolding split[symmetric] by blast
  finally show ?case .
qed

lemma match_string_iff: "match_string a s \<longleftrightarrow> (\<exists>q u r gs. s = q @ u @ r \<and> mat a (rev q) u r gs)"
  using find_from_None[of a "[]" s] by (auto simp: match_string_def)

lemma find_rx_None: "find_rx a s = None \<longleftrightarrow> \<not> match_string a s"
  by (simp only: find_rx_def match_string_def map_option_is_None not_not)

section \<open>Sequences and literals\<close>

lemma mat_rx_seq_Nil [simp]: "mat (rx_seq []) p u r gs \<longleftrightarrow> u = [] \<and> gs = []"
  by (auto simp: rx_seq_def)

lemma rx_seq_Cons: "rx_seq (a # as) = Seq a (rx_seq as)"
  by (simp add: rx_seq_def)

lemma mat_rx_seqE:
  assumes "mat (rx_seq (a # as)) p u r gs"
  obtains v w g h where "u = v @ w" "gs = g @ h" "mat a p v (w @ r) g" "mat (rx_seq as) (rev v @ p) w r h"
  using assms unfolding rx_seq_Cons by (rule mat_SeqE) blast

lemma mat_rx_seqI: "mat a p v (w @ r) g \<Longrightarrow> mat (rx_seq as) (rev v @ p) w r h \<Longrightarrow> mat (rx_seq (a # as)) p (v @ w) r (g @ h)"
  unfolding rx_seq_Cons by (rule mat_Seq)

lemma mat_lit [simp]: "mat (lit s) p u r gs \<longleftrightarrow> map lower_char u = map lower_char s \<and> gs = []"
proof (induction s arbitrary: p u gs)
  case (Cons c s)
  show ?case
  proof
    assume "mat (lit (c # s)) p u r gs"
    then have "mat (Seq (any_case c) (lit s)) p u r gs" by (simp add: lit_def)
    then show "map lower_char u = map lower_char (c # s) \<and> gs = []"
      by (rule mat_SeqE) (use Cons.IH in \<open>auto simp: any_case_def\<close>)
  next
    assume "map lower_char u = map lower_char (c # s) \<and> gs = []"
    then obtain x v where u: "u = [x] @ v" "lower_char x = lower_char c" "map lower_char v = map lower_char s" "gs = [] @ []"
      by (cases u) auto
    have "mat (any_case c) p [x] (v @ r) []" using u(2) by (simp add: any_case_def)
    moreover have "mat (lit s) (rev [x] @ p) v r []" using Cons.IH u(3) by simp
    ultimately have "mat (Seq (any_case c) (lit s)) p ([x] @ v) r ([] @ [])" by (rule mat_Seq)
    then show "mat (lit (c # s)) p u r gs" using u(1,4) by (simp add: lit_def)
  qed
qed (auto simp: lit_def)

lemma mat_star [simp]: "mat (star C) p u r gs \<longleftrightarrow> list_all C u \<and> gs = []"
  by (auto simp: star_def)

lemma mat_lazy_star [simp]: "mat (lazy_star C) p u r gs \<longleftrightarrow> list_all C u \<and> gs = []"
  by (auto simp: lazy_star_def)

end
