(* ===== verification/Go_Float.thy ===== *)
theory Go_Float
  imports Complex_Main "HOL-Library.Log_Nat"
begin

text \<open>
  Rounding of \<open>float64\<close> where a quotient is truncated to a whole number: to nearest, ties to even, with a significand of 53 bits.
  Overflow and subnormal numbers are left out; the scores of the program are far from both.
\<close>

definition round_even :: "rat \<Rightarrow> int" where
  "round_even q =
     (let f = \<lfloor>q\<rfloor>; d = q - of_int f
      in if 2 * d < 1 then f else if 2 * d > 1 then f + 1 else if even f then f else f + 1)"

definition pow2 :: "int \<Rightarrow> rat" where "pow2 e = (if 0 \<le> e then 2 ^ nat e else 1 / 2 ^ nat (- e))"

text \<open>The exponent of the last bit of the significand of a positive number.\<close>
definition float_exp :: "rat \<Rightarrow> int" where
  "float_exp q =
     (let (a, b) = quotient_of q; d = int (floorlog 2 (nat a)) - int (floorlog 2 (nat b))
      in if q \<ge> pow2 d then d - 52 else d - 53)"

definition fl :: "rat \<Rightarrow> rat" where
  "fl q =
     (if q = 0 then 0
      else (let e = float_exp \<bar>q\<bar> in sgn q * of_int (round_even (\<bar>q\<bar> / pow2 e)) * pow2 e))"

section \<open>Rounding to a whole number\<close>

lemma round_even_int [simp]: "round_even (of_int n) = n"
  by (simp add: round_even_def)

lemma round_even_le: "q \<le> of_int n \<Longrightarrow> round_even q \<le> n"
proof -
  assume le: "q \<le> of_int n"
  have f: "\<lfloor>q\<rfloor> \<le> n" using le by (simp add: floor_le_iff)
  show ?thesis
  proof (cases "\<lfloor>q\<rfloor> = n")
    case True
    then have "q = of_int n" using le of_int_floor_le[of q] by simp
    then show ?thesis by simp
  next
    case False
    then show ?thesis using f by (auto simp: round_even_def Let_def)
  qed
qed

lemma round_even_ge: "of_int n \<le> q \<Longrightarrow> n \<le> round_even q"
  by (auto simp: round_even_def Let_def le_floor_iff intro: order_trans[of n "\<lfloor>q\<rfloor>"])

section \<open>The exponent\<close>

lemma pow2_pos [simp]: "0 < pow2 e"
  by (simp add: pow2_def)

lemma pow2_nat: "pow2 (int n) = 2 ^ n"
  by (simp add: pow2_def)

lemma pow2_neg: "pow2 (- e) = 1 / pow2 e"
  by (simp add: pow2_def)

lemma pow2_add_nat: "pow2 (e + int n) = pow2 e * 2 ^ n"
proof -
  consider "0 \<le> e" | "e < 0" "0 \<le> e + int n" | "e + int n < 0" by linarith
  then show ?thesis
  proof cases
    case 1
    then show ?thesis by (simp add: pow2_def nat_add_distrib power_add)
  next
    case 2
    then have "n = nat (e + int n) + nat (- e)" by simp
    then have "(2::rat) ^ n = 2 ^ nat (e + int n) * 2 ^ nat (- e)" by (metis power_add)
    then show ?thesis using 2 by (simp add: pow2_def)
  next
    case 3
    then have "nat (- e) = nat (- (e + int n)) + n" by simp
    then have "(2::rat) ^ nat (- e) = 2 ^ nat (- (e + int n)) * 2 ^ n" by (metis power_add)
    then show ?thesis using 3 by (simp add: pow2_def)
  qed
qed

lemma pow2_mono: "e \<le> f \<Longrightarrow> pow2 e \<le> pow2 f"
proof -
  assume "e \<le> f"
  then have "pow2 f = pow2 e * 2 ^ nat (f - e)" using pow2_add_nat[of e "nat (f - e)"] by simp
  then show ?thesis using mult_left_mono[of 1 "2 ^ nat (f - e)" "pow2 e"] by simp
qed

lemma floorlog_bits: "0 < n \<Longrightarrow> 2 ^ (floorlog 2 n - 1) \<le> n \<and> n < 2 ^ floorlog 2 n"
  using floorlog_bounds[of n 2] by simp

lemma floorlog_pos: "0 < n \<Longrightarrow> 0 < floorlog 2 n"
  by (simp add: floorlog_def)

text \<open>The significand of a positive number has 53 bits.\<close>
lemma float_exp_spec:
  assumes "0 < q"
  shows "2 ^ 52 * pow2 (float_exp q) \<le> q" "q < 2 ^ 53 * pow2 (float_exp q)"
proof -
  obtain a b where ab: "quotient_of q = (a, b)" by (cases "quotient_of q")
  have b: "0 < b" using quotient_of_denom_pos[OF ab] .
  have q: "q = of_int a / of_int b" using quotient_of_div[OF ab] .
  have a: "0 < a" using assms b q by (simp add: zero_less_divide_iff)
  define n m where "n = floorlog 2 (nat a)" and "m = floorlog 2 (nat b)"
  have n: "2 ^ (n - 1) \<le> nat a" "nat a < 2 ^ n" "0 < n" using floorlog_bits[of "nat a"] floorlog_pos[of "nat a"] a by (auto simp: n_def)
  have m: "2 ^ (m - 1) \<le> nat b" "nat b < 2 ^ m" "0 < m" using floorlog_bits[of "nat b"] floorlog_pos[of "nat b"] b by (auto simp: m_def)
  have bits: "(2::rat) ^ (j - 1) \<le> of_int z" "of_int z < (2::rat) ^ j" if "2 ^ (j - 1) \<le> nat z" "nat z < 2 ^ j" "0 < z" for j z
  proof -
    have "of_nat (2 ^ (j - 1)) \<le> (of_nat (nat z) :: rat)" "(of_nat (nat z) :: rat) < of_nat (2 ^ j)"
      using that(1,2) by (simp_all only: of_nat_le_iff of_nat_less_iff)
    then show "(2::rat) ^ (j - 1) \<le> of_int z" "of_int z < (2::rat) ^ j" using that(3) by simp_all
  qed
  note qa = bits[OF n(1,2) a] bits[OF m(1,2) b]
  define d where "d = int n - int m"
  have pd: "pow2 d = 2 ^ n / 2 ^ m"
    using pow2_add_nat[of "- int m" n] pow2_neg[of "int m"] by (simp add: d_def pow2_nat)
  have n1: "(2::rat) ^ n = 2 * 2 ^ (n - 1)" using n(3) by (cases n) auto
  have m1: "(2::rat) ^ m = 2 * 2 ^ (m - 1)" using m(3) by (cases m) auto
  have "of_int a / of_int b < 2 ^ n / (2::rat) ^ (m - 1)"
    using qa(2,3) by (intro frac_less) (use a in auto)
  then have up: "q < 2 * pow2 d" unfolding q pd n1 m1 by simp
  have "2 ^ (n - 1) / (2::rat) ^ m \<le> of_int a / of_int b"
    using qa(1,4) a b by (intro frac_le) auto
  then have lo: "pow2 d / 2 \<le> q" unfolding q pd n1 by simp
  have s: "pow2 d = pow2 (d - 52) * 2 ^ 52" "pow2 d = pow2 (d - 53) * 2 ^ 53"
    using pow2_add_nat[of "d - 52" 52] pow2_add_nat[of "d - 53" 53] by simp_all
  have e: "float_exp q = (if pow2 d \<le> q then d - 52 else d - 53)"
    by (simp add: float_exp_def ab d_def n_def m_def)
  show "2 ^ 52 * pow2 (float_exp q) \<le> q" "q < 2 ^ 53 * pow2 (float_exp q)"
    unfolding e using up lo s by (auto simp: mult.commute)
qed

text \<open>A number below a power of two has a small last bit.\<close>
lemma float_exp_le: "0 < q \<Longrightarrow> q < pow2 (k + 53) \<Longrightarrow> float_exp q \<le> k"
proof (rule ccontr)
  assume q: "0 < q" "q < pow2 (k + 53)" and "\<not> float_exp q \<le> k"
  then have "pow2 (k + 1) \<le> pow2 (float_exp q)" by (intro pow2_mono) simp
  then have "2 ^ 52 * pow2 (k + 1) \<le> q" using float_exp_spec(1)[OF q(1)] by (auto intro: order_trans)
  moreover have "pow2 (k + 53) = pow2 (k + 1) * 2 ^ 52" using pow2_add_nat[of "k + 1" 52] by (simp add: add.commute)
  ultimately show False using q(2) by (simp add: mult.commute)
qed

section \<open>Rounding is bounded by representable numbers\<close>

text \<open>Multiples of \<open>2 ^ k\<close> below \<open>2 ^ (k + 53)\<close> bound the rounded value of what they bound.\<close>
lemma grid:
  assumes "float_exp q \<le> k"
  shows "\<exists>n'. of_int n * pow2 k / pow2 (float_exp q) = (of_int n' :: rat)"
proof -
  have "pow2 k = pow2 (float_exp q) * 2 ^ nat (k - float_exp q)" using pow2_add_nat[of "float_exp q" "nat (k - float_exp q)"] assms by simp
  then have "of_int n * pow2 k / pow2 (float_exp q) = of_int (n * 2 ^ nat (k - float_exp q))"
    using less_imp_neq[OF pow2_pos[of "float_exp q"]] by simp
  then show ?thesis by blast
qed

lemma fl_le:
  assumes "0 < q" "q < pow2 (k + 53)" "q \<le> of_int n * pow2 k"
  shows "fl q \<le> of_int n * pow2 k"
proof -
  let ?e = "float_exp q"
  obtain n' where n': "of_int n * pow2 k / pow2 ?e = (of_int n' :: rat)" using grid[OF float_exp_le[OF assms(1,2)]] by blast
  have "q / pow2 ?e \<le> of_int n'" using assms(3) unfolding n'[symmetric] by (intro divide_right_mono) (simp_all add: less_imp_le)
  then have "(of_int (round_even (q / pow2 ?e)) :: rat) \<le> of_int n'" using round_even_le by (simp only: of_int_le_iff)
  then have "of_int (round_even (q / pow2 ?e)) * pow2 ?e \<le> of_int n' * pow2 ?e" by (simp add: mult_right_mono)
  also have "of_int n' * pow2 ?e = of_int n * pow2 k" using less_imp_neq[OF pow2_pos[of ?e]] by (simp flip: n')
  finally show ?thesis using assms(1) by (simp add: fl_def Let_def)
qed

lemma fl_ge:
  assumes "0 < q" "q < pow2 (k + 53)" "of_int n * pow2 k \<le> q"
  shows "of_int n * pow2 k \<le> fl q"
proof -
  let ?e = "float_exp q"
  obtain n' where n': "of_int n * pow2 k / pow2 ?e = (of_int n' :: rat)" using grid[OF float_exp_le[OF assms(1,2)]] by blast
  have "of_int n' \<le> q / pow2 ?e" using assms(3) unfolding n'[symmetric] by (intro divide_right_mono) (simp_all add: less_imp_le)
  then have "(of_int n' :: rat) \<le> of_int (round_even (q / pow2 ?e))" using round_even_ge by (simp only: of_int_le_iff)
  then have "of_int n' * pow2 ?e \<le> of_int (round_even (q / pow2 ?e)) * pow2 ?e" by (simp add: mult_right_mono)
  moreover have "of_int n' * pow2 ?e = of_int n * pow2 k" using less_imp_neq[OF pow2_pos[of ?e]] by (simp flip: n')
  ultimately show ?thesis using assms(1) by (simp add: fl_def Let_def)
qed

lemma fl_exact: "0 < q \<Longrightarrow> q < pow2 (k + 53) \<Longrightarrow> q = of_int n * pow2 k \<Longrightarrow> fl q = q"
  using fl_le[of q k n] fl_ge[of q k n] by simp

lemma fl_0 [simp]: "fl 0 = 0"
  by (simp add: fl_def)

lemma fl_nonneg: "0 \<le> q \<Longrightarrow> q < pow2 (k + 53) \<Longrightarrow> 0 \<le> fl q"
  using fl_ge[of q k 0] by (cases "q = 0") auto

end
