(* ===== verification/Insights.thy ===== *)
theory Insights
  imports Go_Regexp Go_Float Api
begin

text \<open>
  The SEO report of a deployed application (\<open>insights_handler.go\<close>): the regular expressions, the checks on the fetched page, the
  weighted score and its break-down by category.  What the page and the two probed paths answer is a parameter, and so is
  the host that \<open>url.Parse\<close> finds in an absolute link.
\<close>

section \<open>Checks\<close>

datatype istatus = Pass | Warn | Fail

record insightCheck =
  ic_id :: string
  ic_category :: string
  ic_label :: string
  ic_status :: istatus
  ic_value :: string
  ic_hint :: string
  ic_weight :: int

definition a_check :: "string \<Rightarrow> string \<Rightarrow> int \<Rightarrow> istatus \<Rightarrow> string \<Rightarrow> string \<Rightarrow> insightCheck" where
  "a_check k label w st v h = \<lparr> ic_id = k, ic_category = '''', ic_label = label, ic_status = st, ic_value = v, ic_hint = h, ic_weight = w \<rparr>"

text \<open>The UTF-8 bytes of the ellipsis and the multiplication sign in the texts.\<close>
definition ellipsis :: string where "ellipsis = [CHR 0xE2, CHR 0x80, CHR 0xA6]"
definition times_sign :: string where "times_sign = [CHR 0xC3, CHR 0x97]"

definition catMeta :: string where "catMeta = ''meta''"
definition catStructure :: string where "catStructure = ''structure''"
definition catServer :: string where "catServer = ''server''"
definition catQuality :: string where "catQuality = ''quality''"
definition catLinks :: string where "catLinks = ''links''"

definition checkStatus :: "nat \<Rightarrow> insightCheck" where
  "checkStatus code =
     (let c = a_check ''status'' ''HTTP status'' 5
      in if code = 200 then c Pass (show_nat code) ''''
         else if 300 \<le> code \<and> code < 400 then c Warn (show_nat code) ''redirect chains hurt SEO and add latency''
         else c Fail (show_nat code) ''page must return 200 to be crawled'')"

definition checkContentType :: "string \<Rightarrow> insightCheck" where
  "checkContentType ct =
     (let c = a_check ''content_type'' ''Content-Type'' 2
      in if prefix ''text/html'' ct then c Pass ct '''' else c Warn ct ''expected text/html for a web page'')"

definition checkHTTPS :: "string \<Rightarrow> insightCheck" where
  "checkHTTPS target =
     (let c = a_check ''https'' ''HTTPS'' 4
      in if prefix ''https://'' target then c Pass target '''' else c Fail target ''search engines de-rank plain HTTP'')"

section \<open>The expressions\<close>

definition titleRE :: rx where
  "titleRE = rx_seq [lit ''<title'', star (one_not (CHR ''>'')), lit ''>'', Grp (lazy_star (\<lambda>_. True)), lit ''</title>'']"

definition meta_key_first :: "string \<Rightarrow> rx" where
  "meta_key_first key = rx_seq [lit ''<meta'', plus1 (one_not (CHR ''>'')), Alt (lit ''name'') (lit ''property''), star rx_space, lit ''='',
     star rx_space, One quote_char, lit key, One quote_char, star (one_not (CHR ''>'')), lit ''content'', star rx_space, lit ''='',
     star rx_space, One quote_char, Grp (star (\<lambda>c. \<not> quote_char c)), One quote_char]"

definition meta_content_first :: "string \<Rightarrow> rx" where
  "meta_content_first key = rx_seq [lit ''<meta'', plus1 (one_not (CHR ''>'')), lit ''content'', star rx_space, lit ''='', star rx_space,
     One quote_char, Grp (star (\<lambda>c. \<not> quote_char c)), One quote_char, star (one_not (CHR ''>'')), Alt (lit ''name'') (lit ''property''),
     star rx_space, lit ''='', star rx_space, One quote_char, lit key, One quote_char]"

definition metaContent :: "string \<Rightarrow> string \<Rightarrow> string" where
  "metaContent html key =
     (case group1 (meta_key_first key) html of
        Some v \<Rightarrow> trim_space v
      | None \<Rightarrow> (case group1 (meta_content_first key) html of Some v \<Rightarrow> trim_space v | None \<Rightarrow> ''''))"

definition canonicalRE :: rx where
  "canonicalRE = rx_seq [lit ''<link'', plus1 (one_not (CHR ''>'')), lit ''rel'', star rx_space, lit ''='', star rx_space, One quote_char,
     lit ''canonical'', One quote_char, star (one_not (CHR ''>'')), lit ''href'', star rx_space, lit ''='', star rx_space, One quote_char,
     Grp (plus1 (\<lambda>c. \<not> quote_char c)), One quote_char]"

definition h1RE :: rx where
  "h1RE = rx_seq [lit ''<h1'', star (one_not (CHR ''>'')), lit ''>'', Grp (lazy_star (\<lambda>_. True)), lit ''</h1>'']"

definition langRE :: rx where
  "langRE = rx_seq [lit ''<html'', plus1 (one_not (CHR ''>'')), lit ''lang'', star rx_space, lit ''='', star rx_space, One quote_char,
     Grp (plus1 (\<lambda>c. \<not> quote_char c)), One quote_char]"

definition faviconRE :: rx where
  "faviconRE = rx_seq [lit ''<link'', plus1 (one_not (CHR ''>'')), lit ''rel'', star rx_space, lit ''='', star rx_space, One quote_char,
     opt (lit ''shortcut ''), lit ''icon'', One quote_char]"

definition tagRE :: rx where "tagRE = rx_seq [lit ''<'', plus1 (one_not (CHR ''>'')), lit ''>'']"

definition scriptStyleRE :: rx where
  "scriptStyleRE = rx_seq [lit ''<'', Alt (lit ''script'') (lit ''style''), Bound, star (one_not (CHR ''>'')), lit ''>'', lazy_star (\<lambda>_. True),
     lit ''</'', Alt (lit ''script'') (lit ''style''), lit ''>'']"

definition charsetMetaRE :: rx where
  "charsetMetaRE = rx_seq [lit ''<meta'', plus1 (one_not (CHR ''>'')), lit ''charset'', star rx_space, lit ''='', star rx_space,
     opt (One quote_char), star rx_space, Grp (plus1 (\<lambda>c. word_char c \<or> c = CHR ''-''))]"

definition open_tag_rx :: "string \<Rightarrow> rx" where
  "open_tag_rx t = rx_seq [lit (CHR ''<'' # t), Bound, star (one_not (CHR ''>'')), lit ''>'']"

definition h2RE :: rx where "h2RE = open_tag_rx ''h2''"
definition h3RE :: rx where "h3RE = open_tag_rx ''h3''"
definition imgTagRE :: rx where "imgTagRE = open_tag_rx ''img''"

definition imgAltRE :: rx where
  "imgAltRE = rx_seq [Bound, lit ''alt'', star rx_space, lit ''='', star rx_space, One quote_char, star (\<lambda>c. \<not> quote_char c), One quote_char]"

definition anchorHrefRE :: rx where
  "anchorHrefRE = rx_seq [lit ''<a'', Bound, star (one_not (CHR ''>'')), Bound, lit ''href'', star rx_space, lit ''='', star rx_space,
     One quote_char, Grp (plus1 (\<lambda>c. \<not> quote_char c)), One quote_char]"

section \<open>Checks of the page\<close>

definition checkTitle :: "string \<Rightarrow> insightCheck" where
  "checkTitle html =
     (let c = a_check ''title'' ''Page title'' 5
      in case group1 titleRE html of
           None \<Rightarrow> c Fail '''' (''missing <title> '' @ em_dash @ '' the most important SEO tag'')
         | Some g \<Rightarrow>
             (let t = trim_space g
              in if t = '''' then c Fail t ''<title> is empty''
                 else if length t < 10 then c Warn t ''title is very short (<10 chars)''
                 else if length t > 60 then c Warn t (''title is over 60 chars '' @ em_dash @ '' Google may truncate'')
                 else c Pass t ''''))"

definition checkMeta :: "string \<Rightarrow> string \<Rightarrow> string \<Rightarrow> string \<Rightarrow> insightCheck" where
  "checkMeta html key label hint =
     (let c = a_check (''meta_'' @ key) label 4; v = metaContent html key
      in if v = '''' then c Fail v hint
         else if length v < 50 then c Warn v (show_nat (length v) @ '' chars '' @ em_dash @ '' aim for 50-160'')
         else if length v > 160 then c Warn v (show_nat (length v) @ '' chars '' @ em_dash @ '' over 160, may be truncated'')
         else c Pass v '''')"

definition checkViewport :: "string \<Rightarrow> insightCheck" where
  "checkViewport html =
     (let v = metaContent html ''viewport''
      in if v = '''' then a_check ''viewport'' ''Mobile viewport'' 5 Fail v ''without <meta name=viewport> Google flags the page as non-mobile-friendly''
         else a_check ''viewport'' ''Mobile viewport'' 5 Pass v '''')"

definition checkCanonical :: "string \<Rightarrow> insightCheck" where
  "checkCanonical html =
     (case group1 canonicalRE html of
        None \<Rightarrow> a_check ''canonical'' ''Canonical URL'' 2 Warn '''' (''no <link rel=canonical> '' @ em_dash @ '' helps avoid duplicate-content penalties'')
      | Some v \<Rightarrow> a_check ''canonical'' ''Canonical URL'' 2 Pass v '''')"

definition checkOG :: "string \<Rightarrow> string \<Rightarrow> string \<Rightarrow> insightCheck" where
  "checkOG html key label =
     (let v = metaContent html key
      in if v = '''' then a_check (''og_'' @ key) label 2 Warn v ''improves how the page renders when shared on social platforms''
         else a_check (''og_'' @ key) label 2 Pass v '''')"

definition stripTags :: "string \<Rightarrow> string" where "stripTags s = trim_space (replace_rx tagRE '''' s)"

definition checkH1 :: "string \<Rightarrow> insightCheck" where
  "checkH1 html =
     (let c = a_check ''h1'' ''H1 heading'' 3
      in case find_all h1RE html of
           [] \<Rightarrow> c Warn '''' (''no <h1> '' @ em_dash @ '' semantic headings help screen readers and crawlers'')
         | [m] \<Rightarrow> c Pass (stripTags (hd (snd m))) ''''
         | ms \<Rightarrow> c Warn (show_nat (length ms) @ '' found'') (''multiple <h1> tags '' @ em_dash @ '' convention is one per page''))"

definition checkLang :: "string \<Rightarrow> insightCheck" where
  "checkLang html =
     (case group1 langRE html of
        None \<Rightarrow> a_check ''lang'' ''HTML lang attribute'' 1 Warn '''' (''<html lang='' @ ellipsis @ ''> improves accessibility + translation hints'')
      | Some v \<Rightarrow> a_check ''lang'' ''HTML lang attribute'' 1 Pass v '''')"

definition checkFavicon :: "string \<Rightarrow> insightCheck" where
  "checkFavicon html =
     (if match_string faviconRE html then a_check ''favicon'' ''Favicon'' 1 Pass '''' ''''
      else a_check ''favicon'' ''Favicon'' 1 Warn '''' (''browsers + Google SERP show a favicon '' @ em_dash @ '' set <link rel=icon>''))"

definition checkPageSize :: "nat \<Rightarrow> insightCheck" where
  "checkPageSize kb =
     (let c = a_check ''page_size'' ''Page size'' 2; v = show_nat kb @ '' KB''
      in if kb = 0 then c Fail v ''empty response body''
         else if kb > 500 then c Warn v (''page is large '' @ em_dash @ '' consider code-splitting or compression'')
         else c Pass v '''')"

text \<open>What a GET of \<open>target/robots.txt\<close> or \<open>target/sitemap.xml\<close> gave: a bad URL, a failed request or a status.\<close>
datatype probed = Bad_probe string | Failed_probe string | Probed nat

definition probePath :: "(string \<Rightarrow> probed) \<Rightarrow> string \<Rightarrow> string \<Rightarrow> string \<Rightarrow> string \<Rightarrow> insightCheck" where
  "probePath probe target sfx label hint =
     (let c = a_check (trim_prefix sfx ''/'') label 1
      in case probe (trim_right (\<lambda>c. c = CHR ''/'') target @ sfx) of
           Bad_probe e \<Rightarrow> c Warn sfx (''probe error: '' @ e)
         | Failed_probe e \<Rightarrow> c Warn sfx (''probe failed: '' @ e)
         | Probed st \<Rightarrow> if st = 200 then c Pass sfx '''' else c Warn sfx (show_nat st @ '' '' @ em_dash @ '' '' @ hint))"

definition checkResponseTime :: "int \<Rightarrow> insightCheck" where
  "checkResponseTime ms =
     (let c = a_check ''response_time'' ''Response time'' 2; v = show_int ms @ '' ms''
      in if ms \<le> 0 then c Warn v ''could not measure response time''
         else if ms > 1500 then c Warn v (''slow first byte (>1.5s) '' @ em_dash @ '' page speed is a Google ranking signal'')
         else c Pass v '''')"

definition checkCharset :: "string \<Rightarrow> string \<Rightarrow> insightCheck" where
  "checkCharset html ct =
     (let c = a_check ''charset'' ''Charset'' 1
      in case group1 charsetMetaRE html of
           Some v \<Rightarrow> c Pass v ''''
         | None \<Rightarrow> if contains (to_lower ct) ''charset='' then c Pass ct ''''
                   else c Warn '''' (''declare <meta charset='' @ [CHR 0x22] @ ''utf-8'' @ [CHR 0x22] @ ''> so browsers decode text correctly''))"

definition checkHeadings :: "string \<Rightarrow> insightCheck" where
  "checkHeadings html =
     (let n2 = length (find_all h2RE html); n3 = length (find_all h3RE html); c = a_check ''headings'' ''Subheading structure'' 2
      in if n2 = 0 \<and> n3 = 0 then c Warn '''' (''no <h2>/<h3> '' @ em_dash @ '' subheadings help readers + crawlers parse the page'')
         else c Pass (show_nat n2 @ '' '' @ times_sign @ '' h2, '' @ show_nat n3 @ '' '' @ times_sign @ '' h3'') '''')"

definition checkWordCount :: "string \<Rightarrow> insightCheck" where
  "checkWordCount html =
     (let n = length (fields_func is_space (stripTags (replace_rx scriptStyleRE '' '' html)));
          c = a_check ''word_count'' ''Text content'' 2; v = show_nat n @ '' words''
      in if n < 50 then c Fail v (''very little text '' @ em_dash @ '' search engines favour substantive content'')
         else if n < 250 then c Warn v (''thin content (<250 words) '' @ em_dash @ '' add more descriptive copy'')
         else c Pass v '''')"

definition checkImagesAlt :: "string \<Rightarrow> insightCheck" where
  "checkImagesAlt html =
     (let imgs = map fst (find_all imgTagRE html); c = a_check ''img_alt'' ''Image alt text'' 2;
          with_alt = length (filter (match_string imgAltRE) imgs);
          v = show_nat with_alt @ ''/'' @ show_nat (length imgs) @ '' have alt''
      in if imgs = [] then c Pass ''no images'' ''''
         else if with_alt = length imgs then c Pass v ''''
         else if with_alt = 0 then c Fail v (''no <img> has alt text '' @ em_dash @ '' hurts accessibility + image search'')
         else c Warn v ''some images are missing alt text'')"

datatype link = No_link | Internal | External

text \<open>\<open>host\<close> is \<open>url.Parse\<close> followed by \<open>.Host\<close>; \<open>None\<close> is a parse error.\<close>
definition link_kind :: "(string \<Rightarrow> string option) \<Rightarrow> string \<Rightarrow> string \<Rightarrow> link" where
  "link_kind host site href =
     (if href = '''' \<or> prefix ''#'' href \<or> prefix ''mailto:'' href \<or> prefix ''tel:'' href \<or> prefix ''javascript:'' href then No_link
      else if prefix ''http://'' href \<or> prefix ''https://'' href then (if host href = Some site then Internal else External)
      else Internal)"

definition checkLinks :: "(string \<Rightarrow> string option) \<Rightarrow> string \<Rightarrow> string \<Rightarrow> insightCheck" where
  "checkLinks host html target =
     (let site = (case host target of Some h \<Rightarrow> h | None \<Rightarrow> '''');
          kinds = map (\<lambda>m. link_kind host site (trim_space (hd (snd m)))) (find_all anchorHrefRE html);
          i = length (filter (\<lambda>k. k = Internal) kinds); e = length (filter (\<lambda>k. k = External) kinds);
          v = show_nat i @ '' internal, '' @ show_nat e @ '' external''
      in if i + e = 0 then a_check ''links'' ''Links'' 2 Warn v (''no links found '' @ em_dash @ '' internal links help crawlers discover your pages'')
         else a_check ''links'' ''Links'' 2 Pass v '''')"

section \<open>Scores\<close>

definition earned :: "insightCheck \<Rightarrow> rat" where
  "earned c = (case ic_status c of Pass \<Rightarrow> of_int (ic_weight c) | Warn \<Rightarrow> of_int (ic_weight c) / 2 | Fail \<Rightarrow> 0)"

text \<open>\<open>int((got / total) * 100)\<close>, with the two roundings of \<open>float64\<close>; the sums are exact.\<close>
definition percent :: "rat \<Rightarrow> rat \<Rightarrow> int" where "percent got tot = \<lfloor>fl (fl (got / tot) * 100)\<rfloor>"

definition computeScore :: "insightCheck list \<Rightarrow> int" where
  "computeScore cs =
     (let got = sum_list (map earned cs); tot = sum_list (map (\<lambda>c. of_int (ic_weight c)) cs)
      in if tot = 0 then 0 else percent got tot)"

record categoryScore =
  cs_id :: string
  cs_label :: string
  cs_score :: int
  cs_pass :: nat
  cs_total :: nat

definition categoryMeta :: "(string \<times> string) list" where
  "categoryMeta = [(catMeta, ''Meta data''), (catStructure, ''Page structure''), (catServer, ''Server''), (catQuality, ''Page quality''), (catLinks, ''Links'')]"

definition computeCategories :: "insightCheck list \<Rightarrow> categoryScore list" where
  "computeCategories cs =
     List.map_filter (\<lambda>(k, label).
        let m = filter (\<lambda>c. ic_category c = k) cs; tot = sum_list (map (\<lambda>c. of_int (ic_weight c)) m) :: rat
        in if m = [] then None
           else Some \<lparr> cs_id = k, cs_label = label, cs_score = (if tot > 0 then percent (sum_list (map earned m)) tot else 0),
                       cs_pass = length (filter (\<lambda>c. ic_status c = Pass) m), cs_total = length m \<rparr>) categoryMeta"

section \<open>The report\<close>

text \<open>The outcome of the fetch: a bad URL, a failed request, a failed read of the body (status, milliseconds), or status, content type,
  milliseconds and the body.\<close>
datatype fetched = Bad_url string | Fetch_failed string | Body_error nat int string | Page nat string int string

record insightReport =
  ir_url :: string
  ir_status :: nat
  ir_ms :: int
  ir_kb :: nat
  ir_score :: int
  ir_categories :: "categoryScore list"
  ir_checks :: "insightCheck list"
  ir_error :: string

definition empty_report :: "string \<Rightarrow> string \<Rightarrow> insightReport" where
  "empty_report u e = \<lparr> ir_url = u, ir_status = 0, ir_ms = 0, ir_kb = 0, ir_score = 0, ir_categories = [], ir_checks = [], ir_error = e \<rparr>"

definition insightsMaxBytes :: nat where "insightsMaxBytes = 2 ^ 20"

definition in_cat :: "string \<Rightarrow> insightCheck list \<Rightarrow> insightCheck list" where
  "in_cat k cs = map (\<lambda>c. c\<lparr> ic_category := k \<rparr>) cs"

definition page_checks ::
  "(string \<Rightarrow> string option) \<Rightarrow> (string \<Rightarrow> probed) \<Rightarrow> string \<Rightarrow> nat \<Rightarrow> string \<Rightarrow> int \<Rightarrow> nat \<Rightarrow> string \<Rightarrow> insightCheck list" where
  "page_checks host probe target st ct ms kb html =
     in_cat catServer [checkStatus st, checkHTTPS target, checkContentType ct, checkResponseTime ms]
     @ in_cat catMeta
         [checkTitle html,
          checkMeta html ''description'' ''Meta description'' (''50-160 chars summarising the page '' @ em_dash @ '' shown in Google results.''),
          checkCanonical html, checkCharset html ct, checkLang html, checkOG html ''og:title'' ''OpenGraph title'',
          checkOG html ''og:description'' ''OpenGraph description'', checkOG html ''og:image'' ''OpenGraph image'', checkFavicon html]
     @ in_cat catStructure [checkH1 html, checkHeadings html, checkWordCount html]
     @ in_cat catQuality
         [checkViewport html, checkImagesAlt html, checkPageSize kb,
          probePath probe target ''/robots.txt'' ''robots.txt'' ''Tells search engines which paths to crawl.'',
          probePath probe target ''/sitemap.xml'' ''sitemap.xml''
            (''Lists pages for search engines to index '' @ em_dash @ '' recommended for multi-page sites.'')]
     @ in_cat catLinks [checkLinks host html target]"

definition runInsightChecks ::
  "(string \<Rightarrow> string option) \<Rightarrow> (string \<Rightarrow> probed) \<Rightarrow> (string \<Rightarrow> fetched) \<Rightarrow> string \<Rightarrow> insightReport" where
  "runInsightChecks host probe fetch target =
     (case fetch target of
        Bad_url e \<Rightarrow> empty_report target (''bad URL: '' @ e)
      | Fetch_failed e \<Rightarrow> empty_report target (''fetch failed: '' @ e)
      | Body_error st ms e \<Rightarrow> (empty_report target (''read body: '' @ e))\<lparr> ir_status := st, ir_ms := ms \<rparr>
      | Page st ct ms body0 \<Rightarrow>
          (let body = take insightsMaxBytes body0; kb = (length body + 1023) div 1024;
               cs = page_checks host probe target st ct ms kb body
           in \<lparr> ir_url = target, ir_status = st, ir_ms = ms, ir_kb = kb, ir_score = computeScore cs,
                ir_categories = computeCategories cs, ir_checks = cs, ir_error = '''' \<rparr>))"

text \<open>The URL of the newest ready deployment among the last ten.\<close>
definition ready_url :: "db \<Rightarrow> uuid \<Rightarrow> string option" where
  "ready_url s pid =
     (case find (\<lambda>d. dr_status d = Ready \<and> dr_url d \<noteq> None \<and> dr_url d \<noteq> Some '''') (ListDeploymentsForProjects s [pid] 10 pid) of
        None \<Rightarrow> None | Some d \<Rightarrow> dr_url d)"

definition handleProjectInsights ::
  "(string \<Rightarrow> string option) \<Rightarrow> (string \<Rightarrow> probed) \<Rightarrow> (string \<Rightarrow> fetched) \<Rightarrow> user_req \<Rightarrow> db \<Rightarrow> (nat, insightReport) result" where
  "handleProjectInsights host probe fetch r s =
     (case authoriseProject r s of
        Inl st \<Rightarrow> Inl st
      | Inr proj \<Rightarrow>
          (case ready_url s (pi_id proj) of
             None \<Rightarrow> Inr (empty_report '''' (''no READY deployment yet '' @ em_dash @ '' push code to your repo, then check back''))
           | Some u \<Rightarrow> Inr (runInsightChecks host probe fetch u)))"

end
