(* ===== verification/Seo_Patch.thy ===== *)
theory Seo_Patch
  imports Insights
begin

text \<open>
  The patcher of \<open>insights_pr.go\<close>: which SEO tags an HTML file lacks and the file with those tags in front of \<open></head>\<close>.
  \<open>None\<close> is the run-time panic of an index into the result of a search that found nothing.
\<close>

record seoPatch =
  po_id :: string
  po_label :: string
  po_applied :: bool
  po_reason :: string
  po_snippet :: string

record seoInputs =
  si_name :: string
  si_desc :: string
  si_url :: string
  si_lang :: string

text \<open>\<open>strings.NewReplacer\<close> with one-character keys replaces every character on its own.\<close>
definition escape_char :: "char \<Rightarrow> string" where
  "escape_char c =
     (if c = CHR ''&'' then ''&amp;'' else if c = CHR ''<'' then ''&lt;'' else if c = CHR ''>'' then ''&gt;''
      else if c = CHR 0x22 then ''&quot;'' else [c])"

definition htmlEscape :: "string \<Rightarrow> string" where "htmlEscape s = concat (map escape_char s)"

definition headCloseRE :: rx where "headCloseRE = rx_seq [lit ''</head'', star rx_space, lit ''>'']"
definition htmlOpenRE :: rx where "htmlOpenRE = rx_seq [lit ''<html'', Grp (star (one_not (CHR ''>''))), lit ''>'']"
definition langAttrRE :: rx where "langAttrRE = rx_seq [Bound, lit ''lang'', star rx_space, lit ''='']"
definition titleTagRE :: rx where
  "titleTagRE = rx_seq [lit ''<title'', star (one_not (CHR ''>'')), lit ''>'', lazy_star (\<lambda>_. True), lit ''</title>'']"
definition canonicalTagRE :: rx where
  "canonicalTagRE = rx_seq [lit ''<link'', plus1 (one_not (CHR ''>'')), lit ''rel'', star rx_space, lit ''='', star rx_space, One quote_char,
     lit ''canonical'', One quote_char]"

definition applied_patch :: "string \<Rightarrow> string \<Rightarrow> string \<Rightarrow> seoPatch" where
  "applied_patch k label snip = \<lparr> po_id = k, po_label = label, po_applied = True, po_reason = '''', po_snippet = snip \<rparr>"

definition skipped_patch :: "string \<Rightarrow> string \<Rightarrow> string \<Rightarrow> seoPatch" where
  "skipped_patch k label why = \<lparr> po_id = k, po_label = label, po_applied = False, po_reason = why, po_snippet = '''' \<rparr>"

definition dq :: string where "dq = [CHR 0x22]"

definition meta_tag :: "string \<Rightarrow> string \<Rightarrow> string \<Rightarrow> string" where
  "meta_tag attr key v = ''    <meta '' @ attr @ ''='' @ dq @ key @ dq @ '' content='' @ dq @ v @ dq @ ''>''"

text \<open>The file with a \<open>lang\<close> attribute on its first \<open><html>\<close> tag, unless the tag has one or is missing.\<close>
definition patch_lang :: "string \<Rightarrow> seoInputs \<Rightarrow> string \<times> seoPatch list" where
  "patch_lang html i =
     (case find_rx htmlOpenRE html of
        None \<Rightarrow> (html, [])
      | Some m \<Rightarrow>
          (let attrs = hd (rm_groups m); lang = (if si_lang i = '''' then ''en'' else si_lang i)
           in if match_string langAttrRE attrs then (html, [])
              else (rm_pre m @ ''<html'' @ attrs @ '' lang='' @ dq @ lang @ dq @ ''>'' @ rm_post m,
                    [applied_patch ''lang'' ''Set <html lang>'' (''lang='' @ dq @ lang @ dq)])))"

text \<open>The tags in the order in which the code looks for them.\<close>
definition head_patches :: "string \<Rightarrow> seoInputs \<Rightarrow> seoPatch list" where
  "head_patches html i =
     (if match_string titleTagRE html then []
      else if trim_space (si_name i) = '''' then [skipped_patch ''title'' ''Add <title>'' ''no repository name available to use as a fallback title'']
      else [applied_patch ''title'' ''Add <title>'' (''    <title>'' @ htmlEscape (trim_space (si_name i)) @ ''</title>'')])
     @ (if metaContent html ''description'' \<noteq> '''' then []
        else if trim_space (si_desc i) \<noteq> ''''
        then [applied_patch ''meta_description'' ''Add meta description'' (meta_tag ''name'' ''description'' (htmlEscape (trim_space (si_desc i))))]
        else [skipped_patch ''meta_description'' ''Add meta description''
                (''no GitHub repository description set '' @ em_dash @ '' add one in repo settings and re-run'')])
     @ (if metaContent html ''viewport'' \<noteq> '''' then []
        else [applied_patch ''viewport'' ''Add mobile viewport meta'' (meta_tag ''name'' ''viewport'' ''width=device-width, initial-scale=1'')])
     @ (if match_string canonicalTagRE html \<or> si_url i = '''' then []
        else [applied_patch ''canonical'' ''Add canonical URL''
                (''    <link rel='' @ dq @ ''canonical'' @ dq @ '' href='' @ dq @ htmlEscape (si_url i) @ dq @ ''>'')])
     @ (if metaContent html ''og:title'' \<noteq> '''' \<or> trim_space (si_name i) = '''' then []
        else [applied_patch ''og_title'' ''Add OpenGraph title'' (meta_tag ''property'' ''og:title'' (htmlEscape (si_name i)))])
     @ (if metaContent html ''og:description'' \<noteq> '''' \<or> trim_space (si_desc i) = '''' then []
        else [applied_patch ''og_description'' ''Add OpenGraph description'' (meta_tag ''property'' ''og:description'' (htmlEscape (si_desc i)))])
     @ (if metaContent html ''og:url'' \<noteq> '''' \<or> si_url i = '''' then []
        else [applied_patch ''og_url'' ''Add OpenGraph URL'' (meta_tag ''property'' ''og:url'' (htmlEscape (si_url i)))])
     @ (if metaContent html ''og:type'' \<noteq> '''' then []
        else [applied_patch ''og_type'' ''Add OpenGraph type'' (meta_tag ''property'' ''og:type'' ''website'')])"

definition blank :: "char \<Rightarrow> bool" where "blank c \<longleftrightarrow> c = CHR '' '' \<or> c = CHR 0x09"

text \<open>The indentation of the line in which \<open></head>\<close> stands; none if other text precedes it.\<close>
definition head_indent :: "string \<Rightarrow> string" where
  "head_indent pre = (let ind = rev (takeWhile (\<lambda>c. c \<noteq> CHR 0x0A) (rev pre)) in if list_all blank ind then ind else '''')"

definition inject_tags :: "string list \<Rightarrow> rx_match \<Rightarrow> string" where
  "inject_tags snips m =
     (let ind = head_indent (rm_pre m)
      in rm_pre m @ concat (map (\<lambda>t. ind @ trim_left blank t @ [CHR 0x0A]) snips) @ ind @ rm_text m @ rm_post m)"

definition applySEOPatches :: "string \<Rightarrow> seoInputs \<Rightarrow> (string \<times> seoPatch list) option" where
  "applySEOPatches html0 i =
     (if find_rx headCloseRE html0 = None
      then Some (html0, [skipped_patch ''head_missing'' ''Inject SEO tags''
                  (''no </head> tag found in file '' @ em_dash @ '' likely a framework template the bot can'' @ [CHR 0x27] @ ''t safely edit'')])
      else (let (html, lp) = patch_lang html0 i; ps = head_patches html i; snips = map po_snippet (filter po_applied ps)
            in if snips = [] then Some (html, lp @ ps)
               else (case find_rx headCloseRE html of
                       None \<Rightarrow> None
                     | Some m \<Rightarrow> Some (inject_tags snips m, lp @ ps))))"

definition suggestPREntryCandidates :: "string list" where
  "suggestPREntryCandidates = [''index.html'', ''public/index.html'', ''src/index.html'', ''app/index.html'']"

end
