(* ===== verification/Suggest_Pr.thy ===== *)
theory Suggest_Pr
  imports Seo_Patch
begin

text \<open>
  Opening a pull request with the SEO tags (\<open>github_pr.go\<close>, \<open>insights_pr_handler.go\<close>): the calls of the GitHub API and the handler of
  \<open>POST /v1/projects/{id}/insights/suggest-pr\<close>.  Parameters are GitHub, base64 and the rendering of the clock in the name of the branch.
\<close>

section \<open>Calls of the GitHub API\<close>

definition repo_url :: "string \<Rightarrow> string" where "repo_url repo = ''https://api.github.com/repos/'' @ repo"

definition snippetOfBody :: "string \<Rightarrow> string" where
  "snippetOfBody b = (let s = trim_space b in if length s > 200 then take 200 s @ ellipsis else s)"

definition http_error :: "string \<Rightarrow> nat \<Rightarrow> string \<Rightarrow> string" where
  "http_error what st body = what @ '': HTTP '' @ show_nat st @ '': '' @ snippetOfBody body"

text \<open>A call as the installation: the token first, then the request.\<close>
definition gh_call :: "'g gx \<Rightarrow> int \<Rightarrow> meth \<Rightarrow> string \<Rightarrow> json option \<Rightarrow> 'g github \<Rightarrow> kresp \<times> 'g github" where
  "gh_call x inst m url body g =
     (case installationToken x inst g of
        (Inl e, g1) \<Rightarrow> (Net_error e, g1)
      | (Inr tok, g1) \<Rightarrow> gdo x \<lparr> gq_meth = m, gq_url = url, gq_bearer = tok, gq_body = body \<rparr> g1)"

text \<open>Description and default branch.\<close>
definition getRepoMeta :: "'g gx \<Rightarrow> int \<Rightarrow> string \<Rightarrow> 'g github \<Rightarrow> (string, string \<times> string) result \<times> 'g github" where
  "getRepoMeta x inst repo g =
     (case gh_call x inst GET (repo_url repo) None g of
        (Net_error e, g1) \<Rightarrow> (Inl e, g1)
      | (Resp st body j, g1) \<Rightarrow>
          if st \<noteq> 200 then (Inl (http_error ''get repo'' st body), g1)
          else (let (d, ok1) = unmarshal j [''description''] dec_str; (b, ok2) = unmarshal j [''default_branch''] dec_str
                in if ok1 \<and> ok2 then (Inr (d, b), g1) else (Inl ''decode repo'', g1)))"

text \<open>Content and SHA of a file; \<open>None\<close> when it does not exist.\<close>
definition getFile ::
  "'g gx \<Rightarrow> (string \<Rightarrow> string option) \<Rightarrow> int \<Rightarrow> string \<Rightarrow> string \<Rightarrow> string \<Rightarrow> 'g github \<Rightarrow> (string, (string \<times> string) option) result \<times> 'g github" where
  "getFile x b64 inst repo path ref g =
     (case gh_call x inst GET (repo_url repo @ ''/contents/'' @ path @ (if ref = '''' then '''' else ''?ref='' @ ref)) None g of
        (Net_error e, g1) \<Rightarrow> (Inl e, g1)
      | (Resp st body j, g1) \<Rightarrow>
          if st = 404 then (Inr None, g1)
          else if st \<noteq> 200 then (Inl (http_error (''get file '' @ path) st body), g1)
          else (let (sha, ok1) = unmarshal j [''sha''] dec_str; (c, ok2) = unmarshal j [''content''] dec_str
                in if \<not> (ok1 \<and> ok2) then (Inl ''decode file'', g1)
                   else (case b64 (filter (\<lambda>ch. ch \<noteq> CHR 0x0A) c) of
                           None \<Rightarrow> (Inl ''decode b64'', g1)
                         | Some content \<Rightarrow> (Inr (Some (content, sha)), g1))))"

definition getBranchSHA :: "'g gx \<Rightarrow> int \<Rightarrow> string \<Rightarrow> string \<Rightarrow> 'g github \<Rightarrow> (string, string) result \<times> 'g github" where
  "getBranchSHA x inst repo branch g =
     (case gh_call x inst GET (repo_url repo @ ''/git/ref/heads/'' @ branch) None g of
        (Net_error e, g1) \<Rightarrow> (Inl e, g1)
      | (Resp st body j, g1) \<Rightarrow>
          if st \<noteq> 200 then (Inl (http_error (''get branch ref '' @ branch) st body), g1)
          else (let (sha, ok) = unmarshal j [''object'', ''sha''] dec_str
                in if \<not> ok then (Inl ''decode ref'', g1)
                   else if sha = '''' then (Inl ''empty SHA in branch ref'', g1) else (Inr sha, g1)))"

datatype branch_error = Already_exists | Branch_error string

definition createBranch :: "'g gx \<Rightarrow> int \<Rightarrow> string \<Rightarrow> string \<Rightarrow> string \<Rightarrow> 'g github \<Rightarrow> branch_error option \<times> 'g github" where
  "createBranch x inst repo new sha g =
     (case gh_call x inst POST (repo_url repo @ ''/git/refs'') (Some (jlabels [(''ref'', ''refs/heads/'' @ new), (''sha'', sha)])) g of
        (Net_error e, g1) \<Rightarrow> (Some (Branch_error e), g1)
      | (Resp st body _, g1) \<Rightarrow>
          if st = 201 then (None, g1)
          else if st = 422 \<and> contains body ''Reference already exists'' then (Some Already_exists, g1)
          else (Some (Branch_error (http_error (''create branch '' @ new) st body)), g1))"

definition putFile ::
  "'g gx \<Rightarrow> (string \<Rightarrow> string) \<Rightarrow> int \<Rightarrow> string \<Rightarrow> string \<Rightarrow> string \<Rightarrow> string \<Rightarrow> string \<Rightarrow> string \<Rightarrow> 'g github \<Rightarrow> string option \<times> 'g github" where
  "putFile x enc inst repo path branch msg content sha g =
     (case gh_call x inst PUT (repo_url repo @ ''/contents/'' @ path)
             (Some (jlabels ([(''message'', msg), (''branch'', branch), (''content'', enc content)] @ (if sha = '''' then [] else [(''sha'', sha)])))) g of
        (Net_error e, g1) \<Rightarrow> (Some e, g1)
      | (Resp st body _, g1) \<Rightarrow> (if ok2xx st then None else Some (http_error (''put file '' @ path) st body), g1))"

text \<open>URL and number of the new pull request.\<close>
definition createPR ::
  "'g gx \<Rightarrow> int \<Rightarrow> string \<Rightarrow> string \<Rightarrow> string \<Rightarrow> string \<Rightarrow> string \<Rightarrow> bool \<Rightarrow> 'g github \<Rightarrow> (string, string \<times> int) result \<times> 'g github" where
  "createPR x inst repo title body head base draft g =
     (case gh_call x inst POST (repo_url repo @ ''/pulls'')
             (Some (JObj [(''title'', JStr title), (''body'', JStr body), (''head'', JStr head), (''base'', JStr base), (''draft'', JBool draft),
                          (''maintainer_can_modify'', JBool True)])) g of
        (Net_error e, g1) \<Rightarrow> (Inl e, g1)
      | (Resp st rb j, g1) \<Rightarrow>
          if st \<noteq> 201 then (Inl (http_error ''create PR'' st rb), g1)
          else (let (u, ok1) = unmarshal j [''html_url''] dec_str; (n, ok2) = unmarshal j [''number''] dec_int
                in if ok1 \<and> ok2 then (Inr (u, n), g1) else (Inl ''decode PR'', g1)))"

section \<open>Texts\<close>

definition plural :: "nat \<Rightarrow> string" where "plural n = (if n = 1 then '''' else ''s'')"
definition pluralEs :: "nat \<Rightarrow> string" where "pluralEs n = (if n = 1 then '''' else ''es'')"

definition splitPatches :: "seoPatch list \<Rightarrow> seoPatch list \<times> seoPatch list" where
  "splitPatches ps = (filter po_applied ps, filter (\<lambda>p. \<not> po_applied p) ps)"

definition newline :: string where "newline = [CHR 0x0A]"
definition tick_mark :: string where "tick_mark = [CHR 0x60]"
definition arrow :: string where "arrow = [CHR 0xE2, CHR 0x86, CHR 0x92]"

definition buildPRBody :: "seoPatch list \<Rightarrow> seoPatch list \<Rightarrow> string \<Rightarrow> string \<Rightarrow> string" where
  "buildPRBody applied skipped entry url =
     ''Automated SEO improvements based on the Insights report for ['' @ url @ ''](''  @ url @ '').'' @ newline @ newline
     @ ''**File changed:** '' @ tick_mark @ entry @ tick_mark @ newline @ newline
     @ (if applied = [] then ''''
        else ''### Added'' @ newline @ newline
          @ concat (map (\<lambda>p. ''- **'' @ po_label p @ ''** '' @ em_dash @ '' '' @ tick_mark @ trim_space (po_snippet p) @ tick_mark @ newline) applied)
          @ newline)
     @ (if skipped = [] then ''''
        else ''### Skipped (need your input)'' @ newline @ newline
          @ concat (map (\<lambda>p. ''- **'' @ po_label p @ ''** '' @ em_dash @ '' '' @ po_reason p @ newline) skipped) @ newline)
     @ ''---'' @ newline @ ''_Opened by the Spinup dashboard'' @ [CHR 0x27] @ ''s Insights '' @ arrow @ '' '' @ dq @ ''Open improvement PR'' @ dq @ '' button. ''
     @ ''This PR is a **draft** '' @ em_dash @ '' review, edit, and merge when you'' @ [CHR 0x27] @ ''re happy with it. ''
     @ ''Existing tags were left untouched; only missing ones were added._'' @ newline"

section \<open>The handler\<close>

record suggestPRResp =
  sr_ok :: bool
  sr_url :: string
  sr_number :: int
  sr_branch :: string
  sr_file :: string
  sr_applied :: "seoPatch list"
  sr_skipped :: "seoPatch list"
  sr_message :: string

definition sr_text :: "string \<Rightarrow> suggestPRResp" where
  "sr_text m = \<lparr> sr_ok = False, sr_url = '''', sr_number = 0, sr_branch = '''', sr_file = '''', sr_applied = [], sr_skipped = [], sr_message = m \<rparr>"

text \<open>A plain error status, a JSON answer with its status, or the panic of the patcher.\<close>
datatype pr_reply = Pr_status nat | Pr_answer nat suggestPRResp | Pr_panic

definition respondGitHubErr :: "string \<Rightarrow> string \<Rightarrow> pr_reply" where
  "respondGitHubErr stage msg =
     (if contains msg ''HTTP 403''
      then Pr_answer 403 (sr_text (''GitHub rejected the request with 403. The Spinup GitHub App needs the '' @ [CHR 0x27] @ ''Contents'' @ [CHR 0x27]
             @ '' (read & write) and '' @ [CHR 0x27] @ ''Pull requests'' @ [CHR 0x27]
             @ '' (read & write) permissions on this repo. Re-install or update the app'' @ [CHR 0x27] @ ''s permissions on github.com '' @ arrow
             @ '' Settings '' @ arrow @ '' Applications '' @ arrow @ '' Spinup and try again.''))
      else if contains msg ''HTTP 404''
      then Pr_answer 404 (sr_text (''GitHub returned 404 for '' @ stage @ ''. Either the branch was deleted between probes or the install lost access to the repo.''))
      else Pr_answer 502 (sr_text msg))"

text \<open>The first candidate that exists; a failed probe is passed over.\<close>
fun pick_entry ::
  "'g gx \<Rightarrow> (string \<Rightarrow> string option) \<Rightarrow> int \<Rightarrow> string \<Rightarrow> string \<Rightarrow> string list \<Rightarrow> 'g github \<Rightarrow> (string \<times> string \<times> string) option \<times> 'g github" where
  "pick_entry x b64 inst repo base [] g = (None, g)"
| "pick_entry x b64 inst repo base (p # ps) g =
     (case getFile x b64 inst repo p base g of
        (Inr (Some (c, sha)), g1) \<Rightarrow> (Some (p, c, sha), g1)
      | (_, g1) \<Rightarrow> pick_entry x b64 inst repo base ps g1)"

text \<open>The branch for the change: the name with the time stamp, with a suffix when it exists.\<close>
definition fork_branch :: "'g gx \<Rightarrow> int \<Rightarrow> string \<Rightarrow> string \<Rightarrow> string \<Rightarrow> 'g github \<Rightarrow> (pr_reply, string) result \<times> 'g github" where
  "fork_branch x inst repo name sha g =
     (case createBranch x inst repo name sha g of
        (None, g1) \<Rightarrow> (Inr name, g1)
      | (Some (Branch_error e), g1) \<Rightarrow> (Inl (respondGitHubErr ''branch create'' e), g1)
      | (Some Already_exists, g1) \<Rightarrow>
          (case createBranch x inst repo (name @ ''-r'') sha g1 of
             (None, g2) \<Rightarrow> (Inr (name @ ''-r''), g2)
           | (Some (Branch_error e), g2) \<Rightarrow> (Inl (respondGitHubErr ''branch create (retry)'' e), g2)
           | (Some Already_exists, g2) \<Rightarrow> (Inl (respondGitHubErr ''branch create (retry)'' ''branch already exists''), g2)))"

text \<open>Step 5: branch, commit, draft pull request.\<close>
definition open_pr ::
  "'g gx \<Rightarrow> (string \<Rightarrow> string) \<Rightarrow> string \<Rightarrow> projectDeployTarget \<Rightarrow> string \<Rightarrow> string \<times> string \<times> string \<Rightarrow> string
     \<Rightarrow> seoPatch list \<Rightarrow> seoPatch list \<Rightarrow> 'g github \<Rightarrow> pr_reply \<times> 'g github" where
  "open_pr x enc stamp t base file_url new applied skipped g =
     (let (entry, fsha, url) = file_url
      in case getBranchSHA x (dt_inst t) (dt_full_name t) base g of
           (Inl e, g1) \<Rightarrow> (respondGitHubErr ''branch lookup'' e, g1)
         | (Inr sha, g1) \<Rightarrow>
             (case fork_branch x (dt_inst t) (dt_full_name t) (''spinup/seo-fixes-'' @ stamp) sha g1 of
                (Inl q, g2) \<Rightarrow> (q, g2)
              | (Inr branch, g2) \<Rightarrow>
                  (case putFile x enc (dt_inst t) (dt_full_name t) entry branch
                          (''seo: add '' @ show_nat (length applied) @ '' missing meta tag'' @ plural (length applied) @ '' to '' @ entry) new fsha g2 of
                     (Some e, g3) \<Rightarrow> (respondGitHubErr ''file write'' e, g3)
                   | (None, g3) \<Rightarrow>
                       (case createPR x (dt_inst t) (dt_full_name t) (''Spinup: SEO improvements for '' @ entry)
                               (buildPRBody applied skipped entry url) branch base True g3 of
                          (Inl e, g4) \<Rightarrow> (respondGitHubErr ''PR create'' e, g4)
                        | (Inr (u, n), g4) \<Rightarrow>
                            (Pr_answer 200 \<lparr> sr_ok = True, sr_url = u, sr_number = n, sr_branch = branch, sr_file = entry, sr_applied = applied,
                               sr_skipped = skipped, sr_message = ''Opened draft PR #'' @ show_int n @ '' with '' @ show_nat (length applied)
                                 @ '' fix'' @ pluralEs (length applied) @ '' for '' @ entry @ ''.'' \<rparr>, g4)))))"

definition handleSuggestInsightsPR ::
  "'g gx \<Rightarrow> (string \<Rightarrow> string option) \<Rightarrow> (string \<Rightarrow> string) \<Rightarrow> string \<Rightarrow> user_req \<Rightarrow> db \<Rightarrow> 'g github \<Rightarrow> pr_reply \<times> 'g github" where
  "handleSuggestInsightsPR x b64 enc stamp r s g =
     (if \<not> uuidRE (ur_id r) then (Pr_status 400, g)
      else case ur_user r of
        None \<Rightarrow> (Pr_status 401, g)
      | Some u \<Rightarrow>
          (case uuid_in (ur_id r) of
             None \<Rightarrow> (Pr_status 500, g)
           | Some pid \<Rightarrow>
          (case GetProjectForDeploy s pid (scope_of u) of
             None \<Rightarrow> (Pr_status 404, g)
           | Some t \<Rightarrow>
               (case ready_url s (dt_project t) of
                  None \<Rightarrow> (Pr_answer 200 (sr_text (''No READY deployment yet '' @ em_dash @ '' push code and let it deploy before generating a PR.'')), g)
                | Some url \<Rightarrow>
                    (let (m, g1) = getRepoMeta x (dt_inst t) (dt_full_name t) g;
                         (desc, dflt) = (case m of Inr db \<Rightarrow> db | Inl _ \<Rightarrow> ('''', dt_branch t));
                         base = (if dt_branch t \<noteq> '''' then dt_branch t else if dflt \<noteq> '''' then dflt else ''main'')
                     in case pick_entry x b64 (dt_inst t) (dt_full_name t) base suggestPREntryCandidates g1 of
                          (None, g2) \<Rightarrow>
                            (Pr_answer 200 (sr_text (''Couldn'' @ [CHR 0x27] @ ''t find a recognisable HTML entry file (tried ''
                               @ join_with '', '' suggestPREntryCandidates
                               @ ''). The heuristic patcher only supports static HTML entries for now '' @ em_dash
                               @ '' framework templates (Next, Astro components, etc.) need manual edits.'')), g2)
                        | (Some (entry, original, fsha), g2) \<Rightarrow>
                            (let short_name = (case last_index_byte (dt_full_name t) (CHR ''/'') of None \<Rightarrow> dt_full_name t | Some i \<Rightarrow> drop (i + 1) (dt_full_name t))
                             in case applySEOPatches original \<lparr> si_name = short_name, si_desc = desc, si_url = url, si_lang = ''en'' \<rparr> of
                                  None \<Rightarrow> (Pr_panic, g2)
                                | Some (new, patches) \<Rightarrow>
                                    (let (applied, skipped) = splitPatches patches
                                     in if applied = []
                                        then (Pr_answer 200 ((sr_text (''Nothing to do '' @ em_dash @ '' every SEO signal we know how to add is already present in '' @ entry @ ''.''))
                                                \<lparr> sr_file := entry, sr_skipped := skipped \<rparr>), g2)
                                        else if new = original
                                        then (Pr_answer 200 ((sr_text (''No net changes after patching '' @ em_dash @ '' file already covered.''))
                                                \<lparr> sr_file := entry, sr_applied := applied, sr_skipped := skipped \<rparr>), g2)
                                        else open_pr x enc stamp t base (entry, fsha, url) new applied skipped g2)))))))"

end
