(* ===== verification/Insights_Props.thy ===== *)
theory Insights_Props
  imports Suggest_Pr
begin

text \<open>
  Properties of the SEO report: what the score and the categories mean.
\<close>

section \<open>Percentages\<close>

lemma percent_bounds:
  assumes "0 \<le> got" "got \<le> tot" "0 < tot"
  shows "0 \<le> percent got tot \<and> percent got tot \<le> 100"
proof -
  have q: "0 \<le> got / tot" "got / tot \<le> 1" using assms by simp_all
  have p53: "pow2 (0 + 53) = 2 ^ 53" by (simp add: pow2_def)
  have f1: "0 \<le> fl (got / tot)" using fl_nonneg[of "got / tot" 0] q by (simp add: pow2_def)
  have f2: "fl (got / tot) \<le> 1"
    using fl_le[of "got / tot" 0 1] q by (cases "got / tot = 0") (auto simp: pow2_def)
  have g1: "0 \<le> fl (fl (got / tot) * 100)" using fl_nonneg[of "fl (got / tot) * 100" 0] f1 f2 by (simp add: pow2_def)
  have g2: "fl (fl (got / tot) * 100) \<le> 100"
    using fl_le[of "fl (got / tot) * 100" 0 100] f1 f2 by (cases "fl (got / tot) = 0") (auto simp: pow2_def)
  show ?thesis using g1 g2 by (simp add: percent_def floor_le_iff)
qed

lemma percent_full: "0 < tot \<Longrightarrow> percent tot tot = 100"
proof -
  have one: "fl 1 = 1" by (rule fl_exact[of 1 0 1]) (simp_all add: pow2_def)
  have "fl 100 = 100" by (rule fl_exact[of 100 0 100]) (simp_all add: pow2_def)
  then show "0 < tot \<Longrightarrow> percent tot tot = 100" by (simp add: percent_def one)
qed

lemma percent_below:
  assumes "0 \<le> got" "got \<le> tot - 1 / 2" "0 < tot" "tot \<le> 64"
  shows "percent got tot \<le> 99"
proof -
  have p7: "pow2 (- 7) = 1 / 128" by (simp add: pow2_def)
  have "1 / 2 / tot \<ge> 1 / 128" using assms(3,4) by (simp add: field_simps)
  moreover have "got / tot \<le> (tot - 1 / 2) / tot" using assms(2,3) by (simp add: divide_right_mono)
  moreover have "(tot - 1 / 2) / tot = 1 - 1 / 2 / tot" using assms(3) by (simp add: diff_divide_distrib)
  ultimately have q: "got / tot \<le> 127 / 128" by linarith
  have q0: "0 \<le> got / tot" using assms by simp
  have f1: "0 \<le> fl (got / tot)" using fl_nonneg[of "got / tot" 0] q0 q by (simp add: pow2_def)
  have f2: "fl (got / tot) \<le> 127 / 128"
    using fl_le[of "got / tot" "- 7" 127] q q0 by (cases "got / tot = 0") (auto simp: p7 pow2_def)
  have "fl (fl (got / tot) * 100) \<le> 12700 / 128"
    using fl_le[of "fl (got / tot) * 100" "- 7" 12700] f1 f2 by (cases "fl (got / tot) = 0") (auto simp: p7 pow2_def)
  then show ?thesis by (simp add: percent_def floor_le_iff)
qed

section \<open>The score\<close>

definition all_pass :: "insightCheck list \<Rightarrow> bool" where "all_pass cs \<longleftrightarrow> list_all (\<lambda>c. ic_status c = Pass) cs"

abbreviation weights :: "insightCheck list \<Rightarrow> rat" where "weights cs \<equiv> sum_list (map (\<lambda>c. of_int (ic_weight c)) cs)"

lemma earned_bounds: "0 < ic_weight c \<Longrightarrow> 0 \<le> earned c \<and> earned c \<le> of_int (ic_weight c)"
  by (auto simp: earned_def split: istatus.splits)

lemma earned_loss: "0 < ic_weight c \<Longrightarrow> ic_status c \<noteq> Pass \<Longrightarrow> earned c \<le> of_int (ic_weight c) - 1 / 2"
proof -
  assume w: "0 < ic_weight c" and n: "ic_status c \<noteq> Pass"
  have "(1::rat) \<le> of_int (ic_weight c)" using w by simp
  then show ?thesis using n by (auto simp: earned_def split: istatus.splits)
qed

lemma sums:
  assumes "list_all (\<lambda>c. 0 < ic_weight c) cs"
  shows "0 \<le> sum_list (map earned cs)" "sum_list (map earned cs) \<le> weights cs"
    "all_pass cs \<Longrightarrow> sum_list (map earned cs) = weights cs"
    "\<not> all_pass cs \<Longrightarrow> sum_list (map earned cs) \<le> weights cs - 1 / 2"
    "cs \<noteq> [] \<Longrightarrow> 0 < weights cs"
proof -
  show a: "0 \<le> sum_list (map earned cs)" using assms by (induction cs) (use earned_bounds in \<open>auto intro: add_nonneg_nonneg\<close>)
  show b: "sum_list (map earned cs) \<le> weights cs" using assms by (induction cs) (use earned_bounds in \<open>auto intro: add_mono\<close>)
  show "all_pass cs \<Longrightarrow> sum_list (map earned cs) = weights cs" by (induction cs) (auto simp: all_pass_def earned_def)
  show "\<not> all_pass cs \<Longrightarrow> sum_list (map earned cs) \<le> weights cs - 1 / 2" using assms
  proof (induction cs)
    case (Cons c cs)
    have le: "sum_list (map earned cs) \<le> weights cs" using Cons.prems(2) by (induction cs) (use earned_bounds in \<open>auto intro: add_mono\<close>)
    show ?case
    proof (cases "ic_status c = Pass")
      case True
      then have "sum_list (map earned cs) \<le> weights cs - 1 / 2" using Cons by (simp add: all_pass_def)
      then show ?thesis using earned_bounds[of c] Cons.prems(2) by simp
    next
      case False
      then show ?thesis using earned_loss[of c] Cons.prems(2) le by simp
    qed
  qed (simp add: all_pass_def)
  show "cs \<noteq> [] \<Longrightarrow> 0 < weights cs" using assms
    by (induction cs) (auto intro!: add_pos_nonneg sum_list_nonneg simp: list_all_iff less_imp_le)
qed

lemma score_meaning:
  assumes "list_all (\<lambda>c. 0 < ic_weight c) cs" "cs \<noteq> []" "weights cs \<le> 64"
  shows "0 \<le> computeScore cs \<and> computeScore cs \<le> 100 \<and> (computeScore cs = 100 \<longleftrightarrow> all_pass cs)"
proof -
  have w: "0 < weights cs" using sums(5)[OF assms(1,2)] .
  then have s: "computeScore cs = percent (sum_list (map earned cs)) (weights cs)" by (simp add: computeScore_def Let_def)
  have "computeScore cs \<noteq> 100" if "\<not> all_pass cs"
    using percent_below[OF sums(1)[OF assms(1)] sums(4)[OF assms(1) that] w assms(3)] s by simp
  moreover have "computeScore cs = 100" if "all_pass cs" using sums(3)[OF assms(1) that] s percent_full[OF w] by simp
  ultimately show ?thesis using percent_bounds[OF sums(1,2)[OF assms(1)] w] s by auto
qed

section \<open>The weights of the report\<close>

lemma check_weights [simp]:
  "ic_weight (a_check k l w st v h) = w" "ic_weight (checkStatus n) = 5" "ic_weight (checkContentType ct) = 2" "ic_weight (checkHTTPS t) = 4"
  "ic_weight (checkTitle html) = 5" "ic_weight (checkMeta html key l h) = 4" "ic_weight (checkViewport html) = 5"
  "ic_weight (checkCanonical html) = 2" "ic_weight (checkOG html key l) = 2" "ic_weight (checkH1 html) = 3" "ic_weight (checkLang html) = 1"
  "ic_weight (checkFavicon html) = 1" "ic_weight (checkPageSize kb) = 2" "ic_weight (probePath pr t sx l h) = 1"
  "ic_weight (checkResponseTime ms) = 2" "ic_weight (checkCharset html ct) = 1" "ic_weight (checkHeadings html) = 2"
  "ic_weight (checkWordCount html) = 2" "ic_weight (checkImagesAlt html) = 2" "ic_weight (checkLinks host html t) = 2"
  by (simp_all add: a_check_def checkStatus_def checkContentType_def checkHTTPS_def checkTitle_def checkMeta_def checkViewport_def
      checkCanonical_def checkOG_def checkH1_def checkLang_def checkFavicon_def checkPageSize_def probePath_def checkResponseTime_def
      checkCharset_def checkHeadings_def checkWordCount_def checkImagesAlt_def checkLinks_def Let_def
      split: option.split list.split probed.split)

lemma in_cat_simps:
  "map ic_weight (in_cat k cs) = map ic_weight cs" "map ic_category (in_cat k cs) = map (\<lambda>_. k) cs" "length (in_cat k cs) = length cs"
  by (simp_all add: in_cat_def)

lemma page_weights:
  "map ic_weight (page_checks host probe t st ct ms kb html) = [5, 4, 2, 2, 5, 4, 2, 1, 1, 2, 2, 2, 1, 3, 2, 2, 5, 2, 2, 1, 1, 2]"
  by (simp add: page_checks_def in_cat_simps)

text \<open>C31: The score of a report is a percentage, and it is 100 exactly if every check passed, although it is computed with rounding floating-point
  numbers and truncated; a report without checks has score 0, and that is the report of a page that could not be fetched.\<close>
theorem report_score:
  "let r = runInsightChecks host probe fetch target
   in (if ir_checks r = [] then ir_score r = 0
       else 0 \<le> ir_score r \<and> ir_score r \<le> 100 \<and> (ir_score r = 100 \<longleftrightarrow> all_pass (ir_checks r)))
      \<and> (ir_checks r = [] \<longleftrightarrow> \<not> (\<exists>st ct ms body. fetch target = Page st ct ms body))"
proof (cases "fetch target")
  case (Page st ct ms body)
  let ?kb = "(length (take insightsMaxBytes body) + 1023) div 1024"
  let ?cs = "page_checks host probe target st ct ms ?kb (take insightsMaxBytes body)"
  have w: "map ic_weight ?cs = [5, 4, 2, 2, 5, 4, 2, 1, 1, 2, 2, 2, 1, 3, 2, 2, 5, 2, 2, 1, 1, 2]" by (rule page_weights)
  have "list_all (\<lambda>n. 0 < n) (map ic_weight ?cs)" unfolding w by simp
  then have pos: "list_all (\<lambda>c. 0 < ic_weight c) ?cs" by (simp add: list_all_iff)
  have ne: "?cs \<noteq> []" using w by (metis list.map_disc_iff list.distinct(1))
  have "weights ?cs = sum_list (map of_int (map ic_weight ?cs))" by (simp add: comp_def)
  then have "weights ?cs \<le> 64" unfolding w by simp
  from score_meaning[OF pos ne this] show ?thesis using Page ne by (simp add: runInsightChecks_def Let_def)
qed (simp_all add: runInsightChecks_def empty_report_def)

section \<open>Categories\<close>

lemma page_categories:
  "map ic_category (page_checks host probe t st ct ms kb html)
     = replicate 4 catServer @ replicate 9 catMeta @ replicate 3 catStructure @ replicate 5 catQuality @ replicate 1 catLinks"
  by (simp add: page_checks_def in_cat_simps numeral_eq_Suc)

lemmas cat_defs = catServer_def catMeta_def catStructure_def catQuality_def catLinks_def

lemma count_by_category:
  "length (filter (\<lambda>c. ic_category c = k \<and> P c) cs) = length (filter P (filter (\<lambda>c. ic_category c = k) cs))"
  by (simp add: conj_commute)

text \<open>No check is lost between the groups: all five categories appear, and the checks and the passed checks they count add up to those
  of the report.\<close>
theorem categories_partition:
  "let cs = page_checks host probe target st ct ms kb html; gs = computeCategories cs
   in map cs_id gs = map fst categoryMeta \<and> sum_list (map cs_total gs) = length cs
    \<and> sum_list (map cs_pass gs) = length (filter (\<lambda>c. ic_status c = Pass) cs)"
proof -
  let ?cs = "page_checks host probe target st ct ms kb html"
  let ?of = "\<lambda>k. filter (\<lambda>c. ic_category c = k) ?cs"
  have cats: "map ic_category ?cs = replicate 4 catServer @ replicate 9 catMeta @ replicate 3 catStructure @ replicate 5 catQuality @ replicate 1 catLinks"
    by (rule page_categories)
  have len: "length (?of k) = length (filter (\<lambda>x. x = k) (map ic_category ?cs))" for k by (simp add: filter_map comp_def)
  have n: "length (?of catMeta) = 9" "length (?of catStructure) = 3" "length (?of catServer) = 4" "length (?of catQuality) = 5" "length (?of catLinks) = 1"
    unfolding len cats by (simp_all add: cat_defs)
  then have ne: "?of catMeta \<noteq> []" "?of catStructure \<noteq> []" "?of catServer \<noteq> []" "?of catQuality \<noteq> []" "?of catLinks \<noteq> []" by auto
  have "length ?cs = length (map ic_category ?cs)" by simp
  then have total: "length ?cs = 22" unfolding cats by simp
  have "set (map ic_category ?cs) \<subseteq> {catMeta, catStructure, catServer, catQuality, catLinks}" unfolding cats by auto
  then have all: "\<forall>c \<in> set ?cs. ic_category c \<in> {catMeta, catStructure, catServer, catQuality, catLinks}" by auto
  have pass: "length (filter P cs) = length (filter P (filter (\<lambda>c. ic_category c = catMeta) cs)) + length (filter P (filter (\<lambda>c. ic_category c = catStructure) cs))
      + length (filter P (filter (\<lambda>c. ic_category c = catServer) cs)) + length (filter P (filter (\<lambda>c. ic_category c = catQuality) cs))
      + length (filter P (filter (\<lambda>c. ic_category c = catLinks) cs))"
    if "\<forall>c \<in> set cs. ic_category c \<in> {catMeta, catStructure, catServer, catQuality, catLinks}" for P cs
    using that by (induction cs) (auto simp: cat_defs)
  show ?thesis
    using n ne total pass[OF all, of "\<lambda>c. ic_status c = Pass"]
    by (simp add: computeCategories_def categoryMeta_def map_filter_simps Let_def)
qed

end
