(* ===== verification/Seo_Props.thy ===== *)
theory Seo_Props
  imports Suggest_Pr Api_Routes
begin

text \<open>
  Properties of the SEO patcher: nothing of the file is lost and where it is changed, inserted values cannot break out of their attribute.
\<close>

section \<open>Escaping\<close>

text \<open>The inverse of \<open>htmlEscape\<close>, which a browser applies.\<close>
function unescape :: "string \<Rightarrow> string" where
  "unescape s =
     (case s of
        [] \<Rightarrow> []
      | c # cs \<Rightarrow>
          if prefix ''&amp;'' s then CHR ''&'' # unescape (drop 5 s)
          else if prefix ''&lt;'' s then CHR ''<'' # unescape (drop 4 s)
          else if prefix ''&gt;'' s then CHR ''>'' # unescape (drop 4 s)
          else if prefix ''&quot;'' s then CHR 0x22 # unescape (drop 6 s)
          else c # unescape cs)"
  by pat_completeness auto
termination by (relation "measure length") auto

declare unescape.simps [simp del]

lemma unescape_char: "unescape (escape_char c @ s) = c # unescape s"
  by (subst unescape.simps) (simp add: escape_char_def)

lemma unescape_Nil: "unescape [] = []"
  by (simp add: unescape.simps)

text \<open>An escaped value contains no angle bracket and no double quote, so it stays inside the attribute or the title it is put into, and a browser
  reads back exactly the value.\<close>
theorem escape_safe:
  "unescape (htmlEscape s) = s \<and> list_all (\<lambda>c. c \<noteq> CHR ''<'' \<and> c \<noteq> CHR ''>'' \<and> c \<noteq> CHR 0x22) (htmlEscape s)"
proof
  show "unescape (htmlEscape s) = s" by (induction s) (simp_all add: htmlEscape_def unescape_char unescape_Nil)
  show "list_all (\<lambda>c. c \<noteq> CHR ''<'' \<and> c \<noteq> CHR ''>'' \<and> c \<noteq> CHR 0x22) (htmlEscape s)"
    by (induction s) (auto simp: htmlEscape_def escape_char_def)
qed

section \<open>The patched file\<close>

lemma mat_rx_seq_Cons:
  "mat (rx_seq (a # as)) p u r gs \<longleftrightarrow>
     (\<exists>v w g h. u = v @ w \<and> gs = g @ h \<and> mat a p v (w @ r) g \<and> mat (rx_seq as) (rev v @ p) w r h)"
  by (blast elim: mat_rx_seqE intro: mat_rx_seqI)

lemma subseq_insert: "subseq (a @ b) (a @ x @ b)"
  by (rule list_emb_append_mono) (auto intro: list_emb_append2)

lemma head_close_text: "find_rx headCloseRE h = Some m \<Longrightarrow> h = rm_pre m @ rm_text m @ rm_post m"
  using find_rx_split by blast

lemma lower_gt: "lower_char c = lower_char (CHR ''>'') \<Longrightarrow> c = CHR ''>''"
  by (cases "is_upper c") (auto simp: lower_char_def is_upper_def dest: arg_cong[where f = "of_char :: char \<Rightarrow> nat"])

lemma html_open_text:
  assumes "find_rx htmlOpenRE h = Some m"
  shows "h = rm_pre m @ rm_text m @ rm_post m"
    "\<exists>t. map lower_char t = ''<html'' \<and> rm_text m = t @ hd (rm_groups m) @ ''>''"
proof -
  from find_rx_split[OF assms] have h: "h = rm_pre m @ rm_text m @ rm_post m"
    and m: "mat htmlOpenRE (rev (rm_pre m)) (rm_text m) (rm_post m) (rm_groups m)" by auto
  show "h = rm_pre m @ rm_text m @ rm_post m" by (rule h)
  from m obtain t a v where t: "rm_text m = t @ a @ v" "rm_groups m = [a]" "map lower_char t = map lower_char ''<html''"
    "map lower_char v = map lower_char ''>''"
    by (auto simp: htmlOpenRE_def mat_rx_seq_Cons simp del: list.map(2))
  from t(4) obtain c where v: "v = [c]" "lower_char c = lower_char (CHR ''>'')" by auto
  have "c = CHR ''>''" using v(2) by (rule lower_gt)
  moreover have "map lower_char t = ''<html''" unfolding t(3) by (simp add: lower_char_def is_upper_def)
  ultimately show "\<exists>t. map lower_char t = ''<html'' \<and> rm_text m = t @ hd (rm_groups m) @ ''>''"
    using t v by (intro exI[of _ t]) simp
qed

lemma patch_lang_keeps: "subseq (map lower_char h) (map lower_char (fst (patch_lang h i)))"
proof (cases "find_rx htmlOpenRE h")
  case None
  then show ?thesis by (simp add: patch_lang_def)
next
  case (Some m)
  have h: "h = rm_pre m @ rm_text m @ rm_post m" by (rule html_open_text(1)[OF Some])
  obtain t where t: "map lower_char t = ''<html''" "rm_text m = t @ hd (rm_groups m) @ ''>''" using html_open_text(2)[OF Some] by (elim exE conjE)
  have tag: "map lower_char (''<html'' :: string) = ''<html''" by (simp add: lower_char_def is_upper_def)
  have gt: "subseq (map lower_char ''>'') (map lower_char x @ map lower_char ''>'')" for x
    by (rule list_emb_append2) (rule subseq_order.order_refl)
  have open_tag: "map lower_char (rm_text m) = ''<html'' @ map lower_char (hd (rm_groups m)) @ map lower_char ''>''"
    unfolding t(2) map_append t(1) ..
  have tail: "subseq (map lower_char (rm_text m) @ map lower_char (rm_post m))
      (map lower_char ''<html'' @ map lower_char (hd (rm_groups m)) @ (map lower_char x @ map lower_char ''>'') @ map lower_char (rm_post m))" for x
    unfolding open_tag tag append_assoc
    by (rule list_emb_append_mono[OF subseq_order.order_refl list_emb_append_mono[OF subseq_order.order_refl
          list_emb_append_mono[OF gt subseq_order.order_refl, unfolded append_assoc]]])
  have "subseq (map lower_char h) (map lower_char (rm_pre m @ ''<html'' @ hd (rm_groups m) @ (x @ ''>'') @ rm_post m))" for x
    by (subst h) (unfold map_append, rule list_emb_append_mono[OF subseq_order.order_refl tail])
  from this[of "'' lang='' @ dq @ (if si_lang i = '''' then ''en'' else si_lang i) @ dq"] show ?thesis
    using Some by (simp add: patch_lang_def Let_def)
qed

text \<open>The first \<open><html>\<close> tag, if there is one, has the attribute.\<close>
definition lang_done :: "string \<Rightarrow> bool" where
  "lang_done html = (case find_rx htmlOpenRE html of None \<Rightarrow> True | Some m \<Rightarrow> match_string langAttrRE (hd (rm_groups m)))"

text \<open>The first \<open><html>\<close> tag with something inserted before its closing bracket.\<close>
definition with_lang :: "string \<Rightarrow> string \<Rightarrow> bool" where
  "with_lang html h \<longleftrightarrow> (\<exists>m v. find_rx htmlOpenRE html = Some m \<and> h = rm_pre m @ ''<html'' @ hd (rm_groups m) @ v @ ''>'' @ rm_post m)"

text \<open>The file itself, or with one text inserted right before its first \<open></head>\<close>.\<close>
definition before_head :: "string \<Rightarrow> string \<Rightarrow> bool" where
  "before_head h out \<longleftrightarrow> out = h \<or> (\<exists>m ins. find_rx headCloseRE h = Some m \<and> out = rm_pre m @ ins @ rm_text m @ rm_post m)"

lemma patch_lang_shape: "if lang_done html then fst (patch_lang html i) = html else with_lang html (fst (patch_lang html i))"
  by (auto simp: lang_done_def with_lang_def patch_lang_def Let_def split: option.split)

lemma inject_shape: "find_rx headCloseRE h = Some m \<Longrightarrow> before_head h (inject_tags snips m)"
  by (auto simp: before_head_def inject_tags_def Let_def)

lemma before_head_refl [simp]: "before_head h h"
  by (simp add: before_head_def)

lemma apply_shape:
  assumes "applySEOPatches html i = Some (out, ps)"
  shows "out = html \<or> before_head (fst (patch_lang html i)) out"
  using assms inject_shape
  by (auto simp: applySEOPatches_def Let_def split: if_splits prod.splits option.splits)

lemma before_head_keeps: "before_head h out \<Longrightarrow> subseq h out"
proof -
  assume "before_head h out"
  then consider "out = h" | m ins where "find_rx headCloseRE h = Some m" "out = rm_pre m @ ins @ rm_text m @ rm_post m"
    unfolding before_head_def by blast
  then show "subseq h out"
  proof cases
    case 2
    then show ?thesis using head_close_text[OF 2(1)] subseq_insert[of "rm_pre m" "rm_text m @ rm_post m" ins] by simp
  qed simp
qed

text \<open>C30: Nothing of the file is lost.  The patched file contains the original as a subsequence, up to the case of letters (a tag \<open><HTML>\<close> is rewritten in
  lower case).  If the file has no \<open><html>\<close> tag, or its tag has a \<open>lang\<close> attribute, the file is unchanged but for one text inserted right before the first \<open></head>\<close>, so
  that everything from that tag on stays as it was; otherwise the same holds after something was inserted before the closing bracket of its first \<open><html>\<close> tag.\<close>
theorem patch_keeps_file:
  assumes "applySEOPatches html i = Some (out, ps)"
  shows "subseq (map lower_char html) (map lower_char out)
    \<and> (if lang_done html then before_head html out else out = html \<or> (\<exists>h. with_lang html h \<and> before_head h out))"
proof -
  note shape = apply_shape[OF assms] patch_lang_shape[of html i]
  have "subseq (map lower_char html) (map lower_char out)"
    using shape(1) patch_lang_keeps[of html i] subseq_map[OF before_head_keeps, of "fst (patch_lang html i)" out lower_char]
      subseq_order.order_trans by auto
  then show ?thesis using shape by (auto split: if_splits)
qed

text \<open>Searches on a given text are evaluated by these.\<close>
lemmas rx_eval = find_rx_def match_string_def group1_def find_from.simps rx_seq_def lit_def any_case_def star_def plus1_def lazy_star_def
  opt_def one_not_def quote_char_def rx_space_def at_boundary_def word_char_def consumed_def lower_char_def is_upper_def is_lower_def
  is_digit_def

definition app_inputs :: seoInputs where "app_inputs = \<lparr> si_name = ''app'', si_desc = '''', si_url = '''', si_lang = ''en'' \<rparr>"

lemma bare_head:
  "\<exists>m. find_rx headCloseRE ''</head>'' = Some m \<and> rm_pre m = '''' \<and> rm_text m = ''</head>'' \<and> rm_post m = ''''"
  "find_rx htmlOpenRE ''</head>'' = None" "metaContent ''</head>'' ''og:type'' = ''''"
  by (simp_all add: rx_eval headCloseRE_def htmlOpenRE_def metaContent_def meta_key_first_def meta_content_first_def)

theorem patch_keeps_file_witness:
  "\<exists>out ps. applySEOPatches ''</head>'' app_inputs = Some (out, ps) \<and> subseq (map lower_char ''</head>'') (map lower_char out)
     \<and> before_head ''</head>'' out \<and> out \<noteq> ''</head>''"
proof -
  from bare_head(1) obtain m where m: "find_rx headCloseRE ''</head>'' = Some m" "rm_pre m = ''''" "rm_text m = ''</head>''" "rm_post m = ''''"
    by (elim exE conjE)
  let ?ps = "head_patches ''</head>'' app_inputs"
  let ?out = "inject_tags (map po_snippet (filter po_applied ?ps)) m"
  have type: "applied_patch ''og_type'' ''Add OpenGraph type'' (meta_tag ''property'' ''og:type'' ''website'') \<in> set ?ps"
    by (simp add: head_patches_def bare_head(3))
  then have ne: "filter po_applied ?ps \<noteq> []" unfolding filter_empty_conv by (intro notI) (drule (1) bspec, simp add: applied_patch_def)
  have ev: "applySEOPatches ''</head>'' app_inputs = Some (?out, ?ps)"
    using ne by (simp add: applySEOPatches_def patch_lang_def bare_head(2) m(1) Let_def)
  have "length ''</head>'' < length ?out"
    using ne by (cases "filter po_applied ?ps") (simp_all add: inject_tags_def head_indent_def m Let_def)
  then have "?out \<noteq> ''</head>''" by (metis less_irrefl)
  moreover have "lang_done ''</head>''" by (simp add: lang_done_def bare_head(2))
  ultimately show ?thesis using ev patch_keeps_file[OF ev] by auto
qed

section \<open>Where the patcher fails\<close>

text \<open>A file whose \<open><html>\<close> tag swallows the only \<open></head>\<close>: adding the attribute destroys the closing tag, the second search finds
  none, and the code indexes the missing result.\<close>
theorem broken_page_panics:
  "applySEOPatches ''<html </head>'' app_inputs = None"
proof -
  have 1: "\<exists>m. find_rx headCloseRE ''<html </head>'' = Some m" by (simp add: rx_eval headCloseRE_def)
  have 2: "fst (patch_lang ''<html </head>'' app_inputs) = ''<html </head lang='' @ dq @ ''en'' @ dq @ ''>''"
    by (simp add: patch_lang_def rx_eval htmlOpenRE_def langAttrRE_def app_inputs_def Let_def dq_def)
  have 3: "find_rx headCloseRE (''<html </head lang='' @ dq @ ''en'' @ dq @ ''>'') = None"
    by (simp add: rx_eval headCloseRE_def dq_def)
  have "metaContent (''<html </head lang='' @ dq @ ''en'' @ dq @ ''>'') ''og:type'' = ''''"
    by (simp add: metaContent_def meta_key_first_def meta_content_first_def rx_eval dq_def)
  then have "\<exists>p \<in> set (head_patches (''<html </head lang='' @ dq @ ''en'' @ dq @ ''>'') app_inputs). po_applied p"
    by (simp add: head_patches_def applied_patch_def)
  then have "filter po_applied (head_patches (''<html </head lang='' @ dq @ ''en'' @ dq @ ''>'') app_inputs) \<noteq> []"
    by (simp add: filter_empty_conv)
  then show ?thesis using 1 2 3 by (auto simp: applySEOPatches_def Let_def split: prod.split)
qed

end
