(* ===== verification/Seo_Safety.thy ===== *)
theory Seo_Safety
  imports Seo_Props
begin

text \<open>
  What the request for an SEO pull request may send to GitHub: reads of the project's repository, tokens of its own installation, and writes to
  the branch the handler itself creates.
\<close>

section \<open>Requests added to the trace\<close>

definition adds :: "(greq \<Rightarrow> bool) \<Rightarrow> 'g github \<Rightarrow> 'g github \<Rightarrow> bool" where
  "adds P g g' \<longleftrightarrow> (\<exists>rs. g_trace g' = g_trace g @ rs \<and> list_all P rs)"

lemma adds_refl [simp, intro]: "adds P g g"
  by (auto simp: adds_def)

lemma adds_trans: "adds P g h \<Longrightarrow> adds P h k \<Longrightarrow> adds P g k"
  by (fastforce simp: adds_def)

lemma adds_one: "g_trace g' = g_trace g @ [q] \<Longrightarrow> P q \<Longrightarrow> adds P g g'"
  by (auto simp: adds_def)

lemma adds_cache: "adds P g (h\<lparr> g_cache := c \<rparr>) \<longleftrightarrow> adds P g h"
  by (simp add: adds_def)

definition token_request :: "int \<Rightarrow> string \<Rightarrow> greq" where
  "token_request inst jwt = \<lparr> gq_meth = POST, gq_url = token_url inst, gq_bearer = jwt, gq_body = None \<rparr>"

lemma mint_adds:
  "mint_attempts x jwt inst i er n g = (r, g') \<Longrightarrow> P (token_request inst jwt) \<Longrightarrow> adds P g g'"
proof (induction n arbitrary: i er g)
  case (Suc n)
  from mint_attempts_Suc[OF Suc.prems(1)] show ?case
  proof (elim disjE exE conjE)
    fix g1 e assume m: "mint_attempts x jwt inst (Suc i) e n g1 = (r, g')"
      and g1: "g_trace g1 = g_trace g @ [\<lparr> gq_meth = POST, gq_url = token_url inst, gq_bearer = jwt, gq_body = None \<rparr>]"
    have "adds P g g1" using adds_one[OF g1[folded token_request_def]] Suc.prems(2) .
    then show ?thesis using Suc.IH[OF m Suc.prems(2)] by (rule adds_trans)
  qed (use Suc.prems(2) in \<open>auto simp: adds_cache token_request_def intro: adds_one\<close>)
qed auto

lemma token_adds:
  assumes "installationToken x inst g = (r, g')" "\<And>jwt. P (token_request inst jwt)"
  shows "adds P g g'"
  using assms(1) by (auto simp: installationToken_def split: option.splits sum.splits intro: mint_adds[where P = P, OF _ assms(2)])

lemma call_adds:
  assumes "gh_call x inst m url body g = (r, g')" "\<And>jwt. P (token_request inst jwt)"
    "\<And>tok. P \<lparr> gq_meth = m, gq_url = url, gq_bearer = tok, gq_body = body \<rparr>"
  shows "adds P g g'"
proof -
  obtain t g1 where t: "installationToken x inst g = (t, g1)" by (cases "installationToken x inst g")
  have 1: "adds P g g1" by (rule token_adds[where P = P, OF t assms(2)])
  show ?thesis
  proof (cases t)
    case (Inl e)
    then show ?thesis using assms(1) t 1 by (simp add: gh_call_def)
  next
    case (Inr tok)
    then have "g_trace g' = g_trace g1 @ [\<lparr> gq_meth = m, gq_url = url, gq_bearer = tok, gq_body = body \<rparr>]"
      using assms(1) t by (auto simp: gh_call_def gdo_simps)
    from adds_one[where P = P, OF this assms(3)] show ?thesis by (rule adds_trans[OF 1])
  qed
qed

section \<open>What is permitted\<close>

definition bot_branch :: "string \<Rightarrow> string \<Rightarrow> bool" where
  "bot_branch stamp b \<longleftrightarrow> b = ''spinup/seo-fixes-'' @ stamp \<or> b = ''spinup/seo-fixes-'' @ stamp @ ''-r''"

text \<open>A field of the body, as a string.\<close>
definition body_field :: "greq \<Rightarrow> string \<Rightarrow> string" where
  "body_field q k = fst (dec_str (Option.bind (gq_body q) (\<lambda>b. json_at (Some b) [k])))"

definition permitted :: "string \<Rightarrow> int \<Rightarrow> string \<Rightarrow> greq \<Rightarrow> bool" where
  "permitted stamp inst repo q \<longleftrightarrow>
     (case gq_meth q of
        GET \<Rightarrow> prefix (repo_url repo) (gq_url q)
      | POST \<Rightarrow> gq_url q = token_url inst
          \<or> gq_url q = repo_url repo @ ''/git/refs''
            \<and> prefix ''refs/heads/'' (body_field q ''ref'') \<and> bot_branch stamp (drop 11 (body_field q ''ref''))
          \<or> gq_url q = repo_url repo @ ''/pulls'' \<and> bot_branch stamp (body_field q ''head'')
            \<and> json_at (gq_body q) [''draft''] = Some (JBool True)
      | PUT \<Rightarrow> gq_url q \<in> (\<lambda>f. repo_url repo @ ''/contents/'' @ f) ` set suggestPREntryCandidates \<and> bot_branch stamp (body_field q ''branch'')
      | _ \<Rightarrow> False)"

lemma permitted_token [simp]: "permitted stamp inst repo (token_request inst jwt)"
  by (simp add: permitted_def token_request_def)

lemma permitted_GET:
  "prefix (repo_url repo) url \<Longrightarrow> permitted stamp inst repo \<lparr> gq_meth = GET, gq_url = url, gq_bearer = tok, gq_body = b \<rparr>"
  by (simp add: permitted_def)

lemma permitted_ref:
  assumes "bot_branch stamp b"
  shows "permitted stamp inst repo \<lparr> gq_meth = POST, gq_url = repo_url repo @ ''/git/refs'', gq_bearer = tok,
      gq_body = Some (jlabels [(''ref'', ''refs/heads/'' @ b), (''sha'', sha)]) \<rparr>"
proof -
  have "body_field \<lparr> gq_meth = POST, gq_url = repo_url repo @ ''/git/refs'', gq_bearer = tok,
      gq_body = Some (jlabels [(''ref'', ''refs/heads/'' @ b), (''sha'', sha)]) \<rparr> ''ref'' = ''refs/heads/'' @ b"
    by (simp add: body_field_def jlabels_def json_at_def dec_str_def)
  then show ?thesis using assms by (simp add: permitted_def)
qed

lemma read_adds:
  assumes "gh_call x inst GET (repo_url repo @ p) None g = (r, g')"
  shows "adds (permitted stamp inst repo) g g'"
  by (rule call_adds[OF assms]) (simp_all add: permitted_GET)

section \<open>Every step stays within\<close>

lemma meta_adds: "getRepoMeta x inst repo g = (r, g') \<Longrightarrow> adds (permitted stamp inst repo) g g'"
  using read_adds[of x inst repo "''''" g _ _ stamp]
  by (auto simp: getRepoMeta_def Let_def split: prod.splits kresp.splits if_splits)

lemma file_adds: "getFile x b64 inst repo p ref g = (r, g') \<Longrightarrow> adds (permitted stamp inst repo) g g'"
  using read_adds[of x inst repo "''/contents/'' @ p @ (if ref = '''' then '''' else ''?ref='' @ ref)" g _ _ stamp]
  by (auto simp: getFile_def Let_def split: prod.splits kresp.splits if_splits option.splits)

lemma sha_adds: "getBranchSHA x inst repo b g = (r, g') \<Longrightarrow> adds (permitted stamp inst repo) g g'"
  using read_adds[of x inst repo "''/git/ref/heads/'' @ b" g _ _ stamp]
  by (auto simp: getBranchSHA_def Let_def split: prod.splits kresp.splits if_splits)

lemma create_adds:
  assumes "createBranch x inst repo b sha g = (r, g')" "bot_branch stamp b"
  shows "adds (permitted stamp inst repo) g g'"
proof -
  obtain q g1 where q: "gh_call x inst POST (repo_url repo @ ''/git/refs'') (Some (jlabels [(''ref'', ''refs/heads/'' @ b), (''sha'', sha)])) g = (q, g1)"
    by fastforce
  then have "adds (permitted stamp inst repo) g g1"
    by (rule call_adds) (rule permitted_token, rule permitted_ref[OF assms(2)])
  moreover have "g' = g1" using assms(1) q by (auto simp: createBranch_def split: kresp.splits if_splits)
  ultimately show ?thesis by simp
qed

lemma put_adds:
  assumes "putFile x enc inst repo p b msg c sha g = (r, g')" "bot_branch stamp b" "p \<in> set suggestPREntryCandidates"
  shows "adds (permitted stamp inst repo) g g'"
proof -
  let ?body = "Some (jlabels ([(''message'', msg), (''branch'', b), (''content'', enc c)] @ (if sha = '''' then [] else [(''sha'', sha)])))"
  obtain q g1 where q: "gh_call x inst PUT (repo_url repo @ ''/contents/'' @ p) ?body g = (q, g1)" by fastforce
  then have "adds (permitted stamp inst repo) g g1"
    by (rule call_adds) (rule permitted_token, use assms(2,3) in \<open>simp add: permitted_def body_field_def jlabels_def json_at_def dec_str_def\<close>)
  moreover have "g' = g1" using assms(1) q by (auto simp: putFile_def split: kresp.splits if_splits)
  ultimately show ?thesis by simp
qed

lemma pull_adds:
  assumes "createPR x inst repo title body b base True g = (r, g')" "bot_branch stamp b"
  shows "adds (permitted stamp inst repo) g g'"
proof -
  let ?body = "Some (JObj [(''title'', JStr title), (''body'', JStr body), (''head'', JStr b), (''base'', JStr base), (''draft'', JBool True),
                          (''maintainer_can_modify'', JBool True)])"
  obtain q g1 where q: "gh_call x inst POST (repo_url repo @ ''/pulls'') ?body g = (q, g1)" by fastforce
  then have "adds (permitted stamp inst repo) g g1"
    by (rule call_adds) (rule permitted_token, use assms(2) in \<open>simp add: permitted_def body_field_def json_at_def dec_str_def\<close>)
  moreover have "g' = g1" using assms(1) q by (auto simp: createPR_def Let_def split: kresp.splits if_splits prod.splits)
  ultimately show ?thesis by simp
qed

lemma pick_adds: "pick_entry x b64 inst repo base ps g = (r, g') \<Longrightarrow>
    adds (permitted stamp inst repo) g g' \<and> (\<forall>p c sha. r = Some (p, c, sha) \<longrightarrow> p \<in> set ps)"
proof (induction ps arbitrary: g)
  case (Cons p ps)
  obtain f g1 where f: "getFile x b64 inst repo p base g = (f, g1)" by fastforce
  note 1 = file_adds[OF f, of stamp]
  show ?case
  proof (cases "\<exists>c sha. f = Inr (Some (c, sha))")
    case True
    then show ?thesis using Cons.prems f 1 by auto
  next
    case False
    then have "pick_entry x b64 inst repo base ps g1 = (r, g')"
      using Cons.prems f by (auto split: sum.splits option.splits)
    from Cons.IH[OF this] adds_trans[OF 1] show ?thesis by auto
  qed
qed simp

lemma fork_adds:
  assumes "fork_branch x inst repo (''spinup/seo-fixes-'' @ stamp) sha g = (r, g')"
  shows "adds (permitted stamp inst repo) g g' \<and> (\<forall>b. r = Inr b \<longrightarrow> bot_branch stamp b)"
proof -
  let ?b = "''spinup/seo-fixes-'' @ stamp"
  have bs: "bot_branch stamp ?b" "bot_branch stamp (?b @ ''-r'')" by (simp_all add: bot_branch_def)
  obtain o1 g1 where 1: "createBranch x inst repo ?b sha g = (o1, g1)" by fastforce
  obtain o2 g2 where 2: "createBranch x inst repo (?b @ ''-r'') sha g1 = (o2, g2)" by fastforce
  note a1 = create_adds[OF 1 bs(1)] and a2 = create_adds[OF 2 bs(2)]
  from adds_trans[OF a1 a2] a1 show ?thesis
    using assms 1 2 bs by (auto simp: fork_branch_def split: option.splits branch_error.splits)
qed

lemma open_adds:
  assumes "open_pr x enc stamp t base (entry, fsha, url) new applied skipped g = (a, g')" "entry \<in> set suggestPREntryCandidates"
  shows "adds (permitted stamp (dt_inst t) (dt_full_name t)) g g'"
proof -
  let ?A = "adds (permitted stamp (dt_inst t) (dt_full_name t))"
  let ?msg = "''seo: add '' @ show_nat (length applied) @ '' missing meta tag'' @ plural (length applied) @ '' to '' @ entry"
  obtain r1 g1 where 1: "getBranchSHA x (dt_inst t) (dt_full_name t) base g = (r1, g1)" by fastforce
  note A1 = sha_adds[OF 1, of stamp]
  show ?thesis
  proof (cases r1)
    case (Inl e)
    then show ?thesis using assms(1) 1 A1 by (auto simp: open_pr_def)
  next
    case (Inr sha)
    obtain r2 g2 where 2: "fork_branch x (dt_inst t) (dt_full_name t) (''spinup/seo-fixes-'' @ stamp) sha g1 = (r2, g2)" by fastforce
    note F = fork_adds[OF 2]
    have A2: "?A g g2" using adds_trans[OF A1] F by blast
    show ?thesis
    proof (cases r2)
      case (Inl q)
      then show ?thesis using assms(1) 1 Inr 2 A2 by (auto simp: open_pr_def)
    next
      case b: (Inr b)
      then have bot: "bot_branch stamp b" using F by blast
      obtain r3 g3 where 3: "putFile x enc (dt_inst t) (dt_full_name t) entry b ?msg new fsha g2 = (r3, g3)" by fastforce
      have A3: "?A g g3" by (rule adds_trans[OF A2 put_adds[OF 3 bot assms(2)]])
      obtain r4 g4 where 4: "createPR x (dt_inst t) (dt_full_name t) (''Spinup: SEO improvements for '' @ entry)
           (buildPRBody applied skipped entry url) b base True g3 = (r4, g4)" by fastforce
      have A4: "?A g g4" by (rule adds_trans[OF A3 pull_adds[OF 4 bot]])
      show ?thesis
        using assms(1) 1 Inr 2 b 3 4 A3 A4
        by (cases r3; cases r4) (auto simp: open_pr_def)
    qed
  qed
qed

section \<open>The whole request\<close>

lemma suggest_adds:
  assumes "handleSuggestInsightsPR x b64 enc stamp r s g = (a, g')" "ur_user r = Some u"
    "uuid_in (ur_id r) = Some pid" "GetProjectForDeploy s pid (scope_of u) = Some t"
  shows "adds (permitted stamp (dt_inst t) (dt_full_name t)) g g'"
proof (cases "uuidRE (ur_id r) \<and> ready_url s (dt_project t) \<noteq> None")
  case False
  then show ?thesis using assms by (auto simp: handleSuggestInsightsPR_def split: if_splits)
next
  case True
  then obtain url where id: "uuidRE (ur_id r)" and url: "ready_url s (dt_project t) = Some url" by auto
  let ?A = "adds (permitted stamp (dt_inst t) (dt_full_name t))"
  obtain m g1 where m: "getRepoMeta x (dt_inst t) (dt_full_name t) g = (m, g1)" by fastforce
  note A1 = meta_adds[OF m, of stamp]
  obtain desc dflt where d: "(case m of Inr db \<Rightarrow> db | Inl _ \<Rightarrow> ('''', dt_branch t)) = (desc, dflt)" by fastforce
  define base where "base = (if dt_branch t \<noteq> '''' then dt_branch t else if dflt \<noteq> '''' then dflt else ''main'')"
  obtain e g2 where e: "pick_entry x b64 (dt_inst t) (dt_full_name t) base suggestPREntryCandidates g1 = (e, g2)" by fastforce
  note P = pick_adds[OF e, of stamp]
  have A2: "?A g g2" using adds_trans[OF A1] P by blast
  note head = assms id url m d base_def[symmetric] e
  show ?thesis
  proof (cases e)
    case None
    then show ?thesis using head A2 by (simp add: handleSuggestInsightsPR_def Let_def)
  next
    case (Some q)
    obtain entry original fsha where q: "e = Some (entry, original, fsha)" using Some by (cases q) auto
    define i where "i = \<lparr> si_name = (case last_index_byte (dt_full_name t) (CHR ''/'') of None \<Rightarrow> dt_full_name t | Some i \<Rightarrow> drop (i + 1) (dt_full_name t)),
      si_desc = desc, si_url = url, si_lang = ''en'' \<rparr>"
    show ?thesis
    proof (cases "applySEOPatches original i")
      case None
      then show ?thesis using head q A2 by (simp add: handleSuggestInsightsPR_def Let_def i_def)
    next
      case patched: (Some np)
      obtain new ps where np: "np = (new, ps)" by fastforce
      obtain ap sk where sp: "splitPatches ps = (ap, sk)" by fastforce
      have "(a, g') = (a, g2) \<or> open_pr x enc stamp t base (entry, fsha, url) new ap sk g2 = (a, g')"
        using head q patched np sp by (simp add: handleSuggestInsightsPR_def Let_def i_def split: if_splits)
      moreover have "entry \<in> set suggestPREntryCandidates" using P q by blast
      ultimately show ?thesis using A2 adds_trans[OF A2] open_adds by blast
    qed
  qed
qed

text \<open>C29: a request for an SEO pull request sends something to GitHub only for a project the caller may deploy; every request it sends
  is then a read below that repository, a token for that project's installation, the creation of the bot's branch, a commit of one of the four
  entry files to the bot's branch, or a draft pull request from it: no branch of the tenant is written, and nothing is merged.\<close>
theorem pr_touches_bot_branch_only:
  "(case ur_user r of
      None \<Rightarrow> snd (handleSuggestInsightsPR x b64 enc stamp r s g) = g
    | Some u \<Rightarrow>
        (case (case uuid_in (ur_id r) of None \<Rightarrow> None | Some pid \<Rightarrow> GetProjectForDeploy s pid (scope_of u)) of
           None \<Rightarrow> snd (handleSuggestInsightsPR x b64 enc stamp r s g) = g
         | Some t \<Rightarrow> (\<exists>rs. g_trace (snd (handleSuggestInsightsPR x b64 enc stamp r s g)) = g_trace g @ rs
              \<and> list_all (permitted stamp (dt_inst t) (dt_full_name t)) rs)))"
proof (cases "\<exists>u pid t. ur_user r = Some u \<and> uuid_in (ur_id r) = Some pid \<and> GetProjectForDeploy s pid (scope_of u) = Some t")
  case True
  then obtain u pid t where t: "ur_user r = Some u" "uuid_in (ur_id r) = Some pid" "GetProjectForDeploy s pid (scope_of u) = Some t" by blast
  obtain a g' where h: "handleSuggestInsightsPR x b64 enc stamp r s g = (a, g')" by fastforce
  show ?thesis using suggest_adds[OF h t] t h by (simp add: adds_def)
next
  case False
  then have "snd (handleSuggestInsightsPR x b64 enc stamp r s g) = g" by (auto simp: handleSuggestInsightsPR_def split: option.splits)
  then show ?thesis using False by (auto split: option.splits)
qed

end
