(* ===== verification/Query_Console.thy ===== *)
theory Query_Console
  imports Api_Databases
begin

text \<open>
  The SQL console (\<open>query_handler.go\<close>).  The tenant's PostgreSQL server behind pgconn is a parameter: for a connection string and a script it
  answers with a connection error, or with the results of the statements in order and the error that ended the script, if any.  The trace
  records which script was sent over which connection string.
\<close>

section \<open>What the driver returns\<close>

record pg_tag =
  tag_text :: string
  tag_rows :: int

datatype conn_error =
    Pg_error string string string string int
  | Plain_error string

text \<open>One result: the descriptions (name, type OID) of its columns, its rows, and what \<open>Close\<close> returns after them.\<close>
record result_set =
  rs_fields :: "(string \<times> nat) list"
  rs_rows :: "string option list list"
  rs_close :: "(conn_error, pg_tag) result"

type_synonym 'q pg = "string \<Rightarrow> string \<Rightarrow> 'q \<Rightarrow> (string, result_set list \<times> conn_error option) result \<times> 'q"

record 'q console =
  q_state :: 'q
  q_trace :: "(string \<times> string) list"

section \<open>Answers\<close>

record queryErrorBody =
  qe_message :: string
  qe_code :: string
  qe_detail :: string
  qe_hint :: string
  qe_position :: int

text \<open>\<open>qr_rows = None\<close> is the nil slice, which is encoded as \<open>null\<close>.\<close>
record queryResponse =
  qr_columns :: "(string \<times> string) list"
  qr_rows :: "string option list list option"
  qr_count :: int
  qr_truncated :: bool
  qr_command :: string
  qr_elapsed :: int
  qr_error :: "queryErrorBody option"

definition queryMaxSQLBytes :: nat where "queryMaxSQLBytes = 100 * 1024"
definition queryMaxRows :: nat where "queryMaxRows = 1000"

definition pgErrorToBody :: "conn_error \<Rightarrow> queryErrorBody" where
  "pgErrorToBody e =
     (case e of
        Pg_error m c d h p \<Rightarrow> \<lparr> qe_message = m, qe_code = c, qe_detail = d, qe_hint = h, qe_position = p \<rparr>
      | Plain_error m \<Rightarrow> \<lparr> qe_message = m, qe_code = '''', qe_detail = '''', qe_hint = '''', qe_position = 0 \<rparr>)"

definition pgOIDName :: "nat \<Rightarrow> string" where
  "pgOIDName oid =
     (if oid = 16 then ''bool'' else if oid = 17 then ''bytea'' else if oid \<in> {20, 21, 23} then ''int''
      else if oid \<in> {25, 1043} then ''text'' else if oid \<in> {700, 701, 1700} then ''numeric'' else if oid = 1082 then ''date''
      else if oid \<in> {1114, 1184} then ''timestamp'' else if oid = 2950 then ''uuid'' else if oid \<in> {114, 3802} then ''json'' else '''')"

definition no_response :: queryResponse where
  "no_response = \<lparr> qr_columns = [], qr_rows = None, qr_count = 0, qr_truncated = False, qr_command = '''', qr_elapsed = 0, qr_error = None \<rparr>"

section \<open>Running a script\<close>

text \<open>The rows read so far, their number, and the rest; \<open>True\<close> if the loop is left because of the cap.\<close>
fun row_loop :: "string option list list \<Rightarrow> nat \<Rightarrow> string option list list \<Rightarrow> string option list list \<times> nat \<times> bool" where
  "row_loop acc n [] = (acc, n, False)"
| "row_loop acc n (r # rs) = (if n \<ge> queryMaxRows then (acc, n, True) else row_loop (acc @ [r]) (Suc n) rs)"

fun result_loop :: "queryResponse \<Rightarrow> pg_tag \<Rightarrow> result_set list \<Rightarrow> queryResponse \<times> pg_tag" where
  "result_loop resp tag [] = (resp, tag)"
| "result_loop resp tag (r # rs) =
     (let cols = map (\<lambda>(n, oid). (n, pgOIDName oid)) (rs_fields r); (rows, n, tr) = row_loop [] 0 (rs_rows r)
      in case rs_close r of
           Inl e \<Rightarrow> (resp\<lparr> qr_error := Some (pgErrorToBody e) \<rparr>, tag)
         | Inr t \<Rightarrow>
             result_loop (if rs_fields r = [] then resp
                          else resp\<lparr> qr_columns := cols, qr_rows := (if rows = [] then None else Some rows), qr_truncated := tr,
                                     qr_count := int n \<rparr>) t rs)"

text \<open>The command and the row count of the last statement.\<close>
definition finish_query :: "queryResponse \<Rightarrow> pg_tag \<Rightarrow> queryResponse" where
  "finish_query resp tag =
     (let cmd = (case fields_func is_space (tag_text tag) of [] \<Rightarrow> '''' | p # _ \<Rightarrow> p);
          resp1 = resp\<lparr> qr_command := cmd \<rparr>
      in if cmd \<noteq> ''SELECT'' \<and> qr_columns resp = [] then resp1\<lparr> qr_count := tag_rows tag \<rparr> else resp1)"

text \<open>The zero \<open>pgconn.CommandTag\<close>.\<close>
definition no_tag :: pg_tag where "no_tag = \<lparr> tag_text = '''', tag_rows = 0 \<rparr>"

definition runTenantQuery :: "'q pg \<Rightarrow> string \<Rightarrow> string \<Rightarrow> 'q console \<Rightarrow> queryResponse \<times> 'q console" where
  "runTenantQuery pg dsn sql w =
     (let (ans, st) = pg dsn sql (q_state w); w1 = \<lparr> q_state = st, q_trace = q_trace w @ [(dsn, sql)] \<rparr>
      in (case ans of
            Inl e \<Rightarrow> no_response\<lparr> qr_error := Some (pgErrorToBody (Plain_error (''connect: '' @ e))) \<rparr>
          | Inr (rs, ended) \<Rightarrow>
              (let (resp, tag) = result_loop (no_response\<lparr> qr_rows := Some [] \<rparr>) no_tag rs
               in if qr_error resp \<noteq> None then resp
                  else case ended of
                         Some e \<Rightarrow> resp\<lparr> qr_error := Some (pgErrorToBody e) \<rparr>
                       | None \<Rightarrow> finish_query resp tag), w1))"

section \<open>The handler\<close>

datatype query_reply = Q_status nat | Q_answer queryResponse

record query_req =
  qq_id :: string
  qq_user :: "sessionUser option"
  qq_body :: string

definition handleRunQuery ::
  "'q pg \<Rightarrow> (string \<Rightarrow> json option) \<Rightarrow> int \<Rightarrow> query_req \<Rightarrow> db \<Rightarrow> 'q console \<Rightarrow> query_reply \<times> 'q console" where
  "handleRunQuery pg parse elapsed r s w =
     (if \<not> uuidRE (qq_id r) then (Q_status 400, w)
      else case qq_user r of
        None \<Rightarrow> (Q_status 401, w)
      | Some u \<Rightarrow>
          if length (qq_body r) > queryMaxSQLBytes + 1024 then (Q_status 413, w)
          else (let (sql0, ok) = unmarshal (parse (qq_body r)) [''sql''] dec_str; sql = trim_space sql0
                in if \<not> ok then (Q_status 400, w)
                   else if sql = '''' then (Q_status 400, w)
                   else if length sql > queryMaxSQLBytes then (Q_status 413, w)
                   else (case uuid_in (qq_id r) of
                           None \<Rightarrow> (Q_status 500, w)
                         | Some pid \<Rightarrow>
                        (case GetProjectDatabaseForOwner s pid (scope_of u) of
                           None \<Rightarrow> (Q_status 404, w)
                         | Some pd \<Rightarrow>
                             (let (resp, w1) = runTenantQuery pg (buildDSN (pd_host pd) (pd_port pd) (pd_role pd) (pd_password pd) (pd_name pd)) sql w
                              in (Q_answer (resp\<lparr> qr_elapsed := elapsed \<rparr>), w1))))))"

section \<open>The row cap\<close>

lemma row_loop_take:
  "row_loop acc n rs = (acc @ take (queryMaxRows - n) rs, n + min (queryMaxRows - n) (length rs), length rs > queryMaxRows - n)"
  by (induction acc n rs rule: row_loop.induct) (auto simp: Suc_diff_le take_Cons' min_def not_le)

text \<open>The answer after a result set: replaced if the set has columns, kept otherwise.\<close>
definition shown :: "queryResponse \<Rightarrow> result_set \<Rightarrow> queryResponse" where
  "shown resp r =
     (if rs_fields r = [] then resp
      else resp\<lparr> qr_columns := map (\<lambda>(n, oid). (n, pgOIDName oid)) (rs_fields r),
                 qr_rows := (if rs_rows r = [] then None else Some (take queryMaxRows (rs_rows r))),
                 qr_truncated := length (rs_rows r) > queryMaxRows, qr_count := int (min queryMaxRows (length (rs_rows r))) \<rparr>)"

lemma queryMaxRows_pos: "queryMaxRows > 0"
  by (simp add: queryMaxRows_def)

lemma result_loop_ok:
  "\<lbrakk>\<forall>r\<in>set rs. \<exists>t. rs_close r = Inr t\<rbrakk> \<Longrightarrow>
     result_loop resp tag rs = (foldl shown resp rs, if rs = [] then tag else projr (rs_close (List.last rs)))"
proof (induction rs arbitrary: resp tag)
  case (Cons r rs)
  from Cons.prems obtain t where t: "rs_close r = Inr t" by auto
  have "take queryMaxRows (rs_rows r) = [] \<longleftrightarrow> rs_rows r = []" using queryMaxRows_pos by simp
  then have "result_loop resp tag (r # rs) = result_loop (shown resp r) t rs"
    using t by (simp add: row_loop_take shown_def Let_def)
  also have "\<dots> = (foldl shown (shown resp r) rs, if rs = [] then t else projr (rs_close (List.last rs)))"
    using Cons.prems by (intro Cons.IH) auto
  finally show ?case using t by simp
qed simp

lemma shown_last:
  "foldl shown resp rs = (case filter (\<lambda>r. rs_fields r \<noteq> []) rs of [] \<Rightarrow> resp | ms \<Rightarrow> shown resp (List.last ms))"
proof (induction rs rule: rev_induct)
  case (snoc r rs)
  have keep: "rs_fields r = [] \<Longrightarrow> shown a r = a" for a by (simp add: shown_def)
  have new: "rs_fields r \<noteq> [] \<Longrightarrow> shown (shown resp a) r = shown resp r" for a by (simp add: shown_def)
  show ?case using snoc by (cases "rs_fields r = []") (auto simp: keep new split: list.splits)
qed simp

lemma finish_query_keeps:
  "qr_columns (finish_query r t) = qr_columns r" "qr_rows (finish_query r t) = qr_rows r" "qr_truncated (finish_query r t) = qr_truncated r"
  "qr_error (finish_query r t) = qr_error r" "qr_columns r \<noteq> [] \<Longrightarrow> qr_count (finish_query r t) = qr_count r"
  by (simp_all add: finish_query_def Let_def)

lemma shown_fields:
  "rs_fields r \<noteq> [] \<Longrightarrow> qr_columns (shown resp r) = map (\<lambda>(n, oid). (n, pgOIDName oid)) (rs_fields r)
     \<and> qr_rows (shown resp r) = (if rs_rows r = [] then None else Some (take queryMaxRows (rs_rows r)))
     \<and> qr_truncated (shown resp r) = (length (rs_rows r) > queryMaxRows) \<and> qr_error (shown resp r) = qr_error resp
     \<and> qr_count (shown resp r) = int (min queryMaxRows (length (rs_rows r)))"
  by (simp add: shown_def)

text \<open>C35: A script that runs to its end: the answer shows the last result set that has columns, cut to the first thousand rows and marked as
  truncated exactly if there were more; a script without such a result answers with no columns and the number of rows its last statement
  affected, except that a last statement with the tag \<open>SELECT n\<close> (\<open>CREATE TABLE AS\<close>, \<open>SELECT INTO\<close>) is answered with 0.  The command is the first word
  of the last tag.  A result set without rows is answered with null instead of the empty list.\<close>
theorem query_shows_last_result:
  assumes "pg dsn sql (q_state w) = (Inr (rs, None), st)" "\<forall>r\<in>set rs. \<exists>t. rs_close r = Inr t"
  shows "let resp = fst (runTenantQuery pg dsn sql w); tag = (if rs = [] then no_tag else projr (rs_close (List.last rs)))
   in qr_error resp = None \<and> qr_command resp = (case fields_func is_space (tag_text tag) of [] \<Rightarrow> '''' | c # _ \<Rightarrow> c) \<and>
     (case filter (\<lambda>r. rs_fields r \<noteq> []) rs of
        [] \<Rightarrow> qr_columns resp = [] \<and> qr_rows resp = Some [] \<and> \<not> qr_truncated resp
             \<and> qr_count resp = (if qr_command resp = ''SELECT'' then 0 else tag_rows tag)
      | m # ms \<Rightarrow>
          (let r = List.last (m # ms)
           in map fst (qr_columns resp) = map fst (rs_fields r)
            \<and> qr_rows resp = (if rs_rows r = [] then None else Some (take 1000 (rs_rows r)))
            \<and> (qr_truncated resp \<longleftrightarrow> length (rs_rows r) > 1000) \<and> qr_count resp = int (min 1000 (length (rs_rows r)))))"
proof -
  let ?start = "no_response\<lparr> qr_rows := Some [] \<rparr>"
  let ?none = no_tag
  let ?t = "if rs = [] then no_tag else projr (rs_close (List.last rs))"
  let ?s = "foldl shown ?start rs"
  have loop: "result_loop ?start ?none rs = (?s, ?t)" by (rule result_loop_ok[OF assms(2)])
  show ?thesis
  proof (cases "filter (\<lambda>r. rs_fields r \<noteq> []) rs")
    case Nil
    then have s: "?s = ?start" by (simp add: shown_last)
    then have resp: "fst (runTenantQuery pg dsn sql w) = finish_query ?start ?t"
      using assms(1) loop by (simp add: runTenantQuery_def no_response_def)
    show ?thesis unfolding resp Nil by (simp add: finish_query_keeps Let_def) (simp add: finish_query_def no_response_def Let_def)
  next
    case (Cons m ms)
    let ?r = "List.last (m # ms)"
    have s: "?s = shown ?start ?r" by (simp only: shown_last Cons list.case)
    have "?r \<in> set (filter (\<lambda>r. rs_fields r \<noteq> []) rs)" unfolding Cons by (rule last_in_set) simp
    then have f: "rs_fields ?r \<noteq> []" by simp
    note F = shown_fields[OF f, of ?start]
    have resp: "fst (runTenantQuery pg dsn sql w) = finish_query ?s ?t"
      using assms(1) loop F unfolding s by (simp add: runTenantQuery_def no_response_def)
    have names: "map fst (map (\<lambda>(n, oid). (n, pgOIDName oid)) (rs_fields ?r)) = map fst (rs_fields ?r)" by (simp add: case_prod_unfold)
    have "qr_columns (shown ?start ?r) \<noteq> []" using F f by simp
    then show ?thesis unfolding resp s Cons using F names
      by (simp add: finish_query_keeps Let_def queryMaxRows_def no_response_def) (simp add: finish_query_def Let_def)
  qed
qed

definition two_results :: "unit pg" where
  "two_results = (\<lambda>dsn sql st.
     (Inr ([\<lparr> rs_fields = [(''n'', 23)], rs_rows = [[Some ''1''], [None]], rs_close = Inr \<lparr> tag_text = ''SELECT 2'', tag_rows = 2 \<rparr> \<rparr>,
            \<lparr> rs_fields = [], rs_rows = [], rs_close = Inr \<lparr> tag_text = ''INSERT 0 5'', tag_rows = 5 \<rparr> \<rparr>], None), st))"

theorem query_shows_last_result_witness:
  "let resp = fst (runTenantQuery two_results ''d'' ''q'' \<lparr> q_state = (), q_trace = [] \<rparr>)
   in qr_rows resp = Some [[Some ''1''], [None]] \<and> qr_count resp = 2 \<and> \<not> qr_truncated resp \<and> map fst (qr_columns resp) = [''n'']"
proof -
  let ?w = "\<lparr> q_state = (), q_trace = [] \<rparr> :: unit console"
  have a: "two_results ''d'' ''q'' (q_state ?w) =
     (Inr ([\<lparr> rs_fields = [(''n'', 23)], rs_rows = [[Some ''1''], [None]], rs_close = Inr \<lparr> tag_text = ''SELECT 2'', tag_rows = 2 \<rparr> \<rparr>,
            \<lparr> rs_fields = [], rs_rows = [], rs_close = Inr \<lparr> tag_text = ''INSERT 0 5'', tag_rows = 5 \<rparr> \<rparr>], None), ())"
    by (simp add: two_results_def)
  show ?thesis using query_shows_last_result[where pg = two_results and w = ?w, OF a] by (simp add: Let_def)
qed

section \<open>Whose database is asked\<close>

text \<open>C34: The console contacts at most one database, with the connection string stored for the project, and only if the caller may see the project:
  a foreign project is not found and nothing is sent.  What is sent is a trimmed, non-empty script of at most 100 KiB.\<close>
theorem query_uses_own_database:
  "case handleRunQuery pg parse elapsed r s w of (a, w') \<Rightarrow>
     w' = w \<and> (\<exists>st. a = Q_status st)
     \<or> (\<exists>u pid pd sql. qq_user r = Some u \<and> uuid_in (qq_id r) = Some pid \<and> (scope_of u = '''' \<or> project_owner s pid = Some (scope_of u))
          \<and> pd \<in> set (project_dbs s) \<and> pd_project pd = pid
          \<and> q_trace w' = q_trace w @ [(buildDSN (pd_host pd) (pd_port pd) (pd_role pd) (pd_password pd) (pd_name pd), sql)]
          \<and> sql \<noteq> '''' \<and> trim_space sql = sql \<and> length sql \<le> 102400)"
proof -
  obtain a w' where h: "handleRunQuery pg parse elapsed r s w = (a, w')" by fastforce
  show ?thesis
  proof (cases "w' = w \<and> (\<exists>st. a = Q_status st)")
    case False
    obtain sql0 ok where u: "unmarshal (parse (qq_body r)) [''sql''] dec_str = (sql0, ok)" by fastforce
    let ?sql = "trim_space sql0"
    from False h u obtain usr pid pd resp w1 where
      f: "qq_user r = Some usr" "GetProjectDatabaseForOwner s pid (scope_of usr) = Some pd" "?sql \<noteq> ''''"
        "length ?sql \<le> queryMaxSQLBytes"
        "runTenantQuery pg (buildDSN (pd_host pd) (pd_port pd) (pd_role pd) (pd_password pd) (pd_name pd)) ?sql w = (resp, w1)" "w' = w1" "uuid_in (qq_id r) = Some pid"
      by (auto simp: handleRunQuery_def Let_def split: if_splits option.splits prod.splits)
    have "q_trace w' = q_trace w @ [(buildDSN (pd_host pd) (pd_port pd) (pd_role pd) (pd_password pd) (pd_name pd), ?sql)]"
      using f(5,6) by (auto simp: runTenantQuery_def Let_def split: prod.splits)
    moreover have "scope_of usr = '''' \<or> project_owner s pid = Some (scope_of usr)" by (rule own_db.get_Some_owner[OF f(2)])
    moreover have "pd \<in> set (project_dbs s)" "pd_project pd = pid"
      using f(2) by (auto simp: GetProjectDatabaseForOwner_def split: option.splits dest: find_SomeD)
    moreover have "trim_space ?sql = ?sql" unfolding trim_space_def by (rule trim_id[OF trim_hd trim_last])
    ultimately show ?thesis using f h by (auto simp: queryMaxSQLBytes_def)
  qed (simp add: h)
qed

end
