(* ===== verification/Migrate.thy ===== *)
theory Migrate
  imports Go_Strings
begin

text \<open>
  The schema migrations that run when the control plane starts (\<open>migrate.go\<close>).  What a migration file does to the tables it describes is a
  parameter; the model keeps that state together with the rows of \<open>schema_migrations\<close> and rolls a failed transaction back.
\<close>

section \<open>Files\<close>

record mig_file =
  mf_name :: string
  mf_dir :: bool
  mf_body :: string

record mig =
  mi_version :: int
  mi_name :: string
  mi_body :: string

text \<open>\<open>Sscanf\<close> with \<open>%04d_\<close>: spaces, then an optional sign and digits in at most four characters, then an underscore.\<close>
definition scan_version :: "string \<Rightarrow> int option" where
  "scan_version name =
     (let s = dropWhile (\<lambda>c. c = CHR '' '') name; sign = takeWhile (\<lambda>c. c = CHR ''+'' \<or> c = CHR ''-'') (take 1 s);
          ds = takeWhile is_digit (take (4 - length sign) (drop (length sign) s)); rest = drop (length sign + length ds) s;
          n = foldl (\<lambda>k c. 10 * k + (of_char c - 48)) 0 ds :: int
      in if ds \<noteq> [] \<and> prefix ''_'' rest then Some (if sign = ''-'' then - n else n) else None)"

fun read_files :: "mig_file list \<Rightarrow> (string, mig list) result" where
  "read_files [] = Inr []"
| "read_files (f # fs) =
     (if mf_dir f \<or> \<not> suffix ''.sql'' (mf_name f) then read_files fs
      else case scan_version (mf_name f) of
             None \<Rightarrow> Inl (''migration filename must start with NNNN_: '' @ mf_name f)
           | Some v \<Rightarrow>
               (case read_files fs of
                  Inl e \<Rightarrow> Inl e
                | Inr ms \<Rightarrow> Inr (\<lparr> mi_version = v, mi_name = mf_name f, mi_body = mf_body f \<rparr> # ms)))"

section \<open>The database\<close>

text \<open>The rows of \<open>schema_migrations\<close> (\<open>None\<close>: no such table) and everything the migrations work on.\<close>
record 'd schema =
  sc_rows :: "(int \<times> string) list option"
  sc_data :: 'd

definition create_table :: "'d schema \<Rightarrow> 'd schema" where
  "create_table s = (case sc_rows s of None \<Rightarrow> s\<lparr> sc_rows := Some [] \<rparr> | Some _ \<Rightarrow> s)"

definition recorded :: "'d schema \<Rightarrow> int list" where
  "recorded s = (case sc_rows s of None \<Rightarrow> [] | Some rs \<Rightarrow> map fst rs)"

text \<open>One transaction: the file, then its row; an error rolls both back.\<close>
definition apply_mig :: "(string \<Rightarrow> 'd \<Rightarrow> (string, 'd) result) \<Rightarrow> mig \<Rightarrow> 'd schema \<Rightarrow> string option \<times> 'd schema" where
  "apply_mig exec m s =
     (case exec (mi_body m) (sc_data s) of
        Inl e \<Rightarrow> (Some (''apply migration '' @ mi_name m @ '': '' @ e), s)
      | Inr d \<Rightarrow> (None, \<lparr> sc_rows = map_option (\<lambda>rs. rs @ [(mi_version m, mi_name m)]) (sc_rows s), sc_data = d \<rparr>))"

fun apply_all :: "(string \<Rightarrow> 'd \<Rightarrow> (string, 'd) result) \<Rightarrow> mig list \<Rightarrow> 'd schema \<Rightarrow> string option \<times> 'd schema" where
  "apply_all exec [] s = (None, s)"
| "apply_all exec (m # ms) s =
     (if mi_version m \<in> set (recorded s) then apply_all exec ms s
      else case apply_mig exec m s of
             (Some e, s1) \<Rightarrow> (Some e, s1)
           | (None, s1) \<Rightarrow> apply_all exec ms s1)"

definition runMigrations ::
  "(string \<Rightarrow> 'd \<Rightarrow> (string, 'd) result) \<Rightarrow> mig_file list \<Rightarrow> 'd schema \<Rightarrow> string option \<times> 'd schema" where
  "runMigrations exec files s0 =
     (let s = create_table s0
      in case read_files files of
           Inl e \<Rightarrow> (Some e, s)
         | Inr ms \<Rightarrow> apply_all exec (sort_key mi_version ms) s)"

section \<open>Restarts\<close>

definition ready_table :: "'d schema \<Rightarrow> bool" where
  "ready_table s \<longleftrightarrow> sc_rows s \<noteq> None \<and> distinct (recorded s)"

lemma create_table_ready: "distinct (recorded s) \<Longrightarrow> ready_table (create_table s)"
  by (auto simp: ready_table_def create_table_def recorded_def split: option.splits)

lemma create_table_same: "ready_table s \<Longrightarrow> create_table s = s"
  by (auto simp: ready_table_def create_table_def)

lemma create_table_recorded [simp]: "recorded (create_table s) = recorded s"
  by (simp add: create_table_def recorded_def split: option.splits)

lemma apply_mig_fails: "apply_mig exec m s = (Some e, s') \<Longrightarrow> s' = s"
  by (auto simp: apply_mig_def split: sum.splits)

lemma apply_mig_ok:
  "apply_mig exec m s = (None, s') \<Longrightarrow> ready_table s \<Longrightarrow> mi_version m \<notin> set (recorded s) \<Longrightarrow>
     ready_table s' \<and> recorded s' = recorded s @ [mi_version m] \<and> exec (mi_body m) (sc_data s) = Inr (sc_data s')"
  by (auto simp: apply_mig_def ready_table_def recorded_def split: sum.splits option.splits)

lemma apply_all_ready:
  assumes "apply_all exec ms s = (r, s')" "ready_table s"
  shows "ready_table s' \<and> set (recorded s) \<subseteq> set (recorded s') \<and> (r = None \<longrightarrow> mi_version ` set ms \<subseteq> set (recorded s'))"
  using assms
proof (induction ms arbitrary: s)
  case (Cons m ms)
  show ?case
  proof (cases "mi_version m \<in> set (recorded s)")
    case True
    then show ?thesis using Cons.IH[of s] Cons.prems by auto
  next
    case False
    obtain o1 s1 where a: "apply_mig exec m s = (o1, s1)" by fastforce
    show ?thesis
    proof (cases o1)
      case None
      note k = apply_mig_ok[OF a[unfolded None] Cons.prems(2) False]
      have "apply_all exec ms s1 = (r, s')" using Cons.prems(1) False a None by simp
      from Cons.IH[OF this] k show ?thesis by auto
    next
      case (Some e)
      then have "r = Some e" "s' = s" using Cons.prems(1) False a apply_mig_fails by auto
      then show ?thesis using Cons.prems(2) by simp
    qed
  qed
qed simp

lemma apply_all_nothing: "mi_version ` set ms \<subseteq> set (recorded s) \<Longrightarrow> apply_all exec ms s = (None, s)"
  by (induction ms) auto

text \<open>A restart after a failure resumes: everything applied stays applied, and going on from there is the same as applying the whole list in one go
  to the state the first run started from, had the failing file worked then.\<close>
lemma apply_all_resume:
  assumes "apply_all exec ms s = (r, s')" "ready_table s" "\<And>b d d'. exec b d = Inr d' \<Longrightarrow> exec' b d = Inr d'"
  shows "apply_all exec' ms s' = apply_all exec' ms s"
  using assms(1,2)
proof (induction ms arbitrary: s)
  case (Cons m ms)
  show ?case
  proof (cases "mi_version m \<in> set (recorded s)")
    case True
    then have "apply_all exec ms s = (r, s')" using Cons.prems(1) by simp
    with True Cons show ?thesis using apply_all_ready[of exec ms s r s'] by auto
  next
    case False
    obtain o1 s1 where a: "apply_mig exec m s = (o1, s1)" by fastforce
    show ?thesis
    proof (cases o1)
      case None
      note k = apply_mig_ok[OF a[unfolded None] Cons.prems(2) False]
      have a': "apply_mig exec' m s = (None, s1)" using a None assms(3) by (auto simp: apply_mig_def split: sum.splits)
      have m: "apply_all exec ms s1 = (r, s')" using Cons.prems(1) False a None by simp
      have "mi_version m \<in> set (recorded s')" using apply_all_ready[OF m] k by auto
      then show ?thesis using Cons.IH[OF m] k False a' by simp
    next
      case (Some e)
      then have "s' = s" using Cons.prems(1) False a apply_mig_fails[of exec m s] by auto
      then show ?thesis by simp
    qed
  qed
qed simp

text \<open>C33: Migrations are safe to restart.  Each run leaves every version recorded at most once and never forgets one; a run that succeeds has recorded
  every file, so that a further start changes nothing; and after a run that fails, a later run in which the failing file works ends exactly as if it
  had been the first.\<close>
theorem migrations_restart:
  assumes "runMigrations exec files s = (r, s')" "distinct (recorded s)" "read_files files = Inr ms"
    and "\<And>b d d'. exec b d = Inr d' \<Longrightarrow> exec' b d = Inr d'"
  shows "distinct (recorded s') \<and> set (recorded s) \<subseteq> set (recorded s')
    \<and> (r = None \<longrightarrow> mi_version ` set ms \<subseteq> set (recorded s') \<and> runMigrations exec' files s' = (None, s'))
    \<and> runMigrations exec' files s' = runMigrations exec' files s"
proof -
  let ?ms = "sort_key mi_version ms"
  have run: "apply_all exec ?ms (create_table s) = (r, s')" using assms(1,3) by (simp add: runMigrations_def Let_def)
  note R = apply_all_ready[OF run create_table_ready[OF assms(2)]]
  have again: "runMigrations exec' files s' = apply_all exec' ?ms s'"
    using assms(3) R create_table_same[of s'] by (simp add: runMigrations_def Let_def)
  also have "\<dots> = apply_all exec' ?ms (create_table s)" by (rule apply_all_resume[OF run create_table_ready[OF assms(2)] assms(4)])
  also have "\<dots> = runMigrations exec' files s" using assms(3) by (simp add: runMigrations_def Let_def)
  finally have same: "runMigrations exec' files s' = runMigrations exec' files s" .
  have "runMigrations exec' files s' = (None, s')" if "r = None"
    unfolding again using R that by (intro apply_all_nothing) simp
  then show ?thesis using R same by (simp add: ready_table_def)
qed

section \<open>Instances\<close>

definition demo_files :: "mig_file list" where
  "demo_files = [\<lparr> mf_name = ''0001_a.sql'', mf_dir = False, mf_body = ''a'' \<rparr>, \<lparr> mf_name = ''0002_b.sql'', mf_dir = False, mf_body = ''b'' \<rparr>]"

definition demo_migs :: "mig list" where
  "demo_migs = [\<lparr> mi_version = 1, mi_name = ''0001_a.sql'', mi_body = ''a'' \<rparr>, \<lparr> mi_version = 2, mi_name = ''0002_b.sql'', mi_body = ''b'' \<rparr>]"

definition log_body :: "string \<Rightarrow> string list \<Rightarrow> (string, string list) result" where "log_body b d = Inr (d @ [b])"

definition log_all_but_b :: "string \<Rightarrow> string list \<Rightarrow> (string, string list) result" where
  "log_all_but_b b d = (if b = ''b'' then Inl ''syntax error'' else Inr (d @ [b]))"

definition empty_schema :: "string list schema" where "empty_schema = \<lparr> sc_rows = None, sc_data = [] \<rparr>"

lemma demo_read: "read_files demo_files = Inr demo_migs"
  by (simp add: demo_files_def demo_migs_def scan_version_def Let_def is_digit_def suffix_def)

theorem migrations_restart_witness:
  "let (r, s') = runMigrations log_all_but_b demo_files empty_schema
   in r = Some ''apply migration 0002_b.sql: syntax error'' \<and> recorded s' = [1]
    \<and> runMigrations log_body demo_files s' = (None, \<lparr> sc_rows = Some [(1, ''0001_a.sql''), (2, ''0002_b.sql'')], sc_data = [''a'', ''b''] \<rparr>)"
proof -
  let ?s = "\<lparr> sc_rows = Some [(1, ''0001_a.sql'')], sc_data = [''a''] \<rparr>"
  note ev = runMigrations_def demo_read create_table_def empty_schema_def recorded_def apply_mig_def demo_migs_def Let_def
  have 1: "runMigrations log_all_but_b demo_files empty_schema = (Some ''apply migration 0002_b.sql: syntax error'', ?s)"
    by (simp add: ev log_all_but_b_def)
  have 2: "runMigrations log_body demo_files empty_schema
      = (None, \<lparr> sc_rows = Some [(1, ''0001_a.sql''), (2, ''0002_b.sql'')], sc_data = [''a'', ''b''] \<rparr>)"
    by (simp add: ev log_body_def)
  have d: "distinct (recorded empty_schema)" by (simp add: recorded_def empty_schema_def)
  have more: "log_body b x = Inr x'" if "log_all_but_b b x = Inr x'" for b x x'
    using that by (simp add: log_all_but_b_def log_body_def split: if_splits)
  have "runMigrations log_body demo_files ?s = runMigrations log_body demo_files empty_schema"
    using migrations_restart[where exec' = log_body, OF 1 d demo_read more] by blast
  then show ?thesis using 1 2 by (simp add: recorded_def)
qed

text \<open>A file below the highest recorded version is applied as well, and of two files with the same number only one is.\<close>
theorem lower_version_is_applied:
  "snd (runMigrations log_body demo_files \<lparr> sc_rows = Some [(2, ''0002_b.sql'')], sc_data = [] \<rparr>)
   = \<lparr> sc_rows = Some [(2, ''0002_b.sql''), (1, ''0001_a.sql'')], sc_data = [''a''] \<rparr>"
  by (simp add: runMigrations_def demo_read create_table_def recorded_def apply_mig_def demo_migs_def log_body_def Let_def)

end
