(* ===== verification/Log_Streams.thy ===== *)
theory Log_Streams
  imports Reconciler
begin

text \<open>
  The log endpoints (\<open>logs.go\<close>, \<open>runtime_logs.go\<close>) with the pod look-up and the log stream of \<open>k8s.go\<close> they need.  A handler produces a list
  of server-sent events; the padding and the heartbeat comments around them are the subject of \<open>Sse\<close>.  While a handler waits, the
  database, the clock, the client's connection and the connection to the API server change: all are functions of a step counter that every iteration of a loop advances.
  Loops take fuel; \<open>None\<close> means that it ran out.
\<close>

section \<open>Log streams of pods\<close>

text \<open>What a request for a log has brought at a step: first the answer (nothing yet, a transport error, or a status), then, read by read, the body.
  With \<open>follow=true\<close> the body stays open for as long as the container runs, so a read may have nothing for any number of steps.\<close>
datatype log_answer = No_answer | Answer_error string | Answer nat
datatype log_read = Nothing_yet | Bytes string | End_of_body | Read_error string

text \<open>\<open>context.Canceled\<close> is told apart from other errors.\<close>
datatype lerr = Canceled | Lerr string

record 'k log_ext =
  lx_api :: "'k api"
  lx_answer :: "kreq \<Rightarrow> nat \<Rightarrow> 'k \<Rightarrow> log_answer \<times> 'k"
  lx_read :: "kreq \<Rightarrow> nat \<Rightarrow> 'k \<Rightarrow> log_read \<times> 'k"
  lx_tm :: "string \<Rightarrow> time"
  lx_now :: "nat \<Rightarrow> time"
  lx_cancelled :: "nat \<Rightarrow> bool"
  lx_db :: "nat \<Rightarrow> db"

type_synonym event = "string \<times> json"

record 'k log_world =
  lw_kube :: "'k kube"
  lw_step :: nat
  lw_events :: "event list"

definition send :: "string \<Rightarrow> json \<Rightarrow> 'k log_world \<Rightarrow> 'k log_world" where
  "send e j w = w\<lparr> lw_events := lw_events w @ [(e, j)] \<rparr>"

definition send_log :: "string \<Rightarrow> string \<Rightarrow> 'k log_world \<Rightarrow> 'k log_world" where
  "send_log c m = send ''log'' (jlabels [(''c'', c), (''m'', m)])"

definition on_pods :: "('k kube \<Rightarrow> 'a \<times> 'k kube) \<Rightarrow> 'k log_world \<Rightarrow> 'a \<times> 'k log_world" where
  "on_pods f w = (let (r, k) = f (lw_kube w) in (r, w\<lparr> lw_kube := k \<rparr>))"

definition tick_step :: "'k log_world \<Rightarrow> 'k log_world" where
  "tick_step w = w\<lparr> lw_step := Suc (lw_step w) \<rparr>"

definition max_token :: nat where "max_token = 2 ^ 20"

definition drop_cr :: "string \<Rightarrow> string" where "drop_cr s = trim_suffix s [CHR 0x0D]"

text \<open>\<open>bufio.Scanner\<close> with lines: the lines that end in a newline; a line that does not fit the buffer ends the scan with an error.\<close>
fun full_lines :: "string list \<Rightarrow> string list \<times> bool" where
  "full_lines [] = ([], False)"
| "full_lines (p # ps) = (if length p \<ge> max_token then ([], True) else (let (ls, long) = full_lines ps in (drop_cr p # ls, long)))"

definition log_path :: "string \<Rightarrow> string \<Rightarrow> string \<Rightarrow> string" where
  "log_path ns pod c = ns_path ''/api/v1'' ns (''pods/'' @ pathEscape pod @ ''/log?follow=true&container='' @ queryEscape c @ ''&timestamps=false'')"

definition log_req :: "string \<Rightarrow> string \<Rightarrow> string \<Rightarrow> kreq" where
  "log_req ns pod c = \<lparr> rq_meth = GET, rq_path = log_path ns pod c, rq_body = None \<rparr>"

definition note_req :: "kreq \<Rightarrow> 'k log_world \<Rightarrow> 'k log_world" where
  "note_req r w = w\<lparr> lw_kube := (lw_kube w)\<lparr> k_trace := k_trace (lw_kube w) @ [r] \<rparr> \<rparr>"

definition on_conn :: "('k \<Rightarrow> 'a \<times> 'k) \<Rightarrow> 'k log_world \<Rightarrow> 'a \<times> 'k log_world" where
  "on_conn f w = (let (a, k) = f (k_state (lw_kube w)) in (a, w\<lparr> lw_kube := (lw_kube w)\<lparr> k_state := k \<rparr> \<rparr>))"

text \<open>\<open>Do\<close> of a request that carries the context: it waits for the status line, or until the context is cancelled.\<close>
fun await_answer :: "'k log_ext \<Rightarrow> nat \<Rightarrow> kreq \<Rightarrow> 'k log_world \<Rightarrow> (lerr, nat) result option \<times> 'k log_world" where
  "await_answer x 0 r w = (None, w)"
| "await_answer x (Suc fuel) r w =
     (if lx_cancelled x (lw_step w) then (Some (Inl Canceled), w)
      else case on_conn (lx_answer x r (lw_step w)) w of
             (No_answer, w1) \<Rightarrow> await_answer x fuel r (tick_step w1)
           | (Answer_error e, w1) \<Rightarrow> (Some (Inl (Lerr e)), w1)
           | (Answer st, w1) \<Rightarrow> (Some (Inr st), w1))"

text \<open>\<open>io.ReadAll\<close> of a body whose error is dropped: what came before the end, an error or the cancellation.\<close>
fun read_all :: "'k log_ext \<Rightarrow> nat \<Rightarrow> kreq \<Rightarrow> string \<Rightarrow> 'k log_world \<Rightarrow> string option \<times> 'k log_world" where
  "read_all x 0 r acc w = (None, w)"
| "read_all x (Suc fuel) r acc w =
     (if lx_cancelled x (lw_step w) then (Some acc, w)
      else case on_conn (lx_read x r (lw_step w)) w of
             (Nothing_yet, w1) \<Rightarrow> read_all x fuel r acc (tick_step w1)
           | (Bytes b, w1) \<Rightarrow> read_all x fuel r (acc @ b) (tick_step w1)
           | (End_of_body, w1) \<Rightarrow> (Some acc, w1)
           | (Read_error e, w1) \<Rightarrow> (Some acc, w1))"

text \<open>What the scanner holds when the body ends is its last line, unless it is empty.\<close>
definition flush_line :: "string \<Rightarrow> string \<Rightarrow> 'k log_world \<Rightarrow> 'k log_world" where
  "flush_line c buf w = (if buf = '''' then w else send_log c (drop_cr buf) w)"

text \<open>The loop \<open>for sc.Scan()\<close>: every read hands out the lines it completes; \<open>buf\<close> is the beginning of the next one.\<close>
fun scan_body :: "'k log_ext \<Rightarrow> nat \<Rightarrow> string \<Rightarrow> kreq \<Rightarrow> string \<Rightarrow> 'k log_world \<Rightarrow> lerr option option \<times> 'k log_world" where
  "scan_body x 0 c r buf w = (None, w)"
| "scan_body x (Suc fuel) c r buf w =
     (if lx_cancelled x (lw_step w) then (Some (Some Canceled), flush_line c buf w)
      else case on_conn (lx_read x r (lw_step w)) w of
             (Nothing_yet, w1) \<Rightarrow> scan_body x fuel c r buf (tick_step w1)
           | (Bytes b, w1) \<Rightarrow>
               (let ps = split_on (CHR 0x0A) (buf @ b); (ls, long) = full_lines (butlast ps); w2 = fold (send_log c) ls w1
                in if long \<or> length (List.last ps) \<ge> max_token then (Some (Some (Lerr ''bufio.Scanner: token too long'')), w2)
                   else scan_body x fuel c r (List.last ps) (tick_step w2))
           | (End_of_body, w1) \<Rightarrow> (Some None, flush_line c buf w1)
           | (Read_error e, w1) \<Rightarrow> (Some (Some (Lerr e)), flush_line c buf w1))"

fun streamPodLog ::
  "'k log_ext \<Rightarrow> nat \<Rightarrow> string \<Rightarrow> string \<Rightarrow> string \<Rightarrow> 'k log_world \<Rightarrow> lerr option option \<times> 'k log_world" where
  "streamPodLog x 0 ns pod c w = (None, w)"
| "streamPodLog x (Suc fuel) ns pod c w =
     (if lx_cancelled x (lw_step w) then (Some (Some Canceled), w)
      else case await_answer x (Suc fuel) (log_req ns pod c) (note_req (log_req ns pod c) w) of
        (None, w1) \<Rightarrow> (None, w1)
      | (Some (Inl e), w1) \<Rightarrow> (Some (Some e), w1)
      | (Some (Inr st), w1) \<Rightarrow>
          if st = 400 then
            (case read_all x (Suc fuel) (log_req ns pod c) '''' w1 of
               (None, w2) \<Rightarrow> (None, w2)
             | (Some body, w2) \<Rightarrow>
                 if \<not> contains body ''waiting to start'' then (Some (Some (Lerr (''log stream: status 400: '' @ snippet body))), w2)
                 else if lx_cancelled x (Suc (lw_step w2)) then (Some (Some Canceled), tick_step w2)
                 else streamPodLog x fuel ns pod c (tick_step w2))
          else if st = 404 then (Some None, w1)
          else if \<not> ok2xx st then
            (case read_all x (Suc fuel) (log_req ns pod c) '''' w1 of
               (None, w2) \<Rightarrow> (None, w2)
             | (Some body, w2) \<Rightarrow> (Some (Some (Lerr (''log stream: status '' @ show_nat st @ '': '' @ snippet body))), w2))
          else scan_body x (Suc fuel) c (log_req ns pod c) '''' w1)"

section \<open>Pods of a deployment\<close>

definition pod_terminating :: "json \<Rightarrow> bool" where
  "pod_terminating p \<longleftrightarrow> (case jpath p [''metadata'', ''deletionTimestamp''] of None \<Rightarrow> False | Some JNull \<Rightarrow> False | Some _ \<Rightarrow> True)"

definition pod_rank :: "json \<Rightarrow> nat" where
  "pod_rank p = (let ph = jstr (jpath p [''status'', ''phase'']) in if ph = ''Running'' then 2 else if ph = ''Pending'' then 1 else 0)"

text \<open>The loop over the listed pods with the best one so far.\<close>
fun best_pod :: "(string \<Rightarrow> time) \<Rightarrow> json option \<Rightarrow> json list \<Rightarrow> json option" where
  "best_pod tm best [] = best"
| "best_pod tm best (it # ps) =
     (if pod_terminating it then best_pod tm best ps
      else case best of
             None \<Rightarrow> best_pod tm (Some it) ps
           | Some b \<Rightarrow>
               if pod_rank it > pod_rank b \<or> (pod_rank it = pod_rank b \<and> pod_created tm it > pod_created tm b)
               then best_pod tm (Some it) ps else best_pod tm best ps)"

definition tenant_selector :: "uuid \<Rightarrow> string" where
  "tenant_selector did = ''paas.deployment='' @ did @ '',app.kubernetes.io/component=tenant''"

definition findTenantPod :: "'k api \<Rightarrow> (string \<Rightarrow> time) \<Rightarrow> string \<Rightarrow> uuid \<Rightarrow> 'k kube \<Rightarrow> (string, string) result \<times> 'k kube" where
  "findTenantPod api tm ns did s =
     (case kdo api GET (ns_path ''/api/v1'' ns (''pods?labelSelector='' @ queryEscape (tenant_selector did))) None s of
        (Net_error e, s1) \<Rightarrow> (Inl e, s1)
      | (Resp st body j, s1) \<Rightarrow>
          if \<not> ok2xx st then (Inl (status_error ''list pods'' st body), s1)
          else (case j of None \<Rightarrow> (Inl ''decode pods'', s1)
                | Some v \<Rightarrow>
                    (case best_pod tm None (jarr (jget v ''items'')) of
                       None \<Rightarrow> (Inr '''', s1) | Some p \<Rightarrow> (Inr (pod_name p), s1))))"

section \<open>Waiting\<close>

definition seconds :: "int \<Rightarrow> time" where "seconds n = n * second"

text \<open>\<open>waitForBuildPod\<close>: the empty name after the deadline.\<close>
fun build_pod_loop :: "'k log_ext \<Rightarrow> nat \<Rightarrow> time \<Rightarrow> uuid \<Rightarrow> 'k log_world \<Rightarrow> (lerr, string) result option \<times> 'k log_world" where
  "build_pod_loop x 0 deadline did w = (None, w)"
| "build_pod_loop x (Suc fuel) deadline did w =
     (case on_pods (findBuildPod (lx_api x) (lx_tm x) buildNamespace did) w of
        (Inl e, w1) \<Rightarrow> (Some (Inl (if lx_cancelled x (lw_step w1) then Canceled else Lerr e)), w1)
      | (Inr pod, w1) \<Rightarrow>
          if pod \<noteq> '''' then (Some (Inr pod), w1)
          else if lx_now x (lw_step w1) > deadline then (Some (Inr ''''), w1)
          else if lx_cancelled x (lw_step w1) then (Some (Inl Canceled), w1)
          else build_pod_loop x fuel deadline did (tick_step w1))"

definition waitForBuildPod :: "'k log_ext \<Rightarrow> nat \<Rightarrow> uuid \<Rightarrow> time \<Rightarrow> 'k log_world \<Rightarrow> (lerr, string) result option \<times> 'k log_world" where
  "waitForBuildPod x fuel did max_wait w = build_pod_loop x fuel (lx_now x (lw_step w) + max_wait) did w"

text \<open>\<open>waitForTerminal\<close> returns the row it read last, terminal or not.\<close>
fun terminal_loop :: "'k log_ext \<Rightarrow> nat \<Rightarrow> time \<Rightarrow> uuid \<Rightarrow> 'k log_world \<Rightarrow> deploymentRow option option \<times> 'k log_world" where
  "terminal_loop x 0 deadline did w = (None, w)"
| "terminal_loop x (Suc fuel) deadline did w =
     (let d = GetDeployment (lx_db x (lw_step w)) did
      in if (case d of None \<Rightarrow> False | Some r \<Rightarrow> dr_status r = Ready \<or> dr_status r = Failed) then (Some d, w)
         else if lx_now x (lw_step w) > deadline then (Some d, w)
         else if lx_cancelled x (lw_step w) then (Some d, w)
         else terminal_loop x fuel deadline did (tick_step w))"

definition waitForTerminal :: "'k log_ext \<Rightarrow> nat \<Rightarrow> uuid \<Rightarrow> time \<Rightarrow> 'k log_world \<Rightarrow> deploymentRow option option \<times> 'k log_world" where
  "waitForTerminal x fuel did max_wait w = terminal_loop x fuel (lx_now x (lw_step w) + max_wait) did w"

definition elapsed_message :: "nat \<Rightarrow> string" where
  "elapsed_message attempt = ''Still waiting for a tenant pod'' @ [CHR 0xE2, CHR 0x80, CHR 0xA6] @ '' ('' @ show_nat (attempt * 2) @ ''s elapsed)''"

fun tenant_pod_loop ::
  "'k log_ext \<Rightarrow> nat \<Rightarrow> time \<Rightarrow> string \<Rightarrow> uuid \<Rightarrow> nat \<Rightarrow> 'k log_world \<Rightarrow> (lerr, string) result option \<times> 'k log_world" where
  "tenant_pod_loop x 0 deadline ns did attempt w = (None, w)"
| "tenant_pod_loop x (Suc fuel) deadline ns did attempt w =
     (case on_pods (findTenantPod (lx_api x) (lx_tm x) ns did) w of
        (Inl e, w1) \<Rightarrow> (Some (Inl (if lx_cancelled x (lw_step w1) then Canceled else Lerr e)), w1)
      | (Inr pod, w1) \<Rightarrow>
          if pod \<noteq> '''' then (Some (Inr pod), w1)
          else if lx_now x (lw_step w1) > deadline then (Some (Inr ''''), w1)
          else (let w2 = (if attempt > 0 \<and> attempt mod 3 = 0 then send_log ''system'' (elapsed_message attempt) w1 else w1)
                in if lx_cancelled x (lw_step w2) then (Some (Inl Canceled), w2)
                   else tenant_pod_loop x fuel deadline ns did (Suc attempt) (tick_step w2)))"

definition waitForTenantPod ::
  "'k log_ext \<Rightarrow> nat \<Rightarrow> string \<Rightarrow> uuid \<Rightarrow> time \<Rightarrow> 'k log_world \<Rightarrow> (lerr, string) result option \<times> 'k log_world" where
  "waitForTenantPod x fuel ns did max_wait w = tenant_pod_loop x fuel (lx_now x (lw_step w) + max_wait) ns did 0 w"

section \<open>Build logs\<close>

definition status_text :: "dstatus \<Rightarrow> string" where
  "status_text st = (case st of Queued \<Rightarrow> ''queued'' | Building \<Rightarrow> ''building'' | Deploying \<Rightarrow> ''deploying'' | Ready \<Rightarrow> ''ready'' | Failed \<Rightarrow> ''failed'')"

definition statusPayload :: "deploymentRow \<Rightarrow> json" where
  "statusPayload d =
     jlabels ([(''id'', dr_id d), (''status'', status_text (dr_status d)), (''commit'', dr_sha d), (''slug'', dr_slug d)]
       @ (case dr_url d of None \<Rightarrow> [] | Some u \<Rightarrow> [(''url'', u)]) @ (case dr_image d of None \<Rightarrow> [] | Some i \<Rightarrow> [(''image'', i)]))"

definition buildContainers :: "string list" where "buildContainers = [''clone'', ''kaniko'']"

definition end_reason :: "string \<Rightarrow> 'k log_world \<Rightarrow> 'k log_world" where "end_reason r = send ''end'' (jlabels [(''reason'', r)])"
definition end_status :: "string \<Rightarrow> 'k log_world \<Rightarrow> 'k log_world" where "end_status r = send ''end'' (jlabels [(''status'', r)])"

text \<open>The loop over the containers; \<open>Some False\<close> when the client is gone.  While the build is live a failed stream is reported.\<close>
fun tail_containers :: "'k log_ext \<Rightarrow> nat \<Rightarrow> bool \<Rightarrow> string \<Rightarrow> string list \<Rightarrow> 'k log_world \<Rightarrow> bool option \<times> 'k log_world" where
  "tail_containers x fuel live pod [] w = (Some True, w)"
| "tail_containers x fuel live pod (c # cs) w =
     (if lx_cancelled x (lw_step w) then (Some False, w)
      else case streamPodLog x fuel buildNamespace pod c w of
             (None, w1) \<Rightarrow> (None, w1)
           | (Some r, w1) \<Rightarrow>
               tail_containers x fuel live pod cs
                 (case r of Some (Lerr e) \<Rightarrow> if live then send_log c (''[control-plane] log stream ended: '' @ e) w1 else w1 | _ \<Rightarrow> w1))"

definition cleaned_up :: string where
  "cleaned_up = ''Build artefacts for this deployment have been cleaned up. Logs are only retained while the build pod exists (~1h after completion).''"

text \<open>A finished deployment: what the pod still has.\<close>
definition finished_logs :: "'k log_ext \<Rightarrow> nat \<Rightarrow> deploymentRow \<Rightarrow> uuid \<Rightarrow> 'k log_world \<Rightarrow> unit option \<times> 'k log_world" where
  "finished_logs x fuel dep did w =
     (let (q, w1) = on_pods (findBuildPod (lx_api x) (lx_tm x) buildNamespace did) w; pod = (case q of Inr p \<Rightarrow> p | Inl _ \<Rightarrow> '''')
      in if pod = '''' then (Some (), end_status (status_text (dr_status dep)) (send_log ''system'' cleaned_up w1))
         else case tail_containers x fuel False pod buildContainers w1 of
                (None, w2) \<Rightarrow> (None, w2)
              | (Some False, w2) \<Rightarrow> (Some (), w2)
              | (Some True, w2) \<Rightarrow> (Some (), end_status (status_text (dr_status dep)) w2))"

text \<open>A deployment in flight: wait for the pod, tail it, wait for the row.  Pods are selected by the id as the path spells it, rows by the value it casts to.\<close>
definition live_logs :: "'k log_ext \<Rightarrow> nat \<Rightarrow> deploymentRow \<Rightarrow> string \<Rightarrow> uuid \<Rightarrow> 'k log_world \<Rightarrow> unit option \<times> 'k log_world" where
  "live_logs x fuel dep did key w =
     (case waitForBuildPod x fuel did (seconds 120) w of
        (None, w1) \<Rightarrow> (None, w1)
      | (Some (Inl _), w1) \<Rightarrow> (Some (), end_reason ''no build pod'' w1)
      | (Some (Inr pod), w1) \<Rightarrow>
          if pod = '''' then (Some (), end_reason ''no build pod'' w1)
          else case tail_containers x fuel True pod buildContainers w1 of
                 (None, w2) \<Rightarrow> (None, w2)
               | (Some False, w2) \<Rightarrow> (Some (), w2)
               | (Some True, w2) \<Rightarrow>
                   (case waitForTerminal x fuel key (seconds 30) w2 of
                      (None, w3) \<Rightarrow> (None, w3)
                    | (Some d, w3) \<Rightarrow>
                        (let final = (case d of None \<Rightarrow> GetDeployment (lx_db x (lw_step w3)) key | Some r \<Rightarrow> Some r)
                         in case final of
                              None \<Rightarrow> (Some (), end_status (status_text (dr_status dep)) w3)
                            | Some r \<Rightarrow> (Some (), end_status (status_text (dr_status r)) (send ''status'' (statusPayload r) w3)))))"

text \<open>An error status before the stream starts, or the stream.\<close>
datatype log_reply = Log_status nat | Log_stream | Log_waiting

definition stream_reply :: "unit option \<times> 'k log_world \<Rightarrow> log_reply \<times> 'k log_world" where
  "stream_reply q = (case q of (None, w) \<Rightarrow> (Log_waiting, w) | (Some _, w) \<Rightarrow> (Log_stream, w))"

definition handleDeploymentLogs ::
  "'k log_ext \<Rightarrow> nat \<Rightarrow> string \<Rightarrow> sessionUser option \<Rightarrow> 'k log_world \<Rightarrow> log_reply \<times> 'k log_world" where
  "handleDeploymentLogs x fuel did usr w =
     (if \<not> uuidRE did then (Log_status 400, w)
      else case usr of
        None \<Rightarrow> (Log_status 401, w)
      | Some u \<Rightarrow>
          (case uuid_in did of
             None \<Rightarrow> (Log_status 500, w)
           | Some key \<Rightarrow>
          (case GetDeploymentForUser (lx_db x (lw_step w)) key (if su_admin u then '''' else su_id u) of
             None \<Rightarrow> (Log_status 404, w)
           | Some dep \<Rightarrow>
               (let w1 = send ''status'' (statusPayload dep) w
                in stream_reply (if dr_status dep = Ready \<or> dr_status dep = Failed then finished_logs x fuel dep did w1
                                 else live_logs x fuel dep did key w1)))))"

section \<open>Runtime logs\<close>

definition dash :: string where "dash = [CHR 0xE2, CHR 0x80, CHR 0x94]"

definition runtime_stream :: "'k log_ext \<Rightarrow> nat \<Rightarrow> deploymentRow \<Rightarrow> string \<Rightarrow> uuid \<Rightarrow> 'k log_world \<Rightarrow> unit option \<times> 'k log_world" where
  "runtime_stream x fuel dep ns did w =
     (let sel = tenant_selector did; w0 = send_log ''system'' (''Searching for pod in '' @ ns @ '' with selector '' @ sel) w
      in case waitForTenantPod x fuel ns did (seconds 60) w0 of
           (None, w1) \<Rightarrow> (None, w1)
         | (Some (Inl _), w1) \<Rightarrow> (Some (), end_reason ''no tenant pod'' w1)
         | (Some (Inr pod), w1) \<Rightarrow>
             if pod = '''' then
               (Some (), end_reason ''no tenant pod''
                  (send_log ''system'' (''This usually means: (a) the pod is in ImagePullBackOff / CrashLoopBackOff, (b) the K8s Deployment for this commit was scaled to 0, or (c) a different commit'' @ [CHR 0x27] @ ''s pod is the one actually serving traffic (try clicking another deployment in Overview).'')
                     (send_log ''system'' (''No running tenant pod found for this deployment after 60s. Verify with: kubectl get pods -n '' @ ns @ '' -l ''
                        @ [CHR 0x22] @ sel @ [CHR 0x22]) w1)))
             else (case streamPodLog x fuel ns pod ''app'' (send ''status'' (jlabels [(''status'', status_text (dr_status dep)), (''pod'', pod)]) w1) of
                     (None, w2) \<Rightarrow> (None, w2)
                   | (Some r, w2) \<Rightarrow>
                       (Some (), end_reason ''stream ended''
                          (case r of Some (Lerr e) \<Rightarrow> send_log ''system'' (''[stream ended] '' @ e) w2 | _ \<Rightarrow> w2))))"

definition handleDeploymentRuntimeLogs ::
  "'k log_ext \<Rightarrow> nat \<Rightarrow> string \<Rightarrow> sessionUser option \<Rightarrow> 'k log_world \<Rightarrow> log_reply \<times> 'k log_world" where
  "handleDeploymentRuntimeLogs x fuel did usr w =
     (if \<not> uuidRE did then (Log_status 400, w)
      else case usr of
        None \<Rightarrow> (Log_status 401, w)
      | Some u \<Rightarrow>
          (case uuid_in did of
             None \<Rightarrow> (Log_status 500, w)
           | Some key \<Rightarrow>
          (let scope = (if su_admin u then '''' else su_id u)
           in case GetDeploymentForUser (lx_db x (lw_step w)) key scope of
                None \<Rightarrow> (Log_status 404, w)
              | Some dep \<Rightarrow>
                  (let login = GetDeploymentTenantLogin (lx_db x (lw_step w)) key scope
                   in if login = '''' then (Log_status 404, w)
                      else if dr_status dep = Queued
                      then (Log_stream, end_reason ''not built''
                              (send_log ''system'' (''Deployment hasn'' @ [CHR 0x27] @ ''t been built yet '' @ dash @ '' no runtime pod.'') w))
                      else if dr_status dep = Failed
                      then (Log_stream, end_reason ''failed''
                              (send_log ''system'' (''Deployment did not reach '' @ [CHR 0x27] @ ''ready'' @ [CHR 0x27] @ '' '' @ dash
                                 @ '' no runtime pod was created for this commit.'') w))
                      else stream_reply (runtime_stream x fuel dep (tenantNamespaceFor login) did w)))))"

end
