(* ===== verification/Log_Props.thy ===== *)
theory Log_Props
  imports Log_Streams Builder_Safety
begin

text \<open>
  Properties of the log endpoints: they only read pods, of the build namespace or of the tenant that owns the deployment; a stream that is not cut
  off by the client ends with exactly one \<open>end\<close> event; and a handler whose client has left stops.
\<close>

section \<open>What a step may do\<close>

definition reads_pods :: "string \<Rightarrow> kreq \<Rightarrow> bool" where
  "reads_pods ns r \<longleftrightarrow> rq_meth r = GET \<and> prefix (ns_path ''/api/v1'' ns ''pods'') (rq_path r) \<and> rq_body r = None"

lemma reads_pods_get:
  "reads_pods ns \<lparr> rq_meth = GET, rq_path = ns_path ''/api/v1'' ns (''pods'' @ q), rq_body = None \<rparr>"
  by (simp add: reads_pods_def ns_path_def)

definition lext :: "string \<Rightarrow> 'k log_world \<Rightarrow> 'k log_world \<Rightarrow> bool" where
  "lext ns w w' \<longleftrightarrow> kext (reads_pods ns) (lw_kube w) (lw_kube w') \<and> lw_step w \<le> lw_step w'
     \<and> (\<exists>evs. lw_events w' = lw_events w @ evs \<and> list_all (\<lambda>e. fst e \<noteq> ''end'') evs)"

lemma lext_refl [simp]: "lext ns w w"
  by (simp add: lext_def)

lemma lext_trans: "lext ns a b \<Longrightarrow> lext ns b c \<Longrightarrow> lext ns a c"
  by (fastforce simp: lext_def elim: kext_trans)

lemma lext_log [simp]: "lext ns w (send_log c m w)"
  by (simp add: lext_def send_log_def send_def)

lemma lext_status [simp]: "lext ns w (send ''status'' j w)"
  by (simp add: lext_def send_def)

lemma lext_tick [simp]: "lext ns w (tick_step w)"
  by (simp add: lext_def tick_step_def)

lemma lext_logs: "lext ns w (fold (send_log c) ls w)"
  by (induction ls arbitrary: w) (auto intro: lext_trans[OF lext_log])

lemma lext_on_pods:
  assumes "on_pods f w = (r, w')" "\<And>k r k'. f k = (r, k') \<Longrightarrow> kext (reads_pods ns) k k'"
  shows "lext ns w w' \<and> lw_step w' = lw_step w"
proof -
  obtain q k' where f: "f (lw_kube w) = (q, k')" by fastforce
  from assms(2)[OF f] show ?thesis using assms(1) f by (auto simp: on_pods_def lext_def)
qed

lemma log_req_reads: "reads_pods ns (log_req ns pod c)"
  using reads_pods_get[of ns "''/'' @ pathEscape pod @ ''/log?follow=true&container='' @ queryEscape c @ ''&timestamps=false''"]
  by (simp add: log_req_def log_path_def)

lemma lext_note [simp]: "lext ns w (note_req (log_req ns pod c) w)"
  using log_req_reads by (simp add: lext_def note_req_def kext_def)

lemma lext_conn: "on_conn f w = (a, w') \<Longrightarrow> lext ns w w' \<and> lw_step w' = lw_step w"
  by (auto simp: on_conn_def lext_def kext_def split: prod.splits)

lemma get_reads: "kdo api GET p None k = (r, k') \<Longrightarrow> prefix (ns_path ''/api/v1'' ns ''pods'') p \<Longrightarrow> kext (reads_pods ns) k k'"
  by (erule kext_kdo) (simp add: reads_pods_def)

lemma pods_query:
  "prefix (ns_path ''/api/v1'' ns ''pods'') (ns_path ''/api/v1'' ns ''pods?labelSelector='' @ q)"
  "prefix (ns_path ''/api/v1'' ns ''pods'') (ns_path ''/api/v1'' ns (''pods?labelSelector='' @ q))"
  by (simp_all add: ns_path_def)

lemma build_pod_reads:
  assumes "findBuildPod api tm ns did k = (r, k')"
  shows "kext (reads_pods ns) k k'"
proof -
  obtain q k1 where q: "kdo api GET (ns_path ''/api/v1'' ns ''pods?labelSelector='' @ queryEscape (''paas.deployment='' @ did @ '',app.kubernetes.io/component=build'')) None k = (q, k1)"
    by fastforce
  have "k' = k1" using assms q by (auto simp: findBuildPod_def split: kresp.splits if_splits option.splits)
  then show ?thesis using get_reads[OF q pods_query(1)] by simp
qed

lemma tenant_pod_reads:
  assumes "findTenantPod api tm ns did k = (r, k')"
  shows "kext (reads_pods ns) k k'"
proof -
  obtain q k1 where q: "kdo api GET (ns_path ''/api/v1'' ns (''pods?labelSelector='' @ queryEscape (tenant_selector did))) None k = (q, k1)"
    by fastforce
  have "k' = k1" using assms q by (auto simp: findTenantPod_def split: kresp.splits if_splits option.splits)
  then show ?thesis using get_reads[OF q pods_query(2)] by simp
qed

lemma await_lext: "await_answer x fuel r w = (q, w') \<Longrightarrow> lext ns w w'"
proof (induction fuel arbitrary: w)
  case (Suc fuel)
  obtain a w1 where a: "on_conn (lx_answer x r (lw_step w)) w = (a, w1)" by fastforce
  have t: "lext ns w (tick_step w1)" by (rule lext_trans[OF conjunct1[OF lext_conn[OF a]] lext_tick])
  show ?case using Suc.prems a lext_conn[OF a] Suc.IH[of "tick_step w1"] lext_trans[OF t] by (auto split: if_splits log_answer.splits)
qed simp

lemma read_all_lext: "read_all x fuel r acc w = (q, w') \<Longrightarrow> lext ns w w'"
proof (induction fuel arbitrary: w acc)
  case (Suc fuel)
  obtain a w1 where a: "on_conn (lx_read x r (lw_step w)) w = (a, w1)" by fastforce
  have t: "lext ns w (tick_step w1)" by (rule lext_trans[OF conjunct1[OF lext_conn[OF a]] lext_tick])
  show ?case using Suc.prems a lext_conn[OF a] Suc.IH[where w = "tick_step w1"] lext_trans[OF t] by (auto split: if_splits log_read.splits)
qed simp

lemma lext_flush [simp]: "lext ns w (flush_line c buf w)"
  by (simp add: flush_line_def)

lemma scan_body_lext: "scan_body x fuel c r buf w = (q, w') \<Longrightarrow> lext ns w w'"
proof (induction fuel arbitrary: w buf)
  case (Suc fuel)
  obtain a w1 where a: "on_conn (lx_read x r (lw_step w)) w = (a, w1)" by fastforce
  have 1: "lext ns w w1" using lext_conn[OF a] by blast
  have l: "lext ns w (fold (send_log c) ls w1)" "lext ns w (tick_step (fold (send_log c) ls w1))" for ls
    using lext_trans[OF 1 lext_logs] lext_trans[OF lext_trans[OF 1 lext_logs] lext_tick] by blast+
  have t: "lext ns w (tick_step w1)" by (rule lext_trans[OF 1 lext_tick])
  show ?case
  proof (cases "lx_cancelled x (lw_step w)")
    case False
    show ?thesis
    proof (cases a)
      case (Bytes b)
      obtain ls long where sl: "full_lines (butlast (split_on (CHR 0x0A) (buf @ b))) = (ls, long)" by fastforce
      then show ?thesis using Suc.prems False a Bytes l[of ls] Suc.IH[where w = "tick_step (fold (send_log c) ls w1)"] lext_trans[OF l(2)[of ls]]
        by (auto simp: Let_def split: if_splits)
    qed (use Suc.prems False a Suc.IH[where w = "tick_step w1"] lext_trans[OF t] lext_trans[OF 1 lext_flush] in auto)
  qed (use Suc.prems in auto)
qed simp

lemma streamPodLog_lext: "streamPodLog x fuel ns pod c w = (r, w') \<Longrightarrow> lext ns w w'"
proof (induction fuel arbitrary: w)
  case (Suc fuel)
  let ?r = "log_req ns pod c"
  obtain q w1 where q: "await_answer x (Suc fuel) ?r (note_req ?r w) = (q, w1)" by fastforce
  have 1: "lext ns w w1" by (rule lext_trans[OF lext_note await_lext[OF q]])
  obtain bd w2 where b: "read_all x (Suc fuel) ?r '''' w1 = (bd, w2)" by fastforce
  have 2: "lext ns w w2" by (rule lext_trans[OF 1 read_all_lext[OF b]])
  have t: "lext ns w (tick_step w2)" by (rule lext_trans[OF 2 lext_tick])
  obtain o1 w3 where c: "scan_body x (Suc fuel) c ?r '''' w1 = (o1, w3)" by fastforce
  have 3: "lext ns w w3" by (rule lext_trans[OF 1 scan_body_lext[OF c]])
  show ?case
  proof (cases "lx_cancelled x (lw_step w)")
    case False
    then show ?thesis using Suc.prems q b c 1 2 3 t Suc.IH[of "tick_step w2"] lext_trans[OF t]
      by (auto simp del: await_answer.simps read_all.simps scan_body.simps split: if_splits option.splits sum.splits)
  qed (use Suc.prems in simp)
qed simp

lemma build_loop_lext: "build_pod_loop x fuel dl did w = (r, w') \<Longrightarrow> lext buildNamespace w w'"
proof (induction fuel arbitrary: w)
  case (Suc fuel)
  obtain q w1 where q: "on_pods (findBuildPod (lx_api x) (lx_tm x) buildNamespace did) w = (q, w1)" by fastforce
  have 1: "lext buildNamespace w w1" by (rule conjunct1[OF lext_on_pods[OF q]]) (rule build_pod_reads)
  have t: "lext buildNamespace w (tick_step w1)" by (rule lext_trans[OF 1 lext_tick])
  show ?case using Suc.prems q 1 Suc.IH[of "tick_step w1"] lext_trans[OF t] by (auto split: sum.splits if_splits)
qed simp

lemma terminal_loop_lext: "terminal_loop x fuel dl did w = (r, w') \<Longrightarrow> lext ns w w'"
proof (induction fuel arbitrary: w)
  case (Suc fuel)
  show ?case using Suc.prems Suc.IH[of "tick_step w"] lext_trans[OF lext_tick[of ns w]] by (auto simp: Let_def split: if_splits option.splits)
qed simp

lemma tenant_loop_lext: "tenant_pod_loop x fuel dl ns did a w = (r, w') \<Longrightarrow> lext ns w w'"
proof (induction fuel arbitrary: w a)
  case (Suc fuel)
  obtain q w1 where q: "on_pods (findTenantPod (lx_api x) (lx_tm x) ns did) w = (q, w1)" by fastforce
  have 1: "lext ns w w1" by (rule conjunct1[OF lext_on_pods[OF q]]) (rule tenant_pod_reads)
  define w2 where "w2 = (if a > 0 \<and> a mod 3 = 0 then send_log ''system'' (elapsed_message a) w1 else w1)"
  have 2: "lext ns w w2" unfolding w2_def using 1 lext_trans[OF 1 lext_log] by simp
  have t: "lext ns w (tick_step w2)" by (rule lext_trans[OF 2 lext_tick])
  show ?case using Suc.prems q 1 2 Suc.IH[where w = "tick_step w2"] lext_trans[OF t]
    by (auto simp: Let_def w2_def[symmetric] split: sum.splits if_splits)
qed simp

lemma tail_lext: "tail_containers x fuel live pod cs w = (r, w') \<Longrightarrow> lext buildNamespace w w'"
proof (induction cs arbitrary: w)
  case (Cons c cs)
  show ?case
  proof (cases "lx_cancelled x (lw_step w)")
    case False
    obtain q w1 where q: "streamPodLog x fuel buildNamespace pod c w = (q, w1)" by fastforce
    note 1 = streamPodLog_lext[OF q]
    show ?thesis
    proof (cases q)
      case None
      then show ?thesis using Cons.prems False q 1 by simp
    next
      case (Some o1)
      define w2 where "w2 = (case o1 of Some (Lerr e) \<Rightarrow>
        if live then send_log c (''[control-plane] log stream ended: '' @ e) w1 else w1 | _ \<Rightarrow> w1)"
      have 2: "lext buildNamespace w w2" unfolding w2_def using 1 lext_trans[OF 1 lext_log] by (auto split: option.splits lerr.splits)
      have "tail_containers x fuel live pod cs w2 = (r, w')" using Cons.prems False q Some by (simp add: w2_def)
      then show ?thesis using Cons.IH lext_trans[OF 2] by blast
    qed
  qed (use Cons.prems in simp)
qed simp

section \<open>The shape of a stream\<close>

text \<open>A finished stream is cut off because the client has left, or closes with one \<open>end\<close> event.\<close>
definition closes :: "string \<Rightarrow> 'k log_ext \<Rightarrow> 'k log_world \<Rightarrow> 'k log_world \<Rightarrow> bool" where
  "closes ns x w w' \<longleftrightarrow> (lext ns w w' \<and> (\<exists>n. lx_cancelled x n)) \<or> (\<exists>w1 j. lext ns w w1 \<and> w' = send ''end'' j w1)"

lemma closes_end [intro]: "lext ns w w1 \<Longrightarrow> closes ns x w (end_reason e w1)" "lext ns w w1 \<Longrightarrow> closes ns x w (end_status e w1)"
  by (auto simp: closes_def end_reason_def end_status_def)

lemma closes_cut: "lext ns w w' \<Longrightarrow> \<exists>n. lx_cancelled x n \<Longrightarrow> closes ns x w w'"
  by (auto simp: closes_def)

lemma closes_trans: "lext ns a b \<Longrightarrow> closes ns x b c \<Longrightarrow> closes ns x a c"
  unfolding closes_def using lext_trans by blast

lemma tail_False: "tail_containers x fuel live pod cs w = (Some False, w') \<Longrightarrow> \<exists>n. lx_cancelled x n"
  by (induction cs arbitrary: w) (auto split: if_splits prod.splits option.splits)

lemma finished_closes:
  assumes "finished_logs x fuel dep did w = (r, w')"
  shows "if r = None then lext buildNamespace w w' else closes buildNamespace x w w'"
proof -
  obtain q w1 where q: "on_pods (findBuildPod (lx_api x) (lx_tm x) buildNamespace did) w = (q, w1)" by fastforce
  have 1: "lext buildNamespace w w1" by (rule conjunct1[OF lext_on_pods[OF q]]) (rule build_pod_reads)
  let ?pod = "case q of Inr p \<Rightarrow> p | Inl _ \<Rightarrow> ''''"
  obtain t w2 where t: "tail_containers x fuel False ?pod buildContainers w1 = (t, w2)" by fastforce
  have 2: "lext buildNamespace w w2" by (rule lext_trans[OF 1 tail_lext[OF t]])
  have 3: "lext buildNamespace w (send_log ''system'' cleaned_up w1)" by (rule lext_trans[OF 1 lext_log])
  show ?thesis
  proof (cases "?pod = ''''")
    case True
    then show ?thesis using assms q closes_end(2)[OF 3] by (auto simp: finished_logs_def Let_def split: if_splits)
  next
    case False
    then have "(case t of None \<Rightarrow> (None, w2) | Some False \<Rightarrow> (Some (), w2)
        | Some True \<Rightarrow> (Some (), end_status (status_text (dr_status dep)) w2)) = (r, w')"
      using assms q t by (simp add: finished_logs_def Let_def split: sum.splits option.splits bool.splits)
    then show ?thesis using 2 tail_False[of x fuel False ?pod buildContainers w1 w2] t closes_end(2)[OF 2]
      by (auto simp: closes_def split: option.splits bool.splits)
  qed
qed

lemma live_closes:
  assumes "live_logs x fuel dep did key w = (r, w')"
  shows "if r = None then lext buildNamespace w w' else closes buildNamespace x w w'"
proof -
  obtain q w1 where q: "waitForBuildPod x fuel did (seconds 120) w = (q, w1)" by fastforce
  have 1: "lext buildNamespace w w1" by (rule build_loop_lext[OF q[unfolded waitForBuildPod_def]])
  show ?thesis
  proof (cases "\<exists>pod. q = Some (Inr pod) \<and> pod \<noteq> ''''")
    case False
    then show ?thesis using assms q 1 closes_end(1)[OF 1] by (auto simp: live_logs_def split: option.splits sum.splits if_splits)
  next
    case True
    then obtain pod where pod: "q = Some (Inr pod)" "pod \<noteq> ''''" by blast
    obtain t w2 where t: "tail_containers x fuel True pod buildContainers w1 = (t, w2)" by fastforce
    have 2: "lext buildNamespace w w2" by (rule lext_trans[OF 1 tail_lext[OF t]])
    obtain d w3 where d: "waitForTerminal x fuel key (seconds 30) w2 = (d, w3)" by fastforce
    have 3: "lext buildNamespace w w3" by (rule lext_trans[OF 2 terminal_loop_lext[OF d[unfolded waitForTerminal_def]]])
    have 4: "closes buildNamespace x w (end_status s (send ''status'' j w3))" for s j
      by (rule closes_end(2)) (rule lext_trans[OF 3 lext_status])
    show ?thesis
      using assms q pod t d 2 3 4 closes_end(2)[OF 3, where x = x] closes_cut[OF 2 tail_False[of x fuel True pod buildContainers w1 w2]]
      by (auto simp: live_logs_def Let_def split: option.splits bool.splits)
  qed
qed

lemma runtime_closes:
  assumes "runtime_stream x fuel dep ns did w = (r, w')"
  shows "if r = None then lext ns w w' else closes ns x w w'"
proof -
  define w0 where "w0 = send_log ''system'' (''Searching for pod in '' @ ns @ '' with selector '' @ tenant_selector did) w"
  have 0: "lext ns w w0" by (simp add: w0_def)
  obtain q w1 where q: "waitForTenantPod x fuel ns did (seconds 60) w0 = (q, w1)" by fastforce
  have 1: "lext ns w w1" by (rule lext_trans[OF 0 tenant_loop_lext[OF q[unfolded waitForTenantPod_def]]])
  show ?thesis
  proof (cases "\<exists>pod. q = Some (Inr pod) \<and> pod \<noteq> ''''")
    case False
    have l: "lext ns w (send_log a b (send_log c e w1))" for a b c e by (rule lext_trans[OF lext_trans[OF 1 lext_log] lext_log])
    show ?thesis using assms q[unfolded w0_def] False 1 closes_end(1)[OF 1] closes_end(1)[OF l]
      by (auto simp: runtime_stream_def Let_def split: option.splits sum.splits if_splits)
  next
    case True
    then obtain pod where pod: "q = Some (Inr pod)" "pod \<noteq> ''''" by blast
    define w2 where "w2 = send ''status'' (jlabels [(''status'', status_text (dr_status dep)), (''pod'', pod)]) w1"
    obtain s w3 where s: "streamPodLog x fuel ns pod ''app'' w2 = (s, w3)" by fastforce
    have 3: "lext ns w w3" unfolding w2_def by (rule lext_trans[OF lext_trans[OF 1 lext_status] streamPodLog_lext[OF s[unfolded w2_def]]])
    have 4: "lext ns w (send_log c e w3)" for c e by (rule lext_trans[OF 3 lext_log])
    show ?thesis using assms q[unfolded w0_def] pod s[unfolded w2_def] 3 closes_end(1)[OF 3] closes_end(1)[OF 4]
      by (auto simp: runtime_stream_def Let_def split: option.splits lerr.splits)
  qed
qed

section \<open>Stopping\<close>

text \<open>The client has left at step \<open>m\<close>, and the fuel reaches beyond it.\<close>
definition leaves :: "'k log_ext \<Rightarrow> nat \<Rightarrow> bool" where
  "leaves x m \<longleftrightarrow> (\<forall>n\<ge>m. lx_cancelled x n)"

lemma on_pods_step: "on_pods f w = (r, w') \<Longrightarrow> lw_step w' = lw_step w"
  by (auto simp: on_pods_def split: prod.splits)

lemma tick_step_step [simp]: "lw_step (tick_step w) = Suc (lw_step w)"
  by (simp add: tick_step_def)

lemma send_log_step [simp]: "lw_step (send_log c m w) = lw_step w" "lw_step (send e j w) = lw_step w"
  by (simp_all add: send_log_def send_def)

lemma conn_step: "on_conn f w = (r, w') \<Longrightarrow> lw_step w' = lw_step w"
  by (auto simp: on_conn_def split: prod.splits)

lemma note_step [simp]: "lw_step (note_req r w) = lw_step w"
  by (simp add: note_req_def)

lemma fold_step [simp]: "lw_step (fold (send_log c) ls w) = lw_step w"
  by (induction ls arbitrary: w) simp_all

text \<open>One more step: either the client has left by then, or the fuel still reaches beyond that moment.\<close>
lemma step_fuel:
  assumes "leaves x m" "m < Suc fuel + n" "\<not> lx_cancelled x n"
  shows "0 < fuel \<and> m < fuel + Suc n"
proof -
  have "n < m" using assms(1,3) unfolding leaves_def by (meson not_less)
  then show ?thesis using assms(2) by linarith
qed

lemma await_returns:
  "leaves x m \<Longrightarrow> 0 < fuel \<Longrightarrow> m < fuel + lw_step w \<Longrightarrow> fst (await_answer x fuel r w) \<noteq> None"
proof (induction fuel arbitrary: w)
  case (Suc fuel)
  obtain a w1 where a: "on_conn (lx_answer x r (lw_step w)) w = (a, w1)" by fastforce
  show ?case using a Suc.IH[OF Suc.prems(1), of "tick_step w1"] step_fuel[OF Suc.prems(1,3)] conn_step[OF a]
    by (auto split: log_answer.splits)
qed simp

lemma read_all_returns:
  "leaves x m \<Longrightarrow> 0 < fuel \<Longrightarrow> m < fuel + lw_step w \<Longrightarrow> fst (read_all x fuel r acc w) \<noteq> None"
proof (induction fuel arbitrary: w acc)
  case (Suc fuel)
  obtain a w1 where a: "on_conn (lx_read x r (lw_step w)) w = (a, w1)" by fastforce
  show ?case using a Suc.IH[OF Suc.prems(1), where w = "tick_step w1"] step_fuel[OF Suc.prems(1,3)] conn_step[OF a]
    by (auto split: log_read.splits)
qed simp

lemma scan_body_returns:
  "leaves x m \<Longrightarrow> 0 < fuel \<Longrightarrow> m < fuel + lw_step w \<Longrightarrow> fst (scan_body x fuel c r buf w) \<noteq> None"
proof (induction fuel arbitrary: w buf)
  case (Suc fuel)
  obtain a w1 where a: "on_conn (lx_read x r (lw_step w)) w = (a, w1)" by fastforce
  have "fst (scan_body x fuel c r b w2) \<noteq> None" if "\<not> lx_cancelled x (lw_step w)" "lw_step w2 = Suc (lw_step w)" for w2 b
    using Suc.IH[OF Suc.prems(1), of w2 b] step_fuel[OF Suc.prems(1,3) that(1)] that(2) by simp
  then show ?case using a conn_step[OF a] by (auto simp: Let_def split: log_read.splits prod.splits)
qed simp

lemma streamPodLog_returns:
  "leaves x m \<Longrightarrow> 0 < fuel \<Longrightarrow> m < fuel + lw_step w \<Longrightarrow> fst (streamPodLog x fuel ns pod c w) \<noteq> None"
proof (induction fuel arbitrary: w)
  case (Suc fuel)
  let ?r = "log_req ns pod c"
  obtain q w1 where q: "await_answer x (Suc fuel) ?r (note_req ?r w) = (q, w1)" by fastforce
  have s1: "lw_step w \<le> lw_step w1" using await_lext[OF q] by (simp add: lext_def)
  obtain bd w2 where b: "read_all x (Suc fuel) ?r '''' w1 = (bd, w2)" by fastforce
  have s2: "lw_step w1 \<le> lw_step w2" using read_all_lext[OF b] by (simp add: lext_def)
  have n: "q \<noteq> None" using await_returns[of x m "Suc fuel" "note_req ?r w" ?r] Suc.prems q by simp
  have r: "bd \<noteq> None" using read_all_returns[of x m "Suc fuel" w1 ?r "''''"] Suc.prems s1 b by simp
  have c: "fst (scan_body x (Suc fuel) c ?r '''' w1) \<noteq> None"
    using scan_body_returns[of x m "Suc fuel" w1 c ?r "''''"] Suc.prems s1 by simp
  have "fst (streamPodLog x fuel ns pod c (tick_step w2)) \<noteq> None" if "\<not> lx_cancelled x (Suc (lw_step w2))"
    using Suc.IH[OF Suc.prems(1), of "tick_step w2"] Suc.prems(1,3) s1 s2 that by (cases "m \<le> Suc (lw_step w2)") (auto simp: leaves_def)
  then show ?case using q b n r c
    by (auto simp del: await_answer.simps read_all.simps scan_body.simps split: sum.splits)
qed simp

lemma build_loop_returns:
  "leaves x m \<Longrightarrow> 0 < fuel \<Longrightarrow> m < fuel + lw_step w \<Longrightarrow> fst (build_pod_loop x fuel dl did w) \<noteq> None"
proof (induction fuel arbitrary: w)
  case (Suc fuel)
  obtain q w1 where q: "on_pods (findBuildPod (lx_api x) (lx_tm x) buildNamespace did) w = (q, w1)" by fastforce
  have "fst (build_pod_loop x fuel dl did (tick_step w1)) \<noteq> None" if "\<not> lx_cancelled x (lw_step w1)"
    using Suc.IH[OF Suc.prems(1), of "tick_step w1"] Suc.prems(1,3) that on_pods_step[OF q]
    by (cases "m \<le> lw_step w") (auto simp: leaves_def)
  then show ?case using q by (auto split: sum.splits)
qed simp

lemma terminal_loop_returns:
  "leaves x m \<Longrightarrow> 0 < fuel \<Longrightarrow> m < fuel + lw_step w \<Longrightarrow> fst (terminal_loop x fuel dl did w) \<noteq> None"
proof (induction fuel arbitrary: w)
  case (Suc fuel)
  have "fst (terminal_loop x fuel dl did (tick_step w)) \<noteq> None" if "\<not> lx_cancelled x (lw_step w)"
    using Suc.IH[OF Suc.prems(1), of "tick_step w"] Suc.prems(1,3) that by (cases "m \<le> lw_step w") (auto simp: leaves_def)
  then show ?case by (auto simp: Let_def)
qed simp

lemma tenant_loop_returns:
  "leaves x m \<Longrightarrow> 0 < fuel \<Longrightarrow> m < fuel + lw_step w \<Longrightarrow> fst (tenant_pod_loop x fuel dl ns did a w) \<noteq> None"
proof (induction fuel arbitrary: w a)
  case (Suc fuel)
  obtain q w1 where q: "on_pods (findTenantPod (lx_api x) (lx_tm x) ns did) w = (q, w1)" by fastforce
  have "fst (tenant_pod_loop x fuel dl ns did b (tick_step w2)) \<noteq> None" if "\<not> lx_cancelled x (lw_step w1)" "lw_step w2 = lw_step w1" for b w2
    using Suc.IH[OF Suc.prems(1), where w = "tick_step w2" and a = b] Suc.prems(1,3) that on_pods_step[OF q]
    by (cases "m \<le> lw_step w") (auto simp: leaves_def)
  then show ?case using q by (auto simp: Let_def split: sum.splits)
qed simp

lemma tail_returns:
  "leaves x m \<Longrightarrow> m < fuel \<Longrightarrow> fst (tail_containers x fuel live pod cs w) \<noteq> None"
proof (induction cs arbitrary: w)
  case (Cons c cs)
  obtain q w1 where q: "streamPodLog x fuel buildNamespace pod c w = (q, w1)" by fastforce
  have "q \<noteq> None" using streamPodLog_returns[of x m fuel w buildNamespace pod c] Cons.prems q by simp
  then show ?case using q Cons.IH[OF Cons.prems] by auto
qed simp

lemma finished_returns:
  assumes "leaves x m" "m < fuel"
  shows "fst (finished_logs x fuel dep did w) \<noteq> None"
proof -
  obtain q w1 where q: "on_pods (findBuildPod (lx_api x) (lx_tm x) buildNamespace did) w = (q, w1)" by fastforce
  let ?pod = "case q of Inr p \<Rightarrow> p | Inl _ \<Rightarrow> ''''"
  obtain t w2 where t: "tail_containers x fuel False ?pod buildContainers w1 = (t, w2)" by fastforce
  have "t \<noteq> None" using tail_returns[OF assms, of False ?pod buildContainers w1] t by simp
  then obtain b where b: "t = Some b" by blast
  show ?thesis using q t unfolding b by (simp add: finished_logs_def Let_def split: bool.splits)
qed

lemma live_returns:
  assumes "leaves x m" "m < fuel"
  shows "fst (live_logs x fuel dep did key w) \<noteq> None"
proof -
  obtain q w1 where q: "waitForBuildPod x fuel did (seconds 120) w = (q, w1)" by fastforce
  have "q \<noteq> None" using build_loop_returns[OF assms(1), of fuel w] assms(2) q[unfolded waitForBuildPod_def] by (metis fst_conv gr_zeroI not_less_zero trans_less_add1)
  then obtain r where r: "q = Some r" by blast
  show ?thesis
  proof (cases r)
    case (Inl e)
    then show ?thesis using q r by (simp add: live_logs_def)
  next
    case (Inr pod)
    obtain t w2 where t: "tail_containers x fuel True pod buildContainers w1 = (t, w2)" by fastforce
    have "t \<noteq> None" using tail_returns[OF assms, of True pod buildContainers w1] t by simp
    then obtain b where b: "t = Some b" by blast
    obtain d w3 where d: "waitForTerminal x fuel key (seconds 30) w2 = (d, w3)" by fastforce
    have "d \<noteq> None" using terminal_loop_returns[OF assms(1), of fuel w2] assms(2) d[unfolded waitForTerminal_def] by (metis fst_conv gr_zeroI not_less_zero trans_less_add1)
    then obtain v where v: "d = Some v" by blast
    show ?thesis using q t d unfolding r Inr b v by (simp add: live_logs_def Let_def split: bool.splits option.splits)
  qed
qed

lemma runtime_returns:
  assumes "leaves x m" "m < fuel"
  shows "fst (runtime_stream x fuel dep ns did w) \<noteq> None"
proof -
  define w0 where "w0 = send_log ''system'' (''Searching for pod in '' @ ns @ '' with selector '' @ tenant_selector did) w"
  obtain q w1 where q: "waitForTenantPod x fuel ns did (seconds 60) w0 = (q, w1)" by fastforce
  have "q \<noteq> None" using tenant_loop_returns[OF assms(1), of fuel w0] assms(2) q[unfolded waitForTenantPod_def] by (metis fst_conv gr_zeroI not_less_zero trans_less_add1)
  then obtain r where r: "q = Some r" by blast
  show ?thesis
  proof (cases r)
    case (Inl e)
    then show ?thesis using q[unfolded w0_def] r by (simp add: runtime_stream_def Let_def)
  next
    case (Inr pod)
    define w2 where "w2 = send ''status'' (jlabels [(''status'', status_text (dr_status dep)), (''pod'', pod)]) w1"
    obtain s w3 where s: "streamPodLog x fuel ns pod ''app'' w2 = (s, w3)" by fastforce
    have "s \<noteq> None" using streamPodLog_returns[OF assms(1), of fuel w2 ns pod "''app''"] assms(2) s by auto
    then obtain v where v: "s = Some v" by blast
    show ?thesis using q[unfolded w0_def] s[unfolded w2_def] unfolding r Inr v by (simp add: runtime_stream_def Let_def)
  qed
qed

section \<open>The handlers\<close>

lemma stream_reply_cases:
  "stream_reply q = (a, w') \<Longrightarrow> (a = Log_waiting \<and> q = (None, w')) \<or> (a = Log_stream \<and> q = (Some (), w'))"
  by (auto simp: stream_reply_def split: prod.splits option.splits)

text \<open>What a request names: the value its id casts to and the row of that deployment, if the caller may see it.\<close>
definition own_dep_row :: "db \<Rightarrow> string \<Rightarrow> uuid \<Rightarrow> uuid \<Rightarrow> deploymentRow \<Rightarrow> bool" where
  "own_dep_row s did scope key dep \<longleftrightarrow> uuid_in did = Some key \<and> GetDeploymentForUser s key scope = Some dep"

lemma build_handler:
  assumes "handleDeploymentLogs x fuel did usr w = (a, w')"
  shows "(\<exists>st. a = Log_status st) \<and> w' = w
    \<or> (\<exists>u key dep. usr = Some u \<and> own_dep_row (lx_db x (lw_step w)) did (if su_admin u then '''' else su_id u) key dep
         \<and> (if a = Log_waiting then lext buildNamespace w w' else a = Log_stream \<and> closes buildNamespace x w w'))"
proof (cases "\<exists>st. a = Log_status st")
  case True
  then show ?thesis using assms by (auto simp: handleDeploymentLogs_def Let_def stream_reply_def split: if_splits option.splits prod.splits)
next
  case False
  then obtain u key dep where u: "usr = Some u"
    "own_dep_row (lx_db x (lw_step w)) did (if su_admin u then '''' else su_id u) key dep"
    "stream_reply (if dr_status dep = Ready \<or> dr_status dep = Failed then finished_logs x fuel dep did (send ''status'' (statusPayload dep) w)
                   else live_logs x fuel dep did key (send ''status'' (statusPayload dep) w)) = (a, w')"
    using assms by (auto simp: handleDeploymentLogs_def own_dep_row_def Let_def split: if_splits option.splits)
  let ?w = "send ''status'' (statusPayload dep) w"
  have l: "lext buildNamespace w ?w" by simp
  obtain r where r: "(if dr_status dep = Ready \<or> dr_status dep = Failed then finished_logs x fuel dep did ?w else live_logs x fuel dep did key ?w) = (r, w')"
    "a = (if r = None then Log_waiting else Log_stream)"
    using stream_reply_cases[OF u(3)] by auto
  have "if r = None then lext buildNamespace ?w w' else closes buildNamespace x ?w w'"
    using r(1) finished_closes[of x fuel dep did ?w r w'] live_closes[of x fuel dep did key ?w r w'] by (auto split: if_splits)
  then show ?thesis using u r(2) lext_trans[OF l] closes_trans[OF l] by (auto split: if_splits)
qed

lemma runtime_handler:
  assumes "handleDeploymentRuntimeLogs x fuel did usr w = (a, w')"
  shows "(\<exists>st. a = Log_status st) \<and> w' = w
    \<or> (\<exists>u key dep. usr = Some u \<and> own_dep_row (lx_db x (lw_step w)) did (if su_admin u then '''' else su_id u) key dep
         \<and> (let ns = tenantNamespaceFor (GetDeploymentTenantLogin (lx_db x (lw_step w)) key (if su_admin u then '''' else su_id u))
            in if a = Log_waiting then lext ns w w' else a = Log_stream \<and> closes ns x w w'))"
proof (cases "\<exists>st. a = Log_status st")
  case True
  then show ?thesis
    using assms by (auto simp: handleDeploymentRuntimeLogs_def Let_def stream_reply_def split: if_splits option.splits prod.splits)
next
  case False
  from False assms obtain u key where usr: "usr = Some u" "uuid_in did = Some key"
    by (auto simp: handleDeploymentRuntimeLogs_def split: if_splits option.splits)
  let ?scope = "if su_admin u then '''' else su_id u"
  let ?ns = "tenantNamespaceFor (GetDeploymentTenantLogin (lx_db x (lw_step w)) key ?scope)"
  from False assms obtain dep where u: "own_dep_row (lx_db x (lw_step w)) did ?scope key dep"
    "(a = Log_stream \<and> (\<exists>e m. w' = end_reason e (send_log ''system'' m w)))
       \<or> stream_reply (runtime_stream x fuel dep ?ns did w) = (a, w')"
    unfolding own_dep_row_def using usr by (auto simp: handleDeploymentRuntimeLogs_def Let_def split: if_splits option.splits)
  have "closes ?ns x w (end_reason e (send_log ''system'' m w))" for e m by (rule closes_end(1)) (rule lext_log)
  moreover have "if a = Log_waiting then lext ?ns w w' else a = Log_stream \<and> closes ?ns x w w'"
    if r: "stream_reply (runtime_stream x fuel dep ?ns did w) = (a, w')"
    using stream_reply_cases[OF r] runtime_closes[of x fuel dep ?ns did w] by (metis log_reply.distinct(5) option.distinct(1))
  ultimately show ?thesis using usr u unfolding Let_def by (metis log_reply.distinct(5))
qed

text \<open>C36: The log endpoints only read: whatever a handler sends to the cluster are GET requests for pods and their logs, in the build namespace for
  build logs and in the namespace of the tenant that owns the deployment for runtime logs, and nothing is sent or answered unless the id of the path casts to
  a deployment the caller owns, or the caller is an administrator.\<close>
theorem logs_read_own_pods:
  "let w1 = snd (handleDeploymentLogs x fuel did usr w); w2 = snd (handleDeploymentRuntimeLogs x fuel did usr w); s = lx_db x (lw_step w)
   in (case usr of
         None \<Rightarrow> w1 = w \<and> w2 = w
       | Some u \<Rightarrow>
           (let scope = (if su_admin u then '''' else su_id u)
            in case uuid_in did of
                 None \<Rightarrow> w1 = w \<and> w2 = w
               | Some key \<Rightarrow>
                   if scope \<noteq> '''' \<and> deployment_owner s key \<noteq> Some scope then w1 = w \<and> w2 = w
                   else kext (reads_pods buildNamespace) (lw_kube w) (lw_kube w1)
                      \<and> kext (reads_pods (tenantNamespaceFor (GetDeploymentTenantLogin s key scope))) (lw_kube w) (lw_kube w2)))"
proof -
  obtain a w1 where 1: "handleDeploymentLogs x fuel did usr w = (a, w1)" by fastforce
  obtain b w2 where 2: "handleDeploymentRuntimeLogs x fuel did usr w = (b, w2)" by fastforce
  have k: "closes ns x w w' \<Longrightarrow> kext (reads_pods ns) (lw_kube w) (lw_kube w')" "lext ns w w' \<Longrightarrow> kext (reads_pods ns) (lw_kube w) (lw_kube w')"
    for ns and w' :: "'a log_world" by (auto simp: closes_def lext_def send_def)
  show ?thesis
  proof (cases usr)
    case None
    then show ?thesis using build_handler[OF 1] runtime_handler[OF 2] 1 2 by simp
  next
    case (Some u)
    let ?scope = "if su_admin u then '''' else su_id u"
    let ?s = "lx_db x (lw_step w)"
    show ?thesis
    proof (cases "\<exists>key. uuid_in did = Some key \<and> \<not> (?scope \<noteq> '''' \<and> deployment_owner ?s key \<noteq> Some ?scope)")
      case False
      have "\<not> own_dep_row ?s did ?scope key dep" for key dep
        using False own_dep.foreign_is_missing[of ?scope ?s key] by (auto simp: own_dep_row_def)
      then have "w1 = w \<and> w2 = w" using build_handler[OF 1] runtime_handler[OF 2] Some by auto
      then show ?thesis using 1 2 Some False by (auto simp: Let_def split: option.splits)
    next
      case True
      then obtain key where key: "uuid_in did = Some key" "\<not> (?scope \<noteq> '''' \<and> deployment_owner ?s key \<noteq> Some ?scope)" by blast
      have "kext (reads_pods buildNamespace) (lw_kube w) (lw_kube w1)"
        using build_handler[OF 1] k(1)[of buildNamespace w1] k(2)[of buildNamespace w1] by (auto split: if_splits)
      moreover have "kext (reads_pods (tenantNamespaceFor (GetDeploymentTenantLogin ?s key ?scope))) (lw_kube w) (lw_kube w2)"
        using runtime_handler[OF 2] k(1)[of _ w2] k(2)[of _ w2] Some key(1) by (auto simp: Let_def own_dep_row_def split: if_splits)
      ultimately show ?thesis
        unfolding Let_def Some option.case 1[unfolded Some] 2[unfolded Some] snd_conv key(1) if_not_P[OF key(2)] by blast
    qed
  qed
qed

text \<open>A stream that the client does not cut off ends with exactly one \<open>end\<close> event, the last one of the stream, whatever the cluster answers.\<close>
theorem log_stream_ends_once:
  assumes "handleDeploymentLogs x fuel did usr w = (Log_stream, w') \<or> handleDeploymentRuntimeLogs x fuel did usr w = (Log_stream, w')"
    and "\<And>n. \<not> lx_cancelled x n"
  shows "\<exists>evs j. lw_events w' = lw_events w @ evs @ [(''end'', j)] \<and> list_all (\<lambda>e. fst e \<noteq> ''end'') evs"
proof -
  have "\<exists>ns. closes ns x w w'"
    using assms(1) build_handler[of x fuel did usr w Log_stream w'] runtime_handler[of x fuel did usr w Log_stream w']
    by (auto simp: Let_def split: if_splits)
  then obtain ns w1 j where "lext ns w w1" "w' = send ''end'' j w1" using assms(2) by (auto simp: closes_def)
  then show ?thesis by (auto simp: lext_def send_def)
qed

text \<open>C37: No handler outlives its client: the requests for logs carry the context of the client's request, so once the client has left, the handler
  returns, however long the build takes and although the body of a followed log stays open without a byte for as long as the container runs; the
  loops may run beyond the step at which the client leaves.\<close>
theorem log_streams_stop:
  assumes "leaves x m" "m < fuel"
  shows "fst (handleDeploymentLogs x fuel did usr w) \<noteq> Log_waiting \<and> fst (handleDeploymentRuntimeLogs x fuel did usr w) \<noteq> Log_waiting"
proof -
  have r: "fst (stream_reply q) = Log_waiting \<longleftrightarrow> fst q = None" for q :: "unit option \<times> 'a log_world"
    by (simp add: stream_reply_def split: prod.splits option.splits)
  show ?thesis
    using finished_returns[OF assms] live_returns[OF assms] runtime_returns[OF assms]
    by (auto simp: handleDeploymentLogs_def handleDeploymentRuntimeLogs_def Let_def r split: option.splits if_splits)
qed

section \<open>Instances\<close>

definition zero_id :: uuid where "zero_id = ''00000000-0000-0000-0000-000000000000''"

text \<open>A cluster that cannot be reached.\<close>
definition down_ext :: "bool \<Rightarrow> unit log_ext" where
  "down_ext gone = \<lparr> lx_api = (\<lambda>r k. (Net_error ''no route'', k)), lx_answer = (\<lambda>r n k. (Answer_error ''no route'', k)),
     lx_read = (\<lambda>r n k. (End_of_body, k)), lx_tm = (\<lambda>_. 0),
     lx_now = (\<lambda>n. 0), lx_cancelled = (\<lambda>_. gone), lx_db = (\<lambda>_. demo_db [demo_dep zero_id ''aa'' Failed 3]) \<rparr>"

text \<open>A build pod that is up, has written one line and is silent from then on.\<close>
definition silent_ext :: "(nat \<Rightarrow> bool) \<Rightarrow> unit log_ext" where
  "silent_ext gone = (down_ext False)\<lparr>
     lx_api := (\<lambda>r k. (Resp 200 '''' (Some (JObj [(''items'', JArr [JObj [(''metadata'', JObj [(''name'', JStr ''pod-1'')])]])])), k)),
     lx_answer := (\<lambda>r n k. (Answer 200, k)), lx_read := (\<lambda>r n k. (if n = 0 then Bytes (''hi'' @ [CHR 0x0A]) else Nothing_yet, k)),
     lx_cancelled := gone \<rparr>"

definition log_start :: "unit log_world" where
  "log_start = \<lparr> lw_kube = \<lparr> k_state = (), k_trace = [] \<rparr>, lw_step = 0, lw_events = [] \<rparr>"

definition owner_u1 :: sessionUser where
  "owner_u1 = \<lparr> su_id = ''u1'', su_github = 1, su_login = ''octo'', su_email = '''', su_avatar = '''', su_admin = False \<rparr>"

lemma zero_id_ok: "uuidRE zero_id" "uuid_in zero_id = Some zero_id"
  by code_simp+

lemma down_dep: "\<exists>r. GetDeploymentForUser (demo_db [demo_dep zero_id ''aa'' Failed 3]) zero_id ''u1'' = Some r \<and> dr_status r = Failed"
  by (simp add: GetDeploymentForUser_def lookup_dep_def lookup_project_def row_short_def row_full_def demo_defs)

lemma down_run: "\<exists>w'. handleDeploymentLogs (down_ext False) 1 zero_id (Some owner_u1) log_start = (Log_stream, w')"
proof -
  obtain r where r: "GetDeploymentForUser (demo_db [demo_dep zero_id ''aa'' Failed 3]) zero_id ''u1'' = Some r" "dr_status r = Failed"
    using down_dep by blast
  have "finished_logs (down_ext False) 1 r zero_id w = (Some (), end_status ''failed'' (send_log ''system'' cleaned_up (snd (on_pods
      (findBuildPod (lx_api (down_ext False)) (lx_tm (down_ext False)) buildNamespace zero_id) w))))" for w
    using r(2) by (simp add: finished_logs_def on_pods_def findBuildPod_def kdo_def down_ext_def status_text_def Let_def)
  then show ?thesis using r zero_id_ok
    by (simp add: handleDeploymentLogs_def owner_u1_def Let_def) (simp add: down_ext_def stream_reply_def)
qed

theorem log_stream_ends_once_witness:
  "\<exists>evs j. lw_events (snd (handleDeploymentLogs (down_ext False) 1 zero_id (Some owner_u1) log_start)) = evs @ [(''end'', j)]
     \<and> list_all (\<lambda>e. fst e \<noteq> ''end'') evs"
proof -
  obtain w' where w': "handleDeploymentLogs (down_ext False) 1 zero_id (Some owner_u1) log_start = (Log_stream, w')"
    using down_run by blast
  have live: "\<not> lx_cancelled (down_ext False) n" for n by (simp add: down_ext_def)
  have e: "lw_events log_start = []" by (simp add: log_start_def)
  show ?thesis using log_stream_ends_once[OF disjI1[OF w'] live] unfolding w' e by simp
qed

lemma silent_pod: "on_pods (findBuildPod (lx_api (silent_ext g)) (lx_tm (silent_ext g)) buildNamespace did) w
    = (Inr ''pod-1'', w\<lparr> lw_kube := (lw_kube w)\<lparr> k_trace := k_trace (lw_kube w)
        @ [\<lparr> rq_meth = GET, rq_path = ns_path ''/api/v1'' buildNamespace ''pods?labelSelector='' @ queryEscape (''paas.deployment='' @ did @ '',app.kubernetes.io/component=build''),
             rq_body = None \<rparr>] \<rparr> \<rparr>)"
  by (simp add: on_pods_def findBuildPod_def kdo_def silent_ext_def down_ext_def ok2xx_def jget_def jarr_def pod_name_def jstr_def Let_def newest_pod_def)

lemma silent_scan:
  "\<forall>n. \<not> g n \<Longrightarrow> 0 < lw_step w \<Longrightarrow> fst (scan_body (silent_ext g) fuel c r buf w) = None"
  by (induction fuel arbitrary: w) (simp_all add: silent_ext_def on_conn_def)

text \<open>The loop is reached: with a client that stays, the silent pod keeps the handler waiting, whatever the fuel.\<close>
theorem silent_pod_waits: "fst (handleDeploymentLogs (silent_ext (\<lambda>n. False)) fuel zero_id (Some owner_u1) log_start) = Log_waiting"
proof -
  let ?x = "silent_ext (\<lambda>n. False)"
  obtain r where r: "GetDeploymentForUser (demo_db [demo_dep zero_id ''aa'' Failed 3]) zero_id ''u1'' = Some r" "dr_status r = Failed"
    using down_dep by blast
  have x: "lx_db ?x n = demo_db [demo_dep zero_id ''aa'' Failed 3]" "\<not> lx_cancelled ?x n" for n by (simp_all add: silent_ext_def down_ext_def)
  have s: "fst (streamPodLog ?x fuel buildNamespace p c w) = None" if "lw_step w = 0" for p c and w :: "unit log_world"
  proof (cases fuel)
    case (Suc f)
    have a: "await_answer ?x (Suc f) q v = (Some (Inr 200), v)" for q and v :: "unit log_world"
      by (simp add: silent_ext_def down_ext_def on_conn_def)
    have b: "fst (scan_body ?x (Suc f) c q '''' v) = None" if "lw_step v = 0" for q and v :: "unit log_world"
    proof -
      have "split_on (CHR 0x0A) (''hi'' @ [CHR 0x0A]) = [''hi'', '''']" "length ''hi'' < max_token" "0 < max_token"
        by (simp_all add: max_token_def)
      then show ?thesis using that silent_scan[of "\<lambda>n. False"] by (simp add: x on_conn_def Let_def) (simp add: silent_ext_def on_conn_def Let_def)
    qed
    show ?thesis using a b[of "note_req (log_req buildNamespace p c) w"] that Suc x(2)
      by (simp add: ok2xx_def del: await_answer.simps scan_body.simps read_all.simps)
  qed simp
  have f: "fst (finished_logs ?x fuel r zero_id (send ''status'' j log_start)) = None" for j
  proof -
    let ?w = "snd (on_pods (findBuildPod (lx_api ?x) (lx_tm ?x) buildNamespace zero_id) (send ''status'' j log_start))"
    have "lw_step ?w = 0" unfolding silent_pod by (simp add: log_start_def)
    then have "fst (tail_containers ?x fuel False ''pod-1'' buildContainers ?w) = None"
      using s[of ?w "''pod-1''" "''clone''"] x(2) by (cases "streamPodLog ?x fuel buildNamespace ''pod-1'' ''clone'' ?w") (simp add: buildContainers_def)
    then show ?thesis by (cases "tail_containers ?x fuel False ''pod-1'' buildContainers ?w") (simp add: finished_logs_def silent_pod Let_def)
  qed
  have l: "lw_step log_start = 0" by (simp add: log_start_def)
  show ?thesis using f[of "statusPayload r"] r zero_id_ok
    by (cases "finished_logs ?x fuel r zero_id (send ''status'' (statusPayload r) log_start)")
       (simp add: handleDeploymentLogs_def owner_u1_def Let_def x stream_reply_def)
qed

text \<open>The same pod with a client that leaves at the fifth step.\<close>
theorem log_streams_stop_witness:
  "fst (handleDeploymentLogs (silent_ext (\<lambda>n. 5 \<le> n)) 6 zero_id (Some owner_u1) log_start) \<noteq> Log_waiting
   \<and> fst (handleDeploymentRuntimeLogs (silent_ext (\<lambda>n. 5 \<le> n)) 6 zero_id (Some owner_u1) log_start) \<noteq> Log_waiting"
proof -
  have "leaves (silent_ext (\<lambda>n. 5 \<le> n)) 5" by (simp add: leaves_def silent_ext_def)
  from log_streams_stop[OF this, of 6] show ?thesis by simp
qed

section \<open>The chosen pod\<close>

definition better :: "(string \<Rightarrow> time) \<Rightarrow> json \<Rightarrow> json \<Rightarrow> bool" where
  "better tm p q \<longleftrightarrow> pod_rank p > pod_rank q \<or> (pod_rank p = pod_rank q \<and> pod_created tm p \<ge> pod_created tm q)"

lemma best_pod_from:
  "best_pod tm (Some b) ps = r \<Longrightarrow>
     \<exists>p. r = Some p \<and> (p = b \<or> p \<in> set ps \<and> \<not> pod_terminating p) \<and> better tm p b \<and> (\<forall>q\<in>set ps. \<not> pod_terminating q \<longrightarrow> better tm p q)"
proof (induction ps arbitrary: b)
  case (Cons it ps)
  show ?case
  proof (cases "\<not> pod_terminating it \<and> (pod_rank it > pod_rank b \<or> (pod_rank it = pod_rank b \<and> pod_created tm it > pod_created tm b))")
    case True
    then have "best_pod tm (Some it) ps = r" using Cons.prems by auto
    from Cons.IH[OF this] True show ?thesis by (auto simp: better_def)
  next
    case False
    then have "best_pod tm (Some b) ps = r" using Cons.prems by auto
    from Cons.IH[OF this] False show ?thesis by (auto simp: better_def)
  qed
qed (simp add: better_def)

text \<open>Runtime logs are read from the right pod: none if every listed pod is terminating; otherwise a pod that is not terminating and that no other
  such pod beats, running pods going before pending ones and, among equals, the younger before the older.\<close>
theorem tenant_pod_is_best:
  "case best_pod tm None ps of
     None \<Rightarrow> list_all pod_terminating ps
   | Some p \<Rightarrow> p \<in> set ps \<and> \<not> pod_terminating p \<and> list_all (\<lambda>q. pod_terminating q \<or> better tm p q) ps"
proof (induction ps)
  case (Cons it ps)
  show ?case
  proof (cases "pod_terminating it")
    case True
    then show ?thesis using Cons by (auto split: option.splits)
  next
    case False
    then have e: "best_pod tm None (it # ps) = best_pod tm (Some it) ps" by simp
    obtain p where p: "best_pod tm (Some it) ps = Some p" "p = it \<or> p \<in> set ps \<and> \<not> pod_terminating p" "better tm p it"
      "\<forall>q\<in>set ps. \<not> pod_terminating q \<longrightarrow> better tm p q"
      using best_pod_from[OF refl] by blast
    then show ?thesis using False unfolding e by (auto simp: list_all_iff)
  qed
qed simp

end
