(* ===== verification/Dashboard.thy ===== *)
theory Dashboard
  imports Telemetry_Api Self_Rebuild Edge Log_Streams
begin

text \<open>
  The views of the dashboard over the store: the project list (\<open>dashboard.go\<close>), recent deployments and the current user (\<open>main.go\<close>, \<open>auth.go\<close>), the
  activity feed (\<open>store_activity.go\<close>, \<open>activity_handlers.go\<close>), the home summary (\<open>home_handlers.go\<close>) and the version of the control plane
  (\<open>version_handler.go\<close>).  \<open>stamp\<close> is the rendering of a time by \<open>to_char\<close>, to the second.
\<close>

section \<open>Project list, deployments, user\<close>

record projectWithDeployments =
  pw_row :: projectRow
  pw_deployments :: "deploymentRow list"
  pw_domains :: "string list"

definition handleListProjects :: "sessionUser option \<Rightarrow> db \<Rightarrow> (nat, projectWithDeployments list) result" where
  "handleListProjects usr s =
     (case usr of
        None \<Rightarrow> Inl 401
      | Some u \<Rightarrow>
          (let ps = ListProjectsForUser s (su_id u); ids = map pr_id ps
           in Inr (map (\<lambda>p. \<lparr> pw_row = p, pw_deployments = ListDeploymentsForProjects s ids 10 (pr_id p),
                              pw_domains = ListVerifiedDomainsForProjects s ids (pr_id p) \<rparr>) ps)))"

text \<open>Without a user the scope is that of an administrator; the route is behind \<open>requireUser\<close>.\<close>
definition handleListDeployments :: "sessionUser option \<Rightarrow> db \<Rightarrow> deploymentRow list" where
  "handleListDeployments usr s =
     ListRecentDeploymentsForUser s (case usr of None \<Rightarrow> '''' | Some u \<Rightarrow> if su_admin u then '''' else su_id u) 50"

definition handleMe :: "sessionUser option \<Rightarrow> http_reply" where
  "handleMe usr =
     (case usr of
        None \<Rightarrow> err 401
      | Some u \<Rightarrow> reply 200 [(''id'', JStr (su_id u)), (''login'', JStr (su_login u)), (''email'', JStr (su_email u)),
                             (''avatar_url'', JStr (su_avatar u)), (''is_admin'', JBool (su_admin u))])"

section \<open>Activity\<close>

record activityItem =
  av_kind :: string
  av_at :: string
  av_project :: string
  av_slug :: string
  av_name :: string
  av_title :: string
  av_detail :: string
  av_status :: string
  av_ref :: string
  av_sha :: string
  av_deployment :: string
  av_event :: string
  av_action :: string
  av_preview :: bool

text \<open>\<open>NULLIF(TRIM(display_name), '')\<close>\<close>
definition shown_name :: "project \<Rightarrow> string option" where
  "shown_name p = (case p_display p of None \<Rightarrow> None | Some d \<Rightarrow> nullif (trim (\<lambda>c. c = CHR '' '') d) '''')"

definition deployment_title :: "dstatus \<Rightarrow> string" where
  "deployment_title st =
     (case st of Ready \<Rightarrow> ''Deployment ready'' | Failed \<Rightarrow> ''Deployment failed'' | Building \<Rightarrow> ''Build started'' | Deploying \<Rightarrow> ''Deploying''
      | Queued \<Rightarrow> ''Deployment queued'')"

definition deployment_item :: "(time \<Rightarrow> string) \<Rightarrow> deployment \<times> project \<Rightarrow> activityItem" where
  "deployment_item stamp = (\<lambda>(d, p).
     let msg = coalesce (d_message d) ''''
     in \<lparr> av_kind = ''deployment'', av_at = stamp (d_created d), av_project = p_id p, av_slug = p_slug p,
          av_name = coalesce (shown_name p) (p_slug p), av_title = deployment_title (d_status d),
          av_detail = (if msg = '''' \<and> length (d_sha d) \<ge> 7 then take 7 (d_sha d) else msg), av_status = status_text (d_status d),
          av_ref = d_ref d, av_sha = d_sha d, av_deployment = d_id d, av_event = '''', av_action = '''', av_preview = d_preview d \<rparr>)"

definition mid_dot :: string where "mid_dot = [CHR 0xC2, CHR 0xB7]"

definition webhook_item :: "(time \<Rightarrow> string) \<Rightarrow> delivery \<times> project \<Rightarrow> activityItem" where
  "webhook_item stamp = (\<lambda>(w, p).
     \<lparr> av_kind = ''webhook'', av_at = stamp (w_received w), av_project = p_id p, av_slug = p_slug p,
       av_name = coalesce (shown_name p) (p_slug p),
       av_title = w_event w @ (case coalesce (w_action w) '''' of '''' \<Rightarrow> '''' | a \<Rightarrow> '' '' @ mid_dot @ '' '' @ a),
       av_detail = coalesce (w_repo w) '''', av_status = '''', av_ref = '''', av_sha = '''', av_deployment = '''',
       av_event = w_event w, av_action = coalesce (w_action w) '''', av_preview = False \<rparr>)"

definition user_deployments :: "db \<Rightarrow> uuid \<Rightarrow> (deployment \<times> project) list" where
  "user_deployments s uid = filter (\<lambda>(d, p). p_owner p = Some uid) (joined s (newest_first (deployments s)))"

text \<open>The rows of the left join; the \<open>WHERE\<close> clause keeps only deliveries for which the join finds a project.\<close>
definition user_webhooks :: "db \<Rightarrow> uuid \<Rightarrow> (delivery \<times> project) list" where
  "user_webhooks s uid =
     concat (map (\<lambda>w. map (\<lambda>p. (w, p)) (filter (\<lambda>p. Some (p_full_name p) = w_repo w \<and> p_owner p = Some uid) (projects s)))
       (sort_key (\<lambda>w. - w_received w) (deliveries s)))"

text \<open>\<open>sort.Slice\<close> by \<open>At\<close>, latest first; among equals the order of the list.\<close>
definition at_key :: "activityItem \<Rightarrow> nat list" where "at_key it = map of_char (av_at it)"

definition latest_first :: "activityItem list \<Rightarrow> activityItem list" where
  "latest_first xs = rev (sort_key at_key (rev xs))"

definition ListActivityForUser :: "(time \<Rightarrow> string) \<Rightarrow> db \<Rightarrow> uuid \<Rightarrow> int \<Rightarrow> activityItem list" where
  "ListActivityForUser stamp s uid limit0 =
     (let limit = clamp_limit limit0 100 40;
          items = map (deployment_item stamp) (take limit (user_deployments s uid))
                  @ map (webhook_item stamp) (take limit (user_webhooks s uid))
      in take limit (latest_first items))"

definition handleActivity :: "(time \<Rightarrow> string) \<Rightarrow> sessionUser option \<Rightarrow> db \<Rightarrow> (nat, activityItem list) result" where
  "handleActivity stamp usr s = (case usr of None \<Rightarrow> Inl 401 | Some u \<Rightarrow> Inr (ListActivityForUser stamp s (su_id u) 40))"

section \<open>Home summary\<close>

record deploymentStats =
  ds_today :: int
  ds_failed :: int
  ds_rate :: rat
  ds_avg :: "int option"

record homeSummary =
  hs_apps :: nat
  hs_live :: nat
  hs_deploys :: nat
  hs_stats :: deploymentStats
  hs_requests :: int
  hs_pods :: int

definition live_count :: "db \<Rightarrow> projectRow list \<Rightarrow> nat" where
  "live_count s ps =
     length (filter (\<lambda>p. \<exists>d\<in>set (ListDeploymentsForProjects s (map pr_id ps) 10 (pr_id p)). dr_status d = Ready) ps)"

definition to_int64 :: "rat \<Rightarrow> int" where "to_int64 q = (if q \<ge> 0 then \<lfloor>q\<rfloor> else \<lceil>q\<rceil>)"

text \<open>The rows over which \<open>DeploymentStatsForUser\<close> aggregates: \<open>FROM\<close>, \<open>JOIN\<close> and \<open>WHERE\<close> of its query.\<close>
definition stats_rows :: "db \<Rightarrow> uuid \<Rightarrow> (deployment \<times> project) list" where
  "stats_rows s uid = filter (\<lambda>(d, p). p_owner p = Some uid) (joined s (deployments s))"

text \<open>\<open>stats\<close> is the outcome of \<open>DeploymentStatsForUser\<close>, one aggregate query (\<open>None\<close>: it failed).\<close>
definition handleHomeSummary ::
  "(uuid \<Rightarrow> deploymentStats option) \<Rightarrow> sessionUser option \<Rightarrow> db \<Rightarrow> TelemetrySnapshot \<Rightarrow> (nat, homeSummary) result" where
  "handleHomeSummary stats usr s snap =
     (case usr of
        None \<Rightarrow> Inl 401
      | Some u \<Rightarrow>
          (let ps = ListProjectsForUser s (su_id u)
           in case stats (su_id u) of
                None \<Rightarrow> Inl 500
              | Some st \<Rightarrow>
                  (let (reqs, pods) = telemetryRollupForUser s (su_id u) snap
                   in Inr \<lparr> hs_apps = length ps, hs_live = live_count s ps,
                            hs_deploys = sum_list (map (\<lambda>p. length (ListDeploymentsForProjects s (map pr_id ps) 10 (pr_id p))) ps),
                            hs_stats = st, hs_requests = to_int64 reqs, hs_pods = pods \<rparr>)))"

section \<open>Version\<close>

definition readRebuilderStateField :: "'k api \<Rightarrow> string \<Rightarrow> 'k kube \<Rightarrow> (string, string) result \<times> 'k kube" where
  "readRebuilderStateField api key s =
     (case kdo api GET cm_path None s of
        (Net_error e, s1) \<Rightarrow> (Inl e, s1)
      | (Resp st body j, s1) \<Rightarrow>
          if st \<noteq> 200 then (Inl (''HTTP '' @ show_nat st), s1)
          else (let (data, ok) = unmarshal j [''data''] dec_smap
                in if \<not> ok then (Inl ''decode'', s1) else (Inr (coalesce (map_of data key) ''''), s1)))"

record versionResponse =
  vr_sha :: string
  vr_short :: string
  vr_updated :: string

definition handleVersion :: "'k api \<Rightarrow> 'k kube \<Rightarrow> versionResponse \<times> 'k kube" where
  "handleVersion api s =
     (case readRebuilderState api s of
        (Inr sha, s1) \<Rightarrow>
          if length sha \<ge> 7
          then (case readRebuilderStateField api ''updated_at'' s1 of
                  (Inr ua, s2) \<Rightarrow> (\<lparr> vr_sha = sha, vr_short = take 7 sha, vr_updated = ua \<rparr>, s2)
                | (Inl _, s2) \<Rightarrow> (\<lparr> vr_sha = sha, vr_short = take 7 sha, vr_updated = '''' \<rparr>, s2))
          else (\<lparr> vr_sha = '''', vr_short = ''dev'', vr_updated = '''' \<rparr>, s1)
      | (Inl _, s1) \<Rightarrow> (\<lparr> vr_sha = '''', vr_short = ''dev'', vr_updated = '''' \<rparr>, s1))"

end
