(* ===== verification/Dashboard_Props.thy ===== *)
theory Dashboard_Props
  imports Dashboard
begin

text \<open>
  Properties of the dashboard views: they show the caller's projects only, the activity feed holds the latest events although its two queries are cut
  before they are merged, and what the home summary counts.
\<close>

section \<open>Merging two cut lists\<close>

fun mrg :: "'a :: linorder list \<Rightarrow> 'a list \<Rightarrow> 'a list" where
  "mrg [] ys = ys"
| "mrg (x # xs) [] = x # xs"
| "mrg (x # xs) (y # ys) = (if x \<ge> y then x # mrg xs (y # ys) else y # mrg (x # xs) ys)"

lemma mset_mrg: "mset (mrg xs ys) = mset xs + mset ys"
  by (induction xs ys rule: mrg.induct) auto

lemma set_mrg: "set (mrg xs ys) = set xs \<union> set ys"
  using mset_mrg[of xs ys] by (metis set_mset_mset set_mset_union)

lemma sorted_mrg: "sorted_wrt (\<ge>) xs \<Longrightarrow> sorted_wrt (\<ge>) ys \<Longrightarrow> sorted_wrt (\<ge>) (mrg xs ys)"
  by (induction xs ys rule: mrg.induct) (auto simp: set_mrg)

lemma mrg_Nil2 [simp]: "mrg xs [] = xs"
  by (cases xs) auto

lemma take_mrg: "n \<le> a \<Longrightarrow> n \<le> b \<Longrightarrow> take n (mrg (take a xs) (take b ys)) = take n (mrg xs ys)"
proof (induction xs ys arbitrary: n a b rule: mrg.induct)
  case (3 x xs y ys)
  show ?case
  proof (cases n)
    case (Suc m)
    then obtain a' b' where ab: "a = Suc a'" "b = Suc b'" "m \<le> a'" "m \<le> b'" using "3.prems" by (cases a; cases b) auto
    show ?thesis
      using "3.IH"(1)[of m a' b] "3.IH"(2)[of m a b'] ab Suc by (cases "x \<ge> y") (simp_all add: Suc_le_eq)
  qed simp
qed (auto simp: min_def)

definition desc :: "'a :: linorder list \<Rightarrow> 'a list" where "desc xs = rev (sort xs)"

lemma desc_eq: "mset ys = mset xs \<Longrightarrow> sorted_wrt (\<ge>) ys \<Longrightarrow> desc xs = ys"
proof -
  assume m: "mset ys = mset xs" and s: "sorted_wrt (\<ge>) ys"
  have "sorted (rev ys)" using s by (simp add: sorted_wrt_rev)
  then have "sort xs = rev ys" using m by (intro properties_for_sort) auto
  then show ?thesis by (simp add: desc_def)
qed

lemma desc_cut:
  assumes "sorted_wrt (\<ge>) xs" "sorted_wrt (\<ge>) ys"
  shows "take n (desc (take n xs @ take n ys)) = take n (desc (xs @ ys))"
proof -
  have "desc (xs @ ys) = mrg xs ys" by (rule desc_eq) (simp_all add: mset_mrg sorted_mrg assms)
  moreover have "desc (take n xs @ take n ys) = mrg (take n xs) (take n ys)"
    by (rule desc_eq) (simp_all add: mset_mrg sorted_mrg sorted_wrt_take assms)
  ultimately show ?thesis by (simp add: take_mrg)
qed

lemma keys_latest: "map at_key (latest_first xs) = desc (map at_key xs)"
proof -
  have "sort (map at_key xs) = map at_key (sort_key at_key (rev xs))"
    by (rule properties_for_sort) (simp_all add: sorted_sort_key mset_map[symmetric] del: mset_map, simp add: mset_map)
  then show ?thesis by (simp add: latest_first_def desc_def rev_map)
qed

section \<open>The feed\<close>

lemma joined_sorted:
  "sorted_wrt (\<lambda>d e. d_created d \<ge> d_created e) ds \<Longrightarrow> sorted_wrt (\<lambda>x y. d_created (fst x) \<ge> d_created (fst y)) (joined s ds)"
proof (induction ds)
  case (Cons d ds)
  have "d_created d \<ge> d_created (fst y)" if "y \<in> set (joined s ds)" for y
    using that Cons.prems by (auto simp: joined_def List.map_filter_def join_project_def)
  then show ?case using Cons by (auto simp: joined_def List.map_filter_def join_project_def split: option.splits)
qed (simp add: joined_def List.map_filter_def)

lemma newest_sorted: "sorted_wrt (\<lambda>d e. d_created d \<ge> d_created e) (newest_first ds)"
  using sorted_sort_key[of "\<lambda>d. - d_created d" ds] by (simp add: newest_first_def sorted_wrt_map)

lemma concat_sorted:
  "sorted_wrt (\<lambda>w v. w_received w \<ge> w_received v) dels \<Longrightarrow>
     sorted_wrt (\<lambda>x y. w_received (fst x) \<ge> w_received (fst y)) (concat (map (\<lambda>w. map (\<lambda>p. (w, p)) (f w)) dels))"
  by (induction dels) (auto simp: sorted_wrt_append sorted_wrt_map)

lemma deployments_sorted: "sorted_wrt (\<lambda>x y. d_created (fst x) \<ge> d_created (fst y)) (user_deployments s uid)"
  unfolding user_deployments_def by (intro sorted_wrt_filter joined_sorted newest_sorted)

lemma webhooks_sorted: "sorted_wrt (\<lambda>x y. w_received (fst x) \<ge> w_received (fst y)) (user_webhooks s uid)"
  unfolding user_webhooks_def
  using sorted_sort_key[of "\<lambda>w. - w_received w" "deliveries s"] by (intro concat_sorted) (simp add: sorted_wrt_map)

text \<open>C38: The activity feed shows the latest events: the two queries are each cut to the limit before they are merged, yet the time stamps shown are
  those of the whole history, sorted with the latest first and cut to the limit.  The rendering of times has to respect their order, which
  \<open>to_char\<close> with this format does.\<close>
theorem activity_newest:
  assumes "\<And>t t'. t \<le> t' \<Longrightarrow> map of_char (stamp t) \<le> (map of_char (stamp t') :: nat list)"
  shows "map at_key (ListActivityForUser stamp s uid limit) =
     take (clamp_limit limit 100 40)
       (desc (map at_key (map (deployment_item stamp) (user_deployments s uid) @ map (webhook_item stamp) (user_webhooks s uid))))"
proof -
  let ?n = "clamp_limit limit 100 40"
  let ?d = "map at_key (map (deployment_item stamp) (user_deployments s uid))"
  let ?w = "map at_key (map (webhook_item stamp) (user_webhooks s uid))"
  have d: "sorted_wrt (\<ge>) ?d"
    using deployments_sorted[of s uid] by (auto simp: sorted_wrt_map at_key_def deployment_item_def case_prod_unfold Let_def assms
        elim!: sorted_wrt_mono_rel[rotated])
  have w: "sorted_wrt (\<ge>) ?w"
    using webhooks_sorted[of s uid] by (auto simp: sorted_wrt_map at_key_def webhook_item_def case_prod_unfold Let_def assms
        elim!: sorted_wrt_mono_rel[rotated])
  show ?thesis using desc_cut[OF d w, of ?n]
    by (simp add: ListActivityForUser_def Let_def keys_latest take_map flip: take_map)
qed

definition early_late :: "time \<Rightarrow> string" where "early_late t = (if t < 5 then ''2026-01-01T00:00:00Z'' else ''2026-01-02T00:00:00Z'')"

theorem activity_newest_witness:
  "map at_key (ListActivityForUser early_late (demo_db [demo_dep ''d1'' ''aa'' Failed 3, demo_dep ''d2'' ''bb'' Ready 7]) ''u1'' 1)
     = [map of_char ''2026-01-02T00:00:00Z'']"
proof -
  let ?s = "demo_db [demo_dep ''d1'' ''aa'' Failed 3, demo_dep ''d2'' ''bb'' Ready 7]"
  let ?early = "map of_char ''2026-01-01T00:00:00Z'' :: nat list"
  let ?late = "map of_char ''2026-01-02T00:00:00Z'' :: nat list"
  have le: "?early \<le> ?late" "?late \<ge> ?early" "\<not> ?late \<le> ?early" by (simp_all add: list_le_def list_less_def lexord_cons_cons)
  have mono: "map of_char (early_late t) \<le> (map of_char (early_late t') :: nat list)" if "t \<le> t'" for t t'
    using that le(1) by (simp only: early_late_def split: if_split) auto
  have d: "map at_key (map (deployment_item early_late) (user_deployments ?s ''u1'')) = [?late, ?early]"
    by (simp add: user_deployments_def newest_first_def joined_def List.map_filter_def join_project_def lookup_project_def demo_defs
        at_key_def deployment_item_def early_late_def Let_def)
  have w: "user_webhooks ?s ''u1'' = []" by (simp add: user_webhooks_def demo_defs)
  have "desc [?late, ?early] = [?late, ?early]" using le by (simp only: desc_def sort_key_simps insort_key.simps) (simp only: if_False if_True rev.simps append.simps id_apply le)
  then have "desc (map at_key (map (deployment_item early_late) (user_deployments ?s ''u1'') @ map (webhook_item early_late) (user_webhooks ?s ''u1''))) = [?late, ?early]"
    by (simp only: map_append d w list.map append_Nil2)
  moreover have "clamp_limit 1 100 40 = 1" by (simp add: clamp_limit_def)
  ultimately show ?thesis using activity_newest[of early_late ?s "''u1''" 1, OF mono] by (simp only: take_Suc_Cons take0 One_nat_def)
qed

section \<open>Whose data\<close>

definition owned_id :: "db \<Rightarrow> uuid \<Rightarrow> uuid \<Rightarrow> bool" where
  "owned_id s uid pid \<longleftrightarrow> (\<exists>p\<in>set (projects s). p_id p = pid \<and> p_owner p = Some uid)"

lemma latest_first_set [simp]: "set (latest_first xs) = set xs"
  by (simp add: latest_first_def)

lemma activity_items_owned:
  "it \<in> set (ListActivityForUser stamp s uid limit) \<Longrightarrow> owned_id s uid (av_project it)"
proof -
  assume "it \<in> set (ListActivityForUser stamp s uid limit)"
  then consider x where "x \<in> set (user_deployments s uid)" "it = deployment_item stamp x"
    | x where "x \<in> set (user_webhooks s uid)" "it = webhook_item stamp x"
    by (auto simp: ListActivityForUser_def Let_def dest!: in_set_takeD)
  then show ?thesis
  proof cases
    case 1
    then obtain d p where x: "x = (d, p)" "p_owner p = Some uid" "x \<in> set (joined s (newest_first (deployments s)))"
      by (auto simp: user_deployments_def)
    then have "lookup_project s (d_project d) = Some p" by (auto simp: joined_def List.map_filter_def join_project_def)
    then have "p \<in> set (projects s)" by (auto simp: lookup_project_def dest: find_SomeD)
    then show ?thesis using x 1 by (auto simp: owned_id_def deployment_item_def Let_def)
  next
    case 2
    then show ?thesis by (auto simp: user_webhooks_def owned_id_def webhook_item_def)
  qed
qed

lemma listed_projects_owned:
  "uid \<noteq> '''' \<Longrightarrow> p \<in> set (ListProjectsForUser s uid) \<Longrightarrow> owned_id s uid (pr_id p)"
  by (auto simp: ListProjectsForUser_def owned_id_def project_row_def)

text \<open>The pages of a user show that user's data: every project listed and every event of the feed belongs to a project the user owns, administrators
  included; the deployments listed under a project are that project's.\<close>
theorem dashboard_shows_own:
  assumes "su_id u \<noteq> ''''" "handleListProjects (Some u) s = Inr ps" "handleActivity stamp (Some u) s = Inr items"
  shows "list_all (\<lambda>x. owned_id s (su_id u) (pr_id (pw_row x)) \<and> list_all (\<lambda>d. dr_project d = pr_id (pw_row x)) (pw_deployments x)) ps
    \<and> list_all (\<lambda>it. owned_id s (su_id u) (av_project it)) items"
proof
  have deps: "dr_project d = pid" if "d \<in> set (ListDeploymentsForProjects s ids n pid)" for d ids n pid
    using that by (auto simp: ListDeploymentsForProjects_def joined_def List.map_filter_def join_project_def newest_first_def row_full_def
        dest!: in_set_takeD split: if_splits)
  show "list_all (\<lambda>x. owned_id s (su_id u) (pr_id (pw_row x)) \<and> list_all (\<lambda>d. dr_project d = pr_id (pw_row x)) (pw_deployments x)) ps"
    using assms(2) listed_projects_owned[OF assms(1)] deps by (auto simp: handleListProjects_def Let_def list_all_iff)
  show "list_all (\<lambda>it. owned_id s (su_id u) (av_project it)) items"
    using assms(3) activity_items_owned by (auto simp: handleActivity_def list_all_iff)
qed

definition own_u1 :: sessionUser where
  "own_u1 = \<lparr> su_id = ''u1'', su_github = 42, su_login = ''octo'', su_email = '''', su_avatar = '''', su_admin = True \<rparr>"

theorem dashboard_shows_own_witness:
  "\<exists>ps items. handleListProjects (Some own_u1) (demo_db [demo_dep ''d1'' ''aa'' Failed 3]) = Inr ps \<and> length ps = 1
     \<and> handleActivity early_late (Some own_u1) (demo_db [demo_dep ''d1'' ''aa'' Failed 3]) = Inr items \<and> length items = 1
     \<and> list_all (\<lambda>it. owned_id (demo_db [demo_dep ''d1'' ''aa'' Failed 3]) ''u1'' (av_project it)) items"
proof -
  let ?s = "demo_db [demo_dep ''d1'' ''aa'' Failed 3]"
  have n: "length (ListProjectsForUser ?s ''u1'') = 1" "length (user_deployments ?s ''u1'') = 1" "user_webhooks ?s ''u1'' = []"
    by (simp_all add: ListProjectsForUser_def user_deployments_def user_webhooks_def newest_first_def joined_def List.map_filter_def
        join_project_def lookup_project_def demo_defs)
  have len: "length (latest_first xs) = length xs" for xs by (simp add: latest_first_def)
  obtain ps where p: "handleListProjects (Some own_u1) ?s = Inr ps" "length ps = 1"
    using n(1) by (simp add: handleListProjects_def Let_def own_u1_def)
  obtain items where i: "handleActivity early_late (Some own_u1) ?s = Inr items" "length items = 1"
    using n(2,3) by (simp add: handleActivity_def ListActivityForUser_def Let_def own_u1_def len clamp_limit_def)
  have "su_id own_u1 \<noteq> ''''" by (simp add: own_u1_def)
  from dashboard_shows_own[OF this p(1) i(1)] p i show ?thesis by (auto simp: own_u1_def)
qed

section \<open>What the home summary counts\<close>

lemma sum_list_bound: "(\<And>x. f x \<le> (c :: nat)) \<Longrightarrow> sum_list (map f xs) \<le> c * length xs"
proof (induction xs)
  case (Cons a xs)
  show ?case using add_mono[OF Cons.prems[of a] Cons.IH[OF Cons.prems]] by simp
qed simp

text \<open>At most ten deployments of each project are counted, and a project is counted as live at most once.\<close>
theorem home_summary_bounds:
  "case handleHomeSummary stats usr s snap of
     Inl st \<Rightarrow> st \<in> {401, 500}
   | Inr h \<Rightarrow> hs_live h \<le> hs_apps h \<and> hs_deploys h \<le> 10 * hs_apps h"
proof -
  have ten: "length (ListDeploymentsForProjects s ids 10 p) \<le> 10" for ids p
    by (simp add: ListDeploymentsForProjects_def clamp_limit_def)
  have "sum_list (map (\<lambda>p. length (ListDeploymentsForProjects s (ids p) 10 (pr_id p))) xs) \<le> 10 * length xs" for ids xs
    by (rule sum_list_bound) (rule ten)
  then show ?thesis
    by (auto simp: handleHomeSummary_def live_count_def Let_def split: option.splits prod.splits sum.splits)
qed

text \<open>An app that serves its production deployment but whose last ten deployments failed is not counted as live.\<close>
theorem live_app_not_counted:
  "let s = (demo_db (demo_dep ''d0'' ''aa'' Ready 0 # map (\<lambda>n. demo_dep (''d'' @ show_nat n) ''bb'' Failed (int n)) [1..<11]))
             \<lparr> projects := [demo_project\<lparr> p_prod_dep := Some ''d0'' \<rparr>] \<rparr>
   in map p_prod_dep (projects s) = [Some ''d0''] \<and> live_count s (ListProjectsForUser s ''u1'') = 0"
proof -
  let ?ds = "map (\<lambda>n. demo_dep (''d'' @ show_nat n) ''bb'' Failed (int n)) [1..<11]"
  let ?s = "(demo_db (demo_dep ''d0'' ''aa'' Ready 0 # ?ds)) \<lparr> projects := [demo_project\<lparr> p_prod_dep := Some ''d0'' \<rparr>] \<rparr>"
  have p: "ListProjectsForUser ?s ''u1'' = [project_row (demo_project\<lparr> p_prod_dep := Some ''d0'' \<rparr>)]"
    by (simp add: ListProjectsForUser_def demo_defs)
  have new: "newest_first (demo_dep ''d0'' ''aa'' Ready 0 # ?ds) = rev ?ds @ [demo_dep ''d0'' ''aa'' Ready 0]"
    by (simp add: newest_first_def upt_rec demo_dep_def)
  have j: "joined ?s xs = map (\<lambda>d. (d, demo_project\<lparr> p_prod_dep := Some ''d0'' \<rparr>)) xs" if "\<forall>d\<in>set xs. d_project d = ''p1''" for xs
    using that by (induction xs) (simp_all add: joined_def List.map_filter_def join_project_def lookup_project_def demo_defs)
  have proj: "\<forall>d\<in>set (demo_dep ''d0'' ''aa'' Ready 0 # ?ds). d_project d = ''p1''" by (simp add: demo_dep_def)
  have "dr_status d \<noteq> Ready" if "d \<in> set (ListDeploymentsForProjects ?s [''p1''] 10 ''p1'')" for d
  proof -
    have "filter (\<lambda>d. d_project d = ''p1'') (deployments ?s) = demo_dep ''d0'' ''aa'' Ready 0 # ?ds"
      using proj by (simp add: demo_db_def filter_id_conv)
    then have "ListDeploymentsForProjects ?s [''p1''] 10 ''p1''
       = map (\<lambda>(d, p). row_full d (p_slug p)) (take 10 (joined ?s (rev ?ds @ [demo_dep ''d0'' ''aa'' Ready 0])))"
      unfolding ListDeploymentsForProjects_def by (simp only: new clamp_limit_def) simp
    also have "\<dots> = map (\<lambda>d. row_full d (p_slug demo_project)) (rev ?ds)"
      using proj by (subst j) (auto simp: take_map)
    finally have "d \<in> set (map (\<lambda>d. row_full d (p_slug demo_project)) (rev ?ds))" using that by simp
    then show ?thesis by (auto simp: row_full_def demo_dep_def)
  qed
  then have "live_count ?s (ListProjectsForUser ?s ''u1'') = 0"
    unfolding p by (auto simp: live_count_def project_row_def demo_defs filter_empty_conv)
  then show ?thesis by (simp add: Let_def)
qed

end
