(* ===== verification/Startup.thy ===== *)
theory Startup
  imports Migrate Edge
begin

text \<open>
  The start of the control plane: the configuration that \<open>main\<close> insists on, the connection to the database with its retries, the migrations, the key
  of the GitHub App and the token it signs (\<open>main.go\<close>, \<open>github.go\<close>), the in-cluster credentials (\<open>k8s.go\<close>) and the health probes.  Parameters are
  the environment, the file system, the parsers of keys and certificates, RSA and base64.
\<close>

section \<open>The GitHub App\<close>

definition parseAppID :: "string \<Rightarrow> (string, int) result" where
  "parseAppID s0 =
     (let s = trim_space s0
      in if s = '''' then Inl ''empty app id''
         else case sscan_int s of None \<Rightarrow> Inl (''invalid app id '' @ quoted s) | Some n \<Rightarrow> Inr n)"

text \<open>What the libraries make of a file: the block of a PEM text, an RSA key, a PKCS 8 key (\<open>None\<close> inside: not an RSA key).\<close>
record 'key key_ext =
  ke_read :: "string \<Rightarrow> (string, string) result"
  ke_pem :: "string \<Rightarrow> (string \<times> string) option"
  ke_pkcs1 :: "string \<Rightarrow> (string, 'key) result"
  ke_pkcs8 :: "string \<Rightarrow> (string, 'key option) result"
  ke_certs :: "string \<Rightarrow> bool"

definition loadGitHubApp :: "'key key_ext \<Rightarrow> string \<Rightarrow> string \<Rightarrow> (string, int \<times> 'key) result" where
  "loadGitHubApp x app_id path =
     (case parseAppID app_id of
        Inl e \<Rightarrow> Inl e
      | Inr n \<Rightarrow>
          (case ke_read x path of
             Inl e \<Rightarrow> Inl (''read '' @ path @ '': '' @ e)
           | Inr pem \<Rightarrow>
               (case ke_pem x pem of
                  None \<Rightarrow> Inl ''private key pem is not valid''
                | Some (ty, bytes) \<Rightarrow>
                    if ty = ''RSA PRIVATE KEY''
                    then (case ke_pkcs1 x bytes of Inl e \<Rightarrow> Inl (''parse private key: '' @ e) | Inr k \<Rightarrow> Inr (n, k))
                    else if ty = ''PRIVATE KEY''
                    then (case ke_pkcs8 x bytes of
                            Inl e \<Rightarrow> Inl (''parse PKCS8: '' @ e)
                          | Inr None \<Rightarrow> Inl ''private key is not RSA''
                          | Inr (Some k) \<Rightarrow> Inr (n, k))
                    else Inl (''unsupported pem type '' @ quoted ty))))"

definition quote_key :: "string \<Rightarrow> string" where "quote_key k = quoted k @ '':''"

definition unix :: "time \<Rightarrow> int" where "unix t = t div second"

text \<open>The claims, with the keys in the order of \<open>json.Marshal\<close>.\<close>
definition jwt_claims :: "time \<Rightarrow> int \<Rightarrow> string" where
  "jwt_claims now app_id =
     ''{'' @ quote_key ''exp'' @ show_int (unix (now + 9 * 60 * second)) @ '','' @ quote_key ''iat'' @ show_int (unix (now - 30 * second)) @ '',''
       @ quote_key ''iss'' @ show_int app_id @ ''}''"

definition jwt_header :: string where
  "jwt_header = ''{'' @ quote_key ''alg'' @ quoted ''RS256'' @ '','' @ quote_key ''typ'' @ quoted ''JWT'' @ ''}''"

definition signAppJWT :: "(string \<Rightarrow> string) \<Rightarrow> (string \<Rightarrow> (string, string) result) \<Rightarrow> time \<Rightarrow> int \<Rightarrow> (string, string) result" where
  "signAppJWT b64url sign now app_id =
     (let input = b64url jwt_header @ ''.'' @ b64url (jwt_claims now app_id)
      in case sign input of Inl e \<Rightarrow> Inl e | Inr sig \<Rightarrow> Inr (input @ ''.'' @ b64url sig))"

section \<open>The cluster credentials\<close>

definition sa_dir :: string where "sa_dir = ''/var/run/secrets/kubernetes.io/serviceaccount/''"

record kubeCredentials =
  kc_base :: string
  kc_token :: string
  kc_namespace :: string

definition newInClusterClient :: "'key key_ext \<Rightarrow> (string, kubeCredentials) result" where
  "newInClusterClient x =
     (case ke_read x (sa_dir @ ''token'') of
        Inl e \<Rightarrow> Inl (''read SA token: '' @ e)
      | Inr tok \<Rightarrow>
          (case ke_read x (sa_dir @ ''ca.crt'') of
             Inl e \<Rightarrow> Inl (''read SA CA: '' @ e)
           | Inr ca \<Rightarrow>
               (case ke_read x (sa_dir @ ''namespace'') of
                  Inl e \<Rightarrow> Inl (''read SA namespace: '' @ e)
                | Inr ns \<Rightarrow>
                    if \<not> ke_certs x ca then Inl ''could not parse SA CA bundle''
                    else Inr \<lparr> kc_base = ''https://kubernetes.default.svc'', kc_token = trim_space tok, kc_namespace = trim_space ns \<rparr>)))"

section \<open>Connecting to the database\<close>

text \<open>The \<open>i\<close>-th attempt: its outcome (\<open>None\<close>: the pool answers a ping), the time after it, and whether the process is being stopped.\<close>
record db_ext =
  dx_config :: "string option"
  dx_attempt :: "nat \<Rightarrow> string option"
  dx_now :: "nat \<Rightarrow> time"
  dx_stop :: "nat \<Rightarrow> bool"

datatype connection = Trying | Connected | Gave_up string

fun connect_loop :: "db_ext \<Rightarrow> time \<Rightarrow> nat \<Rightarrow> nat \<Rightarrow> connection" where
  "connect_loop x deadline 0 i = Trying"
| "connect_loop x deadline (Suc fuel) i =
     (case dx_attempt x i of
        None \<Rightarrow> Connected
      | Some e \<Rightarrow>
          if dx_now x i > deadline then Gave_up e
          else if dx_stop x i then Gave_up ''context canceled''
          else connect_loop x deadline fuel (Suc i))"

definition connectDB :: "db_ext \<Rightarrow> nat \<Rightarrow> connection" where
  "connectDB x fuel =
     (case dx_config x of Some e \<Rightarrow> Gave_up e | None \<Rightarrow> connect_loop x (dx_now x 0 + 5 * 60 * second) fuel 0)"

definition readyz :: "bool \<Rightarrow> nat" where "readyz ping_ok = (if ping_ok then 200 else 503)"

section \<open>Start\<close>

record 'key server_cfg =
  cf_secret :: string
  cf_addr :: string
  cf_app :: "int \<times> 'key"
  cf_kube :: kubeCredentials
  cf_auth :: authConfig
  cf_superuser :: string
  cf_hosts :: hostConfig
  cf_max :: int

text \<open>\<open>Exited\<close> is exit status 1 after the logged message.\<close>
datatype 'key start = Exited string | Still_connecting | Started "'key server_cfg"

text \<open>\<open>main\<close> up to the requeue of stuck deployments: configuration, database, migrations, clients.\<close>
definition mainStart ::
  "(string \<Rightarrow> string) \<Rightarrow> 'key key_ext \<Rightarrow> db_ext \<Rightarrow> nat \<Rightarrow> (string \<Rightarrow> 'd \<Rightarrow> (string, 'd) result) \<Rightarrow> mig_file list
     \<Rightarrow> (string \<Rightarrow> string option) \<Rightarrow> (string \<Rightarrow> string option) \<Rightarrow> 'd schema \<Rightarrow> 'key start \<times> 'd schema" where
  "mainStart env x dx fuel exec files b64 host_of s =
     (let secret = trim_space (env ''GITHUB_WEBHOOK_SECRET''); dsn = trim_space (env ''DATABASE_URL'');
          app_id = trim_space (env ''GITHUB_APP_ID''); key_path = trim_space (env ''GITHUB_APP_PRIVATE_KEY_PATH'');
          addr = (if env ''LISTEN_ADDR'' = '''' then '':8080'' else env ''LISTEN_ADDR'')
      in if secret = '''' then (Exited ''GITHUB_WEBHOOK_SECRET is required'', s)
         else if dsn = '''' then (Exited ''DATABASE_URL is required'', s)
         else if app_id = '''' \<or> key_path = '''' then (Exited ''GITHUB_APP_ID and GITHUB_APP_PRIVATE_KEY_PATH are required'', s)
         else case connectDB dx fuel of
           Trying \<Rightarrow> (Still_connecting, s)
         | Gave_up e \<Rightarrow> (Exited ''db connect failed'', s)
         | Connected \<Rightarrow>
             (case runMigrations exec files s of
                (Some e, s1) \<Rightarrow> (Exited ''migrations failed'', s1)
              | (None, s1) \<Rightarrow>
                  (case loadGitHubApp x app_id key_path of
                     Inl e \<Rightarrow> (Exited ''load github app failed'', s1)
                   | Inr gh \<Rightarrow>
                       (case newInClusterClient x of
                          Inl e \<Rightarrow> (Exited ''init k8s client failed'', s1)
                        | Inr k \<Rightarrow>
                            (case loadAuthConfig b64 env of
                               Inl e \<Rightarrow> (Exited ''load auth config failed'', s1)
                             | Inr a \<Rightarrow>
                                 (Started \<lparr> cf_secret = secret, cf_addr = addr, cf_app = gh, cf_kube = k, cf_auth = a,
                                    cf_superuser = trim_space (env ''PG_SUPERUSER_URI''), cf_hosts = loadHostConfig host_of env (ac_base a),
                                    cf_max = loadMaxProjects env \<rparr>, s1))))))"

section \<open>A server that starts is configured\<close>

lemma loadAuth_ok: "loadAuthConfig b64 env = Inr a \<Longrightarrow> ac_client a \<noteq> '''' \<and> ac_client_secret a \<noteq> '''' \<and> length (ac_session_secret a) \<ge> 32"
  by (auto simp: loadAuthConfig_def Let_def split: if_splits option.splits)

lemma run_ok: "runMigrations exec files s = (None, s') \<Longrightarrow> distinct (recorded s) \<Longrightarrow>
    \<exists>ms. read_files files = Inr ms \<and> mi_version ` set ms \<subseteq> set (recorded s')"
proof -
  assume r: "runMigrations exec files s = (None, s')" and d: "distinct (recorded s)"
  then obtain ms where ms: "read_files files = Inr ms" by (auto simp: runMigrations_def Let_def split: sum.splits)
  have "apply_all exec (sort_key mi_version ms) (create_table s) = (None, s')" using r ms by (simp add: runMigrations_def Let_def)
  from apply_all_ready[OF this create_table_ready[OF d]] ms show ?thesis by auto
qed

text \<open>The server never starts half configured: when it starts, the webhook secret is not empty, sign-in has its client credentials and a key of at
  least 32 bytes for the session cookies, the cap on projects is not negative, and every migration file has been applied.\<close>
theorem started_is_configured:
  assumes "mainStart env x dx fuel exec files b64 host_of s = (Started c, s')" "distinct (recorded s)"
  shows "cf_secret c \<noteq> '''' \<and> ac_client (cf_auth c) \<noteq> '''' \<and> ac_client_secret (cf_auth c) \<noteq> ''''
    \<and> length (ac_session_secret (cf_auth c)) \<ge> 32 \<and> 0 \<le> cf_max c
    \<and> (\<exists>ms. read_files files = Inr ms \<and> mi_version ` set ms \<subseteq> set (recorded s'))"
proof -
  have m: "0 \<le> loadMaxProjects env" by (simp add: loadMaxProjects_def Let_def split: option.splits)
  have "runMigrations exec files s = (None, s')" "cf_secret c \<noteq> ''''" "loadAuthConfig b64 env = Inr (cf_auth c)" "cf_max c = loadMaxProjects env"
    using assms(1) by (auto simp: mainStart_def Let_def split: if_splits connection.splits prod.splits option.splits sum.splits)
  then show ?thesis using loadAuth_ok[of b64 env "cf_auth c"] run_ok[of exec files s s'] assms(2) m by simp
qed

definition demo_env :: "string \<Rightarrow> string" where
  "demo_env k =
     (if k = ''GITHUB_WEBHOOK_SECRET'' then ''w'' else if k = ''DATABASE_URL'' then ''d'' else if k = ''GITHUB_APP_ID'' then ''7''
      else if k = ''GITHUB_APP_PRIVATE_KEY_PATH'' then ''p'' else if k = ''GITHUB_APP_CLIENT_ID'' then ''c''
      else if k = ''GITHUB_APP_CLIENT_SECRET'' then ''e'' else if k = ''SESSION_SECRET'' then replicate 32 (CHR ''s'') else '''')"

definition demo_keys :: "unit key_ext" where
  "demo_keys = \<lparr> ke_read = Inr, ke_pem = (\<lambda>p. Some (''PRIVATE KEY'', p)), ke_pkcs1 = (\<lambda>_. Inr ()), ke_pkcs8 = (\<lambda>_. Inr (Some ())),
     ke_certs = (\<lambda>_. True) \<rparr>"

definition demo_dx :: db_ext where
  "demo_dx = \<lparr> dx_config = None, dx_attempt = (\<lambda>i. if i = 0 then Some ''refused'' else None), dx_now = (\<lambda>i. int i * 2 * second), dx_stop = (\<lambda>_. False) \<rparr>"

lemma demo_parts:
  "connectDB demo_dx 2 = Connected" "\<exists>gh. loadGitHubApp demo_keys ''7'' ''p'' = Inr gh" "\<exists>k. newInClusterClient demo_keys = Inr k"
  "\<exists>s'. runMigrations log_body demo_files empty_schema = (None, s')"
proof -
  show "connectDB demo_dx 2 = Connected" by (simp add: connectDB_def demo_dx_def eval_nat_numeral second_def)
  have "trim_space ''7'' = ''7''" "sscan_int ''7'' = Some 7" by code_simp+
  then show "\<exists>gh. loadGitHubApp demo_keys ''7'' ''p'' = Inr gh" by (simp add: loadGitHubApp_def parseAppID_def demo_keys_def Let_def)
  show "\<exists>k. newInClusterClient demo_keys = Inr k" by (simp add: newInClusterClient_def demo_keys_def)
  show "\<exists>s'. runMigrations log_body demo_files empty_schema = (None, s')"
    by (simp add: runMigrations_def demo_read create_table_def empty_schema_def recorded_def apply_mig_def demo_migs_def log_body_def Let_def)
qed

lemma demo_auth: "\<exists>a. loadAuthConfig (\<lambda>_. None) demo_env = Inr a"
proof -
  have "trim_space ''c'' = ''c''" "trim_space ''e'' = ''e''" "trim_space (replicate 32 (CHR ''s'')) = replicate 32 (CHR ''s'')" by code_simp+
  then show ?thesis by (simp add: loadAuthConfig_def demo_env_def Let_def)
qed

theorem started_is_configured_witness:
  "\<exists>c s'. mainStart demo_env demo_keys demo_dx 2 log_body demo_files (\<lambda>_. None) (\<lambda>_. None) empty_schema = (Started c, s')
     \<and> cf_secret c \<noteq> '''' \<and> {1, 2} \<subseteq> set (recorded s')"
proof -
  have t: "trim_space ''w'' = ''w''" "trim_space ''d'' = ''d''" "trim_space ''7'' = ''7''" "trim_space ''p'' = ''p''" by code_simp+
  have env: "demo_env ''GITHUB_WEBHOOK_SECRET'' = ''w''" "demo_env ''DATABASE_URL'' = ''d''" "demo_env ''GITHUB_APP_ID'' = ''7''"
    "demo_env ''GITHUB_APP_PRIVATE_KEY_PATH'' = ''p''" by (simp_all add: demo_env_def)
  from demo_parts demo_auth obtain gh k s' a where
    parts: "connectDB demo_dx 2 = Connected" "loadGitHubApp demo_keys ''7'' ''p'' = Inr gh" "newInClusterClient demo_keys = Inr k"
      "runMigrations log_body demo_files empty_schema = (None, s')" "loadAuthConfig (\<lambda>_. None) demo_env = Inr a" by (elim exE)
  have "\<exists>c. mainStart demo_env demo_keys demo_dx 2 log_body demo_files (\<lambda>_. None) (\<lambda>_. None) empty_schema = (Started c, s')"
    unfolding mainStart_def Let_def env t parts by simp
  then obtain c where c: "mainStart demo_env demo_keys demo_dx 2 log_body demo_files (\<lambda>_. None) (\<lambda>_. None) empty_schema = (Started c, s')" ..
  have "distinct (recorded empty_schema)" by (simp add: recorded_def empty_schema_def)
  from started_is_configured[OF c this] c show ?thesis unfolding demo_read by (auto simp: demo_migs_def)
qed

lemma connect_loop_returns:
  "i \<le> m \<Longrightarrow> dx_now x m > deadline \<Longrightarrow> m - i < fuel \<Longrightarrow> connect_loop x deadline fuel i \<noteq> Trying"
proof (induction fuel arbitrary: i)
  case (Suc fuel)
  show ?case
  proof (cases "i = m")
    case False
    then have "connect_loop x deadline fuel (Suc i) \<noteq> Trying" using Suc.IH[of "Suc i"] Suc.prems by auto
    then show ?thesis by (simp split: option.splits)
  qed (use Suc.prems in \<open>simp split: option.splits\<close>)
qed simp

text \<open>The connection attempts come to an end: if the clock passes the deadline of five minutes at some attempt, fuel for one more attempt is enough
  for an answer.\<close>
theorem connectDB_returns:
  assumes "dx_now x m > dx_now x 0 + 5 * 60 * second"
  shows "connectDB x (Suc m) \<noteq> Trying"
  using connect_loop_returns[of 0 m "dx_now x 0 + 5 * 60 * second" x "Suc m"] assms
  by (simp add: connectDB_def split: option.splits)

theorem connectDB_returns_witness:
  "connectDB \<lparr> dx_config = None, dx_attempt = (\<lambda>_. Some ''refused''), dx_now = (\<lambda>i. int i * 100 * second), dx_stop = (\<lambda>_. False) \<rparr> 5 \<noteq> Trying"
  using connectDB_returns[of "\<lparr> dx_config = None, dx_attempt = (\<lambda>_. Some ''refused''), dx_now = (\<lambda>i. int i * 100 * second), dx_stop = (\<lambda>_. False) \<rparr>" 4]
  by (simp add: second_def)

text \<open>The token of the App is backdated by half a minute and lives nine and a half minutes in all, below GitHub's limit of ten.\<close>
theorem jwt_lifetime:
  "jwt_claims now app = ''{'' @ quote_key ''exp'' @ show_int (unix (now - 30 * second) + 570) @ '','' @ quote_key ''iat''
     @ show_int (unix (now - 30 * second)) @ '','' @ quote_key ''iss'' @ show_int app @ ''}''"
proof -
  have "now + 9 * 60 * second = (now - 30 * second) + 570 * second" by simp
  then have "unix (now + 9 * 60 * second) = unix (now - 30 * second) + 570" by (simp add: unix_def second_def)
  then show ?thesis by (simp add: jwt_claims_def)
qed

end
