(* ===== verification/Setup_Tools.thy ===== *)
theory Setup_Tools
  imports Startup Log_Streams "HOL-Library.Word"
begin

unbundle bit_operations_syntax

text \<open>
  The operator tools: \<open>tools/setup-gh-app\<close>, which creates the GitHub App through GitHub's manifest flow and writes its credentials to files, with its
  own base64 decoder on 32-bit words, and \<open>tools/mint-token\<close>, which asks for one installation token.  Parameters are GitHub, kubectl and the file
  system.  The browser page, the listener and the printed instructions are left out.
\<close>

section \<open>The base64 decoder\<close>

definition b64_alphabet :: string where
  "b64_alphabet = ''ABCDEFGHIJKLMNOPQRSTUVWXYZabcdefghijklmnopqrstuvwxyz0123456789+/''"

text \<open>The table \<open>idx\<close>; a missing entry is the -1 of the code.\<close>
definition b64_index :: "char \<Rightarrow> nat option" where "b64_index = map_of (zip b64_alphabet [0..<64])"

text \<open>The loop over the characters with \<open>buf\<close> and \<open>bits\<close>; \<open>None\<close> is an invalid character.\<close>
fun b64_loop :: "32 word \<Rightarrow> 32 word \<Rightarrow> string \<Rightarrow> string option" where
  "b64_loop buf bits [] = Some []"
| "b64_loop buf bits (c # cs) =
     (case b64_index c of
        None \<Rightarrow> None
      | Some v \<Rightarrow>
          (let buf1 = push_bit 6 buf OR of_nat v; bits1 = bits + 6
           in if bits1 \<ge> 8
              then (let bits2 = bits1 - 8; byte = char_of (unat (drop_bit (unat bits2) buf1))
                    in map_option ((#) byte) (b64_loop (buf1 AND (push_bit (unat bits2) 1 - 1)) bits2 cs))
              else b64_loop buf1 bits1 cs))"

definition base64Decode :: "string \<Rightarrow> string option" where
  "base64Decode s = b64_loop 0 0 (trim_right (\<lambda>c. c = CHR ''='') s)"

section \<open>A reference encoder\<close>

definition b64_char :: "nat \<Rightarrow> char" where "b64_char v = b64_alphabet ! v"

text \<open>RFC 4648 on byte values, three bytes at a time.\<close>
fun b64_encode :: "string \<Rightarrow> string" where
  "b64_encode (a # b # c # s) =
     (let x = of_char a; y = of_char b; z = of_char c :: nat
      in b64_char (x div 4) # b64_char (x mod 4 * 16 + y div 16) # b64_char (y mod 16 * 4 + z div 64) # b64_char (z mod 64) # b64_encode s)"
| "b64_encode [a, b] =
     (let x = of_char a; y = of_char b :: nat
      in [b64_char (x div 4), b64_char (x mod 4 * 16 + y div 16), b64_char (y mod 16 * 4), CHR ''=''])"
| "b64_encode [a] = (let x = of_char a :: nat in [b64_char (x div 4), b64_char (x mod 4 * 16), CHR ''='', CHR ''=''])"
| "b64_encode [] = []"

lemma alphabet: "length b64_alphabet = 64" "distinct b64_alphabet" "CHR ''='' \<notin> set b64_alphabet"
  by (simp_all add: b64_alphabet_def)

lemma index_char: "v < 64 \<Longrightarrow> b64_index (b64_char v) = Some v"
  using map_of_zip_nth[of b64_alphabet "[0..<64]" v] alphabet by (simp add: b64_index_def b64_char_def)

lemma char_not_pad: "v < 64 \<Longrightarrow> b64_char v \<noteq> CHR ''=''"
  using alphabet nth_mem[of v b64_alphabet] by (metis b64_char_def)

section \<open>Steps of the decoder\<close>

lemma word_join: "v < 64 \<Longrightarrow> push_bit 6 (of_nat b) OR of_nat v = (of_nat (64 * b + v) :: 32 word)"
proof -
  assume v: "v < 64"
  have "push_bit 6 (of_nat b :: 32 word) AND of_nat v = 0"
  proof (rule bit_eqI)
    fix n
    have "\<not> bit v n" if "n \<ge> 6"
    proof -
      have "v < 2 ^ n" using v power_increasing[OF that, of "2 :: nat"] by simp
      then show ?thesis by (simp add: bit_iff_odd)
    qed
    then show "bit (push_bit 6 (of_nat b :: 32 word) AND of_nat v) n = bit (0 :: 32 word) n"
      by (auto simp: bit_simps)
  qed
  then have "push_bit 6 (of_nat b :: 32 word) OR of_nat v = push_bit 6 (of_nat b) + of_nat v"
    by (simp add: disjunctive_add_eq_or)
  then show ?thesis by (simp add: push_bit_eq_mult ac_simps)
qed

lemma word_high: "m < 2 ^ 32 \<Longrightarrow> unat (drop_bit k (of_nat m :: 32 word)) = m div 2 ^ k"
  by (simp only: unat_drop_bit_eq) (simp add: unat_of_nat drop_bit_eq_div)

lemma word_low: "(of_nat m :: 32 word) AND (push_bit k 1 - 1) = of_nat (m mod 2 ^ k)"
proof -
  have "(push_bit k 1 - 1 :: 32 word) = mask k" by (simp add: mask_eq_exp_minus_1 push_bit_eq_mult)
  then have "(of_nat m :: 32 word) AND (push_bit k 1 - 1) = take_bit k (of_nat m)" by (simp only: take_bit_eq_mask)
  also have "\<dots> = of_nat (take_bit k m)" by (rule take_bit_of_nat)
  finally show ?thesis by (simp only: take_bit_eq_mod)
qed

lemma byte_char: "char_of (of_char c :: nat) = c" "(of_char c :: nat) < 256"
  by simp_all

lemma step6:
  assumes "v < 64" "b64_index c = Some v"
  shows "b64_loop 0 0 (c # cs) = b64_loop (of_nat v) 6 cs"
  using assms word_join[of v 0] by (simp add: Let_def)

lemma step_out:
  assumes "v < 64" "b64_index c = Some v" "b < 2 ^ k" "k \<in> {2, 4, 6}"
  shows "b64_loop (of_nat b) (of_nat k) (c # cs)
     = map_option ((#) (char_of ((64 * b + v) div 2 ^ (k - 2)))) (b64_loop (of_nat ((64 * b + v) mod 2 ^ (k - 2))) (of_nat (k - 2)) cs)"
proof -
  have "b < 64" using assms(3,4) by auto
  then have m: "64 * b + v < 2 ^ 32" using assms(1) by simp
  have bits: "(of_nat k + 6 :: 32 word) \<ge> 8" "(of_nat k + 6 - 8 :: 32 word) = of_nat (k - 2)" "unat (of_nat (k - 2) :: 32 word) = k - 2"
    using assms(4) by (auto simp: word_le_nat_alt)
  have "b64_loop (of_nat b) (of_nat k) (c # cs)
     = map_option ((#) (char_of (unat (drop_bit (k - 2) (of_nat (64 * b + v) :: 32 word)))))
         (b64_loop (of_nat (64 * b + v) AND (push_bit (k - 2) 1 - 1)) (of_nat (k - 2)) cs)"
    unfolding b64_loop.simps(2) assms(2) option.case Let_def word_join[OF assms(1)] by (simp only: bits if_True)
  then show ?thesis unfolding word_high[OF m] word_low .
qed

lemma sextets:
  fixes x y :: nat
  assumes "x < 256" "y < 256"
  shows "x div 4 < 64" "x mod 4 * 16 + y div 16 < 64" "x mod 16 * 4 + y div 64 < 64" "x mod 64 < 64" "x mod 4 * 16 < 64" "x mod 16 * 4 < 64"
proof -
  have b: "x div 4 < 64" "y div 16 < 16" "y div 64 < 4" "x mod 4 < 4" "x mod 16 < 16" "x mod 64 < 64"
    using assms by (simp_all add: less_mult_imp_div_less)
  show "x div 4 < 64" "x mod 64 < 64" by (rule b)+
  show "x mod 4 * 16 + y div 16 < 64" "x mod 4 * 16 < 64" using b(2,4) by linarith+
  show "x mod 16 * 4 + y div 64 < 64" "x mod 16 * 4 < 64" using b(3,5) by linarith+
qed

lemma first_byte:
  assumes "x < 256" "w < 16"
  shows "b64_loop 0 0 (b64_char (x div 4) # b64_char (x mod 4 * 16 + w) # cs) = map_option ((#) (char_of x)) (b64_loop (of_nat w) 4 cs)"
proof -
  let ?v = "x mod 4 * 16 + w"
  have v1: "x div 4 < 64" using assms(1) by (simp add: less_mult_imp_div_less)
  have "x mod 4 < 4" by simp
  then have v2: "?v < 64" using assms(2) by linarith
  have "x div 4 * 4 + x mod 4 = x" by simp
  then have e: "64 * (x div 4) + ?v = 16 * x + w" by linarith
  have d: "(64 * (x div 4) + ?v) div 2 ^ (6 - 2) = x" "(64 * (x div 4) + ?v) mod 2 ^ (6 - 2) = w" unfolding e using assms by simp_all
  have "x div 4 < 2 ^ 6" using v1 by simp
  from step_out[OF v2 index_char[OF v2] this, of cs] have "b64_loop (of_nat (x div 4)) (of_nat 6) (b64_char ?v # cs)
      = map_option ((#) (char_of x)) (b64_loop (of_nat w) (of_nat (6 - 2)) cs)" unfolding d by simp
  then show ?thesis unfolding step6[OF v1 index_char[OF v1]] by simp
qed

lemma second_byte:
  assumes "y < 256" "w < 4"
  shows "b64_loop (of_nat (y div 16)) 4 (b64_char (y mod 16 * 4 + w) # cs) = map_option ((#) (char_of y)) (b64_loop (of_nat w) 2 cs)"
proof -
  let ?v = "y mod 16 * 4 + w"
  have v1: "y div 16 < 2 ^ 4" using assms(1) by (simp add: less_mult_imp_div_less)
  have "y mod 16 < 16" by simp
  then have v2: "?v < 64" using assms(2) by linarith
  have "y div 16 * 16 + y mod 16 = y" by simp
  then have e: "64 * (y div 16) + ?v = 4 * y + w" by linarith
  have d: "(64 * (y div 16) + ?v) div 2 ^ (4 - 2) = y" "(64 * (y div 16) + ?v) mod 2 ^ (4 - 2) = w" unfolding e using assms by simp_all
  from step_out[OF v2 index_char[OF v2] v1, of cs] have "b64_loop (of_nat (y div 16)) (of_nat 4) (b64_char ?v # cs)
      = map_option ((#) (char_of y)) (b64_loop (of_nat w) (of_nat (4 - 2)) cs)" unfolding d by simp
  then show ?thesis by simp
qed

lemma third_byte:
  assumes "z < 256"
  shows "b64_loop (of_nat (z div 64)) 2 (b64_char (z mod 64) # cs) = map_option ((#) (char_of z)) (b64_loop 0 0 cs)"
proof -
  have v: "z div 64 < 2 ^ 2" "z mod 64 < 64" using assms by (simp_all add: less_mult_imp_div_less)
  have "64 * (z div 64) + z mod 64 = z" by simp
  then show ?thesis using step_out[of "z mod 64" "b64_char (z mod 64)" "z div 64" 2 cs, OF v(2) index_char[OF v(2)] v(1)] by simp
qed

section \<open>Round trip\<close>

definition b64_raw :: "string \<Rightarrow> string" where "b64_raw s = filter (\<lambda>c. c \<noteq> CHR ''='') (b64_encode s)"

lemma raw_chars [simp]:
  "b64_char (of_char a div 4) \<noteq> CHR ''=''" "b64_char (of_char a mod 4 * 16 + of_char b div 16) \<noteq> CHR ''=''"
  "b64_char (of_char a mod 16 * 4 + of_char b div 64) \<noteq> CHR ''=''" "b64_char (of_char a mod 64) \<noteq> CHR ''=''"
  "b64_char (of_char a mod 4 * 16) \<noteq> CHR ''=''" "b64_char (of_char a mod 16 * 4) \<noteq> CHR ''=''"
  by (rule char_not_pad, rule sextets[OF byte_char(2) byte_char(2)])+

lemma raw_simps:
  "b64_raw (a # b # c # s) =
     b64_char (of_char a div 4) # b64_char (of_char a mod 4 * 16 + of_char b div 16) # b64_char (of_char b mod 16 * 4 + of_char c div 64)
       # b64_char (of_char c mod 64) # b64_raw s"
  "b64_raw [a, b] = [b64_char (of_char a div 4), b64_char (of_char a mod 4 * 16 + of_char b div 16), b64_char (of_char b mod 16 * 4)]"
  "b64_raw [a] = [b64_char (of_char a div 4), b64_char (of_char a mod 4 * 16)]"
  "b64_raw [] = []"
  by (simp_all add: b64_raw_def Let_def)

lemma encode_raw: "\<exists>n. b64_encode s = b64_raw s @ replicate n (CHR ''='')"
proof (induction s rule: b64_encode.induct)
  case (1 a b c s)
  then show ?case by (simp add: raw_simps Let_def)
next
  case (2 a b)
  show ?case by (rule exI[of _ "Suc 0"]) (simp add: raw_simps Let_def)
next
  case (3 a)
  show ?case by (rule exI[of _ "Suc (Suc 0)"]) (simp add: raw_simps Let_def)
next
  case 4
  show ?case by (rule exI[of _ 0]) (simp add: raw_simps)
qed

lemma trim_pad: "CHR ''='' \<notin> set xs \<Longrightarrow> trim_right (\<lambda>c. c = CHR ''='') (xs @ replicate n (CHR ''='')) = xs"
proof -
  assume n: "CHR ''='' \<notin> set xs"
  have "dropWhile (\<lambda>c. c = CHR ''='') (replicate n (CHR ''='') @ rev xs) = dropWhile (\<lambda>c. c = CHR ''='') (rev xs)" by (induction n) simp_all
  also have "\<dots> = rev xs" using n hd_in_set[of "rev xs"] by (auto simp: dropWhile_eq_self_iff)
  finally show ?thesis by (simp add: trim_right_def)
qed

lemma loop_raw: "b64_loop 0 0 (b64_raw s) = Some s"
proof (induction s rule: b64_encode.induct)
  case (1 a b c s)
  have "(of_char b :: nat) div 16 < 16" "(of_char c :: nat) div 64 < 4"
    using byte_char(2)[of b] byte_char(2)[of c] by (simp_all add: less_mult_imp_div_less)
  then show ?case using 1 by (simp add: raw_simps first_byte second_byte third_byte del: b64_loop.simps)
next
  case (2 a b)
  have "(of_char b :: nat) div 16 < 16" using byte_char(2)[of b] by (simp add: less_mult_imp_div_less)
  then show ?case using second_byte[of "of_char b" 0 "[]"] b64_loop.simps(1) by (simp add: raw_simps first_byte del: b64_loop.simps(2))
next
  case (3 a)
  show ?case using first_byte[of "of_char a" 0 "[]"] by (simp add: raw_simps)
qed (simp add: raw_simps)

text \<open>C39: The tool's own decoder inverts standard base64 on every byte string: its 32-bit buffer never loses a bit.\<close>
theorem base64_roundtrip: "base64Decode (b64_encode s) = Some s"
proof -
  obtain n where "b64_encode s = b64_raw s @ replicate n (CHR ''='')" using encode_raw by blast
  moreover have "CHR ''='' \<notin> set (b64_raw s)" by (simp add: b64_raw_def)
  ultimately show ?thesis by (simp add: base64Decode_def trim_pad loop_raw)
qed

section \<open>The manifest flow\<close>

record appFlags =
  fl_name :: string
  fl_homepage :: string
  fl_webhook :: string
  fl_callback :: string
  fl_secret :: string
  fl_out :: string

definition default_flags :: appFlags where
  "default_flags = \<lparr> fl_name = ''spinup'', fl_homepage = ''https://spinup.in'', fl_webhook = ''https://spinup.in/webhooks/github'',
     fl_callback = ''https://spinup.in/auth/callback'', fl_secret = '''', fl_out = ''./out'' \<rparr>"

definition app_permissions :: "(string \<times> string) list" where
  "app_permissions = [(''contents'', ''write''), (''metadata'', ''read''), (''pull_requests'', ''write''), (''statuses'', ''write''),
     (''checks'', ''write''), (''deployments'', ''write'')]"

definition app_description :: string where
  "app_description = ''Spinup '' @ dash @ '' push to deploy. Builds your repo on every push to its default branch and serves it at a per-commit preview URL plus a production alias, with an own Postgres database per project.''"

text \<open>\<open>base\<close> is the address of the local listener.\<close>
definition app_manifest :: "string \<Rightarrow> appFlags \<Rightarrow> json" where
  "app_manifest base f = JObj
     [(''name'', JStr (fl_name f)), (''url'', JStr (fl_homepage f)),
      (''hook_attributes'', JObj [(''url'', JStr (fl_webhook f)), (''active'', JBool True)]),
      (''redirect_url'', JStr (base @ ''/callback'')), (''callback_urls'', JArr [JStr (fl_callback f)]),
      (''request_oauth_on_install'', JBool True), (''setup_url'', JStr (fl_homepage f)), (''description'', JStr app_description),
      (''public'', JBool False), (''default_events'', JArr [JStr ''push'', JStr ''pull_request'']),
      (''default_permissions'', jlabels app_permissions)]"

text \<open>The secret the cluster holds, as kubectl prints it.\<close>
definition readWebhookSecretFromCluster :: "(string, string) result \<Rightarrow> (string, string) result" where
  "readWebhookSecretFromCluster out =
     (case out of
        Inl e \<Rightarrow> Inl e
      | Inr s \<Rightarrow> (case base64Decode (trim_space s) of None \<Rightarrow> Inl ''invalid base64 char'' | Some d \<Rightarrow> Inr (trim_space d)))"

record conversion =
  cv_id :: int
  cv_slug :: string
  cv_client :: string
  cv_secret :: string
  cv_webhook :: string
  cv_pem :: string
  cv_url :: string

definition exchange_url :: "string \<Rightarrow> string" where
  "exchange_url code = ''https://api.github.com/app-manifests/'' @ pathEscape code @ ''/conversions''"

definition exchangeCode :: "(string \<Rightarrow> kresp) \<Rightarrow> string \<Rightarrow> (string, conversion) result" where
  "exchangeCode post code =
     (case post (exchange_url code) of
        Net_error e \<Rightarrow> Inl e
      | Resp st body j \<Rightarrow>
          if \<not> ok2xx st then Inl (''status '' @ show_nat st @ '': '' @ trim_space body)
          else (let (i, o1) = unmarshal j [''id''] dec_int; (sl, o2) = unmarshal j [''slug''] dec_str;
                    (cl, o3) = unmarshal j [''client_id''] dec_str; (cs, o4) = unmarshal j [''client_secret''] dec_str;
                    (wh, o5) = unmarshal j [''webhook_secret''] dec_str; (pem, o6) = unmarshal j [''pem''] dec_str;
                    (u, o7) = unmarshal j [''html_url''] dec_str; (_, o8) = unmarshal j [''node_id''] dec_str; (_, o9) = unmarshal j [''name''] dec_str
                in if \<not> (o1 \<and> o2 \<and> o3 \<and> o4 \<and> o5 \<and> o6 \<and> o7 \<and> o8 \<and> o9) then Inl ''json''
                   else if i = 0 \<or> pem = '''' then Inl ''response missing id or pem''
                   else Inr \<lparr> cv_id = i, cv_slug = sl, cv_client = cl, cv_secret = cs, cv_webhook = wh, cv_pem = pem, cv_url = u \<rparr>))"

text \<open>The handler of \<open>/callback\<close>: its status and the conversion it hands over.\<close>
definition callback_page :: "(string \<Rightarrow> kresp) \<Rightarrow> string \<Rightarrow> nat \<times> conversion option" where
  "callback_page post code =
     (if code = '''' then (400, None)
      else case exchangeCode post code of Inl _ \<Rightarrow> (502, None) | Inr c \<Rightarrow> (200, Some c))"

definition credential_files :: "conversion \<Rightarrow> (string \<times> string) list" where
  "credential_files c =
     (let nl = [CHR 0x0A]
      in [(''app-id'', show_int (cv_id c) @ nl), (''slug'', cv_slug c @ nl), (''client-id'', cv_client c @ nl),
          (''client-secret'', cv_secret c @ nl), (''webhook-secret'', cv_webhook c @ nl), (''private-key.pem'', cv_pem c),
          (''install-url'', cv_url c @ ''/installations/new'' @ nl)])"

text \<open>The files written until one fails; \<open>False\<close> is exit status 1.\<close>
fun writeAll :: "(string \<Rightarrow> bool) \<Rightarrow> (string \<times> string) list \<Rightarrow> (string \<times> string) list \<times> bool" where
  "writeAll ok [] = ([], True)"
| "writeAll ok (f # fs) = (if ok (fst f) then (let (done1, r) = writeAll ok fs in (f # done1, r)) else ([], False))"

section \<open>One installation token\<close>

text \<open>The outcome of \<open>mint-token\<close>; \<open>None\<close> is the panic of the type assertion on a key that is not RSA.\<close>
datatype mint_result = Usage | Mint_failed | Minted string

definition mintToken ::
  "'key key_ext \<Rightarrow> ('key \<Rightarrow> string \<Rightarrow> (string, string) result) \<Rightarrow> (string \<Rightarrow> string) \<Rightarrow> (string \<Rightarrow> string \<Rightarrow> kresp) \<Rightarrow> time
     \<Rightarrow> string \<Rightarrow> int \<Rightarrow> int \<Rightarrow> mint_result option" where
  "mintToken x sign b64url post now path app_id inst =
     (if path = '''' \<or> app_id = 0 \<or> inst = 0 then Some Usage
      else case ke_read x path of
        Inl _ \<Rightarrow> Some Mint_failed
      | Inr pem \<Rightarrow>
          (case ke_pem x pem of
             None \<Rightarrow> Some Mint_failed
           | Some (ty, bytes) \<Rightarrow>
               (let key = (if ty = ''RSA PRIVATE KEY'' then (case ke_pkcs1 x bytes of Inl _ \<Rightarrow> Inl () | Inr k \<Rightarrow> Inr (Some k))
                           else (case ke_pkcs8 x bytes of Inl _ \<Rightarrow> Inl () | Inr k \<Rightarrow> Inr k))
                in case key of
                     Inl _ \<Rightarrow> Some Mint_failed
                   | Inr None \<Rightarrow> None
                   | Inr (Some k) \<Rightarrow>
                       (case signAppJWT b64url (sign k) now app_id of
                          Inl _ \<Rightarrow> Some Mint_failed
                        | Inr jwt \<Rightarrow>
                            (case post (token_url inst) jwt of
                               Net_error _ \<Rightarrow> Some Mint_failed
                             | Resp st body j \<Rightarrow>
                                 if \<not> ok2xx st then Some Mint_failed
                                 else Some (Minted (fst (dec_str (json_at j [''token'']))))))))) "

text \<open>The callback of the flow hands over credentials only with an App id and a private key, and then with status 200.\<close>
theorem callback_hands_over_complete:
  "case callback_page post code of
     (st, None) \<Rightarrow> st \<in> {400, 502}
   | (st, Some c) \<Rightarrow> st = 200 \<and> code \<noteq> '''' \<and> cv_id c \<noteq> 0 \<and> cv_pem c \<noteq> '''' \<and> length (credential_files c) = 7"
  by (auto simp: callback_page_def exchangeCode_def credential_files_def Let_def split: sum.splits kresp.splits if_splits prod.splits)

end
