(* ===== verification/Tenant_View.thy ===== *)
theory Tenant_View
  imports Store_Projects Telemetry_Api Dashboard_Props
begin

text \<open>
  What the database holds about one user, as a specification: \<open>own_rows\<close> keeps the rows that hang off the user's projects.  A look-up of the store
  is confined when it gives the same answer on these rows alone; the locale states the contract once, and every listing and look-up that the
  read-only routes use is an instance of it.
\<close>

section \<open>The rows of a user\<close>

definition own_rows :: "uuid \<Rightarrow> db \<Rightarrow> db" where
  "own_rows uid s =
     (let ps = filter (\<lambda>p. p_owner p = Some uid) (projects s)
      in \<lparr> installations = filter (\<lambda>i. \<exists>p\<in>set ps. p_inst p = in_id i) (installations s), install_repos = [],
           projects = ps, deployments = filter (\<lambda>d. \<exists>p\<in>set ps. p_id p = d_project d) (deployments s),
           deliveries = filter (\<lambda>w. \<exists>p\<in>set ps. w_repo w = Some (p_full_name p)) (deliveries s),
           users = [], sessions = [],
           project_dbs = filter (\<lambda>x. \<exists>p\<in>set ps. p_id p = pd_project x) (project_dbs s),
           env_vars = filter (\<lambda>x. \<exists>p\<in>set ps. p_id p = ev_project x) (env_vars s),
           domains = filter (\<lambda>x. \<exists>p\<in>set ps. p_id p = dm_project x) (domains s), signups = [] \<rparr>)"

lemma own_rows_sel [simp]:
  "projects (own_rows uid s) = filter (\<lambda>p. p_owner p = Some uid) (projects s)"
  "deployments (own_rows uid s) = filter (\<lambda>d. \<exists>p\<in>set (projects s). p_owner p = Some uid \<and> p_id p = d_project d) (deployments s)"
  "deliveries (own_rows uid s) = filter (\<lambda>w. \<exists>p\<in>set (projects s). p_owner p = Some uid \<and> w_repo w = Some (p_full_name p)) (deliveries s)"
  "installations (own_rows uid s) = filter (\<lambda>i. \<exists>p\<in>set (projects s). p_owner p = Some uid \<and> p_inst p = in_id i) (installations s)"
  "project_dbs (own_rows uid s) = filter (\<lambda>x. \<exists>p\<in>set (projects s). p_owner p = Some uid \<and> p_id p = pd_project x) (project_dbs s)"
  "domains (own_rows uid s) = filter (\<lambda>x. \<exists>p\<in>set (projects s). p_owner p = Some uid \<and> p_id p = dm_project x) (domains s)"
  "env_vars (own_rows uid s) = filter (\<lambda>x. \<exists>p\<in>set (projects s). p_owner p = Some uid \<and> p_id p = ev_project x) (env_vars s)"
  by (auto simp: own_rows_def Let_def intro!: filter_cong)

lemma find_filter_key:
  "distinct (map k xs) \<Longrightarrow> find (\<lambda>x. k x = a) (filter Q xs) = (case find (\<lambda>x. k x = a) xs of None \<Rightarrow> None | Some x \<Rightarrow> if Q x then Some x else None)"
proof (induction xs)
  case (Cons x xs)
  have "find (\<lambda>x. k x = a) (filter Q xs) = None" if "k x = a"
    unfolding find_None_iff using that Cons.prems by (auto simp: image_iff)
  then show ?case using Cons by auto
qed simp

lemma lookup_own:
  assumes "db_ok s"
  shows "lookup_project (own_rows uid s) pid = (case lookup_project s pid of None \<Rightarrow> None | Some p \<Rightarrow> if p_owner p = Some uid then Some p else None)"
    and "lookup_dep (own_rows uid s) did = (case lookup_dep s did of None \<Rightarrow> None
       | Some d \<Rightarrow> if \<exists>p\<in>set (projects s). p_owner p = Some uid \<and> p_id p = d_project d then Some d else None)"
    and "lookup_inst (own_rows uid s) i = (case lookup_inst s i of None \<Rightarrow> None
       | Some r \<Rightarrow> if \<exists>p\<in>set (projects s). p_owner p = Some uid \<and> p_inst p = in_id r then Some r else None)"
  using assms unfolding lookup_project_def lookup_dep_def lookup_inst_def own_rows_sel
  by (simp_all add: find_filter_key db_ok_defs)

lemma own_lookup:
  assumes "db_ok s"
  shows "(\<exists>p\<in>set (projects s). p_owner p = Some uid \<and> p_id p = pid) \<longleftrightarrow> (\<exists>p. lookup_project s pid = Some p \<and> p_owner p = Some uid)"
  using assms lookup_project_unique lookup_project_Some unfolding db_ok_def by metis

lemma lookup_inst_own:
  assumes "db_ok s" "p \<in> set (projects s)" "p_owner p = Some uid"
  shows "lookup_inst (own_rows uid s) (p_inst p) = lookup_inst s (p_inst p)"
proof (cases "lookup_inst s (p_inst p)")
  case (Some r)
  then have "in_id r = p_inst p" by (simp add: lookup_inst_Some)
  then show ?thesis using Some assms lookup_own(3)[OF assms(1)] by auto
qed (simp add: lookup_own(3)[OF assms(1)])

section \<open>The contract\<close>

text \<open>What a scoped query returns depends on the user's rows only, so other tenants cannot influence it.\<close>
locale confined =
  fixes query :: "db \<Rightarrow> uuid \<Rightarrow> 'a"
  assumes on_own_rows: "db_ok s \<Longrightarrow> uid \<noteq> '''' \<Longrightarrow> query (own_rows uid s) uid = query s uid"
begin

lemma same: "db_ok s \<Longrightarrow> db_ok t \<Longrightarrow> uid \<noteq> '''' \<Longrightarrow> own_rows uid s = own_rows uid t \<Longrightarrow> query s uid = query t uid"
  by (metis on_own_rows)

end

section \<open>Instances\<close>

lemma owned_project_own:
  "db_ok s \<Longrightarrow> uid \<noteq> '''' \<Longrightarrow> owned_project (own_rows uid s) pid uid = owned_project s pid uid"
  by (auto simp: owned_project_def lookup_own owner_matches_def split: option.splits)

interpretation ni_target: confined "\<lambda>s uid. GetProjectForDeploy s pid uid"
  by unfold_locales (simp add: GetProjectForDeploy_def owned_project_own)

lemma owned_project_mem: "owned_project s pid uid = Some p \<Longrightarrow> uid \<noteq> '''' \<Longrightarrow> p \<in> set (projects s) \<and> p_owner p = Some uid"
  by (auto simp: owned_project_def owner_matches_def dest: lookup_project_Some split: option.splits if_splits)

interpretation ni_info: confined "\<lambda>s uid. GetProjectForOwner s pid uid"
proof
  fix s :: db and uid :: uuid assume a: "db_ok s" "uid \<noteq> ''''"
  have "install_login (own_rows uid s) p = install_login s p" if "owned_project s pid uid = Some p" for p
    using owned_project_mem[OF that a(2)] a(1) by (simp add: install_login_def lookup_inst_own)
  then show "GetProjectForOwner (own_rows uid s) pid uid = GetProjectForOwner s pid uid"
    by (cases "owned_project s pid uid") (auto simp: GetProjectForOwner_def owned_project_own[OF a])
qed

interpretation ni_projects: confined ListProjectsForUser
  by unfold_locales (simp add: ListProjectsForUser_def)

interpretation ni_tenants: confined ListProjectsWithTenant
proof
  fix s :: db and uid :: uuid assume a: "db_ok s" "uid \<noteq> ''''"
  have f: "filter (\<lambda>p. owner_matches uid (p_owner p)) (filter (\<lambda>p. p_owner p = Some uid) ps) = filter (\<lambda>p. owner_matches uid (p_owner p)) ps"
    for ps using a(2) by (induction ps) (auto simp: owner_matches_def)
  show "ListProjectsWithTenant (own_rows uid s) uid = ListProjectsWithTenant s uid"
    unfolding ListProjectsWithTenant_def own_rows_sel f List.map_filter_def
    using a lookup_inst_own[OF a(1)] by (auto simp: owner_matches_def intro!: map_cong filter_cong)
qed

interpretation ni_database: confined "\<lambda>s uid. GetProjectDatabaseForOwner s pid uid"
proof
  fix s :: db and uid :: uuid assume a: "db_ok s" "uid \<noteq> ''''"
  have d: "distinct (map pd_project (project_dbs s))" using a(1) by (simp add: db_ok_defs)
  have n: "owned_project s pid uid = None" if "\<not> (\<exists>p\<in>set (projects s). p_owner p = Some uid \<and> p_id p = pid)"
  proof (cases "owned_project s pid uid")
    case (Some p)
    then have "p_id p = pid" using lookup_project_Some[of s pid p] by (simp add: owned_project_def split: option.splits if_splits)
    then show ?thesis using owned_project_mem[OF Some a(2)] that by blast
  qed
  show "GetProjectDatabaseForOwner (own_rows uid s) pid uid = GetProjectDatabaseForOwner s pid uid"
  proof (cases "find (\<lambda>x. pd_project x = pid) (project_dbs s)")
    case None
    then show ?thesis by (simp add: GetProjectDatabaseForOwner_def find_filter_key[OF d])
  next
    case (Some x)
    then have x: "pd_project x = pid" using find_SomeD[OF Some] by simp
    show ?thesis
    proof (cases "\<exists>p\<in>set (projects s). p_owner p = Some uid \<and> p_id p = pid")
      case True
      then show ?thesis using Some x
        by (simp add: GetProjectDatabaseForOwner_def find_filter_key[OF d] owned_project_own[OF a] del: own_rows_sel(1))
    next
      case False
      then show ?thesis using Some x n[OF False]
        by (simp add: GetProjectDatabaseForOwner_def find_filter_key[OF d] owned_project_own[OF a] del: own_rows_sel(1))
    qed
  qed
qed

interpretation ni_dep: confined "\<lambda>s uid. GetDeploymentForUser s did uid"
  by unfold_locales (auto simp: GetDeploymentForUser_def lookup_own own_lookup split: option.splits)

interpretation ni_login: confined "\<lambda>s uid. GetDeploymentTenantLogin s did uid"
proof
  fix s :: db and uid :: uuid assume a: "db_ok s" "uid \<noteq> ''''"
  have "lookup_inst (own_rows uid s) (p_inst p) = lookup_inst s (p_inst p)" if "lookup_project s pid = Some p" "p_owner p = Some uid" for pid p
    using that lookup_project_Some lookup_inst_own[OF a(1)] by blast
  then show "GetDeploymentTenantLogin (own_rows uid s) did uid = GetDeploymentTenantLogin s did uid"
    using a by (auto simp: GetDeploymentTenantLogin_def lookup_own(1,2) own_lookup owner_matches_def split: option.splits)
qed

section \<open>Listings over joins\<close>

lemma joined_simps:
  "joined s [] = []"
  "joined s (d # ds) = (case lookup_project s (d_project d) of None \<Rightarrow> joined s ds | Some p \<Rightarrow> (d, p) # joined s ds)"
  by (auto simp: joined_def List.map_filter_def join_project_def split: option.splits)

lemma joined_own_rows:
  assumes "db_ok s"
  shows "filter (\<lambda>(d, p). p_owner p = Some uid) (joined (own_rows uid s) (filter (\<lambda>d. \<exists>p\<in>set (projects s). p_owner p = Some uid \<and> p_id p = d_project d) ds))
      = filter (\<lambda>(d, p). p_owner p = Some uid) (joined s ds)"
  by (induction ds) (auto simp: joined_simps lookup_own(1)[OF assms] own_lookup[OF assms] split: option.splits)

lemma joined_own:
  assumes "db_ok s"
  shows "filter (\<lambda>(d, p). p_owner p = Some uid) (joined (own_rows uid s) (newest_first (deployments (own_rows uid s))))
       = filter (\<lambda>(d, p). p_owner p = Some uid) (joined s (newest_first (deployments s)))"
  using joined_own_rows[OF assms] by (simp add: newest_first_def filter_sort[symmetric])

interpretation ni_stats: confined stats_rows
  by unfold_locales (simp add: stats_rows_def joined_own_rows)

interpretation ni_recent: confined "\<lambda>s uid. ListRecentDeploymentsForUser s uid n"
  by unfold_locales (simp add: ListRecentDeploymentsForUser_def joined_own del: own_rows_sel)

interpretation ni_user_deployments: confined user_deployments
  by unfold_locales (simp add: user_deployments_def joined_own del: own_rows_sel)

interpretation ni_user_webhooks: confined user_webhooks
proof
  fix s :: db and uid :: uuid
  let ?hits = "\<lambda>w. map (\<lambda>p. (w, p)) (filter (\<lambda>p. Some (p_full_name p) = w_repo w \<and> p_owner p = Some uid) (projects s))"
  have "concat (map ?hits (filter (\<lambda>w. \<exists>p\<in>set (projects s). p_owner p = Some uid \<and> w_repo w = Some (p_full_name p)) ws)) = concat (map ?hits ws)" for ws
    by (induction ws) (auto simp: filter_empty_conv)
  moreover have "filter (\<lambda>p. Some (p_full_name p) = n \<and> p_owner p = Some uid) (projects (own_rows uid s))
      = filter (\<lambda>p. Some (p_full_name p) = n \<and> p_owner p = Some uid) (projects s)" for n
    by (auto intro!: filter_cong)
  ultimately show "user_webhooks (own_rows uid s) uid = user_webhooks s uid"
    by (simp add: user_webhooks_def filter_sort[symmetric] del: own_rows_sel(1) filter_filter)
qed

lemma deployments_of_own:
  assumes "db_ok s" "\<exists>p\<in>set (projects s). p_owner p = Some uid \<and> p_id p = pid"
  shows "ListDeploymentsForProjects (own_rows uid s) ids n pid = ListDeploymentsForProjects s ids n pid"
proof -
  have f: "filter (\<lambda>d. d_project d = pid) (deployments (own_rows uid s)) = filter (\<lambda>d. d_project d = pid) (deployments s)"
    using assms(2) by (auto intro!: filter_cong)
  have "joined (own_rows uid s) ds = joined s ds" if "\<forall>d\<in>set ds. d_project d = pid" for ds
    using that assms own_lookup[OF assms(1)]
    by (induction ds) (auto simp: joined_simps lookup_own(1)[OF assms(1)] split: option.splits)
  then show ?thesis unfolding ListDeploymentsForProjects_def f by (simp add: newest_first_def)
qed

lemma domains_of_own:
  assumes "\<exists>p\<in>set (projects s). p_owner p = Some uid \<and> p_id p = pid"
  shows "ListVerifiedDomainsForProjects (own_rows uid s) ids pid = ListVerifiedDomainsForProjects s ids pid"
proof -
  have "filter (\<lambda>d. Q d \<and> dm_project d = pid) (domains (own_rows uid s)) = filter (\<lambda>d. Q d \<and> dm_project d = pid) (domains s)" for Q
    using assms by (auto intro!: filter_cong)
  from this[of "\<lambda>d. dm_project d \<in> set ids \<and> dm_verified d \<noteq> None"] show ?thesis
    unfolding ListVerifiedDomainsForProjects_def filter_sort filter_filter by (simp only:)
qed

lemma env_of_own:
  assumes "\<exists>p\<in>set (projects s). p_owner p = Some uid \<and> p_id p = pid"
  shows "ListProjectEnv (own_rows uid s) pid = ListProjectEnv s pid"
proof -
  have "filter (\<lambda>v. ev_project v = pid) (env_vars (own_rows uid s)) = filter (\<lambda>v. ev_project v = pid) (env_vars s)"
    using assms by (auto intro!: filter_cong)
  then show ?thesis by (simp only: ListProjectEnv_def)
qed

lemma all_domains_of_own:
  assumes "\<exists>p\<in>set (projects s). p_owner p = Some uid \<and> p_id p = pid"
  shows "ListProjectDomains (own_rows uid s) pid = ListProjectDomains s pid"
proof -
  have "filter (\<lambda>d. dm_project d = pid) (domains (own_rows uid s)) = filter (\<lambda>d. dm_project d = pid) (domains s)"
    using assms by (auto intro!: filter_cong)
  then show ?thesis by (simp only: ListProjectDomains_def)
qed

lemma listed_own: "uid \<noteq> '''' \<Longrightarrow> p \<in> set (ListProjectsForUser s uid) \<Longrightarrow> \<exists>q\<in>set (projects s). p_owner q = Some uid \<and> p_id q = pr_id p"
  by (auto simp: ListProjectsForUser_def project_row_def)

end
