(* ===== verification/Api_Read.thy ===== *)
theory Api_Read
  imports Tenant_View Log_Props Suggest_Pr Query_Console Insights Edge Api_Scope
begin

text \<open>
  The rest of the table \<open>apiHandlers\<close> of \<open>main.go\<close>: the routes that render something and change no table, composed with the telemetry cache
  they share, and the whole table behind \<open>requireUser\<close>.  The properties are tenant isolation of all routes of the server, and that what a user is shown at
  an endpoint that shows something, one of these routes or of the four routes on a project that only read, does not depend on the rows of other users.
\<close>

section \<open>The reading routes\<close>

datatype view = Get_me | Get_version | List_projects | List_deployments | Get_build_logs | Get_runtime_logs | Post_query
  | Get_telemetry | Get_project_telemetry | Get_series | Get_metrics | Get_insights | Post_suggest_pr | Get_activity | Get_home | Get_uptime
  | Get_admin_waitlist

text \<open>Path id, query parameter \<open>range\<close> and body of a request.\<close>
record view_req =
  vq_id :: string
  vq_range :: string
  vq_body :: string

datatype answer =
    A_status nat
  | A_json http_reply
  | A_version versionResponse
  | A_projects "projectWithDeployments list"
  | A_deployments "deploymentRow list"
  | A_stream log_reply "event list"
  | A_query queryResponse
  | A_global globalTelemetry
  | A_telemetry projectTelemetry
  | A_series "uuid \<times> string \<times> int \<times> seriesPoint list"
  | A_metrics "uuid \<times> string \<times> string \<times> int \<times> projectMetric list"
  | A_report insightReport
  | A_pull pr_reply
  | A_activity "activityItem list"
  | A_home homeSummary
  | A_uptime "(uuid \<times> string \<times> uptimeSummary \<times> uptimeSample list) list"

text \<open>What the routes read and write besides the database: the cluster, GitHub, tenant databases, and the memory of the process.\<close>
record ('k, 'g, 'q) world =
  wo_kube :: "'k kube"
  wo_gh :: "'g github"
  wo_console :: "'q console"
  wo_snap :: "TelemetrySnapshot option"
  wo_series :: seriesStore
  wo_metrics :: projectSeries
  wo_uptime :: uptimeTracker

text \<open>The parameters: the client and the clock of the log streams, GitHub, base64 and the time stamp of a branch, the rendering of times, the
  aggregates of the statistics query over its rows, the driver of the console, the site fetch and probes, the scrape of Traefik, and the allowlist of operators.\<close>
record ('k, 'g, 'q) view_ext =
  ve_logs :: "'k log_ext"
  ve_fuel :: nat
  ve_gx :: "'g gx"
  ve_decode :: "string \<Rightarrow> string option"
  ve_encode :: "string \<Rightarrow> string"
  ve_branch :: string
  ve_stamp :: "time \<Rightarrow> string"
  ve_stats :: "(deployment \<times> project) list \<Rightarrow> deploymentStats option"
  ve_pg :: "'q Query_Console.pg"
  ve_parse :: "string \<Rightarrow> json option"
  ve_elapsed :: int
  ve_host :: "string \<Rightarrow> string option"
  ve_probe :: "string \<Rightarrow> probed"
  ve_page :: "string \<Rightarrow> fetched"
  ve_scrape :: "string \<Rightarrow> (string, nat \<times> string) result"
  ve_now :: time
  ve_later :: time
  ve_allowed :: "string set"

definition or_status :: "('a \<Rightarrow> answer) \<Rightarrow> (nat, 'a) result \<Rightarrow> answer" where
  "or_status f q = (case q of Inl st \<Rightarrow> A_status st | Inr v \<Rightarrow> f v)"

text \<open>\<open>s.telemetry.get\<close> and a continuation.\<close>
definition with_snap ::
  "('k, 'g, 'q) view_ext \<Rightarrow> (TelemetrySnapshot \<Rightarrow> answer) \<Rightarrow> ('k, 'g, 'q) world \<Rightarrow> answer \<times> ('k, 'g, 'q) world" where
  "with_snap x f w =
     (let (snap, c, k) = cache_get (lx_api (ve_logs x)) (ve_scrape x) (ve_now x) (ve_later x) (wo_snap w, wo_kube w)
      in (f snap, w\<lparr> wo_snap := c, wo_kube := k \<rparr>))"

text \<open>A log handler, started on the database of the request; later steps read the databases of \<open>lx_db\<close>.\<close>
definition log_view ::
  "('k, 'g, 'q) view_ext \<Rightarrow> ('k log_ext \<Rightarrow> nat \<Rightarrow> string \<Rightarrow> sessionUser option \<Rightarrow> 'k log_world \<Rightarrow> log_reply \<times> 'k log_world) \<Rightarrow> string \<Rightarrow>
     sessionUser \<Rightarrow> db \<Rightarrow> ('k, 'g, 'q) world \<Rightarrow> answer \<times> ('k, 'g, 'q) world" where
  "log_view x h did u s w =
     (let lx = ve_logs x;
          (a, l) = h (lx\<lparr> lx_db := (\<lambda>n. if n = 0 then s else lx_db lx n) \<rparr>) (ve_fuel x) did (Some u)
                     \<lparr> lw_kube = wo_kube w, lw_step = 0, lw_events = [] \<rparr>
      in (case a of Log_status st \<Rightarrow> A_status st | _ \<Rightarrow> A_stream a (lw_events l), w\<lparr> wo_kube := lw_kube l \<rparr>))"

definition serve_view ::
  "('k, 'g, 'q) view_ext \<Rightarrow> view \<Rightarrow> view_req \<Rightarrow> sessionUser \<Rightarrow> db \<Rightarrow> ('k, 'g, 'q) world \<Rightarrow> answer \<times> ('k, 'g, 'q) world" where
  "serve_view x v r u s w =
     (let r1 = \<lparr> ur_id = vq_id r, ur_name = '''', ur_json = None, ur_user = Some u \<rparr>
      in case v of
           Get_me \<Rightarrow> (A_json (handleMe (Some u)), w)
         | Get_version \<Rightarrow> (let (a, k) = handleVersion (lx_api (ve_logs x)) (wo_kube w) in (A_version a, w\<lparr> wo_kube := k \<rparr>))
         | List_projects \<Rightarrow> (or_status A_projects (handleListProjects (Some u) s), w)
         | List_deployments \<Rightarrow> (A_deployments (handleListDeployments (Some u) s), w)
         | Get_build_logs \<Rightarrow> log_view x handleDeploymentLogs (vq_id r) u s w
         | Get_runtime_logs \<Rightarrow> log_view x handleDeploymentRuntimeLogs (vq_id r) u s w
         | Post_query \<Rightarrow>
             (let (q, c) = handleRunQuery (ve_pg x) (ve_parse x) (ve_elapsed x) \<lparr> qq_id = vq_id r, qq_user = Some u, qq_body = vq_body r \<rparr> s (wo_console w)
              in (case q of Q_status st \<Rightarrow> A_status st | Q_answer a \<Rightarrow> A_query a, w\<lparr> wo_console := c \<rparr>))
         | Get_telemetry \<Rightarrow>
             with_snap x (\<lambda>snap. case handleGlobalTelemetry (Some u) s snap of None \<Rightarrow> A_status 401 | Some g \<Rightarrow> A_global g) w
         | Get_project_telemetry \<Rightarrow>
             (case authoriseProject r1 s of
                Inl st \<Rightarrow> (A_status st, w)
              | Inr _ \<Rightarrow> with_snap x (\<lambda>snap. or_status A_telemetry (handleProjectTelemetry r1 s snap)) w)
         | Get_series \<Rightarrow> (or_status A_series (handleProjectSeries r1 s (wo_series w)), w)
         | Get_metrics \<Rightarrow> (or_status A_metrics (handleProjectMetrics r1 (vq_range r) s (wo_metrics w)), w)
         | Get_insights \<Rightarrow> (or_status A_report (handleProjectInsights (ve_host x) (ve_probe x) (ve_page x) r1 s), w)
         | Post_suggest_pr \<Rightarrow>
             (let (q, g) = handleSuggestInsightsPR (ve_gx x) (ve_decode x) (ve_encode x) (ve_branch x) r1 s (wo_gh w)
              in (case q of Pr_status st \<Rightarrow> A_status st | _ \<Rightarrow> A_pull q, w\<lparr> wo_gh := g \<rparr>))
         | Get_activity \<Rightarrow> (or_status A_activity (handleActivity (ve_stamp x) (Some u) s), w)
         | Get_home \<Rightarrow>
             (case ve_stats x (stats_rows s (su_id u)) of
                None \<Rightarrow> (A_status 500, w)
              | Some _ \<Rightarrow> with_snap x (\<lambda>snap. or_status A_home (handleHomeSummary (\<lambda>uid. ve_stats x (stats_rows s uid)) (Some u) s snap)) w)
         | Get_uptime \<Rightarrow> (case handleUptime (Some u) s (wo_uptime w) of None \<Rightarrow> A_status 401 | Some a \<Rightarrow> A_uptime a, w)
         | Get_admin_waitlist \<Rightarrow> (A_json (handleAdminWaitlist (ve_stamp x) (ve_allowed x) (Some u) s), w))"

text \<open>The routes that name a project or a deployment in the path; the id counts as the value it casts to.\<close>
definition view_owner :: "view \<Rightarrow> db \<Rightarrow> string \<Rightarrow> uuid option" where
  "view_owner v = named_by (if v \<in> {Get_build_logs, Get_runtime_logs} then deployment_owner else project_owner)"

definition by_id :: "view \<Rightarrow> bool" where
  "by_id v \<longleftrightarrow> v \<in> {Get_build_logs, Get_runtime_logs, Post_query, Get_project_telemetry, Get_series, Get_metrics, Get_insights, Post_suggest_pr}"

section \<open>Foreign ids\<close>

lemma logs_foreign:
  assumes "\<not> su_admin u" "su_id u \<noteq> ''''" "named_by deployment_owner s did \<noteq> Some (su_id u)"
  shows "log_view x handleDeploymentLogs did u s w = (A_status (id_refusal did), w)"
    and "log_view x handleDeploymentRuntimeLogs did u s w = (A_status (id_refusal did), w)"
  using assms(1,3) own_dep.foreign_is_missing[OF assms(2)]
  by (cases "uuid_in did"; simp add: log_view_def handleDeploymentLogs_def handleDeploymentRuntimeLogs_def Let_def named_by_def id_refusal_def)+

lemma query_foreign:
  assumes "\<not> su_admin u" "su_id u \<noteq> ''''" "named_by project_owner s txt \<noteq> Some (su_id u)"
  shows "\<exists>st\<in>{400, 413, id_refusal txt}. handleRunQuery pg parse e \<lparr> qq_id = txt, qq_user = Some u, qq_body = b \<rparr> s c = (Q_status st, c)"
proof -
  have n: "GetProjectDatabaseForOwner s pid (scope_of u) = None" if "uuid_in txt = Some pid" for pid
  proof -
    have "owned_project s pid (su_id u) = None"
      using assms(2,3) that by (auto simp: named_by_def owned_project_def owner_matches_def project_owner_def split: option.splits)
    then show ?thesis using assms(1) by (simp add: GetProjectDatabaseForOwner_def scope_of_def split: option.splits)
  qed
  show ?thesis
    by (cases "uuid_in txt") (auto simp: handleRunQuery_def Let_def id_refusal_def n split: prod.splits)
qed

lemma suggest_foreign:
  assumes "\<And>pid. uuid_in (ur_id r) = Some pid \<Longrightarrow> GetProjectForDeploy s pid (scope_of u) = None" "ur_user r = Some u"
  shows "handleSuggestInsightsPR x b64 enc stamp r s g = (Pr_status (id_refusal (ur_id r)), g)"
  using assms by (cases "uuid_in (ur_id r)") (simp_all add: handleSuggestInsightsPR_def id_refusal_def)

lemma view_foreign:
  assumes "\<not> su_admin u" "su_id u \<noteq> ''''" "by_id v" "view_owner v s (vq_id r) \<noteq> Some (su_id u)"
  shows "\<exists>st\<in>{400, 413, id_refusal (vq_id r)}. serve_view x v r u s w = (A_status st, w)"
proof (cases "v \<in> {Get_build_logs, Get_runtime_logs}")
  case True
  then have "named_by deployment_owner s (vq_id r) \<noteq> Some (su_id u)" using assms(4) by (simp add: view_owner_def)
  from logs_foreign[OF assms(1,2) this, of x w] show ?thesis
    using True by (auto simp: serve_view_def)
next
  case False
  then have o: "named_by project_owner s (vq_id r) \<noteq> Some (su_id u)" using assms(4) by (simp add: view_owner_def)
  let ?r = "\<lparr> ur_id = vq_id r, ur_name = '''', ur_json = None, ur_user = Some u \<rparr>"
  have a: "authoriseProject ?r s = Inl (id_refusal (vq_id r))"
    using authorise_foreign[of ?r u s] assms(1,2) o by simp
  have t: "GetProjectForDeploy s pid (scope_of u) = None" if "uuid_in (ur_id ?r) = Some pid" for pid
    using own_target.foreign_is_missing[OF assms(2), of s pid] o that assms(1) by (simp add: named_by_other scope_of_def)
  consider "v = Post_query" | "v = Post_suggest_pr" | "v \<notin> {Post_query, Post_suggest_pr}" by blast
  then show ?thesis
  proof cases
    case 1
    then show ?thesis using query_foreign[OF assms(1,2) o, of "ve_pg x" "ve_parse x" "ve_elapsed x" "vq_body r" "wo_console w"]
      by (auto simp: serve_view_def)
  next
    case 2
    have "handleSuggestInsightsPR (ve_gx x) b e st ?r s g = (Pr_status (id_refusal (vq_id r)), g)" for b e st g
      using suggest_foreign[of ?r s u] t by simp
    then show ?thesis using 2 by (simp add: serve_view_def)
  next
    case 3
    then show ?thesis using False assms(3) a
      by (cases v) (simp_all add: by_id_def serve_view_def or_status_def handleProjectSeries_def handleProjectMetrics_def
        handleProjectInsights_def)
  qed
qed

section \<open>Log streams and the database\<close>

lemma await_db [simp]: "await_answer (x\<lparr> lx_db := g \<rparr>) fuel r w = await_answer x fuel r w"
  by (induction fuel arbitrary: w) (simp_all split: prod.split log_answer.split)

lemma read_all_db [simp]: "read_all (x\<lparr> lx_db := g \<rparr>) fuel r acc w = read_all x fuel r acc w"
  by (induction fuel arbitrary: w acc) (simp_all split: prod.split log_read.split)

lemma scan_body_db [simp]: "scan_body (x\<lparr> lx_db := g \<rparr>) fuel c r buf w = scan_body x fuel c r buf w"
  by (induction fuel arbitrary: w buf) (simp_all add: Let_def split: prod.split log_read.split)

lemma stream_db [simp]: "streamPodLog (x\<lparr> lx_db := g \<rparr>) fuel ns pod c w = streamPodLog x fuel ns pod c w"
  by (induction fuel arbitrary: w) (simp_all del: await_answer.simps read_all.simps scan_body.simps cong: prod.case_cong option.case_cong sum.case_cong if_cong)

lemma build_pod_db [simp]: "build_pod_loop (x\<lparr> lx_db := g \<rparr>) fuel dl did w = build_pod_loop x fuel dl did w"
  by (induction fuel arbitrary: w) (simp_all split: prod.splits sum.splits)

lemma tenant_pod_db [simp]: "tenant_pod_loop (x\<lparr> lx_db := g \<rparr>) fuel dl ns did n w = tenant_pod_loop x fuel dl ns did n w"
  by (induction fuel arbitrary: n w) (simp_all add: Let_def split: prod.splits sum.splits)

lemma tail_db [simp]: "tail_containers (x\<lparr> lx_db := g \<rparr>) fuel live pod cs w = tail_containers x fuel live pod cs w"
  by (induction cs arbitrary: w) (simp_all split: prod.splits option.splits)

lemma finished_db [simp]: "finished_logs (x\<lparr> lx_db := g \<rparr>) fuel dep did w = finished_logs x fuel dep did w"
  by (simp add: finished_logs_def Let_def split: prod.splits)

lemma runtime_db [simp]: "runtime_stream (x\<lparr> lx_db := g \<rparr>) fuel dep ns did w = runtime_stream x fuel dep ns did w"
  by (simp add: runtime_stream_def waitForTenantPod_def Let_def split: prod.splits option.splits sum.splits)

lemma terminal_db:
  assumes "\<And>n. GetDeployment (f n) did = GetDeployment (g n) did"
  shows "terminal_loop (x\<lparr> lx_db := f \<rparr>) fuel dl did w = terminal_loop (x\<lparr> lx_db := g \<rparr>) fuel dl did w"
  by (induction fuel arbitrary: w) (simp_all add: assms Let_def)

text \<open>A log stream reads the database only through the row of its deployment.\<close>
lemma live_logs_db:
  assumes "\<And>n. GetDeployment (f n) key = GetDeployment (g n) key"
  shows "live_logs (x\<lparr> lx_db := f \<rparr>) fuel dep did key w = live_logs (x\<lparr> lx_db := g \<rparr>) fuel dep did key w"
  by (simp add: live_logs_def waitForBuildPod_def waitForTerminal_def assms terminal_db[of f key g, OF assms] Let_def
      split: prod.splits option.splits sum.splits bool.splits)

lemma scoped_row: "uid \<noteq> '''' \<Longrightarrow> GetDeploymentForUser s did uid = Some d \<Longrightarrow> GetDeployment s did = Some d"
  by (auto simp: GetDeploymentForUser_def GetDeployment_def split: option.splits if_splits)

text \<open>The databases that a log stream reads after its start agree on the rows of the user's deployments.\<close>
definition same_later :: "uuid \<Rightarrow> db \<Rightarrow> (nat \<Rightarrow> db) \<Rightarrow> (nat \<Rightarrow> db) \<Rightarrow> bool" where
  "same_later uid s f g \<longleftrightarrow> (\<forall>k n. GetDeploymentForUser s k uid \<noteq> None \<longrightarrow> GetDeployment (f n) k = GetDeployment (g n) k)"

definition with_later :: "(nat \<Rightarrow> db) \<Rightarrow> ('k, 'g, 'q) view_ext \<Rightarrow> ('k, 'g, 'q) view_ext" where
  "with_later g x = x\<lparr> ve_logs := (ve_logs x)\<lparr> lx_db := g \<rparr> \<rparr>"

lemma with_later_sel [simp]:
  "ve_fuel (with_later g x) = ve_fuel x" "ve_gx (with_later g x) = ve_gx x" "ve_decode (with_later g x) = ve_decode x"
  "ve_encode (with_later g x) = ve_encode x" "ve_branch (with_later g x) = ve_branch x" "ve_stamp (with_later g x) = ve_stamp x"
  "ve_stats (with_later g x) = ve_stats x" "ve_pg (with_later g x) = ve_pg x" "ve_parse (with_later g x) = ve_parse x"
  "ve_elapsed (with_later g x) = ve_elapsed x" "ve_host (with_later g x) = ve_host x" "ve_probe (with_later g x) = ve_probe x"
  "ve_page (with_later g x) = ve_page x" "ve_scrape (with_later g x) = ve_scrape x" "ve_now (with_later g x) = ve_now x"
  "ve_later (with_later g x) = ve_later x" "ve_allowed (with_later g x) = ve_allowed x"
  "lx_api (ve_logs (with_later g x)) = lx_api (ve_logs x)" "ve_logs (with_later g x) = (ve_logs x)\<lparr> lx_db := g \<rparr>"
  by (simp_all add: with_later_def)

lemma log_view_same:
  assumes "su_id u \<noteq> ''''" "\<not> su_admin u" "db_ok s" "db_ok t" "own_rows (su_id u) s = own_rows (su_id u) t"
    and later: "same_later (su_id u) s (lx_db (ve_logs x)) g"
  shows "log_view x handleDeploymentLogs did u s w = log_view (with_later g x) handleDeploymentLogs did u t w"
    and "log_view x handleDeploymentRuntimeLogs did u s w = log_view (with_later g x) handleDeploymentRuntimeLogs did u t w"
proof -
  note dep = ni_dep.same[OF assms(3,4,1,5)] and login = ni_login.same[OF assms(3,4,1,5)]
  let ?f = "\<lambda>n. if n = 0 then s else lx_db (ve_logs x) n" and ?g = "\<lambda>n. if n = 0 then t else g n"
  have rows: "GetDeployment (?f n) key = GetDeployment (?g n) key" if "GetDeploymentForUser s key (su_id u) = Some r" for key n r
    using that dep[of key] later scoped_row[OF assms(1), of s key r] scoped_row[OF assms(1), of t key r] by (simp add: same_later_def)
  show "log_view x handleDeploymentLogs did u s w = log_view (with_later g x) handleDeploymentLogs did u t w"
  proof (cases "uuid_in did")
    case None
    then show ?thesis by (simp add: log_view_def handleDeploymentLogs_def Let_def)
  next
    case key: (Some key)
    show ?thesis
    proof (cases "GetDeploymentForUser s key (su_id u)")
      case None
      then show ?thesis using assms(2) dep[of key] key by (simp add: log_view_def handleDeploymentLogs_def Let_def)
    next
      case (Some r)
      then show ?thesis using assms(2) dep[of key] key live_logs_db[of ?f key ?g, OF rows[OF Some], of "ve_logs x"]
        by (simp add: log_view_def handleDeploymentLogs_def Let_def cong: if_cong)
    qed
  qed
  show "log_view x handleDeploymentRuntimeLogs did u s w = log_view (with_later g x) handleDeploymentRuntimeLogs did u t w"
  proof (cases "uuid_in did")
    case None
    then show ?thesis by (simp add: log_view_def handleDeploymentRuntimeLogs_def Let_def)
  next
    case (Some key)
    then show ?thesis using assms(2) dep[of key] login[of key]
      by (cases "GetDeploymentForUser t key (su_id u)") (simp_all add: log_view_def handleDeploymentRuntimeLogs_def Let_def)
  qed
qed

section \<open>What a user is shown depends on that user's rows\<close>

lemma ready_url_same:
  assumes "db_ok s" "db_ok t" "own_rows uid s = own_rows uid t"
    and "\<exists>p\<in>set (projects s). p_owner p = Some uid \<and> p_id p = pid" "\<exists>p\<in>set (projects t). p_owner p = Some uid \<and> p_id p = pid"
  shows "ready_url s pid = ready_url t pid"
  by (simp add: ready_url_def deployments_of_own[OF assms(1,4), symmetric] deployments_of_own[OF assms(2,5), symmetric] assms(3))

lemma target_owned:
  "GetProjectForDeploy s pid uid = Some g \<Longrightarrow> uid \<noteq> '''' \<Longrightarrow> \<exists>p\<in>set (projects s). p_owner p = Some uid \<and> p_id p = dt_project g"
  by (auto simp: GetProjectForDeploy_def dest: owned_project_mem)

lemma info_owned:
  "GetProjectForOwner s pid uid = Some g \<Longrightarrow> uid \<noteq> '''' \<Longrightarrow> \<exists>p\<in>set (projects s). p_owner p = Some uid \<and> p_id p = pi_id g"
  by (auto simp: GetProjectForOwner_def dest: owned_project_mem)

lemma suggest_same:
  assumes "\<And>k. GetProjectForDeploy s k (scope_of u) = GetProjectForDeploy t k (scope_of u)" "ur_user r = Some u"
    and "\<And>k g. GetProjectForDeploy t k (scope_of u) = Some g \<Longrightarrow> ready_url s (dt_project g) = ready_url t (dt_project g)"
  shows "handleSuggestInsightsPR x b64 enc stamp r s g = handleSuggestInsightsPR x b64 enc stamp r t g"
proof (cases "uuid_in (ur_id r)")
  case (Some k)
  then show ?thesis using assms by (cases "GetProjectForDeploy t k (scope_of u)") (simp_all add: handleSuggestInsightsPR_def)
qed (use assms(2) in \<open>simp add: handleSuggestInsightsPR_def\<close>)

lemma listing_same:
  assumes "uid \<noteq> ''''" "db_ok s" "db_ok t" "own_rows uid s = own_rows uid t" "p \<in> set (ListProjectsForUser t uid)"
  shows "ListDeploymentsForProjects s ids n (pr_id p) = ListDeploymentsForProjects t ids n (pr_id p)"
    and "ListVerifiedDomainsForProjects s ids (pr_id p) = ListVerifiedDomainsForProjects t ids (pr_id p)"
proof -
  have s: "\<exists>q\<in>set (projects s). p_owner q = Some uid \<and> p_id q = pr_id p"
    using listed_own[OF assms(1), of p s] assms(5) ni_projects.same[OF assms(2,3,1,4)] by simp
  have t: "\<exists>q\<in>set (projects t). p_owner q = Some uid \<and> p_id q = pr_id p" by (rule listed_own[OF assms(1,5)])
  show "ListDeploymentsForProjects s ids n (pr_id p) = ListDeploymentsForProjects t ids n (pr_id p)"
    by (simp add: deployments_of_own[OF assms(2) s, symmetric] deployments_of_own[OF assms(3) t, symmetric] assms(4))
  show "ListVerifiedDomainsForProjects s ids (pr_id p) = ListVerifiedDomainsForProjects t ids (pr_id p)"
    by (simp add: domains_of_own[OF s, symmetric] domains_of_own[OF t, symmetric] assms(4))
qed

lemma serve_view_same:
  assumes "su_id u \<noteq> ''''" "\<not> su_admin u" "db_ok s" "db_ok t" "own_rows (su_id u) s = own_rows (su_id u) t"
    and "isOperator (ve_allowed x) (Some u) \<Longrightarrow> signups s = signups t"
    and "same_later (su_id u) s (lx_db (ve_logs x)) g"
  shows "serve_view x v r u s w = serve_view (with_later g x) v r u t w"
proof -
  note a = assms(3,4,1,5)
  let ?r = "\<lparr> ur_id = vq_id r, ur_name = '''', ur_json = None, ur_user = Some u \<rparr>"
  have sc: "scope_of u = su_id u" using assms(2) by (simp add: scope_of_def)
  have auth: "authoriseProject ?r s = authoriseProject ?r t"
    using ni_info.same[OF a] by (cases "uuid_in (vq_id r)") (simp_all add: authoriseProject_def sc)
  have target: "GetProjectForDeploy s k (su_id u) = GetProjectForDeploy t k (su_id u)" for k by (rule ni_target.same[OF a])
  have pr: "handleSuggestInsightsPR (ve_gx x) b64 enc stamp ?r s (wo_gh w) = handleSuggestInsightsPR (ve_gx x) b64 enc stamp ?r t (wo_gh w)" for b64 enc stamp
    using target ready_url_same[OF assms(3,4,5) target_owned target_owned] assms(1) by (intro suggest_same) (auto simp: sc)
  have report: "handleProjectInsights h p f ?r s = handleProjectInsights h p f ?r t" for h p f
  proof (cases "authoriseProject ?r t")
    case (Inr g)
    then obtain k where g: "GetProjectForOwner t k (su_id u) = Some g" by (auto simp: authoriseProject_def sc split: if_splits option.splits)
    then have "ready_url s (pi_id g) = ready_url t (pi_id g)"
      using ready_url_same[OF assms(3,4,5) info_owned info_owned] ni_info.same[OF a, of k] assms(1) by simp
    then show ?thesis using Inr auth by (simp add: handleProjectInsights_def)
  qed (simp add: handleProjectInsights_def auth)
  have query: "handleRunQuery (ve_pg x) ps e \<lparr> qq_id = vq_id r, qq_user = Some u, qq_body = vq_body r \<rparr> s (wo_console w)
      = handleRunQuery (ve_pg x) ps e \<lparr> qq_id = vq_id r, qq_user = Some u, qq_body = vq_body r \<rparr> t (wo_console w)" for ps e
    by (simp only: handleRunQuery_def query_req.simps option.case sc ni_database.same[OF a])
  have pages: "handleListProjects (Some u) s = handleListProjects (Some u) t" "handleListDeployments (Some u) s = handleListDeployments (Some u) t"
    "handleActivity st (Some u) s = handleActivity st (Some u) t" "handleUptime (Some u) s up = handleUptime (Some u) t up" for st up
    using assms(2) listing_same[OF assms(1,3,4,5)]
    by (auto simp: handleListProjects_def handleListDeployments_def handleActivity_def handleUptime_def ListActivityForUser_def Let_def
        ni_projects.same[OF a] ni_recent.same[OF a] ni_user_deployments.same[OF a] ni_user_webhooks.same[OF a] cong: map_cong)
  have tele: "handleGlobalTelemetry (Some u) s = handleGlobalTelemetry (Some u) t"
    by (simp add: fun_eq_iff handleGlobalTelemetry_def sc ni_tenants.same[OF a])
  have home: "handleHomeSummary (\<lambda>uid. ve_stats x (stats_rows s uid)) (Some u) s = handleHomeSummary (\<lambda>uid. ve_stats x (stats_rows t uid)) (Some u) t"
  proof -
    let ?ps = "ListProjectsForUser t (su_id u)"
    have "live_count s ?ps = live_count t ?ps"
      "(\<Sum>p\<leftarrow>?ps. length (ListDeploymentsForProjects s ids 10 (pr_id p))) = (\<Sum>p\<leftarrow>?ps. length (ListDeploymentsForProjects t ids 10 (pr_id p)))"
      for ids using listing_same(1)[OF assms(1,3,4,5)] by (simp_all add: live_count_def cong: map_cong filter_cong)
    moreover have "telemetryRollupForUser s (su_id u) = telemetryRollupForUser t (su_id u)"
      by (simp add: fun_eq_iff telemetryRollupForUser_def ni_tenants.same[OF a])
    ultimately show ?thesis
      by (simp only: fun_eq_iff handleHomeSummary_def option.case ni_projects.same[OF a] ni_stats.same[OF a] Let_def) simp
  qed
  have shared: "handleProjectTelemetry ?r s = handleProjectTelemetry ?r t" "handleProjectSeries ?r s = handleProjectSeries ?r t"
    "handleProjectMetrics ?r rg s = handleProjectMetrics ?r rg t" for rg
    by (simp_all add: fun_eq_iff handleProjectTelemetry_def handleProjectSeries_def handleProjectMetrics_def auth)
  have snap: "with_snap (with_later g x) = with_snap x"
    by (simp add: fun_eq_iff with_snap_def)
  show ?thesis
  proof (cases "v = Get_admin_waitlist")
    case True
    then show ?thesis using assms(6) by (simp add: serve_view_def handleAdminWaitlist_def ListWaitlistSignups_def)
  next
    case False
    then show ?thesis
      by (cases v) (simp_all only: serve_view_def Let_def view.case view.simps pages auth pr report query tele home shared snap ni_stats.same[OF a]
        log_view_same[OF assms(1-5,7)] with_later_sel(1-18) refl simp_thms)
  qed
qed

section \<open>The whole table\<close>

text \<open>The state of the server: what the changing routes work on, and what only the reading routes use.\<close>
record ('k, 'g, 'p, 'q) system =
  sy_site :: "('k, 'g, 'p) site"
  sy_console :: "'q console"
  sy_snap :: "TelemetrySnapshot option"
  sy_series :: seriesStore
  sy_metrics :: projectSeries
  sy_uptime :: uptimeTracker

datatype endpoint = Changing route user_req | Reading view view_req

datatype response = Unauthenticated | From_route "http_reply option" | From_view answer

definition world_of :: "('k, 'g, 'p, 'q) system \<Rightarrow> ('k, 'g, 'q) world" where
  "world_of y = \<lparr> wo_kube = sv_kube (st_srv (sy_site y)), wo_gh = sv_gh (st_srv (sy_site y)), wo_console = sy_console y, wo_snap = sy_snap y,
     wo_series = sy_series y, wo_metrics = sy_metrics y, wo_uptime = sy_uptime y \<rparr>"

definition put_world :: "('k, 'g, 'q) world \<Rightarrow> ('k, 'g, 'p, 'q) system \<Rightarrow> ('k, 'g, 'p, 'q) system" where
  "put_world w y = y\<lparr> sy_site := (sy_site y)\<lparr> st_srv := (st_srv (sy_site y))\<lparr> sv_kube := wo_kube w, sv_gh := wo_gh w \<rparr> \<rparr>,
     sy_console := wo_console w, sy_snap := wo_snap w, sy_series := wo_series w, sy_metrics := wo_metrics w, sy_uptime := wo_uptime w \<rparr>"

text \<open>Every pattern of the table behind \<open>s.requireUser(h, "json")\<close>, and \<open>GET /admin/waitlist\<close>.\<close>
definition apiHandlers ::
  "('k, 'g, 'p) site_ext \<Rightarrow> ('k, 'g, 'q) view_ext \<Rightarrow> 'a auth_ext \<Rightarrow> auth_req \<Rightarrow> endpoint \<Rightarrow> ('k, 'g, 'p, 'q) system
     \<Rightarrow> response \<times> ('k, 'g, 'p, 'q) system" where
  "apiHandlers x vx ax aq e y =
     (case userFromRequest ax aq (sv_db (st_srv (sy_site y))) of
        None \<Rightarrow> (Unauthenticated, y)
      | Some u \<Rightarrow>
          (case e of
             Changing rt r \<Rightarrow>
               (let (q, s) = serve x rt (r\<lparr> ur_user := Some u \<rparr>) (sy_site y) in (From_route q, y\<lparr> sy_site := s \<rparr>))
           | Reading v r \<Rightarrow>
               (let (a, w) = serve_view vx v r u (sv_db (st_srv (sy_site y))) (world_of y) in (From_view a, put_world w y))))"

definition sys_db :: "('k, 'g, 'p, 'q) system \<Rightarrow> db" where "sys_db s = sv_db (st_srv (sy_site s))"

definition put_db :: "db \<Rightarrow> ('k, 'g, 'p, 'q) system \<Rightarrow> ('k, 'g, 'p, 'q) system" where
  "put_db d s = s\<lparr> sy_site := (sy_site s)\<lparr> st_srv := (st_srv (sy_site s))\<lparr> sv_db := d \<rparr> \<rparr> \<rparr>"

lemma put_world_of [simp]: "put_world (world_of y) y = y"
  by (simp add: put_world_def world_of_def)

section \<open>What a user is shown, for the whole table\<close>

text \<open>The endpoints that show something and change no table.\<close>
definition reads_only :: "endpoint \<Rightarrow> bool" where
  "reads_only e = (case e of Reading _ _ \<Rightarrow> True | Changing rt _ \<Rightarrow> rt \<in> {Get_database, List_env, Get_status, List_domains})"

text \<open>What a user may see of a database: the rows of the user's projects, and the waitlist for an operator.\<close>
definition visible :: "string set \<Rightarrow> sessionUser \<Rightarrow> db \<Rightarrow> db" where
  "visible ops u s = (own_rows (su_id u) s)\<lparr> signups := if isOperator ops (Some u) then signups s else [] \<rparr>"

lemma visible_rows:
  assumes "visible ops u s = visible ops u t"
  shows "own_rows (su_id u) s = own_rows (su_id u) t" "isOperator ops (Some u) \<Longrightarrow> signups s = signups t"
proof -
  have e: "(visible ops u d)\<lparr> signups := [] \<rparr> = own_rows (su_id u) d" for d by (simp add: visible_def own_rows_def Let_def)
  show "own_rows (su_id u) s = own_rows (su_id u) t" using e[of s] e[of t] assms by simp
  show "isOperator ops (Some u) \<Longrightarrow> signups s = signups t" using arg_cong[OF assms, of signups] by (simp add: visible_def)
qed

lemma info_same:
  assumes "su_id u \<noteq> ''''" "\<not> su_admin u" "db_ok s" "db_ok t" "own_rows (su_id u) s = own_rows (su_id u) t" "ur_user r = Some u"
  shows "authoriseProject r s = authoriseProject r t"
    and "authoriseProject r t = Inr g \<Longrightarrow> \<exists>p\<in>set (projects s). p_owner p = Some (su_id u) \<and> p_id p = pi_id g"
    and "authoriseProject r t = Inr g \<Longrightarrow> \<exists>p\<in>set (projects t). p_owner p = Some (su_id u) \<and> p_id p = pi_id g"
proof -
  note info = ni_info.same[OF assms(3,4,1,5)]
  have sc: "scope_of u = su_id u" using assms(2) by (simp add: scope_of_def)
  show "authoriseProject r s = authoriseProject r t"
    using info assms(6) by (cases "uuid_in (ur_id r)") (simp_all add: authoriseProject_def sc)
  assume "authoriseProject r t = Inr g"
  then obtain k where "GetProjectForOwner t k (su_id u) = Some g" using assms(6) by (auto simp: authoriseProject_def sc split: if_splits option.splits)
  then show "\<exists>p\<in>set (projects s). p_owner p = Some (su_id u) \<and> p_id p = pi_id g" "\<exists>p\<in>set (projects t). p_owner p = Some (su_id u) \<and> p_id p = pi_id g"
    using info_owned assms(1) info[of k] by metis+
qed

lemma serve_same:
  assumes "su_id u \<noteq> ''''" "\<not> su_admin u" "db_ok s" "db_ok t" "own_rows (su_id u) s = own_rows (su_id u) t"
    and "ur_user r = Some u" "rt \<in> {Get_database, List_env, Get_status, List_domains}"
  shows "\<exists>q k. serve_srv x rt r (w\<lparr> sv_db := s \<rparr>) = (q, (w\<lparr> sv_kube := k \<rparr>)\<lparr> sv_db := s \<rparr>)
     \<and> serve_srv x rt r (w\<lparr> sv_db := t \<rparr>) = (q, (w\<lparr> sv_kube := k \<rparr>)\<lparr> sv_db := t \<rparr>)"
proof -
  note info = info_same[OF assms(1-6)]
  have sc: "scope_of u = su_id u" using assms(2) by (simp add: scope_of_def)
  have idle: "w\<lparr> sv_kube := sv_kube w \<rparr> = w" by simp
  show ?thesis
  proof (cases "authoriseProject r t")
    case (Inl st)
    then have "serve_srv x rt r (w\<lparr> sv_db := d \<rparr>) = (Some (err st), (w\<lparr> sv_kube := sv_kube w \<rparr>)\<lparr> sv_db := d \<rparr>)" if "d \<in> {s, t}" for d
      using assms(7) info(1) that
      by (auto simp: serve_srv_def srv_handler_def db_handler_def handleGetProjectDatabase_def handleListProjectEnv_def handleProjectStatus_def
          handleListProjectDomains_def)
    then show ?thesis by blast
  next
    case (Inr g)
    note own = info(2,3)[OF Inr]
    have rows: "ListProjectEnv s (pi_id g) = ListProjectEnv t (pi_id g)" "ListProjectDomains s (pi_id g) = ListProjectDomains t (pi_id g)"
      "GetProjectDatabaseForOwner s (pi_id g) (su_id u) = GetProjectDatabaseForOwner t (pi_id g) (su_id u)"
      using env_of_own[OF own(1)] env_of_own[OF own(2)] all_domains_of_own[OF own(1)] all_domains_of_own[OF own(2)] assms(5)
        ni_database.same[OF assms(3,4,1,5)] by simp_all
    obtain z k where z: "readProjectScale (sx_api x) g (sv_kube w) = (z, k)" by fastforce
    have "serve_srv x rt r (w\<lparr> sv_db := s \<rparr>) = (fst (serve_srv x rt r (w\<lparr> sv_db := t \<rparr>)), (w\<lparr> sv_kube := if rt = Get_status then k else sv_kube w \<rparr>)\<lparr> sv_db := s \<rparr>)"
      "serve_srv x rt r (w\<lparr> sv_db := t \<rparr>) = (fst (serve_srv x rt r (w\<lparr> sv_db := t \<rparr>)), (w\<lparr> sv_kube := if rt = Get_status then k else sv_kube w \<rparr>)\<lparr> sv_db := t \<rparr>)"
      using assms(6,7) info(1) Inr rows z sc
      by (auto simp: serve_srv_def srv_handler_def db_handler_def handleGetProjectDatabase_def handleListProjectEnv_def handleProjectStatus_def
          handleListProjectDomains_def on_k8s_def coalesce_def split: option.split sum.split)
    then show ?thesis by blast
  qed
qed

text \<open>C3: What a user is shown depends on what that user may see: for a user who is no administrator, two databases that agree on the rows of
  the user's projects (and on the waitlist, if the user is one of its operators) give the same answer at every endpoint that shows something, the
  listings of variables and domains, the stored database and the status among them, the same requests to the cluster, GitHub and the tenant databases and the same caches,
  whatever other tenants have stored.  The session resolves to the same user in both.  What all users share is the same in both runs: the cluster, the telemetry snapshot and the histories.  A log
  stream reads the database again while it runs; these later databases may differ too, but for the rows of the user's deployments.\<close>
theorem views_noninterference:
  assumes "userFromRequest ax aq s = Some u" "userFromRequest ax aq t = Some u" "\<not> su_admin u" "su_id u \<noteq> ''''" "db_ok s" "db_ok t"
    and "visible (ve_allowed vx) u s = visible (ve_allowed vx) u t" "same_later (su_id u) s (lx_db (ve_logs vx)) g" "reads_only e"
  shows "\<exists>a z. apiHandlers x vx ax aq e (put_db s y) = (a, put_db s z) \<and> apiHandlers x (with_later g vx) ax aq e (put_db t y) = (a, put_db t z)"
proof (cases e)
  case (Reading v r)
  note same = serve_view_same[OF assms(4,3,5,6) visible_rows[OF assms(7)] assms(8), of v r]
  obtain a w where w: "serve_view vx v r u s (world_of y) = (a, w)" by fastforce
  have p: "world_of (put_db d y) = world_of y" "put_world w (put_db d y) = put_db d (put_world w y)" "sv_db (st_srv (sy_site (put_db d y))) = d" for d
    by (simp_all add: world_of_def put_world_def put_db_def)
  show ?thesis using w same[of "world_of y"] assms(1,2) Reading by (auto simp: apiHandlers_def p)
next
  case (Changing rt r)
  then have rt: "rt \<in> {Get_database, List_env, Get_status, List_domains}" using assms(9) by (simp add: reads_only_def)
  let ?r = "r\<lparr> ur_user := Some u \<rparr>"
  obtain q k where q: "serve_srv (se_srv x) rt ?r ((st_srv (sy_site y))\<lparr> sv_db := s \<rparr>) = (q, ((st_srv (sy_site y))\<lparr> sv_kube := k \<rparr>)\<lparr> sv_db := s \<rparr>)"
      "serve_srv (se_srv x) rt ?r ((st_srv (sy_site y))\<lparr> sv_db := t \<rparr>) = (q, ((st_srv (sy_site y))\<lparr> sv_kube := k \<rparr>)\<lparr> sv_db := t \<rparr>)"
    using serve_same[OF assms(4,3,5,6) visible_rows(1)[OF assms(7)] _ rt, of ?r "se_srv x" "st_srv (sy_site y)"] by auto
  let ?z = "y\<lparr> sy_site := (sy_site y)\<lparr> st_srv := (st_srv (sy_site y))\<lparr> sv_kube := k \<rparr> \<rparr> \<rparr>"
  have "apiHandlers x vx ax aq e (put_db s y) = (From_route q, put_db s ?z)" "apiHandlers x (with_later g vx) ax aq e (put_db t y) = (From_route q, put_db t ?z)"
    using q rt assms(1,2) Changing by (auto simp: apiHandlers_def serve_def put_db_def)
  then show ?thesis by blast
qed

text \<open>The demonstration site with a project, a deployment and a domain of the other user.\<close>
definition busy_db :: db where
  "busy_db = site_db\<lparr> projects := projects site_db @ [demo_project\<lparr> p_id := did1, p_slug := ''other'', p_repo := 8, p_owner := Some ''u2'' \<rparr>],
     deployments := deployments site_db @ [(demo_dep pid1 ''bb'' Failed 4)\<lparr> d_project := did1 \<rparr>] \<rparr>"

theorem views_noninterference_witness:
  "\<forall>(vx :: (unit, unit, unit) view_ext) (y :: (unit, unit, unit, unit) system) r.
     length (deployments site_db) = 1 \<and> length (deployments busy_db) = 2
     \<and> (\<exists>a z. apiHandlers demo_sitex (vx\<lparr> ve_allowed := {''ops''} \<rparr>) demo_ax (cookie_req ''tok1'') (Reading Get_home r) (put_db site_db y) = (a, put_db site_db z)
         \<and> apiHandlers demo_sitex (with_later (lx_db (ve_logs vx)) (vx\<lparr> ve_allowed := {''ops''} \<rparr>)) demo_ax (cookie_req ''tok1'') (Reading Get_home r) (put_db busy_db y)
             = (a, put_db busy_db z))"
proof (intro allI conjI)
  fix vx :: "(unit, unit, unit) view_ext" and y :: "(unit, unit, unit, unit) system" and r
  let ?vx = "vx\<lparr> ve_allowed := {''ops''} \<rparr>"
  have "sessions busy_db = sessions site_db" "users busy_db = users site_db" by (simp_all add: busy_db_def)
  then have "LookupSession n h busy_db = LookupSession n h site_db" for n h
    by (simp add: LookupSession_def lookup_user_def split: option.split)
  then have "userFromRequest demo_ax (cookie_req ''tok1'') busy_db = userFromRequest demo_ax (cookie_req ''tok1'') site_db"
    by (simp add: userFromRequest_def split: option.split)
  then have u: "userFromRequest demo_ax (cookie_req ''tok1'') busy_db = Some user1" using site_users(1) by simp
  have ok: "db_ok site_db" "db_ok busy_db" by (simp_all add: busy_db_def site_db_def pid1_def did1_def demo_defs db_ok_defs)
  have v: "visible (ve_allowed ?vx) user1 site_db = visible (ve_allowed ?vx) user1 busy_db"
    by (simp add: visible_def own_rows_def busy_db_def site_db_def pid1_def did1_def demo_defs user1_def)
  show "\<exists>a z. apiHandlers demo_sitex ?vx demo_ax (cookie_req ''tok1'') (Reading Get_home r) (put_db site_db y) = (a, put_db site_db z)
         \<and> apiHandlers demo_sitex (with_later (lx_db (ve_logs vx)) ?vx) demo_ax (cookie_req ''tok1'') (Reading Get_home r) (put_db busy_db y)
             = (a, put_db busy_db z)"
    by (rule views_noninterference[OF site_users(1) u _ _ ok v]) (simp_all add: user1_def same_later_def reads_only_def)
qed (simp_all add: busy_db_def site_db_def demo_defs)

section \<open>Tenant isolation\<close>

text \<open>An endpoint that names something the user does not own.\<close>
definition foreign :: "endpoint \<Rightarrow> uuid \<Rightarrow> db \<Rightarrow> bool" where
  "foreign e uid s =
     (case e of
        Changing rt r \<Rightarrow> target_owner rt s (ur_id r) \<noteq> Some uid
      | Reading v r \<Rightarrow> by_id v \<and> view_owner v s (vq_id r) \<noteq> Some uid)"

definition rejection :: "endpoint \<Rightarrow> nat \<Rightarrow> response" where
  "rejection e st = (case e of Changing _ _ \<Rightarrow> From_route (Some (err st)) | Reading _ _ \<Rightarrow> From_view (A_status st))"

definition endpoint_id :: "endpoint \<Rightarrow> string" where
  "endpoint_id e = (case e of Changing _ r \<Rightarrow> ur_id r | Reading _ r \<Rightarrow> vq_id r)"

text \<open>Tenant isolation of all routes: whoever is signed in, is no administrator and names a project or deployment of somebody else (or none) is
  turned away with 404, with 400 for a malformed id or body, with 500 for an id that passes the pattern but is no uuid, or with 413 for a body that is too long, and nothing at all
  changes: no table, no cluster object, no request to the cluster, to GitHub or to any PostgreSQL server, no cache.\<close>
theorem site_tenant_isolation:
  assumes "userFromRequest ax aq (sv_db (st_srv (sy_site y))) = Some u" "\<not> su_admin u" "su_id u \<noteq> ''''"
    and "foreign e (su_id u) (sv_db (st_srv (sy_site y)))"
  shows "\<exists>st\<in>{400, 413, id_refusal (endpoint_id e)}. apiHandlers x vx ax aq e y = (rejection e st, y)"
proof (cases e)
  case (Changing rt r)
  then have o: "target_owner rt (sv_db (st_srv (sy_site y))) (ur_id r) \<noteq> Some (su_id u)" using assms(4) by (simp add: foreign_def)
  have "apiHandler x ax aq rt r (sy_site y) = serve x rt (r\<lparr> ur_user := Some u \<rparr>) (sy_site y)"
    using assms(1) by (simp add: apiHandler_def)
  then have "serve x rt (r\<lparr> ur_user := Some u \<rparr>) (sy_site y) = (Some (err (id_refusal (ur_id r))), sy_site y)"
    using api_tenant_isolation[OF assms(1,2,3) o, of x] by simp
  then show ?thesis using assms(1) Changing by (simp add: apiHandlers_def rejection_def endpoint_id_def)
next
  case (Reading v r)
  then obtain st where "st \<in> {400, 413, id_refusal (vq_id r)}" "serve_view vx v r u (sv_db (st_srv (sy_site y))) (world_of y) = (A_status st, world_of y)"
    using view_foreign[OF assms(2,3), of v "sv_db (st_srv (sy_site y))" r vx "world_of y"] assms(4) by (auto simp: foreign_def)
  then show ?thesis using assms(1) Reading by (auto simp: apiHandlers_def rejection_def endpoint_id_def)
qed

theorem site_tenant_isolation_witness:
  "\<forall>(y :: (unit, unit, unit, unit) system) vx.
     (let e = Reading Get_metrics \<lparr> vq_id = pid1, vq_range = ''1h'', vq_body = '''' \<rparr>; z = y\<lparr> sy_site := demo_site site_db \<rparr>
      in \<exists>st\<in>{400, 413, id_refusal pid1}. apiHandlers demo_sitex vx demo_ax (cookie_req ''tok2'') e z = (rejection e st, z))
   \<and> project_owner site_db pid1 = Some ''u1''"
proof (intro allI conjI)
  fix y :: "(unit, unit, unit, unit) system" and vx :: "(unit, unit, unit) view_ext"
  let ?e = "Reading Get_metrics \<lparr> vq_id = pid1, vq_range = ''1h'', vq_body = '''' \<rparr>" and ?z = "y\<lparr> sy_site := demo_site site_db \<rparr>"
  have u: "userFromRequest demo_ax (cookie_req ''tok2'') (sv_db (st_srv (sy_site ?z))) = Some (user1\<lparr> su_id := ''u2'', su_github := 43 \<rparr>)"
    using site_users(2) by (simp add: demo_site_def)
  have "\<exists>st\<in>{400, 413, id_refusal pid1}. apiHandlers demo_sitex vx demo_ax (cookie_req ''tok2'') ?e ?z = (rejection ?e st, ?z)"
    using site_tenant_isolation[OF u, of ?e demo_sitex vx]
    by (simp add: user1_def foreign_def by_id_def view_owner_def named_by_def demo_site_def site_owners endpoint_id_def)
  then show "let e = ?e; z = ?z in \<exists>st\<in>{400, 413, id_refusal pid1}. apiHandlers demo_sitex vx demo_ax (cookie_req ''tok2'') e z = (rejection e st, z)"
    by (simp only: Let_def)
qed (rule site_owners)

text \<open>Without a valid session every route answers 401 and changes nothing.\<close>
theorem site_requires_session:
  "userFromRequest ax aq (sv_db (st_srv (sy_site y))) = None \<Longrightarrow> apiHandlers x vx ax aq e y = (Unauthenticated, y)"
  by (simp add: apiHandlers_def)

text \<open>The reading routes change no table.\<close>
theorem reading_keeps_tables:
  "sv_db (st_srv (sy_site (snd (apiHandlers x vx ax aq (Reading v r) y)))) = sv_db (st_srv (sy_site y))
   \<and> st_pg (sy_site (snd (apiHandlers x vx ax aq (Reading v r) y))) = st_pg (sy_site y)"
  by (simp add: apiHandlers_def put_world_def split: option.split prod.split)

end
