(* ===== verification/Server.thy ===== *)
theory Server
  imports Api_Read
begin

text \<open>
  The multiplexer that \<open>main\<close> builds: the patterns it registers, how \<open>http.ServeMux\<close> chooses a handler, and what the choice relies on.  The API
  patterns are registered in the order of a Go map, which changes from run to run, and \<open>ServeMux\<close> panics on patterns that conflict.
  A request is its method and the segments of its path as it was sent; \<open>net/http\<close> redirects a path that is not clean and compares the unescaped
  segments, for which \<open>un\<close> is its \<open>pathUnescape\<close>.
\<close>

section \<open>Patterns\<close>

datatype seg = Lit string | Wild

text \<open>The registered handlers.\<close>
datatype handler = H_healthz | H_readyz | H_webhook | H_login_page | H_login | H_callback | H_logout | H_dashboard | H_route route | H_view view

text \<open>Method and path.  The segment after a final slash is \<open>/\<close>, as in \<open>firstSegment\<close> of \<open>net/http\<close>; it is the pattern \<open>/{$}\<close>.\<close>
type_synonym pattern = "string \<times> seg list"

definition public_patterns :: "(pattern \<times> handler) list" where
  "public_patterns =
     [((''GET'', [Lit ''healthz'']), H_healthz), ((''GET'', [Lit ''readyz'']), H_readyz),
      ((''POST'', [Lit ''webhooks'', Lit ''github'']), H_webhook), ((''GET'', [Lit ''login'']), H_login_page),
      ((''GET'', [Lit ''auth'', Lit ''login'']), H_login), ((''GET'', [Lit ''auth'', Lit ''callback'']), H_callback),
      ((''POST'', [Lit ''auth'', Lit ''logout'']), H_logout)]"

definition v1 :: "seg list \<Rightarrow> seg list" where "v1 ss = Lit ''v1'' # ss"
definition of_project :: "seg list \<Rightarrow> seg list" where "of_project ss = v1 (Lit ''projects'' # Wild # ss)"
definition of_deployment :: "string \<Rightarrow> seg list" where "of_deployment x = v1 [Lit ''deployments'', Wild, Lit x]"

text \<open>The table \<open>apiHandlers\<close>.\<close>
definition api_patterns :: "(pattern \<times> handler) list" where
  "api_patterns =
     [((''GET'', v1 [Lit ''me'']), H_view Get_me),
      ((''GET'', v1 [Lit ''version'']), H_view Get_version),
      ((''GET'', v1 [Lit ''projects'']), H_view List_projects),
      ((''PATCH'', of_project []), H_route Patch_project),
      ((''DELETE'', of_project []), H_route Delete_project),
      ((''GET'', v1 [Lit ''deployments'']), H_view List_deployments),
      ((''GET'', of_deployment ''logs''), H_view Get_build_logs),
      ((''GET'', of_deployment ''runtime-logs''), H_view Get_runtime_logs),
      ((''POST'', of_deployment ''redeploy''), H_route Redeploy),
      ((''POST'', of_deployment ''promote''), H_route Promote),
      ((''POST'', of_project [Lit ''deploy'']), H_route Deploy_now),
      ((''GET'', of_project [Lit ''database'']), H_route Get_database),
      ((''POST'', of_project [Lit ''database'']), H_route Create_database),
      ((''POST'', of_project [Lit ''database'', Lit ''query'']), H_view Post_query),
      ((''GET'', of_project [Lit ''env'']), H_route List_env),
      ((''PUT'', of_project [Lit ''env'', Wild]), H_route Put_env),
      ((''DELETE'', of_project [Lit ''env'', Wild]), H_route Delete_env),
      ((''GET'', v1 [Lit ''telemetry'']), H_view Get_telemetry),
      ((''GET'', of_project [Lit ''telemetry'']), H_view Get_project_telemetry),
      ((''GET'', of_project [Lit ''telemetry'', Lit ''series'']), H_view Get_series),
      ((''GET'', of_project [Lit ''metrics'']), H_view Get_metrics),
      ((''GET'', of_project [Lit ''status'']), H_route Get_status),
      ((''POST'', of_project [Lit ''scale'']), H_route Post_scale),
      ((''GET'', of_project [Lit ''insights'']), H_view Get_insights),
      ((''POST'', of_project [Lit ''insights'', Lit ''suggest-pr'']), H_view Post_suggest_pr),
      ((''GET'', of_project [Lit ''domains'']), H_route List_domains),
      ((''POST'', of_project [Lit ''domains'']), H_route Add_domain),
      ((''POST'', of_project [Lit ''domains'', Wild, Lit ''verify'']), H_route Verify_domain),
      ((''DELETE'', of_project [Lit ''domains'', Wild]), H_route Delete_domain),
      ((''GET'', v1 [Lit ''activity'']), H_view Get_activity),
      ((''GET'', v1 [Lit ''home'', Lit ''summary'']), H_view Get_home),
      ((''GET'', v1 [Lit ''uptime'']), H_view Get_uptime)]"

text \<open>All registrations in the order of \<open>main\<close>; \<open>api\<close> is the table in the order the map is walked.\<close>
definition registrations :: "(pattern \<times> handler) list \<Rightarrow> (pattern \<times> handler) list" where
  "registrations api = public_patterns @ ((''GET'', [Lit ''/'']), H_dashboard) # api @ [((''GET'', [Lit ''admin'', Lit ''waitlist'']), H_view Get_admin_waitlist)]"

section \<open>Matching\<close>

text \<open>A wildcard matches any segment but the one after a final slash; \<open>GET\<close> includes \<open>HEAD\<close>.\<close>
fun seg_matches :: "seg \<Rightarrow> string \<Rightarrow> bool" where
  "seg_matches (Lit l) x = (x = l)"
| "seg_matches Wild x = (x \<noteq> ''/'')"

definition path_matches :: "seg list \<Rightarrow> string list \<Rightarrow> bool" where
  "path_matches p xs = list_all2 seg_matches p xs"

definition method_matches :: "string \<Rightarrow> string \<Rightarrow> bool" where
  "method_matches pm m \<longleftrightarrow> m = pm \<or> (pm = ''GET'' \<and> m = ''HEAD'')"

definition pattern_matches :: "pattern \<Rightarrow> string \<Rightarrow> string list \<Rightarrow> bool" where
  "pattern_matches p m xs \<longleftrightarrow> method_matches (fst p) m \<and> path_matches (snd p) xs"

text \<open>\<open>cleanPath\<close>: no empty segment but the last, no dots.\<close>
definition clean_path :: "string list \<Rightarrow> bool" where
  "clean_path raw \<longleftrightarrow> raw \<noteq> [] \<and> list_all (\<lambda>x. x \<noteq> '''') (butlast raw) \<and> list_all (\<lambda>x. x \<notin> {''.'', ''..''}) raw"

definition segments :: "(string \<Rightarrow> string) \<Rightarrow> string list \<Rightarrow> string list" where
  "segments un raw = map (\<lambda>x. if x = '''' then ''/'' else un x) raw"

text \<open>\<open>r.PathValue\<close>: what the wildcards of the pattern stand for; the first is the id, the second a name.\<close>
definition path_values :: "seg list \<Rightarrow> string list \<Rightarrow> string list" where
  "path_values p xs = map snd (filter (\<lambda>(s, x). s = Wild) (zip p xs))"

datatype served = Served handler "string list" | Moved_permanently | Not_allowed | Missing

definition mux_serve :: "(string \<Rightarrow> string) \<Rightarrow> (pattern \<times> handler) list \<Rightarrow> string \<Rightarrow> string list \<Rightarrow> served" where
  "mux_serve un tbl m raw =
     (if m \<noteq> ''CONNECT'' \<and> \<not> clean_path raw then Moved_permanently
      else let xs = segments un raw
           in case find (\<lambda>(p, h). pattern_matches p m xs) tbl of
                Some (p, h) \<Rightarrow> Served h (path_values (snd p) xs)
              | None \<Rightarrow> if \<exists>(p, h) \<in> set tbl. path_matches (snd p) xs then Not_allowed else Missing)"

section \<open>Conflicts\<close>

text \<open>Two patterns overlap when some request matches both; \<open>ServeMux\<close> registers overlapping patterns only if one is more specific, and a
  table without overlaps needs no such rule.\<close>
fun seg_overlap :: "seg \<Rightarrow> seg \<Rightarrow> bool" where
  "seg_overlap (Lit a) (Lit b) = (a = b)"
| "seg_overlap (Lit a) Wild = (a \<noteq> ''/'')"
| "seg_overlap Wild (Lit b) = (b \<noteq> ''/'')"
| "seg_overlap Wild Wild = True"

definition overlap :: "pattern \<Rightarrow> pattern \<Rightarrow> bool" where
  "overlap p q \<longleftrightarrow> fst p = fst q \<and> list_all2 seg_overlap (snd p) (snd q)"

lemma seg_overlap_matches: "seg_matches s x \<Longrightarrow> seg_matches t x \<Longrightarrow> seg_overlap s t"
  by (cases s; cases t) auto

lemma path_overlap: "list_all2 seg_matches p xs \<Longrightarrow> list_all2 seg_matches q xs \<Longrightarrow> list_all2 seg_overlap p q"
  unfolding list_all2_conv_all_nth using seg_overlap_matches by metis

lemma overlap_complete:
  assumes "pattern_matches p m xs" "pattern_matches q m xs" "fst p \<noteq> ''HEAD''" "fst q \<noteq> ''HEAD''"
  shows "overlap p q"
  using assms path_overlap by (auto simp: overlap_def pattern_matches_def method_matches_def path_matches_def)

text \<open>No two entries of a table overlap.\<close>
fun conflict_free :: "(pattern \<times> handler) list \<Rightarrow> bool" where
  "conflict_free [] = True"
| "conflict_free (e # es) = (list_all (\<lambda>f. \<not> overlap (fst e) (fst f)) es \<and> conflict_free es)"

lemma overlap_sym: "overlap p q \<Longrightarrow> overlap q p"
proof -
  have s: "seg_overlap a b \<Longrightarrow> seg_overlap b a" for a b by (cases a; cases b) auto
  assume "overlap p q"
  then show "overlap q p" by (auto simp: overlap_def list_all2_conv_all_nth s)
qed

lemma conflict_free_distinct:
  "conflict_free es \<Longrightarrow> e \<in> set es \<Longrightarrow> f \<in> set es \<Longrightarrow> overlap (fst e) (fst f) \<Longrightarrow> e = f"
  by (induction es) (auto simp: list_all_iff dest: overlap_sym)

lemma find_unique:
  assumes "set xs = set ys" "\<And>a b. a \<in> set xs \<Longrightarrow> b \<in> set xs \<Longrightarrow> P a \<Longrightarrow> P b \<Longrightarrow> a = b"
  shows "find P xs = find P ys"
proof (cases "find P xs")
  case None
  then show ?thesis using assms(1) by (metis find_None_iff)
next
  case (Some a)
  then have a: "a \<in> set xs" "P a" by (auto dest: find_SomeD)
  then obtain b where "find P ys = Some b" using assms(1) by (cases "find P ys") (auto simp: find_None_iff)
  then show ?thesis using Some a assms find_SomeD by metis
qed

lemma table_conflict_free: "conflict_free (registrations api_patterns)"
  by code_simp

section \<open>Requests\<close>

text \<open>\<open>rm_json\<close> is the body as the handlers that decode JSON see it.\<close>
record request =
  rm_method :: string
  rm_segs :: "string list"
  rm_json :: "json option"
  rm_range :: string
  rm_body :: string

definition value_at :: "string list \<Rightarrow> nat \<Rightarrow> string" where
  "value_at vs i = (if i < length vs then vs ! i else '''')"

text \<open>An answer of the API, another handler, or one of the multiplexer's own answers.\<close>
datatype mux_reply = Api response | Other handler | Mux served

definition serve_request ::
  "('k, 'g, 'p) site_ext \<Rightarrow> ('k, 'g, 'q) view_ext \<Rightarrow> 'a auth_ext \<Rightarrow> auth_req \<Rightarrow> (string \<Rightarrow> string) \<Rightarrow> (pattern \<times> handler) list \<Rightarrow> request
     \<Rightarrow> ('k, 'g, 'p, 'q) system \<Rightarrow> mux_reply \<times> ('k, 'g, 'p, 'q) system" where
  "serve_request x vx ax aq un tbl r y =
     (case mux_serve un tbl (rm_method r) (rm_segs r) of
        Served (H_route rt) vs \<Rightarrow>
          (let (q, z) = apiHandlers x vx ax aq (Changing rt \<lparr> ur_id = value_at vs 0, ur_name = value_at vs 1, ur_json = rm_json r, ur_user = None \<rparr>) y
           in (Api q, z))
      | Served (H_view v) vs \<Rightarrow>
          (let (q, z) = apiHandlers x vx ax aq (Reading v \<lparr> vq_id = value_at vs 0, vq_range = rm_range r, vq_body = rm_body r \<rparr>) y in (Api q, z))
      | Served h vs \<Rightarrow> (Other h, y)
      | q \<Rightarrow> (Mux q, y))"

text \<open>Where the handlers stand: below \<open>/v1/projects/\<close> and \<open>/v1/deployments/\<close> the third segment is the id that the handler checks.\<close>
definition placed :: "pattern \<times> handler \<Rightarrow> bool" where
  "placed e =
     (case snd (fst e) of
        Lit a # Lit b # s # _ \<Rightarrow>
          a = ''v1'' \<longrightarrow>
            (if b = ''projects''
             then s = Wild \<and> (case snd e of H_route rt \<Rightarrow> rt \<notin> {Redeploy, Promote}
                                         | H_view v \<Rightarrow> by_id v \<and> v \<notin> {Get_build_logs, Get_runtime_logs} | _ \<Rightarrow> False)
             else if b = ''deployments''
             then s = Wild \<and> (case snd e of H_route rt \<Rightarrow> rt \<in> {Redeploy, Promote}
                                         | H_view v \<Rightarrow> v \<in> {Get_build_logs, Get_runtime_logs} | _ \<Rightarrow> False)
             else True)
      | Wild # _ \<Rightarrow> False
      | Lit a # Wild # _ \<Rightarrow> False
      | _ \<Rightarrow> True)"

lemma table_placed: "list_all placed (registrations api_patterns)"
  by code_simp

section \<open>The order of the table\<close>

lemma methods_not_head: "list_all (\<lambda>e. fst (fst e) \<noteq> ''HEAD'') (registrations api_patterns)"
  by code_simp

lemma registrations_set: "set api = set api_patterns \<Longrightarrow> set (registrations api) = set (registrations api_patterns)"
  by (simp add: registrations_def)

text \<open>The order in which the map of API handlers is walked does not matter: no request matches two registered patterns, so \<open>ServeMux\<close> accepts the
  registrations in every order and answers every request alike.\<close>
theorem mux_order_free:
  assumes "set api = set api_patterns"
  shows "\<forall>e\<in>set (registrations api). \<forall>f\<in>set (registrations api). overlap (fst e) (fst f) \<longrightarrow> e = f"
    and "mux_serve un (registrations api) m raw = mux_serve un (registrations api_patterns) m raw"
proof -
  note same = registrations_set[OF assms]
  show free: "\<forall>e\<in>set (registrations api). \<forall>f\<in>set (registrations api). overlap (fst e) (fst f) \<longrightarrow> e = f"
    unfolding same using conflict_free_distinct[OF table_conflict_free] by blast
  have "find (\<lambda>(p, h). pattern_matches p m xs) (registrations api) = find (\<lambda>(p, h). pattern_matches p m xs) (registrations api_patterns)" for xs
  proof (rule find_unique[OF same])
    fix a b assume ab: "a \<in> set (registrations api)" "b \<in> set (registrations api)"
      "(\<lambda>(p, h). pattern_matches p m xs) a" "(\<lambda>(p, h). pattern_matches p m xs) b"
    moreover have "fst (fst a) \<noteq> ''HEAD''" "fst (fst b) \<noteq> ''HEAD''" using ab(1,2) methods_not_head unfolding same list_all_iff by blast+
    ultimately show "a = b" using free overlap_complete[of "fst a" m xs "fst b"] by (auto simp: split_beta)
  qed
  then show "mux_serve un (registrations api) m raw = mux_serve un (registrations api_patterns) m raw"
    by (simp only: mux_serve_def same Let_def)
qed

section \<open>Isolation of requests\<close>

text \<open>Who owns what a path below \<open>/v1/projects/\<close> or \<open>/v1/deployments/\<close> names; the id counts as the uuid it casts to, if it does.\<close>
definition named_owner :: "string \<Rightarrow> db \<Rightarrow> string \<Rightarrow> uuid option" where
  "named_owner kind = named_by (if kind = ''projects'' then project_owner else deployment_owner)"

lemma served_found:
  assumes "mux_serve un tbl m raw = Served h vs"
  obtains p where "(p, h) \<in> set tbl" "path_matches (snd p) (segments un raw)" "vs = path_values (snd p) (segments un raw)"
proof -
  obtain p where "find (\<lambda>(p, h). pattern_matches p m (segments un raw)) tbl = Some (p, h)" "vs = path_values (snd p) (segments un raw)"
    using assms by (auto simp: mux_serve_def Let_def split: if_splits option.splits)
  then show ?thesis using that[of p] by (auto dest!: find_SomeD simp: pattern_matches_def)
qed

lemma served_placed:
  assumes "mux_serve un (registrations api) m raw = Served h vs" "set api = set api_patterns"
    and "segments un raw = ''v1'' # kind # k # rest" "kind \<in> {''projects'', ''deployments''}"
  obtains ss where "placed ((m', Lit ''v1'' # Lit kind # Wild # ss), h)" "value_at vs 0 = k"
proof -
  let ?xs = "''v1'' # kind # k # rest"
  obtain p where p: "(p, h) \<in> set (registrations api)" "path_matches (snd p) ?xs" "vs = path_values (snd p) ?xs"
    using served_found[OF assms(1)] assms(3) by auto
  then have pl: "placed (p, h)" using table_placed registrations_set[OF assms(2)] by (auto simp: list_all_iff)
  obtain a b c ss where ss: "snd p = a # b # c # ss" "seg_matches a ''v1''" "seg_matches b kind"
    using p(2) by (auto simp: path_matches_def list_all2_Cons2)
  then have ab: "a = Lit ''v1''" "b = Lit kind" using pl by (cases a; cases b; auto simp: placed_def)+
  moreover have "c = Wild" using pl ss ab assms(4) by (auto simp: placed_def split: if_splits)
  ultimately have "placed ((m', Lit ''v1'' # Lit kind # Wild # ss), h)" "value_at vs 0 = k"
    using pl p(3) ss(1) by (auto simp: placed_def value_at_def path_values_def)
  then show ?thesis by (rule that)
qed

lemma placed_foreign:
  assumes "placed ((m, Lit ''v1'' # Lit kind # Wild # ss), h)" "kind \<in> {''projects'', ''deployments''}" "named_owner kind s k \<noteq> Some uid"
  shows "case h of H_route rt \<Rightarrow> target_owner rt s k \<noteq> Some uid | H_view v \<Rightarrow> by_id v \<and> view_owner v s k \<noteq> Some uid | _ \<Rightarrow> False"
  using assms by (cases h) (auto simp: placed_def named_owner_def target_owner_def view_owner_def by_id_def)

text \<open>Tenant isolation, from the request line on: a user who is no administrator and sends any request for a path below
  \<open>/v1/projects/<id>\<close> or \<open>/v1/deployments/<id>\<close> whose id is not the user's own gets an answer of the multiplexer (no such route, wrong method,
  redirect to the clean path) or a rejection with 400, 404 or 413 (500 for an id that passes the pattern of the handlers but is no uuid), and nothing at all changes: no table, no cluster object, no request to the cluster, to
  GitHub or to any PostgreSQL server, no cache.  It holds for every order in which the map of handlers is walked.\<close>
theorem request_isolation:
  assumes "set api = set api_patterns"
    and "userFromRequest ax aq (sv_db (st_srv (sy_site y))) = Some u" "\<not> su_admin u" "su_id u \<noteq> ''''"
    and "segments un (rm_segs r) = ''v1'' # kind # k # rest" "kind \<in> {''projects'', ''deployments''}"
    and "named_owner kind (sv_db (st_srv (sy_site y))) k \<noteq> Some (su_id u)"
  shows "\<exists>q \<in> Mux ` {Moved_permanently, Not_allowed, Missing} \<union> Api ` (\<lambda>st. From_route (Some (err st))) ` {400, 413, id_refusal k}
        \<union> Api ` (\<lambda>st. From_view (A_status st)) ` {400, 413, id_refusal k}.
     serve_request x vx ax aq un (registrations api) r y = (q, y)"
proof (cases "mux_serve un (registrations api) (rm_method r) (rm_segs r)")
  case (Served h vs)
  obtain ss where ss: "placed (('''', Lit ''v1'' # Lit kind # Wild # ss), h)" and k: "value_at vs 0 = k"
    using served_placed[OF Served assms(1,5,6)] .
  note f = placed_foreign[OF ss assms(6,7)]
  show ?thesis
  proof (cases h)
    case (H_route rt)
    let ?e = "Changing rt \<lparr> ur_id = k, ur_name = value_at vs 1, ur_json = rm_json r, ur_user = None \<rparr>"
    obtain st where "st \<in> {400, 413, id_refusal k}" "apiHandlers x vx ax aq ?e y = (From_route (Some (err st)), y)"
      using site_tenant_isolation[OF assms(2-4), of ?e x vx] f H_route by (auto simp: foreign_def rejection_def endpoint_id_def)
    then show ?thesis using Served H_route k by (auto simp: serve_request_def)
  next
    case (H_view v)
    let ?e = "Reading v \<lparr> vq_id = k, vq_range = rm_range r, vq_body = rm_body r \<rparr>"
    obtain st where "st \<in> {400, 413, id_refusal k}" "apiHandlers x vx ax aq ?e y = (From_view (A_status st), y)"
      using site_tenant_isolation[OF assms(2-4), of ?e x vx] f H_view by (auto simp: foreign_def rejection_def endpoint_id_def)
    then show ?thesis using Served H_view k by (auto simp: serve_request_def)
  qed (use f in auto)
qed (auto simp: serve_request_def)

theorem request_isolation_witness:
  "\<forall>(y :: (unit, unit, unit, unit) system) vx.
     let r = \<lparr> rm_method = ''DELETE'', rm_segs = [''v1'', ''projects'', pid1], rm_json = None, rm_range = '''', rm_body = '''' \<rparr>;
         z = y\<lparr> sy_site := demo_site site_db \<rparr>
     in snd (serve_request demo_sitex vx demo_ax (cookie_req ''tok2'') id (registrations (rev api_patterns)) r z) = z
        \<and> named_owner ''projects'' site_db pid1 = Some ''u1''"
proof (intro allI)
  fix y :: "(unit, unit, unit, unit) system" and vx :: "(unit, unit, unit) view_ext"
  let ?r = "\<lparr> rm_method = ''DELETE'', rm_segs = [''v1'', ''projects'', pid1], rm_json = None, rm_range = '''', rm_body = '''' \<rparr>"
  let ?z = "y\<lparr> sy_site := demo_site site_db \<rparr>"
  have u: "userFromRequest demo_ax (cookie_req ''tok2'') (sv_db (st_srv (sy_site ?z))) = Some (user1\<lparr> su_id := ''u2'', su_github := 43 \<rparr>)"
    using site_users(2) by (simp add: demo_site_def)
  have o: "named_owner ''projects'' site_db pid1 = Some ''u1''" by (simp add: named_owner_def named_by_def site_owners)
  have "pid1 \<noteq> ''''" by (simp add: pid1_def)
  then have "snd (serve_request demo_sitex vx demo_ax (cookie_req ''tok2'') id (registrations (rev api_patterns)) ?r ?z) = ?z"
    using request_isolation[of "rev api_patterns", OF _ u, of id ?r "''projects''" pid1 "[]" demo_sitex vx] o
    by (auto simp: user1_def segments_def demo_site_def)
  then show "let r = ?r; z = ?z in snd (serve_request demo_sitex vx demo_ax (cookie_req ''tok2'') id (registrations (rev api_patterns)) r z) = z
      \<and> named_owner ''projects'' site_db pid1 = Some ''u1''" using o by (simp only: Let_def simp_thms)
qed

end
