(* ===== verification/Pages.thy ===== *)
theory Pages
  imports Edge
begin

text \<open>
  The HTML pages: \<open>dashboard.go\<close> (\<open>handleDashboard\<close>, \<open>handleLoginPage\<close>, \<open>handleLandingPage\<close>, \<open>marketingBaseURL\<close>) and \<open>renderWaitlist\<close> of
  \<open>auth.go\<close>.  The embedded files are parameters.  Go walks the set of marketing hosts in an order of its own: \<open>pick\<close> is the host it meets first.
\<close>

section \<open>Pages\<close>

text \<open>Status, \<open>Cache-Control\<close> and body, or a redirect with 302.\<close>
datatype page = Html nat string string | Found string | Not_found

definition marketingBaseURL :: "(string set \<Rightarrow> string) \<Rightarrow> hostConfig \<Rightarrow> string" where
  "marketingBaseURL pick hc =
     (if ''spinup.in'' \<in> hc_marketing hc then ''https://spinup.in''
      else if hc_marketing hc \<noteq> {} then ''https://'' @ pick (hc_marketing hc)
      else ''https://spinup.in'')"

text \<open>The two \<open>strings.ReplaceAll\<close> every page goes through.\<close>
definition fill_hosts :: "(string set \<Rightarrow> string) \<Rightarrow> hostConfig \<Rightarrow> string \<Rightarrow> string" where
  "fill_hosts pick hc html =
     replace_all ''{{MARKETING_BASE}}'' (marketingBaseURL pick hc) (replace_all ''{{APP_BASE}}'' (hc_base hc) html)"

definition handleDashboard :: "string \<Rightarrow> string \<Rightarrow> page" where
  "handleDashboard dashboardHTML path = (if path \<noteq> ''/'' then Not_found else Html 200 ''no-cache'' dashboardHTML)"

definition handleLoginPage :: "(string set \<Rightarrow> string) \<Rightarrow> hostConfig \<Rightarrow> string \<Rightarrow> sessionUser option \<Rightarrow> page" where
  "handleLoginPage pick hc loginHTML u =
     (case u of Some _ \<Rightarrow> Found ''/'' | None \<Rightarrow> Html 200 ''no-cache'' (fill_hosts pick hc loginHTML))"

definition handleLandingPage :: "(string set \<Rightarrow> string) \<Rightarrow> hostConfig \<Rightarrow> string \<Rightarrow> page" where
  "handleLandingPage pick hc landingHTML = Html 200 ''public, max-age=300, stale-while-revalidate=3600'' (fill_hosts pick hc landingHTML)"

text \<open>\<open>html.EscapeString\<close>\<close>
definition escape_html_char :: "char \<Rightarrow> string" where
  "escape_html_char c =
     (if c = CHR ''&'' then ''&amp;'' else if c = CHR 0x27 then ''&#39;'' else if c = CHR ''<'' then ''&lt;''
      else if c = CHR ''>'' then ''&gt;'' else if c = CHR 0x22 then ''&#34;'' else [c])"

definition EscapeString :: "string \<Rightarrow> string" where "EscapeString s = concat (map escape_html_char s)"

text \<open>\<open>fmt.Fprintf\<close> with a template whose only verb is one \<open>%s\<close>: \<open>before\<close> and \<open>after\<close> are \<open>waitlistHTML\<close> around it, and the configured
  hosts contain no per cent sign.\<close>
definition renderWaitlist :: "(string set \<Rightarrow> string) \<Rightarrow> hostConfig \<Rightarrow> string \<Rightarrow> string \<Rightarrow> string \<Rightarrow> page" where
  "renderWaitlist pick hc before after login =
     Html 403 '''' (fill_hosts pick hc before @ EscapeString login @ fill_hosts pick hc after)"

section \<open>What the pages show\<close>

lemma escape_html_inert: "set (escape_html_char c) \<inter> {CHR ''<'', CHR ''>'', CHR 0x22, CHR 0x27} = {}"
  by (simp add: escape_html_char_def)

text \<open>The login of a stranger cannot leave the text it is put into.\<close>
theorem waitlist_page_inert:
  "\<exists>mid. renderWaitlist pick hc before after login = Html 403 '''' (fill_hosts pick hc before @ mid @ fill_hosts pick hc after)
     \<and> set mid \<inter> {CHR ''<'', CHR ''>'', CHR 0x22, CHR 0x27} = {}"
  using escape_html_inert by (auto simp: renderWaitlist_def EscapeString_def)

text \<open>The link back to the marketing site always names a configured host, or the default when none is configured.\<close>
lemma marketing_link:
  assumes "\<And>M. M \<noteq> {} \<Longrightarrow> pick M \<in> M"
  shows "marketingBaseURL pick hc \<in> (\<lambda>h. ''https://'' @ h) ` (insert ''spinup.in'' (hc_marketing hc))"
  using assms[of "hc_marketing hc"] by (auto simp: marketingBaseURL_def)

text \<open>On a marketing host the OAuth paths are redirected by path only: whatever the query was, the location is the same.\<close>
theorem auth_redirect_drops_query:
  assumes "prefix ''/auth/'' path" "surface hc (requestHost host) = ''marketing''"
  shows "withHostRouting hc \<lparr> h_method = ''GET'', h_host = host, h_path = path, h_uri = uri \<rparr> = Redirect (hc_base hc @ path)"
  using assms by (auto simp: withHostRouting_def Let_def prefix_def)

lemma spinup_host: "requestHost ''spinup.in'' = ''spinup.in''"
  by code_simp

theorem auth_redirect_drops_query_witness:
  "withHostRouting \<lparr> hc_marketing = {''spinup.in''}, hc_app = {}, hc_base = ''https://app.spinup.in'' \<rparr>
     \<lparr> h_method = ''GET'', h_host = ''spinup.in'', h_path = ''/auth/callback'', h_uri = ''/auth/callback?code=c&state=s'' \<rparr>
   = Redirect ''https://app.spinup.in/auth/callback''"
  using auth_redirect_drops_query[of "''/auth/callback''" "\<lparr> hc_marketing = {''spinup.in''}, hc_app = {}, hc_base = ''https://app.spinup.in'' \<rparr>" "''spinup.in''"]
  by (simp add: surface_def spinup_host)

end
