(* ===== verification/Http.thy ===== *)
theory Http
  imports Server Pages Webhook Startup
begin

text \<open>
  The HTTP server as \<open>main\<close> composes it: \<open>withRequestLogging(log, s.withHostRouting(mux))\<close> with every registered handler, on one state: the tables,
  the cluster, GitHub, tenant databases, the caches of the process, the rate limiter, the commit statuses posted and the access log.  A request is one step.
  The properties say what a request can change: nothing that belongs to somebody else, and without a session nothing but what a signed webhook, an
  accepted sign-in, a sign-out or the waitlist may change.
\<close>

section \<open>State and requests\<close>

record ('k, 'g, 'p, 'q) plane =
  pl_sys :: "('k, 'g, 'p, 'q) system"
  pl_rl :: rate_limiter
  pl_statuses :: "commit_status list"
  pl_log :: "(string \<times> string \<times> nat) list"

definition put_gh :: "'g github \<Rightarrow> ('k, 'g, 'p, 'q) system \<Rightarrow> ('k, 'g, 'p, 'q) system" where
  "put_gh g s = s\<lparr> sy_site := (sy_site s)\<lparr> st_srv := (st_srv (sy_site s))\<lparr> sv_gh := g \<rparr> \<rparr> \<rparr>"

text \<open>What the handlers read of a request.  \<open>wb_json\<close> is the body as a JSON decoder sees it, \<open>wb_small\<close> that of its first 4096 bytes.\<close>
record web_req =
  wb_http :: http_req
  wb_segs :: "string list"
  wb_auth :: auth_req
  wb_hook :: hook_req
  wb_json :: "json option"
  wb_small :: "json option"
  wb_range :: string

record ('k, 'g, 'p, 'q) web_ext =
  we_site :: "('k, 'g, 'p) site_ext"
  we_view :: "('k, 'g, 'q) view_ext"
  we_auth :: "unit auth_ext"
  we_hook :: "'g hook_ext"
  we_wait :: wait_ext
  we_hosts :: hostConfig
  we_pick :: "string set \<Rightarrow> string"
  we_dashboard :: string
  we_login :: string
  we_landing :: string
  we_unescape :: "string \<Rightarrow> string"
  we_table :: "(pattern \<times> handler) list"
  we_ping :: bool

datatype web_reply = W_status nat | W_page page | W_hook hook_reply | W_auth reply | W_waitlist "nat option" | W_api mux_reply | W_redirect string

section \<open>Handlers\<close>

definition healthz :: web_reply where "healthz = W_status 200"

definition api_request :: "web_req \<Rightarrow> request" where
  "api_request r = \<lparr> rm_method = h_method (wb_http r), rm_segs = wb_segs r, rm_json = wb_json r, rm_range = wb_range r, rm_body = hq_body (wb_hook r) \<rparr>"

definition on_hook :: "('k, 'g, 'p, 'q) web_ext \<Rightarrow> hook_req \<Rightarrow> ('k, 'g, 'p, 'q) system \<Rightarrow> hook_reply \<times> ('k, 'g, 'p, 'q) system" where
  "on_hook x h s =
     (let (a, w) = handleGitHubWebhook (we_hook x) h \<lparr> hw_db = sys_db s, hw_gh = sv_gh (st_srv (sy_site s)) \<rparr>
      in (a, put_db (hw_db w) (put_gh (hw_gh w) s)))"

text \<open>The multiplexer with its handlers.\<close>
definition serve_mux :: "('k, 'g, 'p, 'q) web_ext \<Rightarrow> web_req \<Rightarrow> ('k, 'g, 'p, 'q) system \<Rightarrow> web_reply \<times> ('k, 'g, 'p, 'q) system" where
  "serve_mux x r s =
     (let ax = we_auth x; aq = wb_auth r; db = sys_db s
      in case mux_serve (we_unescape x) (we_table x) (h_method (wb_http r)) (wb_segs r) of
           Served H_healthz _ \<Rightarrow> (healthz, s)
         | Served H_readyz _ \<Rightarrow> (W_status (readyz (we_ping x)), s)
         | Served H_webhook _ \<Rightarrow> (let (a, s1) = on_hook x (wb_hook r) s in (W_hook a, s1))
         | Served H_login_page _ \<Rightarrow> (W_page (handleLoginPage (we_pick x) (we_hosts x) (we_login x) (userFromRequest ax aq db)), s)
         | Served H_login _ \<Rightarrow> (W_auth (handleLogin ax), s)
         | Served H_callback _ \<Rightarrow> (let (p, d) = handleCallback ax aq db in (W_auth p, put_db d s))
         | Served H_logout _ \<Rightarrow> (let (p, d) = handleLogout ax aq db in (W_auth p, put_db d s))
         | Served H_dashboard _ \<Rightarrow>
             ((case userFromRequest ax aq db of
                 None \<Rightarrow> W_redirect ''/login''
               | Some _ \<Rightarrow> W_page (handleDashboard (we_dashboard x) (h_path (wb_http r)))), s)
         | _ \<Rightarrow> (let (q, s1) = serve_request (we_site x) (we_view x) ax aq (we_unescape x) (we_table x) (api_request r) s in (W_api q, s1)))"

definition serve_hosts :: "('k, 'g, 'p, 'q) web_ext \<Rightarrow> web_req \<Rightarrow> ('k, 'g, 'p, 'q) plane \<Rightarrow> web_reply \<times> ('k, 'g, 'p, 'q) plane" where
  "serve_hosts x r y =
     (case withHostRouting (we_hosts x) (wb_http r) of
        Next \<Rightarrow> (let (a, s) = serve_mux x r (pl_sys y) in (a, y\<lparr> pl_sys := s \<rparr>))
      | Landing \<Rightarrow> (W_page (handleLandingPage (we_pick x) (we_hosts x) (we_landing x)), y)
      | Join_waitlist \<Rightarrow>
          (let (st, rl, d) = handleJoinWaitlist (we_wait x)
                 \<lparr> wr_forwarded = aq_forwarded (wb_auth r), wr_remote = aq_remote (wb_auth r), wr_json = wb_small r \<rparr> (pl_rl y, sys_db (pl_sys y))
           in (W_waitlist st, y\<lparr> pl_rl := rl, pl_sys := put_db d (pl_sys y) \<rparr>))
      | Redirect u \<Rightarrow> (W_redirect u, y))"

section \<open>The access log\<close>

text \<open>The status the recorder holds when the handler returns; \<open>None\<close> when it panics or has not returned.\<close>
fun answer_status :: "answer \<Rightarrow> nat option" where
  "answer_status (A_status st) = Some st"
| "answer_status (A_json q) = Some (hp_status q)"
| "answer_status (A_pull q) = (case q of Pr_status st \<Rightarrow> Some st | Pr_answer st _ \<Rightarrow> Some st | Pr_panic \<Rightarrow> None)"
| "answer_status (A_stream l _) = (case l of Log_status st \<Rightarrow> Some st | Log_stream \<Rightarrow> Some 200 | Log_waiting \<Rightarrow> None)"
| "answer_status _ = Some 200"

fun response_status :: "response \<Rightarrow> nat option" where
  "response_status Unauthenticated = Some 401"
| "response_status (From_route q) = map_option hp_status q"
| "response_status (From_view a) = answer_status a"

fun mux_status :: "served \<Rightarrow> nat option" where
  "mux_status Moved_permanently = Some 301"
| "mux_status Not_allowed = Some 405"
| "mux_status Missing = Some 404"
| "mux_status (Served _ _) = Some 200"

fun web_status :: "web_reply \<Rightarrow> nat option" where
  "web_status (W_status st) = Some st"
| "web_status (W_page p) = Some (case p of Html st _ _ \<Rightarrow> st | Found _ \<Rightarrow> 302 | Not_found \<Rightarrow> 404)"
| "web_status (W_hook a) = (case a of Status st \<Rightarrow> Some st | Handler_panic \<Rightarrow> None)"
| "web_status (W_auth p) = Some (rp_status p)"
| "web_status (W_waitlist st) = st"
| "web_status (W_api q) = (case q of Api v \<Rightarrow> response_status v | Other _ \<Rightarrow> Some 200 | Mux v \<Rightarrow> mux_status v)"
| "web_status (W_redirect _) = Some 302"

text \<open>The line is written after the handler, and not in a deferred call: a handler that panics leaves none.\<close>
definition withRequestLogging :: "http_req \<Rightarrow> web_reply \<times> ('k, 'g, 'p, 'q) plane \<Rightarrow> web_reply \<times> ('k, 'g, 'p, 'q) plane" where
  "withRequestLogging h q =
     (fst q, case web_status (fst q) of
               None \<Rightarrow> snd q
             | Some st \<Rightarrow> (snd q)\<lparr> pl_log := pl_log (snd q) @ [(h_method h, h_path h, st)] \<rparr>)"

definition serve_http :: "('k, 'g, 'p, 'q) web_ext \<Rightarrow> web_req \<Rightarrow> ('k, 'g, 'p, 'q) plane \<Rightarrow> web_reply \<times> ('k, 'g, 'p, 'q) plane" where
  "serve_http x r y = withRequestLogging (wb_http r) (serve_hosts x r y)"

lemma logging_keeps [simp]:
  "fst (withRequestLogging h q) = fst q" "pl_sys (snd (withRequestLogging h q)) = pl_sys (snd q)"
  "pl_rl (snd (withRequestLogging h q)) = pl_rl (snd q)" "pl_statuses (snd (withRequestLogging h q)) = pl_statuses (snd q)"
  by (simp_all add: withRequestLogging_def split: option.split)

lemma put_simps [simp]:
  "sys_db (put_db d s) = d" "sys_db (put_gh g s) = sys_db s" "put_db (sys_db s) s = s"
  "put_gh (sv_gh (st_srv (sy_site s))) s = s" "put_db d (put_db e s) = put_db d s"
  by (simp_all add: sys_db_def put_db_def put_gh_def)

section \<open>Isolation\<close>

text \<open>\<open>r.URL.Path\<close>\<close>
definition path_of :: "string list \<Rightarrow> string" where "path_of xs = concat (map (\<lambda>s. CHR ''/'' # s) xs)"

lemma v1_routing:
  assumes "h_path h = path_of (''v1'' # kind # k # rest)" "kind \<in> {''projects'', ''deployments''}"
  shows "withHostRouting hc h = Next \<or> (\<exists>u. withHostRouting hc h = Redirect u)"
  using assms by (auto simp: withHostRouting_def path_of_def Let_def)

lemma served_api:
  assumes "mux_serve un (registrations api) m raw = Served h vs" "set api = set api_patterns"
    and "segments un raw = ''v1'' # kind # k # rest" "kind \<in> {''projects'', ''deployments''}"
  shows "(\<exists>rt. h = H_route rt) \<or> (\<exists>v. h = H_view v)"
proof -
  obtain ss where "placed (('''', Lit ''v1'' # Lit kind # Wild # ss), h)" using served_placed[OF assms] .
  then show ?thesis using assms(4) by (cases h) (auto simp: placed_def)
qed

lemma serve_mux_api:
  assumes "set api = set api_patterns" "we_table x = registrations api"
    and "segments (we_unescape x) (wb_segs r) = ''v1'' # kind # k # rest" "kind \<in> {''projects'', ''deployments''}"
  shows "serve_mux x r s = (let (q, s1) = serve_request (we_site x) (we_view x) (we_auth x) (wb_auth r) (we_unescape x) (registrations api) (api_request r) s
     in (W_api q, s1))"
proof (cases "mux_serve (we_unescape x) (registrations api) (h_method (wb_http r)) (wb_segs r)")
  case (Served h vs)
  then show ?thesis using served_api[OF Served assms(1,3,4)] by (auto simp: serve_mux_def assms(2) Let_def)
qed (simp_all add: serve_mux_def assms(2) Let_def)

text \<open>The answers that give nothing away: redirect to the clean path, wrong method, no such route, or a rejection of the API: 400, 413, and
  404 for an id that is a uuid (\<open>id_refusal\<close>).\<close>
definition refusals :: "string \<Rightarrow> mux_reply set" where
  "refusals k = Mux ` {Moved_permanently, Not_allowed, Missing} \<union> Api ` (\<lambda>st. From_route (Some (err st))) ` {400, 413, id_refusal k}
     \<union> Api ` (\<lambda>st. From_view (A_status st)) ` {400, 413, id_refusal k}"

text \<open>C2: Tenant isolation, from the connection on: a user who is no administrator and sends any request, to any host, for a path below
  \<open>/v1/projects/<id>\<close> or \<open>/v1/deployments/<id>\<close> whose id is not the user's own gets a redirect, an answer of the multiplexer (no such
  route, wrong method, redirect to the clean path) or a rejection with 400, 404 or 413, or with 500 when the id passes the pattern of the handlers but PostgreSQL
  does not cast it to a uuid, and nothing changes but the access log: no table, no cluster object, no
  request to the cluster, to GitHub or to any PostgreSQL server, no cache, no counter of the rate limiter.  It holds for every order in which the map of handlers is walked.\<close>
theorem http_isolation:
  assumes "set api = set api_patterns" "we_table x = registrations api"
    and "userFromRequest (we_auth x) (wb_auth r) (sys_db (pl_sys y)) = Some u" "\<not> su_admin u" "su_id u \<noteq> ''''"
    and "segments (we_unescape x) (wb_segs r) = ''v1'' # kind # k # rest" "kind \<in> {''projects'', ''deployments''}"
    and "h_path (wb_http r) = path_of (''v1'' # kind # k # rest)"
    and "named_owner kind (sys_db (pl_sys y)) k \<noteq> Some (su_id u)"
  shows "fst (serve_http x r y) \<in> range W_redirect \<union> W_api ` refusals k \<and> (snd (serve_http x r y))\<lparr> pl_log := pl_log y \<rparr> = y"
proof -
  have "segments (we_unescape x) (rm_segs (api_request r)) = ''v1'' # kind # k # rest" using assms(6) by (simp add: api_request_def)
  from request_isolation[OF assms(1) assms(3)[unfolded sys_db_def] assms(4,5) this assms(7) assms(9)[unfolded sys_db_def],
      of "we_site x" "we_view x", folded refusals_def]
  obtain q where q: "q \<in> refusals k" "serve_mux x r (pl_sys y) = (W_api q, pl_sys y)"
    unfolding serve_mux_api[OF assms(1,2,6,7)] by (auto simp only: Let_def prod.case)
  have s: "fst (serve_hosts x r y) \<in> range W_redirect \<union> W_api ` refusals k" "snd (serve_hosts x r y) = y"
    using v1_routing[OF assms(8,7), of "we_hosts x"] q by (auto simp: serve_hosts_def)
  have "fst (serve_http x r y) \<in> range W_redirect \<union> W_api ` refusals k" using s(1) by (simp only: serve_http_def logging_keeps)
  moreover have "(snd (serve_http x r y))\<lparr> pl_log := pl_log y \<rparr> = y"
    using s(2) by (simp add: serve_http_def withRequestLogging_def split: option.split)
  ultimately show ?thesis ..
qed

theorem http_isolation_witness:
  "\<forall>(x :: (unit, unit, unit, unit) web_ext) (y :: (unit, unit, unit, unit) plane) aq.
     let x1 = x\<lparr> we_table := registrations (rev api_patterns), we_auth := demo_ax, we_unescape := id \<rparr>;
         y1 = y\<lparr> pl_sys := (pl_sys y)\<lparr> sy_site := demo_site site_db \<rparr> \<rparr>;
         r = \<lparr> wb_http = \<lparr> h_method = ''DELETE'', h_host = ''app.spinup.in'', h_path = ''/v1/projects/'' @ pid1, h_uri = ''/v1/projects/'' @ pid1 \<rparr>,
               wb_segs = [''v1'', ''projects'', pid1], wb_auth = cookie_req ''tok2'', wb_hook = demo_hook '''' '''', wb_json = None, wb_small = None, wb_range = '''' \<rparr>
     in (snd (serve_http x1 r y1))\<lparr> pl_log := pl_log y1 \<rparr> = y1 \<and> named_owner ''projects'' site_db pid1 = Some ''u1''"
proof (intro allI)
  fix x :: "(unit, unit, unit, unit) web_ext" and y :: "(unit, unit, unit, unit) plane"
  let ?x = "x\<lparr> we_table := registrations (rev api_patterns), we_auth := demo_ax, we_unescape := id \<rparr>"
  let ?y = "y\<lparr> pl_sys := (pl_sys y)\<lparr> sy_site := demo_site site_db \<rparr> \<rparr>"
  let ?r = "\<lparr> wb_http = \<lparr> h_method = ''DELETE'', h_host = ''app.spinup.in'', h_path = ''/v1/projects/'' @ pid1, h_uri = ''/v1/projects/'' @ pid1 \<rparr>,
      wb_segs = [''v1'', ''projects'', pid1], wb_auth = cookie_req ''tok2'', wb_hook = demo_hook '''' '''', wb_json = None, wb_small = None, wb_range = '''' \<rparr>"
  have u: "userFromRequest (we_auth ?x) (wb_auth ?r) (sys_db (pl_sys ?y)) = Some (user1\<lparr> su_id := ''u2'', su_github := 43 \<rparr>)"
    using site_users(2) by (simp add: demo_site_def sys_db_def)
  have o: "named_owner ''projects'' site_db pid1 = Some ''u1''" by (simp add: named_owner_def named_by_def site_owners)
  have "pid1 \<noteq> ''''" by (simp add: pid1_def)
  then have "(snd (serve_http ?x ?r ?y))\<lparr> pl_log := pl_log ?y \<rparr> = ?y"
    using http_isolation[of "rev api_patterns" ?x ?r ?y, OF _ _ u, of "''projects''" pid1 "[]"] o
    by (simp add: user1_def segments_def path_of_def sys_db_def demo_site_def)
  then show "let x1 = ?x; y1 = ?y; r = ?r in (snd (serve_http x1 r y1))\<lparr> pl_log := pl_log y1 \<rparr> = y1 \<and> named_owner ''projects'' site_db pid1 = Some ''u1''"
    using o by (simp only: Let_def simp_thms)
qed

section \<open>Requests without a session\<close>

lemma request_anonymous:
  assumes "userFromRequest ax aq (sys_db s) = None"
  shows "snd (serve_request x vx ax aq un tbl r s) = s"
  using site_requires_session[OF assms[unfolded sys_db_def]] by (simp add: serve_request_def split: served.split handler.split)

text \<open>What the public handlers may do to the state.\<close>
definition by_webhook :: "('k, 'g, 'p, 'q) web_ext \<Rightarrow> hook_req \<Rightarrow> ('k, 'g, 'p, 'q) system \<Rightarrow> ('k, 'g, 'p, 'q) system \<Rightarrow> bool" where
  "by_webhook x h s s' \<longleftrightarrow>
     verifySignature (hx_mac (we_hook x)) (hx_secret (we_hook x)) (hq_sig h) (hq_body h) \<and> db_steps (sys_db s) (sys_db s')
     \<and> s' = put_db (sys_db s') (put_gh (sv_gh (st_srv (sy_site s'))) s)"

definition by_sign_in :: "('k, 'g, 'p, 'q) web_ext \<Rightarrow> auth_req \<Rightarrow> ('k, 'g, 'p, 'q) system \<Rightarrow> ('k, 'g, 'p, 'q) system \<Rightarrow> bool" where
  "by_sign_in x r s s' \<longleftrightarrow>
     (\<exists>cs tok gh. checkState (we_auth x) r = Inr cs \<and> exchangeOAuthCode (ax_cfg (we_auth x)) (ax_http (we_auth x)) (aq_code r) = Inr tok
        \<and> fetchGitHubUser (ax_http (we_auth x)) (ot_access tok) = Inr gh \<and> loginAllowed (ac_allowed (ax_cfg (we_auth x))) (gu_login gh)
        \<and> s' = put_db (snd (finishLogin (we_auth x) r cs tok gh (sys_db s))) s)"

definition by_sign_out :: "('k, 'g, 'p, 'q) web_ext \<Rightarrow> auth_req \<Rightarrow> ('k, 'g, 'p, 'q) system \<Rightarrow> ('k, 'g, 'p, 'q) system \<Rightarrow> bool" where
  "by_sign_out x r s s' \<longleftrightarrow> (\<exists>h. session_hash (we_auth x) r = Some h \<and> s' = put_db (DeleteSession h (sys_db s)) s)"

definition by_waitlist :: "('k, 'g, 'p, 'q) web_ext \<Rightarrow> web_req \<Rightarrow> rate_limiter \<Rightarrow> ('k, 'g, 'p, 'q) system \<Rightarrow> ('k, 'g, 'p, 'q) system \<Rightarrow> bool" where
  "by_waitlist x r rl s s' \<longleftrightarrow>
     surface (we_hosts x) (requestHost (h_host (wb_http r))) = ''marketing''
     \<and> (\<exists>rl'. allow (wx_now (we_wait x)) (clientIP (aq_forwarded (wb_auth r)) (aq_remote (wb_auth r))) rl = Some (True, rl'))
     \<and> (\<exists>ws. s' = put_db ((sys_db s)\<lparr> signups := ws \<rparr>) s)"

lemma hook_effect: "snd (on_hook x h s) = s \<or> by_webhook x h s (snd (on_hook x h s))"
proof -
  let ?w = "\<lparr> hw_db = sys_db s, hw_gh = sv_gh (st_srv (sy_site s)) \<rparr>"
  obtain a w where w: "handleGitHubWebhook (we_hook x) h ?w = (a, w)" by fastforce
  show ?thesis
  proof (cases "verifySignature (hx_mac (we_hook x)) (hx_secret (we_hook x)) (hq_sig h) (hq_body h)")
    case True
    have "db_steps (sys_db s) (hw_db w)" using steps_webhook[of ?w "we_hook x" h] w by simp
    then show ?thesis using True w by (simp add: by_webhook_def on_hook_def) (simp add: put_gh_def put_db_def)
  next
    case False
    then have "w = ?w" using w by (auto simp: handleGitHubWebhook_def split: if_splits)
    then show ?thesis using w by (simp add: on_hook_def)
  qed
qed

lemma callback_effect:
  "put_db (snd (handleCallback (we_auth x) r (sys_db s))) s = s \<or> by_sign_in x r s (put_db (snd (handleCallback (we_auth x) r (sys_db s))) s)"
  by (auto simp: handleCallback_def by_sign_in_def split: sum.split)

lemma logout_effect:
  "put_db (snd (handleLogout (we_auth x) r (sys_db s))) s = s \<or> by_sign_out x r s (put_db (snd (handleLogout (we_auth x) r (sys_db s))) s)"
  by (auto simp: handleLogout_def by_sign_out_def split: option.split)

lemma signup_effect: "\<exists>ws. snd (UpsertWaitlistSignup now fr em uc nm co s) = s\<lparr> signups := ws \<rparr>"
proof -
  have "s = s\<lparr> signups := signups s \<rparr>" by simp
  then show ?thesis unfolding UpsertWaitlistSignup_def by (simp only: snd_conv split: if_split) blast
qed

lemma waitlist_effect:
  assumes "handleJoinWaitlist x r (rl, s) = (st, rl1, s1)"
  shows "s1 = s \<or> ((\<exists>rl'. allow (wx_now x) (clientIP (wr_forwarded r) (wr_remote r)) rl = Some (True, rl')) \<and> (\<exists>ws. s1 = s\<lparr> signups := ws \<rparr>))"
  using assms signup_effect
  by (auto simp: handleJoinWaitlist_def Let_def split: option.splits bool.splits prod.splits if_splits sum.splits) (metis snd_conv)+

lemma mux_anonymous:
  assumes "userFromRequest (we_auth x) (wb_auth r) (sys_db s) = None"
  shows "snd (serve_mux x r s) = s \<or> by_webhook x (wb_hook r) s (snd (serve_mux x r s)) \<or> by_sign_in x (wb_auth r) s (snd (serve_mux x r s))
     \<or> by_sign_out x (wb_auth r) s (snd (serve_mux x r s))"
proof (cases "mux_serve (we_unescape x) (we_table x) (h_method (wb_http r)) (wb_segs r)")
  case (Served h vs)
  then show ?thesis
    using hook_effect[of x "wb_hook r" s] callback_effect[of x "wb_auth r" s] logout_effect[of x "wb_auth r" s] request_anonymous[OF assms]
    by (cases h) (auto simp: serve_mux_def Let_def split_beta)
qed (simp_all add: serve_mux_def Let_def split_beta request_anonymous[OF assms])

text \<open>C11: Without a session: a request that no valid session cookie accompanies, whatever its method, host, path and body, changes nothing of the state of the
  server but the access log and the counters of the rate limiter, with four exceptions: a webhook whose signature verifies works on the tables, by
  operations of the store, and on GitHub; a sign-in whose state is accepted and whose GitHub account is on the allowlist works on the tables; a
  sign-out deletes the row of its own cookie; and on a marketing host a client within its limit may add to the waitlist, and to nothing else.\<close>
theorem anonymous_requests:
  assumes "userFromRequest (we_auth x) (wb_auth r) (sys_db (pl_sys y)) = None"
  shows "let s = pl_sys y; s' = pl_sys (snd (serve_http x r y))
     in s' = s \<or> by_webhook x (wb_hook r) s s' \<or> by_sign_in x (wb_auth r) s s' \<or> by_sign_out x (wb_auth r) s s' \<or> by_waitlist x r (pl_rl y) s s'"
proof (cases "withHostRouting (we_hosts x) (wb_http r)")
  case Next
  then have "pl_sys (snd (serve_http x r y)) = snd (serve_mux x r (pl_sys y))" by (simp add: serve_http_def serve_hosts_def split_beta)
  then show ?thesis using mux_anonymous[OF assms] by (auto simp: Let_def)
next
  case Join_waitlist
  let ?w = "\<lparr> wr_forwarded = aq_forwarded (wb_auth r), wr_remote = aq_remote (wb_auth r), wr_json = wb_small r \<rparr>"
  obtain st rl d where w: "handleJoinWaitlist (we_wait x) ?w (pl_rl y, sys_db (pl_sys y)) = (st, rl, d)" by (metis surj_pair)
  have m: "surface (we_hosts x) (requestHost (h_host (wb_http r))) = ''marketing''"
    using Join_waitlist by (auto simp: withHostRouting_def Let_def split: if_splits)
  have "pl_sys (snd (serve_http x r y)) = put_db d (pl_sys y)" using Join_waitlist w by (simp add: serve_http_def serve_hosts_def)
  then show ?thesis using waitlist_effect[OF w] m by (auto simp: by_waitlist_def Let_def)
qed (simp_all add: serve_http_def serve_hosts_def)

text \<open>A request to delete a project, with a session that has expired.\<close>
theorem anonymous_requests_witness:
  "\<forall>(x :: (unit, unit, unit, unit) web_ext) (y :: (unit, unit, unit, unit) plane).
     let x1 = x\<lparr> we_auth := demo_ax, we_hosts := \<lparr> hc_marketing = {}, hc_app = {}, hc_base = '''' \<rparr> \<rparr>;
         y1 = y\<lparr> pl_sys := (pl_sys y)\<lparr> sy_site := demo_site site_db \<rparr> \<rparr>;
         r = \<lparr> wb_http = \<lparr> h_method = ''DELETE'', h_host = '''', h_path = ''/v1/projects/'' @ pid1, h_uri = '''' \<rparr>,
               wb_segs = [''v1'', ''projects'', pid1], wb_auth = (cookie_req ''tok3'')\<lparr> aq_setup := '''', aq_state := '''' \<rparr>,
               wb_hook = (demo_hook '''' '''')\<lparr> hq_sig := '''' \<rparr>, wb_json = None, wb_small = None, wb_range = '''' \<rparr>
     in \<exists>h. pl_sys (snd (serve_http x1 r y1)) \<in> {pl_sys y1, put_db (DeleteSession h site_db) (pl_sys y1)}"
proof (intro allI)
  fix x :: "(unit, unit, unit, unit) web_ext" and y :: "(unit, unit, unit, unit) plane"
  let ?x = "x\<lparr> we_auth := demo_ax, we_hosts := \<lparr> hc_marketing = {}, hc_app = {}, hc_base = '''' \<rparr> \<rparr>"
  let ?y = "y\<lparr> pl_sys := (pl_sys y)\<lparr> sy_site := demo_site site_db \<rparr> \<rparr>"
  let ?r = "\<lparr> wb_http = \<lparr> h_method = ''DELETE'', h_host = '''', h_path = ''/v1/projects/'' @ pid1, h_uri = '''' \<rparr>,
      wb_segs = [''v1'', ''projects'', pid1], wb_auth = (cookie_req ''tok3'')\<lparr> aq_setup := '''', aq_state := '''' \<rparr>,
      wb_hook = (demo_hook '''' '''')\<lparr> hq_sig := '''' \<rparr>, wb_json = None, wb_small = None, wb_range = '''' \<rparr>"
  have h: "session_hash demo_ax (wb_auth ?r) = session_hash demo_ax (cookie_req ''tok3'')" by (simp add: session_hash_def cookie_req_def)
  then have "userFromRequest (we_auth ?x) (wb_auth ?r) (sys_db (pl_sys ?y)) = None"
    using site_users(3) by (simp add: userFromRequest_def demo_site_def sys_db_def)
  from anonymous_requests[OF this]
  have "\<exists>h. pl_sys (snd (serve_http ?x ?r ?y)) \<in> {pl_sys ?y, put_db (DeleteSession h site_db) (pl_sys ?y)}"
    by (auto simp: Let_def by_webhook_def by_sign_in_def by_sign_out_def by_waitlist_def verifySignature_def sig_prefix_def checkState_def surface_def
        sys_db_def demo_site_def)
  then show "let x1 = ?x; y1 = ?y; r = ?r
      in \<exists>h. pl_sys (snd (serve_http x1 r y1)) \<in> {pl_sys y1, put_db (DeleteSession h site_db) (pl_sys y1)}"
    by (simp only: Let_def)
qed

end
