(* ===== verification/Control_Plane.thy ===== *)
theory Control_Plane
  imports Http Reconciler Builder_Props Series_Props Self_Rebuild
begin

text \<open>
  The running process: the goroutines \<open>main\<close> starts (\<open>worker.Run\<close>, \<open>buildReconciler.Run\<close>, \<open>startSelfRebuilder\<close>, \<open>startTelemetrySampler\<close>,
  \<open>startSyntheticMonitor\<close>) and the HTTP server as one step relation on the state of \<open>Http\<close>.  A step is one request or one tick, with clocks, random bytes and
  the answers of the outside world of its own; the process may stop at any time, also while a build runs, and starts again with empty memory.
  How the operations of two ticks interleave on the tables is the subject of \<open>Store_Invariant\<close> and \<open>Queue\<close>.
\<close>

section \<open>Ticks\<close>

definition worker_view :: "('k, 'g, 'p, 'q) plane \<Rightarrow> 'k Builder.world" where
  "worker_view y = \<lparr> wd = sys_db (pl_sys y), wk = sv_kube (st_srv (sy_site (pl_sys y))), ws = pl_statuses y \<rparr>"

definition put_kube :: "'k kube \<Rightarrow> ('k, 'g, 'p, 'q) system \<Rightarrow> ('k, 'g, 'p, 'q) system" where
  "put_kube k s = s\<lparr> sy_site := (sy_site s)\<lparr> st_srv := (st_srv (sy_site s))\<lparr> sv_kube := k \<rparr> \<rparr> \<rparr>"

definition put_view :: "'k Builder.world \<Rightarrow> ('k, 'g, 'p, 'q) plane \<Rightarrow> ('k, 'g, 'p, 'q) plane" where
  "put_view w y = y\<lparr> pl_sys := put_kube (wk w) (put_db (wd w) (pl_sys y)), pl_statuses := ws w \<rparr>"

definition worker_tick :: "'k ext \<Rightarrow> ('k, 'g, 'p, 'q) plane \<Rightarrow> ('k, 'g, 'p, 'q) plane" where
  "worker_tick x y = put_view (snd (tick x (worker_view y))) y"

text \<open>\<open>None\<close> when the reconciler panics; the process ends.\<close>
definition reconcile_tick :: "'k rec_ext \<Rightarrow> ('k, 'g, 'p, 'q) plane \<Rightarrow> ('k, 'g, 'p, 'q) plane option" where
  "reconcile_tick x y = map_option (\<lambda>w. put_view w y) (reconciler_tick x (worker_view y))"

text \<open>One round of the sampler; \<open>listed\<close> says whether the projects could be listed.\<close>
definition sample_tick ::
  "'k api \<Rightarrow> (string \<Rightarrow> (string, nat \<times> string) result) \<Rightarrow> time \<Rightarrow> bool \<Rightarrow> ('k, 'g, 'p, 'q) plane \<Rightarrow> ('k, 'g, 'p, 'q) plane" where
  "sample_tick api fetch now listed y =
     (let s = pl_sys y; (snap, k) = collectTelemetry api fetch now (sv_kube (st_srv (sy_site s)));
          ps = (if listed then Some (ListProjectsWithTenant (sys_db s) '''') else None);
          (sr, mt) = sampler_tick snap ps (sy_series s, sy_metrics s)
      in y\<lparr> pl_sys := (put_kube k s)\<lparr> sy_series := sr, sy_metrics := mt \<rparr> \<rparr>)"

text \<open>One cycle of the monitor, unless \<open>PAAS_DISABLE_SYNTHETIC\<close> is 1; \<open>rnd\<close> is \<open>rand.Intn\<close> of the spread.\<close>
definition synthetic_tick ::
  "(string \<Rightarrow> string) \<Rightarrow> (string \<Rightarrow> bool) \<Rightarrow> (string \<Rightarrow> nat \<Rightarrow> time \<times> probe) \<Rightarrow> (string \<Rightarrow> nat) \<Rightarrow> time \<Rightarrow> ('k, 'g, 'p, 'q) plane \<Rightarrow> ('k, 'g, 'p, 'q) plane" where
  "synthetic_tick env valid pr rnd start y =
     (if env ''PAAS_DISABLE_SYNTHETIC'' = ''1'' then y
      else (let s = pl_sys y; hits = (\<lambda>u. synthMinHitsPerApp + rnd u mod (synthMaxHitsPerApp - synthMinHitsPerApp + 1))
            in y\<lparr> pl_sys := s\<lparr> sy_uptime := runSyntheticCycle valid pr hits start (sys_db s) (sy_uptime s) \<rparr> \<rparr>))"

definition rebuild_tick :: "'k rb_ext \<Rightarrow> ('k, 'g, 'p, 'q) plane \<Rightarrow> ('k, 'g, 'p, 'q) plane" where
  "rebuild_tick x y = y\<lparr> pl_sys := put_kube (snd (rebuilderTick x (sv_kube (st_srv (sy_site (pl_sys y)))))) (pl_sys y) \<rparr>"

section \<open>Start\<close>

text \<open>What \<open>main\<close> does before the goroutines start: a limiter of ten requests a minute, empty caches and histories, and the reconciliation of
  the tables; the tables, the cluster and GitHub are as the last process left them.\<close>
definition boot :: "'g hook_ext \<Rightarrow> (int \<Rightarrow> int \<Rightarrow> uuid) \<Rightarrow> ('k, 'g, 'p, 'q) plane \<Rightarrow> ('k, 'g, 'p, 'q) plane" where
  "boot x fr y =
     (let s = pl_sys y; w = startupReconcile x fr \<lparr> hw_db = sys_db s, hw_gh = sv_gh (st_srv (sy_site s)) \<rparr>
      in y\<lparr> pl_sys := (put_db (hw_db w) (put_gh (hw_gh w) s))\<lparr> sy_snap := None, sy_series := [], sy_metrics := [], sy_uptime := (\<lambda>_. []) \<rparr>,
            pl_rl := newIPRateLimiter 10 minute, pl_log := [] \<rparr>)"

section \<open>The process\<close>

text \<open>\<open>restart\<close>: between two steps; \<open>killed\<close>: while the worker builds what it has claimed; \<open>dropped\<close>: while a webhook is handled, after its
  delivery was recorded.\<close>
inductive plane_step :: "('k, 'g, 'p, 'q) plane \<Rightarrow> ('k, 'g, 'p, 'q) plane \<Rightarrow> bool" where
  request: "plane_step y (snd (serve_http x r y))"
| worker: "plane_step y (worker_tick bx y)"
| reconcile: "reconcile_tick rx y = Some y' \<Longrightarrow> plane_step y y'"
| sampler: "plane_step y (sample_tick api fetch now listed y)"
| synthetic: "plane_step y (synthetic_tick env valid pr rnd start y)"
| rebuild: "plane_step y (rebuild_tick sx y)"
| restart: "plane_step y (boot hx fr y)"
| killed: "plane_step y (boot hx fr (y\<lparr> pl_sys := put_db (snd (ClaimNextQueued now (sys_db (pl_sys y)))) (pl_sys y) \<rparr>))"
| dropped: "plane_step y (boot hx fr (y\<lparr> pl_sys := put_db (snd (RecordDelivery v now i e a inst repo payload (sys_db (pl_sys y)))) (pl_sys y) \<rparr>))"

text \<open>The states of a server that was started on a database that satisfies its constraints.\<close>
inductive plane_reach :: "('k, 'g, 'p, 'q) plane \<Rightarrow> bool" where
  started: "db_ok (sys_db (pl_sys y)) \<Longrightarrow> plane_reach (boot hx fr y)"
| running: "plane_reach y \<Longrightarrow> plane_step y y' \<Longrightarrow> plane_reach y'"

section \<open>Tables\<close>

lemma put_kube_simps [simp]:
  "sys_db (put_kube k s) = sys_db s" "sy_series (put_kube k s) = sy_series s" "sy_metrics (put_kube k s) = sy_metrics s"
  "sy_uptime (put_kube k s) = sy_uptime s"
  by (simp_all add: put_kube_def sys_db_def)

lemma put_keeps [simp]:
  "sy_series (put_db d s) = sy_series s" "sy_metrics (put_db d s) = sy_metrics s" "sy_uptime (put_db d s) = sy_uptime s"
  "sy_series (put_gh g s) = sy_series s" "sy_metrics (put_gh g s) = sy_metrics s" "sy_uptime (put_gh g s) = sy_uptime s"
  by (simp_all add: put_db_def put_gh_def)

lemma sys_db_updates [simp]:
  "sys_db (s\<lparr> sy_snap := a \<rparr>) = sys_db s" "sys_db (s\<lparr> sy_series := b \<rparr>) = sys_db s" "sys_db (s\<lparr> sy_metrics := c \<rparr>) = sys_db s"
  "sys_db (s\<lparr> sy_uptime := t \<rparr>) = sys_db s"
  by (simp_all add: sys_db_def)

lemma steps_run_finish: "db_steps (wd w) (wd (run_finish x c ns w))"
proof -
  let ?w = "w\<lparr> wd := MarkReady (x_now x ''ready'') (c_deployment c) (live_url c) (wd w) \<rparr>"
  have m: "db_steps (wd w) (wd ?w)" using step1[OF db_step.ready] by simp
  moreover have "db_steps (wd ?w) (wd (snd (run_alias x c ns ?w)))"
    using run_alias_db[of x c ns ?w] step1[OF db_step.set_prod] by (metis rtranclp.rtrancl_refl)
  ultimately have "db_steps (wd w) (wd (snd (run_alias x c ns ?w)))" by (rule rtranclp_trans)
  then show ?thesis using m by (simp add: run_finish_def Let_def split_beta)
qed

lemma steps_runOne: "db_steps (wd w) (wd (snd (runOne x c w)))"
proof -
  obtain r w1 where b: "run_build x c w = (r, w1)" by fastforce
  have w1: "wd w1 = wd w" using run_build_effect[OF b] by simp
  obtain q w2 where d: "run_deploy x c w1 = (q, w2)" by fastforce
  have w2: "db_steps (wd w) (wd w2)"
    using run_deploy_db[of x c w1] d w1 step1[OF db_step.deploying] by (metis snd_conv)
  then have "db_steps (wd w) (wd (run_finish x c ns w2))" for ns using steps_run_finish by (metis rtranclp_trans)
  then show ?thesis using b d w1 w2 by (auto simp: runOne_def split: outcome.splits option.splits sum.splits)
qed

lemma steps_tick: "db_steps (wd w) (wd (snd (tick x w)))"
proof -
  let ?d0 = "snd (RequeueStale (x_now x ''tick'') buildTimeout (wd w))"
  have 0: "db_steps (wd w) ?d0" by (rule step1) (rule db_step.requeue_stale)
  obtain q d where c: "ClaimNextQueued (x_now x ''claim'') ?d0 = (q, d)" by fastforce
  then have 1: "db_steps (wd w) d" using 0 step1[OF db_step.claim] by (metis rtranclp_trans snd_conv)
  have 2: "db_steps (wd w) (wd w1)" if "runOne x cl (w\<lparr> wd := d \<rparr>) = (r, w1)" for cl r w1
    using steps_runOne[of "w\<lparr> wd := d \<rparr>" x cl] that 1 by (auto intro: rtranclp_trans)
  moreover have "db_steps (wd w) (MarkFailedIfInFlight now did e (wd w1))" if "runOne x cl (w\<lparr> wd := d \<rparr>) = (r, w1)" for cl r w1 now did e
    using 2[OF that] step1[OF db_step.failed_if] by (rule rtranclp_trans)
  ultimately show ?thesis using c 1
    by (auto simp: tick_def Let_def split: prod.splits sum.splits option.splits outcome.splits)
qed

lemma steps_reconcile_all: "reconcile_all x ds w = Some w' \<Longrightarrow> db_steps (wd w) (wd w')"
proof (induction ds arbitrary: w)
  case (Cons d ds)
  then obtain w1 where one: "reconcile_one x d w = Some w1" and rest: "reconcile_all x ds w1 = Some w'"
    by (auto split: option.splits)
  have "db_steps (wd w) (wd w1)"
    using reconcile_one_db[OF one] step1[OF db_step.requeue] by (auto)
  then show ?case using Cons.IH[OF rest] by (rule rtranclp_trans)
qed simp

lemma steps_startup: "db_steps (hw_db w) (hw_db (startupReconcile x fr w))"
proof -
  let ?d0 = "snd (RequeueStuck (hw_db w))"
  obtain q d where r: "ReconcileOrphanRepos (hx_now x) fr ?d0 = (q, d)" by fastforce
  have "db_steps (hw_db w) ?d0" by (rule step1) (rule db_step.requeue_stuck)
  moreover have "db_steps ?d0 d" using r step1[OF db_step.reconcile] by (metis snd_conv)
  ultimately have d: "db_steps (hw_db w) d" by (rule rtranclp_trans)
  let ?F = "\<lambda>(k, o1 :: orphanRepo). tryAutoDeployRepo x (or_inst o1)
      (k, \<lparr> gr_id = or_repo o1, gr_full_name = or_full_name o1, gr_private = False, gr_branch = or_branch o1 \<rparr>)"
  have "db_steps (hw_db w1) (hw_db (fold ?F os w1))" for os w1
    by (rule steps_fold) (simp add: split_beta steps_tryAutoDeploy)
  moreover have "hw_db (w\<lparr> hw_db := d \<rparr>) = d" by simp
  ultimately have f: "db_steps d (hw_db (fold ?F os (w\<lparr> hw_db := d \<rparr>)))" for os by (metis (no_types))
  have "db_steps (hw_db w) (hw_db (fold ?F os (w\<lparr> hw_db := d \<rparr>)))" for os
    by (rule rtranclp_trans[OF d f])
  then show ?thesis using r d by (simp add: startupReconcile_def Let_def split: sum.split)
qed

lemma steps_finishLogin: "db_steps s (snd (finishLogin x r cs tok gh s))"
proof -
  obtain q s1 where u: "UpsertUserFromGitHub (ax_now x) (ax_user_id x) (upsert_of (ax_now x) tok gh) s = (q, s1)" by fastforce
  then have 1: "db_steps s s1" using step1[OF db_step.upsert_user] by (metis snd_conv)
  have 2: "db_steps s (snd (ClaimInstallationsForUser (ax_now x) uid (gu_id gh) s1))" for uid
    using 1 step1[OF db_step.claim_inst] by (rule rtranclp_trans)
  have 3: "db_steps s (snd (CreateSession sr (snd (ClaimInstallationsForUser (ax_now x) uid (gu_id gh) s1))))" for uid sr
    using 2 step1[OF db_step.login] by (rule rtranclp_trans)
  show ?thesis using u 1 2 3 by (auto simp: finishLogin_def Let_def split_beta split: sum.split option.split)
qed

lemma steps_callback: "db_steps s (snd (handleCallback x r s))"
  by (auto simp: handleCallback_def steps_finishLogin split: sum.split)

lemma steps_logout: "db_steps s (snd (handleLogout x r s))"
  by (auto simp: handleLogout_def split: option.split intro: step1 db_step.logout)

lemma steps_waitlist: "handleJoinWaitlist x r (rl, s) = (st, rl1, s1) \<Longrightarrow> db_steps s s1"
  using step1[OF db_step.waitlist]
  by (auto simp: handleJoinWaitlist_def Let_def split: option.splits bool.splits prod.splits if_splits sum.splits) (metis snd_conv)+

lemma steps_apiHandlers: "db_steps (sys_db y) (sys_db (snd (apiHandlers x vx ax aq e y)))"
proof (cases e)
  case (Changing rt r)
  then show ?thesis
    by (auto simp: apiHandlers_def sys_db_def serve_steps(1) split: option.split prod.split)
next
  case (Reading v r)
  then show ?thesis using reading_keeps_tables[of x vx ax aq v r y] by (simp add: sys_db_def)
qed

lemma serve_view_keeps:
  "serve_view x v r u s w = (a, w') \<Longrightarrow> wo_series w' = wo_series w \<and> wo_metrics w' = wo_metrics w \<and> wo_uptime w' = wo_uptime w"
  by (cases v) (auto simp: serve_view_def Let_def with_snap_def log_view_def split: prod.splits sum.splits option.splits)

text \<open>The histories are written by the two background loops only.\<close>
definition histories :: "('k, 'g, 'p, 'q) system \<Rightarrow> seriesStore \<times> projectSeries \<times> uptimeTracker" where
  "histories s = (sy_series s, sy_metrics s, sy_uptime s)"

lemma histories_put [simp]: "histories (put_db d s) = histories s" "histories (put_gh g s) = histories s" "histories (put_kube k s) = histories s"
  by (simp_all add: histories_def)

lemma histories_api: "histories (snd (apiHandlers x vx ax aq e y)) = histories y"
proof (cases "userFromRequest ax aq (sv_db (st_srv (sy_site y)))")
  case (Some u)
  show ?thesis
  proof (cases e)
    case (Reading v r)
    obtain a w where w: "serve_view vx v r u (sv_db (st_srv (sy_site y))) (world_of y) = (a, w)" by fastforce
    show ?thesis using Some Reading w serve_view_keeps[OF w] by (simp add: apiHandlers_def histories_def put_world_def world_of_def)
  qed (simp add: apiHandlers_def histories_def Some split_beta)
qed (simp add: apiHandlers_def)

lemma serve_request_effect:
  "db_steps (sys_db s) (sys_db (snd (serve_request x vx ax aq un tbl r s))) \<and> histories (snd (serve_request x vx ax aq un tbl r s)) = histories s"
  by (auto simp: serve_request_def split_beta steps_apiHandlers histories_api split: served.split handler.split)

lemma serve_mux_effect: "db_steps (sys_db s) (sys_db (snd (serve_mux x r s))) \<and> histories (snd (serve_mux x r s)) = histories s"
proof (cases "mux_serve (we_unescape x) (we_table x) (h_method (wb_http r)) (wb_segs r)")
  case (Served h vs)
  have "db_steps (sys_db s) (sys_db (snd (on_hook x (wb_hook r) s))) \<and> histories (snd (on_hook x (wb_hook r) s)) = histories s"
    using steps_webhook[of "\<lparr> hw_db = sys_db s, hw_gh = sv_gh (st_srv (sy_site s)) \<rparr>" "we_hook x" "wb_hook r"]
    by (simp add: on_hook_def split_beta)
  then show ?thesis using Served serve_request_effect steps_callback steps_logout
    by (cases h) (simp_all add: serve_mux_def Let_def split_beta)
qed (simp_all add: serve_mux_def Let_def split_beta serve_request_effect)

lemma allow_keeps: "allow now k rl = Some (b, rl') \<Longrightarrow> rl_limit rl' = rl_limit rl \<and> rl_window rl' = rl_window rl"
  by (auto simp: allow_def Let_def split: if_splits)

lemma waitlist_keeps: "handleJoinWaitlist x r (rl, s) = (st, rl1, s1) \<Longrightarrow> rl_limit rl1 = rl_limit rl \<and> rl_window rl1 = rl_window rl"
  by (auto simp: handleJoinWaitlist_def Let_def split: option.splits bool.splits prod.splits if_splits sum.splits dest: allow_keeps)

lemma serve_http_effect:
  "db_steps (sys_db (pl_sys y)) (sys_db (pl_sys (snd (serve_http x r y)))) \<and> histories (pl_sys (snd (serve_http x r y))) = histories (pl_sys y)
   \<and> rl_limit (pl_rl (snd (serve_http x r y))) = rl_limit (pl_rl y) \<and> rl_window (pl_rl (snd (serve_http x r y))) = rl_window (pl_rl y)"
proof (cases "withHostRouting (we_hosts x) (wb_http r)")
  case Join_waitlist
  let ?w = "\<lparr> wr_forwarded = aq_forwarded (wb_auth r), wr_remote = aq_remote (wb_auth r), wr_json = wb_small r \<rparr>"
  obtain st rl d where w: "handleJoinWaitlist (we_wait x) ?w (pl_rl y, sys_db (pl_sys y)) = (st, rl, d)" by (metis surj_pair)
  show ?thesis using Join_waitlist w steps_waitlist[OF w] waitlist_keeps[OF w] by (simp add: serve_http_def serve_hosts_def)
qed (simp_all add: serve_http_def serve_hosts_def split_beta serve_mux_effect)

lemma boot_effect:
  "db_steps (sys_db (pl_sys y)) (sys_db (pl_sys (boot hx fr y)))"
  "histories (pl_sys (boot hx fr y)) = ([], [], \<lambda>_. [])" "pl_rl (boot hx fr y) = newIPRateLimiter 10 minute"
proof -
  let ?w = "\<lparr> hw_db = sys_db (pl_sys y), hw_gh = sv_gh (st_srv (sy_site (pl_sys y))) \<rparr>"
  show "db_steps (sys_db (pl_sys y)) (sys_db (pl_sys (boot hx fr y)))"
    using steps_startup[of ?w hx fr] by (simp add: boot_def Let_def)
  show "histories (pl_sys (boot hx fr y)) = ([], [], \<lambda>_. [])" "pl_rl (boot hx fr y) = newIPRateLimiter 10 minute"
    by (simp_all add: boot_def histories_def Let_def)
qed

lemma put_view_db [simp]: "sys_db (pl_sys (put_view w y)) = wd w" "histories (pl_sys (put_view w y)) = histories (pl_sys y)"
  "pl_rl (put_view w y) = pl_rl y"
  by (simp_all add: put_view_def)

lemma sample_keeps: "sys_db (pl_sys (sample_tick api fetch now listed y)) = sys_db (pl_sys y)" "pl_rl (sample_tick api fetch now listed y) = pl_rl y"
  by (simp_all add: sample_tick_def Let_def split_beta)

lemma boot_after:
  assumes "db_step (sys_db (pl_sys y)) d"
  shows "db_steps (sys_db (pl_sys y)) (sys_db (pl_sys (boot hx fr (y\<lparr> pl_sys := put_db d (pl_sys y) \<rparr>))))"
  using rtranclp_trans[OF step1[OF assms], of "sys_db (pl_sys (boot hx fr (y\<lparr> pl_sys := put_db d (pl_sys y) \<rparr>)))"]
    boot_effect(1)[of "y\<lparr> pl_sys := put_db d (pl_sys y) \<rparr>" hx fr] by simp

text \<open>Every step changes the tables by operations of the store only.\<close>
lemma plane_step_tables: "plane_step y y' \<Longrightarrow> db_steps (sys_db (pl_sys y)) (sys_db (pl_sys y'))"
proof (induction rule: plane_step.induct)
  case (worker y bx)
  show ?case using steps_tick[of "worker_view y" bx] by (simp add: worker_tick_def) (simp add: worker_view_def)
next
  case (reconcile rx y y')
  then obtain w where "reconciler_tick rx (worker_view y) = Some w" "y' = put_view w y" by (auto simp: reconcile_tick_def)
  then show ?case using steps_reconcile_all[of rx _ "worker_view y" w] by (simp add: reconciler_tick_def) (simp add: worker_view_def)
next
  case (killed y hx fr now)
  show ?case by (rule boot_after) (rule db_step.claim)
next
  case (dropped y hx fr v now i e a inst repo payload)
  show ?case by (rule boot_after) (rule db_step.delivery)
qed (simp_all add: serve_http_effect boot_effect sample_keeps synthetic_tick_def rebuild_tick_def Let_def)

lemma plane_steps_tables: "plane_step\<^sup>*\<^sup>* y y' \<Longrightarrow> db_steps (sys_db (pl_sys y)) (sys_db (pl_sys y'))"
  by (induction rule: rtranclp_induct) (auto dest: plane_step_tables intro: rtranclp_trans)

section \<open>Memory\<close>

definition series_len :: "seriesStore \<Rightarrow> bool" where
  "series_len st \<longleftrightarrow> (\<forall>e\<in>set st. length (sb_points (snd e)) \<le> 120)"

lemma sample_buffer_len: "length (sb_points b) \<le> 120 \<Longrightarrow> length (sb_points (sample_buffer now raw b)) \<le> 120"
  using point_ring.bounded_push by (simp add: sample_buffer_def seriesMaxLen_def Let_def)

lemma series_len_record: "series_len st \<Longrightarrow> series_len (recordSnapshot snap st)"
proof -
  let ?P = "\<lambda>b. length (sb_points b) \<le> 120"
  have "\<forall>e\<in>set (fold (\<lambda>(n, t). AList.map_default n (sample_buffer now (st_classes t) new_buffer) (sample_buffer now (st_classes t))) svcs st). ?P (snd e)"
    if "\<forall>e\<in>set st. ?P (snd e)" for svcs now and st :: seriesStore
    using that
  proof (induction svcs arbitrary: st)
    case (Cons sv svcs)
    have "?P new_buffer" by (simp add: new_buffer_def)
    then have "\<forall>e\<in>set (AList.map_default (fst sv) (sample_buffer now (st_classes (snd sv)) new_buffer) (sample_buffer now (st_classes (snd sv))) st). ?P (snd e)"
      by (intro map_default_Ball[where P = ?P, OF Cons.prems] sample_buffer_len)
    from Cons.IH[OF this] show ?case by (simp add: split_beta)
  qed simp
  then show "series_len st \<Longrightarrow> series_len (recordSnapshot snap st)" by (simp add: series_len_def recordSnapshot_def Let_def)
qed

definition uptime_len :: "uptimeTracker \<Rightarrow> bool" where "uptime_len t \<longleftrightarrow> (\<forall>p. length (t p) \<le> 48)"

lemma uptime_len_record: "uptime_len t \<Longrightarrow> uptime_len (uptime_record p x t)"
  using uptime_ring.bounded_push by (simp add: uptime_len_def uptime_record_def uptimeHistoryLen_def)

lemma uptime_len_hit: "uptime_len (snd et) \<Longrightarrow> uptime_len (snd (hitApp valid pr n start tg et))"
  by (auto simp: hitApp_def uptime_len_record split: prod.splits option.splits)

lemma uptime_len_cycle: "uptime_len t \<Longrightarrow> uptime_len (runSyntheticCycle valid pr hits start s t)"
proof -
  have "uptime_len (snd et) \<Longrightarrow> uptime_len (snd (fold (\<lambda>tg. hitApp valid pr (hits (la_url tg)) start tg) tgs et))" for tgs et
    by (induction tgs arbitrary: et) (simp_all add: uptime_len_hit)
  then show "uptime_len t \<Longrightarrow> uptime_len (runSyntheticCycle valid pr hits start s t)" by (simp add: runSyntheticCycle_def)
qed

definition memory_ok :: "('k, 'g, 'p, 'q) plane \<Rightarrow> bool" where
  "memory_ok y \<longleftrightarrow>
     (case histories (pl_sys y) of (sr, mt, up) \<Rightarrow> series_len sr \<and> store_ok mt \<and> uptime_len up)
     \<and> rl_limit (pl_rl y) = 10 \<and> rl_window (pl_rl y) = minute"

lemma memory_boot: "memory_ok (boot hx fr y)"
  by (simp add: memory_ok_def boot_effect newIPRateLimiter_def series_len_def store_ok_def uptime_len_def)

lemma memory_step: "plane_step y y' \<Longrightarrow> memory_ok y \<Longrightarrow> memory_ok y'"
proof (induction rule: plane_step.induct)
  case (request y x r)
  then show ?case using serve_http_effect[of y x r] by (simp add: memory_ok_def)
next
  case (worker y bx)
  then show ?case by (simp add: memory_ok_def worker_tick_def)
next
  case (reconcile rx y y')
  then show ?case by (auto simp: memory_ok_def reconcile_tick_def)
next
  case (sampler y api fetch now listed)
  then show ?case
    by (auto simp: memory_ok_def sample_tick_def sampler_tick_def histories_def Let_def split_beta series_len_record store_ok_record)
next
  case (synthetic y env valid pr rnd start)
  then show ?case by (simp add: memory_ok_def synthetic_tick_def histories_def Let_def uptime_len_cycle)
next
  case (rebuild y sx)
  then show ?case by (simp add: memory_ok_def rebuild_tick_def)
qed (simp_all add: memory_boot)

section \<open>The invariant of the server\<close>

text \<open>C22: The whole server: in every state it can reach, by any sequence of requests, ticks of the worker, the reconciler, the sampler, the monitor and the
  self-rebuilder, and restarts, also in the middle of a build or of a webhook, whatever the outside world answers: every constraint of the schema holds, no history in memory
  exceeds its bound (120 points of the status-code series per service, 120 and 1008 points of the metrics per project, 48 uptime samples), and the rate limiter is the one
  \<open>main\<close> configured, so that joining the waitlist never divides by zero.\<close>
theorem plane_invariant:
  assumes "plane_reach y"
  shows "db_ok (sys_db (pl_sys y)) \<and> memory_ok y \<and> fst (handleJoinWaitlist x r (pl_rl y, sys_db (pl_sys y))) \<noteq> None"
proof -
  have "db_ok (sys_db (pl_sys y)) \<and> memory_ok y" using assms
  proof (induction rule: plane_reach.induct)
    case (started y hx fr)
    then show ?case using db_steps_ok[OF boot_effect(1)] memory_boot by blast
  next
    case (running y y')
    then show ?case using db_steps_ok[OF plane_step_tables] memory_step by blast
  qed
  moreover have "allow t k rl \<noteq> None" if "rl_window rl = minute" for t k rl
    using that by (auto simp: allow_def minute_def second_def signed_divide_int_def sgn_if Let_def)
  ultimately show ?thesis
    by (auto simp: handleJoinWaitlist_def memory_ok_def Let_def split: option.split bool.split prod.split sum.split)
qed

text \<open>A server that boots, serves a request and is killed while it builds.\<close>
theorem plane_invariant_witness:
  "\<forall>(x :: (unit, unit, unit, unit) web_ext) (y :: (unit, unit, unit, unit) plane) r hx fr.
     let y0 = y\<lparr> pl_sys := (pl_sys y)\<lparr> sy_site := demo_site site_db \<rparr> \<rparr>; y1 = snd (serve_http x r (boot hx fr y0));
         y2 = boot hx fr (y1\<lparr> pl_sys := put_db (snd (ClaimNextQueued 7 (sys_db (pl_sys y1)))) (pl_sys y1) \<rparr>)
     in db_ok (sys_db (pl_sys y2)) \<and> memory_ok y2"
proof (intro allI)
  fix x :: "(unit, unit, unit, unit) web_ext" and y :: "(unit, unit, unit, unit) plane" and r hx fr
  let ?y0 = "y\<lparr> pl_sys := (pl_sys y)\<lparr> sy_site := demo_site site_db \<rparr> \<rparr>"
  let ?y1 = "snd (serve_http x r (boot hx fr ?y0))"
  let ?y2 = "boot hx fr (?y1\<lparr> pl_sys := put_db (snd (ClaimNextQueued 7 (sys_db (pl_sys ?y1)))) (pl_sys ?y1) \<rparr>)"
  have "db_ok (sys_db (pl_sys ?y0))" using db_ok_site by (simp add: sys_db_def demo_site_def)
  then have "plane_reach ?y1" by (rule plane_reach.running[OF plane_reach.started plane_step.request])
  then have "plane_reach ?y2" by (rule plane_reach.running) (rule plane_step.killed)
  then have "db_ok (sys_db (pl_sys ?y2)) \<and> memory_ok ?y2" using plane_invariant by blast
  then show "let y0 = ?y0; y1 = snd (serve_http x r (boot hx fr y0));
      y2 = boot hx fr (y1\<lparr> pl_sys := put_db (snd (ClaimNextQueued 7 (sys_db (pl_sys y1)))) (pl_sys y1) \<rparr>)
    in db_ok (sys_db (pl_sys y2)) \<and> memory_ok y2" by (simp only: Let_def)
qed

section \<open>Redelivery\<close>

lemma webhook_route:
  assumes "un ''webhooks'' = ''webhooks''" "un ''github'' = ''github''"
  shows "mux_serve un (registrations api) ''POST'' [''webhooks'', ''github''] = Served H_webhook []"
  using assms
  by (simp add: mux_serve_def clean_path_def segments_def registrations_def public_patterns_def pattern_matches_def method_matches_def path_matches_def
      path_values_def Let_def)

text \<open>A request that GitHub sends.\<close>
definition is_delivery :: "('k, 'g, 'p, 'q) web_ext \<Rightarrow> (pattern \<times> handler) list \<Rightarrow> web_req \<Rightarrow> bool" where
  "is_delivery x api r \<longleftrightarrow>
     we_table x = registrations api \<and> we_unescape x ''webhooks'' = ''webhooks'' \<and> we_unescape x ''github'' = ''github''
     \<and> h_method (wb_http r) = ''POST'' \<and> h_path (wb_http r) = ''/webhooks/github'' \<and> wb_segs r = [''webhooks'', ''github'']"

lemma serve_delivery:
  assumes "is_delivery x api r"
  shows "fst (serve_http x r y) = W_hook (fst (on_hook x (wb_hook r) (pl_sys y)))"
    "pl_sys (snd (serve_http x r y)) = snd (on_hook x (wb_hook r) (pl_sys y))"
  using assms webhook_route[of "we_unescape x" api]
  by (simp_all add: is_delivery_def serve_http_def serve_hosts_def serve_mux_def withHostRouting_def Let_def split_beta)

text \<open>C28: At most once, for the whole server: after a webhook was acknowledged, or its handler panicked, the same delivery arriving again is acknowledged and changes
  neither tables nor anything else, whatever the server does in between: other requests, builds, reconciliation, restarts with new memory, being
  killed during a build.\<close>
theorem plane_replay:
  assumes "is_delivery x api r" "fst (serve_http x r y) \<in> {W_hook (Status 202), W_hook Handler_panic}"
    and "plane_step\<^sup>*\<^sup>* (snd (serve_http x r y)) y2"
    and "is_delivery x2 api2 r" "hx_secret (we_hook x2) = hx_secret (we_hook x)" "hx_mac (we_hook x2) = hx_mac (we_hook x)"
    and "hx_json (we_hook x2) = hx_json (we_hook x)"
  shows "fst (serve_http x2 r y2) = W_hook (Status 202) \<and> pl_sys (snd (serve_http x2 r y2)) = pl_sys y2"
proof -
  let ?w = "\<lparr> hw_db = sys_db (pl_sys y), hw_gh = sv_gh (st_srv (sy_site (pl_sys y))) \<rparr>"
  let ?w2 = "\<lparr> hw_db = sys_db (pl_sys y2), hw_gh = sv_gh (st_srv (sy_site (pl_sys y2))) \<rparr>"
  obtain q w where h: "handleGitHubWebhook (we_hook x) (wb_hook r) ?w = (q, w)" by fastforce
  then have q: "q \<in> {Status 202, Handler_panic}" using assms(2) serve_delivery(1)[OF assms(1)] by (simp add: on_hook_def)
  have "sys_db (pl_sys (snd (serve_http x r y))) = hw_db w" using h serve_delivery(2)[OF assms(1)] by (simp add: on_hook_def)
  then have "db_steps (hw_db w) (hw_db ?w2)" using plane_steps_tables[OF assms(3)] by simp
  from webhook_replay[OF h q this assms(5-7)] have "on_hook x2 (wb_hook r) (pl_sys y2) = (Status 202, pl_sys y2)"
    by (simp add: on_hook_def)
  then show ?thesis using serve_delivery[OF assms(4), of y2] by simp
qed

text \<open>Redelivered after the server was restarted.\<close>
theorem plane_replay_witness:
  "\<forall>(x0 :: (unit, unit, unit, unit) web_ext) (y :: (unit, unit, unit, unit) plane) hx fr.
     let x = x0\<lparr> we_table := registrations api_patterns, we_unescape := id, we_hook := demo_hx (\<lambda>_. Some (JObj [])) \<rparr>;
         y0 = y\<lparr> pl_sys := put_db empty_db (pl_sys y) \<rparr>;
         r = \<lparr> wb_http = \<lparr> h_method = ''POST'', h_host = ''spinup.in'', h_path = ''/webhooks/github'', h_uri = ''/webhooks/github'' \<rparr>,
               wb_segs = [''webhooks'', ''github''], wb_auth = cookie_req '''', wb_hook = demo_hook ''push'' ''{}'', wb_json = None, wb_small = None, wb_range = '''' \<rparr>;
         y2 = boot hx fr (snd (serve_http x r y0))
     in pl_sys (snd (serve_http x r y2)) = pl_sys y2"
proof (intro allI)
  fix x0 :: "(unit, unit, unit, unit) web_ext" and y :: "(unit, unit, unit, unit) plane" and hx fr
  let ?h = "demo_hx (\<lambda>_. Some (JObj []))" and ?q = "demo_hook ''push'' ''{}''"
  let ?x = "x0\<lparr> we_table := registrations api_patterns, we_unescape := id, we_hook := ?h \<rparr>"
  let ?y0 = "y\<lparr> pl_sys := put_db empty_db (pl_sys y) \<rparr>"
  let ?r = "\<lparr> wb_http = \<lparr> h_method = ''POST'', h_host = ''spinup.in'', h_path = ''/webhooks/github'', h_uri = ''/webhooks/github'' \<rparr>,
      wb_segs = [''webhooks'', ''github''], wb_auth = cookie_req '''', wb_hook = ?q, wb_json = None, wb_small = None, wb_range = '''' \<rparr>"
  have d: "is_delivery ?x api_patterns ?r" by (simp add: is_delivery_def)
  have v: "verifySignature (hx_mac ?h) (hx_secret ?h) (hq_sig ?q) (hq_body ?q)"
    by (simp add: verifySignature_iff demo_hx_def demo_hook_def sig_prefix_def)
  have m: "int (length (hq_body ?q)) \<le> maxBodyBytes" by (simp add: demo_hook_def maxBodyBytes_def)
  have e: "e_ref (parseEnvelope (Some (JObj []))) = ''''" by (simp add: parseEnvelope_def at_str_def)
  have "fst (handleGitHubWebhook ?h ?q \<lparr> hw_db = empty_db, hw_gh = g \<rparr>) = Status 202" for g
    using v m e by (simp add: handleGitHubWebhook_def RecordDelivery_def Let_def empty_db_def dispatch_def handlePush_def, simp add: demo_hx_def demo_hook_def)
  then have a: "fst (serve_http ?x ?r ?y0) \<in> {W_hook (Status 202), W_hook Handler_panic}"
    using serve_delivery(1)[OF d, of ?y0] by (simp add: on_hook_def split_beta)
  have "plane_step\<^sup>*\<^sup>* (snd (serve_http ?x ?r ?y0)) (boot hx fr (snd (serve_http ?x ?r ?y0)))"
    by (rule r_into_rtranclp) (rule plane_step.restart)
  from plane_replay[OF d a this d refl refl refl]
  show "let x = ?x; y0 = ?y0; r = ?r; y2 = boot hx fr (snd (serve_http x r y0)) in pl_sys (snd (serve_http x r y2)) = pl_sys y2"
    by (simp only: Let_def)
qed

section \<open>A delivery that is lost\<close>

text \<open>Recording comes first: when the process stops after a delivery was recorded and before it was handled, the delivery is never handled; however often GitHub
  sends it again, to this server or a later one, it is acknowledged as a duplicate and changes nothing.  No code looks for such deliveries.\<close>
theorem dropped_delivery_lost:
  assumes "RecordDelivery v now (hq_delivery (wb_hook r)) e a inst repo payload (sys_db (pl_sys y)) = (Inr True, d)"
    and "plane_step\<^sup>*\<^sup>* (boot hx fr (y\<lparr> pl_sys := put_db d (pl_sys y) \<rparr>)) y2"
    and "is_delivery x api r" "int (length (hq_body (wb_hook r))) \<le> maxBodyBytes"
    and "verifySignature (hx_mac (we_hook x)) (hx_secret (we_hook x)) (hq_sig (wb_hook r)) (hq_body (wb_hook r))"
    and "hx_json (we_hook x) (hq_body (wb_hook r)) \<noteq> None"
  shows "fst (serve_http x r y2) = W_hook (Status 202) \<and> pl_sys (snd (serve_http x r y2)) = pl_sys y2"
proof -
  let ?y1 = "y\<lparr> pl_sys := put_db d (pl_sys y) \<rparr>"
  have n: "hq_delivery (wb_hook r) \<in> delivery_ids d" "hq_delivery (wb_hook r) \<noteq> ''''"
    using assms(1) by (auto simp: RecordDelivery_def delivery_ids_def split: if_splits)
  have "db_steps (sys_db (pl_sys ?y1)) (sys_db (pl_sys y2))"
    using boot_effect(1) plane_steps_tables[OF assms(2)] by (rule rtranclp_trans)
  then have "hq_delivery (wb_hook r) \<in> delivery_ids (sys_db (pl_sys y2))" using delivery_ids_steps[of d "sys_db (pl_sys y2)"] n(1) by auto
  then have "on_hook x (wb_hook r) (pl_sys y2) = (Status 202, pl_sys y2)"
    using n(2) assms(4-6) by (auto simp: on_hook_def handleGitHubWebhook_def RecordDelivery_def delivery_ids_def Let_def)
  then show ?thesis using serve_delivery[OF assms(3), of y2] by simp
qed

section \<open>After a start\<close>

lemma reconcile_keeps_deployments: "deployments (snd (reconcile_orphans now fr os created s)) = deployments s"
proof (induction os arbitrary: created s)
  case (Cons o1 os)
  obtain q d where e: "exec_insert_project now (or_inst o1) (or_repo o1) (or_full_name o1)
      (if or_branch o1 = '''' then ''main'' else or_branch o1) (fr (or_inst o1) (or_repo o1)) s = (q, d)"
    by fastforce
  have "deployments d = deployments s"
    using arg_cong[OF e, of snd] by (auto simp: exec_insert_project_def split: option.splits if_splits)
  then show ?case using Cons e by (cases q) simp_all
qed simp

definition idle :: "db \<Rightarrow> bool" where "idle s \<longleftrightarrow> list_all (\<lambda>d. \<not> in_flight (d_status d)) (deployments s)"

lemma new_queued: "d_status (new_deployment now f pid sha br trig dlv opts) = Queued"
  by (simp add: new_deployment_def)

lemma enqueue_queued:
  "snd (EnqueueDeployment now f inst repo sha br dlv trig opts s) = s
   \<or> (\<exists>d. d_status d = Queued \<and> snd (EnqueueDeployment now f inst repo sha br dlv trig opts s) = snd (insert_deployment d s))"
  by (cases "project_by_repo inst repo s") (simp_all add: EnqueueDeployment_def Let_def, metis new_queued)

lemma idle_insert: "idle s \<Longrightarrow> d_status d = Queued \<Longrightarrow> idle (snd (insert_deployment d s))"
  by (simp add: idle_def insert_deployment_def in_flight_def)

lemma idle_enqueue: "idle s \<Longrightarrow> idle (snd (EnqueueDeployment now f inst repo sha br dlv trig opts s))"
  using enqueue_queued[of now f inst repo sha br dlv trig opts s] idle_insert by metis

lemma idle_auto: "idle (hw_db w) \<Longrightarrow> idle (hw_db (tryAutoDeployRepo x inst kr w))"
  by (auto simp: tryAutoDeployRepo_def Let_def idle_enqueue split: prod.split sum.split)

text \<open>After every start no deployment is marked as being built or deployed: what an earlier process had claimed is queued again, and nothing else about it.\<close>
theorem boot_requeues: "idle (sys_db (pl_sys (boot hx fr y)))"
proof -
  let ?s = "sys_db (pl_sys y)"
  let ?F = "\<lambda>(k, o1 :: orphanRepo). tryAutoDeployRepo hx (or_inst o1)
      (k, \<lparr> gr_id = or_repo o1, gr_full_name = or_full_name o1, gr_private = False, gr_branch = or_branch o1 \<rparr>)"
  have 0: "idle (snd (RequeueStuck ?s))"
    by (auto simp: idle_def RequeueStuck_def upd_where_def requeue_row_def in_flight_def list_all_iff Let_def)
  obtain q d where r: "ReconcileOrphanRepos (hx_now hx) fr (snd (RequeueStuck ?s)) = (q, d)" by fastforce
  then have "deployments d = deployments (snd (RequeueStuck ?s))"
    using reconcile_keeps_deployments by (metis ReconcileOrphanRepos_def snd_conv)
  then have 1: "idle d" using 0 by (simp add: idle_def)
  have "idle (hw_db w) \<Longrightarrow> idle (hw_db (fold ?F os w))" for os w
    by (induction os arbitrary: w) (simp_all add: split_beta idle_auto)
  then show ?thesis using r 1 by (simp add: boot_def startupReconcile_def Let_def split: sum.split)
qed

end
