(* ===== verification/Sse.thy ===== *)
theory Sse
  imports Log_Streams
begin

text \<open>
  The bytes of an event stream (\<open>logs.go\<close>, \<open>runtime_logs.go\<close>): the padding, the three writes of \<open>send\<close> and the heartbeat.  In
  \<open>handleDeploymentLogs\<close> a goroutine writes heartbeats every two seconds to the same response without a lock, so its write can fall between the
  writes of an event: two writers are the shuffles of their writes.  \<open>read_stream\<close> is the reader the stream is made for, the line format of
  server-sent events.  \<open>enc\<close> is \<open>json.Marshal\<close>.
\<close>

section \<open>The writers\<close>

definition nl :: string where "nl = [CHR 0x0A]"

definition sseBufferBust :: string where
  "sseBufferBust = CHR '':'' # replicate 2048 (CHR '' '') @ nl @ nl"

text \<open>The writes of \<open>send\<close>.\<close>
definition send_chunks :: "(json \<Rightarrow> string) \<Rightarrow> event \<Rightarrow> string list" where
  "send_chunks enc ev = [''event: '' @ fst ev @ nl @ ''data: '', enc (snd ev), nl @ nl]"

definition heartbeat_chunk :: string where "heartbeat_chunk = '': hb'' @ nl @ nl"

text \<open>What a handler writes when nobody interferes: padding and a heartbeat, then events, with heartbeats between them.\<close>
datatype item = Sent event | Beat

definition item_chunks :: "(json \<Rightarrow> string) \<Rightarrow> item \<Rightarrow> string list" where
  "item_chunks enc it = (case it of Sent ev \<Rightarrow> send_chunks enc ev | Beat \<Rightarrow> [heartbeat_chunk])"

definition stream_bytes :: "(json \<Rightarrow> string) \<Rightarrow> item list \<Rightarrow> string" where
  "stream_bytes enc its = concat (sseBufferBust # heartbeat_chunk # concat (map (item_chunks enc) its))"

section \<open>The reader\<close>

text \<open>A line is a comment, or a field name, a colon and a value without its first space.\<close>
definition field_of :: "string \<Rightarrow> string \<times> string" where
  "field_of l =
     (let f = takeWhile (\<lambda>c. c \<noteq> CHR '':'') l; v = drop (length f + 1) l
      in (f, if prefix '' '' v then drop 1 v else v))"

text \<open>The name and the data lines collected so far; an empty line dispatches them.\<close>
fun read_lines :: "string \<Rightarrow> string list \<Rightarrow> string list \<Rightarrow> (string \<times> string) list" where
  "read_lines ev ds [] = []"
| "read_lines ev ds (l # ls) =
     (if l = '''' then (if ds = [] then read_lines '''' [] ls else (ev, join_with nl ds) # read_lines '''' [] ls)
      else if prefix '':'' l then read_lines ev ds ls
      else (let (f, v) = field_of l
            in if f = ''event'' then read_lines v ds ls
               else if f = ''data'' then read_lines ev (ds @ [v]) ls
               else read_lines ev ds ls))"

text \<open>Lines end with a newline; what follows the last one is not read yet.\<close>
definition read_stream :: "string \<Rightarrow> (string \<times> string) list" where
  "read_stream bs = read_lines '''' [] (butlast (split_on (CHR 0x0A) bs))"

section \<open>Undisturbed streams\<close>

text \<open>What the reader relies on: names and encodings are single lines, and an encoding is a JSON object.\<close>
definition clean :: "(json \<Rightarrow> string) \<Rightarrow> event \<Rightarrow> bool" where
  "clean enc ev \<longleftrightarrow> CHR 0x0A \<notin> set (fst ev) \<and> CHR 0x0A \<notin> set (enc (snd ev)) \<and> prefix ''{'' (enc (snd ev))"

definition lines_of :: "string \<Rightarrow> string list" where
  "lines_of bs = butlast (split_on (CHR 0x0A) bs)"

lemma lines_of_line: "CHR 0x0A \<notin> set l \<Longrightarrow> lines_of (l @ CHR 0x0A # bs) = l # lines_of bs"
  by (simp add: lines_of_def split_on_append_sep)

lemma lines_of_blank: "lines_of (CHR 0x0A # bs) = '''' # lines_of bs"
  using lines_of_line[of "''''"] by simp

lemma lines_of_Nil [simp]: "lines_of [] = []" by (simp add: lines_of_def)

lemma read_stream_lines: "read_stream bs = read_lines '''' [] (lines_of bs)"
  by (simp add: read_stream_def lines_of_def)

lemma field_event [simp]: "field_of (''event: '' @ v) = (''event'', v)"
  by (simp add: field_of_def)

lemma field_data [simp]: "field_of (''data: '' @ v) = (''data'', v)"
  by (simp add: field_of_def)

lemma read_event: "read_lines ev ds ((''event: '' @ v) # ls) = read_lines v ds ls"
  using field_event[of v] by simp

lemma read_data: "read_lines ev ds ((''data: '' @ v) # ls) = read_lines ev (ds @ [v]) ls"
  using field_data[of v] by simp

lemma read_blank: "read_lines ev ds ('''' # ls) = (if ds = [] then [] else [(ev, join_with nl ds)]) @ read_lines '''' [] ls"
  by simp

lemma read_comment: "prefix '':'' l \<Longrightarrow> read_lines ev ds (l # ls) = read_lines ev ds ls"
  by auto

lemma lines_of_sent:
  assumes "clean enc ev"
  shows "lines_of (''event: '' @ fst ev @ nl @ bs) = (''event: '' @ fst ev) # lines_of bs"
    and "lines_of (''data: '' @ enc (snd ev) @ nl @ bs) = (''data: '' @ enc (snd ev)) # lines_of bs"
    and "lines_of (enc (snd ev) @ nl @ bs) = enc (snd ev) # lines_of bs"
  using assms lines_of_line[of "''event: '' @ fst ev" bs] lines_of_line[of "''data: '' @ enc (snd ev)" bs] lines_of_line[of "enc (snd ev)" bs]
  by (simp_all add: clean_def nl_def)

lemma lines_of_nl [simp]: "lines_of (nl @ bs) = '''' # lines_of bs"
  by (simp add: nl_def lines_of_blank)

lemma lines_of_end [simp]: "lines_of nl = ['''']"
  using lines_of_nl[of "''''"] by simp

lemma read_sent:
  assumes "clean enc ev"
  shows "read_lines '''' [] (lines_of (concat (send_chunks enc ev) @ bs)) = (fst ev, enc (snd ev)) # read_lines '''' [] (lines_of bs)"
proof -
  have "concat (send_chunks enc ev) @ bs = ''event: '' @ fst ev @ nl @ ''data: '' @ enc (snd ev) @ nl @ nl @ bs"
    by (simp add: send_chunks_def)
  moreover have "lines_of \<dots> = (''event: '' @ fst ev) # (''data: '' @ enc (snd ev)) # '''' # lines_of bs"
    unfolding lines_of_sent[OF assms] lines_of_nl ..
  ultimately show ?thesis by (simp only: read_event read_data read_blank) simp
qed

lemma lines_of_beat: "lines_of (heartbeat_chunk @ bs) = '': hb'' # '''' # lines_of bs"
  using lines_of_line[of "'': hb''" "CHR 0x0A # bs"] by (simp add: heartbeat_chunk_def nl_def lines_of_blank)

lemma read_beat: "read_lines '''' [] (lines_of (heartbeat_chunk @ bs)) = read_lines '''' [] (lines_of bs)"
  by (simp add: lines_of_beat)

lemma read_padding: "read_lines '''' [] (lines_of (sseBufferBust @ bs)) = read_lines '''' [] (lines_of bs)"
proof -
  let ?p = "CHR '':'' # replicate 2048 (CHR '' '')"
  have "sseBufferBust @ bs = ?p @ CHR 0x0A # nl @ bs" by (simp add: sseBufferBust_def nl_def)
  moreover have "lines_of \<dots> = ?p # '''' # lines_of bs"
    using lines_of_line[of ?p "nl @ bs"] by simp
  ultimately show ?thesis by (simp only: read_blank) (simp add: read_comment)
qed

lemma concat_items: "concat (concat (cs # css)) = concat cs @ concat (concat css)"
  by simp

lemma stream_reads_back:
  assumes "\<And>ev. Sent ev \<in> set its \<Longrightarrow> clean enc ev"
  shows "read_stream (stream_bytes enc its) = concat (map (\<lambda>it. case it of Sent ev \<Rightarrow> [(fst ev, enc (snd ev))] | Beat \<Rightarrow> []) its)"
proof -
  have "read_lines '''' [] (lines_of (concat (concat (map (item_chunks enc) its)))) =
      concat (map (\<lambda>it. case it of Sent ev \<Rightarrow> [(fst ev, enc (snd ev))] | Beat \<Rightarrow> []) its)"
    using assms
  proof (induction its)
    case (Cons it its)
    show ?case
    proof (cases it)
      case (Sent ev)
      then have "read_lines '''' [] (lines_of (concat (send_chunks enc ev) @ bs)) = (fst ev, enc (snd ev)) # read_lines '''' [] (lines_of bs)" for bs
        using read_sent Cons.prems by simp
      then show ?thesis using Cons Sent by (simp only: list.map concat_items item_chunks_def item.case) simp
    next
      case Beat
      then show ?thesis using Cons
        by (simp only: list.map concat_items item_chunks_def item.case) (simp add: read_beat)
    qed
  qed simp
  then show ?thesis
    by (simp only: read_stream_lines stream_bytes_def concat.simps(2) read_padding read_beat)
qed

section \<open>Two writers\<close>

lemma read_torn:
  assumes "clean enc ev"
  shows "read_stream (concat [''event: '' @ fst ev @ nl @ ''data: '', heartbeat_chunk, enc (snd ev), nl @ nl]) = [(fst ev, '': hb'')]"
proof -
  have "concat [''event: '' @ fst ev @ nl @ ''data: '', heartbeat_chunk, enc (snd ev), nl @ nl]
      = ''event: '' @ fst ev @ nl @ ''data: : hb'' @ CHR 0x0A # nl @ enc (snd ev) @ nl @ nl @ ''''"
    by (simp add: heartbeat_chunk_def nl_def)
  moreover have "lines_of \<dots> = (''event: '' @ fst ev) # ''data: : hb'' # '''' # enc (snd ev) # '''' # []"
    using lines_of_line[of "''data: : hb''"] by (simp only: lines_of_sent(1)[OF assms] lines_of_nl lines_of_Nil) (simp add: lines_of_sent(3)[OF assms, of nl])
  moreover obtain t where t: "enc (snd ev) = CHR ''{'' # t" using assms by (cases "enc (snd ev)") (auto simp: clean_def)
  obtain f v where f: "field_of (CHR ''{'' # t) = (f, v)" by fastforce
  moreover have "f \<notin> {''event'', ''data''}" using f by (auto simp: field_of_def Let_def)
  moreover have "field_of ''data: : hb'' = (''data'', '': hb'')" by (simp add: field_of_def)
  ultimately show ?thesis
    by (simp only: read_stream_lines read_event) (simp add: t)
qed

lemma read_tailed:
  assumes "clean enc ev"
  shows "read_stream (concat [''event: '' @ fst ev @ nl @ ''data: '', enc (snd ev), heartbeat_chunk, nl @ nl]) = [(fst ev, enc (snd ev) @ '': hb'')]"
proof -
  have "concat [''event: '' @ fst ev @ nl @ ''data: '', enc (snd ev), heartbeat_chunk, nl @ nl]
      = ''event: '' @ fst ev @ nl @ (''data: '' @ enc (snd ev) @ '': hb'') @ CHR 0x0A # nl @ nl @ nl @ ''''"
    by (simp add: heartbeat_chunk_def nl_def)
  moreover have "lines_of \<dots> = (''event: '' @ fst ev) # (''data: '' @ enc (snd ev) @ '': hb'') # '''' # '''' # '''' # []"
    using assms lines_of_line[of "''data: '' @ enc (snd ev) @ '': hb''"]
    by (simp only: lines_of_sent[OF assms] lines_of_nl lines_of_Nil) (simp add: clean_def)
  ultimately show ?thesis by (simp only: read_stream_lines read_event read_data read_blank) simp
qed

text \<open>C32: What a browser can be shown of an event stream.  A stream whose heartbeats fall between the events reads back exactly: the padding and the
  heartbeats are invisible and every event arrives with its name and payload, in order.  But the handlers run the heartbeat in a goroutine of its
  own without a lock: of the interleavings of its write with the three writes of one event, the reader sees the event, the event with the payload lost and replaced by \<open>: hb\<close>,
  or the event with a payload that is no JSON, and nothing else.\<close>
theorem heartbeat_tears_events:
  assumes "\<And>e. Sent e \<in> set its \<Longrightarrow> clean enc e" "clean enc ev"
  shows "read_stream (stream_bytes enc its) = concat (map (\<lambda>it. case it of Sent e \<Rightarrow> [(fst e, enc (snd e))] | Beat \<Rightarrow> []) its)
    \<and> (\<lambda>ws. read_stream (concat ws)) ` shuffles (send_chunks enc ev) [heartbeat_chunk]
        = {[(fst ev, enc (snd ev))], [(fst ev, '': hb'')], [(fst ev, enc (snd ev) @ '': hb'')]}"
proof
  show "read_stream (stream_bytes enc its) = concat (map (\<lambda>it. case it of Sent e \<Rightarrow> [(fst e, enc (snd e))] | Beat \<Rightarrow> []) its)"
    by (rule stream_reads_back) (rule assms(1))
  let ?a = "''event: '' @ fst ev @ nl @ ''data: ''" and ?b = "enc (snd ev)" and ?c = "nl @ nl" and ?h = heartbeat_chunk
  have "read_stream (concat [?h, ?a, ?b, ?c]) = [(fst ev, enc (snd ev))]" "read_stream (concat [?a, ?b, ?c, ?h]) = [(fst ev, enc (snd ev))]"
    using read_sent[OF assms(2), of "''''"] read_sent[OF assms(2), of ?h] read_beat[of "concat (send_chunks enc ev)"] read_beat[of "''''"]
    by (simp_all only: read_stream_lines send_chunks_def concat.simps append_assoc append_Nil2 lines_of_Nil read_lines.simps(1))
  moreover note read_torn[OF assms(2)] read_tailed[OF assms(2)]
  moreover have "shuffles (send_chunks enc ev) [?h] = {[?h, ?a, ?b, ?c], [?a, ?h, ?b, ?c], [?a, ?b, ?h, ?c], [?a, ?b, ?c, ?h]}"
    by (auto simp: send_chunks_def simp del: append.simps)
  ultimately show "(\<lambda>ws. read_stream (concat ws)) ` shuffles (send_chunks enc ev) [?h]
      = {[(fst ev, enc (snd ev))], [(fst ev, '': hb'')], [(fst ev, enc (snd ev) @ '': hb'')]}"
    by (simp only: image_insert image_empty) blast
qed

theorem heartbeat_tears_events_witness:
  "let enc = (\<lambda>_. ''{}''); ev = (''log'', JNull)
   in read_stream (stream_bytes enc [Sent ev, Beat, Sent ev]) = [(''log'', ''{}''), (''log'', ''{}'')]
      \<and> (\<lambda>ws. read_stream (concat ws)) ` shuffles (send_chunks enc ev) [heartbeat_chunk]
        = {[(''log'', ''{}'')], [(''log'', '': hb'')], [(''log'', ''{}: hb'')]}"
  using heartbeat_tears_events[of "[Sent (''log'', JNull), Beat, Sent (''log'', JNull)]" "\<lambda>_. ''{}''" "(''log'', JNull)"]
  by (simp add: clean_def Let_def)

end
