(* ===== verification/Spec2Isabelle.thy ===== *)
theory Spec2Isabelle
  imports Webhook Reconciler Api_Behaviour Edge Self_Rebuild Series_Props Telemetry_Api Insights_Props Seo_Safety
    Query_Console Migrate Log_Props Dashboard_Props Startup Setup_Tools Control_Plane Sse
begin

text \<open>
  Verification development of the Spinup control plane, the Go program under \<open>src/control-plane\<close>, and of its two operator tools under
  \<open>src/tools\<close>.

  The program.  A GitHub App delivers webhooks; pushes become rows of the table \<open>deployments\<close> with status queued.  A worker claims the oldest row,
  builds an image in a Kubernetes Job, bootstraps the tenant's namespace, applies Deployment, Service and IngressRoute, and marks the row ready or
  failed; a reconciler requeues builds that hang.  A JSON API behind GitHub sign-in serves the dashboard: projects, environment variables, domains,
  databases, scaling, logs, telemetry, SEO reports.  A sampler keeps telemetry histories in memory, and a self-rebuilder deploys the control plane
  itself.  The parts share the PostgreSQL tables and the Kubernetes API; every part is modelled as a function on the state it uses, and the parts
  are composed as the code calls them.

  Conventions.  A Go struct is a record, an error a value (\<open>result\<close>, an option or an error string), a panic a separate value, a loop that may run
  for ever takes fuel and says so in its result.  The tables are the record \<open>db\<close> of lists in insertion order (\<open>Store_Schema\<close>), Kubernetes and GitHub are
  parameters over an arbitrary state, and the client state records the requests sent, so that theorems can bound them (\<open>kext\<close>, \<open>adds\<close>, \<open>lext\<close>).
  Time is an integer of nanoseconds.  Go's \<open>int64\<close> is a word or wraps explicitly where a sum can overflow (\<open>Project_Series\<close>, \<open>Telemetry_Api\<close>), the
  32-bit buffer of the base64 decoder is a \<open>32 word\<close>.

  Groups of theories.
  Library: \<open>Prelude\<close> (results, lists, hints), \<open>Go_Strings\<close>, \<open>Go_Json\<close>, \<open>Go_Float\<close>, \<open>Go_Regexp\<close> (the parts of Go's libraries the code uses; the
  matcher is proved sound and complete for a relational semantics), \<open>Interfaces\<close> (locales of owner-scoped look-ups and keyed stores),
  \<open>Ring_Buffers\<close> (locale of rolling histories).
  Names: \<open>Names\<close> (slugs), \<open>Idents\<close> (namespaces, labels, UUIDs, host names, SQL quoting; \<open>tenant.go\<close>, \<open>db_provisioner.go\<close>).
  Store (\<open>store.go\<close>, \<open>domain_store.go\<close>, \<open>project_delete.go\<close>): \<open>Store_Schema\<close> with the constraints \<open>db_ok\<close> of \<open>migrations/*.sql\<close>, \<open>Store_Installs\<close>,
  \<open>Store_Deploys\<close>, \<open>Store_Projects\<close>; \<open>Queue\<close> states the contract of the deployment queue as a locale and interprets it on the store;
  \<open>Store_Invariant\<close> has one step per operation; the statements refuse what PostgreSQL's constraints refuse, so \<open>db_ok\<close> holds of every reachable database.
  Cluster (\<open>k8s.go\<close>, \<open>tenant.go\<close>, \<open>builder.go\<close>): \<open>Kube\<close> (the client), \<open>Kube_Apply\<close> (create-or-replace, and the contract of an API server: what it answers to a
  POST, PUT or GET of a request it is ready for and admits, what it keeps of a stored object while it adds fields of its own, which collections need a namespace),
  \<open>Tenant\<close> (bootstrap, and the traffic its network policies allow), \<open>Manifests\<close>, \<open>Builder\<close> (worker), \<open>Builder_Props\<close>, \<open>Builder_Safety\<close>, \<open>Reconciler\<close>
  (\<open>build_reconciler.go\<close>).
  GitHub and sign-in: \<open>Github\<close> (\<open>github.go\<close>), \<open>Webhook\<close> (\<open>main.go\<close>, \<open>preview_webhook.go\<close>), \<open>Auth\<close> (\<open>auth.go\<close>).
  API: \<open>Api\<close>, \<open>Api_Projects\<close>, \<open>Api_Domains\<close>, \<open>Api_Databases\<close> (the handler files), \<open>Api_Routes\<close> (the dispatch behind \<open>requireUser\<close> for the routes on
  one project or deployment that change state), \<open>Api_Props\<close>, \<open>Api_Scope\<close>, \<open>Api_Behaviour\<close> (invariants, scope and single routes), \<open>Api_Read\<close> (the
  reading routes and the whole table), \<open>Server\<close> (the patterns \<open>main\<close> registers, the choice of \<open>http.ServeMux\<close>, and requests from their path
  on), \<open>Tenant_View\<close> (what the database holds about one user, and the locale of queries that depend on it only).
  Edge: \<open>Edge\<close> (\<open>hosts.go\<close>, \<open>host_router.go\<close>, \<open>ratelimit.go\<close>, \<open>waitlist_handlers.go\<close>), \<open>Pages\<close> (the HTML pages; their files are parameters).
  Composition: \<open>Http\<close> (the handler \<open>main\<close> installs: request logging, host routing, the multiplexer and every handler, on one state), \<open>Control_Plane\<close>
  (the running process: requests, the ticks of the five background loops, restarts and kills as one step relation).
  Telemetry: \<open>Telemetry\<close>, \<open>Traffic_Series\<close>, \<open>Project_Series\<close>, \<open>Series_Props\<close>, \<open>Telemetry_Api\<close> (the files of the same names, the uptime tracker and the
  synthetic monitor).
  Reports: \<open>Insights\<close> (\<open>insights_handler.go\<close>), \<open>Insights_Props\<close>, \<open>Seo_Patch\<close> (\<open>insights_pr.go\<close>), \<open>Suggest_Pr\<close> (\<open>github_pr.go\<close>,
  \<open>insights_pr_handler.go\<close>), \<open>Seo_Props\<close>, \<open>Seo_Safety\<close>.
  Console, logs, views: \<open>Query_Console\<close> (\<open>query_handler.go\<close>), \<open>Log_Streams\<close>, \<open>Log_Props\<close> and \<open>Sse\<close>
  (\<open>logs.go\<close>, \<open>runtime_logs.go\<close>; the events, and the bytes they are sent as), \<open>Dashboard\<close> and
  \<open>Dashboard_Props\<close> (\<open>dashboard.go\<close>, \<open>store_activity.go\<close>, \<open>home_handlers.go\<close>, \<open>version_handler.go\<close>).
  Start and tools: \<open>Migrate\<close> (\<open>migrate.go\<close>), \<open>Startup\<close> (\<open>main\<close> up to the server, \<open>connectDB\<close>, credentials), \<open>Setup_Tools\<close>, \<open>Self_Rebuild\<close>
  (\<open>self_rebuild.go\<close>).

  What is proved.
  Store: the project cap is respected by \<open>AddRepos\<close>; the claim is first in, first out; a row that is
  ready or failed stays so under any interleaving of worker and reconciler.
  The whole server: in every state it can reach, across restarts and kills, the constraints of the schema and the bounds of the histories in memory hold; a
  webhook is processed at most once; a request without a session changes nothing but by a signed webhook, an accepted sign-in, a sign-out or the waitlist.
  Webhooks: only signed deliveries change anything, and a push queues exactly one build of its commit.
  Builds: a failed build touches neither tables nor tenants, a namespace is isolated before a workload is created, every tick settles the claimed
  row, the wait for a Job returns; on an API server that meets its contract and is ready for the objects in their order, the bootstrap of a tenant and a promotion
  leave every object as the code intends it.
  Sign-in: a session identifies the account that signed in, for its life-time and until the sign-out; a domain is accepted only with its TXT record.
  Isolation: a user's request never reaches another user's project, on any path, method or order of the handler table; what a user is shown, at every endpoint that shows
  something, depends on that user's rows only, as noninterference of two databases; cluster requests of a route stay in the
  project's namespace; network policies admit no traffic between tenants; an SEO pull request writes to the bot's own branch only.
  Algorithms: create-or-replace establishes the object, the rate limiter equals its specification, percentiles are ordered, the SEO score is a
  percentage in rounded arithmetic, the activity feed equals the cut of the whole history, migrations can be restarted, base64 and the signed
  OAuth state round-trip, an undisturbed event stream reads back.
  Behaviour that differs from what comments promise is stated as theorems as well (underflowing percentiles, traffic attributed by substring,
  the panic of the patcher, events torn by heartbeats, a delivery lost when the process
  stops, apps not counted as live, a migration below the highest one).

  Fuel and bounds.  Loops with fuel (\<open>waitForJob\<close>, the polls of the self-rebuilder, the log streams, \<open>connectDB\<close>) return a value of their own when
  it runs out; the theorems \<open>waitForJob_returns\<close>, \<open>connectDB_returns\<close> and \<open>log_streams_stop\<close> say how much is enough: one more iteration than the
  clock needs to pass the deadline, or than the client stays.  A followed log is read step by step and may have nothing for ever: what ends the loop is the context
  of the request (\<open>silent_pod_waits\<close> shows the loop without it).  The matcher of \<open>Go_Regexp\<close> needs none.

  Assumptions built into the definitions.  Strings are bytes; case folding and white space are those of ASCII; \<open>regexp\<close> works on bytes.  Columns of type uuid hold
  canonical text, and the id of a path is cast to it (\<open>uuid_in\<close>, PostgreSQL's reading of a uuid; the handlers answer 500 when it fails).  Statements do not fail for reasons of the connection, and each transaction is one step; rows with equal sort keys are listed in
  table order, and \<open>ORDER BY\<close> on text is byte order.  One reading of the clock per loop iteration.  JSON documents hold each key once and whole
  numbers.  Telemetry counters are exact rationals, but the SEO score is rounded as \<open>float64\<close> does.  A tick of a background loop and a request are one step each (how their store
  operations interleave is the subject of \<open>Queue\<close> and \<open>Store_Invariant\<close>); when the next tick is due is left open; the
  parallel scale requests run in list order.  HMAC, RSA, base64 of the standard library, PEM, URL and mail parsing, the clock, random bytes and
  the two remote APIs are parameters; \<open>gx_jwt\<close> of \<open>Github\<close> stands for \<open>signAppJWT\<close> of \<open>Startup\<close>.

  Not modelled.  The text of the HTML pages and static assets, the time-outs of the HTTP server, signals and graceful shutdown, the
  structured log, the aggregates of the statistics query of the home summary (PostgreSQL rejects it; its rows are \<open>stats_rows\<close>), the shell script that builds in the container, flag
  parsing and terminal output of the tools: input and output without logic of the program, or code of other languages.
\<close>

end
